(* ===== verification/Prelude.thy ===== *)
theory Prelude
  imports Main "HOL-Library.Word"
begin

text \<open>Shared vocabulary of the development: the machine integers of the Linux build
  (unsigned 8, 16 and 32 bit words, a little-endian host), the byte-order conversions of the
  C library (htonl, htons and their inverses), the image of an integer in a byte buffer as
  memcpy and casts through pointers see it, fixed-size C strings, and the lemmas on lists and
  buffers that the component theories share.\<close>

unbundle bit_operations_syntax

named_theorems wire_simps \<open>reading back what was written into a byte buffer\<close>
named_theorems len_simps \<open>lengths of encoded fields and messages\<close>

type_synonym u8 = "8 word"
type_synonym u16 = "16 word"
type_synonym u32 = "32 word"
type_synonym bytes = "8 word list"
type_synonym u64 = "64 word"

subsection \<open>Little-endian memory images\<close>

definition u16_mem :: "u16 \<Rightarrow> bytes" where
  "u16_mem w = [ucast w, ucast (drop_bit 8 w)]"

definition u32_mem :: "u32 \<Rightarrow> bytes" where
  "u32_mem w = [ucast w, ucast (drop_bit 8 w), ucast (drop_bit 16 w), ucast (drop_bit 24 w)]"

fun mem_u16 :: "bytes \<Rightarrow> u16" where
  "mem_u16 (a # b # _) = ucast a OR push_bit 8 (ucast b)"
| "mem_u16 _ = 0"

fun mem_u32 :: "bytes \<Rightarrow> u32" where
  "mem_u32 (a # b # c # d # _) =
     ucast a OR push_bit 8 (ucast b) OR push_bit 16 (ucast c) OR push_bit 24 (ucast d)"
| "mem_u32 _ = 0"

lemma length_u16_mem [simp, len_simps]: "length (u16_mem w) = 2"
  by (simp add: u16_mem_def)

lemma length_u32_mem [simp, len_simps]: "length (u32_mem w) = 4"
  by (simp add: u32_mem_def)

lemma mem_u16_mem [simp, wire_simps]: "mem_u16 (u16_mem w @ xs) = w"
  by (rule bit_word_eqI) (auto simp: u16_mem_def bit_simps)

lemma u32_join:
  "ucast (ucast w :: u8) OR push_bit 8 (ucast (ucast (drop_bit 8 w) :: u8)) OR
   push_bit 16 (ucast (ucast (drop_bit 16 w) :: u8)) OR
   push_bit 24 (ucast (ucast (drop_bit 24 w) :: u8)) = (w :: u32)"
proof (rule bit_word_eqI)
  fix n assume "n < LENGTH(32)"
  then consider "n < 8" | "8 \<le> n" "n < 16" | "16 \<le> n" "n < 24" | "24 \<le> n" "n < 32"
    by fastforce
  then show "bit (ucast (ucast w :: u8) OR push_bit 8 (ucast (ucast (drop_bit 8 w) :: u8)) OR
     push_bit 16 (ucast (ucast (drop_bit 16 w) :: u8)) OR
     push_bit 24 (ucast (ucast (drop_bit 24 w) :: u8)) :: u32) n = bit w n"
    by cases (auto simp: bit_simps)
qed

lemma u32_byte0: "ucast (ucast a OR push_bit 8 (ucast b) OR push_bit 16 (ucast c) OR
    push_bit 24 (ucast d) :: u32) = (a :: u8)"
  by (rule bit_word_eqI) (auto simp: bit_simps)

lemma u32_byte1: "ucast (drop_bit 8 (ucast (a :: u8) OR push_bit 8 (ucast b) OR
    push_bit 16 (ucast (c :: u8)) OR push_bit 24 (ucast (d :: u8)) :: u32)) = (b :: u8)"
  by (rule bit_word_eqI) (auto simp: bit_simps dest: bit_imp_le_length)

lemma u32_byte2: "ucast (drop_bit 16 (ucast (a :: u8) OR push_bit 8 (ucast (b :: u8)) OR
    push_bit 16 (ucast c) OR push_bit 24 (ucast (d :: u8)) :: u32)) = (c :: u8)"
  by (rule bit_word_eqI) (auto simp: bit_simps dest: bit_imp_le_length)

lemma u32_byte3: "ucast (drop_bit 24 (ucast (a :: u8) OR push_bit 8 (ucast (b :: u8)) OR
    push_bit 16 (ucast (c :: u8)) OR push_bit 24 (ucast d) :: u32)) = (d :: u8)"
  by (rule bit_word_eqI) (auto simp: bit_simps dest: bit_imp_le_length)

lemmas u32_bytes = u32_byte0 u32_byte1 u32_byte2 u32_byte3

lemma mem_u32_mem [simp, wire_simps]: "mem_u32 (u32_mem w @ xs) = w"
  by (simp add: u32_mem_def u32_join)

lemma mem_u32_append [wire_simps]: "4 \<le> length a \<Longrightarrow> mem_u32 (a @ b) = mem_u32 a"
  by (cases a rule: mem_u32.cases) auto

lemma u32_mem_of_mem:
  assumes "length xs = 4"
  shows "u32_mem (mem_u32 xs) = xs"
proof -
  obtain a b c d where "xs = [a, b, c, d]"
    using assms by (auto simp: numeral_eq_Suc length_Suc_conv)
  then show ?thesis
    by (simp only: u32_mem_def mem_u32.simps u32_bytes)
qed

subsection \<open>Byte order: a little-endian host\<close>

definition htons :: "u16 \<Rightarrow> u16" where
  "htons w = mem_u16 (rev (u16_mem w))"

definition htonl :: "u32 \<Rightarrow> u32" where
  "htonl w = mem_u32 (rev (u32_mem w))"

definition ntohs :: "u16 \<Rightarrow> u16" where "ntohs w = htons w"

definition ntohl :: "u32 \<Rightarrow> u32" where "ntohl w = htonl w"

lemma htons_htons [simp, wire_simps]: "htons (htons w) = w"
  by (rule bit_word_eqI) (auto simp: htons_def u16_mem_def bit_simps)

lemma htonl_htonl [simp, wire_simps]: "htonl (htonl w) = w"
  by (simp only: htonl_def u32_mem_def rev.simps append.simps mem_u32.simps u32_bytes u32_join)

lemma ntohs_htons [simp, wire_simps]: "ntohs (htons w) = w" by (simp add: ntohs_def)
lemma htons_ntohs [simp, wire_simps]: "htons (ntohs w) = w" by (simp add: ntohs_def)
lemma ntohl_htonl [simp, wire_simps]: "ntohl (htonl w) = w" by (simp add: ntohl_def)
lemma htonl_ntohl [simp, wire_simps]: "htonl (ntohl w) = w" by (simp add: ntohl_def)

lemma htons_inj [simp]: "htons a = htons b \<longleftrightarrow> a = b"
  by (metis htons_htons)

lemma htonl_inj [simp]: "htonl a = htonl b \<longleftrightarrow> a = b"
  by (metis htonl_htonl)

end
