(* ===== verification/Proto.thy ===== *)
theory Proto
  imports Prelude
begin

text \<open>src/common/ITG.cpp: the meter and protocol name tables with their searches, the ICMP
  checksum, and the re-entrant tokenizer that the Windows build supplies.  A C string is the
  list of its characters before the terminating NUL; a null pointer is None.\<close>

subsection \<open>Names of meters and protocols\<close>

definition LX_ERROR_BYTE :: u8 where "LX_ERROR_BYTE = 255"

definition meters :: "string list" where
  "meters = ['''', ''OWDM'', ''RTTM'', '' '']"

definition l4Protocols :: "string list" where
  "l4Protocols = ['''', ''TCP'', ''UDP'', ''ICMP'', ''SCTP'', ''DCCP'', '' '']"

definition l7Protocols :: "string list" where
  "l7Protocols = ['''', ''Telnet'', ''VoIP'', ''DNS'', ''AoM'', ''CSa'', ''CSi'', ''Quake3'', '' '']"

definition to_lower :: "char \<Rightarrow> char" where
  "to_lower c = (let n = (of_char c :: nat) in
     if 65 \<le> n \<and> n \<le> 90 then char_of (n + 32) else c)"

definition strcaseeq :: "string \<Rightarrow> string \<Rightarrow> bool" where
  "strcaseeq s t \<longleftrightarrow> map to_lower s = map to_lower t"

text \<open>The while loop of the three searches: the index starts at 1 and the sentinel is the
  one-blank string.\<close>

fun find_from :: "string list \<Rightarrow> nat \<Rightarrow> string \<Rightarrow> u8" where
  "find_from [] i s = LX_ERROR_BYTE"
| "find_from (t # ts) i s =
     (if t = '' '' then LX_ERROR_BYTE
      else if strcaseeq s t then of_nat i
      else find_from ts (Suc i) s)"

definition findMeter :: "string \<Rightarrow> u8" where
  "findMeter s = find_from (drop 1 meters) 1 s"

definition findL4Proto :: "string \<Rightarrow> u8" where
  "findL4Proto s = find_from (drop 1 l4Protocols) 1 s"

definition findL7Proto :: "string \<Rightarrow> u8" where
  "findL7Proto s = find_from (drop 1 l7Protocols) 1 s"

text \<open>Reading past the end of a table is None.\<close>

definition tab_get :: "string list \<Rightarrow> u8 \<Rightarrow> string option" where
  "tab_get tab i = (if unat i < length tab then Some (tab ! unat i) else None)"

definition invFindMeter :: "u8 \<Rightarrow> string option" where
  "invFindMeter m = tab_get meters m"

definition invFindL4Proto :: "u8 \<Rightarrow> string option" where
  "invFindL4Proto p = tab_get l4Protocols p"

definition invFindL7Proto :: "u8 \<Rightarrow> string option" where
  "invFindL7Proto p = tab_get l7Protocols p"

lemma find_from_found:
  assumes "find_from ts i s \<noteq> LX_ERROR_BYTE"
  shows "\<exists>k < length ts. find_from ts i s = of_nat (i + k) \<and> strcaseeq s (ts ! k)"
  using assms
proof (induction ts i s rule: find_from.induct)
  case (2 t ts i s)
  show ?case
  proof (cases "t = '' '' \<or> strcaseeq s t")
    case True
    with 2 show ?thesis by (auto intro!: exI[of _ 0] split: if_splits)
  next
    case False
    with 2 obtain k where "k < length ts" "find_from ts (Suc i) s = of_nat (Suc i + k)"
      "strcaseeq s (ts ! k)" by auto
    with False show ?thesis by (auto intro!: exI[of _ "Suc k"])
  qed
qed simp

lemma find_from_unfound:
  assumes "find_from ts i s = LX_ERROR_BYTE" "i + length ts < 255" "k < length ts"
    and "\<forall>j \<le> k. ts ! j \<noteq> '' ''"
  shows "\<not> strcaseeq s (ts ! k)"
  using assms
proof (induction ts i s arbitrary: k rule: find_from.induct)
  case (2 t ts i s)
  have t: "t \<noteq> '' ''" using 2(5) by force
  have "\<not> strcaseeq s t"
  proof
    assume "strcaseeq s t"
    then have "(of_nat i :: u8) = 255" using 2(2) t by (simp add: LX_ERROR_BYTE_def)
    then have "unat (of_nat i :: u8) = unat (255 :: u8)" by (rule arg_cong)
    moreover have "unat (of_nat i :: u8) = i" using 2(3) by (simp add: unat_of_nat)
    ultimately show False using 2(3) by simp
  qed
  moreover have "\<not> strcaseeq s (ts ! k')" if k: "k = Suc k'" for k'
  proof (rule 2(1))
    show "t \<noteq> '' ''" by (rule t)
    show "\<not> strcaseeq s t" by fact
    show "find_from ts (Suc i) s = LX_ERROR_BYTE" using 2(2) t \<open>\<not> strcaseeq s t\<close> by simp
    show "Suc i + length ts < 255" "k' < length ts" using 2(3,4) k by auto
    show "\<forall>j \<le> k'. ts ! j \<noteq> '' ''"
    proof (intro allI impI)
      fix j assume "j \<le> k'"
      then show "ts ! j \<noteq> '' ''" using 2(5) k by (auto dest!: spec[of _ "Suc j"])
    qed
  qed
  ultimately show ?case by (cases k) auto
qed simp

subsection \<open>The ICMP checksum\<close>

text \<open>The buffer is read as little-endian unsigned shorts.  UCHAR is a signed char in the Unix
  build, so the byte left over by an odd size is sign-extended into the unsigned long.\<close>

fun cksum_loop :: "bytes \<Rightarrow> 64 word \<Rightarrow> 64 word" where
  "cksum_loop (a # b # rest) acc = cksum_loop rest (acc + ucast (mem_u16 [a, b]))"
| "cksum_loop [a] acc = acc + scast a"
| "cksum_loop [] acc = acc"

definition checksum :: "bytes \<Rightarrow> u16" where
  "checksum buffer =
     (let cksum = cksum_loop buffer 0;
          cksum = drop_bit 16 cksum + (cksum AND 0xffff);
          cksum = cksum + drop_bit 16 cksum
      in ucast (NOT cksum))"

text \<open>The one's complement sum of the 16-bit words of an even-sized buffer.\<close>

fun word_sum :: "bytes \<Rightarrow> nat" where
  "word_sum (a # b # rest) = unat (mem_u16 [a, b]) + word_sum rest"
| "word_sum _ = 0"

lemma word_sum_bound: "word_sum buf \<le> 65535 * (length buf div 2)"
proof (induction buf rule: word_sum.induct)
  case (1 a b rest)
  have "unat (mem_u16 [a, b]) < 2 ^ 16" using unsigned_less[of "mem_u16 [a, b]"] by simp
  with 1 show ?case by simp
qed simp_all

lemma cksum_loop_sum:
  assumes "even (length buf)" "unat acc + word_sum buf < 2 ^ 64"
  shows "unat (cksum_loop buf acc) = unat acc + word_sum buf"
  using assms
proof (induction buf acc rule: cksum_loop.induct)
  case (1 a b rest acc)
  have small: "unat (mem_u16 [a, b]) < 2 ^ 16"
    using unsigned_less[of "mem_u16 [a, b]"] by simp
  have u: "unat (ucast (mem_u16 [a, b]) :: 64 word) = unat (mem_u16 [a, b])"
    using small by (simp add: unsigned_ucast_eq take_bit_nat_eq_self)
  have "unat (acc + ucast (mem_u16 [a, b])) = unat acc + unat (mem_u16 [a, b])"
    using 1(3) u by (subst unat_add_lem[THEN iffD1]) simp_all
  with 1 show ?case by simp
qed simp_all

text \<open>The two folds on natural numbers.\<close>

definition fold16 :: "nat \<Rightarrow> nat" where
  "fold16 s = (let t = s div 65536 + s mod 65536; u = t + t div 65536 in u mod 65536)"

lemma fold16_pos:
  assumes "0 < s" "s < 2 ^ 32"
  shows "0 < fold16 s \<and> fold16 s \<le> 65535 \<and> fold16 s mod 65535 = s mod 65535"
proof -
  define q r where "q = s div 65536" and "r = s mod 65536"
  have s: "s = 65536 * q + r" and r: "r < 65536" and q: "q < 65536"
    using assms(2) by (simp_all add: q_def r_def)
  have mods: "s mod 65535 = (q + r) mod 65535"
  proof -
    have "s = (q + r) + 65535 * q" using s by simp
    then show ?thesis by (metis mod_mult_self2)
  qed
  show ?thesis
  proof (cases "q + r < 65536")
    case True
    then have "fold16 s = q + r"
      by (simp add: fold16_def Let_def flip: q_def r_def)
    then show ?thesis using True mods s assms(1) by (cases "q + r = 0") auto
  next
    case False
    then have d: "(q + r) div 65536 = 1" using q r by (simp add: div_nat_eqI)
    have "(q + r) + 1 < 2 * 65536" using q r by simp
    then have f: "fold16 s = q + r + 1 - 65536"
      using False d by (simp add: fold16_def Let_def le_mod_geq flip: q_def r_def)
    have "fold16 s = q + r - 65535" using f by simp
    then have "fold16 s mod 65535 = (q + r) mod 65535" using False by (simp add: le_mod_geq)
    then show ?thesis using False f mods q r by auto
  qed
qed

lemma checksum_fold16:
  assumes "even (length buf)" "length buf \<le> 131072"
  shows "unat (checksum buf) = 65535 - fold16 (word_sum buf)"
proof -
  have "word_sum buf \<le> 65535 * 65536"
    using word_sum_bound[of buf] assms(2) by linarith
  then have b: "word_sum buf < 2 ^ 32" by simp
  define c :: "64 word" where "c = cksum_loop buf 0"
  have c: "unat c = word_sum buf"
    using cksum_loop_sum[of buf 0] assms(1) b by (simp add: c_def)
  have d: "unat (drop_bit 16 c) = word_sum buf div 65536"
    by (subst unat_drop_bit_eq) (simp add: c drop_bit_eq_div)
  have tb16: "c AND 0xffff = take_bit 16 c"
    by (simp add: take_bit_eq_mask mask_eq_exp_minus_1)
  have m: "unat (c AND 0xffff) = word_sum buf mod 65536"
    unfolding tb16 by (subst unsigned_take_bit_eq) (simp add: take_bit_eq_mod c)
  define t where "t = drop_bit 16 c + (c AND 0xffff)"
  have t: "unat t = word_sum buf div 65536 + word_sum buf mod 65536"
    unfolding t_def using d m b by (subst unat_add_lem[THEN iffD1]) auto
  have dt: "unat (drop_bit 16 t) = unat t div 65536"
    by (subst unat_drop_bit_eq) (simp add: drop_bit_eq_div)
  have tb: "unat t < 2 ^ 17" using t b by simp
  have u: "unat (t + drop_bit 16 t) = unat t + unat t div 65536"
    using dt tb by (subst unat_add_lem[THEN iffD1]) auto
  have n: "unat (NOT x) = 65535 - unat x" for x :: u16
  proof -
    have "NOT x = -1 - x" by (simp add: not_eq_complement)
    moreover have "unat (-1 :: u16) = 65535" by (simp add: unsigned_minus_1_eq_mask mask_eq_exp_minus_1)
    moreover have "unat (-1 - x) = unat (-1 :: u16) - unat x"
      by (rule unat_sub) simp
    ultimately show ?thesis by simp
  qed
  have "checksum buf = NOT (ucast (t + drop_bit 16 t))"
    by (rule bit_word_eqI) (simp add: checksum_def Let_def t_def c_def bit_simps)
  moreover have "unat (ucast (t + drop_bit 16 t) :: u16) = fold16 (word_sum buf)"
    by (simp only: unsigned_ucast_eq u take_bit_eq_mod t fold16_def Let_def) simp
  ultimately show ?thesis by (simp add: n)
qed

lemma word_sum_append: "even (length xs) \<Longrightarrow> word_sum (xs @ ys) = word_sum xs + word_sum ys"
  by (induction xs rule: word_sum.induct) simp_all

lemma word_sum_u16 [simp]: "word_sum (u16_mem w) = unat w"
proof -
  obtain a b where ab: "u16_mem w = [a, b]" by (simp add: u16_mem_def)
  have "mem_u16 [a, b] = w" using mem_u16_mem[of w "[]"] ab by simp
  then show ?thesis by (simp only: ab word_sum.simps add_0_right)
qed

text \<open>The checksum of a packet that carries its own checksum is zero: the test a receiver of
  the echo request applies.\<close>

lemma checksum_zero_of_sum:
  assumes "even (length buf)" "length buf \<le> 131072" "0 < word_sum buf"
    and "word_sum buf mod 65535 = 0"
  shows "checksum buf = 0"
proof -
  have "word_sum buf \<le> 65535 * 65536"
    using word_sum_bound[of buf] assms(2) by linarith
  then have "word_sum buf < 2 ^ 32" by simp
  from fold16_pos[OF assms(3) this] have "0 < fold16 (word_sum buf)"
    "fold16 (word_sum buf) \<le> 65535" "fold16 (word_sum buf) mod 65535 = 0"
    using assms(4) by auto
  then have "fold16 (word_sum buf) = 65535"
    by (metis dvd_imp_le le_antisym mod_0_imp_dvd)
  then have "unat (checksum buf) = 0"
    using checksum_fold16[OF assms(1,2)] by simp
  then show ?thesis by (simp add: unat_eq_zero)
qed

text \<open>A packet of even size into whose zeroed checksum field the computed checksum is
  stored (as flowSender does for ICMP) sums to zero when the receiver checks it.\<close>

lemma checksum_verifies:
  assumes "even (length pre)" "even (length post)" "length pre + length post \<le> 131070"
  shows "checksum (pre @ u16_mem (checksum (pre @ [0, 0] @ post)) @ post) = 0"
proof -
  define s where "s = word_sum pre + word_sum post"
  have z: "word_sum [0, 0] = 0"
    using word_sum_u16[of 0] by (simp add: u16_mem_def)
  have s0: "word_sum (pre @ [0, 0] @ post) = s"
    using assms z by (simp add: word_sum_append[of _ "0 # _"] word_sum_append[of "[0,0]", simplified] s_def)
  have ck: "unat (checksum (pre @ [0, 0] @ post)) = 65535 - fold16 s"
    using checksum_fold16[of "pre @ [0, 0] @ post"] assms s0 by simp
  let ?b = "pre @ u16_mem (checksum (pre @ [0, 0] @ post)) @ post"
  have sum: "word_sum ?b = s + (65535 - fold16 s)"
    using assms ck by (simp add: word_sum_append s_def)
  have "s \<le> 65535 * 65535"
    using word_sum_bound[of pre] word_sum_bound[of post] assms unfolding s_def by linarith
  then have sb: "s < 2 ^ 32" by simp
  have "0 < word_sum ?b \<and> word_sum ?b mod 65535 = 0"
  proof (cases "s = 0")
    case True
    then show ?thesis using sum by (simp add: fold16_def)
  next
    case False
    then have f: "fold16 s \<le> 65535" "fold16 s mod 65535 = s mod 65535"
      using fold16_pos[of s] sb by auto
    have "(s + (65535 - fold16 s)) mod 65535 = (fold16 s + (65535 - fold16 s)) mod 65535"
      using f(2) by (metis mod_add_left_eq)
    then show ?thesis using f False sum by simp
  qed
  then show ?thesis
    using assms by (intro checksum_zero_of_sum) auto
qed

lemma checksum_verifies_example:
  "checksum ([8, 0] @ u16_mem (checksum ([8, 0] @ [0, 0] @ [1, 2, 3, 4])) @ [1, 2, 3, 4]) = 0"
  by (rule checksum_verifies) simp_all

end
