(* ===== verification/Strtok.thy ===== *)
theory Strtok
  imports Prelude
begin

text \<open>The tokenizer of src/common/ITG.cpp (strtok_r, supplied for Windows) and its use by
  the sender: argvToString joins the command line with carets and flowParser splits the line
  again.  A pointer into the line is the rest of the string from there; NULL is None.\<close>

subsection \<open>strtok_r\<close>

text \<open>The first loop skips delimiters: Some the rest from the first other character, or None
  when the string ends before one is found.\<close>

fun skip_delims :: "string \<Rightarrow> string \<Rightarrow> string option" where
  "skip_delims delim [] = None"
| "skip_delims delim (c # cs) =
     (if c \<in> set delim then skip_delims delim cs else Some (c # cs))"

text \<open>The second loop runs to the next delimiter, which is overwritten with NUL: the token and
  the position after it, if a delimiter was found.\<close>

fun scan_token :: "string \<Rightarrow> string \<Rightarrow> string \<times> string option" where
  "scan_token delim [] = ([], None)"
| "scan_token delim (c # cs) =
     (if c \<in> set delim then ([], Some cs)
      else (case scan_token delim cs of (tok, rest) \<Rightarrow> (c # tok, rest)))"

definition strtok_r :: "string option \<Rightarrow> string \<Rightarrow> string option \<Rightarrow> string option \<times> string option" where
  "strtok_r str delim saveptr =
     (case (case str of None \<Rightarrow> saveptr | Some s \<Rightarrow> Some s) of
        None \<Rightarrow> (None, saveptr)
      | Some s \<Rightarrow>
          if s = [] then (None, None)
          else if delim = [] then (Some s, saveptr)
          else (case skip_delims delim s of
                  None \<Rightarrow> (None, None)
                | Some s' \<Rightarrow> (case scan_token delim s' of (tok, rest) \<Rightarrow> (Some tok, rest))))"

lemma skip_delims_None: "skip_delims d s = None \<longleftrightarrow> set s \<subseteq> set d"
  by (induction s) auto

lemma skip_delims_dropWhile:
  "skip_delims d s = (case dropWhile (\<lambda>c. c \<in> set d) s of [] \<Rightarrow> None | c # cs \<Rightarrow> Some (c # cs))"
  by (induction s) auto

lemma skip_delims_length: "skip_delims d s = Some s' \<Longrightarrow> length s' \<le> length s \<and> s' \<noteq> []"
  by (induction s) (auto split: if_splits)

lemma scan_token_split:
  "scan_token d s = (takeWhile (\<lambda>c. c \<notin> set d) s,
     (case dropWhile (\<lambda>c. c \<notin> set d) s of [] \<Rightarrow> None | _ # cs \<Rightarrow> Some cs))"
  by (induction s) auto

lemma scan_token_length: "scan_token d s = (tok, Some r) \<Longrightarrow> length r < length s"
  by (induction s arbitrary: tok) (auto split: if_splits prod.splits)

definition save_size :: "string option \<Rightarrow> nat" where
  "save_size save = (case save of None \<Rightarrow> 0 | Some r \<Rightarrow> Suc (length r))"

lemma strtok_r_progress:
  assumes "strtok_r None [c] save = (Some tok, save')"
  shows "save_size save' < save_size save"
proof -
  from assms obtain s s' where s: "save = Some s" "skip_delims [c] s = Some s'"
    "scan_token [c] s' = (tok, save')"
    by (auto simp: strtok_r_def split: option.splits if_splits prod.splits)
  then have "length s' \<le> length s" by (auto dest: skip_delims_length)
  with s show ?thesis
    by (cases save') (auto simp: save_size_def dest: scan_token_length)
qed

subsection \<open>Splitting a line\<close>

text \<open>The loop of flowParser: the token of the previous call is stored and strtok_r is called
  on NULL until it returns NULL.\<close>

function token_loop :: "char \<Rightarrow> string option \<times> string option \<Rightarrow> string list" where
  "token_loop c (None, save) = []"
| "token_loop c (Some tok, save) = tok # token_loop c (strtok_r None [c] save)"
  by pat_completeness auto
termination
proof (relation "measure (\<lambda>(c, t, s). case t of None \<Rightarrow> 0 | Some _ \<Rightarrow> Suc (save_size s))")
  fix c :: char and tok :: string and save
  show "((c, strtok_r None [c] save), c, Some tok, save)
    \<in> measure (\<lambda>(c, t, s). case t of None \<Rightarrow> 0 | Some _ \<Rightarrow> Suc (save_size s))"
    by (cases "strtok_r None [c] save") (auto dest: strtok_r_progress split: option.splits)
qed simp

definition split_line :: "bool \<Rightarrow> string \<Rightarrow> string list" where
  "split_line cmdMode line =
     (let c = (if cmdMode then CHR ''^'' else CHR '' '')
      in token_loop c (strtok_r (Some line) [c] None))"

text \<open>The reference: the maximal non-empty runs of characters other than the delimiter.\<close>

fun runs :: "char \<Rightarrow> string \<Rightarrow> string list" where
  "runs c [] = [[]]"
| "runs c (x # xs) =
     (if x = c then [] # runs c xs
      else (case runs c xs of [] \<Rightarrow> [[x]] | r # rs \<Rightarrow> (x # r) # rs))"

definition fields :: "char \<Rightarrow> string \<Rightarrow> string list" where
  "fields c s = filter (\<lambda>r. r \<noteq> []) (runs c s)"

lemma runs_not_Nil [simp]: "runs c s \<noteq> []"
  by (induction s) (auto split: list.splits)

lemma fields_Nil [simp]: "fields c [] = []" by (simp add: fields_def)

lemma fields_delim [simp]: "fields c (c # s) = fields c s" by (simp add: fields_def)

lemma runs_free: "c \<notin> set s \<Longrightarrow> runs c s = [s]"
  by (induction s) auto

lemma runs_append_delim: "c \<notin> set t \<Longrightarrow> runs c (t @ c # s) = t # runs c s"
  by (induction t) auto

lemma fields_append_delim: "c \<notin> set t \<Longrightarrow> t \<noteq> [] \<Longrightarrow> fields c (t @ c # s) = t # fields c s"
  by (simp add: fields_def runs_append_delim)

lemma fields_free: "c \<notin> set t \<Longrightarrow> t \<noteq> [] \<Longrightarrow> fields c t = [t]"
  by (simp add: fields_def runs_free)

lemma fields_skip:
  "fields c s = (case skip_delims [c] s of None \<Rightarrow> [] | Some s' \<Rightarrow> fields c s')"
  by (induction s) auto

lemma fields_scan:
  assumes "skip_delims [c] s = Some s'" "scan_token [c] s' = (tok, save)"
  shows "fields c s = tok # (case save of None \<Rightarrow> [] | Some r \<Rightarrow> fields c r)"
proof -
  obtain x xs where s': "s' = x # xs" "x \<noteq> c"
    using assms(1) by (induction s) (auto split: if_splits)
  have tok: "tok = takeWhile (\<lambda>y. y \<noteq> c) s'" "c \<notin> set tok" "tok \<noteq> []"
    using assms(2) s' by (auto simp: scan_token_split dest: set_takeWhileD)
  have "fields c s' = tok # (case save of None \<Rightarrow> [] | Some r \<Rightarrow> fields c r)"
  proof (cases save)
    case None
    then have "dropWhile (\<lambda>y. y \<noteq> c) s' = []"
      using assms(2) by (auto simp: scan_token_split split: list.splits)
    then have "s' = tok" using tok(1) by (metis append_Nil2 takeWhile_dropWhile_id)
    then show ?thesis using None tok by (simp add: fields_free)
  next
    case (Some r)
    then obtain y where "dropWhile (\<lambda>y. y \<noteq> c) s' = y # r"
      using assms(2) by (auto simp: scan_token_split split: list.splits)
    moreover have "y = c"
      using calculation hd_dropWhile[of "\<lambda>y. y \<noteq> c" s'] by simp
    ultimately have "s' = tok @ c # r" using tok(1) by (metis takeWhile_dropWhile_id)
    then show ?thesis using Some fields_append_delim[OF tok(2,3)] by simp
  qed
  then show ?thesis using assms(1) by (subst fields_skip) simp
qed

lemma token_loop_fields:
  "token_loop c (strtok_r None [c] save) = (case save of None \<Rightarrow> [] | Some s \<Rightarrow> fields c s)"
proof (induction "save_size save" arbitrary: save rule: less_induct)
  case less
  show ?case
  proof (cases "strtok_r None [c] save")
    case (Pair tok save')
    show ?thesis
    proof (cases tok)
      case None
      then have "save = None \<or> (\<exists>s. save = Some s \<and> (s = [] \<or> skip_delims [c] s = None))"
        using Pair by (auto simp: strtok_r_def split: option.splits if_splits prod.splits)
      moreover have "fields c s = []" if "s = [] \<or> skip_delims [c] s = None" for s
        using that by (subst fields_skip) (auto split: option.splits)
      ultimately show ?thesis using Pair None by auto
    next
      case (Some t)
      from Pair Some have *: "token_loop c (strtok_r None [c] save') =
          (case save' of None \<Rightarrow> [] | Some s \<Rightarrow> fields c s)"
        by (intro less) (auto dest: strtok_r_progress)
      from Pair Some obtain s s' where "save = Some s" "skip_delims [c] s = Some s'"
        "scan_token [c] s' = (t, save')"
        by (auto simp: strtok_r_def split: option.splits if_splits prod.splits)
      then show ?thesis using Pair Some * by (simp add: fields_scan)
    qed
  qed
qed

lemma strtok_r_first: "strtok_r (Some s) [c] any = strtok_r None [c] (Some s)"
  by (simp add: strtok_r_def)

text \<open>Splitting a line with repeated strtok_r calls yields exactly the maximal non-empty
  runs of characters that are not the delimiter, for every line.\<close>

lemma split_line_fields:
  "split_line cmdMode line = fields (if cmdMode then CHR ''^'' else CHR '' '') line"
  by (simp only: split_line_def Let_def strtok_r_first token_loop_fields option.case)

subsection \<open>argvToString\<close>

text \<open>strcat of each argument and a caret, for the first argc arguments.\<close>

fun argv_loop :: "string \<Rightarrow> string list \<Rightarrow> nat \<Rightarrow> nat \<Rightarrow> string" where
  "argv_loop line argv 0 i = line"
| "argv_loop line argv (Suc argc) i =
     argv_loop ((line @ (argv ! i)) @ ''^'') argv argc (Suc i)"

definition argvToString :: "string list \<Rightarrow> nat \<Rightarrow> string" where
  "argvToString argv argc = argv_loop ''^'' argv argc 0 @ [CHR 0x0A]"

text \<open>The head of flowParser's parsing: the newline at the end is cut off; a line without one ends
  the process (None).\<close>

definition strip_newline :: "string \<Rightarrow> string option" where
  "strip_newline line =
     (if line \<noteq> [] \<and> last line = CHR 0x0A then Some (butlast line) else None)"

lemma argv_loop_concat:
  "i + n \<le> length argv \<Longrightarrow>
   argv_loop line argv n i = line @ concat (map (\<lambda>a. a @ ''^'') (take n (drop i argv)))"
proof (induction n arbitrary: line i)
  case (Suc n)
  then have "drop i argv = (argv ! i) # drop (Suc i) argv" by (simp add: Cons_nth_drop_Suc)
  with Suc show ?case by simp
qed simp

lemma fields_concat:
  "\<forall>a \<in> set as. a \<noteq> [] \<and> c \<notin> set a \<Longrightarrow> fields c (concat (map (\<lambda>a. a @ [c]) as)) = as"
  by (induction as) (auto simp: fields_append_delim)

text \<open>In command-line mode the option parser sees the arguments the user typed: joining
  them with carets, cutting the newline and splitting again is the identity, when no argument
  is empty or has a caret.\<close>

lemma argv_roundtrip:
  assumes "\<forall>a \<in> set argv. a \<noteq> [] \<and> CHR ''^'' \<notin> set a"
  shows "map_option (split_line True) (strip_newline (argvToString argv (length argv))) = Some argv"
  using assms fields_concat[of argv "CHR ''^''"]
  by (simp add: strip_newline_def argvToString_def split_line_fields argv_loop_concat)

lemma argv_roundtrip_witness:
  "map_option (split_line True) (strip_newline (argvToString [''-a'', ''10.0.0.1'', ''-rp'', ''9501''] 4))
     = Some [''-a'', ''10.0.0.1'', ''-rp'', ''9501'']"
  using argv_roundtrip[of "[''-a'', ''10.0.0.1'', ''-rp'', ''9501'']"] by (simp add: eval_nat_numeral)

end
