(* ===== verification/Double.thy ===== *)
theory Double
  imports Prelude "HOL-Library.Log_Nat"
begin

text \<open>Double-precision arithmetic on the times of a packet.  A double is a rational number and
  every operation rounds its exact result to 53 significant bits, ties to even.  The times are
  between 0 and a few hundred thousand, so that neither overflow nor subnormal numbers occur.
  The proofs rest only on the bound of the relative error, which is the interface
  double_rounding.\<close>

definition pow2 :: "int \<Rightarrow> rat" where
  "pow2 e = (if 0 \<le> e then 2 ^ nat e else 1 / 2 ^ nat (- e))"

lemma pow2_pos [simp]: "0 < pow2 e" by (simp add: pow2_def)

definition round_even :: "rat \<Rightarrow> int" where
  "round_even x = (let f = \<lfloor>x\<rfloor>; d = x - of_int f in
     if d < 1 / 2 then f else if d > 1 / 2 then f + 1 else if even f then f else f + 1)"

lemma round_even_error: "\<bar>of_int (round_even x) - x\<bar> \<le> 1 / 2"
proof -
  have "of_int \<lfloor>x\<rfloor> \<le> x" "x < of_int \<lfloor>x\<rfloor> + 1" by linarith+
  then show ?thesis by (auto simp: round_even_def Let_def abs_le_iff)
qed

text \<open>The binary exponent: the largest e with 2^e at most x, for positive x.\<close>

definition bin_exp :: "rat \<Rightarrow> int" where
  "bin_exp x = (case quotient_of x of (n, d) \<Rightarrow>
     let e = bitlen n - bitlen d in if pow2 e \<le> x then e else e - 1)"

definition rnd_pos :: "rat \<Rightarrow> rat" where
  "rnd_pos x = (let u = pow2 (bin_exp x - 52) in of_int (round_even (x / u)) * u)"

definition rnd :: "rat \<Rightarrow> rat" where
  "rnd x = (if x = 0 then 0 else if 0 < x then rnd_pos x else - rnd_pos (- x))"

lemma pow2_add: "pow2 (a + b) = pow2 a * pow2 b"
proof -
  have p: "pow2 e = power_int 2 e" for e
    by (simp add: pow2_def power_int_def inverse_eq_divide power_one_over)
  show ?thesis by (simp add: p power_int_add)
qed

lemma bin_exp_le:
  assumes "0 < x"
  shows "pow2 (bin_exp x) \<le> x"
proof -
  obtain n d where nd: "quotient_of x = (n, d)" by (cases "quotient_of x")
  have d: "0 < d" using quotient_of_denom_pos[OF nd] .
  have x: "x = of_int n / of_int d" using quotient_of_div[OF nd] .
  have n: "0 < n" using assms x d by (simp add: zero_less_divide_iff)
  let ?e = "bitlen n - bitlen d"
  have "0 < bitlen n" "0 < bitlen d"
    using n d bitlen_nonneg[of n] bitlen_nonneg[of d] bitlen_eq_zero_iff[of n] bitlen_eq_zero_iff[of d]
    by linarith+
  then have pn: "pow2 (bitlen n - 1) = of_int (2 ^ nat (bitlen n - 1))"
    and pd: "pow2 (bitlen d) = of_int (2 ^ nat (bitlen d))" by (simp_all add: pow2_def)
  have bn: "pow2 (bitlen n - 1) \<le> of_int n"
    unfolding pn of_int_le_iff using bitlen_bounds[OF n] by simp
  have bd: "of_int d \<le> pow2 (bitlen d)"
    unfolding pd of_int_le_iff using bitlen_bounds[OF d] by simp
  have "pow2 (?e - 1) * of_int d \<le> pow2 (?e - 1) * pow2 (bitlen d)"
    using bd by (intro mult_left_mono) (simp_all add: less_imp_le)
  also have "\<dots> = pow2 (bitlen n - 1)" by (simp flip: pow2_add)
  also note bn
  finally have "pow2 (?e - 1) \<le> x" using d x by (simp add: le_divide_eq)
  then show ?thesis by (simp add: bin_exp_def nd Let_def)
qed

lemma rnd_pos_error:
  assumes "0 < x"
  shows "\<bar>rnd_pos x - x\<bar> \<le> x / 2 ^ 53"
proof -
  define u where "u = pow2 (bin_exp x - 52)"
  have u: "0 < u" by (simp add: u_def)
  have "u * 2 ^ 52 = pow2 (bin_exp x)"
    using pow2_add[of "bin_exp x - 52" 52] by (simp add: u_def pow2_def[of 52])
  then have ux: "u * 2 ^ 52 \<le> x" using bin_exp_le[OF assms] by simp
  have "rnd_pos x - x = (of_int (round_even (x / u)) - x / u) * u"
    using u by (simp add: rnd_pos_def Let_def u_def[symmetric] left_diff_distrib)
  then have "\<bar>rnd_pos x - x\<bar> = \<bar>of_int (round_even (x / u)) - x / u\<bar> * u"
    using u by (simp add: abs_mult)
  also have "\<dots> \<le> 1 / 2 * u"
    using round_even_error[of "x / u"] u by (intro mult_right_mono) simp_all
  also have "\<dots> \<le> x / 2 ^ 53" using ux by simp
  finally show ?thesis .
qed

lemma rnd_error: "\<bar>rnd x - x\<bar> \<le> \<bar>x\<bar> / 2 ^ 53"
proof (cases "x < 0")
  case True
  have "\<bar>- rnd_pos (- x) - x\<bar> = \<bar>rnd_pos (- x) - (- x)\<bar>" by linarith
  with True rnd_pos_error[of "- x"] show ?thesis by (simp add: rnd_def)
qed (use rnd_pos_error[of x] in \<open>auto simp: rnd_def\<close>)

text \<open>Integers below 2^53 are exact.\<close>

lemma pow2_mono_less: "pow2 a < pow2 b \<Longrightarrow> a < b"
proof (rule ccontr)
  assume "pow2 a < pow2 b" "\<not> a < b"
  then have "pow2 a = pow2 b * 2 ^ nat (a - b)"
    using pow2_add[of b "a - b"] by (simp add: pow2_def[of "a - b"])
  moreover have "(1 :: rat) \<le> 2 ^ nat (a - b)" by simp
  ultimately have "pow2 b \<le> pow2 a"
    using mult_left_mono[of 1 "2 ^ nat (a - b)" "pow2 b"] by (simp add: less_imp_le)
  with \<open>pow2 a < pow2 b\<close> show False by simp
qed

lemma pow2_mono: "a \<le> b \<Longrightarrow> pow2 a \<le> pow2 b"
  using pow2_mono_less[of b a] by (meson linorder_not_le)

lemma round_even_int [simp]: "round_even (of_int n) = n"
  by (simp add: round_even_def Let_def)

lemma rnd_of_int:
  assumes "0 \<le> n" "n < 2 ^ 53"
  shows "rnd (of_int n) = of_int n"
proof (cases "n = 0")
  case False
  with assms have n: "0 < n" by simp
  let ?e = "bin_exp (of_int n)"
  have "pow2 ?e \<le> of_int n" using bin_exp_le n by simp
  also have "of_int n < pow2 53"
  proof -
    have "pow2 53 = of_int (2 ^ 53)" by (simp add: pow2_def)
    then show ?thesis using assms(2) by (simp only: of_int_less_iff)
  qed
  finally have "?e < 53" by (rule pow2_mono_less)
  then have "pow2 (52 - ?e) = of_int (2 ^ nat (52 - ?e))" by (simp add: pow2_def)
  moreover have "pow2 (?e - 52) * pow2 (52 - ?e) = 1"
    by (simp add: pow2_def flip: pow2_add)
  ultimately have "of_int n / pow2 (?e - 52) = of_int (n * 2 ^ nat (52 - ?e))"
    by (simp add: divide_inverse inverse_unique)
  then have "rnd_pos (of_int n) = of_int n / pow2 (?e - 52) * pow2 (?e - 52)"
    by (simp only: rnd_pos_def Let_def round_even_int)
  moreover have "pow2 (?e - 52) \<noteq> 0" using pow2_pos[of "?e - 52"] by linarith
  ultimately show ?thesis using n by (simp add: rnd_def)
qed (simp add: rnd_def)

subsection \<open>The interface of the rounding\<close>

text \<open>Relative error and exact small integers: what the conversions of times rely on.\<close>

locale double_rounding =
  fixes fl :: "rat \<Rightarrow> rat"
  assumes error: "\<bar>fl x - x\<bar> \<le> \<bar>x\<bar> / 2 ^ 53"
    and exact_int: "0 \<le> n \<Longrightarrow> n < 2 ^ 53 \<Longrightarrow> fl (of_int n) = of_int n"
begin

lemma fl_bounds:
  assumes "0 \<le> x" "x \<le> b"
  shows "x - b / 2 ^ 53 \<le> fl x" "fl x \<le> x + b / 2 ^ 53"
proof -
  have "\<bar>fl x - x\<bar> \<le> b / 2 ^ 53"
    using assms by (intro order_trans[OF error divide_right_mono]) simp_all
  then show "x - b / 2 ^ 53 \<le> fl x" "fl x \<le> x + b / 2 ^ 53" by linarith+
qed

text \<open>A number of microseconds below one second, added to whole seconds below a minute, stays in
  its second; taking the microseconds back out loses at most one.\<close>

lemma usec_in_second:
  assumes "0 \<le> s" "s < 60" "0 \<le> u" "u < 1000000"
  defines "y \<equiv> fl (of_int s + fl (fl (of_int u) / 1000000))"
  shows "\<lfloor>y\<rfloor> = s" and "of_int s + of_int u / 1000000 - 1 / 10 ^ 14 \<le> y"
    and "y \<le> of_int s + of_int u / 1000000 + 1 / 10 ^ 14" and "u = 0 \<Longrightarrow> y = of_int s"
proof -
  define f where "f = fl (fl (of_int u) / 1000000)"
  have u: "fl (of_int u) = of_int u" using assms by (intro exact_int) simp_all
  have ub: "of_int u / 1000000 \<le> (1 :: rat)" "0 \<le> (of_int u / 1000000 :: rat)"
    using assms by simp_all
  have f: "of_int u / 1000000 - 1 / 2 ^ 53 \<le> f" "f \<le> of_int u / 1000000 + 1 / 2 ^ 53"
    using fl_bounds[OF ub(2,1)] by (simp_all add: f_def u)
  show z: "y = of_int s" if "u = 0"
    using that exact_int[of 0] exact_int[of s] assms by (simp add: y_def)
  have "f \<ge> 0"
    using f(1) exact_int[of 0] u f_def by (cases "u = 0") (use assms in \<open>auto simp: field_simps\<close>)
  moreover have s60: "of_int s \<le> (59 :: rat)" "0 \<le> (of_int s :: rat)" using assms(1,2) by simp_all
  moreover have "f \<le> 2" using f(2) ub(1) by simp
  ultimately have sf: "0 \<le> of_int s + f" "of_int s + f \<le> 61" by simp_all
  have "of_int s + f - 61 / 2 ^ 53 \<le> y" "y \<le> of_int s + f + 61 / 2 ^ 53"
    using fl_bounds[OF sf] by (simp_all add: y_def f_def)
  with f show lo: "of_int s + of_int u / 1000000 - 1 / 10 ^ 14 \<le> y"
    and hi: "y \<le> of_int s + of_int u / 1000000 + 1 / 10 ^ 14" by simp_all
  show "\<lfloor>y\<rfloor> = s"
  proof (cases "u = 0")
    case True then show ?thesis using z by simp
  next
    case False
    then have "(1 :: rat) / 1000000 \<le> of_int u / 1000000" using assms(3) by simp
    moreover have "of_int u / 1000000 \<le> (999999 :: rat) / 1000000" using assms(4) by simp
    ultimately show ?thesis using lo hi by (intro floor_unique) simp_all
  qed
qed

end

interpretation dr: double_rounding rnd
  by unfold_locales (fact rnd_error, fact rnd_of_int)

end
