(* ===== verification/Info.thy ===== *)
theory Info
  imports Double "HOL-Library.Signed_Division"
begin

text \<open>The per-packet log record struct info (src/common/ITG.h): how the receiver fills it for each
  payload kind (writeInBufferStandard, writeInBufferShort, writeInBufferNone), the conversion for
  the remote log (infosHostToNet) and the log server's inverse (infosntoh of
  src/ITGLog/channel.cpp).  Longs are integers; C's division and remainder truncate.\<close>

record info =
  flowId :: u32
  seqNum :: u32
  srcPort :: u32
  destPort :: u32
  txTime1 :: u32
  txTime2 :: u32
  rxTime1 :: u32
  rxTime2 :: u32
  size :: u32
  srcAddr :: string
  destAddr :: string
  txTime3 :: rat
  rxTime3 :: rat

text \<open>The seconds within the minute with the microseconds as their fraction, in double arithmetic.\<close>

definition sec_usec :: "int \<Rightarrow> int \<Rightarrow> rat" where
  "sec_usec t usec = rnd (of_int (t smod 60) + rnd (rnd (of_int usec) / 1000000))"

definition writeInBufferStandard ::
  "info \<Rightarrow> u32 \<Rightarrow> u32 \<Rightarrow> string \<Rightarrow> string \<Rightarrow> u16 \<Rightarrow> u16 \<Rightarrow> int \<Rightarrow> int \<Rightarrow> int \<Rightarrow> int \<Rightarrow> u32 \<Rightarrow> info" where
  "writeInBufferStandard infos FlowId ptrSeqNum SrcHost DestHost tmp_portSrc tmp_portDest
     time1 time2 txTime_Usec rxTime_Usec sz = infos\<lparr>
       flowId := ntohl FlowId,
       seqNum := ntohl ptrSeqNum,
       srcAddr := SrcHost,
       srcPort := ucast (ntohs tmp_portSrc),
       destAddr := DestHost,
       destPort := ucast (ntohs tmp_portDest),
       txTime1 := of_int (time1 sdiv 3600),
       txTime2 := of_int ((time1 smod 3600) sdiv 60),
       txTime3 := sec_usec time1 txTime_Usec,
       rxTime1 := of_int (time2 sdiv 3600),
       rxTime2 := of_int ((time2 smod 3600) sdiv 60),
       rxTime3 := sec_usec time2 rxTime_Usec,
       size := sz\<rparr>"

definition writeInBufferShort ::
  "info \<Rightarrow> u32 \<Rightarrow> u32 \<Rightarrow> string \<Rightarrow> string \<Rightarrow> u16 \<Rightarrow> u16 \<Rightarrow> int \<Rightarrow> int \<Rightarrow> u32 \<Rightarrow> info" where
  "writeInBufferShort infos FlowId ptrSeqNum SrcHost DestHost tmp_portSrc tmp_portDest
     time2 rxTime_Usec sz = infos\<lparr>
       flowId := ntohl FlowId,
       seqNum := ntohl ptrSeqNum,
       srcAddr := SrcHost,
       srcPort := ucast (ntohs tmp_portSrc),
       destAddr := DestHost,
       destPort := ucast (ntohs tmp_portDest),
       rxTime1 := of_int (time2 sdiv 3600),
       rxTime2 := of_int ((time2 smod 3600) sdiv 60),
       rxTime3 := sec_usec time2 rxTime_Usec,
       txTime1 := of_int (time2 sdiv 3600),
       txTime2 := of_int ((time2 smod 3600) sdiv 60),
       txTime3 := sec_usec time2 rxTime_Usec,
       size := sz\<rparr>"

definition writeInBufferNone ::
  "info \<Rightarrow> u32 \<Rightarrow> string \<Rightarrow> string \<Rightarrow> u16 \<Rightarrow> u16 \<Rightarrow> int \<Rightarrow> int \<Rightarrow> u32 \<Rightarrow> info" where
  "writeInBufferNone infos FlowId SrcHost DestHost tmp_portSrc tmp_portDest
     time2 rxTime_Usec sz = infos\<lparr>
       flowId := FlowId,
       seqNum := 0,
       srcAddr := SrcHost,
       srcPort := ucast (ntohs tmp_portSrc),
       destAddr := DestHost,
       destPort := ucast (ntohs tmp_portDest),
       rxTime1 := of_int (time2 sdiv 3600),
       rxTime2 := of_int ((time2 smod 3600) sdiv 60),
       rxTime3 := sec_usec time2 rxTime_Usec,
       txTime1 := of_int (time2 sdiv 3600),
       txTime2 := of_int ((time2 smod 3600) sdiv 60),
       txTime3 := sec_usec time2 rxTime_Usec,
       size := sz\<rparr>"

text \<open>Seconds and microseconds of a time kept as hours, minutes and a double of seconds.\<close>

definition net_sec :: "u32 \<Rightarrow> u32 \<Rightarrow> rat \<Rightarrow> u32" where
  "net_sec h m s = h * 3600 + m * 60 + of_int \<lfloor>s\<rfloor>"

definition net_usec :: "rat \<Rightarrow> u32" where
  "net_usec s = of_int \<lfloor>rnd (rnd (s - of_int \<lfloor>s\<rfloor>) * 1000000)\<rfloor>"

definition infosHostToNet :: "info \<Rightarrow> info" where
  "infosHostToNet infos = infos\<lparr>
     flowId := htonl (flowId infos),
     seqNum := htonl (seqNum infos),
     srcPort := htonl (srcPort infos),
     destPort := htonl (destPort infos),
     size := htonl (size infos),
     rxTime1 := htonl (net_sec (rxTime1 infos) (rxTime2 infos) (rxTime3 infos)),
     rxTime2 := htonl (net_usec (rxTime3 infos)),
     rxTime3 := 0,
     txTime1 := htonl (net_sec (txTime1 infos) (txTime2 infos) (txTime3 infos)),
     txTime2 := htonl (net_usec (txTime3 infos)),
     txTime3 := 0\<rparr>"

text \<open>One round of the loop of infosntoh, and the loop over the first dim records.\<close>

definition info_ntoh :: "info \<Rightarrow> info" where
  "info_ntoh i =
     (let txTimeSec = uint (ntohl (txTime1 i)); txTimeUsec = uint (ntohl (txTime2 i));
          rxTimeSec = uint (ntohl (rxTime1 i)); rxTimeUsec = uint (ntohl (rxTime2 i))
      in i\<lparr>
        flowId := ntohl (flowId i),
        seqNum := ntohl (seqNum i),
        srcPort := ntohl (srcPort i),
        destPort := ntohl (destPort i),
        size := ntohl (size i),
        txTime1 := of_int (txTimeSec sdiv 3600),
        txTime2 := of_int ((txTimeSec smod 3600) sdiv 60),
        txTime3 := sec_usec txTimeSec txTimeUsec,
        rxTime1 := of_int (rxTimeSec sdiv 3600),
        rxTime2 := of_int ((rxTimeSec smod 3600) sdiv 60),
        rxTime3 := sec_usec rxTimeSec rxTimeUsec\<rparr>)"

fun infosntoh :: "info list \<Rightarrow> nat \<Rightarrow> info list" where
  "infosntoh (i # is) (Suc n) = info_ntoh i # infosntoh is n"
| "infosntoh is n = is"

subsection \<open>Local and remote logs agree\<close>

lemma sdiv_nonneg: "0 \<le> a \<Longrightarrow> 0 < b \<Longrightarrow> a sdiv b = a div (b :: int)"
  by (simp add: signed_divide_int_def sgn_if)

lemma smod_nonneg: "0 \<le> a \<Longrightarrow> 0 < b \<Longrightarrow> a smod b = a mod (b :: int)"
  by (cases "a = 0") (simp_all add: signed_modulo_int_def sdiv_nonneg minus_div_mult_eq_mod)

lemma sec_usec_facts:
  assumes "0 \<le> t" "0 \<le> u" "u < 1000000"
  shows "\<lfloor>sec_usec t u\<rfloor> = t mod 60"
    and "of_int (t mod 60) + of_int u / 1000000 - 1 / 10 ^ 14 \<le> sec_usec t u"
    and "sec_usec t u \<le> of_int (t mod 60) + of_int u / 1000000 + 1 / 10 ^ 14"
    and "u = 0 \<Longrightarrow> sec_usec t u = of_int (t mod 60)"
  using dr.usec_in_second[of "t mod 60" u] assms
  by (simp_all add: sec_usec_def smod_nonneg)

text \<open>The microseconds that infosHostToNet extracts are those of the record or one less.\<close>

lemma net_usec_sec_usec:
  assumes "0 \<le> t" "0 \<le> u" "u < 1000000"
  shows "net_usec (sec_usec t u) = of_int u \<or> 0 < u \<and> net_usec (sec_usec t u) = of_int (u - 1)"
proof -
  define d where "d = sec_usec t u - of_int (t mod 60)"
  note y = sec_usec_facts[OF assms]
  have d: "of_int u / 1000000 - 1 / 10 ^ 14 \<le> d" "d \<le> of_int u / 1000000 + 1 / 10 ^ 14"
    using y by (simp_all add: d_def)
  have d0: "0 \<le> d" using y(1) by (simp add: d_def) linarith
  have d2: "d \<le> 2" using d(2) assms(3) by simp
  define e where "e = rnd d"
  have e: "d - 2 / 2 ^ 53 \<le> e" "e \<le> d + 2 / 2 ^ 53"
    using dr.fl_bounds[OF d0 d2] by (simp_all add: e_def)
  define v where "v = rnd (e * 1000000)"
  have nu: "net_usec (sec_usec t u) = of_int \<lfloor>v\<rfloor>"
    by (simp add: net_usec_def v_def e_def d_def y(1))
  show ?thesis
  proof (cases "u = 0")
    case True
    then have "d = 0" using y(4) by (simp add: d_def)
    then have "v = 0" by (simp add: v_def e_def rnd_def)
    then show ?thesis using nu True by simp
  next
    case False
    then have u1: "1 \<le> u" using assms(2) by simp
    then have "(1 :: rat) / 1000000 \<le> of_int u / 1000000" by simp
    then have e0: "0 \<le> e * 1000000" using e d by simp
    have e2: "e * 1000000 \<le> 2000000" using e(2) d(2) assms(3)
      by simp
    have "of_int u - (1 :: rat) / 1000 \<le> v" "v \<le> of_int u + 1 / 1000"
      using dr.fl_bounds[OF e0 e2] e d by (simp_all add: v_def)
    then have "\<lfloor>v\<rfloor> = u \<or> \<lfloor>v\<rfloor> = u - 1" by linarith
    then show ?thesis using nu u1 by auto
  qed
qed

lemma net_sec_sec_usec:
  assumes "0 \<le> t" "0 \<le> u" "u < 1000000"
  shows "net_sec (of_int (t sdiv 3600)) (of_int ((t smod 3600) sdiv 60)) (sec_usec t u) = of_int t"
proof -
  have "t = (t div 3600) * 3600 + ((t mod 3600) div 60) * 60 + t mod 60"
  proof -
    have "t mod 3600 = ((t mod 3600) div 60) * 60 + (t mod 3600) mod 60" by simp
    moreover have "(t mod 3600) mod 60 = t mod 60" by (simp add: mod_mod_cancel)
    moreover have "t = (t div 3600) * 3600 + t mod 3600" by simp
    ultimately show ?thesis by linarith
  qed
  then have "(of_int t :: u32) = of_int ((t div 3600) * 3600 + ((t mod 3600) div 60) * 60 + t mod 60)"
    by (rule arg_cong)
  also have "\<dots> = of_int (t div 3600) * 3600 + of_int ((t mod 3600) div 60) * 60 + of_int (t mod 60)"
    by (simp only: of_int_add of_int_mult of_int_numeral)
  also have "\<dots> = net_sec (of_int (t div 3600)) (of_int ((t mod 3600) div 60)) (sec_usec t u)"
    by (simp only: net_sec_def sec_usec_facts(1)[OF assms])
  finally show ?thesis using assms by (simp add: sdiv_nonneg smod_nonneg)
qed

lemma uint_u32_of_int: "0 \<le> t \<Longrightarrow> t < 2 ^ 32 \<Longrightarrow> uint (of_int t :: u32) = t"
  by (simp add: uint_word_of_int)

text \<open>C27: what the log server writes for a packet that the receiver logged remotely is what the
  receiver would have written into a local log for the same packet, except that each of the
  two microsecond counts may have become one smaller.\<close>

theorem remote_log_record:
  assumes "0 \<le> t1" "t1 < 2 ^ 32" "0 \<le> u1" "u1 < 1000000"
    and "0 \<le> t2" "t2 < 2 ^ 32" "0 \<le> u2" "u2 < 1000000"
  shows "\<exists>v1 v2. v1 \<in> {max 0 (u1 - 1), u1} \<and> v2 \<in> {max 0 (u2 - 1), u2} \<and>
    info_ntoh (infosHostToNet (writeInBufferStandard i fid seqn src dst sp dp t1 t2 u1 u2 sz)) =
    writeInBufferStandard i fid seqn src dst sp dp t1 t2 v1 v2 sz"
proof -
  obtain v1 where v1: "v1 \<in> {max 0 (u1 - 1), u1}" "0 \<le> v1" "v1 < 1000000"
      "net_usec (sec_usec t1 u1) = of_int v1"
    using net_usec_sec_usec[OF assms(1,3,4)] assms(3,4) by fastforce
  obtain v2 where v2: "v2 \<in> {max 0 (u2 - 1), u2}" "0 \<le> v2" "v2 < 1000000"
      "net_usec (sec_usec t2 u2) = of_int v2"
    using net_usec_sec_usec[OF assms(5,7,8)] assms(7,8) by fastforce
  note s = net_sec_sec_usec[OF assms(1,3,4)] net_sec_sec_usec[OF assms(5,7,8)]
  have t: "uint (of_int t1 :: u32) = t1" "uint (of_int t2 :: u32) = t2"
    "uint (of_int v1 :: u32) = v1" "uint (of_int v2 :: u32) = v2"
    by (rule uint_u32_of_int; use assms v1 v2 in simp)+
  have "info_ntoh (infosHostToNet (writeInBufferStandard i fid seqn src dst sp dp t1 t2 u1 u2 sz)) =
    writeInBufferStandard i fid seqn src dst sp dp t1 t2 v1 v2 sz"
    by (simp add: info_ntoh_def infosHostToNet_def writeInBufferStandard_def Let_def
        s v1(4) v2(4) t)
  with v1(1) v2(1) show ?thesis by blast
qed

text \<open>Witness: 14 hours into the day, and a count that does lose a microsecond.\<close>

definition info0 :: info where
  "info0 = \<lparr>flowId = 0, seqNum = 0, srcPort = 0, destPort = 0, txTime1 = 0, txTime2 = 0,
     rxTime1 = 0, rxTime2 = 0, size = 0, srcAddr = [], destAddr = [], txTime3 = 0, rxTime3 = 0\<rparr>"

theorem remote_log_record_witness:
  "\<exists>v1 v2. v1 \<in> {max 0 (249 - 1), 249} \<and> v2 \<in> {max 0 (999999 - 1), 999999} \<and>
    info_ntoh (infosHostToNet
      (writeInBufferStandard info0 1 2 ''10.0.0.1'' ''10.0.0.2'' 80 90 50400 50401 249 999999 512)) =
    writeInBufferStandard info0 1 2 ''10.0.0.1'' ''10.0.0.2'' 80 90 50400 50401 v1 v2 512"
  by (rule remote_log_record) simp_all

text \<open>The truncation in infosHostToNet does lose a microsecond: 249 becomes 248.\<close>

lemma net_usec_loses: "net_usec (sec_usec 50400 249) = 248"
  by code_simp

end
