(* ===== verification/Net.thy ===== *)
theory Net
  imports Prelude
begin

text \<open>Socket addresses as the macros of src/common/ITG.h handle them.  The port is the 16-bit
  value of the field sin_port or sin6_port, that is, in network byte order; an IPv4 address is
  4 bytes, an IPv6 address 16.\<close>

definition PF_INET :: int where "PF_INET = 2"
definition PF_INET6 :: int where "PF_INET6 = 10"

record sockaddr =
  ai_family :: int
  ip :: bytes
  sin_port :: u16
  scope_id :: u32

definition any_addr :: sockaddr where
  "any_addr = \<lparr>ai_family = PF_INET, ip = [0, 0, 0, 0], sin_port = 0, scope_id = 0\<rparr>"

text \<open>SET_PORT and GET_PORT do nothing for other families; GET_PORT then leaves its variable.\<close>

definition SET_PORT :: "sockaddr \<Rightarrow> u16 \<Rightarrow> sockaddr" where
  "SET_PORT host port =
     (if ai_family host = PF_INET then host\<lparr>sin_port := port\<rparr>
      else if ai_family host = PF_INET6 then host\<lparr>sin_port := port\<rparr> else host)"

definition GET_PORT :: "sockaddr \<Rightarrow> u16 \<Rightarrow> u16" where
  "GET_PORT host port =
     (if ai_family host = PF_INET then sin_port host
      else if ai_family host = PF_INET6 then sin_port host else port)"

text \<open>The address of an IPv4 host is one 32-bit word, that of an IPv6 host four.\<close>

definition ARE_INET_ADDR_EQUAL :: "sockaddr \<Rightarrow> sockaddr \<Rightarrow> bool" where
  "ARE_INET_ADDR_EQUAL a b \<longleftrightarrow> ai_family a = ai_family b \<and>
     (if ai_family a = PF_INET then take 4 (ip a) = take 4 (ip b)
      else take 16 (ip a) = take 16 (ip b))"

text \<open>IN6_IS_ADDR_LINKLOCAL: fe80::/10.\<close>

definition is_linklocal :: "bytes \<Rightarrow> bool" where
  "is_linklocal a = (case a of b0 # b1 # _ \<Rightarrow> b0 = 0xfe \<and> b1 AND 0xc0 = 0x80 | _ \<Rightarrow> False)"

lemma SET_GET_PORT [simp]:
  "ai_family h = PF_INET \<or> ai_family h = PF_INET6 \<Longrightarrow> GET_PORT (SET_PORT h p) q = p"
  by (auto simp: SET_PORT_def GET_PORT_def)

lemma ARE_INET_ADDR_EQUAL_refl [simp]: "ARE_INET_ADDR_EQUAL a a"
  by (simp add: ARE_INET_ADDR_EQUAL_def)

lemma ARE_INET_ADDR_EQUAL_sym: "ARE_INET_ADDR_EQUAL a b \<Longrightarrow> ARE_INET_ADDR_EQUAL b a"
  by (auto simp: ARE_INET_ADDR_EQUAL_def split: if_splits)

lemma ARE_INET_ADDR_EQUAL_trans:
  "ARE_INET_ADDR_EQUAL a b \<Longrightarrow> ARE_INET_ADDR_EQUAL b c \<Longrightarrow> ARE_INET_ADDR_EQUAL a c"
  by (auto simp: ARE_INET_ADDR_EQUAL_def split: if_splits)

end
