(* ===== verification/OS.thy ===== *)
theory OS
  imports Prelude Info Net
begin

text \<open>Effects.  A C procedure is a function from the state to an outcome and the new state.
  The state of every component extends the record world, which holds the history of the
  system and library calls made so far (newest first).  What a call answers is a parameter:
  an os gives, for each history ending in the call, the integer it returns, the bytes it
  delivers, the descriptors select finds ready, the content that memory has which the program
  has not set, the layout the compiler gives a struct info, the numeric name of
  an address, the address that a datagram came from or that a socket has, and the time in
  seconds and microseconds.  A statement over all os values therefore speaks of every
  behaviour of the environment.  A call of exit is Exited, a call of pthread_exit ThreadEnd, an access outside an array is Fault, and Hang is a loop that has used up the
  number of rounds it was given.\<close>

datatype call =
    Socket int
  | Setsockopt int
  | Bind int nat
  | Listen int
  | Accept int
  | Connect int nat
  | Close int
  | Shutdown int
  | Send int bytes
  | Recv int nat
  | Select "int list"
  | Pipe
  | Rand
  | SRand
  | FOpen nat string
  | FWrite nat bytes
  | FFlush nat
  | FClose nat
  | FRead nat
  | MutexInit string
  | MutexLock string
  | MutexUnlock string
  | MutexDestroy string
  | PthreadCreate string nat
  | PthreadDetach nat
  | PthreadJoin nat
  | PthreadCancel nat
  | ExitThread
  | PipeRead nat nat
  | PipeWrite nat bytes
  | Sleep nat
  | GetTime
  | GetSockName int
  | GetPeerName int
  | SerialUp string
  | SerialToggle int
  | Resolve string
  | Fcntl int
  | Errno
  | Print string

record os =
  os_int :: "call list \<Rightarrow> int"
  os_data :: "call list \<Rightarrow> bytes option"
  os_ready :: "call list \<Rightarrow> int \<Rightarrow> bool"
  os_junk :: "call list \<Rightarrow> bytes"
  os_image :: "info \<Rightarrow> bytes"
  os_name :: "sockaddr \<Rightarrow> string"
  os_from :: "call list \<Rightarrow> sockaddr"
  os_time :: "call list \<Rightarrow> int \<times> int"

record world =
  hist :: "call list"

datatype 'a out = Ret 'a | Exited int | ThreadEnd | Fault | Hang

type_synonym ('s, 'a) proc = "'s \<Rightarrow> 'a out \<times> 's"

definition ret :: "'a \<Rightarrow> ('s, 'a) proc" where
  "ret x = (\<lambda>s. (Ret x, s))"

definition bnd :: "('s, 'a) proc \<Rightarrow> ('a \<Rightarrow> ('s, 'b) proc) \<Rightarrow> ('s, 'b) proc" where
  "bnd m f = (\<lambda>s. case m s of
      (Ret x, s') \<Rightarrow> f x s'
    | (Exited c, s') \<Rightarrow> (Exited c, s')
    | (ThreadEnd, s') \<Rightarrow> (ThreadEnd, s')
    | (Fault, s') \<Rightarrow> (Fault, s')
    | (Hang, s') \<Rightarrow> (Hang, s'))"

definition thn :: "('s, 'a) proc \<Rightarrow> ('s, 'b) proc \<Rightarrow> ('s, 'b) proc" where
  "thn m k = bnd m (\<lambda>_. k)"

definition fault :: "('s, 'a) proc" where "fault = (\<lambda>s. (Fault, s))"

definition thread_end :: "('s, 'a) proc" where "thread_end = (\<lambda>s. (ThreadEnd, s))"

definition hang :: "('s, 'a) proc" where "hang = (\<lambda>s. (Hang, s))"

definition exit_with :: "int \<Rightarrow> ('s, 'a) proc" where "exit_with c = (\<lambda>s. (Exited c, s))"

definition upd :: "('s \<Rightarrow> 's) \<Rightarrow> ('s, unit) proc" where
  "upd f = (\<lambda>s. (Ret (), f s))"

definition gets :: "('s \<Rightarrow> 'a) \<Rightarrow> ('s, 'a) proc" where
  "gets f = (\<lambda>s. (Ret (f s), s))"

definition cond :: "bool \<Rightarrow> ('s, unit) proc \<Rightarrow> ('s, unit) proc" where
  "cond b p = (if b then p else ret ())"

definition log_call :: "call \<Rightarrow> 'a world_scheme \<Rightarrow> 'a world_scheme" where
  "log_call c s = s\<lparr>hist := c # hist s\<rparr>"

definition sys :: "os \<Rightarrow> call \<Rightarrow> ('a world_scheme, int) proc" where
  "sys os c = (\<lambda>s. (Ret (os_int os (c # hist s)), log_call c s))"

definition sys0 :: "call \<Rightarrow> ('a world_scheme, unit) proc" where
  "sys0 c = upd (log_call c)"

text \<open>recv of at most n bytes: None is an error, the empty list the end of the stream.\<close>

definition sys_recv :: "os \<Rightarrow> int \<Rightarrow> nat \<Rightarrow> ('a world_scheme, bytes option) proc" where
  "sys_recv os sock n = (\<lambda>s. let c = Recv sock n in
     (Ret (map_option (take n) (os_data os (c # hist s))), log_call c s))"

text \<open>select over the descriptors: its result and, on success, which of them are ready.\<close>

definition sys_select :: "os \<Rightarrow> int list \<Rightarrow> ('a world_scheme, int \<times> (int \<Rightarrow> bool)) proc" where
  "sys_select os fds = (\<lambda>s. let h = Select fds # hist s in
     (Ret (os_int os h, \<lambda>fd. fd \<in> set fds \<and> os_ready os h fd), log_call (Select fds) s))"

text \<open>recv into a variable of n bytes that has not been initialised: what recv does not fill keeps
  the content it happened to have.  None is an error of recv.\<close>

definition junk :: "os \<Rightarrow> call list \<Rightarrow> nat \<Rightarrow> bytes" where
  "junk os h n = take n (os_junk os h @ replicate n 0)"

lemma length_junk [simp, len_simps]: "length (junk os h n) = n"
  by (simp add: junk_def)

text \<open>A host on which every call succeeds and every stream is at its end, for examples.\<close>

definition os_ok :: os where
  "os_ok = \<lparr>os_int = (\<lambda>h. 0), os_data = (\<lambda>h. Some []), os_ready = (\<lambda>h fd. False),
     os_junk = (\<lambda>h. []), os_image = (\<lambda>i. replicate 144 0),
     os_name = (\<lambda>a. ''127.0.0.1''), os_from = (\<lambda>h. any_addr), os_time = (\<lambda>h. (50400, 249))\<rparr>"

named_theorems proc_simps \<open>running procedures\<close>

lemma ret_apply [proc_simps]: "ret x s = (Ret x, s)" by (simp add: ret_def)
lemma fault_apply [proc_simps]: "fault s = (Fault, s)" by (simp add: fault_def)
lemma thread_end_apply [proc_simps]: "thread_end s = (ThreadEnd, s)" by (simp add: thread_end_def)
lemma hang_apply [proc_simps]: "hang s = (Hang, s)" by (simp add: hang_def)
lemma exit_apply [proc_simps]: "exit_with c s = (Exited c, s)" by (simp add: exit_with_def)
lemma upd_apply [proc_simps]: "upd f s = (Ret (), f s)" by (simp add: upd_def)
lemma gets_apply [proc_simps]: "gets f s = (Ret (f s), s)" by (simp add: gets_def)
lemma sys_apply [proc_simps]: "sys os c s = (Ret (os_int os (c # hist s)), log_call c s)"
  by (simp add: sys_def)
lemma sys0_apply [proc_simps]: "sys0 c s = (Ret (), log_call c s)"
  by (simp add: sys0_def upd_def)
lemma sys_recv_apply [proc_simps]: "sys_recv os sock n s =
    (Ret (map_option (take n) (os_data os (Recv sock n # hist s))), log_call (Recv sock n) s)"
  by (simp add: sys_recv_def Let_def)

lemma sys_select_apply [proc_simps]: "sys_select os fds s =
    (Ret (os_int os (Select fds # hist s),
          \<lambda>fd. fd \<in> set fds \<and> os_ready os (Select fds # hist s) fd), log_call (Select fds) s)"
  by (simp add: sys_select_def Let_def)

text \<open>Sequencing pushes the continuation to the first call, so that a procedure with known
  answers runs by rewriting.\<close>

lemma bnd_prim [proc_simps]:
  "bnd (ret x) f1 = f1 x"
  "bnd (upd g) f2 s = f2 () (g s)"
  "bnd (gets h) f3 s = f3 (h s) s"
  "bnd fault f4 s = (Fault, s)"
  "bnd hang f5 s = (Hang, s)"
  "bnd thread_end f6 s = (ThreadEnd, s)"
  "bnd (exit_with c) f7 s = (Exited c, s)"
  by (simp_all add: bnd_def ret_def upd_def gets_def fault_def hang_def thread_end_def exit_with_def)

lemma bnd_sys [proc_simps]:
  "bnd (sys os c) g w = g (os_int os (c # hist w)) (log_call c w)"
  "bnd (sys0 c) h w = h () (log_call c w)"
  "bnd (sys_recv os sock n) k w =
     k (map_option (take n) (os_data os (Recv sock n # hist w))) (log_call (Recv sock n) w)"
  "bnd (sys_select os fds) l w =
     l (os_int os (Select fds # hist w),
        \<lambda>fd. fd \<in> set fds \<and> os_ready os (Select fds # hist w) fd) (log_call (Select fds) w)"
  by (simp_all add: bnd_def sys_def sys0_def upd_def sys_recv_def sys_select_def Let_def)

lemma bnd_bnd [proc_simps]: "bnd (bnd m f) g = bnd m (\<lambda>x. bnd (f x) g)"
  by (rule ext) (simp add: bnd_def split: prod.splits out.splits)

lemma bnd_Ret: "m s = (Ret x, s') \<Longrightarrow> bnd m f s = f x s'"
  by (simp add: bnd_def)

lemma thn_bnd [proc_simps]: "thn m k = bnd m (\<lambda>_. k)"
  by (simp add: thn_def)

lemma bnd_if [proc_simps]: "bnd (if b then p else q) f = (if b then bnd p f else bnd q f)"
  by simp

lemma bnd_if_eta [proc_simps]:
  "bnd (\<lambda>a. if b then p a else q a) f = (if b then bnd p f else bnd q f)"
  by simp

lemma bnd_option_eta [proc_simps]:
  "bnd (\<lambda>a. case x of None \<Rightarrow> p a | Some y \<Rightarrow> q y a) f =
     (case x of None \<Rightarrow> bnd p f | Some y \<Rightarrow> bnd (q y) f)"
  by (simp split: option.split)

lemma bnd_cond [proc_simps]: "bnd (cond b p) f = (if b then bnd p f else f ())"
  by (simp add: cond_def proc_simps)

lemma bnd_option [proc_simps]:
  "bnd (case x of None \<Rightarrow> p | Some y \<Rightarrow> q y) f = (case x of None \<Rightarrow> bnd p f | Some y \<Rightarrow> bnd (q y) f)"
  by (simp split: option.split)

lemma if_apply [proc_simps]: "(if b then p else q) s = (if b then p s else q s)"
  by simp

lemma option_apply [proc_simps]:
  "(case x of None \<Rightarrow> p | Some y \<Rightarrow> q y) s = (case x of None \<Rightarrow> p s | Some y \<Rightarrow> q y s)"
  by (simp split: option.split)

lemma cond_apply [proc_simps]: "cond b p s = (if b then p s else (Ret (), s))"
  by (simp add: cond_def ret_def)

lemma hist_log_call [simp]: "hist (log_call c s) = c # hist s"
  by (simp add: log_call_def)

text \<open>A resolver that always knows the names, and two states that differ in the calls made only.\<close>

definition resolves :: "os \<Rightarrow> (string \<Rightarrow> sockaddr) \<Rightarrow> bool" where
  "resolves os res \<longleftrightarrow> (\<forall>a h. os_int os (Resolve a # h) = 0 \<and> os_from os (Resolve a # h) = res a)"

definition same_but_calls :: "'a world_scheme \<Rightarrow> 'a world_scheme \<Rightarrow> bool" where
  "same_but_calls s t \<longleftrightarrow> s\<lparr>hist := []\<rparr> = t\<lparr>hist := []\<rparr>"

lemma same_but_calls_log [simp]:
  "same_but_calls s s" "same_but_calls s (log_call c t) = same_but_calls s t"
  by (simp_all add: same_but_calls_def log_call_def)

lemma same_but_calls_trans: "same_but_calls s t \<Longrightarrow> same_but_calls t u \<Longrightarrow> same_but_calls s u"
  by (simp add: same_but_calls_def)

text \<open>A procedure keeps a predicate on every outcome.\<close>

definition keeps :: "('s \<Rightarrow> bool) \<Rightarrow> ('s, 'a) proc \<Rightarrow> bool" where
  "keeps I m \<longleftrightarrow> (\<forall>s. I s \<longrightarrow> I (snd (m s)))"

named_theorems keeps_intros \<open>procedures that keep a predicate\<close>

lemma keeps_ret [keeps_intros]: "keeps I (ret x)" by (simp add: keeps_def ret_def)
lemma keeps_fault [keeps_intros]: "keeps I fault" by (simp add: keeps_def fault_def)
lemma keeps_thread_end [keeps_intros]: "keeps I thread_end" by (simp add: keeps_def thread_end_def)
lemma keeps_hang [keeps_intros]: "keeps I hang" by (simp add: keeps_def hang_def)
lemma keeps_exit [keeps_intros]: "keeps I (exit_with c)" by (simp add: keeps_def exit_with_def)
lemma keeps_gets [keeps_intros]: "keeps I (gets f)" by (simp add: keeps_def gets_def)
lemma keeps_upd: "(\<And>s. I s \<Longrightarrow> I (f s)) \<Longrightarrow> keeps I (upd f)"
  by (simp add: keeps_def upd_def)
lemma keeps_bnd [keeps_intros]:
  "keeps I m \<Longrightarrow> (\<And>x. keeps I (f x)) \<Longrightarrow> keeps I (bnd m f)"
  by (fastforce simp: keeps_def bnd_def split: prod.splits out.splits)
lemma keeps_thn [keeps_intros]: "keeps I m \<Longrightarrow> keeps I k \<Longrightarrow> keeps I (thn m k)"
  unfolding thn_def by (rule keeps_bnd)
lemma keeps_cond [keeps_intros]: "keeps I p \<Longrightarrow> keeps I (cond b p)"
  by (simp add: cond_def keeps_ret)
lemma keeps_if [keeps_intros]: "keeps I p \<Longrightarrow> keeps I q \<Longrightarrow> keeps I (if b then p else q)"
  by simp

end
