(* ===== verification/LogTable.thy ===== *)
theory LogTable
  imports OS
begin

text \<open>The table memLogFile of open log files that ITGLog (src/ITGLog/ITGLog.cpp) and ITGRecv
  (src/ITGRecv/ITGRecv.cpp) both keep: MAX_NUM_THREAD slots, each with an output stream, the
  number of users and the file's name.  Free slots have num -1 and the name of one blank.  The
  theory holds the slots, the scans, the table's invariant, and the interface that the threads
  which open and close log files rely on.\<close>

definition MAX_NUM_THREAD :: nat where "MAX_NUM_THREAD = 400"

definition DIM_LOG_FILE :: nat where "DIM_LOG_FILE = 200"

record manageLogFile =
  is_open :: bool
  num :: int
  logFile :: string

type_synonym log_table = "manageLogFile list"

definition free_slot :: manageLogFile where
  "free_slot = \<lparr>is_open = False, num = -1, logFile = '' ''\<rparr>"

definition init_table :: log_table where
  "init_table = replicate MAX_NUM_THREAD free_slot"

text \<open>The first index from i on whose slot satisfies a test.\<close>

fun scan :: "('a \<Rightarrow> bool) \<Rightarrow> 'a list \<Rightarrow> nat option" where
  "scan P [] = None"
| "scan P (x # xs) = (if P x then Some 0 else map_option Suc (scan P xs))"

lemma scan_Some: "scan P xs = Some i \<Longrightarrow> i < length xs \<and> P (xs ! i) \<and> (\<forall>j < i. \<not> P (xs ! j))"
proof (induction xs arbitrary: i)
  case (Cons x xs)
  then show ?case by (cases i) (auto split: if_splits simp: less_Suc_eq_0_disj)
qed simp

lemma scan_None: "scan P xs = None \<longleftrightarrow> (\<forall>x \<in> set xs. \<not> P x)"
  by (induction xs) auto

lemma scan_found: "i < length xs \<Longrightarrow> P (xs ! i) \<Longrightarrow> \<exists>j. scan P xs = Some j"
  by (metis nth_mem option.exhaust scan_None)

definition find_name :: "string \<Rightarrow> log_table \<Rightarrow> nat option" where
  "find_name name = scan (\<lambda>m. logFile m = name)"

definition find_free :: "log_table \<Rightarrow> nat option" where
  "find_free = scan (\<lambda>m. num m = -1)"

definition slot_share :: "nat \<Rightarrow> log_table \<Rightarrow> log_table" where
  "slot_share i tab = tab[i := (tab ! i)\<lparr>num := num (tab ! i) + 1\<rparr>]"

definition slot_open :: "nat \<Rightarrow> bool \<Rightarrow> log_table \<Rightarrow> log_table" where
  "slot_open i ok tab = tab[i := (tab ! i)\<lparr>is_open := is_open (tab ! i) \<or> ok\<rparr>]"

definition slot_name :: "nat \<Rightarrow> string \<Rightarrow> log_table \<Rightarrow> log_table" where
  "slot_name i name tab = tab[i := (tab ! i)\<lparr>num := 1, logFile := name\<rparr>]"

text \<open>The body of closeFileLog once the slot is found: the last user frees it.\<close>

definition slot_release :: "nat \<Rightarrow> log_table \<Rightarrow> log_table" where
  "slot_release i tab =
     (let m = (tab ! i)\<lparr>num := num (tab ! i) - 1\<rparr> in
      tab[i := if num m = 0 then m\<lparr>num := -1, is_open := False, logFile := '' ''\<rparr> else m])"

subsection \<open>The invariant\<close>

definition slot_inv :: "manageLogFile \<Rightarrow> bool" where
  "slot_inv m \<longleftrightarrow>
     (if num m = -1 then logFile m = '' '' \<and> \<not> is_open m else 1 \<le> num m \<and> logFile m \<noteq> '' '')"

definition table_inv :: "log_table \<Rightarrow> bool" where
  "table_inv tab \<longleftrightarrow> length tab = MAX_NUM_THREAD \<and> (\<forall>m \<in> set tab. slot_inv m) \<and>
     (\<forall>i < length tab. \<forall>j < length tab.
        num (tab ! i) \<noteq> -1 \<longrightarrow> logFile (tab ! i) = logFile (tab ! j) \<longrightarrow> i = j)"

text \<open>How many users a name has, and the name behind a slot in use.\<close>

definition refs :: "log_table \<Rightarrow> string \<Rightarrow> nat" where
  "refs tab name =
     (case find_name name tab of None \<Rightarrow> 0 | Some i \<Rightarrow> if num (tab ! i) = -1 then 0 else nat (num (tab ! i)))"

definition owner :: "log_table \<Rightarrow> nat \<Rightarrow> string option" where
  "owner tab i =
     (if i < length tab \<and> num (tab ! i) \<noteq> -1 then Some (logFile (tab ! i)) else None)"

lemma table_invI:
  assumes "length tab = MAX_NUM_THREAD" "\<And>i. i < length tab \<Longrightarrow> slot_inv (tab ! i)"
    and "\<And>i j. i < length tab \<Longrightarrow> j < length tab \<Longrightarrow> num (tab ! i) \<noteq> -1 \<Longrightarrow>
           logFile (tab ! i) = logFile (tab ! j) \<Longrightarrow> i = j"
  shows "table_inv tab"
  using assms by (auto simp: table_inv_def set_conv_nth)

lemma table_invD:
  assumes "table_inv tab"
  shows "length tab = MAX_NUM_THREAD"
    and "i < length tab \<Longrightarrow> slot_inv (tab ! i)"
    and "i < length tab \<Longrightarrow> j < length tab \<Longrightarrow> num (tab ! i) \<noteq> -1 \<Longrightarrow>
           logFile (tab ! i) = logFile (tab ! j) \<Longrightarrow> i = j"
  using assms by (auto simp: table_inv_def)

lemma table_inv_init: "table_inv init_table"
  by (rule table_invI) (simp_all add: init_table_def free_slot_def slot_inv_def)

text \<open>In a table that keeps the invariant, the scan for a name finds the slot that owns it.\<close>

lemma find_name_owner:
  assumes "table_inv tab" "name \<noteq> '' ''"
  shows "find_name name tab = Some i \<longleftrightarrow> owner tab i = Some name"
proof
  assume "find_name name tab = Some i"
  then have "i < length tab" "logFile (tab ! i) = name"
    by (auto simp: find_name_def dest: scan_Some)
  then show "owner tab i = Some name"
    using table_invD(2)[OF assms(1), of i] assms(2) by (auto simp: owner_def slot_inv_def split: if_splits)
next
  assume "owner tab i = Some name"
  then have i: "i < length tab" "num (tab ! i) \<noteq> -1" "logFile (tab ! i) = name"
    by (auto simp: owner_def split: if_splits)
  then obtain j where j: "scan (\<lambda>m. logFile m = name) tab = Some j"
    using scan_found[of i tab "\<lambda>m. logFile m = name"] by auto
  then have "j < length tab" "logFile (tab ! j) = name" by (auto dest: scan_Some)
  with i have "i = j" using table_invD(3)[OF assms(1)] by metis
  with j show "find_name name tab = Some i" by (simp add: find_name_def)
qed

lemma refs_owner:
  assumes "table_inv tab" "owner tab i = Some name"
  shows "refs tab name = nat (num (tab ! i))" "1 \<le> refs tab name"
proof -
  have "name \<noteq> '' ''" "1 \<le> num (tab ! i)"
    using assms table_invD(2)[OF assms(1), of i]
    by (auto simp: owner_def slot_inv_def split: if_splits)
  then show "refs tab name = nat (num (tab ! i))" "1 \<le> refs tab name"
    using find_name_owner[OF assms(1), of name i] assms(2) by (auto simp: refs_def)
qed

lemma refs_no_owner:
  assumes "table_inv tab" "name \<noteq> '' ''" "\<And>i. owner tab i \<noteq> Some name"
  shows "refs tab name = 0"
  using assms find_name_owner[OF assms(1,2)] by (auto simp: refs_def split: option.splits)

lemma owner_unique:
  "table_inv tab \<Longrightarrow> owner tab i = Some n \<Longrightarrow> owner tab j = Some n \<Longrightarrow> i = j"
  by (auto simp: owner_def split: if_splits dest: table_invD(3))

lemma refs_blank:
  assumes "table_inv tab"
  shows "refs tab '' '' = 0"
proof (cases "find_name '' '' tab")
  case (Some i)
  then have "i < length tab" "logFile (tab ! i) = '' ''"
    by (auto simp: find_name_def dest: scan_Some)
  then have "num (tab ! i) = -1"
    using table_invD(2)[OF assms, of i] by (auto simp: slot_inv_def split: if_splits)
  with Some show ?thesis by (simp add: refs_def)
qed (simp add: refs_def)

text \<open>Every operation changes one slot; refs is read off slot by slot.\<close>

lemma refs_other:
  assumes "table_inv tab" "table_inv tab'" "m \<noteq> n"
    and "\<And>i. owner tab i = Some m \<longleftrightarrow> owner tab' i = Some m"
    and "\<And>i. owner tab i = Some m \<Longrightarrow> num (tab' ! i) = num (tab ! i)"
  shows "refs tab' m = refs tab m"
proof (cases "m = '' ''")
  case True then show ?thesis using assms(1,2) by (simp add: refs_blank)
next
  case False
  show ?thesis
  proof (cases "\<exists>i. owner tab i = Some m")
    case True
    then obtain i where "owner tab i = Some m" by blast
    then show ?thesis using assms refs_owner(1) by metis
  next
    case none: False
    then show ?thesis using False assms refs_no_owner by metis
  qed
qed

definition table_step :: "log_table \<Rightarrow> log_table \<Rightarrow> nat \<Rightarrow> string option \<Rightarrow> string \<Rightarrow> nat \<Rightarrow> bool" where
  "table_step tab tab' i own n r \<longleftrightarrow>
     table_inv tab' \<and> owner tab' = (owner tab)(i := own) \<and> refs tab' = (refs tab)(n := r)"

lemma owner_update:
  "i < length tab \<Longrightarrow> owner (tab[i := m]) =
     (owner tab)(i := if num m = -1 then None else Some (logFile m))"
  by (auto simp: owner_def fun_eq_iff)

lemma table_inv_update:
  assumes "table_inv tab" "i < length tab" "slot_inv m"
    and "num m \<noteq> -1 \<Longrightarrow> \<forall>j. j \<noteq> i \<longrightarrow> owner tab j \<noteq> Some (logFile m)"
  shows "table_inv (tab[i := m])"
proof (rule table_invI)
  fix j k assume jk: "j < length (tab[i := m])" "k < length (tab[i := m])"
    "num (tab[i := m] ! j) \<noteq> -1" "logFile (tab[i := m] ! j) = logFile (tab[i := m] ! k)"
  have blank: "logFile (tab ! k) = '' ''" if "num (tab ! k) = -1"
    using that table_invD(2)[OF assms(1), of k] jk by (auto simp: slot_inv_def)
  have nb: "num m \<noteq> -1 \<Longrightarrow> logFile m \<noteq> '' ''" "num m = -1 \<Longrightarrow> logFile m = '' ''"
    using assms(3) by (auto simp: slot_inv_def split: if_splits)
  have nbj: "num (tab ! j) \<noteq> -1 \<Longrightarrow> logFile (tab ! j) \<noteq> '' ''"
    using table_invD(2)[OF assms(1), of j] jk by (auto simp: slot_inv_def split: if_splits)
  show "j = k"
  proof (cases "j = i"; cases "k = i")
    assume "j = i" "k \<noteq> i"
    then show ?thesis using jk assms(4) blank nb assms(2) by (auto simp: owner_def split: if_splits)
  next
    assume "j \<noteq> i" "k = i"
    then have "num m \<noteq> -1" "owner tab j = Some (logFile m)"
      using jk nb nbj assms(2) by (auto simp: owner_def)
    then show ?thesis using assms(4) \<open>j \<noteq> i\<close> by blast
  next
    assume "j \<noteq> i" "k \<noteq> i"
    then show ?thesis using jk table_invD(3)[OF assms(1), of j k] by simp
  qed simp
qed (use assms in \<open>auto simp: table_inv_def nth_list_update\<close>)

lemma slot_share_step:
  assumes "table_inv tab" "owner tab i = Some n"
  shows "table_step tab (slot_share i tab) i (Some n) n (Suc (refs tab n))"
proof -
  have i: "i < length tab" "num (tab ! i) \<noteq> -1" "logFile (tab ! i) = n"
    using assms(2) by (auto simp: owner_def split: if_splits)
  have si: "slot_inv (tab ! i)" using table_invD(2)[OF assms(1)] i(1) by blast
  let ?m = "(tab ! i)\<lparr>num := num (tab ! i) + 1\<rparr>"
  have m: "slot_inv ?m" "num ?m \<noteq> -1" "logFile ?m = n" using si i by (auto simp: slot_inv_def)
  have inv: "table_inv (tab[i := ?m])"
    using m owner_unique[OF assms(1) _ assms(2)] by (intro table_inv_update assms(1) i(1)) auto
  have own: "owner (tab[i := ?m]) = (owner tab)(i := Some n)"
    using owner_update[OF i(1), of ?m] m by simp
  have "refs (tab[i := ?m]) k = ((refs tab)(n := Suc (refs tab n))) k" for k
  proof (cases "k = n")
    case True
    have "refs (tab[i := ?m]) n = nat (num (tab ! i) + 1)"
      using refs_owner(1)[OF inv, of i n] own i by simp
    then show ?thesis using True refs_owner(1)[OF assms] si i by (simp add: slot_inv_def Suc_nat_eq_nat_zadd1)
  next
    case False
    then have "refs (tab[i := ?m]) k = refs tab k"
      using own i assms(2) by (intro refs_other[OF assms(1) inv False]) (auto split: if_splits simp: nth_list_update)
    then show ?thesis using False by simp
  qed
  with inv own show ?thesis by (auto simp: table_step_def slot_share_def fun_eq_iff)
qed

lemma slot_new_step:
  assumes "table_inv tab" "find_free tab = Some i" "n \<noteq> '' ''" "find_name n tab = None"
  shows "table_step tab (slot_name i n (slot_open i ok tab)) i (Some n) n 1"
    and "owner tab i = None" and "refs tab n = 0"
proof -
  have i: "i < length tab" "num (tab ! i) = -1"
    using assms(2) by (auto simp: find_free_def dest: scan_Some)
  show o: "owner tab i = None" using i by (simp add: owner_def)
  show "refs tab n = 0" using assms(4) by (simp add: refs_def)
  have none: "owner tab j \<noteq> Some n" for j
    using find_name_owner[OF assms(1,3)] assms(4) by (metis option.distinct(1))
  let ?m = "(tab ! i)\<lparr>is_open := is_open (tab ! i) \<or> ok, num := 1, logFile := n\<rparr>"
  have t: "slot_name i n (slot_open i ok tab) = tab[i := ?m]"
    using i(1) by (simp add: slot_name_def slot_open_def)
  have inv: "table_inv (tab[i := ?m])"
    using none assms(3) by (intro table_inv_update assms(1) i(1)) (auto simp: slot_inv_def)
  have own: "owner (tab[i := ?m]) = (owner tab)(i := Some n)"
    using owner_update[OF i(1), of ?m] by simp
  have "refs (tab[i := ?m]) k = ((refs tab)(n := 1)) k" for k
  proof (cases "k = n")
    case True
    then show ?thesis using refs_owner(1)[OF inv, of i n] own i by simp
  next
    case False
    then have "refs (tab[i := ?m]) k = refs tab k"
      using own i o by (intro refs_other[OF assms(1) inv False]) (auto simp: nth_list_update)
    then show ?thesis using False by simp
  qed
  with inv own show "table_step tab (slot_name i n (slot_open i ok tab)) i (Some n) n 1"
    by (auto simp: table_step_def t fun_eq_iff)
qed

lemma slot_release_step:
  assumes "table_inv tab" "owner tab i = Some n"
  shows "table_step tab (slot_release i tab) i (if refs tab n = 1 then None else Some n) n
           (refs tab n - 1)"
proof -
  have i: "i < length tab" "num (tab ! i) \<noteq> -1" "logFile (tab ! i) = n"
    using assms(2) by (auto simp: owner_def split: if_splits)
  have si: "1 \<le> num (tab ! i)" "n \<noteq> '' ''"
    using table_invD(2)[OF assms(1) i(1)] i by (auto simp: slot_inv_def)
  have r: "refs tab n = nat (num (tab ! i))" by (rule refs_owner(1)[OF assms])
  define m where "m = (if num (tab ! i) = 1
     then (tab ! i)\<lparr>num := -1, is_open := False, logFile := '' ''\<rparr>
     else (tab ! i)\<lparr>num := num (tab ! i) - 1\<rparr>)"
  have t: "slot_release i tab = tab[i := m]"
    by (simp add: slot_release_def Let_def m_def)
  have last: "refs tab n = 1 \<longleftrightarrow> num (tab ! i) = 1" using r si by auto
  have m: "slot_inv m" "num m = -1 \<longleftrightarrow> refs tab n = 1"
    "num m \<noteq> -1 \<Longrightarrow> logFile m = n \<and> num m = num (tab ! i) - 1"
    using si i last by (auto simp: m_def slot_inv_def)
  have inv: "table_inv (tab[i := m])"
    using m owner_unique[OF assms(1) _ assms(2)] by (intro table_inv_update assms(1) i(1)) auto
  have own: "owner (tab[i := m]) = (owner tab)(i := if refs tab n = 1 then None else Some n)"
    using owner_update[OF i(1), of m] m by auto
  have "refs (tab[i := m]) k = ((refs tab)(n := refs tab n - 1)) k" for k
  proof (cases "k = n")
    case True
    show ?thesis
    proof (cases "refs tab n = 1")
      case True
      then have "owner (tab[i := m]) j \<noteq> Some n" for j
        using own owner_unique[OF assms(1) _ assms(2)] by auto
      then show ?thesis using refs_no_owner[OF inv si(2)] True \<open>k = n\<close> by simp
    next
      case False
      then have "refs (tab[i := m]) n = nat (num (tab ! i) - 1)"
        using refs_owner(1)[OF inv, of i n] own i m by simp
      then show ?thesis using \<open>k = n\<close> r si by (simp add: nat_diff_distrib)
    qed
  next
    case False
    then have "refs (tab[i := m]) k = refs tab k"
      using own i assms(2) by (intro refs_other[OF assms(1) inv False])
        (auto simp: nth_list_update split: if_splits)
    then show ?thesis using False by simp
  qed
  with inv own show ?thesis by (auto simp: table_step_def t fun_eq_iff)
qed

lemma free_slot_exists:
  assumes "table_inv tab" "find_free tab = None"
  shows "\<forall>i < MAX_NUM_THREAD. owner tab i \<noteq> None"
  using assms table_invD(1)[OF assms(1)]
  by (auto simp: find_free_def scan_None owner_def)

subsection \<open>The interface of a registry of shared resources\<close>

text \<open>What the threads that serve flows rely on: opening a resource (a log file) gives a handle of a
  slot that is named after it and counts one more user, releasing a handle counts one user
  less, and no other slot or count changes.\<close>

locale shared_registry =
  fixes opn :: "'n \<Rightarrow> 's \<Rightarrow> nat \<Rightarrow> 's \<Rightarrow> bool"
    and cls :: "nat \<Rightarrow> 's \<Rightarrow> 's \<Rightarrow> bool"
    and valid :: "'n \<Rightarrow> bool"
    and good :: "'s \<Rightarrow> bool"
    and own :: "'s \<Rightarrow> nat \<Rightarrow> 'n option"
    and users :: "'s \<Rightarrow> 'n \<Rightarrow> nat"
  assumes opn_good: "good s \<Longrightarrow> valid n \<Longrightarrow> opn n s h s' \<Longrightarrow> good s'"
    and opn_own: "good s \<Longrightarrow> valid n \<Longrightarrow> opn n s h s' \<Longrightarrow>
        own s' = (own s)(h := Some n) \<and> (own s h = None \<or> own s h = Some n)"
    and opn_users: "good s \<Longrightarrow> valid n \<Longrightarrow> opn n s h s' \<Longrightarrow>
        users s' = (users s)(n := Suc (users s n))"
    and cls_good: "good s \<Longrightarrow> own s h = Some n \<Longrightarrow> cls h s s' \<Longrightarrow> good s'"
    and cls_own: "good s \<Longrightarrow> own s h = Some n \<Longrightarrow> cls h s s' \<Longrightarrow>
        own s' = (own s)(h := if users s n = 1 then None else Some n)"
    and cls_users: "good s \<Longrightarrow> own s h = Some n \<Longrightarrow> cls h s s' \<Longrightarrow>
        users s' = (users s)(n := users s n - 1)"
begin

text \<open>The sessions of the serving threads: the handle and the name of every file some thread has
  open.  Opening adds a session, closing removes one.\<close>

inductive sessions :: "'s \<Rightarrow> (nat \<times> 'n) list \<Rightarrow> 's \<Rightarrow> (nat \<times> 'n) list \<Rightarrow> bool" where
  sessions_refl: "sessions s live s live"
| sessions_open: "sessions s live s' live' \<Longrightarrow> valid n \<Longrightarrow> opn n s' h s'' \<Longrightarrow>
     sessions s live s'' ((h, n) # live')"
| sessions_close: "sessions s live s' live' \<Longrightarrow> (h, n) \<in> set live' \<Longrightarrow> cls h s' s'' \<Longrightarrow>
     sessions s live s'' (remove1 (h, n) live')"

definition accounts :: "'s \<Rightarrow> (nat \<times> 'n) list \<Rightarrow> bool" where
  "accounts s live \<longleftrightarrow> good s \<and> (\<forall>(h, n) \<in> set live. own s h = Some n) \<and>
     (\<forall>n. valid n \<longrightarrow> users s n = length (filter (\<lambda>(h, m). m = n) live)) \<and>
     (\<forall>(h, n) \<in> set live. valid n)"

lemma accounts_open:
  assumes "accounts s live" "valid n" "opn n s h s'"
  shows "accounts s' ((h, n) # live)"
proof -
  have g: "good s" using assms(1) by (simp add: accounts_def)
  show ?thesis
    using assms opn_good[OF g assms(2,3)] opn_own[OF g assms(2,3)] opn_users[OF g assms(2,3)]
    by (fastforce simp: accounts_def)
qed

lemma accounts_close:
  assumes "accounts s live" "(h, n) \<in> set live" "cls h s s'"
  shows "accounts s' (remove1 (h, n) live)"
proof -
  have g: "good s" and o: "own s h = Some n" and n: "valid n"
    and u: "\<And>m. valid m \<Longrightarrow> users s m = length (filter (\<lambda>(h, k). k = m) live)"
    and os: "\<And>h m. (h, m) \<in> set live \<Longrightarrow> own s h = Some m \<and> valid m"
    using assms by (auto simp: accounts_def)
  let ?live = "remove1 (h, n) live"
  have len: "length (filter (\<lambda>(h, k). k = m) ?live) =
      length (filter (\<lambda>(h, k). k = m) live) - (if m = n then 1 else 0)" for m
    using assms(2) by (auto simp: filter_remove1 length_remove1)
  have "own s' k = Some m" if km: "(k, m) \<in> set ?live" for k m
  proof -
    have live: "(k, m) \<in> set live" using km by (meson notin_set_remove1)
    have "users s n \<noteq> 1" if "k = h"
    proof
      assume "users s n = 1"
      then have "filter (\<lambda>(h, k). k = n) ?live = []" using len[of n] u[OF n] by simp
      moreover have "m = n" using that os[OF live] o by simp
      ultimately show False using km by (auto simp: filter_empty_conv)
    qed
    then show ?thesis using cls_own[OF g o assms(3)] os[OF live] o by auto
  qed
  moreover have "users s' m = length (filter (\<lambda>(h, k). k = m) ?live)" if "valid m" for m
    using cls_users[OF g o assms(3)] u[OF that] u[OF n] len[of m] by (cases "m = n") auto
  moreover have "(k, m) \<in> set ?live \<Longrightarrow> valid m" for k m
    using os notin_set_remove1 by metis
  ultimately show ?thesis using cls_good[OF g o assms(3)] unfolding accounts_def by blast
qed

lemma sessions_accounts:
  "sessions s live s' live' \<Longrightarrow> accounts s live \<Longrightarrow> accounts s' live'"
  by (induction rule: sessions.induct) (auto intro: accounts_open accounts_close)

text \<open>A session's handle is that of its own file as long as the session lasts, and a file that
  nobody uses any more has no handle.\<close>

lemma sessions_own:
  "sessions s live s' live' \<Longrightarrow> accounts s live \<Longrightarrow> (h, n) \<in> set live' \<Longrightarrow> own s' h = Some n"
  by (drule (1) sessions_accounts) (auto simp: accounts_def)

lemma sessions_users:
  "sessions s live s' live' \<Longrightarrow> accounts s live \<Longrightarrow> valid n \<Longrightarrow>
   users s' n = length (filter (\<lambda>(h, m). m = n) live')"
  by (drule (1) sessions_accounts) (auto simp: accounts_def)

end

end
