(* ===== verification/Threads.thy ===== *)
theory Threads
  imports OS
begin

text \<open>src/common/thread.cpp, Unix build: the wrappers that turn the results of the pthread and
  socket calls into 0 or -1.  A mutex is named by its variable, a thread by the function it
  runs and the index of its handle.\<close>

definition norm_ret :: "int \<Rightarrow> int" where
  "norm_ret r = (if r \<noteq> 0 then -1 else r)"

definition createThread :: "os \<Rightarrow> string \<Rightarrow> nat \<Rightarrow> bool \<Rightarrow> ('a world_scheme, int) proc" where
  "createThread os nameFunction idThread detach =
     bnd (sys os (PthreadCreate nameFunction idThread)) (\<lambda>r.
     thn (cond detach (sys0 (PthreadDetach idThread)))
       (ret (norm_ret r)))"

text \<open>A handle of 0 stands for no thread.\<close>

definition terminateThread :: "os \<Rightarrow> nat option \<Rightarrow> ('a world_scheme, int) proc" where
  "terminateThread os idThread =
     (case idThread of
        None \<Rightarrow> ret 0
      | Some t \<Rightarrow> bnd (sys os (PthreadCancel t)) (\<lambda>r. ret (norm_ret r)))"

fun joinThread_loop :: "os \<Rightarrow> nat list \<Rightarrow> int \<Rightarrow> ('a world_scheme, int) proc" where
  "joinThread_loop os [] r = ret r"
| "joinThread_loop os (t # ts) r =
     bnd (sys os (PthreadJoin t)) (\<lambda>r2.
       joinThread_loop os ts (if r2 \<noteq> 0 then -1 else r))"

definition joinThread :: "os \<Rightarrow> nat \<Rightarrow> nat list \<Rightarrow> ('a world_scheme, int) proc" where
  "joinThread os numFlow hThr = joinThread_loop os (take numFlow hThr) 0"

definition mutexThreadInit :: "os \<Rightarrow> string \<Rightarrow> ('a world_scheme, int) proc" where
  "mutexThreadInit os m = sys os (MutexInit m)"

definition mutexThreadLock :: "os \<Rightarrow> string \<Rightarrow> ('a world_scheme, int) proc" where
  "mutexThreadLock os m = bnd (sys os (MutexLock m)) (\<lambda>r. ret (norm_ret r))"

definition mutexThreadUnlock :: "os \<Rightarrow> string \<Rightarrow> ('a world_scheme, int) proc" where
  "mutexThreadUnlock os m = bnd (sys os (MutexUnlock m)) (\<lambda>r. ret (norm_ret r))"

definition mutexThreadRelease :: "os \<Rightarrow> string \<Rightarrow> ('a world_scheme, int) proc" where
  "mutexThreadRelease os m = bnd (sys os (MutexDestroy m)) (\<lambda>r. ret (norm_ret r))"

definition exitThread :: "('a world_scheme, unit) proc" where
  "exitThread = thn (sys0 ExitThread) thread_end"

definition closeSock :: "os \<Rightarrow> int \<Rightarrow> ('a world_scheme, int) proc" where
  "closeSock os sock = sys os (Close sock)"

lemma norm_ret_neg [simp]: "norm_ret r < 0 \<longleftrightarrow> r \<noteq> 0" by (simp add: norm_ret_def)

lemmas thread_apply =
  createThread_def terminateThread_def mutexThreadInit_def mutexThreadLock_def
  mutexThreadUnlock_def mutexThreadRelease_def closeSock_def exitThread_def

lemma keeps_sys:
  "(\<And>s. I s \<Longrightarrow> I (log_call c s)) \<Longrightarrow> keeps I (sys os c)"
  "(\<And>s. I s \<Longrightarrow> I (log_call c s)) \<Longrightarrow> keeps I (sys0 c)"
  "(\<And>s. I s \<Longrightarrow> I (log_call (Recv sock n) s)) \<Longrightarrow> keeps I (sys_recv os sock n)"
  by (simp_all add: keeps_def sys_apply sys0_apply sys_recv_apply)

end
