(* ===== verification/CLib.thy ===== *)
theory CLib
  imports Prelude
begin

text \<open>The parts of the C library that the option parsers use: the decimal conversions strtol,
  strtoul and atoi of glibc on a 64-bit host, and C strings inside byte buffers.\<close>

definition is_space :: "char \<Rightarrow> bool" where
  "is_space c \<longleftrightarrow> c \<in> {CHR '' '', CHR 0x09, CHR 0x0A, CHR 0x0B, CHR 0x0C, CHR 0x0D}"

definition is_digit :: "char \<Rightarrow> bool" where
  "is_digit c \<longleftrightarrow> 48 \<le> (of_char c :: nat) \<and> (of_char c :: nat) \<le> 57"

definition digit_val :: "char \<Rightarrow> nat" where
  "digit_val c = of_char c - 48"

definition digits_val :: "string \<Rightarrow> nat" where
  "digits_val = foldl (\<lambda>n c. 10 * n + digit_val c) 0"

text \<open>The sign, the digits and the rest; no digits means that nothing is converted.\<close>

definition dec_parts :: "string \<Rightarrow> (bool \<times> string \<times> string) option" where
  "dec_parts s =
     (let t = dropWhile is_space s;
          neg = (t \<noteq> [] \<and> hd t = CHR ''-'');
          u = (if t \<noteq> [] \<and> hd t \<in> {CHR ''-'', CHR ''+''} then tl t else t);
          ds = takeWhile is_digit u
      in if ds = [] then None else Some (neg, ds, dropWhile is_digit u))"

definition strtol :: "string \<Rightarrow> int" where
  "strtol s = (case dec_parts s of
      None \<Rightarrow> 0
    | Some (neg, ds, _) \<Rightarrow>
        let v = int (digits_val ds) in
        if neg then max (- (2 ^ 63)) (- v) else min (2 ^ 63 - 1) v)"

text \<open>Whether the end pointer stays at the start of the string.\<close>

definition no_conversion :: "string \<Rightarrow> bool" where
  "no_conversion s \<longleftrightarrow> dec_parts s = None"

definition strtoul :: "string \<Rightarrow> 64 word" where
  "strtoul s = (case dec_parts s of
      None \<Rightarrow> 0
    | Some (neg, ds, _) \<Rightarrow>
        if digits_val ds < 2 ^ 64
        then (if neg then - of_nat (digits_val ds) else of_nat (digits_val ds))
        else -1)"

text \<open>atoi is the conversion of strtol to int.\<close>

definition atoi :: "string \<Rightarrow> 32 word" where
  "atoi s = of_int (strtol s)"

text \<open>A NUL-terminated string at the start of a buffer; None when the buffer has no NUL.\<close>

definition chars :: "bytes \<Rightarrow> string" where
  "chars = map (\<lambda>b. char_of (unat b))"

definition cstring :: "bytes \<Rightarrow> string option" where
  "cstring b = (if 0 \<in> set b then Some (chars (takeWhile (\<lambda>x. x \<noteq> 0) b)) else None)"

definition bytes_of :: "string \<Rightarrow> bytes" where
  "bytes_of = map (\<lambda>c. of_nat (of_char c))"

lemma chars_bytes_of [simp]: "chars (bytes_of s) = s"
  by (induction s) (simp_all add: chars_def bytes_of_def unat_of_nat)

lemma length_bytes_of [simp, len_simps]: "length (bytes_of s) = length s"
  by (simp add: bytes_of_def)

lemma bytes_of_nonzero: "CHR 0x00 \<notin> set s \<Longrightarrow> 0 \<notin> set (bytes_of s)"
proof (induction s)
  case (Cons c s)
  have "(of_nat (of_char c) :: u8) \<noteq> 0"
  proof
    assume "(of_nat (of_char c) :: u8) = 0"
    then have "unat (of_nat (of_char c) :: u8) = 0" by simp
    then have "(of_char c :: nat) = 0" by (simp add: unat_of_nat)
    then have "c = char_of (0 :: nat)" by (metis char_of_char)
    with Cons show False by (simp add: char_of_def)
  qed
  with Cons show ?case by (simp add: bytes_of_def)
qed (simp add: bytes_of_def)

lemma cstring_bytes_of [simp]:
  "CHR 0x00 \<notin> set s \<Longrightarrow> cstring (bytes_of s @ 0 # rest) = Some s"
  using bytes_of_nonzero[of s] by (auto simp: cstring_def takeWhile_append)

end
