(* ===== verification/LogServer.thy ===== *)
theory LogServer
  imports LogTable Threads CLib Proto Info
begin

text \<open>ITGLog (src/ITGLog): the log server.  Its state is the global variables of ITGLog.cpp; a
  client's signaling connection is served by channelManager in a thread of its own.\<close>

definition NO_TERMINATE :: int where "NO_TERMINATE = 0"
definition TERMINATE :: int where "TERMINATE = 1"
definition ERROR_TERMINATE :: int where "ERROR_TERMINATE = 2"
definition SIGINT :: int where "SIGINT = 2"
definition SIGTERM :: int where "SIGTERM = 15"
definition INFINITE :: nat where "INFINITE = 60000"
definition LOG_CONNECT :: u8 where "LOG_CONNECT = 1"
definition L4_PROTO_TCP :: u8 where "L4_PROTO_TCP = 1"
definition OFFSET_LOG_PORT :: nat where "OFFSET_LOG_PORT = 1000"
definition SEED_LOG_PORT :: nat where "SEED_LOG_PORT = 9003"
definition DEFAULT_LOG_PORT_SIGNALING :: nat where "DEFAULT_LOG_PORT_SIGNALING = 9001"
definition SIGNALING_SIZE :: nat where "SIGNALING_SIZE = 204"
definition INFO_SIZE :: nat where "INFO_SIZE = 144"

text \<open>signalingLog is the memory of a struct signaling: the protocol byte, the stop flag, two
  bytes of padding and the 200 bytes of the file's name.  The mutexes do not exist before
  logInit.\<close>

record log_server = world +
  flagTerm :: int
  signalSocket :: int
  memLogFile :: log_table
  logbuffer_size :: u16
  signalingLog :: bytes

definition init_server :: log_server where
  "init_server = \<lparr>hist = [], flagTerm = NO_TERMINATE, signalSocket = 0, memLogFile = init_table,
     logbuffer_size = 50, signalingLog = replicate SIGNALING_SIZE 0\<rparr>"

subsection \<open>Leaving the program\<close>

text \<open>reportErrorAndExit when flagTerm is ERROR_TERMINATE, the branch terminate itself takes.\<close>

definition report_in_terminate :: "string \<Rightarrow> ('a log_server_scheme, unit) proc" where
  "report_in_terminate msg =
     thn (sys0 (Print ''** ERROR IN TERMINATE **''))
    (thn (sys0 (Print msg)) (exit_with 1))"

definition terminate :: "os \<Rightarrow> int \<Rightarrow> ('a log_server_scheme, unit) proc" where
  "terminate os sign = (bnd (gets flagTerm) (\<lambda>flag.
   thn (cond (flag = NO_TERMINATE) (thn (upd (\<lambda>s. s\<lparr>flagTerm := TERMINATE\<rparr>))
      (bnd (mutexThreadRelease os ''mutexLog'') (\<lambda>r.
      thn (cond (r < 0) (thn (upd (\<lambda>s. s\<lparr>flagTerm := ERROR_TERMINATE\<rparr>))
        (report_in_terminate ''Cannot release Log Mutex'')))
      (bnd (gets signalSocket) (\<lambda>sock.
      thn (cond (sock \<noteq> 0) (bnd (closeSock os sock) (\<lambda>c.
        cond (c < 0) (thn (upd (\<lambda>s. s\<lparr>flagTerm := ERROR_TERMINATE\<rparr>))
          (report_in_terminate ''Cannot close socket signalSocket'')))))
      (if sign = SIGINT then sys0 (Print ''Finish with CRTL-C! '')
       else cond (sign = SIGTERM) (sys0 (Print ''Finish requested caused by errors! '')))))))))
   (exit_with 1)))"

text \<open>Another thread's error while the program terminates only sleeps; when the sleep is over the
  thread goes on after the call.\<close>

definition reportErrorAndExit :: "os \<Rightarrow> string \<Rightarrow> ('a log_server_scheme, unit) proc" where
  "reportErrorAndExit os msg =
     bnd (gets flagTerm) (\<lambda>flag.
       if flag = NO_TERMINATE then
         thn (sys0 (Print ''** ERROR **'')) (thn (sys0 (Print msg)) (terminate os SIGTERM))
       else if flag = ERROR_TERMINATE then report_in_terminate msg
       else sys0 (Sleep INFINITE))"

subsection \<open>The table of log files\<close>

text \<open>A stream that is already open cannot be opened again.  The second scan of allowedLogFile
  has no bound: with every slot in use it reads past the table.\<close>

definition open_stream :: "os \<Rightarrow> nat \<Rightarrow> string \<Rightarrow> ('a log_server_scheme, bool) proc" where
  "open_stream os i name =
     bnd (gets (\<lambda>s. is_open (memLogFile s ! i))) (\<lambda>already.
     bnd (sys os (FOpen i name)) (\<lambda>r.
     let ok = \<not> already \<and> 0 \<le> r in
     thn (upd (\<lambda>s. s\<lparr>memLogFile := slot_open i ok (memLogFile s)\<rparr>)) (ret ok)))"

definition allowedLogFile :: "os \<Rightarrow> string \<Rightarrow> ('a log_server_scheme, nat) proc" where
  "allowedLogFile os name =
     bnd (gets (\<lambda>s. find_name name (memLogFile s))) (\<lambda>found.
       case found of
         Some i \<Rightarrow>
           thn (upd (\<lambda>s. s\<lparr>memLogFile := slot_share i (memLogFile s)\<rparr>)) (ret i)
       | None \<Rightarrow>
           bnd (gets (\<lambda>s. find_free (memLogFile s))) (\<lambda>free.
             case free of
               None \<Rightarrow> fault
             | Some i \<Rightarrow>
                 bnd (open_stream os i name) (\<lambda>ok.
                 thn (cond (\<not> ok) (reportErrorAndExit os (''Error into open this file : '' @ name)))
                (thn (upd (\<lambda>s. s\<lparr>memLogFile := slot_name i name (memLogFile s)\<rparr>))
                     (ret i)))))"

text \<open>The stream closed is the one of the slot: out is the address of the slot's stream.\<close>

definition closeFileLog :: "nat \<Rightarrow> ('a log_server_scheme, unit) proc" where
  "closeFileLog i =
     bnd (gets memLogFile) (\<lambda>tab.
       if i < length tab then
         thn (upd (\<lambda>s. s\<lparr>memLogFile := slot_release i tab\<rparr>))
             (cond (num (tab ! i) = 1) (sys0 (FClose i)))
       else fault)"

subsection \<open>Ports\<close>

text \<open>The do-while loop of findPortFree; its rounds are counted by numTries, which grows with every
  failed bind.\<close>

function findPort_loop :: "os \<Rightarrow> int \<Rightarrow> nat \<Rightarrow> ('a log_server_scheme, nat \<times> nat) proc" where
  "findPort_loop os logSock numTries =
     bnd (sys os Rand) (\<lambda>r.
     let randomPort = nat r mod OFFSET_LOG_PORT + SEED_LOG_PORT in
     bnd (sys os (Bind logSock randomPort)) (\<lambda>b.
       if b < 0 \<and> numTries + 1 < OFFSET_LOG_PORT then findPort_loop os logSock (numTries + 1)
       else ret (randomPort, if b < 0 then numTries + 1 else numTries)))"
  by pat_completeness auto
termination
  by (relation "measure (\<lambda>(os, logSock, n). OFFSET_LOG_PORT - n)") auto

definition findPortFree :: "os \<Rightarrow> int \<Rightarrow> ('a log_server_scheme, nat) proc" where
  "findPortFree os logSock =
     thn (sys0 SRand)
    (bnd (findPort_loop os logSock 0) (\<lambda>(randomPort, numTries).
       if numTries > OFFSET_LOG_PORT then ret 1 else ret randomPort))"

definition createSignalingChannel :: "os \<Rightarrow> ('a log_server_scheme, unit) proc" where
  "createSignalingChannel os = (bnd (sys os (Socket 0)) (\<lambda>sock.
   thn (upd (\<lambda>s. s\<lparr>signalSocket := sock\<rparr>))
   (thn (cond (sock < 0) (reportErrorAndExit os ''Cannot create socket signalSocket''))
   (bnd (sys os (Setsockopt sock)) (\<lambda>opt.
   thn (cond (opt < 0) (reportErrorAndExit os ''Error setting socket option''))
   (bnd (sys os (Bind sock DEFAULT_LOG_PORT_SIGNALING)) (\<lambda>b.
   thn (cond (b < 0) (reportErrorAndExit os ''Cannot bind socket signalSocket''))
   (bnd (sys os (Listen sock)) (\<lambda>l.
   cond (l < 0) (reportErrorAndExit os ''Cannot listen on socket signalSocket''))))))))))"

subsection \<open>A client's session\<close>

text \<open>Receiving overwrites the front of the global signalingLog.  A name without a NUL and a
  protocol number behind the table are read out of bounds.\<close>

definition recvInfo :: "os \<Rightarrow> int \<Rightarrow> ('a log_server_scheme, u8 \<times> string) proc" where
  "recvInfo os signalingChannel = (bnd (sys os (Send signalingChannel [LOG_CONNECT])) (\<lambda>w.
   thn (cond (w < 0) (reportErrorAndExit os ''Cannot send buffer''))
   (bnd (sys_recv os signalingChannel SIGNALING_SIZE) (\<lambda>d.
   thn ((case d of
        None \<Rightarrow> reportErrorAndExit os ''Cannot receive signalingLog data''
      | Some bs \<Rightarrow> upd (\<lambda>s. s\<lparr>signalingLog := bs @ drop (length bs) (signalingLog s)\<rparr>)))
   (bnd (gets signalingLog) (\<lambda>m.
   (case (cstring (drop 4 m), invFindL4Proto (hd m)) of
        (Some name, Some pname) \<Rightarrow>
          thn (sys0 (Print (''Name Log File : '' @ name)))
         (thn (sys0 (Print (''Protocol used : '' @ pname)))
              (ret (hd m, name)))
      | _ \<Rightarrow> fault)))))))"

definition createDataChannel :: "os \<Rightarrow> int \<Rightarrow> string \<Rightarrow> ('a log_server_scheme, int \<times> nat) proc" where
  "createDataChannel os newSockSignal protocolName = (bnd (sys os (Socket (if protocolName = ''TCP'' then 1 else 2))) (\<lambda>logSock.
   thn (cond (logSock < 0)
       (reportErrorAndExit os (if protocolName = ''TCP'' then ''Cannot create STREAM socket''
                               else ''Cannot create DATAGRAM socket'')))
   (bnd (findPortFree os logSock) (\<lambda>port.
   thn (cond (port = 1) (reportErrorAndExit os ''Cannot find a port free''))
   (bnd (sys os (Send newSockSignal (u32_mem (htonl (of_nat port))))) (\<lambda>size.
   thn (cond (size < 0) (reportErrorAndExit os ''Cannot send port on newSockSignal''))
   (thn (sys0 (Print ''Receiving data on port''))
   (ret (logSock, port)))))))))"

text \<open>The first n records of a buffer converted in place.  How the compiler lays out a struct
  info in memory is the pair dec, enc.\<close>

fun convert_records :: "(bytes \<Rightarrow> info) \<Rightarrow> (info \<Rightarrow> bytes) \<Rightarrow> nat \<Rightarrow> bytes \<Rightarrow> bytes" where
  "convert_records dec enc 0 buf = buf"
| "convert_records dec enc (Suc n) buf =
     enc (info_ntoh (dec (take INFO_SIZE buf))) @
     convert_records dec enc n (drop INFO_SIZE buf)"

text \<open>The inner do-while loop of logPacketTCP: bytes are collected until they are whole records or
  recv fails, which takes one off the byte count.  The fuel bounds the number of recv calls.\<close>

fun recv_records :: "os \<Rightarrow> int \<Rightarrow> nat \<Rightarrow> nat \<Rightarrow> bytes \<Rightarrow> ('a log_server_scheme, bytes \<times> int) proc" where
  "recv_records os sock 0 dim2 got = hang"
| "recv_records os sock (Suc fuel) dim2 got =
     bnd (sys_recv os sock dim2) (\<lambda>r. case r of
       None \<Rightarrow> ret (got, int (length got) - 1)
     | Some d \<Rightarrow>
         if length (got @ d) mod INFO_SIZE = 0 then ret (got @ d, int (length (got @ d)))
         else recv_records os sock fuel (dim2 - length d) (got @ d))"

text \<open>One round of the while loop of logPacketTCP; True means another round.\<close>

definition logTCP_round :: "(bytes \<Rightarrow> info) \<Rightarrow> (info \<Rightarrow> bytes) \<Rightarrow> os \<Rightarrow> nat \<Rightarrow> int \<Rightarrow> int \<Rightarrow> nat \<Rightarrow>
    ('a log_server_scheme, bool) proc" where
  "logTCP_round dec enc os fuel newSockSignal newSockLog out = (bnd (sys_select os [newSockSignal, newSockLog]) (\<lambda>(sel, ready).
   thn (cond (sel < 0) (reportErrorAndExit os ''Close first Receiver''))
   (if ready newSockSignal then ret False
     else if ready newSockLog then (bnd (gets logbuffer_size) (\<lambda>n.
      bnd (recv_records os newSockLog fuel (unat n * INFO_SIZE) []) (\<lambda>(infos, hold).
      thn ((if hold < 0 then sys0 (Print ''** WARNING **  Data lost - Close First Receiver!'')
        else (bnd (sys os (FWrite out
                 (take (nat hold) (convert_records dec enc (nat hold div INFO_SIZE) infos)))) (\<lambda>w.
         cond (w < 0) (sys0 (Print ''** WARNING **  Can't write data!''))))))
      (ret True))))
     else ret True)))"

fun logTCP_loop :: "(bytes \<Rightarrow> info) \<Rightarrow> (info \<Rightarrow> bytes) \<Rightarrow> os \<Rightarrow> nat \<Rightarrow> nat \<Rightarrow> int \<Rightarrow> int \<Rightarrow> nat \<Rightarrow>
    ('a log_server_scheme, unit) proc" where
  "logTCP_loop dec enc os 0 fuel newSockSignal newSockLog out = hang"
| "logTCP_loop dec enc os (Suc rounds) fuel newSockSignal newSockLog out =
     bnd (logTCP_round dec enc os fuel newSockSignal newSockLog out) (\<lambda>again.
       if again then logTCP_loop dec enc os rounds fuel newSockSignal newSockLog out
       else ret ())"

definition logPacketTCP :: "(bytes \<Rightarrow> info) \<Rightarrow> (info \<Rightarrow> bytes) \<Rightarrow> os \<Rightarrow> nat \<Rightarrow> int \<Rightarrow> nat \<Rightarrow>
    ('a log_server_scheme, unit) proc" where
  "logPacketTCP dec enc os rounds newSockSignal out = (bnd (createDataChannel os newSockSignal ''TCP'') (\<lambda>(logSock, port).
   bnd (sys os (Listen logSock)) (\<lambda>l.
   thn (cond (l < 0) (reportErrorAndExit os ''Error into listen on logSock''))
   (bnd (sys os (Accept logSock)) (\<lambda>newSockLog.
   thn (cond (newSockLog < 0) (reportErrorAndExit os ''Error into accept on logSock''))
   (thn (logTCP_loop dec enc os rounds rounds newSockSignal newSockLog out)
   (thn (sys0 (Print ''Data transmission ended on TCP channel!''))
   (bnd (closeSock os logSock) (\<lambda>c.
   thn (cond (c < 0) (reportErrorAndExit os ''Cannot close logSock''))
   (bnd (closeSock os newSockLog) (\<lambda>d.
   cond (d < 0) (reportErrorAndExit os ''Cannot close newLogSock''))))))))))))"

text \<open>logPacketUDP divides the result of recv by the size of a record in unsigned 64-bit
  arithmetic and converts the quotient to int.\<close>

definition udp_dim :: "int \<Rightarrow> u32" where
  "udp_dim hold = ucast ((of_int hold :: 64 word) div of_nat INFO_SIZE)"

definition logUDP_round :: "(bytes \<Rightarrow> info) \<Rightarrow> (info \<Rightarrow> bytes) \<Rightarrow> os \<Rightarrow> int \<Rightarrow> int \<Rightarrow> nat \<Rightarrow>
    ('a log_server_scheme, bool) proc" where
  "logUDP_round dec enc os newSockSignal logSock out = (bnd (sys_select os [newSockSignal, logSock]) (\<lambda>(sel, ready).
   thn (cond (sel < 0) (reportErrorAndExit os ''Close first Receiver''))
   (if ready newSockSignal then ret False
     else if ready logSock then (bnd (gets logbuffer_size) (\<lambda>n.
      bnd (sys_recv os logSock (unat n * INFO_SIZE)) (\<lambda>r.
      let hold = (case r of None \<Rightarrow> -1 | Some d \<Rightarrow> int (length d));
           dim_infos = udp_dim hold in
       if unat dim_infos > unat n then fault
       else (thn (cond (hold < 0) (sys0 (Print ''** WARNING ** Data lost - Close First Receiver!'')))
        (bnd (sys os (FWrite out (convert_records dec enc (unat dim_infos)
                (case r of None \<Rightarrow> [] | Some d \<Rightarrow> d)))) (\<lambda>w.
        thn (cond (w < 0) (sys0 (Print ''** WARNING ** Can't write data!'')))
        (ret True)))))))
     else ret True)))"

fun logUDP_loop :: "(bytes \<Rightarrow> info) \<Rightarrow> (info \<Rightarrow> bytes) \<Rightarrow> os \<Rightarrow> nat \<Rightarrow> int \<Rightarrow> int \<Rightarrow> nat \<Rightarrow>
    ('a log_server_scheme, unit) proc" where
  "logUDP_loop dec enc os 0 newSockSignal logSock out = hang"
| "logUDP_loop dec enc os (Suc rounds) newSockSignal logSock out =
     bnd (logUDP_round dec enc os newSockSignal logSock out) (\<lambda>again.
       if again then logUDP_loop dec enc os rounds newSockSignal logSock out else ret ())"

definition logPacketUDP :: "(bytes \<Rightarrow> info) \<Rightarrow> (info \<Rightarrow> bytes) \<Rightarrow> os \<Rightarrow> nat \<Rightarrow> int \<Rightarrow> nat \<Rightarrow>
    ('a log_server_scheme, unit) proc" where
  "logPacketUDP dec enc os rounds newSockSignal out = (bnd (createDataChannel os newSockSignal ''UDP'') (\<lambda>(logSock, port).
   thn (logUDP_loop dec enc os rounds newSockSignal logSock out)
   (thn (sys0 (Print ''Data transmission ended on UDP channel''))
   (bnd (closeSock os logSock) (\<lambda>c.
   cond (c < 0) (reportErrorAndExit os ''Cannot close logSock''))))))"

text \<open>The thread of one client.  exitThread ends the thread, so that the closing of newSockSignal
  behind it is never reached.\<close>

definition channelManager :: "(bytes \<Rightarrow> info) \<Rightarrow> (info \<Rightarrow> bytes) \<Rightarrow> os \<Rightarrow> nat \<Rightarrow> int \<Rightarrow>
    ('a log_server_scheme, int) proc" where
  "channelManager dec enc os rounds newSockSignal = (bnd (recvInfo os newSockSignal) (\<lambda>(protocol, logFile).
   bnd (mutexThreadLock os ''mutexLog'') (\<lambda>a.
   thn (cond (a < 0) (reportErrorAndExit os ''Cannot lock Log Mutex''))
   (bnd (allowedLogFile os logFile) (\<lambda>fileLog.
   bnd (mutexThreadUnlock os ''mutexLog'') (\<lambda>b.
   thn (cond (b < 0) (reportErrorAndExit os ''Cannot unlock Log Mutex''))
   (thn ((if protocol = L4_PROTO_TCP then logPacketTCP dec enc os rounds newSockSignal fileLog
      else logPacketUDP dec enc os rounds newSockSignal fileLog))
   (bnd (mutexThreadLock os ''mutexLog'') (\<lambda>c.
   thn (cond (c < 0) (reportErrorAndExit os ''Cannot lock Log Mutex''))
   (thn (closeFileLog fileLog)
   (bnd (mutexThreadUnlock os ''mutexLog'') (\<lambda>d.
   thn (cond (d < 0) (reportErrorAndExit os ''Cannot unlock Log Mutex''))
   (thn (exitThread)
   (bnd (closeSock os newSockSignal) (\<lambda>e.
   thn (cond (e < 0) (reportErrorAndExit os ''Cannot close sock newSockSignal''))
   (ret 0))))))))))))))))"

subsection \<open>Start-up\<close>

definition logInit :: "os \<Rightarrow> ('a log_server_scheme, unit) proc" where
  "logInit os = (bnd (mutexThreadInit os ''mutexLog'') (\<lambda>r.
   cond (r < 0) (reportErrorAndExit os ''Cannot initialize Mutex'')))"

text \<open>Only the first option is looked at.  The character at an index of a C string that is the
  string's length is NUL.\<close>

definition char_at :: "string \<Rightarrow> nat \<Rightarrow> char" where
  "char_at s i = (if i < length s then s ! i else CHR 0x00)"

definition parserLog :: "os \<Rightarrow> string list \<Rightarrow> ('a log_server_scheme, unit) proc" where
  "parserLog os argv = (case argv of
      [] \<Rightarrow> ret ()
    | a # rest \<Rightarrow>
        if char_at a 0 = CHR ''-'' then
          (if char_at a 1 = CHR ''h'' then exit_with 1
           else if char_at a 1 = CHR ''q'' then
             (case rest of
                [] \<Rightarrow> ret ()
              | b # _ \<Rightarrow>
                  if char_at b 0 = CHR ''-'' then ret ()
                  else upd (\<lambda>s. s\<lparr>logbuffer_size := ucast (atoi b)\<rparr>))
           else reportErrorAndExit os (''Unknow option : '' @ a))
        else reportErrorAndExit os (''Unknow option : '' @ a))"

text \<open>main: the accept loop hands every connection to a new thread and never looks whether a
  slot of the thread table is left.\<close>

fun accept_loop :: "os \<Rightarrow> nat \<Rightarrow> nat \<Rightarrow> ('a log_server_scheme, unit) proc" where
  "accept_loop os 0 i = hang"
| "accept_loop os (Suc fuel) i = (bnd (gets signalSocket) (\<lambda>sock.
 bnd (sys os (Accept sock)) (\<lambda>newSockSignal.
 if newSockSignal < 0 then
       thn (reportErrorAndExit os ''Cannot accept socket newSockSignal'') (accept_loop os fuel i)
     else if i \<ge> MAX_NUM_THREAD then fault
     else (bnd (createThread os ''channelManager'' i True) (\<lambda>r.
      thn (cond (r < 0) (reportErrorAndExit os ''Cannot create thread''))
      (accept_loop os fuel (Suc i)))))))"

definition main :: "os \<Rightarrow> string list \<Rightarrow> nat \<Rightarrow> ('a log_server_scheme, unit) proc" where
  "main os argv fuel = (bnd ((if argv \<noteq> [] \<and> hd argv = ''-gui''
               then bnd (createThread os ''waitStopKey'' MAX_NUM_THREAD True) (\<lambda>_. ret (tl argv))
               else ret argv)) (\<lambda>argv1.
   thn (upd (\<lambda>s. s\<lparr>memLogFile := init_table\<rparr>))
   (thn (logInit os)
   (thn (parserLog os argv1)
   (thn (createSignalingChannel os)
   (accept_loop os fuel 0))))))"

end
