(* ===== verification/LogServer_Facts.thy ===== *)
theory LogServer_Facts
  imports LogServer
begin

text \<open>What holds of the log server: how it leaves, which ports it offers, what its record loop
  reads, what a session is told, and that the table of log files is a registry.\<close>

subsection \<open>Leaving the program\<close>

lemma log_call_fields [simp]:
  "flagTerm (log_call c s) = flagTerm s" "signalSocket (log_call c s) = signalSocket s"
  "memLogFile (log_call c s) = memLogFile s" "logbuffer_size (log_call c s) = logbuffer_size s"
  "signalingLog (log_call c s) = signalingLog s"
  by (simp_all add: log_call_def)

lemmas run_server = proc_simps thread_apply report_in_terminate_def

lemma terminate_table: "memLogFile (snd (terminate os sign s)) = memLogFile s"
  by (simp add: terminate_def run_server)

lemma terminate_exits: "fst (terminate os sign s) = Exited 1"
  by (simp add: terminate_def run_server)

lemma report_table: "memLogFile (snd (reportErrorAndExit os msg s)) = memLogFile s"
  by (simp add: reportErrorAndExit_def run_server terminate_table)

text \<open>An error is only survived by a thread that runs while another one terminates the program.\<close>

lemma report_returns:
  "fst (reportErrorAndExit os msg s) = Ret () \<Longrightarrow> flagTerm s \<noteq> NO_TERMINATE \<and> flagTerm s \<noteq> ERROR_TERMINATE"
  by (simp add: reportErrorAndExit_def run_server terminate_exits split: if_splits)

text \<open>Terminate ends the process with status 1 whatever the calls answer; the first call
  destroys the mutex and closes the signaling socket (when it was opened), and a call that
  finds the flag already set makes no further call at all.\<close>

lemma terminate_once:
  "fst (terminate os sign s) = Exited 1 \<and>
   (flagTerm s \<noteq> NO_TERMINATE \<longrightarrow> snd (terminate os sign s) = s) \<and>
   (flagTerm s = NO_TERMINATE \<longrightarrow>
      flagTerm (snd (terminate os sign s)) \<noteq> NO_TERMINATE \<and>
      MutexDestroy ''mutexLog'' \<in> set (hist (snd (terminate os sign s))) \<and>
      (os_int os (MutexDestroy ''mutexLog'' # hist s) = 0 \<and> signalSocket s \<noteq> 0 \<longrightarrow>
       Close (signalSocket s) \<in> set (hist (snd (terminate os sign s)))))"
  by (simp add: terminate_def run_server NO_TERMINATE_def TERMINATE_def ERROR_TERMINATE_def)

lemma terminate_once_example:
  "flagTerm (snd (terminate os_ok SIGINT (init_server\<lparr>signalSocket := 3\<rparr>))) \<noteq> NO_TERMINATE \<and>
   Close 3 \<in> set (hist (snd (terminate os_ok SIGINT (init_server\<lparr>signalSocket := 3\<rparr>))))"
  using terminate_once[of os_ok SIGINT "init_server\<lparr>signalSocket := 3\<rparr>"]
  by (simp add: os_ok_def init_server_def)

subsection \<open>The port of the data channel\<close>

lemma findPort_loop_result:
  assumes "n < OFFSET_LOG_PORT"
  shows "\<exists>p k s'. findPort_loop os sock n s = (Ret (p, k), s') \<and>
    SEED_LOG_PORT \<le> p \<and> p < SEED_LOG_PORT + OFFSET_LOG_PORT \<and> k \<le> OFFSET_LOG_PORT \<and>
    (\<exists>h. hist s' = Bind sock p # h) \<and>
    (0 \<le> os_int os (hist s') \<or> length (hist s') = length (hist s) + 2 * (OFFSET_LOG_PORT - n))"
  using assms
proof (induction os sock n arbitrary: s rule: findPort_loop.induct)
  case (1 os sock n)
  define p where "p = nat (os_int os (Rand # hist s)) mod OFFSET_LOG_PORT + SEED_LOG_PORT"
  define s' where "s' = log_call (Bind sock p) (log_call Rand s)"
  have h: "hist s' = Bind sock p # Rand # hist s" by (simp add: s'_def)
  have p: "SEED_LOG_PORT \<le> p" "p < SEED_LOG_PORT + OFFSET_LOG_PORT"
    by (simp_all add: p_def OFFSET_LOG_PORT_def)
  have run: "findPort_loop os sock n s =
      (if os_int os (hist s') < 0 \<and> n + 1 < OFFSET_LOG_PORT then findPort_loop os sock (n + 1) s'
       else (Ret (p, if os_int os (hist s') < 0 then n + 1 else n), s'))"
    unfolding findPort_loop.simps[of os sock n] by (simp add: proc_simps Let_def p_def s'_def)
  show ?case
  proof (cases "os_int os (hist s') < 0 \<and> n + 1 < OFFSET_LOG_PORT")
    case True
    then have "n + 1 < OFFSET_LOG_PORT" by simp
    from "1.IH"[OF refl _ this] True obtain q k t where
      "findPort_loop os sock (n + 1) s' = (Ret (q, k), t)" "SEED_LOG_PORT \<le> q"
      "q < SEED_LOG_PORT + OFFSET_LOG_PORT" "k \<le> OFFSET_LOG_PORT" "\<exists>h. hist t = Bind sock q # h"
      "0 \<le> os_int os (hist t) \<or> length (hist t) = length (hist s') + 2 * (OFFSET_LOG_PORT - (n + 1))"
      by blast
    then show ?thesis using run True h 1(2) by auto
  next
    case False
    then show ?thesis using run p h 1(2) by auto
  qed
qed

text \<open>C38: findPortFree returns after at most OFFSET_LOG_PORT attempts with a port of its range,
  and the last call it made is the bind to that port.  Either that bind succeeded, or all 1000
  attempts failed; the return value 1 that createDataChannel takes for failure never comes
  back, so in the second case the client is told a port that nobody listens on.\<close>

theorem findPortFree_result:
  "\<exists>p s'. findPortFree os sock s = (Ret p, s') \<and>
     SEED_LOG_PORT \<le> p \<and> p < SEED_LOG_PORT + OFFSET_LOG_PORT \<and> p \<noteq> 1 \<and>
     (\<exists>h. hist s' = Bind sock p # h) \<and>
     (0 \<le> os_int os (hist s') \<or> length (hist s') = length (hist s) + 1 + 2 * OFFSET_LOG_PORT)"
proof -
  have "(0 :: nat) < OFFSET_LOG_PORT" by (simp add: OFFSET_LOG_PORT_def)
  from findPort_loop_result[OF this, of os sock "log_call SRand s"] obtain p k s' where
    run: "findPort_loop os sock 0 (log_call SRand s) = (Ret (p, k), s')" "k \<le> OFFSET_LOG_PORT"
    and p: "SEED_LOG_PORT \<le> p" "p < SEED_LOG_PORT + OFFSET_LOG_PORT" "\<exists>h. hist s' = Bind sock p # h"
      "0 \<le> os_int os (hist s') \<or> length (hist s') = length (hist s) + 1 + 2 * OFFSET_LOG_PORT"
    by auto
  have "findPortFree os sock s = (Ret p, s')"
    using run by (simp add: findPortFree_def proc_simps bnd_def ret_def)
  moreover have "p \<noteq> 1" using p(1) by (simp add: SEED_LOG_PORT_def)
  ultimately show ?thesis using p by blast
qed

subsection \<open>Reading records\<close>

text \<open>At the end of a stream recv answers with no bytes; if that happens inside a record, the loop
  of logPacketTCP never leaves, however often it is run.\<close>

lemma recv_records_eof_hangs:
  assumes "\<And>h. os_data os h = Some []" "length got mod INFO_SIZE \<noteq> 0"
  shows "fst (recv_records os sock fuel dim2 got s) = Hang"
  using assms(2)
  by (induction fuel arbitrary: dim2 s) (simp_all add: proc_simps assms(1))

lemma recv_records_result:
  assumes "\<And>h. os_data os h \<noteq> Some []" "(length got + dim2) mod INFO_SIZE = 0" "0 < dim2"
    and "dim2 \<le> fuel"
  shows "\<exists>bs hold s'. recv_records os sock fuel dim2 got s = (Ret (bs, hold), s') \<and>
    length bs \<le> length got + dim2 \<and> take (length got) bs = got \<and>
    (hold = int (length bs) \<and> 0 < length bs \<and> length bs mod INFO_SIZE = 0
     \<or> hold = int (length bs) - 1)"
  using assms(2-)
proof (induction fuel arbitrary: dim2 got s)
  case (Suc fuel)
  let ?h = "Recv sock dim2 # hist s"
  show ?case
  proof (cases "os_data os ?h")
    case None
    then show ?thesis by (simp add: proc_simps)
  next
    case (Some d0)
    define d where "d = take dim2 d0"
    have d: "0 < length d" "length d \<le> dim2"
      using Some assms(1)[of ?h] Suc.prems by (auto simp: d_def)
    have run: "recv_records os sock (Suc fuel) dim2 got s =
        (if length (got @ d) mod INFO_SIZE = 0
         then (Ret (got @ d, int (length (got @ d))), log_call (Recv sock dim2) s)
         else recv_records os sock fuel (dim2 - length d) (got @ d) (log_call (Recv sock dim2) s))"
      by (simp add: proc_simps Some d_def)
    show ?thesis
    proof (cases "length (got @ d) mod INFO_SIZE = 0")
      case True
      then show ?thesis using run d by simp
    next
      case False
      then have "dim2 \<noteq> length d" using Suc.prems(1) by auto
      then have "0 < dim2 - length d" using d by linarith
      moreover have "dim2 - length d \<le> fuel" using d(1) Suc.prems(3) by linarith
      moreover have "length (got @ d) + (dim2 - length d) = length got + dim2" using d by simp
      then have "(length (got @ d) + (dim2 - length d)) mod INFO_SIZE = 0"
        using Suc.prems(1) by simp
      ultimately have "0 < dim2 - length d" "dim2 - length d \<le> fuel"
        "(length (got @ d) + (dim2 - length d)) mod INFO_SIZE = 0" by blast+
      from Suc.IH[OF this(3,1,2), of "log_call (Recv sock dim2) s"] obtain bs hold s' where r:
        "recv_records os sock fuel (dim2 - length d) (got @ d) (log_call (Recv sock dim2) s) = (Ret (bs, hold), s')"
        "length bs \<le> length (got @ d) + (dim2 - length d)" "take (length (got @ d)) bs = got @ d"
        "hold = int (length bs) \<and> 0 < length bs \<and> length bs mod INFO_SIZE = 0 \<or> hold = int (length bs) - 1"
        by (elim exE conjE) (rule that)
      have "take (length got) bs = take (length got) (take (length (got @ d)) bs)" by simp
      also have "\<dots> = got" unfolding r(3) by simp
      finally show ?thesis using run False r d by auto
    qed
  qed
qed simp

text \<open>While the sender keeps the data connection alive (no recv reports its end), the record
  loop of logPacketTCP returns after at most as many calls as the buffer has bytes, with whole
  records that fit the buffer, or with the bytes before an error and a count one too small.\<close>

lemma recv_records_whole:
  assumes "\<And>h. os_data os h \<noteq> Some []" "0 < n"
  shows "\<exists>bs hold s'. recv_records os sock (n * INFO_SIZE) (n * INFO_SIZE) [] s = (Ret (bs, hold), s') \<and>
    length bs \<le> n * INFO_SIZE \<and>
    (hold = int (length bs) \<and> 0 < length bs \<and> length bs mod INFO_SIZE = 0
     \<or> hold = int (length bs) - 1)"
  using recv_records_result[OF assms(1), of "[]" "n * INFO_SIZE" "n * INFO_SIZE" sock s] assms(2)
  by (simp add: INFO_SIZE_def)

definition os_bytewise :: os where
  "os_bytewise = os_ok\<lparr>os_data := (\<lambda>h. Some [7])\<rparr>"

lemma recv_records_whole_example:
  "\<exists>bs hold s'. recv_records os_bytewise 5 (50 * INFO_SIZE) (50 * INFO_SIZE) [] init_server
       = (Ret (bs, hold), s') \<and> length bs \<le> 50 * INFO_SIZE \<and>
    (hold = int (length bs) \<and> 0 < length bs \<and> length bs mod INFO_SIZE = 0
     \<or> hold = int (length bs) - 1)"
  by (rule recv_records_whole) (simp_all add: os_bytewise_def os_ok_def)

subsection \<open>The table of log files is a registry\<close>

text \<open>Success of allowedLogFile, and closeFileLog, as steps of the server's state.\<close>

definition open_log :: "os \<Rightarrow> string \<Rightarrow> log_server \<Rightarrow> (nat \<times> log_server) option" where
  "open_log os name s = (case allowedLogFile os name s of (Ret i, s') \<Rightarrow> Some (i, s') | _ \<Rightarrow> None)"

definition close_log :: "nat \<Rightarrow> log_server \<Rightarrow> log_server" where
  "close_log i s = snd (closeFileLog i s)"

lemma open_stream_apply:
  "open_stream os i name s =
     (Ret (\<not> is_open (memLogFile s ! i) \<and> 0 \<le> os_int os (FOpen i name # hist s)),
      (log_call (FOpen i name) s)\<lparr>memLogFile :=
         slot_open i (\<not> is_open (memLogFile s ! i) \<and> 0 \<le> os_int os (FOpen i name # hist s)) (memLogFile s)\<rparr>)"
  by (simp add: open_stream_def proc_simps Let_def log_call_def)

lemma allowedLogFile_shared:
  "find_name n (memLogFile s) = Some i \<Longrightarrow>
   allowedLogFile os n s = (Ret i, s\<lparr>memLogFile := slot_share i (memLogFile s)\<rparr>)"
  by (simp add: allowedLogFile_def proc_simps)

lemma allowedLogFile_new:
  assumes "find_name n (memLogFile s) = None" "allowedLogFile os n s = (Ret i, s')"
  shows "find_free (memLogFile s) = Some i \<and>
    (\<exists>ok. memLogFile s' = slot_name i n (slot_open i ok (memLogFile s)))"
proof (cases "find_free (memLogFile s)")
  case None
  then show ?thesis using assms by (simp add: allowedLogFile_def proc_simps)
next
  case (Some j)
  define ok where "ok = (\<not> is_open (memLogFile s ! j) \<and> 0 \<le> os_int os (FOpen j n # hist s))"
  define t where "t = (log_call (FOpen j n) s)\<lparr>memLogFile := slot_open j ok (memLogFile s)\<rparr>"
  have st: "open_stream os j n s = (Ret ok, t)"
    by (simp add: open_stream_apply ok_def t_def)
  have t: "memLogFile t = slot_open j ok (memLogFile s)" by (simp add: t_def)
  have run: "allowedLogFile os n s =
      bnd (cond (\<not> ok) (reportErrorAndExit os (''Error into open this file : '' @ n))) (\<lambda>_.
        bnd (upd (\<lambda>s. s\<lparr>memLogFile := slot_name j n (memLogFile s)\<rparr>)) (\<lambda>_. ret j)) t"
    using assms(1) Some by (simp add: allowedLogFile_def proc_simps bnd_def[of "open_stream os j n"] st)
  obtain r u where u: "cond (\<not> ok) (reportErrorAndExit os (''Error into open this file : '' @ n)) t = (r, u)"
    by fastforce
  have mu: "memLogFile u = memLogFile t"
    using u report_table[of os "''Error into open this file : '' @ n" t]
    by (simp add: cond_apply split: if_splits)
  have "r = Ret ()" using assms(2) run u by (cases r) (auto simp: bnd_def)
  then have "i = j \<and> s' = u\<lparr>memLogFile := slot_name j n (memLogFile u)\<rparr>"
    using assms(2) run u by (auto simp: bnd_def upd_def ret_def)
  then show ?thesis using Some mu t by auto
qed

lemma open_log_step:
  assumes "table_inv (memLogFile s)" "n \<noteq> '' ''" "open_log os n s = Some (i, s')"
  shows "table_step (memLogFile s) (memLogFile s') i (Some n) n (Suc (refs (memLogFile s) n))"
    and "owner (memLogFile s) i = None \<or> owner (memLogFile s) i = Some n"
proof -
  have run: "allowedLogFile os n s = (Ret i, s')"
    using assms(3) by (auto simp: open_log_def split: prod.splits out.splits)
  have "table_step (memLogFile s) (memLogFile s') i (Some n) n (Suc (refs (memLogFile s) n)) \<and>
    (owner (memLogFile s) i = None \<or> owner (memLogFile s) i = Some n)"
  proof (cases "find_name n (memLogFile s)")
    case (Some j)
    then have "i = j" "memLogFile s' = slot_share i (memLogFile s)"
      using run allowedLogFile_shared[OF Some, of os] by auto
    moreover have "owner (memLogFile s) j = Some n"
      using Some find_name_owner[OF assms(1,2)] by simp
    ultimately show ?thesis using slot_share_step[OF assms(1)] by simp
  next
    case None
    from allowedLogFile_new[OF None run] obtain ok where
      "find_free (memLogFile s) = Some i" "memLogFile s' = slot_name i n (slot_open i ok (memLogFile s))"
      by blast
    then show ?thesis using slot_new_step[OF assms(1) _ assms(2) None] by simp
  qed
  then show "table_step (memLogFile s) (memLogFile s') i (Some n) n (Suc (refs (memLogFile s) n))"
    and "owner (memLogFile s) i = None \<or> owner (memLogFile s) i = Some n" by auto
qed

lemma close_log_step:
  assumes "table_inv (memLogFile s)" "owner (memLogFile s) i = Some n"
  shows "table_step (memLogFile s) (memLogFile (close_log i s)) i
    (if refs (memLogFile s) n = 1 then None else Some n) n (refs (memLogFile s) n - 1)"
proof -
  have "i < length (memLogFile s)" using assms(2) by (auto simp: owner_def split: if_splits)
  then have "memLogFile (close_log i s) = slot_release i (memLogFile s)"
    by (simp add: close_log_def closeFileLog_def proc_simps)
  then show ?thesis using slot_release_step[OF assms] by simp
qed

interpretation lserv: shared_registry "\<lambda>n s h s'. \<exists>os. open_log os n s = Some (h, s')" "\<lambda>h s s'. s' = close_log h s" "\<lambda>n. n \<noteq> '' ''" "\<lambda>s. table_inv (memLogFile s)"
  "\<lambda>s. owner (memLogFile s)" "\<lambda>s. refs (memLogFile s)"
  by unfold_locales (auto simp: table_step_def dest: open_log_step[rotated 2] close_log_step)

lemma server_accounts: "lserv.accounts init_server []"
proof -
  have "refs init_table n = 0" for n
    by (auto simp: refs_def find_name_def init_table_def free_slot_def
        split: option.splits dest!: scan_Some)
  then show ?thesis by (simp add: lserv.accounts_def init_server_def table_inv_init)
qed

text \<open>C22: however the threads of the log server's clients open and close log files, a thread that
  has a file open holds the slot of exactly that file, and the slot's user count is the number
  of threads that have it open (names of one blank apart).\<close>

theorem server_sessions:
  assumes "lserv.sessions init_server [] s live"
  shows "((h, n) \<in> set live \<longrightarrow> owner (memLogFile s) h = Some n) \<and>
    (n \<noteq> '' '' \<longrightarrow> refs (memLogFile s) n = length (filter (\<lambda>(h, m). m = n) live))"
  using lserv.sessions_own[OF assms server_accounts] lserv.sessions_users[OF assms server_accounts]
  by blast

text \<open>Witness: two clients share a file, a third has one of its own, and the first leaves.\<close>

definition log_demo1 :: log_server where
  "log_demo1 = snd (the (open_log os_ok ''a.log'' init_server))"
definition log_demo2 :: log_server where
  "log_demo2 = snd (the (open_log os_ok ''a.log'' log_demo1))"
definition log_demo3 :: log_server where
  "log_demo3 = snd (the (open_log os_ok ''b.log'' log_demo2))"
definition log_demo4 :: log_server where
  "log_demo4 = close_log 0 log_demo3"

lemma log_demo_open:
  "open_log os_ok ''a.log'' init_server = Some (0, log_demo1)"
  "open_log os_ok ''a.log'' log_demo1 = Some (0, log_demo2)"
  "open_log os_ok ''b.log'' log_demo2 = Some (1, log_demo3)"
  by code_simp+

lemma log_demo_sessions:
  "lserv.sessions init_server [] log_demo4 [(1, ''b.log''), (0, ''a.log'')]"
proof -
  have "lserv.sessions init_server [] log_demo3 [(1, ''b.log''), (0, ''a.log''), (0, ''a.log'')]"
    by (rule lserv.sessions_open lserv.sessions_refl exI log_demo_open | simp)+
  from lserv.sessions_close[OF this, of 0 "''a.log''" log_demo4] show ?thesis
    by (simp add: log_demo4_def)
qed

theorem server_sessions_witness:
  "owner (memLogFile log_demo4) 0 = Some ''a.log'' \<and> refs (memLogFile log_demo4) ''a.log'' = 1"
  using server_sessions[OF log_demo_sessions, of 0 "''a.log''"] by simp

end
