(* ===== verification/PacketRecv.thy ===== *)
theory PacketRecv
  imports OS
begin

text \<open>TCPrecvPacket and SCTPrecvPacket of src/common/ITG.h: reading one packet of a flow from a
  byte stream.  A packet starts with a preamble; the standard and the short preamble hold the
  packet's size, and the rest of the packet is read and thrown away.\<close>

definition PL_STANDARD :: int where "PL_STANDARD = 0"
definition PL_SHORT :: int where "PL_SHORT = 1"
definition PL_NONE :: int where "PL_NONE = 2"
definition MAX_PAYLOAD_SIZE :: nat where "MAX_PAYLOAD_SIZE = 64000"

text \<open>The loop that completes the preamble: recv for what is missing until nothing is.  Some is
  the value the function returns when recv fails (-1) or the stream ends (0), beside the bytes
  of the preamble received so far.\<close>

function recv_preamble :: "os \<Rightarrow> int \<Rightarrow> nat \<Rightarrow> bytes \<Rightarrow> ('a world_scheme, int option \<times> bytes) proc" where
  "recv_preamble os sock need acc =
     bnd (sys_recv os sock need) (\<lambda>r. case r of
       None \<Rightarrow> ret (Some (-1), acc)
     | Some d \<Rightarrow>
         if d = [] then ret (Some 0, acc)
         else if 0 < need - length d then recv_preamble os sock (need - length d) (acc @ d)
         else ret (None, acc @ d))"
  by pat_completeness auto
termination
  by (relation "measure (\<lambda>(os, sock, need, acc). need)") auto

text \<open>The loop over the rest of the packet; recv writes what it gets into a buffer of
  MAX_PAYLOAD_SIZE bytes, from its start.\<close>

function recv_payload :: "os \<Rightarrow> int \<Rightarrow> nat \<Rightarrow> ('a world_scheme, int option) proc" where
  "recv_payload os sock need =
     (if need = 0 then ret None
      else bnd (sys_recv os sock need) (\<lambda>r. case r of
        None \<Rightarrow> ret (Some (-1))
      | Some d \<Rightarrow>
          if d = [] then ret (Some 0)
          else if length d > MAX_PAYLOAD_SIZE then fault
          else recv_payload os sock (need - length d)))"
  by pat_completeness auto
termination
  by (relation "measure (\<lambda>(os, sock, need). need)") auto

declare recv_preamble.simps [simp del] recv_payload.simps [simp del]

text \<open>The offset of the size field; without one the pointer is null.\<close>

definition size_offset :: "int \<Rightarrow> nat option" where
  "size_offset payloadLogType =
     (if payloadLogType = PL_STANDARD then Some (4 * 4)
      else if payloadLogType = PL_SHORT then Some (2 * 4) else None)"

definition size_field :: "bytes \<Rightarrow> nat \<Rightarrow> int" where
  "size_field payload off = sint (ntohl (mem_u32 (drop off payload)))"

text \<open>The first recv of the payload: its result and the size of the packet.  The size is read
  through the pointer whenever the type is not PL_NONE.\<close>

definition recv_first :: "os \<Rightarrow> int \<Rightarrow> int \<Rightarrow> int \<Rightarrow> bytes \<Rightarrow> ('a world_scheme, int \<times> int) proc" where
  "recv_first os newSock sizePreamble payloadLogType payload =
     (if payloadLogType \<noteq> PL_NONE then
        (case size_offset payloadLogType of
           None \<Rightarrow> fault
         | Some off \<Rightarrow>
             let sz = size_field payload off in
             if sz > sizePreamble then (bnd (sys_recv os newSock (nat (sz - sizePreamble))) (\<lambda>r.
              case r of
                 None \<Rightarrow> ret (-1, sz)
               | Some d \<Rightarrow> if length d > MAX_PAYLOAD_SIZE then fault else ret (int (length d), sz)))
             else ret (0, sz))
      else (bnd (sys_recv os newSock MAX_PAYLOAD_SIZE) (\<lambda>r.
       let size_p = (case r of None \<Rightarrow> -1 | Some d \<Rightarrow> int (length d)) in
        ret (size_p, size_p))))"

text \<open>The result is the packet's size, 0 at the end of the stream or -1 on an error, and the
  payload buffer.\<close>

definition TCPrecvPacket :: "os \<Rightarrow> bytes \<Rightarrow> int \<Rightarrow> nat \<Rightarrow> int \<Rightarrow> ('a world_scheme, int \<times> bytes) proc" where
  "TCPrecvPacket os payload newSock preambleSize payloadLogType = (bnd (sys_recv os newSock preambleSize) (\<lambda>r.
   case r of
     None \<Rightarrow> ret (-1, payload)
   | Some d \<Rightarrow>
       if d = [] then ret (0, payload)
       else (bnd ((if length d < preambleSize then recv_preamble os newSock (preambleSize - length d) d
                    else ret (None, d))) (\<lambda>(e, pre).
        let payload' = pre @ drop (length pre) payload in
       case e of
         Some c \<Rightarrow> ret (c, payload')
       | None \<Rightarrow> (bnd (recv_first os newSock (int preambleSize) payloadLogType payload') (\<lambda>(size_p, sz).
        if size_p \<le> 0 then ret (size_p, payload')
           else if size_p < sz - int preambleSize then (bnd (recv_payload os newSock (nat (sz - int preambleSize - size_p))) (\<lambda>f.
            ret (case f of None \<Rightarrow> (sz, payload') | Some c \<Rightarrow> (c, payload'))))
           else ret (sz, payload')))))))"

subsection \<open>SCTP\<close>

text \<open>The SCTP variant returns 1 or 2 on an error, goes on when a stream ends, asks for the whole
  preamble and the whole payload again in its loops, and copies the later pieces of the
  preamble from a buffer that nothing has been received into (its content is a parameter);
  both loops are bounded by a number of rounds.\<close>

primrec sctp_preamble :: "os \<Rightarrow> int \<Rightarrow> nat \<Rightarrow> nat \<Rightarrow> nat \<Rightarrow> bytes \<Rightarrow> nat \<Rightarrow> bytes \<Rightarrow>
    ('a world_scheme, int option \<times> bytes) proc" where
  "sctp_preamble os sock 0 sizePreamble size_prec stale off payload = hang"
| "sctp_preamble os sock (Suc fuel) sizePreamble size_prec stale off payload =
     (if sizePreamble > size_prec then
        bnd (sys_recv os sock sizePreamble) (\<lambda>r. case r of
          None \<Rightarrow> ret (Some 1, payload)
        | Some d \<Rightarrow>
            let payload1 = d @ drop (length d) payload;
                piece = take (length d) (drop off stale);
                payload2 = take size_prec payload1 @ piece @ drop (size_prec + length piece) payload1
            in sctp_preamble os sock fuel sizePreamble (size_prec + length d) stale
                 (off + length d) payload2)
      else ret (None, payload))"

primrec sctp_payload :: "os \<Rightarrow> int \<Rightarrow> nat \<Rightarrow> int \<Rightarrow> int \<Rightarrow> ('a world_scheme, int option) proc" where
  "sctp_payload os sock 0 want size_prec = hang"
| "sctp_payload os sock (Suc fuel) want size_prec =
     (if size_prec < want then
        bnd (sys_recv os sock (nat want)) (\<lambda>r. case r of
          None \<Rightarrow> ret (Some 2)
        | Some d \<Rightarrow>
            if length d > MAX_PAYLOAD_SIZE then fault
            else sctp_payload os sock fuel want (size_prec + int (length d)))
      else ret None)"

definition SCTPrecvPacket :: "os \<Rightarrow> bytes \<Rightarrow> nat \<Rightarrow> bytes \<Rightarrow> int \<Rightarrow> nat \<Rightarrow> int \<Rightarrow>
    ('a world_scheme, int \<times> bytes) proc" where
  "SCTPrecvPacket os stale fuel payload newSock preambleSize payloadLogType = (bnd (sys_recv os newSock preambleSize) (\<lambda>r.
   case r of
     None \<Rightarrow> ret (1, payload)
   | Some d \<Rightarrow>
       let payload1 = d @ drop (length d) payload in (bnd ((if length d < preambleSize
              then sctp_preamble os newSock fuel preambleSize (length d) stale 0 payload1
              else ret (None, payload1))) (\<lambda>(e, payload2).
        case e of
         Some c \<Rightarrow> ret (c, payload2)
       | None \<Rightarrow> (bnd (recv_first os newSock (int preambleSize) payloadLogType payload2) (\<lambda>(size_p, sz).
        if size_p < 0 then ret (2, payload2)
           else if size_p < sz - int preambleSize then (bnd (sctp_payload os newSock fuel (sz - int preambleSize) size_p) (\<lambda>f.
            ret (case f of None \<Rightarrow> (sz, payload2) | Some c \<Rightarrow> (c, payload2))))
           else ret (sz, payload2)))))))"

subsection \<open>A byte stream, however it is cut\<close>

text \<open>The interface: position pos of the history in the stream X; every recv delivers the next
  bytes, at least one while there are any and any are asked for.\<close>

locale byte_stream =
  fixes os :: os and sock :: int and X :: bytes and pos :: "call list \<Rightarrow> nat"
  assumes recv_next: "\<exists>k. k \<le> n \<and> pos (Recv sock n # h) = pos h + k \<and> pos h + k \<le> length X \<and>
      map_option (take n) (os_data os (Recv sock n # h)) = Some (take k (drop (pos h) X)) \<and>
      (0 < n \<and> pos h < length X \<longrightarrow> 0 < k)"
begin

lemma recv_step:
  assumes "0 < n" "pos (hist s) + n \<le> length X"
  obtains k s' where "0 < k" "k \<le> n" "pos (hist s') = pos (hist s) + k"
    "sys_recv os sock n s = (Ret (Some (take k (drop (pos (hist s)) X))), s')"
    "length (take k (drop (pos (hist s)) X)) = k"
proof -
  from recv_next[of n "hist s"] obtain k where "k \<le> n"
    "pos (Recv sock n # hist s) = pos (hist s) + k" "pos (hist s) + k \<le> length X"
    "map_option (take n) (os_data os (Recv sock n # hist s)) = Some (take k (drop (pos (hist s)) X))"
    "0 < n \<and> pos (hist s) < length X \<longrightarrow> 0 < k" by blast
  then show thesis
    using assms by (intro that[of k "log_call (Recv sock n) s"]) (auto simp: proc_simps)
qed

end

end
