(* ===== verification/PacketRecv_Facts.thy ===== *)
theory PacketRecv_Facts
  imports PacketRecv
begin

text \<open>Reading a packet does not depend on how the stream is cut into segments.\<close>

text \<open>What is left of TCPrecvPacket when the preamble is complete.\<close>

definition after_preamble :: "os \<Rightarrow> int \<Rightarrow> nat \<Rightarrow> int \<Rightarrow> bytes \<Rightarrow> ('a world_scheme, int \<times> bytes) proc" where
  "after_preamble os sock pre ty pl = bnd (recv_first os sock (int pre) ty pl) (\<lambda>(size_p, sz).
     if size_p \<le> 0 then ret (size_p, pl)
     else if size_p < sz - int pre then bnd (recv_payload os sock (nat (sz - int pre - size_p))) (\<lambda>f.
       ret (case f of None \<Rightarrow> (sz, pl) | Some c \<Rightarrow> (c, pl)))
     else ret (sz, pl))"

context byte_stream begin

lemma recv_preamble_stream:
  assumes "0 < need" "pos (hist s) + need \<le> length X"
  shows "\<exists>s'. recv_preamble os sock need acc s =
      (Ret (None, acc @ take need (drop (pos (hist s)) X)), s') \<and> pos (hist s') = pos (hist s) + need"
  using assms
proof (induction need arbitrary: acc s rule: less_induct)
  case (less need)
  from less.prems obtain k t where k: "0 < k" "k \<le> need" "pos (hist t) = pos (hist s) + k"
    and r: "sys_recv os sock need s = (Ret (Some (take k (drop (pos (hist s)) X))), t)"
    and len: "length (take k (drop (pos (hist s)) X)) = k"
    by (rule recv_step)
  let ?d = "take k (drop (pos (hist s)) X)"
  have "?d \<noteq> []" using len k(1) by force
  then have run: "recv_preamble os sock need acc s =
      (if 0 < need - k then recv_preamble os sock (need - k) (acc @ ?d) t else (Ret (None, acc @ ?d), t))"
    unfolding recv_preamble.simps[of os sock need] bnd_Ret[of "sys_recv os sock need" s, OF r]
    by (simp add: proc_simps len del: length_take)
  show ?case
  proof (cases "0 < need - k")
    case False
    then have "need = k" using k(2) by simp
    then show ?thesis using run k(3) False by simp
  next
    case True
    then obtain s' where "recv_preamble os sock (need - k) (acc @ ?d) t =
        (Ret (None, (acc @ ?d) @ take (need - k) (drop (pos (hist t)) X)), s')"
      "pos (hist s') = pos (hist t) + (need - k)"
      using less.IH[of "need - k" t "acc @ ?d"] k less.prems by auto
    moreover have "?d @ take (need - k) (drop (pos (hist t)) X) = take need (drop (pos (hist s)) X)"
      using take_add[of k "need - k" "drop (pos (hist s)) X"] k by (simp add: add.commute)
    ultimately show ?thesis using run True k by simp
  qed
qed

lemma recv_payload_stream:
  assumes "pos (hist s) + need \<le> length X" "need \<le> MAX_PAYLOAD_SIZE"
  shows "\<exists>s'. recv_payload os sock need s = (Ret None, s') \<and> pos (hist s') = pos (hist s) + need"
  using assms
proof (induction need arbitrary: s rule: less_induct)
  case (less need)
  show ?case
  proof (cases "need = 0")
    case True then show ?thesis by (simp add: recv_payload.simps proc_simps)
  next
    case False
    with less.prems obtain k t where k: "0 < k" "k \<le> need" "pos (hist t) = pos (hist s) + k"
      and r: "sys_recv os sock need s = (Ret (Some (take k (drop (pos (hist s)) X))), t)"
      and len: "length (take k (drop (pos (hist s)) X)) = k"
      using recv_step[of need s] by (metis bot_nat_0.not_eq_extremum)
    have "take k (drop (pos (hist s)) X) \<noteq> []" using len k(1) by force
    then have "recv_payload os sock need s = recv_payload os sock (need - k) t"
      using False k(2) less.prems(2)
      by (subst recv_payload.simps)
         (simp add: if_apply bnd_Ret[of "sys_recv os sock need" s, OF r] len del: length_take)
    moreover have "need - k \<le> MAX_PAYLOAD_SIZE" using less.prems(2) by linarith
    with less.IH[of "need - k" t] obtain s' where
      "recv_payload os sock (need - k) t = (Ret None, s')" "pos (hist s') = pos (hist t) + (need - k)"
      using k less.prems by auto
    ultimately show ?thesis using k by simp
  qed
qed

lemma preamble_complete:
  assumes "0 < k" "k \<le> n" "pos (hist t) = p + k" "p + n \<le> length X"
  shows "\<exists>s'. (if k < n then recv_preamble os sock (n - k) (take k (drop p X))
               else ret (None, take k (drop p X))) t
     = (Ret (None, take n (drop p X)), s') \<and> pos (hist s') = p + n"
proof (cases "k < n")
  case True
  then obtain s' where "recv_preamble os sock (n - k) (take k (drop p X)) t =
      (Ret (None, take k (drop p X) @ take (n - k) (drop (p + k) X)), s')"
      "pos (hist s') = p + n"
    using recv_preamble_stream[of "n - k" t "take k (drop p X)"] assms by auto
  moreover have "take k (drop p X) @ take (n - k) (drop (p + k) X) = take n (drop p X)"
    using take_add[of k "n - k" "drop p X"] assms by (simp add: add.commute)
  ultimately show ?thesis using True by simp
next
  case False
  then show ?thesis using assms by (simp add: proc_simps)
qed

lemma recv_first_stream:
  assumes "size_offset ty = Some off" "size_field payload off = int sz" "pre < sz"
    and "sz \<le> pre + MAX_PAYLOAD_SIZE" "pos (hist s) + (sz - pre) \<le> length X"
  shows "\<exists>k s'. recv_first os sock (int pre) ty payload s = (Ret (int k, int sz), s') \<and>
     0 < k \<and> k \<le> sz - pre \<and> pos (hist s') = pos (hist s) + k"
proof -
  from assms obtain k t where k: "0 < k" "k \<le> sz - pre" "pos (hist t) = pos (hist s) + k"
    and r: "sys_recv os sock (sz - pre) s = (Ret (Some (take k (drop (pos (hist s)) X))), t)"
    and len: "length (take k (drop (pos (hist s)) X)) = k"
    using recv_step[of "sz - pre" s] by (metis zero_less_diff)
  have ty: "ty \<noteq> PL_NONE" using assms(1)
    by (auto simp: size_offset_def PL_NONE_def PL_STANDARD_def PL_SHORT_def split: if_splits)
  have n: "nat (int sz - int pre) = sz - pre" by simp
  have "\<not> MAX_PAYLOAD_SIZE < k" using assms(4) k(2) by linarith
  have "recv_first os sock (int pre) ty payload s = (Ret (int k, int sz), t)"
    unfolding recv_first_def assms(1) option.case assms(2) Let_def n if_P[OF ty]
    using assms(3) \<open>\<not> MAX_PAYLOAD_SIZE < k\<close>
    by (simp add: if_apply bnd_Ret[of "sys_recv os sock (sz - pre)" s, OF r] len ret_apply
        del: length_take)
  with k show ?thesis by blast
qed

lemma TCPrecvPacket_preamble:
  assumes "0 < pre" "pos (hist s) + pre \<le> length X"
  shows "\<exists>t. pos (hist t) = pos (hist s) + pre \<and> TCPrecvPacket os payload sock pre ty s =
    after_preamble os sock pre ty (take pre (drop (pos (hist s)) X) @ drop pre payload) t"
proof -
  define p where "p = pos (hist s)"
  define P where "P = take pre (drop p X)"
  have lP: "length P = pre" using assms(2) by (simp add: P_def p_def)
  from assms obtain k t where k: "0 < k" "k \<le> pre" "pos (hist t) = p + k"
    and r: "sys_recv os sock pre s = (Ret (Some (take k (drop p X))), t)"
    and len: "length (take k (drop p X)) = k"
    unfolding p_def by (rule recv_step)
  have kne: "take k (drop p X) \<noteq> []" using len k(1) by force
  obtain t2 where t2: "(if k < pre then recv_preamble os sock (pre - k) (take k (drop p X))
      else ret (None, take k (drop p X))) t = (Ret (None, P), t2)" "pos (hist t2) = p + pre"
    using preamble_complete[OF k(1,2,3)] assms(2) by (auto simp: P_def p_def)
  have "TCPrecvPacket os payload sock pre ty s = after_preamble os sock pre ty (P @ drop pre payload) t2"
    unfolding TCPrecvPacket_def bnd_Ret[of "sys_recv os sock pre" s, OF r] option.case if_not_P[OF kne]
      len bnd_Ret[of "if k < pre then recv_preamble os sock (pre - k) (take k (drop p X))
        else ret (None, take k (drop p X))" t, OF t2(1)] prod.case Let_def lP after_preamble_def ..
  then show ?thesis using t2(2) by (auto simp: P_def p_def)
qed

text \<open>A packet that is longer than its preamble is read to its end; of one that is not, nothing is left
  to read, and the result is 0.\<close>

lemma after_preamble_sized:
  assumes "size_offset ty = Some off" "size_field pl off = int sz" "pre \<le> sz"
    and "sz \<le> pre + MAX_PAYLOAD_SIZE" "pos (hist s) + (sz - pre) \<le> length X"
  shows "\<exists>s'. after_preamble os sock pre ty pl s = (Ret (if sz = pre then 0 else int sz, pl), s') \<and>
    pos (hist s') = pos (hist s) + (sz - pre)"
proof (cases "sz = pre")
  case True
  have "ty \<noteq> PL_NONE" using assms(1)
    by (auto simp: size_offset_def PL_NONE_def PL_STANDARD_def PL_SHORT_def split: if_splits)
  then show ?thesis using True assms(1,2) by (simp add: after_preamble_def recv_first_def proc_simps)
next
  case False
  then have less: "pre < sz" using assms(3) by simp
  obtain k t where k: "0 < k" "k \<le> sz - pre" "pos (hist t) = pos (hist s) + k"
    and f: "recv_first os sock (int pre) ty pl s = (Ret (int k, int sz), t)"
    using recv_first_stream[OF assms(1,2) less assms(4,5)] by blast
  have need: "nat (int sz - int pre - int k) = sz - pre - k" by simp
  have "sz - pre - k \<le> MAX_PAYLOAD_SIZE" using assms(4) by linarith
  then obtain t4 where t4: "recv_payload os sock (sz - pre - k) t = (Ret None, t4)" "pos (hist t4) = pos (hist s) + (sz - pre)"
    using recv_payload_stream[of t "sz - pre - k"] k assms(5) by auto
  have "k < sz - pre \<longleftrightarrow> int k < int sz - int pre" using less by linarith
  then have "after_preamble os sock pre ty pl s = (if k < sz - pre then (Ret (int sz, pl), t4) else (Ret (int sz, pl), t))"
    unfolding after_preamble_def bnd_Ret[of "recv_first os sock (int pre) ty pl" s, OF f] prod.case need if_apply
      bnd_Ret[of "recv_payload os sock (sz - pre - k)" t, OF t4(1)] ret_apply
    using k(1) by simp
  moreover have "pos (hist t) = pos (hist s) + (sz - pre)" if "\<not> k < sz - pre" using that k by simp
  ultimately show ?thesis using t4(2) False by auto
qed

lemma TCPrecvPacket_sized:
  assumes "size_offset ty = Some off" "off + 4 \<le> pre" "pre \<le> sz" "sz \<le> pre + MAX_PAYLOAD_SIZE"
    and "pos (hist s) + sz \<le> length X"
    and "size_field (take pre (drop (pos (hist s)) X)) off = int sz"
  shows "\<exists>s'. TCPrecvPacket os payload sock pre ty s =
      (Ret (if sz = pre then 0 else int sz, take pre (drop (pos (hist s)) X) @ drop pre payload), s') \<and>
    pos (hist s') = pos (hist s) + sz"
proof -
  let ?P = "take pre (drop (pos (hist s)) X)"
  have "0 < pre" "pos (hist s) + pre \<le> length X" using assms(2,3,5) by linarith+
  then obtain t where t: "pos (hist t) = pos (hist s) + pre"
    "TCPrecvPacket os payload sock pre ty s = after_preamble os sock pre ty (?P @ drop pre payload) t"
    using TCPrecvPacket_preamble by blast
  have "length ?P = pre" using assms(3,5) by simp
  then have "size_field (?P @ drop pre payload) off = int sz"
    using assms(2,6) by (simp add: size_field_def mem_u32_append)
  from after_preamble_sized[OF assms(1) this assms(3,4), of t] t show ?thesis
    using assms(3,5) by auto
qed

text \<open>Without a size field, one recv more decides where the packet ends.\<close>

lemma TCPrecvPacket_unsized:
  assumes "0 < pre" "pos (hist s) + pre \<le> length X"
  shows "\<exists>t. pos (hist t) = pos (hist s) + pre \<and> (\<forall>d t'. sys_recv os sock MAX_PAYLOAD_SIZE t = (Ret (Some d), t') \<longrightarrow>
    TCPrecvPacket os payload sock pre PL_NONE s =
      (Ret (int (length d), take pre (drop (pos (hist s)) X) @ drop pre payload), t'))"
proof -
  let ?pl = "take pre (drop (pos (hist s)) X) @ drop pre payload"
  obtain t where t: "pos (hist t) = pos (hist s) + pre"
    "TCPrecvPacket os payload sock pre PL_NONE s = after_preamble os sock pre PL_NONE ?pl t"
    using TCPrecvPacket_preamble[OF assms] by blast
  have "after_preamble os sock pre PL_NONE ?pl t = (Ret (int (length d), ?pl), t')"
    if "sys_recv os sock MAX_PAYLOAD_SIZE t = (Ret (Some d), t')" for d t'
    using that by (simp add: after_preamble_def recv_first_def bnd_bnd bnd_Ret[of "sys_recv os sock MAX_PAYLOAD_SIZE" t, OF that] Let_def bnd_prim(1) ret_apply)
  with t show ?thesis by auto
qed

end

subsection \<open>The stream of a connection\<close>

text \<open>The bytes X arrive on the socket in pieces: at its call with history h, recv gets at most
  f h bytes (at least one) of what is left.  The function f is arbitrary, so that it stands for
  every way the network cuts the stream.\<close>

fun delivered :: "bytes \<Rightarrow> (call list \<Rightarrow> nat) \<Rightarrow> int \<Rightarrow> call list \<Rightarrow> nat" where
  "delivered X f sock [] = 0"
| "delivered X f sock (c # h) =
     (case c of
        Recv s n \<Rightarrow>
          if s = sock then delivered X f sock h +
            min (min n (max 1 (f (c # h)))) (length X - delivered X f sock h)
          else delivered X f sock h
      | _ \<Rightarrow> delivered X f sock h)"

definition cut_os :: "os \<Rightarrow> bytes \<Rightarrow> (call list \<Rightarrow> nat) \<Rightarrow> int \<Rightarrow> os" where
  "cut_os base X f sock = base\<lparr>os_data := (\<lambda>h. case h of
      Recv s n # h' \<Rightarrow>
        if s = sock then Some (take (max 1 (f h)) (drop (delivered X f sock h') X)) else os_data base h
    | _ \<Rightarrow> os_data base h)\<rparr>"

lemma delivered_le: "delivered X f sock h \<le> length X"
  by (induction h) (auto split: call.splits)

lemma take_clip: "take n xs = take (min n (length xs)) xs"
  by (simp add: min_def)

interpretation cut: byte_stream "cut_os base X f sock" sock X "delivered X f sock" for base X f sock
proof unfold_locales
  fix n h
  let ?p = "delivered X f sock h"
  let ?k = "min (min n (max 1 (f (Recv sock n # h)))) (length X - ?p)"
  have "map_option (take n) (os_data (cut_os base X f sock) (Recv sock n # h)) =
      Some (take n (take (max 1 (f (Recv sock n # h))) (drop ?p X)))"
    by (simp add: cut_os_def)
  also have "take n (take (max 1 (f (Recv sock n # h))) (drop ?p X)) = take ?k (drop ?p X)"
    unfolding take_take by (subst take_clip) simp
  finally show "\<exists>k. k \<le> n \<and> delivered X f sock (Recv sock n # h) = ?p + k \<and> ?p + k \<le> length X \<and>
      map_option (take n) (os_data (cut_os base X f sock) (Recv sock n # h)) = Some (take k (drop ?p X)) \<and>
      (0 < n \<and> ?p < length X \<longrightarrow> 0 < k)"
    using delivered_le[of X f sock h] by (intro exI[of _ ?k]) auto
qed

text \<open>A packet at the start of R: n bytes, not less than the preamble, whose size field says n.\<close>

definition packet_at :: "int \<Rightarrow> nat \<Rightarrow> bytes \<Rightarrow> nat \<Rightarrow> bool" where
  "packet_at ty pre R n \<longleftrightarrow> (case size_offset ty of None \<Rightarrow> False | Some off \<Rightarrow>
     off + 4 \<le> pre \<and> pre \<le> n \<and> n \<le> pre + MAX_PAYLOAD_SIZE \<and> n \<le> length R \<and> size_field R off = int n)"

text \<open>What the recv with the history h takes from a stream of which r bytes are left, when it asks for n
  bytes.\<close>

definition piece :: "(call list \<Rightarrow> nat) \<Rightarrow> int \<Rightarrow> nat \<Rightarrow> nat \<Rightarrow> call list \<Rightarrow> nat" where
  "piece f sock n r h = min (min n (max 1 (f (Recv sock n # h)))) r"

lemma cut_recv:
  "sys_recv (cut_os base X f sock) sock n s = (Ret (Some (take (piece f sock n (length X - delivered X f sock (hist s)) (hist s))
     (drop (delivered X f sock (hist s)) X))), log_call (Recv sock n) s)"
proof -
  let ?p = "delivered X f sock (hist s)"
  have "take n (take (max 1 (f (Recv sock n # hist s))) (drop ?p X)) =
      take (min (min n (max 1 (f (Recv sock n # hist s)))) (length X - ?p)) (drop ?p X)"
    unfolding take_take by (subst take_clip) simp
  then show ?thesis by (simp add: proc_simps cut_os_def piece_def)
qed

text \<open>C1: what TCPrecvPacket makes of the segments in which TCP delivers the bytes R.  When R starts with a
  packet whose size field holds its length, the segments do not matter: the function returns that
  length, or 0 if the packet is no longer than its preamble (its caller takes this for the end of
  the stream), leaves the preamble at the start of the payload buffer, and has taken the packet and
  nothing behind it from the stream.  Without a size field (PL_NONE) the segments decide: the result
  is the number of bytes that one recv gets behind the preamble, so that every number up to the size
  of the buffer can come out.\<close>

theorem TCPrecvPacket_any_cut:
  assumes "drop (delivered X f sock (hist s)) X = R"
  shows "(packet_at ty pre R n \<longrightarrow> (\<exists>s'. TCPrecvPacket (cut_os base X f sock) payload sock pre ty s =
        (Ret (if n = pre then 0 else int n, take pre R @ drop pre payload), s') \<and>
      delivered X f sock (hist s') = delivered X f sock (hist s) + n)) \<and>
    (0 < pre \<and> pre \<le> length R \<longrightarrow> (\<exists>h s'. TCPrecvPacket (cut_os base X f sock) payload sock pre PL_NONE s =
        (Ret (int (piece f sock MAX_PAYLOAD_SIZE (length R - pre) h), take pre R @ drop pre payload), s') \<and>
      delivered X f sock (hist s') = delivered X f sock (hist s) + pre + piece f sock MAX_PAYLOAD_SIZE (length R - pre) h))"
proof (intro conjI impI)
  let ?p = "delivered X f sock (hist s)"
  have len: "length R = length X - ?p" "?p \<le> length X" using assms delivered_le by auto
  show "\<exists>s'. TCPrecvPacket (cut_os base X f sock) payload sock pre ty s =
        (Ret (if n = pre then 0 else int n, take pre R @ drop pre payload), s') \<and> delivered X f sock (hist s') = ?p + n"
    if "packet_at ty pre R n"
  proof -
    from that obtain off where off: "size_offset ty = Some off" "off + 4 \<le> pre" "pre \<le> n" "n \<le> pre + MAX_PAYLOAD_SIZE"
      "n \<le> length R" "size_field R off = int n" by (auto simp: packet_at_def split: option.splits)
    have "size_field (take pre R @ drop pre R) off = size_field (take pre R) off"
      using off(2,3,5) by (simp add: size_field_def mem_u32_append del: append_take_drop_id)
    then have "size_field (take pre (drop ?p X)) off = int n" using off(6) assms by simp
    moreover have "?p + n \<le> length X" using off(5) len by simp
    ultimately show ?thesis
      using cut.TCPrecvPacket_sized[OF off(1-4), where X = X and f = f and sock = sock and s = s and base = base and payload = payload] assms by simp
  qed
  show "\<exists>h s'. TCPrecvPacket (cut_os base X f sock) payload sock pre PL_NONE s =
        (Ret (int (piece f sock MAX_PAYLOAD_SIZE (length R - pre) h), take pre R @ drop pre payload), s') \<and>
      delivered X f sock (hist s') = ?p + pre + piece f sock MAX_PAYLOAD_SIZE (length R - pre) h"
    if "0 < pre \<and> pre \<le> length R"
  proof -
    have "0 < pre" "?p + pre \<le> length X" using that len by linarith+
    from cut.TCPrecvPacket_unsized[OF this, where base = base and payload = payload] obtain t where
      t: "delivered X f sock (hist t) = ?p + pre" and run: "\<And>d t'. sys_recv (cut_os base X f sock) sock MAX_PAYLOAD_SIZE t =
        (Ret (Some d), t') \<Longrightarrow> TCPrecvPacket (cut_os base X f sock) payload sock pre PL_NONE s =
        (Ret (int (length d), take pre R @ drop pre payload), t')" using assms by blast
    have r: "length X - delivered X f sock (hist t) = length R - pre" using t len by simp
    let ?k = "piece f sock MAX_PAYLOAD_SIZE (length R - pre) (hist t)"
    have "?k \<le> length R - pre" by (simp add: piece_def)
    then have d: "length (take ?k (drop (delivered X f sock (hist t)) X)) = ?k" using r by simp
    from run[OF cut_recv] have "TCPrecvPacket (cut_os base X f sock) payload sock pre PL_NONE s =
        (Ret (int ?k, take pre R @ drop pre payload), log_call (Recv sock MAX_PAYLOAD_SIZE) t)"
      unfolding r d by simp
    moreover have "delivered X f sock (hist (log_call (Recv sock MAX_PAYLOAD_SIZE) t)) = ?p + pre + ?k"
      using t r by (simp add: log_call_def piece_def)
    ultimately show ?thesis by blast
  qed
qed

text \<open>Witness: a standard packet of 24 bytes that arrives in pieces of at most 7, with another
  packet behind it; and the same bytes read without a size field, of which 7 are taken for the packet.\<close>

definition demo_packet :: bytes where
  "demo_packet = concat (map (\<lambda>w. u32_mem (htonl w)) [1, 9, 50400, 999999, 24]) @ [1, 2, 3, 4]"

theorem TCPrecvPacket_any_cut_witness:
  "(\<exists>s'. TCPrecvPacket (cut_os os_ok (demo_packet @ demo_packet) (\<lambda>h. 7) 5) (replicate 64 0) 5 20 PL_STANDARD
       (\<lparr>hist = []\<rparr> :: world) = (Ret (24, take 20 demo_packet @ replicate 44 0), s') \<and>
    delivered (demo_packet @ demo_packet) (\<lambda>h. 7) 5 (hist s') = 24) \<and>
   (\<exists>s'. TCPrecvPacket (cut_os os_ok (demo_packet @ demo_packet) (\<lambda>h. 7) 5) (replicate 64 0) 5 4 PL_NONE
       (\<lparr>hist = []\<rparr> :: world) = (Ret (7, take 4 demo_packet @ replicate 60 0), s'))"
proof -
  have l: "length demo_packet = 24" by code_simp
  have "size_field (demo_packet @ demo_packet) 16 = 24" by code_simp
  then have p: "packet_at PL_STANDARD 20 (demo_packet @ demo_packet) 24"
    using l by (simp add: packet_at_def size_offset_def MAX_PAYLOAD_SIZE_def)
  have "drop (delivered (demo_packet @ demo_packet) (\<lambda>h. 7) 5 (hist (\<lparr>hist = []\<rparr> :: world)))
     (demo_packet @ demo_packet) = demo_packet @ demo_packet" by simp
  note cut = TCPrecvPacket_any_cut[OF this, where base = os_ok and payload = "replicate 64 0"]
  have k: "piece (\<lambda>h. 7) 5 MAX_PAYLOAD_SIZE (length (demo_packet @ demo_packet) - 4) h = 7" for h
    using l by (simp add: piece_def MAX_PAYLOAD_SIZE_def)
  show ?thesis
  proof (rule conjI)
    from conjunct1[OF cut] p show "\<exists>s'. TCPrecvPacket (cut_os os_ok (demo_packet @ demo_packet) (\<lambda>h. 7) 5) (replicate 64 0) 5 20
         PL_STANDARD (\<lparr>hist = []\<rparr> :: world) = (Ret (24, take 20 demo_packet @ replicate 44 0), s') \<and>
       delivered (demo_packet @ demo_packet) (\<lambda>h. 7) 5 (hist s') = 24" using l by fastforce
    from conjunct2[OF cut, of 4] show "\<exists>s'. TCPrecvPacket (cut_os os_ok (demo_packet @ demo_packet) (\<lambda>h. 7) 5) (replicate 64 0) 5 4
         PL_NONE (\<lparr>hist = []\<rparr> :: world) = (Ret (7, take 4 demo_packet @ replicate 60 0), s')"
      unfolding k using l by auto
  qed
qed

text \<open>The SCTP variant does depend on the segments: when the preamble arrives in two pieces, the
  second piece overwrites the first in the payload and what lies at its place is the content
  that the local buffer happened to have.\<close>

lemma SCTPrecvPacket_cut_garbled:
  "(case fst (SCTPrecvPacket (cut_os os_ok demo_packet (\<lambda>h. 12) 5) (replicate 64 0) 9 (replicate 64 0)
        5 20 PL_STANDARD (\<lparr>hist = []\<rparr> :: world)) of
      Ret (r, payload) \<Rightarrow> take 20 payload \<noteq> take 20 demo_packet \<and> r \<noteq> 24
    | _ \<Rightarrow> False)"
  by code_simp

end
