(* ===== verification/RecvState.thy ===== *)
theory RecvState
  imports LogTable Threads CLib Proto Info Net PacketRecv
begin

text \<open>ITGRecv (src/ITGRecv/ITGRecv.cpp): the global variables and those of one signaling thread,
  with the functions on log files, acknowledgements and errors that its handlers share.  The
  modelled build has MULTIPORT on and SCTP and DCCP off.  Other threads are seen through the
  answers of the calls only.\<close>

subsection \<open>Constants\<close>

definition TSP_CONNECT :: u8 where "TSP_CONNECT = 1"
definition TSP_ACK_CONNECT :: u8 where "TSP_ACK_CONNECT = 2"
definition TSP_SEND_FLOW :: u8 where "TSP_SEND_FLOW = 3"
definition TSP_CLOSED_FLOW :: u8 where "TSP_CLOSED_FLOW = 4"
definition TSP_ACK_SEND_FLOW :: u8 where "TSP_ACK_SEND_FLOW = 5"
definition TSP_ACK_CLOSED_FLOW :: u8 where "TSP_ACK_CLOSED_FLOW = 6"
definition TSP_ACK_RELEASE :: u8 where "TSP_ACK_RELEASE = 7"
definition TSP_DISCOVERY :: u8 where "TSP_DISCOVERY = 8"
definition TSP_RELEASE :: u8 where "TSP_RELEASE = 11"
definition TSP_SEND_FLOW_LOG :: u8 where "TSP_SEND_FLOW_LOG = 12"
definition TSP_ACK_SEND_FLOW_LOG :: u8 where "TSP_ACK_SEND_FLOW_LOG = 13"
definition TSP_ERR_MSG_1 :: u8 where "TSP_ERR_MSG_1 = 14"
definition TSP_ERR_MSG_2 :: u8 where "TSP_ERR_MSG_2 = 15"
definition TSP_ERR_MSG_3 :: u8 where "TSP_ERR_MSG_3 = 16"
definition TSP_CLOSED_ERR :: u8 where "TSP_CLOSED_ERR = 17"
definition TSP_ACK_SEND_NAME_LOG :: u8 where "TSP_ACK_SEND_NAME_LOG = 18"
definition TSP_SEND_NAME_LOG :: u8 where "TSP_SEND_NAME_LOG = 19"
definition TSP_SENDER_DOWN :: u8 where "TSP_SENDER_DOWN = 20"
definition TSP_ERR_MSG_4 :: u8 where "TSP_ERR_MSG_4 = 21"
definition TSP_ERR_MSG_5 :: u8 where "TSP_ERR_MSG_5 = 22"

definition L4_TCP :: u8 where "L4_TCP = 1"
definition L4_UDP :: u8 where "L4_UDP = 2"
definition L4_ICMP :: u8 where "L4_ICMP = 3"
definition L3_PROTO_IPv4 :: u8 where "L3_PROTO_IPv4 = 4"
definition L3_PROTO_IPv6 :: u8 where "L3_PROTO_IPv6 = 6"
definition DIM_NAME_SERIAL_INTERFACE :: nat where "DIM_NAME_SERIAL_INTERFACE = 10"
definition StandardMinPayloadSize :: int where "StandardMinPayloadSize = 4 * 4"
definition ShortMinPayloadSize :: int where "ShortMinPayloadSize = 2 * 4"
definition NoneMinPayloadSize :: int where "NoneMinPayloadSize = 4"

definition R_NO_TERMINATE :: int where "R_NO_TERMINATE = 0"
definition R_TERMINATE :: int where "R_TERMINATE = 1"
definition R_ERROR_TERMINATE :: int where "R_ERROR_TERMINATE = 2"

datatype msg_code = MSG_FT_OK | MSG_FT_ERR1 | MSG_FT_ERR2 | MSG_FT_ERR_SOCK | MSG_FT_OTHER

subsection \<open>State\<close>

text \<open>A log stream is the global stream out, a slot of memLogFile or the null pointer.\<close>

datatype log_ref = GlobalOut | LogSlot nat | NoLog

text \<open>One position of the tables flowIdNum, paraThread and hThr of a signaling thread.\<close>

record flow_slot =
  idNum :: int
  idProto :: u8
  hThr :: "nat option"
  p_flowId :: int
  p_l7Proto :: u8
  destHost :: sockaddr
  iface :: "string option"
  addressInfos :: "info list option"
  count :: int
  sockFd :: int
  socketClose :: int
  p_meter :: u8
  p_dsByte :: u8
  fileLog :: log_ref
  p_logSock :: int
  serial :: bytes
  preambleSize :: int
  payloadLogType :: int
  portForPssv :: u16
  indexPort :: u16

record sharedSocketType =
  shSocket :: int
  inUse :: int

record recv_state = world +
  r_flagTerm :: int
  logCheck :: int
  logRemote :: int
  r_buffer_size :: u16
  r_memLogFile :: log_table
  r_outOpen :: bool
  passiveMode :: bool
  passiveSender :: sockaddr
  globalBindAddr :: "sockaddr option"
  globaleLogHost :: sockaddr
  globaleLogSock :: int
  globaleLogSockSignaling :: int
  defaultLogPortSignaling :: u16
  r_gui :: bool
  sharedTcp :: "u16 \<Rightarrow> sharedSocketType"
  sharedUdp :: "u16 \<Rightarrow> sharedSocketType"
  slots :: "flow_slot list"
  numFlow :: int
  fileDescriptor :: log_ref
  nameFileLog :: bytes
  protocolLog :: u8
  logHost :: sockaddr
  logSock :: int
  logSockSignaling :: int

definition upd_slot :: "nat \<Rightarrow> (flow_slot \<Rightarrow> flow_slot) \<Rightarrow> 'a recv_state_scheme \<Rightarrow> 'a recv_state_scheme" where
  "upd_slot k f s = s\<lparr>slots := (slots s)[k := f (slots s ! k)]\<rparr>"

subsection \<open>Leaving the program\<close>

definition r_report_in_terminate :: "string \<Rightarrow> ('a recv_state_scheme, unit) proc" where
  "r_report_in_terminate msg = (thn (sys0 (Print ''** ERROR_TERMINATE IN TERMINATE **''))
   (thn (sys0 (Print msg))
   (exit_with 1)))"

definition r_fail_in_terminate :: "bool \<Rightarrow> string \<Rightarrow> ('a recv_state_scheme, unit) proc" where
  "r_fail_in_terminate failed msg = cond failed (thn (upd (\<lambda>s. s\<lparr>r_flagTerm := R_ERROR_TERMINATE\<rparr>))
   (r_report_in_terminate msg))"

text \<open>The message that stops the logging: a struct signaling of which only stop is set.\<close>

definition stop_message :: "os \<Rightarrow> call list \<Rightarrow> bytes" where
  "stop_message os h = (junk os h 204)[1 := 1]"

definition r_terminate :: "os \<Rightarrow> int \<Rightarrow> ('a recv_state_scheme, unit) proc" where
  "r_terminate os sign = (bnd (gets r_flagTerm) (\<lambda>flag.
   thn (cond (flag = R_NO_TERMINATE) (thn (upd (\<lambda>s. s\<lparr>r_flagTerm := R_TERMINATE\<rparr>))
      (bnd (gets id) (\<lambda>s.
      thn ((if logCheck s = 1 then thn (upd (\<lambda>s. s\<lparr>r_outOpen := False\<rparr>)) (sys0 (FClose MAX_NUM_THREAD))
        else cond (logRemote s = 1) (bnd (sys os (Send (globaleLogSockSignaling s) (stop_message os (hist s)))) (\<lambda>a.
         thn (r_fail_in_terminate (a < 0) ''Cannot send to LogServer info about stopping signaling'')
         (bnd (closeSock os (globaleLogSock s)) (\<lambda>b.
         thn (r_fail_in_terminate (b < 0) ''Cannot close socket logSock'')
         (bnd (closeSock os (globaleLogSockSignaling s)) (\<lambda>c.
         r_fail_in_terminate (c < 0) ''Cannot close socket logSockSignaling''))))))))
      (bnd (mutexThreadRelease os ''mutexLog'') (\<lambda>d.
      thn (r_fail_in_terminate (d < 0) ''Cannot release Log Mutex'')
      (bnd (mutexThreadRelease os ''mutexLogRem'') (\<lambda>e.
      thn (r_fail_in_terminate (e < 0) ''Cannot release Remote Log Mutex '')
      ((if sign = 2 then sys0 (Print ''Finish with CTRL-C! '')
        else cond (sign = 15) (sys0 (Print ''Finish requested caused by errors! ''))))))))))))
   (bnd (gets r_gui) (\<lambda>g.
   thn (cond g (sys0 (PthreadCancel MAX_NUM_THREAD)))
   (exit_with 0)))))"

definition r_report :: "os \<Rightarrow> string \<Rightarrow> ('a recv_state_scheme, unit) proc" where
  "r_report os msg = (bnd (gets r_flagTerm) (\<lambda>flag.
   if flag = R_NO_TERMINATE then (thn (sys0 (Print ''** ERROR_TERMINATE **''))
      (thn (sys0 (Print msg))
      (r_terminate os 15)))
     else if flag = R_ERROR_TERMINATE then r_report_in_terminate msg
     else sys0 (Sleep 60000)))"

definition r_check :: "os \<Rightarrow> bool \<Rightarrow> string \<Rightarrow> ('a recv_state_scheme, unit) proc" where
  "r_check os failed msg = cond failed (r_report os msg)"

subsection \<open>Log files\<close>

text \<open>Both scans are bounded here.  The second one looks at the slot behind the table before it
  tests the bound; whatever is found there, it ends with the index MAX_NUM_THREAD.\<close>

definition r_open_stream :: "os \<Rightarrow> nat \<Rightarrow> string \<Rightarrow> ('a recv_state_scheme, bool) proc" where
  "r_open_stream os i name = (bnd (gets (\<lambda>s. is_open (r_memLogFile s ! i))) (\<lambda>already.
   bnd (sys os (FOpen i name)) (\<lambda>r.
   thn (upd (\<lambda>s. s\<lparr>r_memLogFile := slot_open i (\<not> already \<and> 0 \<le> r) (r_memLogFile s)\<rparr>))
   (gets (\<lambda>s. is_open (r_memLogFile s ! i))))))"

definition r_allowedLogFile :: "os \<Rightarrow> string \<Rightarrow> ('a recv_state_scheme, nat option) proc" where
  "r_allowedLogFile os name = (bnd (gets (\<lambda>s. find_name name (r_memLogFile s))) (\<lambda>found.
   case found of
       Some i \<Rightarrow> thn (upd (\<lambda>s. s\<lparr>r_memLogFile := slot_share i (r_memLogFile s)\<rparr>)) (ret (Some i))
     | None \<Rightarrow> (bnd (gets (\<lambda>s. find_free (r_memLogFile s))) (\<lambda>free.
      case free of
           None \<Rightarrow> thn (r_report os ''maximum number of log file reached'') (ret None)
         | Some i \<Rightarrow> (bnd (r_open_stream os i name) (\<lambda>ok.
          thn (r_check os (\<not> ok) (''Error into open this file : '' @ name))
          (thn (upd (\<lambda>s. s\<lparr>r_memLogFile := slot_name i name (r_memLogFile s)\<rparr>))
          (ret (Some i)))))))))"

text \<open>Releasing a pointer that is no slot, such as the address of out, does nothing.\<close>

definition r_closeFileLog :: "log_ref \<Rightarrow> ('a recv_state_scheme, unit) proc" where
  "r_closeFileLog out = (case out of
      LogSlot i \<Rightarrow> (bnd (gets r_memLogFile) (\<lambda>tab.
       cond (i < MAX_NUM_THREAD) (thn (upd (\<lambda>s. s\<lparr>r_memLogFile := slot_release i tab\<rparr>))
         (cond (num (tab ! i) = 1) (thn (sys0 (FFlush i)) (sys0 (FClose i)))))))
    | _ \<Rightarrow> ret ())"

subsection \<open>Acknowledgements\<close>

definition sendAck :: "os \<Rightarrow> int \<Rightarrow> u8 \<Rightarrow> ('a recv_state_scheme, int) proc" where
  "sendAck os signaling typeMessage = (bnd (sys os (Send signaling [typeMessage])) (\<lambda>r.
   ret (if r < 0 then -1 else 0)))"

definition ackFlow_message :: "u8 \<Rightarrow> int \<Rightarrow> u16 \<Rightarrow> bytes" where
  "ackFlow_message typeMessage fid openedPort =
     [typeMessage] @ u32_mem (htonl (of_int fid)) @
     (if typeMessage = TSP_ACK_SEND_FLOW then u16_mem (htons openedPort) else [])"

definition sendAckFlow :: "os \<Rightarrow> int \<Rightarrow> u8 \<Rightarrow> int \<Rightarrow> u16 \<Rightarrow> ('a recv_state_scheme, int) proc" where
  "sendAckFlow os signaling typeMessage fid openedPort = (bnd (sys os (Send signaling (ackFlow_message typeMessage fid openedPort))) (\<lambda>r.
   ret (if r < 0 then -1 else 0)))"

text \<open>recv into a local variable of n bytes, errors reported with a message.\<close>

definition recv_var :: "os \<Rightarrow> int \<Rightarrow> nat \<Rightarrow> string \<Rightarrow> ('a recv_state_scheme, bytes) proc" where
  "recv_var os sock n msg = (bnd (gets (\<lambda>s. junk os (hist s) n)) (\<lambda>old.
   bnd (sys_recv os sock n) (\<lambda>r.
   case r of
       None \<Rightarrow> thn (r_report os msg) (ret old)
     | Some d \<Rightarrow> ret (d @ drop (length d) old))))"

end
