(* ===== verification/RecvLog_Facts.thy ===== *)
theory RecvLog_Facts
  imports RecvState
begin

text \<open>The log files of ITGRecv are a registry of the same kind as those of the log server; and how
  the receiver leaves.\<close>

subsection \<open>Leaving the program\<close>

lemma recv_log_call [simp]:
  "r_memLogFile (log_call c s) = r_memLogFile s" "r_flagTerm (log_call c s) = r_flagTerm s"
  by (simp_all add: log_call_def)

lemmas run_receiver_defs = thread_apply r_report_in_terminate_def r_fail_in_terminate_def

lemma keeps_r_terminate: "keeps (\<lambda>s. r_memLogFile s = tab) (r_terminate os sign)"
  unfolding r_terminate_def run_receiver_defs
  by (intro keeps_intros keeps_upd keeps_sys; simp)

lemma keeps_r_report: "keeps (\<lambda>s. r_memLogFile s = tab) (r_report os msg)"
  unfolding r_report_def run_receiver_defs
  by (intro keeps_intros keeps_upd keeps_sys keeps_r_terminate; simp)

lemma r_report_table: "r_memLogFile (snd (r_report os msg s)) = r_memLogFile s"
  using keeps_r_report[of "r_memLogFile s" os msg] unfolding keeps_def by blast

subsection \<open>Log files as a registry\<close>

definition r_open_log :: "os \<Rightarrow> string \<Rightarrow> recv_state \<Rightarrow> (nat \<times> recv_state) option" where
  "r_open_log os name s = (case r_allowedLogFile os name s of (Ret (Some i), s') \<Rightarrow> Some (i, s') | _ \<Rightarrow> None)"

definition r_close_log :: "nat \<Rightarrow> recv_state \<Rightarrow> recv_state" where
  "r_close_log i s = snd (r_closeFileLog (LogSlot i) s)"

lemma r_allowedLogFile_shared:
  "find_name n (r_memLogFile s) = Some i \<Longrightarrow>
   r_allowedLogFile os n s = (Ret (Some i), s\<lparr>r_memLogFile := slot_share i (r_memLogFile s)\<rparr>)"
  by (simp add: r_allowedLogFile_def proc_simps)

lemma r_open_stream_apply:
  "\<exists>b s'. r_open_stream os i n s = (Ret b, s') \<and> (\<exists>ok. r_memLogFile s' = slot_open i ok (r_memLogFile s))"
  by (auto simp: r_open_stream_def proc_simps)

lemma r_allowedLogFile_new:
  assumes "find_name n (r_memLogFile s) = None" "r_allowedLogFile os n s = (Ret (Some i), s')"
  shows "find_free (r_memLogFile s) = Some i \<and>
    (\<exists>ok. r_memLogFile s' = slot_name i n (slot_open i ok (r_memLogFile s)))"
proof (cases "find_free (r_memLogFile s)")
  case None
  then show ?thesis using assms
    by (auto simp: r_allowedLogFile_def proc_simps bnd_def ret_def split: prod.splits out.splits)
next
  case (Some j)
  from r_open_stream_apply[of os j n s] obtain b t ok where
    st: "r_open_stream os j n s = (Ret b, t)" and t: "r_memLogFile t = slot_open j ok (r_memLogFile s)" by blast
  obtain r u where u: "r_check os (\<not> b) (''Error into open this file : '' @ n) t = (r, u)" by fastforce
  have mu: "r_memLogFile u = r_memLogFile t"
    using u r_report_table[of os "''Error into open this file : '' @ n" t]
    by (simp add: r_check_def cond_apply split: if_splits)
  have run: "r_allowedLogFile os n s =
      bnd (r_check os (\<not> b) (''Error into open this file : '' @ n)) (\<lambda>_.
        bnd (upd (\<lambda>s. s\<lparr>r_memLogFile := slot_name j n (r_memLogFile s)\<rparr>)) (\<lambda>_. ret (Some j))) t"
    using assms(1) Some by (simp add: r_allowedLogFile_def proc_simps bnd_def[of "r_open_stream os j n"] st)
  have "r = Ret ()" using assms(2) run u by (cases r) (auto simp: bnd_def)
  then have "i = j \<and> s' = u\<lparr>r_memLogFile := slot_name j n (r_memLogFile u)\<rparr>"
    using assms(2) run u by (auto simp: bnd_def upd_def ret_def)
  then show ?thesis using Some mu t by auto
qed

lemma r_open_log_step:
  assumes "table_inv (r_memLogFile s)" "n \<noteq> '' ''" "r_open_log os n s = Some (i, s')"
  shows "table_step (r_memLogFile s) (r_memLogFile s') i (Some n) n (Suc (refs (r_memLogFile s) n)) \<and>
    (owner (r_memLogFile s) i = None \<or> owner (r_memLogFile s) i = Some n)"
proof -
  have run: "r_allowedLogFile os n s = (Ret (Some i), s')"
    using assms(3) by (auto simp: r_open_log_def split: prod.splits out.splits option.splits)
  show ?thesis
  proof (cases "find_name n (r_memLogFile s)")
    case (Some j)
    then have "i = j" "r_memLogFile s' = slot_share i (r_memLogFile s)"
      using run r_allowedLogFile_shared[OF Some, of os] by auto
    moreover have "owner (r_memLogFile s) j = Some n"
      using Some find_name_owner[OF assms(1,2)] by simp
    ultimately show ?thesis using slot_share_step[OF assms(1)] by simp
  next
    case None
    from r_allowedLogFile_new[OF None run] obtain ok where
      "find_free (r_memLogFile s) = Some i" "r_memLogFile s' = slot_name i n (slot_open i ok (r_memLogFile s))"
      by blast
    then show ?thesis using slot_new_step[OF assms(1) _ assms(2) None] by simp
  qed
qed

lemma r_close_log_step:
  assumes "table_inv (r_memLogFile s)" "owner (r_memLogFile s) i = Some n"
  shows "table_step (r_memLogFile s) (r_memLogFile (r_close_log i s)) i
    (if refs (r_memLogFile s) n = 1 then None else Some n) n (refs (r_memLogFile s) n - 1)"
proof -
  have "i < length (r_memLogFile s)" using assms(2) by (auto simp: owner_def split: if_splits)
  moreover have "length (r_memLogFile s) = MAX_NUM_THREAD" using assms(1) by (auto dest: table_invD)
  ultimately have "r_memLogFile (r_close_log i s) = slot_release i (r_memLogFile s)"
    by (simp add: r_close_log_def r_closeFileLog_def proc_simps)
  then show ?thesis using slot_release_step[OF assms] by simp
qed

interpretation rlog: shared_registry "\<lambda>n s h s'. \<exists>os. r_open_log os n s = Some (h, s')" "\<lambda>h s s'. s' = r_close_log h s" "\<lambda>n. n \<noteq> '' ''"
  "\<lambda>s. table_inv (r_memLogFile s)" "\<lambda>s. owner (r_memLogFile s)" "\<lambda>s. refs (r_memLogFile s)"
  by unfold_locales (auto simp: table_step_def dest: r_open_log_step[rotated 2] r_close_log_step)

lemma receiver_accounts:
  assumes "r_memLogFile s = init_table"
  shows "rlog.accounts s []"
proof -
  have "refs init_table n = 0" for n
    by (auto simp: refs_def find_name_def init_table_def free_slot_def
        split: option.splits dest!: scan_Some)
  then show ?thesis using assms by (simp add: rlog.accounts_def table_inv_init)
qed

text \<open>As long as no call of allowedLogFile or closeFileLog overlaps another, the sessions of the
  receiver are those of the log server: a thread that has a file open holds the slot of that file,
  and the slot counts the threads that have it open.  The receiver does nothing to keep the calls
  apart: RecvLog_Threads has what its threads do when they overlap.\<close>

lemma receiver_sessions:
  assumes "rlog.sessions s0 [] s live" "r_memLogFile s0 = init_table"
  shows "((h, n) \<in> set live \<longrightarrow> owner (r_memLogFile s) h = Some n) \<and>
    (n \<noteq> '' '' \<longrightarrow> refs (r_memLogFile s) n = length (filter (\<lambda>(h, m). m = n) live))"
  using rlog.sessions_own[OF assms(1) receiver_accounts[OF assms(2)]]
    rlog.sessions_users[OF assms(1) receiver_accounts[OF assms(2)]] by blast

text \<open>An example: two senders name the same file, and one of them leaves.\<close>

definition init_receiver :: recv_state where
  "init_receiver = \<lparr>hist = [], r_flagTerm = R_NO_TERMINATE, logCheck = 0, logRemote = 0, r_buffer_size = 50,
     r_memLogFile = init_table, r_outOpen = False, passiveMode = False, passiveSender = any_addr,
     globalBindAddr = None, globaleLogHost = any_addr, globaleLogSock = 0, globaleLogSockSignaling = 0,
     defaultLogPortSignaling = 9001, r_gui = False, sharedTcp = (\<lambda>p. \<lparr>shSocket = 0, inUse = 0\<rparr>),
     sharedUdp = (\<lambda>p. \<lparr>shSocket = 0, inUse = 0\<rparr>), slots = [], numFlow = 0, fileDescriptor = GlobalOut,
     nameFileLog = [], protocolLog = 0, logHost = any_addr, logSock = 0, logSockSignaling = 0\<rparr>"

definition rlog_demo1 :: recv_state where
  "rlog_demo1 = snd (the (r_open_log os_ok ''r.log'' init_receiver))"
definition rlog_demo2 :: recv_state where
  "rlog_demo2 = snd (the (r_open_log os_ok ''r.log'' rlog_demo1))"

lemma rlog_demo_open:
  "r_open_log os_ok ''r.log'' init_receiver = Some (0, rlog_demo1)"
  "r_open_log os_ok ''r.log'' rlog_demo1 = Some (0, rlog_demo2)"
  by code_simp+

lemma rlog_demo_sessions:
  "rlog.sessions init_receiver [] (r_close_log 0 rlog_demo2) [(0, ''r.log'')]"
proof -
  have "rlog.sessions init_receiver [] rlog_demo2 [(0, ''r.log''), (0, ''r.log'')]"
    by (rule rlog.sessions_open rlog.sessions_refl exI rlog_demo_open | simp)+
  from rlog.sessions_close[OF this, of 0 "''r.log''" "r_close_log 0 rlog_demo2"] show ?thesis by simp
qed

lemma receiver_sessions_example:
  "owner (r_memLogFile (r_close_log 0 rlog_demo2)) 0 = Some ''r.log'' \<and>
   refs (r_memLogFile (r_close_log 0 rlog_demo2)) ''r.log'' = 1"
  using receiver_sessions[OF rlog_demo_sessions, of 0 "''r.log''"] by (simp add: init_receiver_def)

end
