(* ===== verification/RecvLog_Threads.thy ===== *)
theory RecvLog_Threads
  imports RecvLog_Facts
begin

text \<open>allowedLogFile and closeFileLog of src/ITGRecv/ITGRecv.cpp as the signaling threads of the
  receiver execute them: without a mutex, one access to the shared table memLogFile at a time.  One
  step is one test, one load or one store; strcmp, strcpy and the open of the stream count as one,
  which leaves out interleavings but adds none.\<close>

subsection \<open>Steps\<close>

datatype log_pc =
    Look nat
  | Load nat
  | Store nat int
  | Seek nat
  | Open nat
  | Opened nat
  | SetNum nat
  | SetName nat
  | Got nat
  | Full
  | NotOpened

text \<open>The first loop looks for the name (Look), and num++ is a load and a store.  The second loop looks
  for a free slot (Seek); the stream of the slot is opened and tested, and num and logFile are set.
  A file that cannot be opened and a full table are reported.\<close>

fun log_step :: "bool \<Rightarrow> string \<Rightarrow> log_pc \<times> log_table \<Rightarrow> log_pc \<times> log_table" where
  "log_step ok name (Look i, tab) =
     (if i < MAX_NUM_THREAD then (if logFile (tab ! i) = name then Load i else Look (i + 1), tab) else (Seek 0, tab))"
| "log_step ok name (Load i, tab) = (Store i (num (tab ! i)), tab)"
| "log_step ok name (Store i n, tab) = (Got i, tab[i := (tab ! i)\<lparr>num := n + 1\<rparr>])"
| "log_step ok name (Seek i, tab) =
     (if i < MAX_NUM_THREAD then (if num (tab ! i) \<noteq> -1 then Seek (i + 1) else Open i, tab) else (Full, tab))"
| "log_step ok name (Open i, tab) = (Opened i, slot_open i (\<not> is_open (tab ! i) \<and> ok) tab)"
| "log_step ok name (Opened i, tab) = (if is_open (tab ! i) then SetNum i else NotOpened, tab)"
| "log_step ok name (SetNum i, tab) = (SetName i, tab[i := (tab ! i)\<lparr>num := 1\<rparr>])"
| "log_step ok name (SetName i, tab) = (Got i, tab[i := (tab ! i)\<lparr>logFile := name\<rparr>])"
| "log_step ok name (pc, tab) = (pc, tab)"

text \<open>Two threads that ask for the files n1 and n2, by a schedule: True is a step of the first.\<close>

fun log_run :: "string \<Rightarrow> string \<Rightarrow> bool list \<Rightarrow> log_pc \<times> log_pc \<times> log_table \<Rightarrow> log_pc \<times> log_pc \<times> log_table" where
  "log_run n1 n2 [] st = st"
| "log_run n1 n2 (True # bs) (p, q, tab) = (case log_step True n1 (p, tab) of (p', tab') \<Rightarrow> log_run n1 n2 bs (p', q, tab'))"
| "log_run n1 n2 (False # bs) (p, q, tab) = (case log_step True n2 (q, tab) of (q', tab') \<Rightarrow> log_run n1 n2 bs (p, q', tab'))"

subsection \<open>A thread that is not disturbed\<close>

definition steps :: "bool \<Rightarrow> string \<Rightarrow> log_pc \<times> log_table \<Rightarrow> log_pc \<times> log_table \<Rightarrow> bool" where
  "steps ok name a b \<longleftrightarrow> (\<exists>k. (log_step ok name ^^ k) a = b)"

lemma steps_refl [simp]: "steps ok name a a"
  unfolding steps_def by (rule exI[of _ 0]) simp

lemma steps_step: "log_step ok name a = b \<Longrightarrow> steps ok name b c \<Longrightarrow> steps ok name a c"
  unfolding steps_def by (metis funpow_swap1 comp_apply funpow.simps(2))

lemma steps_trans: "steps ok name a b \<Longrightarrow> steps ok name b c \<Longrightarrow> steps ok name a c"
  unfolding steps_def by (metis funpow_add comp_apply)

lemma look_passes:
  assumes "\<forall>j. i \<le> j \<and> j < m \<longrightarrow> logFile (tab ! j) \<noteq> name" "i \<le> m" "m \<le> MAX_NUM_THREAD"
  shows "steps ok name (Look i, tab) (Look m, tab)"
  using assms
proof (induction "m - i" arbitrary: i)
  case (Suc d)
  then have "steps ok name (Look (i + 1), tab) (Look m, tab)" by (intro Suc.hyps(1)) auto
  moreover have "log_step ok name (Look i, tab) = (Look (i + 1), tab)" using Suc by simp
  ultimately show ?case by (rule steps_step[rotated])
qed simp

lemma seek_passes:
  assumes "\<forall>j. i \<le> j \<and> j < m \<longrightarrow> num (tab ! j) \<noteq> -1" "i \<le> m" "m \<le> MAX_NUM_THREAD"
  shows "steps ok name (Seek i, tab) (Seek m, tab)"
  using assms
proof (induction "m - i" arbitrary: i)
  case (Suc d)
  then have "steps ok name (Seek (i + 1), tab) (Seek m, tab)" by (intro Suc.hyps(1)) auto
  moreover have "log_step ok name (Seek i, tab) = (Seek (i + 1), tab)" using Suc by simp
  ultimately show ?case by (rule steps_step[rotated])
qed simp

lemma steps_shared:
  assumes "length tab = MAX_NUM_THREAD" "find_name name tab = Some i"
  shows "steps ok name (Look 0, tab) (Got i, slot_share i tab)"
proof -
  have i: "i < MAX_NUM_THREAD" "logFile (tab ! i) = name" "\<forall>j < i. logFile (tab ! j) \<noteq> name"
    using scan_Some[OF assms(2)[unfolded find_name_def]] assms(1) by auto
  have "steps ok name (Store i (num (tab ! i)), tab) (Got i, slot_share i tab)"
    by (rule steps_step[OF _ steps_refl]) (simp add: slot_share_def)
  then have "steps ok name (Load i, tab) (Got i, slot_share i tab)" by (rule steps_step[rotated]) simp
  then have "steps ok name (Look i, tab) (Got i, slot_share i tab)" by (rule steps_step[rotated]) (simp add: i)
  with look_passes[of 0 i tab name ok] i show ?thesis by (auto intro: steps_trans)
qed

lemma steps_open:
  assumes "length tab = MAX_NUM_THREAD" "find_name name tab = None" "find_free tab = Some i"
  shows "i < MAX_NUM_THREAD" "steps ok name (Look 0, tab) (Open i, tab)"
proof -
  have i: "i < MAX_NUM_THREAD" "num (tab ! i) = -1" "\<forall>j < i. num (tab ! j) \<noteq> -1"
    using scan_Some[OF assms(3)[unfolded find_free_def]] assms(1) by auto
  then show "i < MAX_NUM_THREAD" by simp
  have "\<forall>j. 0 \<le> j \<and> j < MAX_NUM_THREAD \<longrightarrow> logFile (tab ! j) \<noteq> name"
    using assms(1,2) by (auto simp: find_name_def scan_None)
  then have look: "steps ok name (Look 0, tab) (Look MAX_NUM_THREAD, tab)" by (intro look_passes) simp_all
  have "steps ok name (Seek i, tab) (Open i, tab)" by (rule steps_step[OF _ steps_refl]) (simp add: i)
  with seek_passes[of 0 i tab ok name] i have "steps ok name (Seek 0, tab) (Open i, tab)" by (auto intro: steps_trans)
  then have "steps ok name (Look MAX_NUM_THREAD, tab) (Open i, tab)" by (rule steps_step[rotated]) simp
  with look show "steps ok name (Look 0, tab) (Open i, tab)" by (rule steps_trans)
qed

lemma steps_new:
  assumes "i < length tab" "is_open (slot_open i (\<not> is_open (tab ! i) \<and> ok) tab ! i)"
  shows "steps ok name (Open i, tab) (Got i, slot_name i name (slot_open i (\<not> is_open (tab ! i) \<and> ok) tab))"
proof -
  let ?t = "slot_open i (\<not> is_open (tab ! i) \<and> ok) tab"
  have l: "i < length ?t" using assms(1) by (simp add: slot_open_def)
  have "steps ok name (SetName i, ?t[i := (?t ! i)\<lparr>num := 1\<rparr>]) (Got i, slot_name i name ?t)"
    by (rule steps_step[OF _ steps_refl]) (use l in \<open>simp add: slot_name_def\<close>)
  then have "steps ok name (SetNum i, ?t) (Got i, slot_name i name ?t)" by (rule steps_step[rotated]) simp
  then have "steps ok name (Opened i, ?t) (Got i, slot_name i name ?t)"
    by (rule steps_step[rotated]) (simp add: assms(2))
  then show ?thesis by (rule steps_step[rotated]) simp
qed

text \<open>What r_allowedLogFile does at once is what a thread does that is not disturbed.\<close>

definition never_returns :: "('s, 'a) proc \<Rightarrow> bool" where
  "never_returns m \<longleftrightarrow> (\<forall>s x s'. m s \<noteq> (Ret x, s'))"

lemma never_exit: "never_returns (exit_with c)" by (simp add: never_returns_def exit_with_def)

lemma never_bnd: "(\<And>x. never_returns (f x)) \<Longrightarrow> never_returns (bnd m f)"
  by (auto simp: never_returns_def bnd_def split: prod.splits out.splits)

lemma never_thn: "never_returns k \<Longrightarrow> never_returns (thn m k)"
  unfolding thn_def by (rule never_bnd)

lemma report_never_returns:
  fixes s :: "'a recv_state_scheme"
  assumes "r_flagTerm s = R_NO_TERMINATE"
  shows "r_report os msg s \<noteq> (Ret (), s')"
proof -
  have "never_returns (r_terminate os 15 :: ('a recv_state_scheme, unit) proc)"
    unfolding r_terminate_def by (intro never_bnd never_thn never_exit)
  then have "never_returns (thn (sys0 (Print ''** ERROR_TERMINATE **'')) (thn (sys0 (Print msg)) (r_terminate os 15 :: ('a recv_state_scheme, unit) proc)))"
    by (intro never_thn)
  then show ?thesis using assms by (simp add: r_report_def bnd_prim never_returns_def)
qed

lemma allowed_alone:
  assumes "r_allowedLogFile os name s = (Ret (Some i), s')" "length (r_memLogFile s) = MAX_NUM_THREAD"
    "r_flagTerm s = R_NO_TERMINATE"
  shows "\<exists>ok. steps ok name (Look 0, r_memLogFile s) (Got i, r_memLogFile s')"
proof (cases "find_name name (r_memLogFile s)")
  case (Some j)
  then have "i = j" "r_memLogFile s' = slot_share i (r_memLogFile s)"
    using assms(1) r_allowedLogFile_shared[OF Some, of os] by auto
  then show ?thesis using steps_shared[OF assms(2) Some] by auto
next
  case None
  let ?tab = "r_memLogFile s"
  from r_allowedLogFile_new[OF None assms(1)] have i: "find_free ?tab = Some i" by blast
  note o = steps_open[OF assms(2) None i]
  let ?ok = "0 \<le> os_int os (FOpen i name # hist s)"
  let ?t = "slot_open i (\<not> is_open (?tab ! i) \<and> ?ok) ?tab"
  define u where "u = (log_call (FOpen i name) s)\<lparr>r_memLogFile := ?t\<rparr>"
  have st: "r_open_stream os i name s = (Ret (is_open (?t ! i)), u)"
    by (simp add: r_open_stream_def proc_simps u_def log_call_def)
  have run: "r_allowedLogFile os name s = (thn (r_check os (\<not> is_open (?t ! i)) (''Error into open this file : '' @ name))
      (thn (upd (\<lambda>s. s\<lparr>r_memLogFile := slot_name i name (r_memLogFile s)\<rparr>)) (ret (Some i)))) u"
    using None i by (simp add: r_allowedLogFile_def proc_simps bnd_def[of "r_open_stream os i name"] st)
  have op: "is_open (?t ! i)"
  proof (rule ccontr)
    assume c: "\<not> is_open (?t ! i)"
    obtain r v where v: "r_report os (''Error into open this file : '' @ name) u = (r, v)" by fastforce
    have "r_flagTerm u = R_NO_TERMINATE" using assms(3) by (simp add: u_def)
    then have "r \<noteq> Ret ()" using report_never_returns v by fastforce
    then show False using run assms(1) v c by (cases r) (simp_all add: thn_bnd r_check_def cond_apply bnd_def)
  qed
  then have "r_memLogFile s' = slot_name i name ?t"
    using run assms(1) by (simp add: r_check_def proc_simps u_def)
  then show ?thesis
    using steps_trans[OF o(2) steps_new[of i ?tab ?ok name]] op o(1) assms(2) by auto
qed

subsection \<open>Two threads\<close>

lemma run_first:
  "(log_step True n1 ^^ k) (p, tab) = (p', tab') \<Longrightarrow>
    log_run n1 n2 (replicate k True @ bs) (p, q, tab) = log_run n1 n2 bs (p', q, tab')"
proof (induction k arbitrary: p tab)
  case (Suc k)
  obtain p1 tab1 where one: "log_step True n1 (p, tab) = (p1, tab1)" by fastforce
  then have "(log_step True n1 ^^ k) (p1, tab1) = (p', tab')" using Suc.prems by (simp add: funpow_swap1)
  from Suc.IH[OF this] one show ?case by simp
qed simp

lemma run_second:
  "(log_step True n2 ^^ k) (q, tab) = (q', tab') \<Longrightarrow>
    log_run n1 n2 (replicate k False @ bs) (p, q, tab) = log_run n1 n2 bs (p, q', tab')"
proof (induction k arbitrary: q tab)
  case (Suc k)
  obtain q1 tab1 where one: "log_step True n2 (q, tab) = (q1, tab1)" by fastforce
  then have "(log_step True n2 ^^ k) (q1, tab1) = (q', tab')" using Suc.prems by (simp add: funpow_swap1)
  from Suc.IH[OF this] one show ?case by simp
qed simp

text \<open>The first thread comes to (p1, tab1), then the second to its end (q', tab2), then the first to its
  end.\<close>

lemma overtaken:
  assumes "steps True n1 (p, tab) (p1, tab1)" "steps True n2 (q, tab1) (q', tab2)" "steps True n1 (p1, tab2) (p', tab')"
  shows "\<exists>bs. log_run n1 n2 bs (p, q, tab) = (p', q', tab')"
proof -
  obtain a b c where k: "(log_step True n1 ^^ a) (p, tab) = (p1, tab1)" "(log_step True n2 ^^ b) (q, tab1) = (q', tab2)"
    "(log_step True n1 ^^ c) (p1, tab2) = (p', tab')" using assms by (auto simp: steps_def)
  have "log_run n1 n2 (replicate a True @ replicate b False @ replicate c True @ []) (p, q, tab) = (p', q', tab')"
    unfolding run_first[OF k(1)] run_second[OF k(2)] run_first[OF k(3)] by simp
  then show ?thesis by blast
qed

lemma same_slot:
  assumes "length tab = MAX_NUM_THREAD" "find_name n1 tab = None" "find_name n2 tab = None" "find_free tab = Some i"
  shows "\<exists>bs. log_run n1 n2 bs (Look 0, Look 0, tab) = (Got i, Got i, tab[i := \<lparr>is_open = True, num = 1, logFile = n1\<rparr>])"
proof -
  note o1 = steps_open[OF assms(1,2,4)] and o2 = steps_open[OF assms(1,3,4)]
  have i: "i < length tab" using o1(1) assms(1) by simp
  let ?t2 = "tab[i := \<lparr>is_open = True, num = 1, logFile = n2\<rparr>]"
  have "slot_name i n2 (slot_open i (\<not> is_open (tab ! i) \<and> True) tab) = ?t2"
    using i by (cases "tab ! i") (simp add: slot_name_def slot_open_def)
  with steps_new[of i tab True n2] i have "steps True n2 (Open i, tab) (Got i, ?t2)" by (simp add: slot_open_def)
  then have second: "steps True n2 (Look 0, tab) (Got i, ?t2)" using o2(2) steps_trans by blast
  have "slot_name i n1 (slot_open i (\<not> is_open (?t2 ! i) \<and> True) ?t2) = tab[i := \<lparr>is_open = True, num = 1, logFile = n1\<rparr>]"
    using i by (simp add: slot_name_def slot_open_def)
  with steps_new[of i ?t2 True n1] i have
    "steps True n1 (Open i, ?t2) (Got i, tab[i := \<lparr>is_open = True, num = 1, logFile = n1\<rparr>])"
    by (simp add: slot_open_def)
  with overtaken[OF o1(2) second] show ?thesis by blast
qed

lemma counted_once:
  assumes "length tab = MAX_NUM_THREAD" "find_name name tab = Some i"
  shows "\<exists>bs. log_run name name bs (Look 0, Look 0, tab) = (Got i, Got i, slot_share i tab)"
proof -
  have i: "i < MAX_NUM_THREAD" "i < length tab" "logFile (tab ! i) = name" "\<forall>j < i. logFile (tab ! j) \<noteq> name"
    using scan_Some[OF assms(2)[unfolded find_name_def]] assms(1) by auto
  have "steps True name (Load i, tab) (Store i (num (tab ! i)), tab)" by (rule steps_step[OF _ steps_refl]) simp
  then have "steps True name (Look i, tab) (Store i (num (tab ! i)), tab)" by (rule steps_step[rotated]) (simp add: i)
  with look_passes[of 0 i tab name True] i
  have first: "steps True name (Look 0, tab) (Store i (num (tab ! i)), tab)" by (auto intro: steps_trans)
  have "steps True name (Store i (num (tab ! i)), slot_share i tab) (Got i, slot_share i tab)"
    by (rule steps_step[OF _ steps_refl]) (use i in \<open>simp add: slot_share_def\<close>)
  from overtaken[OF first steps_shared[OF assms] this] show ?thesis .
qed

text \<open>C19: the log files of the receiver are not protected.  A signaling thread that is not disturbed
  gets from allowedLogFile the slot, and leaves the table, that the function computes when it is
  taken as one step; but the threads hold no mutex.  Two of them that ask for different new files
  can get the same slot, which then counts one user and has the name of only one of the files; and
  two that ask for a file that is open already can be counted as one user.\<close>

theorem allowedLogFile_threads:
  assumes "length (r_memLogFile s) = MAX_NUM_THREAD" "r_flagTerm s = R_NO_TERMINATE"
  shows "(\<forall>name i s'. r_allowedLogFile os name s = (Ret (Some i), s') \<longrightarrow>
      (\<exists>ok. steps ok name (Look 0, r_memLogFile s) (Got i, r_memLogFile s'))) \<and>
    (\<forall>n1 n2 i. find_name n1 (r_memLogFile s) = None \<and> find_name n2 (r_memLogFile s) = None \<and>
        find_free (r_memLogFile s) = Some i \<longrightarrow>
      (\<exists>bs. log_run n1 n2 bs (Look 0, Look 0, r_memLogFile s) =
        (Got i, Got i, (r_memLogFile s)[i := \<lparr>is_open = True, num = 1, logFile = n1\<rparr>]))) \<and>
    (\<forall>name i. find_name name (r_memLogFile s) = Some i \<longrightarrow>
      (\<exists>bs. log_run name name bs (Look 0, Look 0, r_memLogFile s) = (Got i, Got i, slot_share i (r_memLogFile s))))"
  using allowed_alone[OF _ assms] same_slot[OF assms(1)] counted_once[OF assms(1)] by blast

theorem allowedLogFile_threads_witness:
  "\<exists>bs. log_run ''a.log'' ''b.log'' bs (Look 0, Look 0, init_table) =
     (Got 0, Got 0, init_table[0 := \<lparr>is_open = True, num = 1, logFile = ''a.log''\<rparr>])"
proof -
  have t: "r_memLogFile init_receiver = init_table" "r_flagTerm init_receiver = R_NO_TERMINATE"
    "length init_table = MAX_NUM_THREAD" by (simp_all add: init_receiver_def init_table_def)
  have "find_free init_table = Some 0" by code_simp
  moreover have "find_name n init_table = None" if "n \<noteq> '' ''" for n
    using that by (auto simp: find_name_def init_table_def free_slot_def scan_None)
  ultimately show ?thesis
    using allowedLogFile_threads[of init_receiver os_ok] unfolding t by simp
qed

text \<open>When either of the two threads that share a slot by mistake leaves, the slot is free, and the
  stream that the other one writes to is closed.\<close>

lemma closed_under_the_other:
  "i < length tab \<Longrightarrow> slot_release i (tab[i := \<lparr>is_open = True, num = 1, logFile = n\<rparr>]) = tab[i := free_slot]"
  by (simp add: slot_release_def free_slot_def)

end
