(* ===== verification/RecvManager.thy ===== *)
theory RecvManager
  imports RecvState
begin

text \<open>The signaling thread of ITGRecv: the remote log, the messages of the data threads that come
  through the pipe (pipeParser), the messages of the sender (typeParser) and the loop that
  dispatches them (signalManager).\<close>

subsection \<open>The log server's client\<close>

text \<open>The struct signaling on the stack: protocol and name are set, the rest is what was there.  A
  name that does not fit overflows the struct.\<close>

definition signaling_image :: "bytes \<Rightarrow> u8 \<Rightarrow> bytes \<Rightarrow> bytes" where
  "signaling_image old proto name =
     [proto] @ take 3 (drop 1 old) @ name @ [0] @ drop (5 + length name) old"

text \<open>The do-while loop that waits for LOG_CONNECT; a recv that gets nothing leaves the byte.\<close>

primrec await_log_connect :: "os \<Rightarrow> nat \<Rightarrow> int \<Rightarrow> u8 \<Rightarrow> ('a recv_state_scheme, unit) proc" where
  "await_log_connect os 0 sock buffer = hang"
| "await_log_connect os (Suc fuel) sock buffer = (bnd (sys_recv os sock 1) (\<lambda>r.
 thn (r_check os (r = None) ''Cannot receive logSockSignaling1 data'')
 (let buffer' = (case r of Some (b # _) \<Rightarrow> b | _ \<Rightarrow> buffer) in
     if buffer' \<noteq> 1 then await_log_connect os fuel sock buffer' else ret ())))"

text \<open>The variables for the two sockets are passed by reference: keep writes them as soon as a socket has
  been asked for.\<close>

definition r_createSignalingLogChannel ::
    "os \<Rightarrow> nat \<Rightarrow> sockaddr \<Rightarrow> bytes \<Rightarrow> u8 \<Rightarrow> (int \<Rightarrow> 'a recv_state_scheme \<Rightarrow> 'a recv_state_scheme) \<Rightarrow>
     ('a recv_state_scheme, sockaddr \<times> int) proc" where
  "r_createSignalingLogChannel os fuel host name proto keep = (bnd (gets (\<lambda>s. junk os (hist s) 204)) (\<lambda>old.
   bnd (gets (\<lambda>s. hd (junk os (hist s) 1))) (\<lambda>b0.
   bnd (sys os (Socket 1)) (\<lambda>sock.
   thn (upd (keep sock))
   (thn (r_check os (sock < 0) ''Cannot create socket logSockSignaling'')
   (bnd (gets defaultLogPortSignaling) (\<lambda>port.
   let host' = SET_PORT host (htons port) in
     if length name \<ge> DIM_LOG_FILE then fault
     else (bnd (sys os (Connect sock (unat port))) (\<lambda>c.
      thn (r_check os (c < 0) ''Error into connect - Start first LogServer!'')
      (thn (await_log_connect os fuel sock b0)
      (bnd (sys os (Send sock (signaling_image old proto name))) (\<lambda>w.
      thn (r_check os (w < 0) ''Cannot send infos to LogServer'')
      (ret (host', sock))))))))))))))"

definition log_socket ::
    "os \<Rightarrow> int \<Rightarrow> (int \<Rightarrow> 'a recv_state_scheme \<Rightarrow> 'a recv_state_scheme) \<Rightarrow> ('a recv_state_scheme, int) proc" where
  "log_socket os kind keep = (bnd (sys os (Socket kind)) (\<lambda>k.
   thn (upd (keep k))
   (thn (r_check os (k < 0) ''Cannot create socket logSock'')
   (ret k))))"

definition r_createRemoteLogFile ::
    "os \<Rightarrow> nat \<Rightarrow> sockaddr \<Rightarrow> bytes \<Rightarrow> u8 \<Rightarrow> int \<Rightarrow>
     (int \<Rightarrow> 'a recv_state_scheme \<Rightarrow> 'a recv_state_scheme) \<Rightarrow> (int \<Rightarrow> 'a recv_state_scheme \<Rightarrow> 'a recv_state_scheme) \<Rightarrow>
     ('a recv_state_scheme, sockaddr \<times> int \<times> int) proc" where
  "r_createRemoteLogFile os fuel host name proto oldSock keepSignaling keep =
     (bnd (r_createSignalingLogChannel os fuel host name proto keepSignaling) (\<lambda>(host1, sigSock).
   bnd ((if proto = L4_UDP then log_socket os 2 keep
               else if proto = L4_TCP then log_socket os 1 keep
               else ret oldSock)) (\<lambda>lsock.
   bnd (recv_var os sigSock 4 ''Cannot receive logSockSignaling2 data'') (\<lambda>b.
   let port = ntohl (mem_u32 b);
         host2 = SET_PORT host1 (htons (ucast port)) in (bnd (sys os (Connect lsock (unat (ucast port :: u16)))) (\<lambda>c.
          thn (r_check os (c < 0) ''Error into connect with logsender!'')
          (ret (host2, sigSock, lsock))))))))"

text \<open>The offsets of the port for the two families; any other family is read like IPv4.\<close>

definition recvFlowLog :: "os \<Rightarrow> int \<Rightarrow> ('a recv_state_scheme, unit) proc" where
  "recvFlowLog os newSockSignaling = (bnd (recv_var os newSockSignaling (2 * 4 + 4 + 2 + 1 + DIM_LOG_FILE)
                 ''Cannot receive data on newSockSignaling'') (\<lambda>buffer.
   let family = sint (ntohl (mem_u32 buffer));
         ptrIP = 4;
         ptrPort = (if family = PF_INET then ptrIP + 4 else if family = PF_INET6 then ptrIP + 4 * 4
                    else ptrIP + 4);
         logProtocol = ptrPort + 2;
         fileName = logProtocol + 1 in (thn (upd (\<lambda>s. s\<lparr>protocolLog := buffer ! logProtocol, logHost := (logHost s)\<lparr>ai_family := family\<rparr>\<rparr>))
          (thn (upd (\<lambda>s. if family = PF_INET then s\<lparr>logHost := (logHost s)\<lparr>
                 ip := take 4 (drop ptrIP buffer), sin_port := mem_u16 (drop ptrPort buffer)\<rparr>\<rparr>
              else if family = PF_INET6 then s\<lparr>logHost := (logHost s)\<lparr>
                 ip := take 16 (drop ptrIP buffer), sin_port := mem_u16 (drop ptrPort buffer)\<rparr>\<rparr>
              else s))
          (if 0 \<in> set (drop fileName buffer) then
       let name = takeWhile (\<lambda>b. b \<noteq> 0) (drop fileName buffer) in
       if length name \<ge> DIM_LOG_FILE then fault
       else upd (\<lambda>s. s\<lparr>nameFileLog := name @ [0] @ drop (length name + 1) (nameFileLog s)\<rparr>)
     else fault)))))"

text \<open>strncpy with the number of bytes received: what follows a NUL is filled with NULs.\<close>

definition recvNameLog :: "os \<Rightarrow> int \<Rightarrow> ('a recv_state_scheme, unit) proc" where
  "recvNameLog os newSockSignaling = (bnd (sys_recv os newSockSignaling DIM_LOG_FILE) (\<lambda>r.
   case r of
       None \<Rightarrow> thn (r_report os ''Cannot receive data on newSockSignaling'') fault
     | Some d \<Rightarrow>
         let name = takeWhile (\<lambda>b. b \<noteq> 0) d in
         upd (\<lambda>s. s\<lparr>nameFileLog := name @ replicate (length d - length name) 0 @
                                   drop (length d) (nameFileLog s)\<rparr>)))"

text \<open>copia copies an IPv4 address and leaves its target alone for every other family.\<close>

definition copia :: "sockaddr \<Rightarrow> sockaddr \<Rightarrow> sockaddr" where
  "copia src dst =
     (if ai_family src = PF_INET then
        dst\<lparr>ai_family := ai_family src, ip := take 4 (ip src), sin_port := sin_port src\<rparr>
      else dst)"

subsection \<open>Messages of the data threads\<close>

definition find_flow :: "int \<Rightarrow> flow_slot list \<Rightarrow> nat option" where
  "find_flow fid = scan (\<lambda>f. idNum f = fid)"

text \<open>A data thread that failed is cancelled and its position freed; the use count of a shared
  socket is not touched.\<close>

definition drop_failed :: "os \<Rightarrow> nat \<Rightarrow> ('a recv_state_scheme, unit) proc" where
  "drop_failed os k = (bnd (gets (\<lambda>s. hThr (slots s ! k))) (\<lambda>t.
   bnd (terminateThread os t) (\<lambda>r.
   thn (r_check os (r < 0) ''Cannot terminate thread'')
   (thn (upd (upd_slot k (\<lambda>f. f\<lparr>addressInfos := None, idNum := -1\<rparr>)))
   (upd (\<lambda>s. s\<lparr>numFlow := numFlow s - 1\<rparr>))))))"

definition pipe_code :: "int \<Rightarrow> msg_code" where
  "pipe_code c = (if c = 1 then MSG_FT_OK else if c = 2 then MSG_FT_ERR1 else if c = 3 then MSG_FT_ERR2
                  else if c = 4 then MSG_FT_ERR_SOCK else MSG_FT_OTHER)"

definition pipeParser :: "os \<Rightarrow> int \<Rightarrow> int \<Rightarrow> ('a recv_state_scheme, unit) proc" where
  "pipeParser os newSockSignaling rPipe = (bnd (gets (\<lambda>s. junk os (hist s) 8)) (\<lambda>old.
   bnd (sys_recv os rPipe 8) (\<lambda>r.
   let msg = (case r of None \<Rightarrow> old | Some d \<Rightarrow> d @ drop (length d) old);
         fid = sint (mem_u32 msg);
         code = pipe_code (sint (mem_u32 (drop 4 msg))) in (bnd (gets (\<lambda>s. find_flow fid (slots s))) (\<lambda>k.
          case code of
       MSG_FT_ERR1 \<Rightarrow> (bnd (sendAckFlow os newSockSignaling TSP_ERR_MSG_2 fid 0) (\<lambda>a.
        thn (r_check os (a < 0) ''Cannot send TSP_ERR_MSG_2 message to sender'')
        (case k of Some k \<Rightarrow> drop_failed os k | None \<Rightarrow> ret ())))
     | MSG_FT_ERR2 \<Rightarrow> (bnd (sendAckFlow os newSockSignaling TSP_ERR_MSG_3 fid 0) (\<lambda>a.
      thn (r_check os (a < 0) ''Cannot send TSP_ERR_MSG_3 message to sender'')
      (case k of Some k \<Rightarrow> drop_failed os k | None \<Rightarrow> ret ())))
     | MSG_FT_ERR_SOCK \<Rightarrow>
         (case k of
            Some k \<Rightarrow> (bnd (sendAckFlow os newSockSignaling TSP_ERR_MSG_5 fid 0) (\<lambda>a.
             thn (r_check os (a < 0) ''Cannot send TSP_ERR_MSG_5 message to sender'')
             (drop_failed os k)))
          | None \<Rightarrow> ret ())
     | MSG_FT_OK \<Rightarrow>
         (case k of
            Some k \<Rightarrow> (bnd (gets (\<lambda>s. ntohs (GET_PORT (destHost (slots s ! k)) 0))) (\<lambda>port.
             bnd (sendAckFlow os newSockSignaling TSP_ACK_SEND_FLOW fid port) (\<lambda>a.
             r_check os (a = -1) ''Cannot send TSP_ACK_SEND_FLOW message to sender'')))
          | None \<Rightarrow> ret ())
     | MSG_FT_OTHER \<Rightarrow> sys0 (Print ''undefined message received from signal manager''))))))"

end
