(* ===== verification/TypeParser.thy ===== *)
theory TypeParser
  imports RecvManager
begin

text \<open>typeParser of src/ITGRecv/ITGRecv.cpp: the sender's messages about flows.\<close>

subsection \<open>TSP_SEND_FLOW\<close>

text \<open>The fields of a request, as the local variables of typeParser hold them.\<close>

record flow_request =
  rq_l4Proto :: u8
  rq_l7Proto :: u8
  rq_meter :: u8
  rq_dsByte :: u8
  rq_l3Proto :: u8
  rq_flowId :: u32
  rq_plType :: u8
  rq_serial :: bytes
  rq_srcAddrSpecify :: u8
  rq_port :: u16
  rq_ip :: bytes
  rq_scope :: u32

text \<open>The reads that both modes share.\<close>

definition recv_common :: "os \<Rightarrow> int \<Rightarrow> ('a recv_state_scheme, flow_request) proc" where
  "recv_common os sock = (bnd (recv_var os sock 3 ''Cannot receive buffer on newSockSignaling'') (\<lambda>buffer.
   bnd (recv_var os sock 1 ''Cannot receive dsByte on newSockSignaling'') (\<lambda>ds.
   bnd (recv_var os sock 1 ''Cannot receive l3Proto on newSockSignaling'') (\<lambda>l3.
   bnd (recv_var os sock 4 ''Cannot receive flowId on newSockSignaling'') (\<lambda>fid.
   bnd (recv_var os sock 1 ''Cannot receive plType on newSockSignaling'') (\<lambda>pl.
   bnd (recv_var os sock DIM_NAME_SERIAL_INTERFACE ''Cannot receive serialReceiver on newSockSignaling'') (\<lambda>ser.
   ret \<lparr>rq_l4Proto = buffer ! 0, rq_l7Proto = buffer ! 1, rq_meter = buffer ! 2,
          rq_dsByte = hd ds, rq_l3Proto = hd l3, rq_flowId = ntohl (mem_u32 fid), rq_plType = hd pl,
          rq_serial = ser, rq_srcAddrSpecify = 0, rq_port = 0, rq_ip = [], rq_scope = 0\<rparr>)))))))"

text \<open>In passive mode the receiver's port and a flag come before the sender's port.\<close>

definition recv_passive :: "os \<Rightarrow> int \<Rightarrow> nat \<Rightarrow> flow_request \<Rightarrow> ('a recv_state_scheme, flow_request) proc" where
  "recv_passive os sock k rq = (bnd (gets passiveMode) (\<lambda>passive.
   if passive then (bnd (recv_var os sock 2 ''Cannot receive portForPssv on newSockSignaling'') (\<lambda>p.
      thn (upd (upd_slot k (\<lambda>f. f\<lparr>portForPssv := ntohs (mem_u16 p)\<rparr>)))
      (bnd (ret [0]) (\<lambda>old.
      bnd (sys_recv os sock 1) (\<lambda>r.
      thn (r_check os (r = None) ''Cannot receive srcAddrSpecify on newSockSignaling'')
      (ret (rq\<lparr>rq_srcAddrSpecify := hd ((case r of None \<Rightarrow> [] | Some d \<Rightarrow> d) @ old)\<rparr>)))))))
     else ret rq))"

text \<open>The address; an IPv6 address is looked up among the host's interfaces for its scope.\<close>

definition recv_address :: "os \<Rightarrow> int \<Rightarrow> nat \<Rightarrow> flow_request \<Rightarrow> ('a recv_state_scheme, flow_request) proc" where
  "recv_address os sock k rq = (bnd (gets (\<lambda>s. junk os (hist s) 16)) (\<lambda>ptrIP.
   bnd (recv_var os sock 2 ''Cannot receive data on newSockSignaling'') (\<lambda>p.
   let port = ntohs (mem_u16 p) in (thn (upd (upd_slot k (\<lambda>f. f\<lparr>indexPort := port\<rparr>)))
      (if rq_l3Proto rq = L3_PROTO_IPv4 then (bnd (sys_recv os sock 4) (\<lambda>r.
      thn (r_check os (r = None) ''Cannot receive IPv4 address on newSockSignaling'')
      (let d = (case r of None \<Rightarrow> [] | Some d \<Rightarrow> d) in
       ret (rq\<lparr>rq_port := port, rq_ip := d @ drop (length d) ptrIP\<rparr>))))
     else if rq_l3Proto rq = L3_PROTO_IPv6 then (bnd (sys_recv os sock 16) (\<lambda>r.
      thn (r_check os (r = None) ''Cannot receive IPv6 address on newSockSignaling'')
      (bnd (sys os (Resolve ''/proc/net/if_inet6'')) (\<lambda>scope.
      let d = (case r of None \<Rightarrow> [] | Some d \<Rightarrow> d) in
       ret (rq\<lparr>rq_port := port, rq_ip := d @ drop (length d) ptrIP, rq_scope := of_int scope\<rparr>)))))
     else ret (rq\<lparr>rq_port := port, rq_ip := ptrIP\<rparr>))))))"

text \<open>The address that the data thread will use: the one in the request, or, for a sender in
  passive mode that named no source address, the address the receiver was started with.  The
  port is stored as the host's number.\<close>

definition flow_dest :: "bool \<Rightarrow> sockaddr \<Rightarrow> flow_request \<Rightarrow> sockaddr \<Rightarrow> sockaddr" where
  "flow_dest passive psender rq old =
     (if \<not> (rq_srcAddrSpecify rq = 0 \<and> passive) then
        (if rq_l3Proto rq = L3_PROTO_IPv4 then
           \<lparr>ai_family = PF_INET, ip = take 4 (rq_ip rq), sin_port = rq_port rq, scope_id = 0\<rparr>
         else
           \<lparr>ai_family = PF_INET6, ip = rq_ip rq, sin_port = rq_port rq,
             scope_id = (if is_linklocal (rq_ip rq) then rq_scope rq else 0)\<rparr>)
      else if ai_family psender = PF_INET \<or> ai_family psender = PF_INET6 then
        psender\<lparr>sin_port := rq_port rq\<rparr>
      else old\<lparr>ai_family := ai_family psender\<rparr>)"

definition flow_preamble :: "u8 \<Rightarrow> u8 \<Rightarrow> int" where
  "flow_preamble l4 pl =
     (let base = (if uint pl = PL_STANDARD then StandardMinPayloadSize
                  else if uint pl = PL_SHORT then ShortMinPayloadSize else NoneMinPayloadSize)
      in if l4 = L4_TCP \<and> uint pl \<noteq> PL_NONE then base + 4 else base)"

text \<open>strncpy: the characters before a NUL, and NULs up to the size.\<close>

definition strncpy :: "nat \<Rightarrow> bytes \<Rightarrow> bytes" where
  "strncpy n src = (let t = takeWhile (\<lambda>b. b \<noteq> 0) (take n src) in t @ replicate (n - length t) 0)"

definition fill_slot :: "bool \<Rightarrow> sockaddr \<Rightarrow> log_ref \<Rightarrow> int \<Rightarrow> flow_request \<Rightarrow> flow_slot \<Rightarrow> flow_slot" where
  "fill_slot passive psender out lsock rq f = f\<lparr>
     destHost := flow_dest passive psender rq (destHost f),
     idNum := sint (rq_flowId rq),
     idProto := rq_l4Proto rq,
     p_l7Proto := rq_l7Proto rq,
     p_flowId := sint (rq_flowId rq),
     p_meter := rq_meter rq,
     p_dsByte := rq_dsByte rq,
     payloadLogType := uint (rq_plType rq),
     preambleSize := flow_preamble (rq_l4Proto rq) (rq_plType rq),
     serial := strncpy DIM_NAME_SERIAL_INTERFACE (rq_serial rq),
     fileLog := out,
     p_logSock := lsock\<rparr>"

text \<open>With -a the data channel is bound to the given address and the requested port.\<close>

definition force_address :: "sockaddr option \<Rightarrow> flow_slot \<Rightarrow> flow_slot" where
  "force_address bindAddr f = (case bindAddr of
      None \<Rightarrow> f
    | Some g \<Rightarrow> f\<lparr>destHost := SET_PORT g (GET_PORT (destHost f) 0)\<rparr>)"

text \<open>The thread of a flow; a protocol without a case gets none.\<close>

definition thread_name :: "u8 \<Rightarrow> string option" where
  "thread_name l4 = (if l4 = L4_UDP then Some ''udpSock'' else if l4 = L4_TCP then Some ''tcpSock''
     else if l4 = L4_ICMP then Some ''icmpSock'' else None)"

definition start_thread :: "os \<Rightarrow> nat \<Rightarrow> string option \<Rightarrow> ('a recv_state_scheme, unit) proc" where
  "start_thread os k name = (case name of
      None \<Rightarrow> ret ()
    | Some n \<Rightarrow> (bnd (createThread os n k True) (\<lambda>r.
     thn (upd (upd_slot k (\<lambda>f. f\<lparr>hThr := Some k\<rparr>)))
     (r_check os (r < 0) (''Cannot create thread for '' @ n)))))"

definition typeParser_sendFlow :: "os \<Rightarrow> int \<Rightarrow> ('a recv_state_scheme, int) proc" where
  "typeParser_sendFlow os sock = (bnd (gets (\<lambda>s. find_flow (-1) (slots s))) (\<lambda>flowPosition.
   case flowPosition of
       None \<Rightarrow> thn (r_report os ''Too many threads'') (ret 0)
     | Some k \<Rightarrow> (bnd (recv_common os sock) (\<lambda>rq0.
      bnd (recv_passive os sock k rq0) (\<lambda>rq1.
      bnd (recv_address os sock k rq1) (\<lambda>rq.
      thn (upd (\<lambda>s. upd_slot k
               (fill_slot (passiveMode s) (passiveSender s) (fileDescriptor s) (logSock s) rq) s))
      (bnd (gets passiveMode) (\<lambda>passive.
      if passive then (bnd (sendAckFlow os sock TSP_ACK_SEND_FLOW (int k + 1) 0) (\<lambda>a.
          thn (r_check os (a = -1) ''Cannot send TSP_ACK_SEND_FLOW message to sender'')
          (ret 0)))
         else (thn (upd (\<lambda>s. upd_slot k (force_address (globalBindAddr s)) s))
          (thn (start_thread os k (thread_name (rq_l4Proto rq)))
          (thn (upd (\<lambda>s. s\<lparr>numFlow := numFlow s + 1\<rparr>))
          (ret 0))))))))))))"

subsection \<open>TSP_CLOSED_FLOW\<close>

text \<open>flushBuffer of ITGRecv.h: the records are written and the count is reset only if the stream is
  open; a null stream or more records than the buffer has is an access out of bounds.\<close>

definition stream_open :: "log_ref \<Rightarrow> 'a recv_state_scheme \<Rightarrow> bool option" where
  "stream_open out s = (case out of
      GlobalOut \<Rightarrow> Some (r_outOpen s)
    | LogSlot i \<Rightarrow> Some (is_open (r_memLogFile s ! i))
    | NoLog \<Rightarrow> None)"

definition stream_id :: "log_ref \<Rightarrow> nat" where
  "stream_id out = (case out of LogSlot i \<Rightarrow> i | _ \<Rightarrow> MAX_NUM_THREAD)"

definition infos_bytes :: "os \<Rightarrow> info list option \<Rightarrow> int \<Rightarrow> bytes option" where
  "infos_bytes os infos n = (case infos of
      None \<Rightarrow> if n = 0 then Some [] else None
    | Some xs \<Rightarrow> if 0 \<le> n \<and> nat n \<le> length xs then Some (concat (map (os_image os) (take (nat n) xs))) else None)"

definition flushBuffer :: "os \<Rightarrow> nat \<Rightarrow> log_ref \<Rightarrow> ('a recv_state_scheme, unit) proc" where
  "flushBuffer os k pointerLog = (bnd (mutexThreadLock os ''mutexLog'') (\<lambda>a.
   thn (r_check os (a < 0) ''Cannot lock mutex'')
   (bnd (gets id) (\<lambda>s.
   case (stream_open pointerLog s, infos_bytes os (addressInfos (slots s ! k)) (count (slots s ! k))) of
       (Some True, Some bs) \<Rightarrow> (thn (sys0 (FWrite (stream_id pointerLog) bs))
        (thn (sys0 (FFlush (stream_id pointerLog)))
        (thn (upd (upd_slot k (\<lambda>f. f\<lparr>count := 0\<rparr>)))
        (bnd (mutexThreadUnlock os ''mutexLog'') (\<lambda>b.
        r_check os (b < 0) ''Cannot unlock mutex'')))))
     | (Some False, _) \<Rightarrow> (bnd (mutexThreadUnlock os ''mutexLog'') (\<lambda>b.
      r_check os (b < 0) ''Cannot unlock mutex''))
     | _ \<Rightarrow> fault))))"

text \<open>The records of a flow that are still in its buffer go to the log when the flow is closed.\<close>

definition flush_closed :: "os \<Rightarrow> nat \<Rightarrow> ('a recv_state_scheme, unit) proc" where
  "flush_closed os k = (bnd (gets id) (\<lambda>s.
   if logCheck s = 1 \<or> logCheck s = 2 then flushBuffer os k (fileLog (slots s ! k))
     else cond (logRemote s = 1 \<or> logRemote s = 2) (bnd (mutexThreadLock os ''mutexLogRem'') (\<lambda>a.
      thn ((case infos_bytes os (addressInfos (slots s ! k)) (count (slots s ! k)) of
          None \<Rightarrow> fault
        | Some bs \<Rightarrow> (bnd (sys os (Send (logSock s) bs)) (\<lambda>w.
         r_check os (w < 0) ''Cannot send infos to logServer''))))
      (bnd (mutexThreadUnlock os ''mutexLogRem'') (\<lambda>b.
      ret ()))))))"

text \<open>The shared socket of the flow's port loses one user and is closed with its last one.\<close>

definition release_shared :: "os \<Rightarrow> nat \<Rightarrow> ('a recv_state_scheme, unit) proc" where
  "release_shared os k = (bnd (gets (\<lambda>s. slots s ! k)) (\<lambda>f.
   let p = indexPort f in
     if idProto f = L4_TCP then (bnd (mutexThreadLock os ''sharedTcp'') (\<lambda>a.
      thn (upd (\<lambda>s. s\<lparr>sharedTcp := (sharedTcp s)(p := (sharedTcp s p)\<lparr>inUse := inUse (sharedTcp s p) - 1\<rparr>)\<rparr>))
      (bnd (gets (\<lambda>s. sharedTcp s p)) (\<lambda>sh.
      thn (cond (inUse sh = 0) (bnd (closeSock os (shSocket sh)) (\<lambda>c.
        thn (r_check os (c < 0) ''Cannot close TCP socket'')
        (upd (\<lambda>s. s\<lparr>sharedTcp := (sharedTcp s)(p := (sharedTcp s p)\<lparr>shSocket := 0\<rparr>)\<rparr>)))))
      (bnd (mutexThreadUnlock os ''sharedTcp'') (\<lambda>b.
      ret ()))))))
     else cond (idProto f = L4_UDP) (bnd (mutexThreadLock os ''sharedUdp'') (\<lambda>a.
      thn (upd (\<lambda>s. s\<lparr>sharedUdp := (sharedUdp s)(p := (sharedUdp s p)\<lparr>inUse := inUse (sharedUdp s p) - 1\<rparr>)\<rparr>))
      (bnd (gets (\<lambda>s. sharedUdp s p)) (\<lambda>sh.
      thn (cond (inUse sh = 0) (bnd (closeSock os (shSocket sh)) (\<lambda>c.
        thn (r_check os (c < 0) ''Cannot close UDP socket'')
        (upd (\<lambda>s. s\<lparr>sharedUdp := (sharedUdp s)(p := (sharedUdp s p)\<lparr>shSocket := 0\<rparr>)\<rparr>)))))
      (thn (upd (upd_slot k (\<lambda>f. f\<lparr>socketClose := 0\<rparr>)))
      (bnd (mutexThreadUnlock os ''sharedUdp'') (\<lambda>b.
      ret ())))))))))"

text \<open>What closing a flow and closing it on an error share, from the end of the thread on.\<close>

definition stop_flow :: "os \<Rightarrow> nat \<Rightarrow> ('a recv_state_scheme, unit) proc" where
  "stop_flow os k = (bnd (gets (\<lambda>s. hThr (slots s ! k))) (\<lambda>t.
   bnd (terminateThread os t) (\<lambda>r.
   thn (r_check os (r < 0) ''Cannot terminate thread hThr[k]'')
   (thn (release_shared os k)
   (bnd (gets (\<lambda>s. socketClose (slots s ! k))) (\<lambda>c.
   thn (cond (c > 0) (bnd (closeSock os c) (\<lambda>e.
      r_check os (e < 0) ''Cannot close socket socketClose'')))
   (thn (upd (upd_slot k (\<lambda>f. f\<lparr>addressInfos := None, idNum := -1\<rparr>)))
   (upd (\<lambda>s. s\<lparr>numFlow := numFlow s - 1\<rparr>)))))))))"

definition recv_flowId :: "os \<Rightarrow> int \<Rightarrow> ('a recv_state_scheme, int) proc" where
  "recv_flowId os sock = (bnd (gets (\<lambda>s. junk os (hist s) 4)) (\<lambda>old.
   bnd (sys_recv os sock 4) (\<lambda>r.
   let d = (case r of None \<Rightarrow> [] | Some d \<Rightarrow> d) in (thn (r_check os (d = []) ''Cannot receive data'')
      (ret (sint (ntohl (mem_u32 (d @ drop (length d) old)))))))))"

text \<open>The name of the protocol is looked up in a table of five.\<close>

definition finish_proto :: "u8 \<Rightarrow> string option" where
  "finish_proto l4 = (if 1 \<le> unat l4 \<and> unat l4 \<le> 5
     then Some ([''TCP'', ''UDP'', ''ICMP'', ''SCTP'', ''DCCP''] ! (unat l4 - 1)) else None)"

definition typeParser_closedFlow :: "os \<Rightarrow> int \<Rightarrow> ('a recv_state_scheme, int) proc" where
  "typeParser_closedFlow os sock = (bnd (recv_flowId os sock) (\<lambda>fid.
   bnd (gets (\<lambda>s. find_flow fid (slots s))) (\<lambda>k.
   case k of
       None \<Rightarrow> ret 0
     | Some k \<Rightarrow> (thn (flush_closed os k)
      (bnd (gets (\<lambda>s. slots s ! k)) (\<lambda>f.
      thn (cond (idProto f \<noteq> L4_ICMP)
           (case finish_proto (idProto f) of
              None \<Rightarrow> fault
            | Some p \<Rightarrow> sys0 (Print (''Finish on '' @ p))))
      (thn (sys0 (Sleep 1))
      (thn (stop_flow os k)
      (bnd (sendAckFlow os sock TSP_ACK_CLOSED_FLOW fid 0) (\<lambda>a.
      thn (r_check os (a < 0) ''Cannot send ack closed flow id on newSockSignaling'')
      (ret 0)))))))))))"

subsection \<open>The other messages\<close>

definition typeParser_closedErr :: "os \<Rightarrow> int \<Rightarrow> ('a recv_state_scheme, int) proc" where
  "typeParser_closedErr os sock = (bnd (recv_flowId os sock) (\<lambda>fid.
   bnd (gets (\<lambda>s. find_flow fid (slots s))) (\<lambda>k.
   case k of None \<Rightarrow> ret 0 | Some k \<Rightarrow> thn (stop_flow os k) (ret 0))))"

definition typeParser_ackSendFlow :: "os \<Rightarrow> int \<Rightarrow> ('a recv_state_scheme, int) proc" where
  "typeParser_ackSendFlow os sock = (bnd (recv_flowId os sock) (\<lambda>fid.
   bnd (gets (\<lambda>s. find_flow fid (slots s))) (\<lambda>k.
   case k of
       None \<Rightarrow> ret 0
     | Some k \<Rightarrow> (bnd (gets (\<lambda>s. idProto (slots s ! k))) (\<lambda>l4.
      thn (start_thread os k (if l4 = L4_TCP then Some ''tcpSock''
                            else if l4 = L4_UDP then Some ''udpSock'' else None))
      (ret 0))))))"

definition typeParser :: "os \<Rightarrow> u8 \<Rightarrow> int \<Rightarrow> ('a recv_state_scheme, int) proc" where
  "typeParser os type sock =
     (if type = TSP_SEND_FLOW then typeParser_sendFlow os sock
      else if type = TSP_CLOSED_FLOW then typeParser_closedFlow os sock
      else if type = TSP_CLOSED_ERR then typeParser_closedErr os sock
      else if type = TSP_RELEASE then ret (-1)
      else if type = TSP_ERR_MSG_1 then ret (-1)
      else if type = TSP_SENDER_DOWN then ret (-1)
      else if type = TSP_ACK_SEND_FLOW then typeParser_ackSendFlow os sock
      else ret 0)"

end
