(* ===== verification/SignalManager.thy ===== *)
theory SignalManager
  imports TypeParser
begin

text \<open>signalManager of src/ITGRecv/ITGRecv.cpp: the thread that serves one sender's signaling
  connection, from the handshake to the release of everything its flows have used.\<close>

definition EAGAIN :: int where "EAGAIN = 11"

text \<open>Fields that are not listed keep what the stack held.\<close>

definition init_slot :: "string option \<Rightarrow> flow_slot \<Rightarrow> flow_slot" where
  "init_slot ifaceBind f = f\<lparr>idNum := -1, idProto := 0, hThr := None, p_flowId := 0, iface := ifaceBind,
     count := 0, sockFd := 0, socketClose := 0, preambleSize := StandardMinPayloadSize,
     payloadLogType := PL_STANDARD, addressInfos := None, portForPssv := 0, indexPort := 0\<rparr>"

definition signal_init :: "string option \<Rightarrow> 'a recv_state_scheme \<Rightarrow> 'a recv_state_scheme" where
  "signal_init ifaceBind s = s\<lparr>slots := map (init_slot ifaceBind) (slots s), numFlow := 0,
     fileDescriptor := GlobalOut, logSock := 0, logSockSignaling := 0\<rparr>"

text \<open>Waiting for TSP_CONNECT; a sender that hangs up ends the thread.\<close>

primrec await_connect :: "os \<Rightarrow> nat \<Rightarrow> int \<Rightarrow> u8 \<Rightarrow> ('a recv_state_scheme, unit) proc" where
  "await_connect os 0 sock buffer = hang"
| "await_connect os (Suc fuel) sock buffer = (bnd (sys_recv os sock 1) (\<lambda>r.
 thn (r_check os (r = None) ''Cannot receive newSockSignaling data'')
 (thn (cond (r = Some []) (thn (sys0 (Print ''Connection aborted from the sender'')) exitThread))
 (let buffer' = (case r of Some (b # _) \<Rightarrow> b | _ \<Rightarrow> buffer) in
     if buffer' \<noteq> TSP_CONNECT then await_connect os fuel sock buffer' else ret ()))))"

definition signal_start :: "os \<Rightarrow> nat \<Rightarrow> string option \<Rightarrow> int \<Rightarrow> ('a recv_state_scheme, int) proc" where
  "signal_start os fuel ifaceBind sock = (thn (upd (signal_init ifaceBind))
   (bnd (sys os Pipe) (\<lambda>fd.
   thn (cond (fd < 0) (sys0 (Print ''Error in signal to create a new pipe '')))
   (bnd (gets (\<lambda>s. hd (junk os (hist s) 1))) (\<lambda>b0.
   thn (await_connect os fuel sock b0)
   (bnd (sendAck os sock TSP_ACK_CONNECT) (\<lambda>a.
   thn (r_check os (a < 0) ''Cannot send connect ack'')
   (thn (upd (\<lambda>s. if logRemote s = 1 then s\<lparr>logSockSignaling := globaleLogSockSignaling s,
           logSock := globaleLogSock s, logHost := copia (globaleLogHost s) (logHost s)\<rparr> else s))
   (ret fd)))))))))"

subsection \<open>Messages about logging\<close>

definition signal_nameLog :: "os \<Rightarrow> int \<Rightarrow> ('a recv_state_scheme, unit) proc" where
  "signal_nameLog os sock = (thn (recvNameLog os sock)
   (bnd (gets logCheck) (\<lambda>lc.
   if lc \<noteq> 1 then (bnd (gets nameFileLog) (\<lambda>m.
      case cstring m of
         None \<Rightarrow> fault
       | Some name \<Rightarrow> (bnd (r_allowedLogFile os name) (\<lambda>fd.
        thn (upd (\<lambda>s. s\<lparr>fileDescriptor := (case fd of None \<Rightarrow> NoLog | Some i \<Rightarrow> LogSlot i)\<rparr>))
        (if fd = None then (bnd (sendAck os sock TSP_ERR_MSG_4) (\<lambda>a.
            r_check os (a < 0) ''Cannot send TSP_ERR_MSG_4 message to sender''))
           else (bnd (sendAck os sock TSP_ACK_SEND_NAME_LOG) (\<lambda>a.
            thn (r_check os (a < 0) ''Cannot send Ack on newSockSignaling'')
            (upd (\<lambda>s. s\<lparr>logCheck := 2\<rparr>)))))))))
     else (bnd (sendAck os sock TSP_ACK_SEND_NAME_LOG) (\<lambda>a.
      thn (r_check os (a < 0) ''Cannot send Ack on newSockSignaling'')
      (upd (\<lambda>s. s\<lparr>fileDescriptor := GlobalOut\<rparr>)))))))"

definition signal_flowLog :: "os \<Rightarrow> nat \<Rightarrow> int \<Rightarrow> ('a recv_state_scheme, unit) proc" where
  "signal_flowLog os fuel sock = (thn (recvFlowLog os sock)
   (bnd (gets id) (\<lambda>s.
   thn ((if logRemote s \<noteq> 1 then (bnd (r_createRemoteLogFile os fuel (logHost s)
            (takeWhile (\<lambda>b. b \<noteq> 0) (nameFileLog s)) (protocolLog s) (logSock s)
            (\<lambda>n s. s\<lparr>logSockSignaling := n\<rparr>) (\<lambda>n s. s\<lparr>logSock := n\<rparr>)) (\<lambda>(host, sigSock, lsock).
      upd (\<lambda>s. s\<lparr>logHost := host, logSockSignaling := sigSock, logSock := lsock, logRemote := 2\<rparr>)))
      else upd (\<lambda>s. s\<lparr>logSockSignaling := globaleLogSockSignaling s, logSock := globaleLogSock s,
                     logHost := copia (globaleLogHost s) (logHost s)\<rparr>)))
   (bnd (sendAck os sock TSP_ACK_SEND_FLOW_LOG) (\<lambda>a.
   r_check os (a < 0) ''Cannot send Ack on newSockSignaling'')))))"

subsection \<open>The loop\<close>

text \<open>Whether typeParser gets the message.\<close>

definition is_flow_message :: "u8 \<Rightarrow> bool" where
  "is_flow_message type \<longleftrightarrow> type \<in> {TSP_RELEASE, TSP_CLOSED_ERR, TSP_SENDER_DOWN, TSP_SEND_FLOW,
     TSP_CLOSED_FLOW, TSP_ERR_MSG_1, TSP_ACK_SEND_FLOW}"

text \<open>A message of the sender: the type, and whether the loop is left.\<close>

definition signal_message :: "os \<Rightarrow> nat \<Rightarrow> int \<Rightarrow> ('a recv_state_scheme, u8 \<times> bool) proc" where
  "signal_message os fuel sock = (bnd (sys_recv os sock 1) (\<lambda>r.
   let down = (r = None \<or> r = Some []);
         type = (case r of Some (b # _) \<Rightarrow> b | _ \<Rightarrow> TSP_SENDER_DOWN) in (thn (cond down (sys0 (Print ''Sender has shut down the connection gracefully or sender down'')))
          (if type = TSP_SEND_NAME_LOG then thn (signal_nameLog os sock) (ret (type, down))
     else if type = TSP_SEND_FLOW_LOG then thn (signal_flowLog os fuel sock) (ret (type, down))
     else if is_flow_message type then (bnd (typeParser os type sock) (\<lambda>res.
      ret (type, down \<or> res = -1)))
     else if type > TSP_ERR_MSG_5 \<and> \<not> down then
       thn (r_report os ''unknown message received'') (ret (type, down))
     else ret (type, down)))))"

text \<open>One round: type, whether to leave, and the number of discovery messages since the sender was
  last heard.\<close>

definition signal_round :: "os \<Rightarrow> nat \<Rightarrow> int \<Rightarrow> int \<Rightarrow> nat \<Rightarrow> ('a recv_state_scheme, u8 \<times> bool \<times> nat) proc" where
  "signal_round os fuel sock fd numDiscovery = (bnd (sys_select os [fd, sock]) (\<lambda>(sel, ready).
   thn (r_check os (sel < 0) ''Invalid file descriptor'')
   (if ready fd then thn (pipeParser os sock fd) (ret (0, False, numDiscovery))
     else if ready sock then (bnd (signal_message os fuel sock) (\<lambda>(type, uscita).
      ret (type, uscita, 0)))
     else (bnd (sys os (Send sock [TSP_DISCOVERY])) (\<lambda>err.
      thn (r_check os (err < 0 \<or> err = EAGAIN) ''Cannot receive data on newSockSignaling'')
      ((if numDiscovery + 1 = 2 then ret (TSP_SENDER_DOWN, True, numDiscovery + 1)
        else ret (TSP_DISCOVERY, False, numDiscovery + 1))))))))"

primrec signal_loop :: "os \<Rightarrow> nat \<Rightarrow> nat \<Rightarrow> int \<Rightarrow> int \<Rightarrow> nat \<Rightarrow> ('a recv_state_scheme, u8) proc" where
  "signal_loop os 0 fuel sock fd numDiscovery = hang"
| "signal_loop os (Suc rounds) fuel sock fd numDiscovery = (bnd (signal_round os fuel sock fd numDiscovery) (\<lambda>(type, uscita, n).
 if uscita then ret type else signal_loop os rounds fuel sock fd n))"

subsection \<open>Tear-down\<close>

definition collect_shared :: "os \<Rightarrow> nat \<Rightarrow> ('a recv_state_scheme, unit) proc" where
  "collect_shared os i = (bnd (gets (\<lambda>s. slots s ! i)) (\<lambda>f.
   let p = indexPort f in
     if idProto f = L4_TCP then (bnd (mutexThreadLock os ''sharedTcp'') (\<lambda>a.
      bnd (gets (\<lambda>s. sharedTcp s p)) (\<lambda>sh.
      thn (cond (inUse sh = 0 \<and> shSocket sh > 0) (bnd (closeSock os (shSocket sh)) (\<lambda>c.
        thn (r_check os (c = -1) ''Cannot close socket'')
        (upd (\<lambda>s. s\<lparr>sharedTcp := (sharedTcp s)(p := (sharedTcp s p)\<lparr>shSocket := 0\<rparr>)\<rparr>)))))
      (bnd (mutexThreadUnlock os ''sharedTcp'') (\<lambda>b.
      ret ())))))
     else cond (idProto f = L4_UDP) (bnd (mutexThreadLock os ''sharedUdp'') (\<lambda>a.
      bnd (gets (\<lambda>s. sharedUdp s p)) (\<lambda>sh.
      thn (cond (inUse sh = 0 \<and> shSocket sh > 0) (bnd (closeSock os (shSocket sh)) (\<lambda>c.
        thn (r_check os (c = -1) ''Cannot close socket'')
        (upd (\<lambda>s. s\<lparr>sharedUdp := (sharedUdp s)(p := (sharedUdp s p)\<lparr>shSocket := 0\<rparr>)\<rparr>)))))
      (bnd (mutexThreadUnlock os ''sharedUdp'') (\<lambda>b.
      ret ())))))))"

fun collect :: "os \<Rightarrow> nat list \<Rightarrow> ('a recv_state_scheme, unit) proc" where
  "collect os [] = ret ()"
| "collect os (i # is) = (bnd (gets (\<lambda>s. socketClose (slots s ! i))) (\<lambda>c.
 bnd (closeSock os c) (\<lambda>r.
 thn (upd (upd_slot i (\<lambda>f. f\<lparr>addressInfos := None\<rparr>)))
 (thn (collect_shared os i)
 (collect os is)))))"

definition stop_remote_log :: "os \<Rightarrow> ('a recv_state_scheme, unit) proc" where
  "stop_remote_log os = (thn (upd (\<lambda>s. s\<lparr>logHost := SET_PORT (logHost s) (htons (defaultLogPortSignaling s))\<rparr>))
   (bnd (gets id) (\<lambda>s.
   bnd (sys os (Send (logSockSignaling s) (stop_message os (hist s)))) (\<lambda>a.
   thn (r_check os (a < 0) ''Cannot send stop logServer'')
   (bnd (closeSock os (logSock s)) (\<lambda>b.
   thn (r_check os (b < 0) ''Cannot close socket logSock after sending ack release'')
   (bnd (closeSock os (logSockSignaling s)) (\<lambda>c.
   r_check os (c < 0) ''Cannot close socket logSockSignaling after sending ack release''))))))))"

definition signal_end :: "os \<Rightarrow> int \<Rightarrow> int \<Rightarrow> u8 \<Rightarrow> ('a recv_state_scheme, int) proc" where
  "signal_end os sock fd type = (thn (cond (type \<noteq> TSP_SENDER_DOWN) (bnd (sendAck os sock TSP_ACK_RELEASE) (\<lambda>a.
      r_check os (a < 0) ''Cannot send ack release'')))
   (bnd (gets id) (\<lambda>s.
   thn (cond (logCheck s = 2 \<and> fileDescriptor s \<noteq> NoLog) (r_closeFileLog (fileDescriptor s)))
   (bnd (gets logRemote) (\<lambda>lr.
   thn (cond (lr = 2) (stop_remote_log os))
   (bnd (closeSock os sock) (\<lambda>c.
   thn (r_check os (c < 0) ''Cannot close socket newSockSignaling after sending ack release'')
   (thn (sys0 (Close (fd + 1)))
   (thn (sys0 (Close fd))
   (thn (collect os [0..<MAX_NUM_THREAD])
   (bnd (gets passiveMode) (\<lambda>passive.
   thn (cond (\<not> passive) exitThread)
   (ret 0)))))))))))))"

definition signalManager :: "os \<Rightarrow> nat \<Rightarrow> nat \<Rightarrow> string option \<Rightarrow> int \<Rightarrow> ('a recv_state_scheme, int) proc" where
  "signalManager os rounds fuel ifaceBind sock = (bnd (signal_start os fuel ifaceBind sock) (\<lambda>fd.
   bnd (signal_loop os rounds fuel sock fd 0) (\<lambda>type.
   signal_end os sock fd type)))"

end
