(* ===== verification/DataThread.thy ===== *)
theory DataThread
  imports TypeParser
begin

text \<open>The data threads of ITGRecv (src/ITGRecv/data.cpp): udpSock, tcpSock and icmpSock, each as
  its set-up and one round of its packet loop.  A thread works on position k of the tables of
  its signaling thread; a data_loc holds its local variables.\<close>

definition METER_RTTM :: u8 where "METER_RTTM = 2"
definition L7_PROTO_TELNET :: u8 where "L7_PROTO_TELNET = 1"
definition R_INFINITE :: nat where "R_INFINITE = 60000"
definition R_MAX_PAYLOAD :: nat where "R_MAX_PAYLOAD = 64000"

record data_loc =
  sockD :: int
  payload :: bytes
  srcAddress :: sockaddr
  firstpacket :: bool
  helpSrc :: string
  helpDst :: string
  srcPortD :: u16
  dstPortD :: u16
  hComm :: int

definition info_zero :: info where
  "info_zero = \<lparr>flowId = 0, seqNum = 0, srcPort = 0, destPort = 0, txTime1 = 0, txTime2 = 0,
     rxTime1 = 0, rxTime2 = 0, size = 0, srcAddr = [], destAddr = [], txTime3 = 0, rxTime3 = 0\<rparr>"

subsection \<open>What the threads share\<close>

definition data_init :: "nat \<Rightarrow> ('a recv_state_scheme, unit) proc" where
  "data_init k = upd (\<lambda>s. upd_slot k (\<lambda>f. f\<lparr>
     addressInfos := Some (replicate (unat (r_buffer_size s)) info_zero), count := 0\<rparr>) s)"

text \<open>The serial interface; the name in the request need not end within its ten bytes.\<close>

definition data_serial :: "os \<Rightarrow> nat \<Rightarrow> ('a recv_state_scheme, int) proc" where
  "data_serial os k = (bnd (gets (\<lambda>s. slots s ! k)) (\<lambda>f.
   case cstring (serial f) of
       None \<Rightarrow> fault
     | Some n \<Rightarrow>
         if n \<noteq> ''noSerial'' then (bnd (sys os (SerialUp n)) (\<lambda>h.
          thn (cond (h = -1) (sys0 (Print (''Error opening interface '' @ n))))
          (ret h)))
         else ret 0))"

definition pipe_message :: "int \<Rightarrow> int \<Rightarrow> bytes" where
  "pipe_message fid code = u32_mem (of_int fid) @ u32_mem (of_int code)"

text \<open>sendPipeMsg; its result is always 0.\<close>

definition sendPipeMsg :: "nat \<Rightarrow> int \<Rightarrow> ('a recv_state_scheme, unit) proc" where
  "sendPipeMsg k code = (bnd (gets (\<lambda>s. p_flowId (slots s ! k))) (\<lambda>fid.
   sys0 (PipeWrite k (pipe_message fid code))))"

definition set_dsByte :: "os \<Rightarrow> nat \<Rightarrow> int \<Rightarrow> ('a recv_state_scheme, unit) proc" where
  "set_dsByte os k sock = (bnd (gets (\<lambda>s. slots s ! k)) (\<lambda>f.
   cond (p_dsByte f \<noteq> 0 \<and> ai_family (destHost f) = PF_INET) (bnd (sys os (Setsockopt sock)) (\<lambda>r.
      cond (r < 0) (sys0 (Print ''** WARNING ** Could not set DS byte''))))))"

definition bind_device :: "os \<Rightarrow> nat \<Rightarrow> int \<Rightarrow> bool \<Rightarrow> ('a recv_state_scheme, unit) proc" where
  "bind_device os k sock opened = (bnd (gets (\<lambda>s. slots s ! k)) (\<lambda>f.
   cond (iface f \<noteq> None \<and> \<not> opened) (thn (sys0 (Print ''Binding to device''))
      (bnd (sys os (Setsockopt sock)) (\<lambda>r.
      cond (r < 0) (sys0 (Print ''** WARNING ** Cannot bind to device (hint: you must be root)'')))))))"

text \<open>A record for a packet of the given size: the fields of the payload are in network order.\<close>

definition payload_record :: "flow_slot \<Rightarrow> data_loc \<Rightarrow> int \<times> int \<Rightarrow> int \<Rightarrow> info \<Rightarrow> info" where
  "payload_record f loc now sz i =
     (let w = (\<lambda>k. mem_u32 (drop (4 * k) (payload loc)));
          net_TimeSec = sint (ntohl (w 2)); net_TimeUsec = sint (ntohl (w 3));
          rxSec = fst now smod 86400; rxUsec = snd now in
      if payloadLogType f = PL_STANDARD then
        writeInBufferStandard i (w 0) (w 1) (helpSrc loc) (helpDst loc) (srcPortD loc) (dstPortD loc)
          net_TimeSec rxSec net_TimeUsec rxUsec (of_int sz)
      else if payloadLogType f = PL_SHORT then
        writeInBufferShort i (w 0) (w 1) (helpSrc loc) (helpDst loc) (srcPortD loc) (dstPortD loc)
          rxSec rxUsec (of_int sz)
      else
        writeInBufferNone i (of_int (p_flowId f)) (helpSrc loc) (helpDst loc) (srcPortD loc) (dstPortD loc)
          rxSec rxUsec (of_int sz))"

text \<open>The record goes to the buffer, for the remote log in network order; then the count.  A
  position outside the buffer is an access out of bounds.\<close>

definition store_record :: "nat \<Rightarrow> data_loc \<Rightarrow> int \<times> int \<Rightarrow> int \<Rightarrow> ('a recv_state_scheme, unit) proc" where
  "store_record k loc now sz = (bnd (gets id) (\<lambda>s.
   let f = slots s ! k; c = nat (count f) in
     case addressInfos f of
       None \<Rightarrow> fault
     | Some xs \<Rightarrow>
         if count f < 0 \<or> c \<ge> length xs then fault
         else
           let i1 = (if logCheck s \<noteq> 0 then payload_record f loc now sz (xs ! c) else xs ! c);
               i2 = (if logRemote s \<noteq> 0 then infosHostToNet (payload_record f loc now sz i1) else i1)
           in upd (upd_slot k (\<lambda>f. f\<lparr>addressInfos := Some (xs[c := i2])\<rparr>))))"

text \<open>A full buffer goes to the log file if there is one, else to the log server.\<close>

definition flush_full :: "os \<Rightarrow> nat \<Rightarrow> ('a recv_state_scheme, unit) proc" where
  "flush_full os k = (bnd (gets id) (\<lambda>s.
   cond (count (slots s ! k) = int (unat (r_buffer_size s)))
       (if logCheck s \<noteq> 0 then flushBuffer os k (fileLog (slots s ! k))
        else cond (logRemote s \<noteq> 0) (bnd (mutexThreadLock os ''mutexLogRem'') (\<lambda>a.
         thn ((case infos_bytes os (addressInfos (slots s ! k)) (count (slots s ! k)) of
             None \<Rightarrow> fault
           | Some bs \<Rightarrow> (bnd (sys os (Send (p_logSock (slots s ! k)) bs)) (\<lambda>w.
            r_check os (w < 0) ''Cannot send log infos to LogServer''))))
         (thn (upd (upd_slot k (\<lambda>f. f\<lparr>count := 0\<rparr>)))
         (bnd (mutexThreadUnlock os ''mutexLogRem'') (\<lambda>b.
         ret ()))))))))"

text \<open>The record of a packet is stored and counted, and a full buffer is flushed.\<close>

definition log_packet :: "os \<Rightarrow> nat \<Rightarrow> data_loc \<Rightarrow> int \<times> int \<Rightarrow> int \<Rightarrow> ('a recv_state_scheme, data_loc) proc" where
  "log_packet os k loc now size_r = thn (store_record k loc now size_r)
     (thn (upd (upd_slot k (\<lambda>f. f\<lparr>count := count f + 1\<rparr>)))
     (thn (flush_full os k)
     (ret loc)))"

text \<open>getInfo: the raw port, kept when the family has none, and the numeric name.\<close>

definition getInfo :: "os \<Rightarrow> sockaddr \<Rightarrow> u16 \<Rightarrow> u16 \<times> string" where
  "getInfo os host tmpPort = (GET_PORT host tmpPort, os_name os host)"

definition note_src :: "os \<Rightarrow> sockaddr \<Rightarrow> data_loc \<Rightarrow> data_loc" where
  "note_src os a loc = loc\<lparr>srcPortD := fst (getInfo os a (srcPortD loc)), helpSrc := snd (getInfo os a 0)\<rparr>"

definition note_dst :: "os \<Rightarrow> sockaddr \<Rightarrow> data_loc \<Rightarrow> data_loc" where
  "note_dst os a loc = loc\<lparr>dstPortD := fst (getInfo os a (dstPortD loc)), helpDst := snd (getInfo os a 0)\<rparr>"

definition sockname :: "os \<Rightarrow> int \<Rightarrow> ('a recv_state_scheme, sockaddr) proc" where
  "sockname os sock = (\<lambda>s. (Ret (os_from os (GetSockName sock # hist s)), log_call (GetSockName sock) s))"

definition time_now :: "os \<Rightarrow> ('a recv_state_scheme, int \<times> int) proc" where
  "time_now os = (\<lambda>s. (Ret (os_time os (GetTime # hist s)), log_call GetTime s))"

definition toggle :: "data_loc \<Rightarrow> ('a recv_state_scheme, unit) proc" where
  "toggle loc = cond (hComm loc > 0) (sys0 (SerialToggle (hComm loc)))"

text \<open>The addresses of a record are taken with the first packet that is logged; over UDP the
  source is taken with every packet, because flows may share the port.\<close>

definition first_addresses :: "os \<Rightarrow> nat \<Rightarrow> bool \<Rightarrow> data_loc \<Rightarrow> ('a recv_state_scheme, data_loc) proc" where
  "first_addresses os k udp loc = (bnd (gets id) (\<lambda>s.
   if firstpacket loc then
       (if \<not> passiveMode s then
          ret (note_dst os (destHost (slots s ! k)) (note_src os (srcAddress loc) loc)\<lparr>firstpacket := False\<rparr>)
        else (bnd (sockname os (sockD loc)) (\<lambda>a.
         ret (note_dst os a (note_src os (destHost (slots s ! k)) (loc\<lparr>srcAddress := a\<rparr>))\<lparr>firstpacket := False\<rparr>))))
     else if udp \<and> \<not> passiveMode s then ret (note_src os (srcAddress loc) loc)
     else ret loc))"

subsection \<open>udpSock\<close>

text \<open>Looking for a socket that other flows have opened on the requested port: the port's mutex is
  taken when a port was requested at all, and is released in udp_register.\<close>

definition udp_lookup :: "os \<Rightarrow> nat \<Rightarrow> ('a recv_state_scheme, int \<times> bool) proc" where
  "udp_lookup os k = (bnd (gets id) (\<lambda>s.
   let p = indexPort (slots s ! k) in
     if \<not> passiveMode s \<and> p \<noteq> 0 then (bnd (mutexThreadLock os ''sharedUdp'') (\<lambda>a.
      bnd (gets (\<lambda>s. sharedUdp s p)) (\<lambda>sh.
      ret (shSocket sh, shSocket sh > 0))))
     else ret (0, False)))"

text \<open>Binding in the normal mode; a failure is reported through the pipe and the thread sleeps until
  it is cancelled.\<close>

definition udp_bind :: "os \<Rightarrow> nat \<Rightarrow> int \<Rightarrow> ('a recv_state_scheme, unit) proc" where
  "udp_bind os k sock = (bnd (gets (\<lambda>s. slots s ! k)) (\<lambda>f.
   bnd (sys os (Bind sock (unat (ntohs (sin_port (destHost f)))))) (\<lambda>b.
   if b < 0 then (thn (sys0 (Print ''Error into bind function!''))
      (thn (sendPipeMsg k 2)
      (sys0 (Sleep R_INFINITE))))
     else (bnd (sockname os sock) (\<lambda>a.
      thn (upd (upd_slot k (\<lambda>f. f\<lparr>destHost := a\<rparr>)))
      (thn (sys0 (Print ''Listening on UDP port''))
      (thn (cond (indexPort f = 0) (thn (upd (upd_slot k (\<lambda>f. f\<lparr>indexPort := ntohs (GET_PORT a 0)\<rparr>)))
        (bnd (mutexThreadLock os ''sharedUdp'') (\<lambda>l.
        ret ()))))
      (sendPipeMsg k 1))))))))"

primrec udp_holes :: "os \<Rightarrow> nat \<Rightarrow> int \<Rightarrow> ('a recv_state_scheme, unit) proc" where
  "udp_holes os 0 sock = ret ()"
| "udp_holes os (Suc n) sock = (bnd (sys os (Send sock (bytes_of ''hello'' @ [0]))) (\<lambda>w.
 thn (r_check os (w < 0) ''Cannot sendto (Passive Mode --> Hole punching)'')
 (udp_holes os n sock)))"

definition udp_passive :: "os \<Rightarrow> nat \<Rightarrow> nat \<Rightarrow> int \<Rightarrow> ('a recv_state_scheme, unit) proc" where
  "udp_passive os numHolePkt k sock = (bnd (gets (\<lambda>s. slots s ! k)) (\<lambda>f.
   bnd (sys os (Bind sock (unat (portForPssv f)))) (\<lambda>b.
   thn ((if b < 0 then thn (sendPipeMsg k 2) (sys0 (Sleep R_INFINITE))
      else (thn (sys0 (Print ''Listening on UDP port''))
       (udp_holes os numHolePkt sock))))
   (bnd (sys os (Connect sock (unat (ntohs (sin_port (destHost f)))))) (\<lambda>c.
   r_check os (c < 0) ''Cannot connect (Passive Mode)'')))))"

text \<open>The socket becomes the port's shared socket, with one more user.\<close>

definition udp_register :: "os \<Rightarrow> nat \<Rightarrow> int \<Rightarrow> bool \<Rightarrow> ('a recv_state_scheme, unit) proc" where
  "udp_register os k sock already = (bnd (gets (\<lambda>s. indexPort (slots s ! k))) (\<lambda>p.
   thn (cond (\<not> already)
       (upd (\<lambda>s. s\<lparr>sharedUdp := (sharedUdp s)(p := (sharedUdp s p)\<lparr>shSocket := sock\<rparr>)\<rparr>)))
   (thn (upd (\<lambda>s. s\<lparr>sharedUdp := (sharedUdp s)(p := (sharedUdp s p)\<lparr>inUse := inUse (sharedUdp s p) + 1\<rparr>)\<rparr>))
   (bnd (mutexThreadUnlock os ''sharedUdp'') (\<lambda>b.
   ret ())))))"

definition data_start :: "os \<Rightarrow> nat \<Rightarrow> int \<Rightarrow> int \<Rightarrow> bytes \<Rightarrow> ('a recv_state_scheme, data_loc) proc" where
  "data_start os k sock h buf = (thn (upd (upd_slot k (\<lambda>f. f\<lparr>socketClose := sock\<rparr>)))
   (bnd (gets (\<lambda>s. ai_family (destHost (slots s ! k)))) (\<lambda>fam.
   ret \<lparr>sockD = sock, payload = buf, srcAddress = any_addr\<lparr>ai_family := fam\<rparr>, firstpacket = True,
          helpSrc = [], helpDst = [], srcPortD = 0, dstPortD = 0, hComm = h\<rparr>)))"

definition udpSock_setup :: "os \<Rightarrow> nat \<Rightarrow> nat \<Rightarrow> ('a recv_state_scheme, data_loc) proc" where
  "udpSock_setup os numHolePkt k = (bnd (gets (\<lambda>s. junk os (hist s) R_MAX_PAYLOAD)) (\<lambda>buf.
   thn (data_init k)
   (bnd (data_serial os k) (\<lambda>h.
   bnd (udp_lookup os k) (\<lambda>(sock0, already).
   bnd ((if already then ret sock0
              else bnd (sys os (Socket 2)) (\<lambda>n. thn (set_dsByte os k n) (ret n)))) (\<lambda>sock.
   thn (r_check os (sock < 0) ''Cannot create a DATAGRAM socket on port'')
   (bnd (gets passiveMode) (\<lambda>passive.
   thn ((if \<not> passive \<and> \<not> already then udp_bind os k sock
      else if passive then udp_passive os numHolePkt k sock
      else sendPipeMsg k 1))
   (thn (cond (\<not> passive) (udp_register os k sock already))
   (thn (bind_device os k sock already)
   (data_start os k sock h buf)))))))))))"

text \<open>With the round-trip meter the payload goes back to where it came from.\<close>

definition echo_rttm :: "os \<Rightarrow> nat \<Rightarrow> data_loc \<Rightarrow> int \<Rightarrow> string \<Rightarrow> ('a recv_state_scheme, unit) proc" where
  "echo_rttm os k loc size_r msg = (bnd (gets (\<lambda>s. p_meter (slots s ! k))) (\<lambda>m.
   cond (m = METER_RTTM) (bnd (sys os (Send (sockD loc) (take (nat size_r) (payload loc)))) (\<lambda>w.
      r_check os (w < 0) msg))))"

text \<open>One round of the packet loop: a packet that has been received, and the round.\<close>

definition udp_packet :: "os \<Rightarrow> nat \<Rightarrow> data_loc \<Rightarrow> int \<Rightarrow> ('a recv_state_scheme, data_loc) proc" where
  "udp_packet os k loc1 size_r = (thn (toggle loc1)
   (bnd (time_now os) (\<lambda>now.
   bnd (gets id) (\<lambda>s.
   bnd (if logCheck s \<noteq> 0 \<or> logRemote s \<noteq> 0
       then bnd (first_addresses os k True loc1) (\<lambda>loc2. log_packet os k loc2 now size_r)
       else ret loc1) (\<lambda>loc2.
   thn (echo_rttm os k loc2 size_r ''Cannot send back payload for rttm'')
   (ret loc2))))))"

definition udpSock_round :: "os \<Rightarrow> nat \<Rightarrow> data_loc \<Rightarrow> ('a recv_state_scheme, data_loc) proc" where
  "udpSock_round os k loc = (bnd (sys_recv os (sockD loc) R_MAX_PAYLOAD) (\<lambda>r.
   bnd (gets (\<lambda>s. os_from os (hist s))) (\<lambda>src.
   bnd (gets passiveMode) (\<lambda>passive.
   let d = (case r of None \<Rightarrow> [] | Some d \<Rightarrow> d);
         size_r = (case r of None \<Rightarrow> -1 | Some d \<Rightarrow> int (length d))
     in thn (r_check os (r = None) ''Cannot receive UDP packets'')
       (udp_packet os k (loc\<lparr>payload := d @ drop (length d) (payload loc),
          srcAddress := (if passive then srcAddress loc else src)\<rparr>) size_r)))))"

subsection \<open>tcpSock\<close>

definition tcp_lookup :: "os \<Rightarrow> nat \<Rightarrow> ('a recv_state_scheme, int \<times> bool) proc" where
  "tcp_lookup os k = (bnd (gets id) (\<lambda>s.
   let p = indexPort (slots s ! k) in
     if \<not> passiveMode s \<and> p \<noteq> 0 then (bnd (mutexThreadLock os ''sharedTcp'') (\<lambda>a.
      bnd (gets (\<lambda>s. sharedTcp s p)) (\<lambda>sh.
      ret (shSocket sh, shSocket sh > 0))))
     else ret (0, False)))"

definition tcp_listen :: "os \<Rightarrow> nat \<Rightarrow> int \<Rightarrow> ('a recv_state_scheme, unit) proc" where
  "tcp_listen os k sock = (bnd (sys os (Listen sock)) (\<lambda>l.
   if l < 0 then r_report os ''Cannot listen on a port''
     else (bnd (gets (\<lambda>s. indexPort (slots s ! k))) (\<lambda>p.
      bnd (sockname os sock) (\<lambda>a.
      thn (upd (upd_slot k (\<lambda>f. f\<lparr>destHost := a\<rparr>)))
      (thn (sys0 (Print ''Listening on TCP port''))
      (thn (cond (p = 0) (thn (upd (upd_slot k (\<lambda>f. f\<lparr>indexPort := ntohs (GET_PORT a 0)\<rparr>)))
        (bnd (mutexThreadLock os ''sharedTcp'') (\<lambda>m.
        ret ()))))
      (sendPipeMsg k 1))))))))"

text \<open>The port's mutex is held while accept waits for the sender.\<close>

definition tcp_accept :: "os \<Rightarrow> nat \<Rightarrow> int \<Rightarrow> bool \<Rightarrow> ('a recv_state_scheme, int \<times> sockaddr) proc" where
  "tcp_accept os k sock already = (bnd (sys os (Accept sock)) (\<lambda>newSock.
   bnd (gets (\<lambda>s. os_from os (hist s))) (\<lambda>from.
   thn (r_check os (newSock < 0) ''Cannot accept connection'')
   (bnd (gets (\<lambda>s. indexPort (slots s ! k))) (\<lambda>p.
   thn (cond (\<not> already)
       (upd (\<lambda>s. s\<lparr>sharedTcp := (sharedTcp s)(p := (sharedTcp s p)\<lparr>shSocket := sock\<rparr>)\<rparr>)))
   (thn (upd (\<lambda>s. s\<lparr>sharedTcp := (sharedTcp s)(p := (sharedTcp s p)\<lparr>inUse := inUse (sharedTcp s p) + 1\<rparr>)\<rparr>))
   (bnd (mutexThreadUnlock os ''sharedTcp'') (\<lambda>b.
   ret (newSock, from)))))))))"

definition tcp_connect :: "os \<Rightarrow> nat \<Rightarrow> int \<Rightarrow> ('a recv_state_scheme, int \<times> sockaddr) proc" where
  "tcp_connect os k sock = (bnd (gets (\<lambda>s. slots s ! k)) (\<lambda>f.
   bnd (sys os (Bind sock (unat (portForPssv f)))) (\<lambda>b.
   thn (cond (b < 0) (thn (sendPipeMsg k 2) (sys0 (Sleep R_INFINITE))))
   (bnd (sys os (Connect sock (unat (ntohs (sin_port (destHost f)))))) (\<lambda>c.
   thn (r_check os (c < 0) ''Cannot connect (Passive Mode)'')
   (bnd (sockname os sock) (\<lambda>a.
   ret (sock, a))))))))"

definition tcpSock_setup :: "os \<Rightarrow> nat \<Rightarrow> ('a recv_state_scheme, data_loc) proc" where
  "tcpSock_setup os k = (thn (data_init k)
   (bnd (data_serial os k) (\<lambda>h.
   bnd (tcp_lookup os k) (\<lambda>(sock0, already).
   bnd ((if already then ret sock0
              else bnd (sys os (Socket 1)) (\<lambda>n. thn (set_dsByte os k n) (ret n)))) (\<lambda>sock.
   thn (r_check os (sock < 0) ''Cannot create a STREAM socket on port'')
   (bnd (gets passiveMode) (\<lambda>passive.
   bnd (gets (\<lambda>s. slots s ! k)) (\<lambda>f.
   thn (cond (\<not> passive \<and> \<not> already) (bnd (sys os (Bind sock (unat (ntohs (sin_port (destHost f)))))) (\<lambda>b.
      cond (b < 0) (thn (sendPipeMsg k 2) (sys0 (Sleep R_INFINITE))))))
   (thn (bind_device os k sock already)
   (thn ((if \<not> passive \<and> \<not> already then tcp_listen os k sock
      else cond (\<not> passive \<and> already) (sendPipeMsg k 1)))
   (bnd ((if \<not> passive then tcp_accept os k sock already else tcp_connect os k sock)) (\<lambda>(newSock, from).
   bnd (data_start os k newSock h (replicate R_MAX_PAYLOAD 0)) (\<lambda>loc.
   ret (loc\<lparr>srcAddress := from\<rparr>))))))))))))))"

text \<open>A negative size is an error on the connection, which the signaling thread is told; after an
  error or the end of the stream the thread sleeps until it is cancelled.\<close>

definition tcp_failed :: "nat \<Rightarrow> int \<Rightarrow> ('a recv_state_scheme, unit) proc" where
  "tcp_failed k sz = (thn (cond (sz < 0) (thn (sys0 (Print ''Error on TCP port''))
      (thn (sys0 (Print ''Finish on TCP port''))
      (sendPipeMsg k 4))))
   (sys0 (Sleep R_INFINITE)))"

definition tcpSock_round :: "os \<Rightarrow> nat \<Rightarrow> data_loc \<Rightarrow> ('a recv_state_scheme, data_loc) proc" where
  "tcpSock_round os k loc = (bnd (gets (\<lambda>s. slots s ! k)) (\<lambda>f.
   bnd (TCPrecvPacket os (payload loc) (sockD loc) (nat (preambleSize f)) (payloadLogType f)) (\<lambda>(sz, buf).
   let loc1 = loc\<lparr>payload := buf\<rparr> in (thn (cond (sz \<le> 0) (tcp_failed k sz))
      (thn (toggle loc1)
      (bnd (time_now os) (\<lambda>now.
      bnd (gets id) (\<lambda>s.
      bnd ((if logCheck s \<noteq> 0 \<or> logRemote s \<noteq> 0 then (bnd (first_addresses os k False loc1) (\<lambda>loc2.
      let sz1 = (if p_l7Proto f = L7_PROTO_TELNET then sz - 20 else sz) in (thn (store_record k loc2 now sz1)
          (thn (cond (sz1 \<noteq> 0) (upd (upd_slot k (\<lambda>f. f\<lparr>count := count f + 1\<rparr>))))
          (thn (flush_full os k)
          (ret (sz1, loc2)))))))
       else ret (sz, loc1))) (\<lambda>(sz1, loc2).
      thn (echo_rttm os k loc2 sz1 ''Cannot send payload back for rttm'')
      (ret loc2))))))))))"

subsection \<open>icmpSock\<close>

text \<open>A raw socket needs a privileged user.  The length of the headers that precede the payload.\<close>

definition icmp_header :: "int \<Rightarrow> nat" where
  "icmp_header fam = (if fam = PF_INET then 8 + 20 else if fam = PF_INET6 then 4 else 0)"

definition icmpSock_setup :: "os \<Rightarrow> nat \<Rightarrow> ('a recv_state_scheme, data_loc) proc" where
  "icmpSock_setup os k = (bnd (gets (\<lambda>s. junk os (hist s) R_MAX_PAYLOAD)) (\<lambda>buf.
   thn (data_init k)
   (bnd (data_serial os k) (\<lambda>h.
   bnd (sys os (Socket 3)) (\<lambda>sock.
   thn (cond (sock < 0) (thn (sys0 (Print ''icmpSock - error into create socket''))
      (thn (sendPipeMsg k 3)
      (sys0 (Sleep R_INFINITE)))))
   (thn (set_dsByte os k sock)
   (thn (bind_device os k sock False)
   (thn (sendPipeMsg k 1)
   (thn (sys0 (Print ''Listening to ICMP traffic''))
   (data_start os k sock h buf))))))))))"

text \<open>A packet shorter than its headers would be copied with a negative length.\<close>

definition icmpSock_round :: "os \<Rightarrow> nat \<Rightarrow> data_loc \<Rightarrow> ('a recv_state_scheme, data_loc) proc" where
  "icmpSock_round os k loc = (bnd (gets (\<lambda>s. icmp_header (ai_family (destHost (slots s ! k))))) (\<lambda>dimheader.
   bnd (sys_recv os (sockD loc) (R_MAX_PAYLOAD + dimheader)) (\<lambda>r.
   bnd (gets (\<lambda>s. os_from os (hist s))) (\<lambda>from.
   thn (r_check os (r = None) ''Cannot receive RAW packets'')
   (let d = (case r of None \<Rightarrow> [] | Some d \<Rightarrow> d) in
   if r = None \<or> length d < dimheader then fault
   else
     let data = drop dimheader d;
         size_r = int (length data);
         loc1 = loc\<lparr>payload := data @ drop (length data) (payload loc), srcAddress := from\<rparr> in (thn (toggle loc1)
          (bnd (time_now os) (\<lambda>now.
          bnd (gets id) (\<lambda>s.
          if logCheck s \<noteq> 0 \<or> logRemote s \<noteq> 0 then
       let loc2 = (if firstpacket loc1
             then note_dst os (destHost (slots s ! k)) (note_src os from loc1)\<lparr>firstpacket := False\<rparr>
             else loc1) in log_packet os k loc2 now size_r
     else ret loc1)))))))))"

end
