(* ===== verification/DataThread_Facts.thy ===== *)
theory DataThread_Facts
  imports DataThread
begin

text \<open>The data threads lose no packet: what is in the log file together with what is still in the
  buffer is the sequence of the packets received.\<close>

subsection \<open>Calls that succeed\<close>

definition call_ok :: "call \<Rightarrow> int \<Rightarrow> bool" where
  "call_ok c r \<longleftrightarrow> (case c of
      MutexLock _ \<Rightarrow> r = 0 | MutexUnlock _ \<Rightarrow> r = 0 | PthreadCancel _ \<Rightarrow> r = 0
    | PthreadCreate _ _ \<Rightarrow> r = 0 | _ \<Rightarrow> 0 \<le> r)"

definition calls_succeed :: "os \<Rightarrow> bool" where
  "calls_succeed os \<longleftrightarrow> (\<forall>c h. call_ok c (os_int os (c # h)))"

lemma calls_succeedD:
  assumes "calls_succeed os"
  shows "os_int os (MutexLock m # h) = 0" "os_int os (MutexUnlock m # h) = 0"
    "os_int os (PthreadCancel t # h) = 0" "os_int os (PthreadCreate n t # h) = 0"
    "\<not> os_int os (Send sock bs # h) < 0" "\<not> os_int os (Close sock # h) < 0"
    "\<not> os_int os (Select fds # h) < 0" "\<not> os_int os (Socket t # h) < 0"
    "\<not> os_int os (Connect sock p # h) < 0" "\<not> os_int os (Bind sock p # h) < 0"
    "\<not> os_int os (Pipe # h) < 0"
proof -
  have ok: "call_ok c (os_int os (c # h))" for c h using assms by (simp add: calls_succeed_def)
  show "os_int os (MutexLock m # h) = 0" using ok[of "MutexLock m" h] by (simp add: call_ok_def)
  show "os_int os (MutexUnlock m # h) = 0" using ok[of "MutexUnlock m" h] by (simp add: call_ok_def)
  show "os_int os (PthreadCancel t # h) = 0" using ok[of "PthreadCancel t" h] by (simp add: call_ok_def)
  show "os_int os (PthreadCreate n t # h) = 0" using ok[of "PthreadCreate n t" h] by (simp add: call_ok_def)
  show "\<not> os_int os (Send sock bs # h) < 0" using ok[of "Send sock bs" h] by (simp add: call_ok_def)
  show "\<not> os_int os (Close sock # h) < 0" using ok[of "Close sock" h] by (simp add: call_ok_def)
  show "\<not> os_int os (Select fds # h) < 0" using ok[of "Select fds" h] by (simp add: call_ok_def)
  show "\<not> os_int os (Socket t # h) < 0" using ok[of "Socket t" h] by (simp add: call_ok_def)
  show "\<not> os_int os (Connect sock p # h) < 0" using ok[of "Connect sock p" h] by (simp add: call_ok_def)
  show "\<not> os_int os (Bind sock p # h) < 0" using ok[of "Bind sock p" h] by (simp add: call_ok_def)
  show "\<not> os_int os (Pipe # h) < 0" using ok[of Pipe h] by (simp add: call_ok_def)
qed

lemma recv_fields [simp]:
  "slots (log_call c s) = slots s" "logCheck (log_call c s) = logCheck s"
  "logRemote (log_call c s) = logRemote s" "r_buffer_size (log_call c s) = r_buffer_size s"
  "r_memLogFile (log_call c s) = r_memLogFile s" "r_outOpen (log_call c s) = r_outOpen s"
  "passiveMode (log_call c s) = passiveMode s" "sharedTcp (log_call c s) = sharedTcp s"
  "sharedUdp (log_call c s) = sharedUdp s" "numFlow (log_call c s) = numFlow s"
  "fileDescriptor (log_call c s) = fileDescriptor s" "logSock (log_call c s) = logSock s"
  "r_flagTerm (log_call c s) = r_flagTerm s"
  by (simp_all add: log_call_def)

lemma r_check_False [simp]: "r_check os False msg = ret ()"
  by (simp add: r_check_def cond_def)

lemma upd_slot_fields [simp]:
  "slots (upd_slot k f s) = (slots s)[k := f (slots s ! k)]"
  "hist (upd_slot k f s) = hist s" "logCheck (upd_slot k f s) = logCheck s"
  "logRemote (upd_slot k f s) = logRemote s" "r_buffer_size (upd_slot k f s) = r_buffer_size s"
  "r_memLogFile (upd_slot k f s) = r_memLogFile s" "r_outOpen (upd_slot k f s) = r_outOpen s"
  "passiveMode (upd_slot k f s) = passiveMode s" "sharedTcp (upd_slot k f s) = sharedTcp s"
  "sharedUdp (upd_slot k f s) = sharedUdp s" "numFlow (upd_slot k f s) = numFlow s"
  "fileDescriptor (upd_slot k f s) = fileDescriptor s" "logSock (upd_slot k f s) = logSock s"
  "r_flagTerm (upd_slot k f s) = r_flagTerm s"
  by (simp_all add: upd_slot_def)

lemma stream_open_cong [simp]:
  "stream_open out (log_call c s) = stream_open out s"
  "stream_open out (upd_slot k f s) = stream_open out s"
  by (simp_all add: stream_open_def split: log_ref.split)

subsection \<open>The log of a flow\<close>

fun written :: "nat \<Rightarrow> call list \<Rightarrow> bytes" where
  "written i [] = []"
| "written i (c # h) = (case c of
      FWrite j bs \<Rightarrow> if j = i then written i h @ bs else written i h
    | _ \<Rightarrow> written i h)"

definition buffered :: "os \<Rightarrow> flow_slot \<Rightarrow> bytes" where
  "buffered os f = concat (map (os_image os) (take (nat (count f)) (the (addressInfos f))))"

definition flow_log :: "os \<Rightarrow> nat \<Rightarrow> 'a recv_state_scheme \<Rightarrow> bytes" where
  "flow_log os k s = written (stream_id (fileLog (slots s ! k))) (hist s) @ buffered os (slots s ! k)"

definition buffer_ok :: "nat \<Rightarrow> 'a recv_state_scheme \<Rightarrow> bool" where
  "buffer_ok k s \<longleftrightarrow> k < length (slots s) \<and>
     (\<exists>xs. addressInfos (slots s ! k) = Some xs \<and> length xs = unat (r_buffer_size s)) \<and>
     0 \<le> count (slots s ! k) \<and> nat (count (slots s ! k)) < unat (r_buffer_size s)"

definition logs_to_file :: "nat \<Rightarrow> 'a recv_state_scheme \<Rightarrow> bool" where
  "logs_to_file k s \<longleftrightarrow> logCheck s \<noteq> 0 \<and> stream_open (fileLog (slots s ! k)) s = Some True"

lemma flushBuffer_run:
  assumes "calls_succeed os" "stream_open out s = Some True"
    and "infos_bytes os (addressInfos (slots s ! k)) (count (slots s ! k)) = Some bs"
  shows "flushBuffer os k out s = (Ret (),
    log_call (MutexUnlock ''mutexLog'') (upd_slot k (\<lambda>f. f\<lparr>count := 0\<rparr>)
      (log_call (FFlush (stream_id out)) (log_call (FWrite (stream_id out) bs)
        (log_call (MutexLock ''mutexLog'') s)))))"
  using assms by (simp add: flushBuffer_def proc_simps thread_apply norm_ret_def calls_succeedD)

lemma store_record_run:
  assumes "buffer_ok k s"
  shows "\<exists>xs i. addressInfos (slots s ! k) = Some xs \<and>
    i = (let f = slots s ! k; x = xs ! nat (count f);
             i1 = (if logCheck s \<noteq> 0 then payload_record f loc now sz x else x)
         in if logRemote s \<noteq> 0 then infosHostToNet (payload_record f loc now sz i1) else i1) \<and>
    store_record k loc now sz s = (Ret (), upd_slot k (\<lambda>f. f\<lparr>addressInfos := Some (xs[nat (count f) := i])\<rparr>) s)"
proof -
  from assms obtain xs where xs: "addressInfos (slots s ! k) = Some xs" "length xs = unat (r_buffer_size s)"
    "0 \<le> count (slots s ! k)" "nat (count (slots s ! k)) < unat (r_buffer_size s)" "k < length (slots s)"
    by (auto simp: buffer_ok_def)
  then have c: "(count (slots s ! k) < 0 \<or> nat (count (slots s ! k)) \<ge> length xs) = False" by auto
  show ?thesis
    using xs(1) by (simp add: store_record_def proc_simps Let_def upd_slot_def c)
qed

subsection \<open>Storing a packet\<close>

lemma written_other [simp]:
  "(\<And>i bs. c \<noteq> FWrite i bs) \<Longrightarrow> written j (c # h) = written j h"
  by (cases c) auto

lemma infos_bytes_buffer:
  assumes "addressInfos f = Some xs" "0 \<le> count f" "nat (count f) \<le> length xs"
  shows "infos_bytes os (addressInfos f) (count f) = Some (buffered os f)"
  using assms by (simp add: infos_bytes_def buffered_def)

text \<open>The state of a thread's position between two packets; m, pl and fid are what the loop tests.\<close>

definition loop_ready :: "nat \<Rightarrow> u8 \<Rightarrow> int \<Rightarrow> int \<Rightarrow> 'a recv_state_scheme \<Rightarrow> bool" where
  "loop_ready k m pl fid s \<longleftrightarrow> buffer_ok k s \<and> logs_to_file k s \<and> logRemote s = 0 \<and>
     p_meter (slots s ! k) = m \<and> payloadLogType (slots s ! k) = pl \<and> p_flowId (slots s ! k) = fid"

lemma loop_ready_log_call [simp]: "loop_ready k m pl fid (log_call c s) = loop_ready k m pl fid s"
  by (simp add: loop_ready_def buffer_ok_def logs_to_file_def)

lemma flow_log_log_call [simp]:
  "(\<And>i bs. c \<noteq> FWrite i bs) \<Longrightarrow> flow_log os k (log_call c s) = flow_log os k s"
  by (cases c) (auto simp: flow_log_def)

text \<open>Storing a record, counting it and flushing a full buffer appends the record to the log.\<close>

lemma store_and_flush:
  assumes "calls_succeed os" "loop_ready k m pl fid s"
  shows "\<exists>x s'. thn (store_record k loc now sz)
      (thn (upd (upd_slot k (\<lambda>f. f\<lparr>count := count f + 1\<rparr>))) (flush_full os k)) s = (Ret (), s') \<and>
    loop_ready k m pl fid s' \<and>
    flow_log os k s' = flow_log os k s @ os_image os (payload_record (slots s ! k) loc now sz x) \<and>
    (\<exists>cs. hist s' = cs @ hist s \<and> (\<forall>sock n. Recv sock n \<notin> set cs))"
proof -
  from assms(2) have buf: "buffer_ok k s" and lf: "logs_to_file k s" and rem: "logRemote s = 0"
    by (simp_all add: loop_ready_def)
  then have lc: "logCheck s \<noteq> 0" by (simp add: logs_to_file_def)
  from store_record_run[OF buf, of loc now sz] rem lc obtain xs where xs:
    "addressInfos (slots s ! k) = Some xs" and st: "store_record k loc now sz s = (Ret (),
      upd_slot k (\<lambda>f. f\<lparr>addressInfos := Some (xs[nat (count f) :=
        payload_record (slots s ! k) loc now sz (xs ! nat (count (slots s ! k)))])\<rparr>) s)"
    by (auto simp: Let_def)
  define r where "r = payload_record (slots s ! k) loc now sz (xs ! nat (count (slots s ! k)))"
  from buf obtain c where c: "count (slots s ! k) = int c" by (auto simp: buffer_ok_def elim: nonneg_int_cases)
  define t where "t = upd_slot k (\<lambda>f. f\<lparr>count := count f + 1\<rparr>)
    (upd_slot k (\<lambda>f. f\<lparr>addressInfos := Some (xs[nat (count f) := r])\<rparr>) s)"
  from buf xs have k: "k < length (slots s)" "length xs = unat (r_buffer_size s)"
    "count (slots s ! k) = int c" "c < length xs"
    using c by (auto simp: buffer_ok_def)
  have tk: "slots t ! k = (slots s ! k)\<lparr>addressInfos := Some (xs[c := r]), count := int (Suc c)\<rparr>"
    using k by (simp add: t_def)
  have tf: "logCheck t = logCheck s" "logRemote t = logRemote s" "r_buffer_size t = r_buffer_size s"
    "hist t = hist s" "length (slots t) = length (slots s)" "\<And>f. stream_open f t = stream_open f s"
    by (simp_all add: t_def)
  have tb: "buffered os (slots t ! k) = buffered os (slots s ! k) @ os_image os r"
    using k(3,4) xs by (simp add: tk buffered_def take_Suc_conv_app_nth del: of_nat_Suc)
  have run: "thn (store_record k loc now sz)
      (thn (upd (upd_slot k (\<lambda>f. f\<lparr>count := count f + 1\<rparr>))) (flush_full os k)) s = flush_full os k t"
    by (simp add: thn_bnd bnd_Ret[of "store_record k loc now sz" s, OF st] bnd_prim t_def r_def)
  have op: "stream_open (fileLog (slots t ! k)) t = Some True"
    using lf k by (simp add: tk logs_to_file_def t_def)
  show ?thesis
  proof (cases "Suc c = length xs")
    case False
    have "count (slots t ! k) \<noteq> int (unat (r_buffer_size t))"
      unfolding tf(3) k(2)[symmetric] tk using False by simp
    then have "flush_full os k t = (Ret (), t)"
      by (simp only: flush_full_def bnd_prim cond_apply id_apply if_False)
    moreover have "loop_ready k m pl fid t"
      using assms(2) k False op lc tk by (simp add: loop_ready_def buffer_ok_def logs_to_file_def tf)
    moreover have "flow_log os k t = flow_log os k s @ os_image os r"
      using tb by (simp add: flow_log_def tk tf)
    ultimately show ?thesis unfolding run r_def using tf(4) by fastforce
  next
    case True
    define out where "out = fileLog (slots t ! k)"
    have cnt: "count (slots t ! k) = int (unat (r_buffer_size t))" "logCheck t \<noteq> 0"
      unfolding tf(3) k(2)[symmetric] tk using True lc by (simp_all add: tf)
    have ib: "infos_bytes os (addressInfos (slots t ! k)) (count (slots t ! k)) = Some (buffered os (slots t ! k))"
      by (rule infos_bytes_buffer) (use k True in \<open>auto simp: tk\<close>)
    define u where "u = log_call (MutexUnlock ''mutexLog'') (upd_slot k (\<lambda>f. f\<lparr>count := 0\<rparr>)
      (log_call (FFlush (stream_id out)) (log_call (FWrite (stream_id out) (buffered os (slots t ! k)))
        (log_call (MutexLock ''mutexLog'') t))))"
    have fl: "flush_full os k t = (Ret (), u)"
      using flushBuffer_run[OF assms(1) op ib] cnt
      by (simp only: flush_full_def bnd_prim cond_apply id_apply u_def out_def) simp
    have uk: "slots u ! k = (slots t ! k)\<lparr>count := 0\<rparr>"
      using k by (simp add: u_def tf)
    have ru: "loop_ready k m pl fid u"
      using assms(2) k True op lc uk tk
      by (simp add: loop_ready_def buffer_ok_def logs_to_file_def) (simp add: u_def tf)
    have "stream_id (fileLog (slots t ! k)) = stream_id (fileLog (slots s ! k))" by (simp add: tk)
    then have lu: "flow_log os k u = flow_log os k s @ os_image os r"
      using tb by (simp add: flow_log_def uk buffered_def[of os "_\<lparr>count := 0\<rparr>"])
        (simp add: u_def out_def tf)
    have hu: "hist u = [MutexUnlock ''mutexLog'', FFlush (stream_id out),
        FWrite (stream_id out) (buffered os (slots t ! k)), MutexLock ''mutexLog''] @ hist s"
      by (simp add: u_def tf)
    show ?thesis unfolding run fl using ru lu hu r_def by fastforce
  qed
qed

subsection \<open>What a record tells of its packet\<close>

definition tells :: "int \<Rightarrow> int \<Rightarrow> bytes \<Rightarrow> info \<Rightarrow> bool" where
  "tells pl fid d r \<longleftrightarrow> size r = of_int (int (length d)) \<and>
     (if pl = PL_STANDARD \<or> pl = PL_SHORT
      then flowId r = ntohl (mem_u32 d) \<and> seqNum r = ntohl (mem_u32 (drop 4 d))
      else flowId r = of_int fid \<and> seqNum r = 0)"

lemma payload_record_tells:
  assumes "8 \<le> length d" "payload loc = d @ rest"
  shows "tells (payloadLogType f) (p_flowId f) d (payload_record f loc now (int (length d)) x)"
proof -
  have "mem_u32 (payload loc) = mem_u32 d" "mem_u32 (drop 4 (payload loc)) = mem_u32 (drop 4 d)"
    using assms by (simp_all add: mem_u32_append)
  then show ?thesis
    by (simp add: tells_def payload_record_def Let_def writeInBufferStandard_def
        writeInBufferShort_def writeInBufferNone_def)
qed

text \<open>The packets that arrived on a socket, oldest first.\<close>

fun received :: "os \<Rightarrow> int \<Rightarrow> call list \<Rightarrow> bytes list" where
  "received os sock [] = []"
| "received os sock (c # h) = received os sock h @ (case c of
      Recv j n \<Rightarrow> if j = sock then (case os_data os (c # h) of None \<Rightarrow> [] | Some d \<Rightarrow> [take n d]) else []
    | _ \<Rightarrow> [])"

lemma received_quiet:
  "(\<And>sock n. Recv sock n \<notin> set cs) \<Longrightarrow> received os sock (cs @ h) = received os sock h"
proof (induction cs)
  case (Cons c cs)
  then have "\<And>j n. c \<noteq> Recv j n" by auto
  then show ?case using Cons by (cases c) auto
qed simp

lemma bnd_data [proc_simps]:
  "bnd (time_now os) f s = f (os_time os (GetTime # hist s)) (log_call GetTime s)"
  "bnd (toggle loc) g s = g () (if hComm loc > 0 then log_call (SerialToggle (hComm loc)) s else s)"
  "bnd (sockname os sock) h s = h (os_from os (GetSockName sock # hist s)) (log_call (GetSockName sock) s)"
  by (simp_all add: time_now_def toggle_def sockname_def bnd_def cond_def sys0_def upd_def ret_def)

lemma first_addresses_run:
  "\<exists>loc' s'. first_addresses os k udp loc s = (Ret loc', s') \<and>
     sockD loc' = sockD loc \<and> payload loc' = payload loc \<and>
     (s' = s \<or> s' = log_call (GetSockName (sockD loc)) s)"
  by (simp add: first_addresses_def proc_simps note_src_def note_dst_def sockname_def bnd_def)

text \<open>A host whose sockets deliver whole packets of at least the eight bytes that hold the flow and the
  sequence number.\<close>

definition datagrams :: "os \<Rightarrow> bool" where
  "datagrams os \<longleftrightarrow> (\<forall>sock n h. 8 \<le> n \<longrightarrow> (\<exists>d. os_data os (Recv sock n # h) = Some d \<and> 8 \<le> length d \<and> length d \<le> n))"

lemma store_packet:
  assumes "calls_succeed os" "loop_ready k m pl fid s" "8 \<le> length d" "payload loc = d @ rest"
  shows "\<exists>s' r. log_packet os k loc now (int (length d)) s = (Ret loc, s') \<and>
    loop_ready k m pl fid s' \<and> flow_log os k s' = flow_log os k s @ os_image os r \<and> tells pl fid d r \<and>
    (\<forall>sock. received os sock (hist s') = received os sock (hist s))"
proof -
  from store_and_flush[OF assms(1,2), of loc now "int (length d)"] obtain x s' cs where
    run: "thn (store_record k loc now (int (length d)))
      (thn (upd (upd_slot k (\<lambda>f. f\<lparr>count := count f + 1\<rparr>))) (flush_full os k)) s = (Ret (), s')"
    and s': "loop_ready k m pl fid s'"
      "flow_log os k s' = flow_log os k s @ os_image os (payload_record (slots s ! k) loc now (int (length d)) x)"
      "hist s' = cs @ hist s" "\<forall>sock n. Recv sock n \<notin> set cs" by blast
  have "tells pl fid d (payload_record (slots s ! k) loc now (int (length d)) x)"
    using payload_record_tells[OF assms(3,4), of "slots s ! k" now x] assms(2) by (simp add: loop_ready_def)
  moreover have "\<forall>sock. received os sock (hist s') = received os sock (hist s)"
    using s'(3,4) by (simp add: received_quiet)
  moreover have "log_packet os k loc now (int (length d)) s =
     bnd (thn (store_record k loc now (int (length d)))
      (thn (upd (upd_slot k (\<lambda>f. f\<lparr>count := count f + 1\<rparr>))) (flush_full os k))) (\<lambda>_. ret loc) s"
    by (simp only: log_packet_def thn_bnd bnd_bnd)
  ultimately show ?thesis using run s'(1,2) by (auto simp: bnd_def ret_def)
qed

subsection \<open>Packet loops\<close>

text \<open>The contract of a packet loop: from a good state a round takes the next packet and appends its
  record to the log.  Its client gets the whole log of any number of rounds.\<close>

primrec packet_rounds :: "('l \<Rightarrow> ('s, 'l) proc) \<Rightarrow> nat \<Rightarrow> 'l \<Rightarrow> ('s, 'l) proc" where
  "packet_rounds step 0 l = ret l"
| "packet_rounds step (Suc n) l = bnd (step l) (packet_rounds step n)"

locale packet_loop =
  fixes step :: "'l \<Rightarrow> ('s, 'l) proc"
    and ready :: "'l \<Rightarrow> 's \<Rightarrow> bool"
    and log :: "'s \<Rightarrow> bytes"
    and packets :: "'s \<Rightarrow> bytes list"
    and image :: "info \<Rightarrow> bytes"
    and about :: "bytes \<Rightarrow> info \<Rightarrow> bool"
  assumes round_logs: "ready l s \<Longrightarrow> \<exists>l' s' p r. step l s = (Ret l', s') \<and> ready l' s' \<and>
      packets s' = packets s @ [p] \<and> log s' = log s @ image r \<and> about p r"
begin

lemma rounds_log:
  assumes "ready l s"
  shows "\<exists>l' s' ps rs. packet_rounds step n l s = (Ret l', s') \<and> ready l' s' \<and> length ps = n \<and>
    packets s' = packets s @ ps \<and> log s' = log s @ concat (map image rs) \<and> list_all2 about ps rs"
  using assms
proof (induction n arbitrary: l s)
  case 0
  then show ?case by (auto simp: ret_def)
next
  case (Suc n)
  from round_logs[OF Suc.prems] obtain l1 s1 p r where 1: "step l s = (Ret l1, s1)" "ready l1 s1"
    "packets s1 = packets s @ [p]" "log s1 = log s @ image r" "about p r" by blast
  from Suc.IH[OF 1(2)] obtain l2 s2 ps rs where 2: "packet_rounds step n l1 s1 = (Ret l2, s2)" "ready l2 s2"
    "length ps = n" "packets s2 = packets s1 @ ps" "log s2 = log s1 @ concat (map image rs)"
    "list_all2 about ps rs" by blast
  have "packet_rounds step (Suc n) l s = (Ret l2, s2)" using 1(1) 2(1) by (simp add: bnd_def)
  moreover have "packets s2 = packets s @ p # ps" "log s2 = log s @ concat (map image (r # rs))"
    "list_all2 about (p # ps) (r # rs)" using 1 2 by simp_all
  ultimately show ?case using 2 by (metis length_Cons)
qed

end

definition data_ready :: "os \<Rightarrow> nat \<Rightarrow> u8 \<Rightarrow> int \<Rightarrow> int \<Rightarrow> int \<Rightarrow> data_loc \<Rightarrow> 'a recv_state_scheme \<Rightarrow> bool" where
  "data_ready os k m pl fid sock loc s \<longleftrightarrow> calls_succeed os \<and> datagrams os \<and>
     loop_ready k m pl fid s \<and> sockD loc = sock"

lemma R_MAX_PAYLOAD_8: "8 \<le> R_MAX_PAYLOAD"
  by (simp add: R_MAX_PAYLOAD_def)

lemma udp_round_logs:
  assumes "data_ready os k m pl fid sock loc s"
  shows "\<exists>loc' s' d r. udpSock_round os k loc s = (Ret loc', s') \<and> data_ready os k m pl fid sock loc' s' \<and>
    received os sock (hist s') = received os sock (hist s) @ [d] \<and>
    flow_log os k s' = flow_log os k s @ os_image os r \<and> tells pl fid d r"
proof -
  from assms have ok: "calls_succeed os" "datagrams os" "loop_ready k m pl fid s" "sockD loc = sock"
    by (simp_all add: data_ready_def)
  define h where "h = Recv sock R_MAX_PAYLOAD # hist s"
  from ok(2) obtain d where d: "os_data os h = Some d" "8 \<le> length d" "length d \<le> R_MAX_PAYLOAD"
    unfolding datagrams_def h_def by (metis R_MAX_PAYLOAD_8)
  define s1 where "s1 = log_call (Recv sock R_MAX_PAYLOAD) s"
  define loc1 where "loc1 = loc\<lparr>payload := d @ drop (length d) (payload loc),
    srcAddress := (if passiveMode s then srcAddress loc else os_from os h)\<rparr>"
  define s2 where "s2 = (if hComm loc1 > 0 then log_call (SerialToggle (hComm loc1)) s1 else s1)"
  define s3 where "s3 = log_call GetTime s2"
  obtain loc2 s4 where fa: "first_addresses os k True loc1 s3 = (Ret loc2, s4)"
    "sockD loc2 = sockD loc1" "payload loc2 = payload loc1"
    "s4 = s3 \<or> s4 = log_call (GetSockName (sockD loc1)) s3"
    using first_addresses_run by blast
  have r4: "loop_ready k m pl fid s4" "flow_log os k s4 = flow_log os k s"
    "received os sock (hist s4) = received os sock (hist s) @ [d]"
    using fa(4) ok d by (auto simp: s3_def s2_def s1_def h_def)
  obtain s5 r where st: "log_packet os k loc2 (os_time os (GetTime # hist s2)) (int (length d)) s4 = (Ret loc2, s5)"
    and s5: "loop_ready k m pl fid s5" "flow_log os k s5 = flow_log os k s4 @ os_image os r" "tells pl fid d r"
      "received os sock (hist s5) = received os sock (hist s4)"
    using store_packet[OF ok(1) r4(1) d(2)] fa(3) by (simp add: loc1_def) blast
  define s6 where "s6 = (if m = METER_RTTM then log_call (Send sock (take (length d) (payload loc2))) s5 else s5)"
  have lc: "logCheck s3 \<noteq> 0" using ok(3) by (simp add: s3_def s2_def s1_def loop_ready_def logs_to_file_def)
  have m5: "p_meter (slots s5 ! k) = m" using s5(1) by (simp add: loop_ready_def)
  have sock2: "sockD loc2 = sock" using ok(4) fa(2) by (simp add: loc1_def)
  have pk: "udp_packet os k loc1 (int (length d)) s1 = (Ret loc2, s6)"
    using lc m5 calls_succeedD(5)[OF ok(1)] sock2
    by (simp add: udp_packet_def echo_rttm_def proc_simps s2_def[symmetric] s3_def[symmetric] s6_def
        bnd_Ret[of "first_addresses os k True loc1" s3, OF fa(1)]
        bnd_Ret[of "log_packet os k loc2 (os_time os (GetTime # hist s2)) (int (length d))" s4, OF st])
  have s1: "passiveMode s1 = passiveMode s" "hist s1 = h" using ok(4) by (simp_all add: s1_def h_def)
  have "udpSock_round os k loc s = (Ret loc2, s6)"
    using d ok pk s1 by (cases "passiveMode s") (simp_all add: udpSock_round_def proc_simps h_def[symmetric] s1_def[symmetric] loc1_def Let_def)
  moreover have "data_ready os k m pl fid sock loc2 s6"
    using ok s5(1) sock2 by (cases "m = METER_RTTM") (simp_all add: data_ready_def s6_def)
  moreover have "received os sock (hist s6) = received os sock (hist s) @ [d]"
    "flow_log os k s6 = flow_log os k s @ os_image os r" using s5 r4 by (simp_all add: s6_def)
  ultimately show ?thesis using s5(3) by blast
qed

interpretation udp: packet_loop "udpSock_round os k" "data_ready os k m pl fid sock" "flow_log os k"
  "\<lambda>s. received os sock (hist s)" "os_image os" "tells pl fid" for os k m pl fid sock
  by unfold_locales (rule udp_round_logs)

text \<open>C2: when its calls succeed and a local log is open, udpSock loses no packet.  After any number n
  of rounds the thread is still running, n packets have arrived, and the flow's log (what was
  written to the file, then what the buffer still holds) has grown by exactly one record per
  packet, in order, each with its packet's size and, as the payload kind says, its flow and
  sequence number; the buffer has been flushed whenever it was full and never overrun.\<close>

theorem udpSock_lossless:
  assumes "data_ready os k m pl fid sock loc s"
  shows "\<exists>loc' s' ps rs. packet_rounds (udpSock_round os k) n loc s = (Ret loc', s') \<and>
    length ps = n \<and> received os sock (hist s') = received os sock (hist s) @ ps \<and>
    flow_log os k s' = flow_log os k s @ concat (map (os_image os) rs) \<and>
    list_all2 (tells pl fid) ps rs \<and> buffer_ok k s'"
proof -
  from udp.rounds_log[OF assms, of n] obtain loc' s' ps rs where
    r: "packet_rounds (udpSock_round os k) n loc s = (Ret loc', s')" "data_ready os k m pl fid sock loc' s'"
      "length ps = n" "received os sock (hist s') = received os sock (hist s) @ ps"
      "flow_log os k s' = flow_log os k s @ concat (map (os_image os) rs)" "list_all2 (tells pl fid) ps rs"
    by blast
  then have "buffer_ok k s'" by (simp add: data_ready_def loop_ready_def)
  with r show ?thesis by blast
qed

text \<open>Witness: five packets through a buffer of two records.\<close>

definition slot_demo :: flow_slot where
  "slot_demo = \<lparr>idNum = 1, idProto = L4_UDP, hThr = None, p_flowId = 1, p_l7Proto = 0, destHost = any_addr,
     iface = None, addressInfos = Some [info_zero, info_zero], count = 0, sockFd = 0, socketClose = 0,
     p_meter = 0, p_dsByte = 0, fileLog = GlobalOut, p_logSock = 0, serial = [], preambleSize = 16,
     payloadLogType = PL_STANDARD, portForPssv = 0, indexPort = 8999\<rparr>"

definition recv_demo :: "flow_slot list \<Rightarrow> recv_state" where
  "recv_demo sl = \<lparr>hist = [], r_flagTerm = R_NO_TERMINATE, logCheck = 1, logRemote = 0, r_buffer_size = 2,
     r_memLogFile = init_table, r_outOpen = True, passiveMode = False, passiveSender = any_addr,
     globalBindAddr = None, globaleLogHost = any_addr, globaleLogSock = 0, globaleLogSockSignaling = 0,
     defaultLogPortSignaling = 9001, r_gui = False, sharedTcp = (\<lambda>p. \<lparr>shSocket = 0, inUse = 0\<rparr>),
     sharedUdp = (\<lambda>p. \<lparr>shSocket = 0, inUse = 0\<rparr>), slots = sl, numFlow = 1, fileDescriptor = GlobalOut,
     nameFileLog = [], protocolLog = 0, logHost = any_addr, logSock = 0, logSockSignaling = 0\<rparr>"

definition loc_demo :: data_loc where
  "loc_demo = \<lparr>sockD = 5, payload = [], srcAddress = any_addr, firstpacket = True, helpSrc = [],
     helpDst = [], srcPortD = 0, dstPortD = 0, hComm = 0\<rparr>"

definition os_packets :: os where
  "os_packets = os_ok\<lparr>os_data := (\<lambda>h. Some [0, 0, 0, 1, 0, 0, 0, 7])\<rparr>"

lemma os_ok_calls: "os_int os = os_int os_ok \<Longrightarrow> calls_succeed os"
  by (simp add: calls_succeed_def call_ok_def os_ok_def split: call.split)

lemma data_ready_demo: "data_ready os_packets 0 0 PL_STANDARD 1 5 loc_demo (recv_demo [slot_demo])"
  by (simp add: data_ready_def os_ok_calls os_packets_def datagrams_def loop_ready_def buffer_ok_def
      logs_to_file_def recv_demo_def slot_demo_def loc_demo_def stream_open_def)

theorem udpSock_lossless_witness:
  "\<exists>loc' s' ps rs. packet_rounds (udpSock_round os_packets 0) 5 loc_demo (recv_demo [slot_demo]) = (Ret loc', s') \<and>
    length ps = 5 \<and> flow_log os_packets 0 s' = concat (map (os_image os_packets) rs) \<and>
    list_all2 (tells PL_STANDARD 1) ps rs"
  using udpSock_lossless[OF data_ready_demo, of 5]
  by (fastforce simp: flow_log_def recv_demo_def buffered_def slot_demo_def)

end
