(* ===== verification/Flow_Facts.thy ===== *)
theory Flow_Facts
  imports DataThread_Facts
begin

text \<open>What closing a flow does to the tables of its signaling thread, to the log and to the shared
  sockets, and that the shared sockets of the receiver are counted.\<close>

lemma L4_distinct [simp]: "L4_UDP \<noteq> L4_TCP" "L4_TCP \<noteq> L4_UDP" "L4_ICMP \<noteq> L4_TCP" "L4_ICMP \<noteq> L4_UDP"
  by (simp_all add: L4_TCP_def L4_UDP_def L4_ICMP_def)

subsection \<open>Shared sockets\<close>

text \<open>A shared socket with one user less; the last one closes it.\<close>

definition shared_left :: "sharedSocketType \<Rightarrow> sharedSocketType" where
  "shared_left sh = (if inUse sh = 1 then sh\<lparr>inUse := 0, shSocket := 0\<rparr> else sh\<lparr>inUse := inUse sh - 1\<rparr>)"

lemma shared_left_fields [simp]:
  "inUse (shared_left sh) = inUse sh - 1"
  "shSocket (shared_left sh) = (if inUse sh = 1 then 0 else shSocket sh)"
  by (simp_all add: shared_left_def)

text \<open>What release_shared does to the state when its calls succeed.\<close>

definition shared_calls :: "string \<Rightarrow> sharedSocketType \<Rightarrow> call list" where
  "shared_calls m sh = MutexUnlock m # (if inUse sh = 1 then [Close (shSocket sh)] else []) @ [MutexLock m]"

definition released :: "nat \<Rightarrow> 'a recv_state_scheme \<Rightarrow> 'a recv_state_scheme" where
  "released k s = (let f = slots s ! k; p = indexPort f in
     if idProto f = L4_TCP then
       s\<lparr>sharedTcp := (sharedTcp s)(p := shared_left (sharedTcp s p)),
         hist := shared_calls ''sharedTcp'' (sharedTcp s p) @ hist s\<rparr>
     else if idProto f = L4_UDP then
       upd_slot k (\<lambda>f. f\<lparr>socketClose := 0\<rparr>)
         (s\<lparr>sharedUdp := (sharedUdp s)(p := shared_left (sharedUdp s p)),
            hist := shared_calls ''sharedUdp'' (sharedUdp s p) @ hist s\<rparr>)
     else s)"

lemma release_shared_run:
  assumes "calls_succeed os"
  shows "release_shared os k s = (Ret (), released k s)"
proof -
  note ok = calls_succeedD[OF assms]
  let ?p = "indexPort (slots s ! k)"
  consider (tcp) "idProto (slots s ! k) = L4_TCP" | (udp) "idProto (slots s ! k) \<noteq> L4_TCP" "idProto (slots s ! k) = L4_UDP"
    | (other) "idProto (slots s ! k) \<noteq> L4_TCP" "idProto (slots s ! k) \<noteq> L4_UDP" by blast
  then show ?thesis
  proof cases
    case tcp
    then show ?thesis
      by (cases "inUse (sharedTcp s ?p) = 1")
        (simp_all add: release_shared_def released_def proc_simps thread_apply norm_ret_def Let_def
          shared_left_def shared_calls_def log_call_def ok)
  next
    case udp
    then show ?thesis
      by (cases "inUse (sharedUdp s ?p) = 1")
        (simp_all add: release_shared_def released_def proc_simps thread_apply norm_ret_def Let_def
          shared_left_def shared_calls_def log_call_def upd_slot_def ok)
  next
    case other
    then show ?thesis by (simp add: release_shared_def released_def proc_simps Let_def)
  qed
qed

subsection \<open>Stopping a flow\<close>

lemma released_fields [simp]:
  "logCheck (released k s) = logCheck s" "logRemote (released k s) = logRemote s"
  "r_memLogFile (released k s) = r_memLogFile s" "r_outOpen (released k s) = r_outOpen s"
  "numFlow (released k s) = numFlow s" "length (slots (released k s)) = length (slots s)"
  "j \<noteq> k \<Longrightarrow> slots (released k s) ! j = slots s ! j"
  "k < length (slots s) \<Longrightarrow> slots (released k s) ! k =
     (slots s ! k)\<lparr>socketClose := (if idProto (slots s ! k) = L4_UDP then 0 else socketClose (slots s ! k))\<rparr>"
  "written i (hist (released k s)) = written i (hist s)"
  by (simp_all add: released_def shared_calls_def Let_def L4_TCP_def L4_UDP_def)

definition stopped :: "nat \<Rightarrow> 'a recv_state_scheme \<Rightarrow> 'a recv_state_scheme" where
  "stopped k s = (let
     s1 = (case hThr (slots s ! k) of None \<Rightarrow> s | Some t \<Rightarrow> log_call (PthreadCancel t) s);
     s2 = released k s1;
     c = socketClose (slots s2 ! k);
     s3 = (if c > 0 then log_call (Close c) s2 else s2)
   in (upd_slot k (\<lambda>f. f\<lparr>addressInfos := None, idNum := -1\<rparr>) s3)\<lparr>numFlow := numFlow s - 1\<rparr>)"

lemma stop_flow_run:
  assumes "calls_succeed os"
  shows "stop_flow os k s = (Ret (), stopped k s)"
proof -
  note ok = calls_succeedD[OF assms]
  have rel: "bnd (release_shared os k) f t = f () (released k t)" for f :: "unit \<Rightarrow> ('a recv_state_scheme, 'b) proc" and t
    by (rule bnd_Ret) (rule release_shared_run[OF assms])
  show ?thesis
    by (cases "hThr (slots s ! k)")
      (simp_all add: stop_flow_def stopped_def proc_simps thread_apply norm_ret_def Let_def rel ok)
qed

lemma stopped_fields [simp]:
  "numFlow (stopped k s) = numFlow s - 1" "length (slots (stopped k s)) = length (slots s)"
  "j \<noteq> k \<Longrightarrow> slots (stopped k s) ! j = slots s ! j"
  "written i (hist (stopped k s)) = written i (hist s)"
  by (simp_all add: stopped_def Let_def split: option.split)

lemma stopped_slot:
  assumes "k < length (slots s)"
  shows "idNum (slots (stopped k s) ! k) = -1" "addressInfos (slots (stopped k s) ! k) = None"
  using assms by (simp_all add: stopped_def Let_def split: option.split)

lemma stopped_shared:
  "sharedTcp (stopped k s) = sharedTcp (released k s)" "sharedUdp (stopped k s) = sharedUdp (released k s)"
  by (simp_all add: stopped_def released_def Let_def split: option.split)

subsection \<open>Closing a flow\<close>

lemma sint_of_int_range: "- (2 ^ 31) \<le> x \<Longrightarrow> x < 2 ^ 31 \<Longrightarrow> sint (of_int x :: u32) = x"
  by (simp add: sint_sbintrunc' signed_take_bit_int_eq_self)

text \<open>The four bytes of a flow id, as every message about a flow ends with.\<close>

definition flow_id_arrives :: "os \<Rightarrow> int \<Rightarrow> int \<Rightarrow> 'a recv_state_scheme \<Rightarrow> bool" where
  "flow_id_arrives os sock fid s \<longleftrightarrow> - (2 ^ 31) \<le> fid \<and> fid < 2 ^ 31 \<and>
     os_data os (Recv sock 4 # hist s) = Some (u32_mem (htonl (of_int fid)))"

lemma recv_flowId_run:
  assumes "flow_id_arrives os sock fid s"
  shows "recv_flowId os sock s = (Ret fid, log_call (Recv sock 4) s)"
proof -
  have w: "mem_u32 (u32_mem w) = w" for w using mem_u32_mem[of w "[]"] by simp
  show ?thesis
    using assms by (simp add: recv_flowId_def flow_id_arrives_def proc_simps Let_def w sint_of_int_range
        del: length_0_conv split: if_splits) (auto simp: u32_mem_def proc_simps)
qed

definition flushed :: "os \<Rightarrow> nat \<Rightarrow> 'a recv_state_scheme \<Rightarrow> 'a recv_state_scheme" where
  "flushed os k s = log_call (MutexUnlock ''mutexLog'') (upd_slot k (\<lambda>f. f\<lparr>count := 0\<rparr>)
     (log_call (FFlush (stream_id (fileLog (slots s ! k)))) (log_call (FWrite (stream_id (fileLog (slots s ! k)))
       (buffered os (slots s ! k))) (log_call (MutexLock ''mutexLog'') s))))"

text \<open>A flow that can be closed with its records going to an open file.\<close>

definition closable :: "nat \<Rightarrow> 'a recv_state_scheme \<Rightarrow> bool" where
  "closable k s \<longleftrightarrow> k < length (slots s) \<and> (logCheck s = 1 \<or> logCheck s = 2) \<and>
     stream_open (fileLog (slots s ! k)) s = Some True \<and> idProto (slots s ! k) \<in> {L4_TCP, L4_UDP, L4_ICMP} \<and>
     0 \<le> count (slots s ! k) \<and>
     (\<exists>xs. addressInfos (slots s ! k) = Some xs \<and> nat (count (slots s ! k)) \<le> length xs)"

lemma flush_closed_run:
  assumes "calls_succeed os" "closable k s"
  shows "flush_closed os k s = (Ret (), flushed os k s)"
proof -
  from assms(2) have op: "stream_open (fileLog (slots s ! k)) s = Some True"
    and lc: "logCheck s = 1 \<or> logCheck s = 2"
    and ib: "infos_bytes os (addressInfos (slots s ! k)) (count (slots s ! k)) = Some (buffered os (slots s ! k))"
    by (auto simp: closable_def intro: infos_bytes_buffer)
  show ?thesis using flushBuffer_run[OF assms(1) op ib] lc
    by (simp add: flush_closed_def bnd_prim flushed_def if_apply)
qed

lemma find_flow_Some:
  "find_flow fid sl = Some k \<Longrightarrow> k < length sl \<and> idNum (sl ! k) = fid"
  by (auto simp: find_flow_def dest: scan_Some)

text \<open>C11: closing a flow whose log is an open file writes all its buffered records to that file, frees
  its position and no other, gives back its share of the port's socket (closing the socket with
  the last share), and acknowledges the flow's id as the last call; the call counts are right
  for TCP, UDP and ICMP flows alike.\<close>

theorem closedFlow_effect:
  assumes "calls_succeed os" "flow_id_arrives os sock fid s"
    and "find_flow fid (slots s) = Some k" "closable k s"
  shows "\<exists>s'. typeParser os TSP_CLOSED_FLOW sock s = (Ret 0, s') \<and>
    written (stream_id (fileLog (slots s ! k))) (hist s') = flow_log os k s \<and>
    idNum (slots s' ! k) = -1 \<and> (\<forall>j. j \<noteq> k \<longrightarrow> slots s' ! j = slots s ! j) \<and>
    numFlow s' = numFlow s - 1 \<and>
    (let p = indexPort (slots s ! k) in
      sharedTcp s' = (if idProto (slots s ! k) = L4_TCP
        then (sharedTcp s)(p := shared_left (sharedTcp s p)) else sharedTcp s) \<and>
      sharedUdp s' = (if idProto (slots s ! k) = L4_UDP
        then (sharedUdp s)(p := shared_left (sharedUdp s p)) else sharedUdp s)) \<and>
    hd (hist s') = Send sock (ackFlow_message TSP_ACK_CLOSED_FLOW fid 0)"
proof -
  define s1 where "s1 = log_call (Recv sock 4) s"
  define s2 where "s2 = flushed os k s1"
  have c1: "closable k s1" "slots s1 = slots s" using assms(4) by (simp_all add: closable_def s1_def)
  have k: "k < length (slots s)" using assms(4) by (simp add: closable_def)
  have f2: "idProto (slots s2 ! k) = idProto (slots s ! k)" "indexPort (slots s2 ! k) = indexPort (slots s ! k)"
    "sharedTcp s2 = sharedTcp s" "sharedUdp s2 = sharedUdp s" "numFlow s2 = numFlow s"
    "length (slots s2) = length (slots s)" "\<And>j. j \<noteq> k \<Longrightarrow> slots s2 ! j = slots s ! j"
    "written (stream_id (fileLog (slots s ! k))) (hist s2) = flow_log os k s"
    using k by (simp_all add: s2_def flushed_def s1_def flow_log_def)
  obtain q where q: "idProto (slots s ! k) \<noteq> L4_ICMP \<Longrightarrow> finish_proto (idProto (slots s ! k)) = Some q"
    using assms(4) by (auto simp: closable_def finish_proto_def L4_TCP_def L4_UDP_def L4_ICMP_def)
  define s3 where "s3 = (if idProto (slots s ! k) \<noteq> L4_ICMP then log_call (Print (''Finish on '' @ q)) s2 else s2)"
  define s4 where "s4 = stopped k (log_call (Sleep 1) s3)"
  define s5 where "s5 = log_call (Send sock (ackFlow_message TSP_ACK_CLOSED_FLOW fid 0)) s4"
  have "typeParser os TSP_CLOSED_FLOW sock s = typeParser_closedFlow os sock s"
    by (simp add: typeParser_def TSP_CLOSED_FLOW_def TSP_SEND_FLOW_def)
  also have "\<dots> = (Ret 0, s5)"
    using assms(3) c1(2) q calls_succeedD(5)[OF assms(1)]
    by (simp add: typeParser_closedFlow_def sendAckFlow_def proc_simps
        bnd_Ret[of "recv_flowId os sock" s, OF recv_flowId_run[OF assms(2)], folded s1_def]
        bnd_Ret[of "flush_closed os k" s1, OF flush_closed_run[OF assms(1) c1(1)], folded s2_def]
        bnd_Ret[of "stop_flow os k", OF stop_flow_run[OF assms(1)]] f2 s5_def s4_def s3_def)
  finally have run: "typeParser os TSP_CLOSED_FLOW sock s = (Ret 0, s5)" .
  have f3: "slots s3 = slots s2" "sharedTcp s3 = sharedTcp s" "sharedUdp s3 = sharedUdp s" "numFlow s3 = numFlow s"
    "\<And>i. written i (hist s3) = written i (hist s2)" by (simp_all add: s3_def f2)
  show ?thesis
    using run k f2 f3 by (intro exI[of _ s5]) (simp add: s5_def s4_def stopped_slot stopped_shared released_def Let_def)
qed

definition os_close :: os where
  "os_close = os_ok\<lparr>os_data := (\<lambda>h. Some [0, 0, 0, 1])\<rparr>"

lemma flow_id_arrives_demo: "flow_id_arrives os_close 4 1 s"
  by (simp add: flow_id_arrives_def os_close_def htonl_def u32_mem_def drop_bit_eq_div)

theorem closedFlow_effect_witness:
  "\<exists>s'. typeParser os_close TSP_CLOSED_FLOW 4 (recv_demo [slot_demo]) = (Ret 0, s') \<and>
     idNum (slots s' ! 0) = -1 \<and> hd (hist s') = Send 4 (ackFlow_message TSP_ACK_CLOSED_FLOW 1 0)"
proof -
  have "calls_succeed os_close" by (rule os_ok_calls) (simp add: os_close_def)
  moreover have "find_flow 1 (slots (recv_demo [slot_demo])) = Some 0"
    by (simp add: find_flow_def recv_demo_def slot_demo_def)
  moreover have "closable 0 (recv_demo [slot_demo])"
    by (simp add: closable_def recv_demo_def slot_demo_def stream_open_def)
  ultimately show ?thesis
    using closedFlow_effect[OF _ flow_id_arrives_demo, of "recv_demo [slot_demo]" 0] by blast
qed

end
