(* ===== verification/Signal_Facts.thy ===== *)
theory Signal_Facts
  imports SignalManager RecvLog_Facts
begin

text \<open>A sender that has fallen silent is found out: the discovery messages of signalManager.\<close>

text \<open>A peer that never sends anything while the connection still takes the discovery messages.\<close>

definition silent :: "os \<Rightarrow> int \<Rightarrow> bool" where
  "silent os sock \<longleftrightarrow> (\<forall>fds h fd. 0 \<le> os_int os (Select fds # h) \<and> \<not> os_ready os (Select fds # h) fd) \<and>
     (\<forall>bs h. 0 \<le> os_int os (Send sock bs # h) \<and> os_int os (Send sock bs # h) \<noteq> EAGAIN)"

lemma silent_round:
  assumes "silent os sock"
  shows "signal_round os fuel sock fd n s =
    (Ret (if n + 1 = 2 then (TSP_SENDER_DOWN, True, n + 1) else (TSP_DISCOVERY, False, n + 1)),
     log_call (Send sock [TSP_DISCOVERY]) (log_call (Select [fd, sock]) s))"
proof -
  have "\<not> os_int os (Select fds # h) < 0" "\<not> os_ready os (Select fds # h) x" for fds h x
    using assms by (auto simp: silent_def not_less)
  moreover have "\<not> os_int os (Send sock bs # h) < 0" "os_int os (Send sock bs # h) \<noteq> EAGAIN" for bs h
    using assms by (auto simp: silent_def not_less)
  ultimately show ?thesis by (simp add: signal_round_def r_check_def proc_simps)
qed

text \<open>C31: a signaling thread does not wait for ever for a dead sender.  When the sender has fallen
  silent, whatever the state and however many rounds are left, the loop ends after exactly two
  rounds (two time-outs of select, two discovery messages) with TSP_SENDER_DOWN, so that the
  tear-down follows, and has changed nothing else.\<close>

theorem discovery_finds_dead_sender:
  assumes "silent os sock" "2 \<le> rounds"
  shows "signal_loop os rounds fuel sock fd 0 s =
    (Ret TSP_SENDER_DOWN, s\<lparr>hist := [Send sock [TSP_DISCOVERY], Select [fd, sock],
       Send sock [TSP_DISCOVERY], Select [fd, sock]] @ hist s\<rparr>)"
proof -
  obtain r where r: "rounds = Suc (Suc r)" using assms(2) le_Suc_ex[of 2 rounds] by auto
  let ?t = "log_call (Send sock [TSP_DISCOVERY]) (log_call (Select [fd, sock]) s)"
  have "signal_loop os rounds fuel sock fd 0 s = signal_loop os (Suc r) fuel sock fd 1 ?t"
    unfolding r signal_loop.simps(2)[of os "Suc r"]
    by (subst bnd_Ret[of "signal_round os fuel sock fd 0" s, OF silent_round[OF assms(1)]]) simp
  also have "\<dots> = (Ret TSP_SENDER_DOWN, log_call (Send sock [TSP_DISCOVERY]) (log_call (Select [fd, sock]) ?t))"
    unfolding signal_loop.simps(2)
    by (subst bnd_Ret[of "signal_round os fuel sock fd 1" ?t, OF silent_round[OF assms(1)]]) (simp add: ret_def)
  finally show ?thesis by (simp add: log_call_def)
qed

definition os_silent :: os where
  "os_silent = os_ok\<lparr>os_int := (\<lambda>h. 1)\<rparr>"

theorem discovery_finds_dead_sender_witness:
  "fst (signal_loop os_silent 100 7 4 5 0 init_receiver) = Ret TSP_SENDER_DOWN"
  using discovery_finds_dead_sender[of os_silent 4 100 7 5 init_receiver]
  by (simp add: silent_def os_silent_def os_ok_def EAGAIN_def)

end
