(* ===== verification/SendState.thy ===== *)
theory SendState
  imports Threads CLib Net RecvState
begin

text \<open>ITGSend (src/ITGSend/ITGSend.cpp): the flows, the signaling channels and the settings that the
  signaling uses, and every message that the sender puts on a signaling channel.  An int that
  indexes one of the two tables is checked here: outside the table the access is a fault.\<close>

subsection \<open>State\<close>

text \<open>The fields of flowDescriptor that signaling reads or writes.\<close>

record flow_desc =
  f_SrcHost :: sockaddr
  f_DestHost :: sockaddr
  f_meter :: u8
  f_l4Proto :: u8
  f_l7Proto :: u8
  f_DSByte :: u32
  f_sigChanId :: int
  f_serialReceiver :: bytes
  f_payloadLogType :: int
  f_srcAddrSpecify :: bool
  f_dstAddrSpecify :: bool
  f_SigDestHost :: sockaddr
  f_SigSrcHost :: "sockaddr option"
  f_SigSrcPort :: u16
  f_SigInterface :: "string option"

record sig_channel =
  ch_socket :: int
  ch_flows :: int
  ch_DestAddr :: sockaddr
  ch_errorLog :: bool
  ch_pipe :: int

record send_state = world +
  flows :: "flow_desc list"
  signalChannels :: "sig_channel list"
  s_multiFlows :: bool
  s_passiveMode :: bool
  okToNewSignalingChan :: bool
  globalSigAddr :: string
  signalChanCount :: int
  logging :: int
  logremoto :: int
  s_logSock :: int
  s_logSockSignaling :: int
  s_logHost :: sockaddr
  s_logFile :: bytes
  namelogReceiver :: int
  logServer :: int
  logFileReceiver :: bytes
  serverLogReceiver :: sockaddr
  protoTx_ServerLogReceiver :: u8

definition upd_flow :: "nat \<Rightarrow> (flow_desc \<Rightarrow> flow_desc) \<Rightarrow> 'a send_state_scheme \<Rightarrow> 'a send_state_scheme" where
  "upd_flow i f s = s\<lparr>flows := (flows s)[i := f (flows s ! i)]\<rparr>"

definition upd_chan :: "nat \<Rightarrow> (sig_channel \<Rightarrow> sig_channel) \<Rightarrow> 'a send_state_scheme \<Rightarrow> 'a send_state_scheme" where
  "upd_chan c f s = s\<lparr>signalChannels := (signalChannels s)[c := f (signalChannels s ! c)]\<rparr>"

text \<open>Access to flows[i].\<close>

definition get_flow :: "int \<Rightarrow> ('a send_state_scheme, flow_desc) proc" where
  "get_flow i = (bnd (gets flows) (\<lambda>fs.
   if 0 \<le> i \<and> nat i < length fs then ret (fs ! nat i) else fault))"

subsection \<open>Leaving the program\<close>

definition s_ReportErrorAndExit :: "string \<Rightarrow> ('a send_state_scheme, 'b) proc" where
  "s_ReportErrorAndExit msg = thn (sys0 (Print msg)) (exit_with 1)"

definition s_Terminate :: "os \<Rightarrow> int \<Rightarrow> ('a send_state_scheme, unit) proc" where
  "s_Terminate os sig = (bnd (gets id) (\<lambda>s.
   thn ((if logremoto s \<noteq> 0 then (thn (sys os (Send (s_logSockSignaling s) (stop_message os (hist s))))
      (bnd (closeSock os (s_logSock s)) (\<lambda>a.
      thn (cond (a < 0) (sys0 (Print ''Error into close  log sock'')))
      (bnd (closeSock os (s_logSockSignaling s)) (\<lambda>b.
      cond (b < 0) (sys0 (Print ''Error into close log sock signaling'')))))))
      else cond (logging s \<noteq> 0) (sys0 (FClose 0))))
   (exit_with sig)))"

subsection \<open>Messages\<close>

text \<open>sendType ignores the result of send.\<close>

definition sendType :: "os \<Rightarrow> int \<Rightarrow> u8 \<Rightarrow> ('a send_state_scheme, unit) proc" where
  "sendType os signalSock type = thn (sys os (Send signalSock [type])) (ret ())"

definition recvAck :: "os \<Rightarrow> int \<Rightarrow> ('a send_state_scheme, unit) proc" where
  "recvAck os signalSock = (bnd (sys_recv os signalSock 1) (\<lambda>r.
   cond (r = None) (sys0 (Print ''recvAck: error while receiving ACK on the signaling channel''))))"

text \<open>The loop that createSignalChan and sendRelease share: the type is sent, at most twice, until the
  peer answers within TIME_OUT; its result is the number of times it was sent.\<close>

function send_until_ack :: "os \<Rightarrow> int \<Rightarrow> u8 \<Rightarrow> nat \<Rightarrow> ('a send_state_scheme, nat) proc" where
  "send_until_ack os signalSock type numSend = (thn (sendType os signalSock type)
   (bnd (sys_select os [signalSock]) (\<lambda>(sel, ready).
   thn (cond (sel < 0) (sys0 (Print ''Error ** : Invalid file descriptor'')))
   (if ready signalSock then thn (recvAck os signalSock) (ret (numSend + 1))
     else if numSend + 1 < 2 then send_until_ack os signalSock type (numSend + 1)
     else ret (numSend + 1)))))"

  by pat_completeness auto
termination
  by (relation "measure (\<lambda>(os, sock, type, n). 2 - n)") auto

declare send_until_ack.simps [simp del]

definition createSignalChan :: "os \<Rightarrow> int \<Rightarrow> ('a send_state_scheme, unit) proc" where
  "createSignalChan os signalSock = (bnd (send_until_ack os signalSock TSP_CONNECT 0) (\<lambda>numSend.
   cond (numSend = 2) (sys0 (Print ''** ERROR ** Receiver is down !''))))"

definition sendRelease :: "os \<Rightarrow> int \<Rightarrow> ('a send_state_scheme, unit) proc" where
  "sendRelease os signalSock = (bnd (send_until_ack os signalSock TSP_RELEASE 0) (\<lambda>numSend.
   cond (numSend = 2) (sys0 (Print ''** ERROR ** Receiver is down !''))))"

definition sendNameLog :: "os \<Rightarrow> int \<Rightarrow> bytes \<Rightarrow> ('a send_state_scheme, int) proc" where
  "sendNameLog os signalSock FileName = sys os (Send signalSock (TSP_SEND_NAME_LOG # FileName))"

text \<open>The address goes as it is in memory; a family without a case has none, and the message ends with
  two bytes that were not set.\<close>

definition log_message :: "bytes \<Rightarrow> sockaddr \<Rightarrow> u8 \<Rightarrow> bytes \<Rightarrow> bytes" where
  "log_message old host logProtocol FileName =
     [TSP_SEND_FLOW_LOG] @ u32_mem (htonl (of_int (ai_family host))) @
     (if ai_family host = PF_INET then take 4 (ip host) @ u16_mem (sin_port host)
      else if ai_family host = PF_INET6 then take 16 (ip host) @ u16_mem (sin_port host) else []) @
     [logProtocol] @ FileName @
     (if ai_family host = PF_INET \<or> ai_family host = PF_INET6 then [] else old)"

definition sendLog :: "os \<Rightarrow> int \<Rightarrow> sockaddr \<Rightarrow> u8 \<Rightarrow> bytes \<Rightarrow> ('a send_state_scheme, int) proc" where
  "sendLog os signalSock host logProtocol FileName =
     bnd (gets (\<lambda>s. junk os (hist s) 2)) (\<lambda>old.
     sys os (Send signalSock (log_message old host logProtocol FileName)))"

text \<open>The three messages that are a type and a flow id.\<close>

definition id_message :: "u8 \<Rightarrow> int \<Rightarrow> bytes" where
  "id_message type fid = [type] @ u32_mem (htonl (of_int fid))"

definition closedFlowErr :: "os \<Rightarrow> int \<Rightarrow> int \<Rightarrow> ('a send_state_scheme, unit) proc" where
  "closedFlowErr os fid signalSock = (bnd (sys os (Send signalSock (id_message TSP_CLOSED_ERR fid))) (\<lambda>r.
   cond (r < 0) (thn (sys0 (Print ''error into send'')) (exit_with 1))))"

definition closedFlow :: "os \<Rightarrow> int \<Rightarrow> int \<Rightarrow> ('a send_state_scheme, int) proc" where
  "closedFlow os fid signalSock = (bnd (sys os (Send signalSock (id_message TSP_CLOSED_FLOW fid))) (\<lambda>r.
   if r < 0 then thn (sys0 (Print ''Error in request to close'')) (ret (-1)) else ret 0))"

definition s_sendAckFlow :: "os \<Rightarrow> int \<Rightarrow> int \<Rightarrow> ('a send_state_scheme, int) proc" where
  "s_sendAckFlow os fid signalSock = (bnd (sys os (Send signalSock (id_message TSP_ACK_SEND_FLOW fid))) (\<lambda>r.
   if r < 0 then thn (sys0 (Print ''Error in send ack flow'')) (ret (-1)) else ret 0))"

text \<open>The request for a new flow.  Ports are read as the 16-bit value of the address field and pass
  through htons.\<close>

definition request_message :: "bool \<Rightarrow> int \<Rightarrow> flow_desc \<Rightarrow> bytes" where
  "request_message passive fid f =
     (let DestHost = (if passive then f_SrcHost f else f_DestHost f);
          netSrcPort = htons (GET_PORT (f_DestHost f) 0);
          l3Proto = (if ai_family DestHost = PF_INET then L3_PROTO_IPv4 else L3_PROTO_IPv6)
      in [TSP_SEND_FLOW, f_l4Proto f, f_l7Proto f, f_meter f, ucast (f_DSByte f), l3Proto] @
         u32_mem (htonl (of_int fid)) @ [of_int (f_payloadLogType f)] @ f_serialReceiver f @
         (if passive then u16_mem netSrcPort @ [if f_srcAddrSpecify f then 255 else 0] else []) @
         (if ai_family DestHost = PF_INET then u16_mem (htons (sin_port DestHost)) @ take 4 (ip DestHost)
          else if ai_family DestHost = PF_INET6 then u16_mem (htons (sin_port DestHost)) @ take 16 (ip DestHost)
          else []))"

definition requestToSend :: "os \<Rightarrow> int \<Rightarrow> int \<Rightarrow> ('a send_state_scheme, int) proc" where
  "requestToSend os fid signalSock = (bnd (get_flow fid) (\<lambda>f.
   bnd (gets s_passiveMode) (\<lambda>passive.
   bnd (sys os (Send signalSock (request_message passive fid f))) (\<lambda>r.
   if r < 0 then thn (sys0 (Print ''Error in request to send'')) (ret (-1)) else ret 0))))"

subsection \<open>The sender's log\<close>

definition s_flushBuffer :: "os \<Rightarrow> bytes \<Rightarrow> ('a send_state_scheme, unit) proc" where
  "s_flushBuffer os infos = (bnd (gets id) (\<lambda>s.
   if logremoto s \<noteq> 0 then (bnd (mutexThreadLock os ''mutexLogRem'') (\<lambda>a.
      bnd (sys os (Send (s_logSock s) infos)) (\<lambda>r.
      thn (cond (r < 0) (sys0 (Print ''ERROR Sending infos to logger....'')))
      (bnd (mutexThreadUnlock os ''mutexLogRem'') (\<lambda>b.
      ret ())))))
     else (bnd (mutexThreadLock os ''mutexLog'') (\<lambda>a.
      thn (sys0 (FWrite 0 infos))
      (thn (sys0 (FFlush 0))
      (bnd (mutexThreadUnlock os ''mutexLog'') (\<lambda>b.
      ret ())))))))"

end
