(* ===== verification/Request_Facts.thy ===== *)
theory Request_Facts
  imports SendState Flow_Facts
begin

text \<open>The two ends of the signaling channel understand each other: the receiver fills the tables of a
  new flow with what the sender's request says.\<close>

subsection \<open>A stream that delivers what is asked for\<close>

fun asked :: "int \<Rightarrow> call list \<Rightarrow> nat" where
  "asked sock [] = 0"
| "asked sock (c # cs) = asked sock cs + (case c of Recv j n \<Rightarrow> if j = sock then n else 0 | _ \<Rightarrow> 0)"

definition delivers :: "os \<Rightarrow> int \<Rightarrow> bytes \<Rightarrow> 'a world_scheme \<Rightarrow> bool" where
  "delivers os sock X s \<longleftrightarrow>
     (\<forall>cs n. os_data os (Recv sock n # cs @ hist s) = Some (take n (drop (asked sock cs) X)))"

lemma asked_append [simp]: "asked sock (cs @ ds) = asked sock cs + asked sock ds"
  by (induction cs) auto

lemma delivers_recv:
  assumes "delivers os sock X s"
  shows "os_data os (Recv sock n # hist s) = Some (take n X)"
    and "delivers os sock (drop n X) (log_call (Recv sock n) s)"
proof -
  have d: "os_data os (Recv sock m # cs @ hist s) = Some (take m (drop (asked sock cs) X))" for m cs
    using assms by (simp add: delivers_def)
  show "os_data os (Recv sock n # hist s) = Some (take n X)" using d[of n "[]"] by simp
  show "delivers os sock (drop n X) (log_call (Recv sock n) s)"
    using d[of _ "_ @ [Recv sock n]"] by (simp add: delivers_def add.commute)
qed

lemma delivers_quiet:
  assumes "delivers os sock X s" "hist s' = cs @ hist s" "asked sock cs = 0"
  shows "delivers os sock X s'"
proof -
  have "os_data os (Recv sock m # ds @ cs @ hist s) = Some (take m (drop (asked sock ds) X))" for m ds
    using assms(1)[unfolded delivers_def, rule_format, of m "ds @ cs"] assms(3) by simp
  then show ?thesis using assms(2) by (simp add: delivers_def)
qed

text \<open>Reading a field of n bytes takes the next n bytes.\<close>

lemma recv_var_run:
  assumes "delivers os sock (d @ rest) s" "length d = n"
  shows "bnd (recv_var os sock n msg) f s = f d (log_call (Recv sock n) s)"
    and "delivers os sock rest (log_call (Recv sock n) s)"
  using delivers_recv[OF assms(1), of n] assms(2) by (simp_all add: recv_var_def proc_simps)

lemma recv_common_run:
  assumes "delivers os sock ([a, b, c, ds, l3] @ u32_mem w @ [pl] @ ser @ rest) s"
    and "length ser = DIM_NAME_SERIAL_INTERFACE"
  shows "\<exists>cs. recv_common os sock s = (Ret \<lparr>rq_l4Proto = a, rq_l7Proto = b, rq_meter = c, rq_dsByte = ds,
      rq_l3Proto = l3, rq_flowId = ntohl w, rq_plType = pl, rq_serial = ser, rq_srcAddrSpecify = 0,
      rq_port = 0, rq_ip = [], rq_scope = 0\<rparr>, s\<lparr>hist := cs @ hist s\<rparr>) \<and>
    delivers os sock rest (s\<lparr>hist := cs @ hist s\<rparr>)"
proof -
  define s1 where "s1 = log_call (Recv sock 3) s"
  define s2 where "s2 = log_call (Recv sock 1) s1"
  define s3 where "s3 = log_call (Recv sock 1) s2"
  define s4 where "s4 = log_call (Recv sock 4) s3"
  define s5 where "s5 = log_call (Recv sock 1) s4"
  define s6 where "s6 = log_call (Recv sock DIM_NAME_SERIAL_INTERFACE) s5"
  have d1: "delivers os sock ([a, b, c] @ [ds] @ [l3] @ u32_mem w @ [pl] @ ser @ rest) s" using assms(1) by simp
  have l: "length [a, b, c] = 3" "length [ds] = 1" "length [l3] = 1" "length (u32_mem w) = 4" "length [pl] = 1"
    by simp_all
  note r1 = recv_var_run[OF d1 l(1), folded s1_def]
  note r2 = recv_var_run[OF r1(2) l(2), folded s2_def]
  note r3 = recv_var_run[OF r2(2) l(3), folded s3_def]
  note r4 = recv_var_run[OF r3(2) l(4), folded s4_def]
  note r5 = recv_var_run[OF r4(2) l(5), folded s5_def]
  note r6 = recv_var_run[OF r5(2) assms(2), folded s6_def]
  have "s6 = s\<lparr>hist := [Recv sock DIM_NAME_SERIAL_INTERFACE, Recv sock 1, Recv sock 4, Recv sock 1, Recv sock 1,
      Recv sock 3] @ hist s\<rparr>"
    by (simp add: s6_def s5_def s4_def s3_def s2_def s1_def log_call_def)
  moreover have "mem_u32 (u32_mem w) = w" using mem_u32_mem[of w "[]"] by simp
  moreover have "recv_common os sock s = (Ret \<lparr>rq_l4Proto = a, rq_l7Proto = b, rq_meter = c, rq_dsByte = ds,
      rq_l3Proto = l3, rq_flowId = ntohl (mem_u32 (u32_mem w)), rq_plType = pl, rq_serial = ser,
      rq_srcAddrSpecify = 0, rq_port = 0, rq_ip = [], rq_scope = 0\<rparr>, s6)"
    by (simp add: recv_common_def r1(1) r2(1) r3(1) r4(1) r5(1) r6(1) ret_def del: One_nat_def)
  ultimately show ?thesis using r6(2)
    by (intro exI[of _ "[Recv sock DIM_NAME_SERIAL_INTERFACE, Recv sock 1, Recv sock 4, Recv sock 1, Recv sock 1,
      Recv sock 3]"]) simp
qed

lemma recv_address_run:
  assumes "delivers os sock (u16_mem w @ a) s" "rq_l3Proto rq = (if v4 then L3_PROTO_IPv4 else L3_PROTO_IPv6)"
    and "length a = (if v4 then 4 else 16)"
  shows "\<exists>cs sc ip. recv_address os sock k rq s =
      (Ret (rq\<lparr>rq_port := ntohs w, rq_ip := ip, rq_scope := sc\<rparr>),
       (upd_slot k (\<lambda>f. f\<lparr>indexPort := ntohs w\<rparr>) s)\<lparr>hist := cs @ hist s\<rparr>) \<and>
    take (length a) ip = a \<and> (v4 \<or> ip = a)"
proof -
  define s1 where "s1 = upd_slot k (\<lambda>f. f\<lparr>indexPort := ntohs w\<rparr>) (log_call (Recv sock 2) s)"
  have l: "length (u16_mem w) = 2" by simp
  have m: "mem_u16 (u16_mem w) = w" using mem_u16_mem[of w "[]"] by simp
  note r1 = recv_var_run[OF assms(1) l]
  have d1: "delivers os sock a s1" using r1(2) by (simp add: delivers_def s1_def)
  have n: "L3_PROTO_IPv6 \<noteq> L3_PROTO_IPv4" by (simp add: L3_PROTO_IPv6_def L3_PROTO_IPv4_def)
  have a: "take (length a) a = a" by simp
  have ans: "os_data os (Recv sock (length a) # hist s1) = Some a" using delivers_recv(1)[OF d1, of "length a"] by simp
  show ?thesis
  proof (cases v4)
    case True
    then have "os_data os (Recv sock 4 # hist s1) = Some a" "length a = 4" using ans assms(3) by simp_all
    moreover have "log_call (Recv sock 4) s1 =
      (upd_slot k (\<lambda>f. f\<lparr>indexPort := ntohs w\<rparr>) s)\<lparr>hist := [Recv sock 4, Recv sock 2] @ hist s\<rparr>"
      by (simp add: s1_def log_call_def upd_slot_def)
    ultimately show ?thesis using True assms(2)
      by (intro exI[of _ "[Recv sock 4, Recv sock 2]"] exI[of _ "rq_scope rq"]
          exI[of _ "a @ drop 4 (junk os (hist s) 16)"])
        (simp add: recv_address_def proc_simps r1(1) m Let_def s1_def[symmetric])
  next
    case False
    then have "os_data os (Recv sock 16 # hist s1) = Some a" "length a = 16" using ans assms(3) by simp_all
    moreover have "log_call (Resolve ''/proc/net/if_inet6'') (log_call (Recv sock 16) s1) =
      (upd_slot k (\<lambda>f. f\<lparr>indexPort := ntohs w\<rparr>) s)\<lparr>hist :=
        [Resolve ''/proc/net/if_inet6'', Recv sock 16, Recv sock 2] @ hist s\<rparr>"
      by (simp add: s1_def log_call_def upd_slot_def)
    ultimately show ?thesis using False assms(2) n
      by (intro exI[of _ "[Resolve ''/proc/net/if_inet6'', Recv sock 16, Recv sock 2]"]
          exI[of _ "of_int (os_int os (Resolve ''/proc/net/if_inet6'' # Recv sock 16 # hist s1))"] exI[of _ a])
        (simp add: recv_address_def proc_simps r1(1) m Let_def s1_def[symmetric])
  qed
qed

subsection \<open>Requesting a flow\<close>

text \<open>A flow that the sender can request: a socket address of one of the two families, with all its
  bytes, and the ten bytes of the serial interface.\<close>

definition requestable :: "int \<Rightarrow> flow_desc \<Rightarrow> bool" where
  "requestable fid f \<longleftrightarrow> - (2 ^ 31) \<le> fid \<and> fid < 2 ^ 31 \<and>
     length (f_serialReceiver f) = DIM_NAME_SERIAL_INTERFACE \<and>
     (ai_family (f_DestHost f) = PF_INET \<and> length (ip (f_DestHost f)) = 4 \<or>
      ai_family (f_DestHost f) = PF_INET6 \<and> length (ip (f_DestHost f)) = 16)"

text \<open>What a position of the tables holds once it has understood the request.\<close>

definition understood :: "int \<Rightarrow> flow_desc \<Rightarrow> flow_slot \<Rightarrow> bool" where
  "understood fid f g \<longleftrightarrow> idNum g = fid \<and> p_flowId g = fid \<and> idProto g = f_l4Proto f \<and>
     p_l7Proto g = f_l7Proto f \<and> p_meter g = f_meter f \<and> p_dsByte g = ucast (f_DSByte f) \<and>
     payloadLogType g = uint (of_int (f_payloadLogType f) :: u8) \<and> serial g = strncpy DIM_NAME_SERIAL_INTERFACE (f_serialReceiver f) \<and>
     ai_family (destHost g) = ai_family (f_DestHost f) \<and> ip (destHost g) = ip (f_DestHost f) \<and>
     sin_port (destHost g) = sin_port (f_DestHost f) \<and> indexPort g = sin_port (f_DestHost f) \<and>
     preambleSize g = flow_preamble (f_l4Proto f) (of_int (f_payloadLogType f))"

lemma start_thread_run:
  assumes "calls_succeed os"
  shows "\<exists>s'. start_thread os k name s = (Ret (), s') \<and>
    slots s' = (case name of None \<Rightarrow> slots s | Some n \<Rightarrow> (slots s)[k := (slots s ! k)\<lparr>hThr := Some k\<rparr>]) \<and>
    numFlow s' = numFlow s \<and> (\<forall>n. name = Some n \<longrightarrow> PthreadCreate n k \<in> set (hist s'))"
  using calls_succeedD(4)[OF assms]
  by (cases name) (simp_all add: start_thread_def proc_simps thread_apply norm_ret_def)

text \<open>The address part of a request, and the destination the receiver makes of it.\<close>

definition request_address :: "flow_desc \<Rightarrow> bytes" where
  "request_address f = (if ai_family (f_DestHost f) = PF_INET then take 4 (ip (f_DestHost f)) else take 16 (ip (f_DestHost f)))"

lemma request_message_parts:
  assumes "requestable fid f"
  shows "request_message False fid f = TSP_SEND_FLOW # [f_l4Proto f, f_l7Proto f, f_meter f, ucast (f_DSByte f),
      (if ai_family (f_DestHost f) = PF_INET then L3_PROTO_IPv4 else L3_PROTO_IPv6)] @
      u32_mem (htonl (of_int fid)) @ [of_int (f_payloadLogType f)] @ f_serialReceiver f @
      u16_mem (htons (sin_port (f_DestHost f))) @ request_address f"
  using assms by (auto simp: request_message_def requestable_def request_address_def Let_def)

text \<open>The fields as they are read before the address.\<close>

definition request_fields :: "int \<Rightarrow> flow_desc \<Rightarrow> flow_request" where
  "request_fields fid f = \<lparr>rq_l4Proto = f_l4Proto f, rq_l7Proto = f_l7Proto f, rq_meter = f_meter f,
     rq_dsByte = ucast (f_DSByte f),
     rq_l3Proto = (if ai_family (f_DestHost f) = PF_INET then L3_PROTO_IPv4 else L3_PROTO_IPv6),
     rq_flowId = of_int fid, rq_plType = of_int (f_payloadLogType f), rq_serial = f_serialReceiver f,
     rq_srcAddrSpecify = 0, rq_port = 0, rq_ip = [], rq_scope = 0\<rparr>"

lemma fill_slot_understood:
  assumes "requestable fid f" "take (length (request_address f)) a = request_address f"
    "ai_family (f_DestHost f) = PF_INET \<or> a = request_address f" "indexPort g = sin_port (f_DestHost f)"
  shows "understood fid f (fill_slot False psender out ls
    ((request_fields fid f)\<lparr>rq_port := sin_port (f_DestHost f), rq_ip := a, rq_scope := sc\<rparr>) g)"
proof -
  have n: "L3_PROTO_IPv6 \<noteq> L3_PROTO_IPv4" "PF_INET6 \<noteq> PF_INET"
    by (simp_all add: L3_PROTO_IPv6_def L3_PROTO_IPv4_def PF_INET6_def PF_INET_def)
  show ?thesis
    using assms n by (auto simp: understood_def fill_slot_def flow_dest_def requestable_def request_address_def
        request_fields_def sint_of_int_range)
qed

text \<open>Reading a request.\<close>

lemma request_read:
  assumes "requestable fid f" "delivers os sock (tl (request_message False fid f)) s"
  defines "P \<equiv> sin_port (f_DestHost f)"
  shows "\<exists>s1 cs a sc. recv_common os sock s = (Ret (request_fields fid f), s1) \<and> passiveMode s1 = passiveMode s \<and>
    recv_address os sock k (request_fields fid f) s1 =
      (Ret ((request_fields fid f)\<lparr>rq_port := P, rq_ip := a, rq_scope := sc\<rparr>),
       (upd_slot k (\<lambda>f. f\<lparr>indexPort := P\<rparr>) s)\<lparr>hist := cs @ hist s\<rparr>) \<and>
    take (length (request_address f)) a = request_address f \<and>
    (ai_family (f_DestHost f) = PF_INET \<or> a = request_address f)"
proof -
  let ?v4 = "ai_family (f_DestHost f) = PF_INET"
  have d0: "delivers os sock ([f_l4Proto f, f_l7Proto f, f_meter f, ucast (f_DSByte f),
      (if ?v4 then L3_PROTO_IPv4 else L3_PROTO_IPv6)] @
      u32_mem (htonl (of_int fid)) @ [of_int (f_payloadLogType f)] @ f_serialReceiver f @
      u16_mem (htons P) @ request_address f) s"
    using assms(2) unfolding request_message_parts[OF assms(1)] by (simp add: P_def)
  have ls: "length (f_serialReceiver f) = DIM_NAME_SERIAL_INTERFACE" using assms(1) by (simp add: requestable_def)
  from recv_common_run[OF d0 ls] obtain cs where
    rc: "recv_common os sock s = (Ret (request_fields fid f), s\<lparr>hist := cs @ hist s\<rparr>)"
    and d1: "delivers os sock (u16_mem (htons P) @ request_address f) (s\<lparr>hist := cs @ hist s\<rparr>)"
    unfolding request_fields_def by (simp only: ntohl_htonl) blast
  have la: "length (request_address f) = (if ?v4 then 4 else 16)"
    using assms(1) by (auto simp: requestable_def request_address_def PF_INET_def PF_INET6_def)
  have lr: "rq_l3Proto (request_fields fid f) = (if ?v4 then L3_PROTO_IPv4 else L3_PROTO_IPv6)"
    by (simp add: request_fields_def)
  from recv_address_run[OF d1 lr la, of k] obtain ds sc a where
    ra: "recv_address os sock k (request_fields fid f) (s\<lparr>hist := cs @ hist s\<rparr>) =
      (Ret ((request_fields fid f)\<lparr>rq_port := P, rq_ip := a, rq_scope := sc\<rparr>),
       (upd_slot k (\<lambda>f. f\<lparr>indexPort := P\<rparr>) (s\<lparr>hist := cs @ hist s\<rparr>))\<lparr>hist := ds @ cs @ hist s\<rparr>)"
    and a: "take (length (request_address f)) a = request_address f" "?v4 \<or> a = request_address f"
    by (simp only: ntohs_htons) auto
  have "(upd_slot k (\<lambda>f. f\<lparr>indexPort := P\<rparr>) (s\<lparr>hist := cs @ hist s\<rparr>))\<lparr>hist := ds @ cs @ hist s\<rparr> =
      (upd_slot k (\<lambda>f. f\<lparr>indexPort := P\<rparr>) s)\<lparr>hist := (ds @ cs) @ hist s\<rparr>" by (simp add: upd_slot_def)
  then show ?thesis using rc ra a
    by (intro exI[of _ "s\<lparr>hist := cs @ hist s\<rparr>"] exI[of _ "ds @ cs"] exI[of _ a] exI[of _ sc]) simp
qed

text \<open>C3: a receiver in normal mode that gets a sender's request for a new flow, with a free position k
  in its tables, understands it: the position holds exactly what the sender's flow says (id,
  protocols, meter, DS byte, payload kind, serial interface, address, port, and the preamble
  that these imply), no other position changes, one flow more is counted, and the thread of
  the flow's protocol has been started on the position.\<close>

theorem request_understood:
  assumes "calls_succeed os" "passiveMode s = False" "globalBindAddr s = None"
    and "find_flow (-1) (slots s) = Some k" "requestable fid f"
    and "delivers os sock (tl (request_message False fid f)) s"
  shows "\<exists>s'. typeParser os TSP_SEND_FLOW sock s = (Ret 0, s') \<and> understood fid f (slots s' ! k) \<and>
    (\<forall>j. j \<noteq> k \<longrightarrow> slots s' ! j = slots s ! j) \<and> numFlow s' = numFlow s + 1 \<and>
    (\<forall>n. thread_name (f_l4Proto f) = Some n \<longrightarrow> PthreadCreate n k \<in> set (hist s'))"
proof -
  define P where "P = sin_port (f_DestHost f)"
  have k: "k < length (slots s)" using find_flow_Some[OF assms(4)] by simp
  from request_read[OF assms(5,6), of k, folded P_def] obtain s1 cs a sc where
    rc: "recv_common os sock s = (Ret (request_fields fid f), s1)" and p1: "\<not> passiveMode s1"
    and ra: "recv_address os sock k (request_fields fid f) s1 =
      (Ret ((request_fields fid f)\<lparr>rq_port := P, rq_ip := a, rq_scope := sc\<rparr>),
       (upd_slot k (\<lambda>f. f\<lparr>indexPort := P\<rparr>) s)\<lparr>hist := cs @ hist s\<rparr>)"
    and a: "take (length (request_address f)) a = request_address f"
      "ai_family (f_DestHost f) = PF_INET \<or> a = request_address f"
    using assms(2) by blast
  define s2 where "s2 = (upd_slot k (\<lambda>f. f\<lparr>indexPort := P\<rparr>) s)\<lparr>hist := cs @ hist s\<rparr>"
  define rq where "rq = (request_fields fid f)\<lparr>rq_port := P, rq_ip := a, rq_scope := sc\<rparr>"
  define s3 where "s3 = upd_slot k (fill_slot False (passiveSender s2) (fileDescriptor s2) (logSock s2) rq) s2"
  have s2: "\<not> passiveMode s2" using assms(2) by (simp add: s2_def)
  have s3: "\<not> passiveMode s3" "globalBindAddr s3 = None" "numFlow s3 = numFlow s"
    "slots s3 = (slots s)[k := fill_slot False (passiveSender s2) (fileDescriptor s2) (logSock s2) rq ((slots s ! k)\<lparr>indexPort := P\<rparr>)]"
    using assms(2,3) k by (simp_all add: s3_def s2_def upd_slot_def)
  have u3: "understood fid f (slots s3 ! k)"
    using fill_slot_understood[OF assms(5) a, of "(slots s ! k)\<lparr>indexPort := P\<rparr>"] k
    by (simp add: s3 rq_def P_def)
  from start_thread_run[OF assms(1), of k "thread_name (f_l4Proto f)" s3] obtain s4 where
    st: "start_thread os k (thread_name (f_l4Proto f)) s3 = (Ret (), s4)"
    and s4: "slots s4 = (case thread_name (f_l4Proto f) of None \<Rightarrow> slots s3 | Some n \<Rightarrow> (slots s3)[k := (slots s3 ! k)\<lparr>hThr := Some k\<rparr>])"
      "numFlow s4 = numFlow s3" "\<forall>n. thread_name (f_l4Proto f) = Some n \<longrightarrow> PthreadCreate n k \<in> set (hist s4)" by blast
  have u4: "understood fid f (slots s4 ! k)" "\<forall>j. j \<noteq> k \<longrightarrow> slots s4 ! j = slots s ! j"
    using u3 s3(4) k by (auto simp: s4(1) understood_def split: option.split)
  have fa: "upd_slot k (force_address None) s3 = s3" by (simp add: force_address_def upd_slot_def)
  have l4: "rq_l4Proto rq = f_l4Proto f" by (simp add: rq_def request_fields_def)
  have "typeParser os TSP_SEND_FLOW sock s = (Ret 0, s4\<lparr>numFlow := numFlow s4 + 1\<rparr>)"
    using assms(4) s2 s3(1,2) p1
    by (simp add: typeParser_def typeParser_sendFlow_def proc_simps recv_passive_def
        bnd_Ret[of "recv_common os sock" s, OF rc]
        bnd_Ret[of "recv_address os sock k (request_fields fid f)" s1, OF ra, folded rq_def s2_def]
        s3_def[symmetric] fa l4 bnd_Ret[of "start_thread os k (thread_name (f_l4Proto f))" s3, OF st])
  then show ?thesis using u4 s4 s3(3) by (intro exI[of _ "s4\<lparr>numFlow := numFlow s4 + 1\<rparr>"]) simp
qed

text \<open>Witness: a UDP flow to 127.0.0.1 on a stream that delivers the request.\<close>

definition flow_demo :: flow_desc where
  "flow_demo = \<lparr>f_SrcHost = any_addr, f_DestHost = \<lparr>ai_family = PF_INET, ip = [127, 0, 0, 1],
     sin_port = htons 8999, scope_id = 0\<rparr>, f_meter = 1, f_l4Proto = L4_UDP, f_l7Proto = 0, f_DSByte = 0,
     f_sigChanId = 0, f_serialReceiver = bytes_of ''noSerial'' @ [0, 0], f_payloadLogType = PL_STANDARD,
     f_srcAddrSpecify = False, f_dstAddrSpecify = True, f_SigDestHost = any_addr, f_SigSrcHost = None,
     f_SigSrcPort = 0, f_SigInterface = None\<rparr>"

definition os_stream :: "int \<Rightarrow> bytes \<Rightarrow> os" where
  "os_stream sock X = os_ok\<lparr>os_data := (\<lambda>h. case h of
     Recv j n # cs \<Rightarrow> Some (take n (drop (asked sock cs) X)) | _ \<Rightarrow> None)\<rparr>"

lemma os_stream_delivers: "hist s = [] \<Longrightarrow> delivers (os_stream sock X) sock X s"
  by (simp add: delivers_def os_stream_def)

theorem request_understood_witness:
  "\<exists>s'. typeParser (os_stream 4 (tl (request_message False 1 flow_demo))) TSP_SEND_FLOW 4
      (recv_demo [slot_demo, slot_demo\<lparr>idNum := -1\<rparr>]) = (Ret 0, s') \<and>
    understood 1 flow_demo (slots s' ! 1) \<and> PthreadCreate ''udpSock'' 1 \<in> set (hist s')"
proof -
  let ?s = "recv_demo [slot_demo, slot_demo\<lparr>idNum := -1\<rparr>]"
  let ?os = "os_stream 4 (tl (request_message False 1 flow_demo))"
  have "calls_succeed ?os" by (rule os_ok_calls) (simp add: os_stream_def)
  moreover have "find_flow (-1) (slots ?s) = Some 1"
    by (simp add: find_flow_def recv_demo_def slot_demo_def)
  moreover have "requestable 1 flow_demo"
    by (simp add: requestable_def flow_demo_def DIM_NAME_SERIAL_INTERFACE_def)
  moreover have "delivers ?os 4 (tl (request_message False 1 flow_demo)) ?s"
    by (rule os_stream_delivers) (simp add: recv_demo_def)
  moreover have "passiveMode ?s = False" "globalBindAddr ?s = None" by (simp_all add: recv_demo_def)
  ultimately show ?thesis
    using request_understood[of ?os ?s 1 1 flow_demo 4] by (auto simp: flow_demo_def thread_name_def)
qed

end
