(* ===== verification/SendManager.thy ===== *)
theory SendManager
  imports SendState
begin

text \<open>ITGSend's signaling channels (src/ITGSend/ITGSend.cpp): finding or opening the channel of a
  receiver (identifySignalManager, createTransportChan), giving it back (isChannelClosable) and
  the thread that serves it (signalManager).\<close>

definition DEFAULT_PORT_SIGNALING :: u16 where "DEFAULT_PORT_SIGNALING = 9000"
definition TSP_ACK_DISCOVERY :: u8 where "TSP_ACK_DISCOVERY = 9"
definition MSG_SM_NEWFLOW :: int where "MSG_SM_NEWFLOW = 1"
definition MSG_SM_ENDFLOW :: int where "MSG_SM_ENDFLOW = 2"
definition MSG_SM_ERRFLOW :: int where "MSG_SM_ERRFLOW = 3"
definition MSG_SM_SNDACK :: int where "MSG_SM_SNDACK = 4"
definition MSG_FP_END :: int where "MSG_FP_END = 1"
definition MSG_FP_ERR1 :: int where "MSG_FP_ERR1 = 2"
definition MSG_FP_ERR2 :: int where "MSG_FP_ERR2 = 3"
definition EINTR :: int where "EINTR = 4"

subsection \<open>The connection of a channel\<close>

text \<open>What getaddrinfo makes of "0.0.0.0" and "::".\<close>

definition wildcard :: "int \<Rightarrow> sockaddr" where
  "wildcard fam = (if fam = PF_INET6
     then \<lparr>ai_family = PF_INET6, ip = replicate 16 0, sin_port = 0, scope_id = 0\<rparr> else any_addr)"

definition die :: "bool \<Rightarrow> string \<Rightarrow> ('a send_state_scheme, unit) proc" where
  "die failed msg = cond failed (thn (sys0 (Print msg)) (exit_with 1))"

definition port_of :: "sockaddr \<Rightarrow> nat" where
  "port_of a = unat (ntohs (sin_port a))"

text \<open>The source address, when one was given or a source port was.\<close>

definition source_addr :: "flow_desc \<Rightarrow> sockaddr option" where
  "source_addr f = (case f_SigSrcHost f of
      Some h \<Rightarrow> Some (SET_PORT h (htons (f_SigSrcPort f)))
    | None \<Rightarrow> if f_SigSrcPort f \<noteq> 0
        then Some (SET_PORT (wildcard (ai_family (f_SigDestHost f))) (htons (f_SigSrcPort f))) else None)"

definition transport_active :: "os \<Rightarrow> nat \<Rightarrow> ('a send_state_scheme, int) proc" where
  "transport_active os i = (bnd (sys os (Socket 1)) (\<lambda>sock.
   thn (upd (upd_flow i (\<lambda>f. f\<lparr>f_SigSrcHost := source_addr f\<rparr>)))
   (bnd (gets (\<lambda>s. flows s ! i)) (\<lambda>f.
   thn ((case f_SigSrcHost f of
        None \<Rightarrow> ret ()
      | Some h \<Rightarrow> bnd (sys os (Bind sock (port_of h))) (\<lambda>b. die (b \<noteq> 0) ''Bind error in createTransportChan()'')))
   (thn (cond (f_SigInterface f \<noteq> None)
       (bnd (sys os (Setsockopt sock)) (\<lambda>r. die (r < 0) ''Cannot set don't route (hint: you must be root)'')))
   (bnd (sys os (Connect sock (port_of (f_SigDestHost f)))) (\<lambda>c.
   thn (die (c < 0) ''Connect error in createTransportChan()'')
   (ret sock))))))))"

text \<open>In passive mode the receiver connects; when no destination was given, its address is taken from
  the connection.\<close>

definition transport_passive :: "os \<Rightarrow> nat \<Rightarrow> ('a send_state_scheme, int) proc" where
  "transport_passive os i = (bnd (gets (\<lambda>s. flows s ! i)) (\<lambda>f0.
   bnd ((case f_SigSrcHost f0 of
        Some h \<Rightarrow> ret h
      | None \<Rightarrow> (bnd (sys os (Resolve ''::'')) (\<lambda>a.
       if a < 0 then (bnd (sys os (Resolve ''0.0.0.0'')) (\<lambda>b.
           thn (die (b < 0) ''getaddrinfo error in createTransportChan() (Passive Mode)'')
           (ret any_addr)))
          else ret (wildcard PF_INET6))))) (\<lambda>src.
   let h = SET_PORT src (htons (if f_SigSrcPort f0 \<noteq> 0 then f_SigSrcPort f0 else DEFAULT_PORT_SIGNALING)) in
     (thn (upd (upd_flow i (\<lambda>f. f\<lparr>f_SigSrcHost := Some h\<rparr>)))
      (bnd (sys os (Socket 1)) (\<lambda>lsock.
      bnd (sys os (Setsockopt lsock)) (\<lambda>a.
      thn (die (a < 0) ''Setsockopt in createTransportChan() (Passive Mode)'')
      (bnd (sys os (Bind lsock (port_of h))) (\<lambda>b.
      thn (die (b \<noteq> 0) ''Bind error in createTransportChan() (Passive Mode)'')
      (bnd (sys os (Listen lsock)) (\<lambda>c.
      thn (die (c \<noteq> 0) ''Listen in createTransportChan() (Passive Mode)'')
      (bnd (sys os (Accept lsock)) (\<lambda>newSock.
      bnd (gets (\<lambda>s. os_from os (hist s))) (\<lambda>peer.
      thn (die (newSock < 0) ''Accept in createTransportChan() (Passive Mode)'')
      (thn (closeSock os lsock)
      (thn (cond (\<not> f_dstAddrSpecify f0) (thn (sys os (Resolve (os_name os peer)))
      (bnd (gets (\<lambda>s. os_from os (hist s))) (\<lambda>host.
      upd (upd_flow i (\<lambda>f. f\<lparr>f_SigDestHost := SET_PORT host (GET_PORT (f_SigDestHost f) 0),
                               f_dstAddrSpecify := True\<rparr>))))))
      (ret newSock)))))))))))))))))"

text \<open>With -Si the device is bound before there is a socket: on whatever the variable holds.\<close>

definition createTransportChan :: "os \<Rightarrow> nat \<Rightarrow> ('a send_state_scheme, int) proc" where
  "createTransportChan os i = (bnd (gets id) (\<lambda>s.
   thn (cond (f_SigInterface (flows s ! i) \<noteq> None) (thn (sys0 (Print ''Binding to device for signaling channel''))
      (bnd (sys os (Setsockopt (sint (mem_u32 (junk os (hist s) 4))))) (\<lambda>r.
      die (r < 0) ''Cannot bind to device (hint: you must be root)''))))
   (if s_passiveMode s then transport_passive os i else transport_active os i)))"

subsection \<open>Channels\<close>

text \<open>The first channel in use whose address is the given one gets one more flow.\<close>

definition serves :: "sockaddr \<Rightarrow> sig_channel \<Rightarrow> bool" where
  "serves DestHost c \<longleftrightarrow> ch_socket c \<noteq> -1 \<and> ARE_INET_ADDR_EQUAL DestHost (ch_DestAddr c)"

definition checkDestHostIP :: "sockaddr \<Rightarrow> ('a send_state_scheme, nat option) proc" where
  "checkDestHostIP DestHost = (bnd (gets (\<lambda>s. scan (serves DestHost) (signalChannels s))) (\<lambda>found.
   thn ((case found of None \<Rightarrow> ret () | Some c \<Rightarrow> upd (upd_chan c (\<lambda>h. h\<lparr>ch_flows := ch_flows h + 1\<rparr>))))
   (ret found)))"

text \<open>A flow leaves its channel; the last one releases it.\<close>

definition isChannelClosable :: "os \<Rightarrow> nat \<Rightarrow> ('a send_state_scheme, bool) proc" where
  "isChannelClosable os c = (thn (mutexThreadLock os ''mutex'')
   (thn (upd (upd_chan c (\<lambda>h. h\<lparr>ch_flows := ch_flows h - 1\<rparr>)))
   (bnd (gets (\<lambda>s. signalChannels s ! c)) (\<lambda>h.
   if ch_flows h = 0 then (thn (sendRelease os (ch_socket h))
      (bnd (closeSock os (ch_socket h)) (\<lambda>r.
      thn (cond (r < 0) (sys0 (Print ''error closing socket'')))
      (thn (upd (upd_chan c (\<lambda>h. h\<lparr>ch_socket := -1, ch_errorLog := False\<rparr>)))
      (thn (sys0 (Close (ch_pipe h + 1)))
      (thn (sys0 (Close (ch_pipe h)))
      (thn (mutexThreadUnlock os ''mutex'')
      (ret True))))))))
     else (thn (mutexThreadUnlock os ''mutex'')
      (ret False))))))"

text \<open>The log settings that a new channel starts with; the answer's type, 0 when nothing was asked.
  None stands for an error.\<close>

definition recv_type :: "os \<Rightarrow> int \<Rightarrow> u8 \<Rightarrow> ('a send_state_scheme, u8) proc" where
  "recv_type os sock old = (bnd (sys_recv os sock 1) (\<lambda>r.
   ret (case r of Some (b # _) \<Rightarrow> b | _ \<Rightarrow> old)))"

definition send_log_settings :: "os \<Rightarrow> int \<Rightarrow> ('a send_state_scheme, u8 option) proc" where
  "send_log_settings os sock = (bnd (gets id) (\<lambda>s.
   bnd ((if namelogReceiver s = 1 \<and> logServer s = 0 then (bnd (sendNameLog os sock (logFileReceiver s)) (\<lambda>r.
      if r < 0 then thn (sys0 (Print ''sendNameLog() error '')) (ret None)
         else bnd (recv_type os sock 0) (\<lambda>t. ret (Some t))))
       else ret (Some 0))) (\<lambda>a.
   case a of
       None \<Rightarrow> ret None
     | Some t \<Rightarrow>
         if logServer s = 1 then (bnd (sendLog os sock (serverLogReceiver s) (protoTx_ServerLogReceiver s) (logFileReceiver s)) (\<lambda>r.
          if r < 0 then thn (sys0 (Print ''sendLog() error '')) (ret None)
           else bnd (recv_type os sock t) (\<lambda>t'. ret (Some t'))))
         else ret (Some t))))"

text \<open>The search for a free channel has no bound: behind the table it is an access out of bounds.  An
  error is returned with the mutex still locked.\<close>

definition open_channel :: "os \<Rightarrow> nat \<Rightarrow> int \<Rightarrow> u8 \<Rightarrow> ('a send_state_scheme, int \<times> nat) proc" where
  "open_channel os i sock type = (bnd (gets (\<lambda>s. scan (\<lambda>h. ch_socket h = -1) (signalChannels s))) (\<lambda>free.
   case free of
       None \<Rightarrow> fault
     | Some c \<Rightarrow> (bnd (sys os Pipe) (\<lambda>p.
      if p < 0 then thn (sys0 (Print ''signalManager() could not open pipe'')) (ret (-1, c))
         else (thn (upd (\<lambda>s. upd_chan c (\<lambda>h. h\<lparr>ch_DestAddr := f_SigDestHost (flows s ! i), ch_pipe := p, ch_flows := 1,
                     ch_socket := sock\<rparr>) s))
          (bnd (gets id) (\<lambda>s.
          thn (cond ((logServer s = 1 \<or> namelogReceiver s = 1) \<and> type = TSP_ERR_MSG_4)
             (thn (sys0 (Print ''signalManager() TSP_ERR_MSG_4''))
               (upd (upd_chan c (\<lambda>h. h\<lparr>ch_errorLog := True\<rparr>)))))
          (bnd (gets (\<lambda>s. signalChannels s ! c)) (\<lambda>h.
          thn (cond (\<not> ch_errorLog h) (thn (createThread os ''signalManager'' c True)
            (upd (\<lambda>s. s\<lparr>signalChanCount := signalChanCount s + 1\<rparr>))))
          (thn (mutexThreadUnlock os ''mutex'')
          (ret (1, c))))))))))))"

text \<open>In passive mode several flows share channel 0, and their destination becomes the address that
  the first of them has got.\<close>

definition share_channel :: "os \<Rightarrow> nat \<Rightarrow> nat option \<Rightarrow> nat \<Rightarrow> ('a send_state_scheme, int \<times> nat) proc" where
  "share_channel os i found chan0 = (bnd (gets id) (\<lambda>s.
   bnd ((if s_passiveMode s \<and> s_multiFlows s then
         (thn ((if found = None then upd (upd_chan 0 (\<lambda>h. h\<lparr>ch_flows := ch_flows h + 1\<rparr>)) else ret ()))
          (bnd (sys os (Resolve (globalSigAddr s))) (\<lambda>r.
          bnd (gets (\<lambda>s. os_from os (hist s))) (\<lambda>host.
          thn (upd (upd_flow i (\<lambda>f. f\<lparr>f_SigDestHost := host\<rparr>)))
          (thn (cond (r < 0) (thn (sys0 (Print ''identifySignalManager getaddrinfo() (1)'')) exitThread))
          (thn (upd (upd_flow i (\<lambda>f. f\<lparr>f_dstAddrSpecify := True\<rparr>)))
          (ret (case found of None \<Rightarrow> 0 | Some c \<Rightarrow> c))))))))
       else ret (case found of None \<Rightarrow> chan0 | Some c \<Rightarrow> c))) (\<lambda>c.
   thn (mutexThreadUnlock os ''mutex'')
   (ret (0, c)))))"

definition identifySignalManager :: "os \<Rightarrow> nat \<Rightarrow> nat \<Rightarrow> ('a send_state_scheme, int \<times> nat) proc" where
  "identifySignalManager os i chan0 = (thn (mutexThreadLock os ''mutex'')
   (bnd (gets id) (\<lambda>s.
   bnd (checkDestHostIP (f_SigDestHost (flows s ! i))) (\<lambda>found.
   if found = None \<and> okToNewSignalingChan s then
       (bnd (createTransportChan os i) (\<lambda>sock.
        thn (createSignalChan os sock)
        (thn (cond (s_passiveMode s \<and> s_multiFlows s) (thn (sys0 GetTime)
          (upd (\<lambda>s. s\<lparr>okToNewSignalingChan := False, globalSigAddr := os_name os (f_SigDestHost (flows s ! i))\<rparr>))))
        (bnd (send_log_settings os sock) (\<lambda>t.
        case t of None \<Rightarrow> ret (-1, chan0) | Some type \<Rightarrow> open_channel os i sock type)))))
     else share_channel os i found chan0))))"

subsection \<open>signalManager\<close>

text \<open>The variables flowId and openedPort keep their value when a recv delivers nothing.\<close>

definition pipe_to_flow :: "u32 \<Rightarrow> int \<Rightarrow> ('a send_state_scheme, unit) proc" where
  "pipe_to_flow fid code = (thn (get_flow (uint fid))
   (sys0 (PipeWrite (unat fid) (u32_mem fid @ u32_mem (of_int code)))))"

definition recv_id :: "os \<Rightarrow> int \<Rightarrow> u32 \<Rightarrow> ('a send_state_scheme, u32) proc" where
  "recv_id os sock old = (bnd (sys_recv os sock 4) (\<lambda>r.
   let d = (case r of None \<Rightarrow> [] | Some d \<Rightarrow> d)
     in ret (ntohl (mem_u32 (d @ drop (length d) (u32_mem old))))))"

definition recv_port :: "os \<Rightarrow> int \<Rightarrow> u16 \<Rightarrow> ('a send_state_scheme, u16) proc" where
  "recv_port os sock old = (bnd (sys_recv os sock 2) (\<lambda>r.
   let d = (case r of None \<Rightarrow> [] | Some d \<Rightarrow> d)
     in ret (mem_u16 (d @ drop (length d) (u16_mem old)))))"

text \<open>A flow has ended, on its own or on the receiver's report; the last one ends the thread.\<close>

definition flow_ended :: "os \<Rightarrow> nat \<Rightarrow> u32 \<Rightarrow> int \<Rightarrow> ('a send_state_scheme, unit) proc" where
  "flow_ended os c fid code = (bnd (isChannelClosable os c) (\<lambda>closable.
   thn (pipe_to_flow fid code)
   (cond closable exitThread)))"

definition ack_send_flow :: "os \<Rightarrow> int \<Rightarrow> u32 \<Rightarrow> u16 \<Rightarrow> ('a send_state_scheme, u32 \<times> u16) proc" where
  "ack_send_flow os sock old oldPort = (bnd (recv_id os sock old) (\<lambda>fid.
   bnd (recv_port os sock oldPort) (\<lambda>port.
   thn (get_flow (uint fid))
   (thn (cond (port \<noteq> 0) (upd (upd_flow (unat fid) (\<lambda>f. f\<lparr>f_DestHost := SET_PORT (f_DestHost f) port\<rparr>))))
   (thn (createThread os ''flowSender'' (unat fid) True)
   (ret (fid, port)))))))"

text \<open>A message of the receiver.\<close>

definition receiver_message :: "os \<Rightarrow> nat \<Rightarrow> int \<Rightarrow> u32 \<times> u16 \<Rightarrow> ('a send_state_scheme, u32 \<times> u16) proc" where
  "receiver_message os c sock v = (bnd (sys_recv os sock 1) (\<lambda>r.
   case r of
       None \<Rightarrow> s_ReportErrorAndExit ''Receiver has shut down the connection gracefully''
     | Some [] \<Rightarrow> s_ReportErrorAndExit ''Receiver has shut down the connection gracefully''
     | Some (type # _) \<Rightarrow>
         if type = TSP_ACK_CLOSED_FLOW then (bnd (recv_id os sock (fst v)) (\<lambda>fid.
          thn (flow_ended os c fid MSG_FP_END)
          (ret (fid, snd v))))
         else if type = TSP_ACK_SEND_FLOW then ack_send_flow os sock (fst v) (snd v)
         else if type = TSP_DISCOVERY then thn (sendType os sock TSP_ACK_DISCOVERY) (ret v)
         else if type = TSP_ERR_MSG_2 then (bnd (recv_id os sock (fst v)) (\<lambda>fid.
          thn (sys0 (Print ''Error on bind to receiver side''))
          (thn (flow_ended os c fid MSG_FP_ERR1)
          (ret (fid, snd v)))))
         else if type = TSP_ERR_MSG_3 then (bnd (recv_id os sock (fst v)) (\<lambda>fid.
          thn (sys0 (Print ''** To generate ICMP traffic sender and receiver must be root''))
          (thn (flow_ended os c fid MSG_FP_ERR1)
          (ret (fid, snd v)))))
         else if type = TSP_ERR_MSG_5 then (bnd (recv_id os sock (fst v)) (\<lambda>fid.
          thn (sys0 (Print ''** Connection closed unexpectedly''))
          (thn (flow_ended os c fid MSG_FP_ERR1)
          (ret (fid, snd v)))))
         else s_ReportErrorAndExit ''Got unknown message from receiver''))"

text \<open>A message of the sender's other threads, through the channel's pipe.\<close>

definition pipe_request :: "os \<Rightarrow> nat \<Rightarrow> int \<Rightarrow> int \<Rightarrow> ('a send_state_scheme, unit) proc" where
  "pipe_request os c sock fd = (bnd (gets (\<lambda>s. junk os (hist s) 8)) (\<lambda>old.
   bnd (sys_recv os fd 8) (\<lambda>r.
   let msg = (case r of None \<Rightarrow> old | Some d \<Rightarrow> d @ drop (length d) old);
         fid = sint (mem_u32 msg); code = sint (mem_u32 (drop 4 msg)) in
     if code = MSG_SM_NEWFLOW then (thn (get_flow fid)
      (thn (upd (upd_flow (nat fid) (\<lambda>f. f\<lparr>f_sigChanId := int c\<rparr>)))
      (thn (requestToSend os fid sock)
      (ret ()))))
     else if code = MSG_SM_ENDFLOW then thn (closedFlow os fid sock) (ret ())
     else if code = MSG_SM_ERRFLOW then (thn (pipe_to_flow (of_int fid) MSG_FP_ERR2)
      (thn (closedFlowErr os fid sock)
      (bnd (isChannelClosable os c) (\<lambda>closable.
      cond closable exitThread))))
     else if code = MSG_SM_SNDACK then (bnd (s_sendAckFlow os fid sock) (\<lambda>a.
      cond (a < 0) (thn (sys0 (Print ''signalManager sending msg (MSG_SM_SNDACK)'')) exitThread)))
     else sys0 (Print ''Got unknown message from queue''))))"

text \<open>One round: both descriptors are served.\<close>

definition s_signal_round :: "os \<Rightarrow> nat \<Rightarrow> int \<Rightarrow> int \<Rightarrow> u32 \<times> u16 \<Rightarrow> ('a send_state_scheme, u32 \<times> u16) proc" where
  "s_signal_round os c sock fd v = (bnd (sys_select os [sock, fd]) (\<lambda>(sel, ready).
   if sel = -1 then (bnd (sys os Errno) (\<lambda>e.
      thn (cond (e \<noteq> EINTR) (thn (sys0 (Print ''error during select in signalManager'')) exitThread))
      (ret v)))
     else (bnd ((if ready sock then receiver_message os c sock v else ret v)) (\<lambda>v'.
      thn (cond (ready fd) (pipe_request os c sock fd))
      (ret v')))))"

end
