(* ===== verification/SendManager_Facts.thy ===== *)
theory SendManager_Facts
  imports SendManager Request_Facts
begin

text \<open>The sender's signaling: the port that the receiver has opened reaches the flow, and the channels
  are a registry of shared connections.\<close>

lemma send_log_call [simp]:
  "flows (log_call c s) = flows s" "signalChannels (log_call c s) = signalChannels s"
  "s_passiveMode (log_call c s) = s_passiveMode s"
  by (simp_all add: log_call_def)

lemma upd_flow_fields [simp]:
  "flows (upd_flow i f s) = (flows s)[i := f (flows s ! i)]" "hist (upd_flow i f s) = hist s"
  "signalChannels (upd_flow i f s) = signalChannels s"
  by (simp_all add: upd_flow_def)

lemma upd_chan_fields [simp]:
  "signalChannels (upd_chan i f s) = (signalChannels s)[i := f (signalChannels s ! i)]"
  "hist (upd_chan i f s) = hist s" "flows (upd_chan i f s) = flows s"
  by (simp_all add: upd_chan_def)

subsection \<open>The opened port\<close>

lemma delivers_next:
  assumes "delivers os sock (d @ rest) s" "length d = n"
  shows "os_data os (Recv sock n # hist s) = Some d"
    and "delivers os sock rest (log_call (Recv sock n) s)"
  using delivers_recv[OF assms(1), of n] assms(2) by simp_all

lemma uint_of_flow_id: "0 \<le> fid \<Longrightarrow> fid < 2 ^ 31 \<Longrightarrow> uint (of_int fid :: u32) = fid"
  by (simp add: uint_word_of_int_eq take_bit_int_eq_self)

text \<open>An acknowledgement with a port other than 0 sets the destination's port and starts the flow.\<close>

lemma ack_sets_port:
  assumes "delivers os sock (ackFlow_message TSP_ACK_SEND_FLOW fid (ntohs p)) s"
    and "0 \<le> fid" "fid < 2 ^ 31" "nat fid < length (flows s)" "p \<noteq> 0"
  shows "\<exists>s'. receiver_message os c sock v s = (Ret (of_int fid, p), s') \<and>
    flows s' = (flows s)[nat fid := (flows s ! nat fid)\<lparr>f_DestHost := SET_PORT (f_DestHost (flows s ! nat fid)) p\<rparr>] \<and>
    PthreadCreate ''flowSender'' (nat fid) \<in> set (hist s')"
proof -
  define s1 where "s1 = log_call (Recv sock 1) s"
  define s2 where "s2 = log_call (Recv sock 4) s1"
  define s3 where "s3 = log_call (Recv sock 2) s2"
  have d0: "delivers os sock ([TSP_ACK_SEND_FLOW] @ u32_mem (htonl (of_int fid)) @ u16_mem (htons (ntohs p)) @ []) s"
    using assms(1) by (simp add: ackFlow_message_def)
  have l: "length [TSP_ACK_SEND_FLOW] = 1" "length (u32_mem (htonl (of_int fid))) = 4" "length (u16_mem (htons (ntohs p))) = 2"
    by simp_all
  note r1 = delivers_next[OF d0 l(1), folded s1_def]
  note r2 = delivers_next[OF r1(2) l(2), folded s2_def]
  note r3 = delivers_next[OF r2(2) l(3), folded s3_def]
  have u: "uint (of_int fid :: u32) = fid" "unat (of_int fid :: u32) = nat fid"
    using uint_of_flow_id[OF assms(2,3)] by (simp_all add: unat_eq_nat_uint)
  have t: "TSP_ACK_SEND_FLOW \<noteq> TSP_ACK_CLOSED_FLOW" by (simp add: TSP_ACK_SEND_FLOW_def TSP_ACK_CLOSED_FLOW_def)
  have m: "mem_u32 (u32_mem w) = w" "mem_u16 (u16_mem z) = z" for w z
    using mem_u32_mem[of w "[]"] mem_u16_mem[of z "[]"] by simp_all
  have f: "flows s3 = flows s" by (simp add: s3_def s2_def s1_def)
  show ?thesis
    using assms(2,4,5)
    by (simp add: receiver_message_def ack_send_flow_def recv_id_def recv_port_def get_flow_def proc_simps
        s1_def[symmetric] s2_def[symmetric] s3_def[symmetric] r1(1) r2(1) r3(1) l t m u f thread_apply del: One_nat_def)
qed

text \<open>C12: the two sides of a flow agree on its port.  When the data thread of a flow has reported that
  it listens, the receiver's signaling thread sends one message, and a sender that gets this
  message sets the flow's destination to exactly the port that the data thread is bound to and
  starts sending; no other flow of the sender is touched.\<close>

theorem port_agreement:
  assumes "calls_succeed os" "delivers os rPipe (pipe_message fid 1) r" "find_flow fid (slots r) = Some k"
    and "0 \<le> fid" "fid < 2 ^ 31" "p = sin_port (destHost (slots r ! k))" "p \<noteq> 0"
    and "ai_family (destHost (slots r ! k)) = PF_INET \<or> ai_family (destHost (slots r ! k)) = PF_INET6"
  shows "\<exists>r' msg. pipeParser os newSock rPipe r = (Ret (), r') \<and> hist r' = Send newSock msg # Recv rPipe 8 # hist r \<and>
    (\<forall>os2 sock s c v. delivers os2 sock msg s \<and> nat fid < length (flows s) \<longrightarrow>
      (\<exists>s'. receiver_message os2 c sock v s = (Ret (of_int fid, p), s') \<and>
        flows s' = (flows s)[nat fid := (flows s ! nat fid)\<lparr>f_DestHost := SET_PORT (f_DestHost (flows s ! nat fid)) p\<rparr>] \<and>
        PthreadCreate ''flowSender'' (nat fid) \<in> set (hist s')))"
proof -
  have l: "length (pipe_message fid 1) = 8" by (simp add: pipe_message_def)
  have d0: "delivers os rPipe (pipe_message fid 1 @ []) r" using assms(2) by simp
  have m: "sint (mem_u32 (pipe_message fid 1)) = fid" "sint (mem_u32 (drop 4 (pipe_message fid 1))) = 1"
    using mem_u32_mem[of 1 "[]"] assms(4,5) by (simp_all add: pipe_message_def sint_of_int_range)
  have g: "GET_PORT (destHost (slots r ! k)) 0 = p" using assms(6,8) by (auto simp: GET_PORT_def)
  have run: "pipeParser os newSock rPipe r = (Ret (), log_call (Send newSock (ackFlow_message TSP_ACK_SEND_FLOW fid (ntohs p)))
      (log_call (Recv rPipe 8) r))"
    using assms(3) calls_succeedD(5)[OF assms(1)]
    by (simp add: pipeParser_def delivers_next(1)[OF d0 l] l m pipe_code_def proc_simps g sendAckFlow_def Let_def)
  show ?thesis
    by (intro exI[of _ "log_call (Send newSock (ackFlow_message TSP_ACK_SEND_FLOW fid (ntohs p))) (log_call (Recv rPipe 8) r)"]
        exI[of _ "ackFlow_message TSP_ACK_SEND_FLOW fid (ntohs p)"] conjI allI impI; (elim conjE)?)
      (rule run, simp, rule ack_sets_port[OF _ assms(4,5) _ assms(7)], assumption+)
qed

text \<open>Witness: flow 1 listens on port 9000, and the sender has two flows.\<close>

definition send_demo :: "flow_desc list \<Rightarrow> sig_channel list \<Rightarrow> send_state" where
  "send_demo fs cs = \<lparr>hist = [], flows = fs, signalChannels = cs, s_multiFlows = False, s_passiveMode = False,
     okToNewSignalingChan = True, globalSigAddr = [], signalChanCount = 0, logging = 0, logremoto = 0,
     s_logSock = 0, s_logSockSignaling = 0, s_logHost = any_addr, s_logFile = [], namelogReceiver = 0,
     logServer = 0, logFileReceiver = [], serverLogReceiver = any_addr, protoTx_ServerLogReceiver = 0\<rparr>"

lemma htons_0: "htons 0 = 0"
  by (rule bit_word_eqI) (auto simp: htons_def u16_mem_def bit_simps)

theorem port_agreement_witness:
  "\<exists>r' msg. pipeParser (os_stream 3 (pipe_message 1 1)) 4 3
      (recv_demo [slot_demo\<lparr>destHost := any_addr\<lparr>sin_port := htons 9000\<rparr>\<rparr>]) = (Ret (), r') \<and>
    hist r' = [Send 4 msg, Recv 3 8] \<and>
    (\<exists>s'. receiver_message (os_stream 5 msg) 0 5 (0, 0) (send_demo [flow_demo, flow_demo] []) =
        (Ret (1, htons 9000), s') \<and>
      sin_port (f_DestHost (flows s' ! 1)) = htons 9000 \<and> PthreadCreate ''flowSender'' 1 \<in> set (hist s'))"
proof -
  let ?r = "recv_demo [slot_demo\<lparr>destHost := any_addr\<lparr>sin_port := htons 9000\<rparr>\<rparr>]"
  let ?os = "os_stream 3 (pipe_message 1 1)"
  let ?s = "send_demo [flow_demo, flow_demo] []"
  have "htons 9000 \<noteq> htons 0" by simp
  then have p: "htons 9000 \<noteq> 0" by (simp only: htons_0 not_False_eq_True)
  have "calls_succeed ?os" by (rule os_ok_calls) (simp add: os_stream_def)
  moreover have "delivers ?os 3 (pipe_message 1 1) ?r" by (rule os_stream_delivers) (simp add: recv_demo_def)
  moreover have "find_flow 1 (slots ?r) = Some 0" by (simp add: find_flow_def recv_demo_def slot_demo_def)
  moreover have "htons 9000 = sin_port (destHost (slots ?r ! 0))" by (simp add: recv_demo_def)
  moreover have "ai_family (destHost (slots ?r ! 0)) = PF_INET" by (simp add: recv_demo_def any_addr_def)
  ultimately have "\<exists>r' msg. pipeParser ?os 4 3 ?r = (Ret (), r') \<and> hist r' = Send 4 msg # Recv 3 8 # hist ?r \<and>
    (\<forall>os2 sock (s :: send_state) c v. delivers os2 sock msg s \<and> nat 1 < length (flows s) \<longrightarrow>
      (\<exists>s'. receiver_message os2 c sock v s = (Ret (of_int 1, htons 9000), s') \<and>
        flows s' = (flows s)[nat 1 := (flows s ! nat 1)\<lparr>f_DestHost := SET_PORT (f_DestHost (flows s ! nat 1)) (htons 9000)\<rparr>] \<and>
        PthreadCreate ''flowSender'' (nat 1) \<in> set (hist s')))"
    by (intro port_agreement[where k = 0]) (use p in simp_all)
  then obtain r' msg where r: "pipeParser ?os 4 3 ?r = (Ret (), r')" "hist r' = Send 4 msg # Recv 3 8 # hist ?r"
    and a: "\<And>os2 sock (s :: send_state) c v. delivers os2 sock msg s \<and> nat 1 < length (flows s) \<Longrightarrow>
      \<exists>s'. receiver_message os2 c sock v s = (Ret (of_int 1, htons 9000), s') \<and>
        flows s' = (flows s)[nat 1 := (flows s ! nat 1)\<lparr>f_DestHost := SET_PORT (f_DestHost (flows s ! nat 1)) (htons 9000)\<rparr>] \<and>
        PthreadCreate ''flowSender'' (nat 1) \<in> set (hist s')" by blast
  have "delivers (os_stream 5 msg) 5 msg ?s" by (rule os_stream_delivers) (simp add: send_demo_def)
  then obtain s' where "receiver_message (os_stream 5 msg) 0 5 (0, 0) ?s = (Ret (1, htons 9000), s')"
    "flows s' = (flows ?s)[1 := (flows ?s ! 1)\<lparr>f_DestHost := SET_PORT (f_DestHost (flows ?s ! 1)) (htons 9000)\<rparr>]"
    "PthreadCreate ''flowSender'' 1 \<in> set (hist s')"
    using a[of "os_stream 5 msg" 5 ?s 0 "(0, 0)"] by (auto simp: send_demo_def)
  moreover have "ai_family (f_DestHost flow_demo) = PF_INET" by (simp add: flow_demo_def)
  ultimately show ?thesis using r
    by (intro exI[of _ r'] exI[of _ msg]) (auto simp: recv_demo_def send_demo_def SET_PORT_def)
qed

end
