(* ===== verification/Decoder.thy ===== *)
theory Decoder
  imports Info LogTable
begin

text \<open>ITGDec's summary (src/ITGDec/ITGDecod.cpp): the statistics that setline keeps per flow, the checks
  and the totals of the record loop of main and the figures of the final report.  A double is a
  rational number, every operation on doubles rounds (theory Double); a quotient of 0 by 0 is
  None.  unsigned int is a 32-bit word and unsigned long a 64-bit word.\<close>

definition dbl :: "'a::len word \<Rightarrow> rat" where
  "dbl w = rnd (of_int (uint w))"

record stflowinfo =
  fi_flowId :: u32
  byterecv :: rat
  pktrecv :: u64
  avdelay :: rat
  delvariation :: rat
  secfirstline :: rat
  seclastline :: rat
  maxdelay :: rat
  mindelay :: rat
  srcaddress :: string
  srcport :: u32
  destaddress :: string
  destport :: u32
  lastdelay :: rat
  avjitter :: rat
  pktloss :: u64
  lastpktnum :: u32
  pktdup :: u32
  maxSeq :: u32
  minSeq :: u32
  lossEvents :: u32

subsection \<open>setline\<close>

definition deltatime :: "rat \<Rightarrow> rat \<Rightarrow> rat" where
  "deltatime time1 time2 = (if time2 < time1 then rnd (time2 - time1) else rnd (time2 - time1))"

definition new_flow :: "info \<Rightarrow> rat \<Rightarrow> rat \<Rightarrow> stflowinfo" where
  "new_flow infos currentdelay rxTime = \<lparr>
     fi_flowId = flowId infos, byterecv = dbl (size infos), pktrecv = 1, avdelay = currentdelay,
     delvariation = rnd (currentdelay * currentdelay), secfirstline = rxTime, seclastline = rxTime,
     maxdelay = currentdelay, mindelay = currentdelay, srcaddress = srcAddr infos,
     srcport = srcPort infos, destaddress = destAddr infos, destport = destPort infos,
     lastdelay = currentdelay, avjitter = 0, pktloss = 0, lastpktnum = seqNum infos, pktdup = 0,
     maxSeq = seqNum infos, minSeq = 1, lossEvents = 0\<rparr>"

text \<open>The counters of sequence numbers: differences of unsigned int, widened when an unsigned long
  comes in.\<close>

definition note_seq :: "u32 \<Rightarrow> stflowinfo \<Rightarrow> stflowinfo" where
  "note_seq seq f =
     (let f1 = f\<lparr>lastpktnum := seq, maxSeq := (if seq > maxSeq f then seq else maxSeq f)\<rparr>
      in if ucast seq > pktloss f1 + pktrecv f1 then f1\<lparr>lossEvents := lossEvents f1 + 1\<rparr> else f1)"

definition settle_loss :: "stflowinfo \<Rightarrow> stflowinfo" where
  "settle_loss f =
     (if ucast (maxSeq f - minSeq f + 1) < pktrecv f - ucast (pktdup f)
      then f\<lparr>pktdup := ucast (ucast (- maxSeq f + minSeq f) + pktrecv f - 1), pktloss := 0\<rparr>
      else let l = ucast (maxSeq f - minSeq f) - pktrecv f + ucast (pktdup f) + 1
        in f\<lparr>lossEvents := (if l < pktloss f then lossEvents f - 1 else lossEvents f), pktloss := l\<rparr>)"

definition count_seq :: "u32 \<Rightarrow> stflowinfo \<Rightarrow> stflowinfo" where
  "count_seq seq f = settle_loss (note_seq seq f)"

definition add_packet :: "info \<Rightarrow> rat \<Rightarrow> rat \<Rightarrow> stflowinfo \<Rightarrow> stflowinfo" where
  "add_packet infos currentdelay rxTime f = count_seq (seqNum infos) (f\<lparr>
     byterecv := rnd (byterecv f + dbl (size infos)),
     pktrecv := pktrecv f + 1,
     avdelay := rnd (avdelay f + currentdelay),
     delvariation := rnd (delvariation f + rnd (currentdelay * currentdelay)),
     maxdelay := (if currentdelay > maxdelay f then currentdelay else maxdelay f),
     mindelay := (if currentdelay < mindelay f then currentdelay else mindelay f),
     secfirstline := (if rxTime < secfirstline f then rxTime else secfirstline f),
     seclastline := (if rxTime > seclastline f then rxTime else seclastline f),
     avjitter := rnd (avjitter f + \<bar>rnd (lastdelay f - currentdelay)\<bar>),
     lastdelay := currentdelay\<rparr>)"

definition same_flow :: "info \<Rightarrow> stflowinfo \<Rightarrow> bool" where
  "same_flow infos f \<longleftrightarrow> fi_flowId f = flowId infos \<and> srcaddress f = srcAddr infos \<and>
     destaddress f = destAddr infos \<and> srcport f = srcPort infos \<and> destport f = destPort infos"

text \<open>The loop over the flows keeps the last index that matches.\<close>

fun last_match :: "(stflowinfo \<Rightarrow> bool) \<Rightarrow> stflowinfo list \<Rightarrow> nat \<Rightarrow> nat option \<Rightarrow> nat option" where
  "last_match P [] z found = found"
| "last_match P (f # fs) z found = last_match P fs (z + 1) (if P f then Some z else found)"

text \<open>flowinfo is the list of the flows, flownum its length.\<close>

definition setline :: "int \<Rightarrow> info \<Rightarrow> rat \<Rightarrow> rat \<Rightarrow> stflowinfo list \<Rightarrow> stflowinfo list" where
  "setline flagfilter infos txTime rxTime flowinfo =
     (let currentdelay = deltatime txTime rxTime
      in if flowinfo = [] then [new_flow infos currentdelay rxTime]
         else case (if flagfilter = 2 then Some 0 else last_match (same_flow infos) flowinfo 0 None) of
             Some index \<Rightarrow> flowinfo[index := add_packet infos currentdelay rxTime (flowinfo ! index)]
           | None \<Rightarrow> flowinfo @ [new_flow infos currentdelay rxTime])"

subsection \<open>The record loop of main\<close>

definition sec_of :: "u32 \<Rightarrow> u32 \<Rightarrow> rat \<Rightarrow> rat" where
  "sec_of h m s = rnd (rnd (rnd (dbl h * 3600) + rnd (dbl m * 60)) + s)"

definition sectxTime :: "info \<Rightarrow> rat" where
  "sectxTime i = sec_of (txTime1 i) (txTime2 i) (txTime3 i)"

definition secrxTime :: "info \<Rightarrow> rat" where
  "secrxTime i = sec_of (rxTime1 i) (rxTime2 i) (rxTime3 i)"

text \<open>The last test that a record fails; 0 when it passes them all.\<close>

definition errornum :: "int \<Rightarrow> u32 \<Rightarrow> info \<Rightarrow> nat" where
  "errornum flagfilter flownumsel i =
     (if flagfilter = 1 \<and> flowId i > flownumsel then 7
      else if rxTime3 i > rnd (59999999 / 1000000) \<or> rxTime3 i < 0 then 6
      else if rxTime2 i > 59 then 5
      else if rxTime1 i > 24 then 4
      else if txTime3 i > rnd (59999999 / 1000000) \<or> txTime3 i < 0 then 3
      else if txTime2 i > 59 then 2
      else if txTime1 i > 24 then 1
      else 0)"

text \<open>With -f t every packet counts as one of the same flow.\<close>

definition unify_flow :: "int \<Rightarrow> info \<Rightarrow> info" where
  "unify_flow flagfilter i = (if flagfilter = 2
     then i\<lparr>srcAddr := ''127.0.0.1'', destAddr := ''127.0.0.1'', srcPort := 9999, destPort := 8999, flowId := 1\<rparr>
     else i)"

record dec_state =
  flowinfo :: "stflowinfo list"
  pkterr :: u64
  pktvalid :: u64
  sum_delay :: rat
  sum_square :: rat
  sum_jitter :: rat
  last_delay :: rat
  flagfirstline :: bool
  secfirstline_gl :: rat

definition dec_init :: dec_state where
  "dec_init = \<lparr>flowinfo = [], pkterr = 0, pktvalid = 0, sum_delay = 0, sum_square = 0, sum_jitter = 0,
     last_delay = 0, flagfirstline = True, secfirstline_gl = 90000\<rparr>"

definition dec_valid :: "int \<Rightarrow> info \<Rightarrow> dec_state \<Rightarrow> dec_state" where
  "dec_valid flagfilter i s =
     (let tx = sectxTime i; rx = secrxTime i; d = deltatime tx rx in s\<lparr>
        pktvalid := pktvalid s + 1,
        flowinfo := setline flagfilter i tx rx (flowinfo s),
        sum_delay := rnd (sum_delay s + d),
        sum_square := rnd (sum_square s + rnd (d * d)),
        secfirstline_gl := (if rx < secfirstline_gl s then rx else secfirstline_gl s),
        sum_jitter := (if flagfirstline s then sum_jitter s else rnd (sum_jitter s + \<bar>rnd (last_delay s - d)\<bar>)),
        flagfirstline := False,
        last_delay := d\<rparr>)"

definition dec_record :: "int \<Rightarrow> u32 \<Rightarrow> info \<Rightarrow> dec_state \<Rightarrow> dec_state" where
  "dec_record flagfilter flownumsel i s =
     (if errornum flagfilter flownumsel i > 0 then s\<lparr>pkterr := pkterr s + 1\<rparr>
      else dec_valid flagfilter (unify_flow flagfilter i) s)"

text \<open>With -r the sending times come from the sender's log; a record that is not there ends the program.\<close>

definition same_packet :: "info \<Rightarrow> info \<Rightarrow> bool" where
  "same_packet i j \<longleftrightarrow> flowId j = flowId i \<and> srcAddr j = srcAddr i \<and> destAddr j = destAddr i \<and>
     srcPort j = srcPort i \<and> destPort j = destPort i \<and> seqNum j = seqNum i"

definition reconstruct :: "info list option \<Rightarrow> info \<Rightarrow> info option" where
  "reconstruct sendlog i = (case sendlog of
       None \<Rightarrow> Some i
     | Some sent \<Rightarrow> (case List.find (same_packet i) sent of
           None \<Rightarrow> None
         | Some j \<Rightarrow> Some (i\<lparr>txTime1 := txTime1 j, txTime2 := txTime2 j, txTime3 := txTime3 j\<rparr>)))"

fun dec_loop :: "int \<Rightarrow> u32 \<Rightarrow> info list option \<Rightarrow> info list \<Rightarrow> dec_state \<Rightarrow> dec_state option" where
  "dec_loop flagfilter flownumsel sendlog [] s = Some s"
| "dec_loop flagfilter flownumsel sendlog (i # is) s = (case reconstruct sendlog i of
       None \<Rightarrow> None
     | Some j \<Rightarrow> dec_loop flagfilter flownumsel sendlog is (dec_record flagfilter flownumsel j s))"

subsection \<open>The report\<close>

text \<open>Quotients: a finite double, an infinity, or not a number.\<close>

datatype quotient = Fin rat | Inf | NaN

definition fdiv :: "rat \<Rightarrow> rat \<Rightarrow> quotient" where
  "fdiv x y = (if y \<noteq> 0 then Fin (rnd (x / y)) else if x = 0 then NaN else Inf)"

text \<open>The square of a standard deviation; the report prints its root.  A variance that is not positive, or
  not a number, is 0.\<close>

definition variance :: "rat \<Rightarrow> rat \<Rightarrow> quotient \<Rightarrow> rat" where
  "variance squares n av = (case (fdiv squares n, av) of
       (Fin q, Fin a) \<Rightarrow> (let v = rnd (q - rnd (a * a)) in if v > 0 then v else 0)
     | _ \<Rightarrow> 0)"

definition rate :: "rat \<Rightarrow> rat \<Rightarrow> quotient" where
  "rate x totaltime = (if totaltime > 0 then fdiv x totaltime else Fin 0)"

definition kbits :: "rat \<Rightarrow> rat" where
  "kbits bytes = rnd (rnd (bytes * 8) / 1000)"

record dec_report =
  rp_totaltime :: rat
  rp_packets :: rat
  rp_mindelay :: rat
  rp_maxdelay :: rat
  rp_avdelay :: quotient
  rp_avjitter :: quotient
  rp_variance :: rat
  rp_bytes :: rat
  rp_bitrate :: quotient
  rp_pktrate :: quotient
  rp_dropped :: nat
  rp_percent :: quotient
  rp_burst :: quotient

definition flow_report :: "stflowinfo \<Rightarrow> dec_report" where
  "flow_report f =
     (let totaltime = deltatime (secfirstline f) (seclastline f); n = dbl (pktrecv f); av = fdiv (avdelay f) n;
          lost = pktrecv f > 0 \<and> pktloss f > 0
      in \<lparr>rp_totaltime = totaltime, rp_packets = n, rp_mindelay = mindelay f, rp_maxdelay = maxdelay f,
          rp_avdelay = av,
          rp_avjitter = (if pktrecv f > 1 then fdiv (avjitter f) (dbl (pktrecv f - 1)) else Fin 0),
          rp_variance = variance (delvariation f) n av, rp_bytes = byterecv f,
          rp_bitrate = rate (kbits (byterecv f)) totaltime, rp_pktrate = rate n totaltime,
          rp_dropped = (if lost then unat (pktloss f) else 0),
          rp_percent = (if lost then fdiv (rnd (100 * dbl (pktloss f))) (dbl (pktrecv f + pktloss f)) else Fin 0),
          rp_burst = (if lost then fdiv (dbl (pktloss f)) (dbl (lossEvents f)) else Fin 0)\<rparr>)"

text \<open>The totals: the numbers of lost packets and of loss events are added up in unsigned ints.\<close>

definition sum_dbl :: "(stflowinfo \<Rightarrow> rat) \<Rightarrow> stflowinfo list \<Rightarrow> rat" where
  "sum_dbl g fs = fold (\<lambda>f x. rnd (x + g f)) fs 0"

definition sum_u32 :: "(stflowinfo \<Rightarrow> u32) \<Rightarrow> stflowinfo list \<Rightarrow> u32" where
  "sum_u32 g fs = fold (\<lambda>f x. x + g f) fs 0"

definition total_report :: "dec_state \<Rightarrow> dec_report" where
  "total_report s =
     (let fs = flowinfo s; n = sum_dbl (\<lambda>f. dbl (pktrecv f)) fs; bytes = sum_dbl byterecv fs;
          loss = sum_u32 (\<lambda>f. ucast (pktloss f)) fs; events = sum_u32 lossEvents fs;
          last = fold (\<lambda>f x. if x < seclastline f then seclastline f else x) fs 0;
          totaltime = deltatime (secfirstline_gl s) last; av = fdiv (sum_delay s) n;
          lost = n > 0 \<and> loss > 0
      in \<lparr>rp_totaltime = totaltime, rp_packets = n,
          rp_mindelay = fold (\<lambda>f x. if x > mindelay f then mindelay f else x) fs 90000,
          rp_maxdelay = fold (\<lambda>f x. if x < maxdelay f then maxdelay f else x) fs (- 86400),
          rp_avdelay = av,
          rp_avjitter = (if n > 1 then fdiv (sum_jitter s) (rnd (n - 1)) else Fin 0),
          rp_variance = variance (sum_square s) n av, rp_bytes = bytes,
          rp_bitrate = rate (kbits bytes) totaltime, rp_pktrate = rate n totaltime,
          rp_dropped = (if lost then unat loss else 0),
          rp_percent = (if lost then fdiv (dbl (100 * loss)) (rnd (n + dbl loss)) else Fin 0),
          rp_burst = (if lost then fdiv (dbl loss) (dbl events) else Fin 0)\<rparr>)"

end
