(* ===== verification/Decoder_Facts.thy ===== *)
theory Decoder_Facts
  imports Decoder
begin

text \<open>What ITGDec's summary says: the flows are kept apart, and the figures of a flow are those of its own
  records.\<close>

subsection \<open>One flow\<close>

definition packet_delay :: "info \<Rightarrow> rat" where
  "packet_delay i = deltatime (sectxTime i) (secrxTime i)"

definition flow_begin :: "info \<Rightarrow> stflowinfo" where
  "flow_begin i = new_flow i (packet_delay i) (secrxTime i)"

definition flow_add :: "info \<Rightarrow> stflowinfo \<Rightarrow> stflowinfo" where
  "flow_add i = add_packet i (packet_delay i) (secrxTime i)"

lemma note_seq_fields [simp]:
  "pktrecv (note_seq q f) = pktrecv f" "minSeq (note_seq q f) = minSeq f" "maxSeq (note_seq q f) = max q (maxSeq f)"
  "pktdup (note_seq q f) = pktdup f" "pktloss (note_seq q f) = pktloss f"
  by (auto simp: note_seq_def Let_def max_def)

lemma settle_loss_fields [simp]:
  "pktrecv (settle_loss f) = pktrecv f" "minSeq (settle_loss f) = minSeq f" "maxSeq (settle_loss f) = maxSeq f"
  by (simp_all add: settle_loss_def Let_def)

lemma count_seq_fields [simp]:
  "fi_flowId (count_seq q f) = fi_flowId f" "byterecv (count_seq q f) = byterecv f"
  "pktrecv (count_seq q f) = pktrecv f" "avdelay (count_seq q f) = avdelay f"
  "secfirstline (count_seq q f) = secfirstline f" "seclastline (count_seq q f) = seclastline f"
  "maxdelay (count_seq q f) = maxdelay f" "mindelay (count_seq q f) = mindelay f"
  "srcaddress (count_seq q f) = srcaddress f" "srcport (count_seq q f) = srcport f"
  "destaddress (count_seq q f) = destaddress f" "destport (count_seq q f) = destport f"
  "lastdelay (count_seq q f) = lastdelay f" "avjitter (count_seq q f) = avjitter f"
  "minSeq (count_seq q f) = minSeq f" "maxSeq (count_seq q f) = max q (maxSeq f)"
  by (simp_all add: count_seq_def) (simp_all add: settle_loss_def note_seq_def Let_def)

text \<open>Sums in double arithmetic.\<close>

definition fl_sum :: "rat \<Rightarrow> rat list \<Rightarrow> rat" where
  "fl_sum x xs = fold (\<lambda>y s. rnd (s + y)) xs x"

lemma fl_sum_snoc [simp]: "fl_sum x (xs @ [y]) = rnd (fl_sum x xs + y)" "fl_sum x [] = x"
  by (simp_all add: fl_sum_def)

text \<open>The sum of whole numbers below 2^53 is exact.\<close>

lemma fl_sum_int:
  assumes "\<forall>n \<in> set ns. 0 \<le> n" "0 \<le> m" "m + sum_list ns < 2 ^ 53"
  shows "fl_sum (of_int m) (map of_int ns) = of_int (m + sum_list ns)"
  using assms
proof (induction ns rule: rev_induct)
  case (snoc n ns)
  have "fl_sum (of_int m) (map of_int (ns @ [n])) = rnd (of_int (m + sum_list ns) + of_int n)"
    using snoc by simp
  also have "\<dots> = rnd (of_int (m + sum_list ns + n))" by simp
  also have "\<dots> = of_int (m + sum_list ns + n)"
    using snoc.prems by (intro rnd_of_int) (auto intro!: add_nonneg_nonneg sum_list_nonneg)
  finally show ?case by (simp add: add.assoc)
qed simp

lemma dbl_u32 [simp]: "dbl (w :: u32) = of_int (uint w)"
  using rnd_of_int[of "uint w"] uint_bounded[of w] by (simp add: dbl_def)

text \<open>The figures of a flow, record by record.\<close>

lemma flow_add_fields [simp]:
  "pktrecv (flow_add i f) = pktrecv f + 1" "maxdelay (flow_add i f) = max (packet_delay i) (maxdelay f)"
  "mindelay (flow_add i f) = min (packet_delay i) (mindelay f)"
  "secfirstline (flow_add i f) = min (secrxTime i) (secfirstline f)"
  "seclastline (flow_add i f) = max (secrxTime i) (seclastline f)"
  "avdelay (flow_add i f) = rnd (avdelay f + packet_delay i)"
  "byterecv (flow_add i f) = rnd (byterecv f + of_int (uint (size i)))"
  "lastdelay (flow_add i f) = packet_delay i" "maxSeq (flow_add i f) = max (seqNum i) (maxSeq f)"
  "avjitter (flow_add i f) = rnd (avjitter f + \<bar>rnd (lastdelay f - packet_delay i)\<bar>)"
  "minSeq (flow_add i f) = minSeq f"
  by (simp_all add: flow_add_def add_packet_def max_def min_def not_less)

lemma flow_begin_fields [simp]:
  "pktrecv (flow_begin i) = 1" "maxdelay (flow_begin i) = packet_delay i" "mindelay (flow_begin i) = packet_delay i"
  "secfirstline (flow_begin i) = secrxTime i" "seclastline (flow_begin i) = secrxTime i"
  "avdelay (flow_begin i) = packet_delay i" "byterecv (flow_begin i) = of_int (uint (size i))"
  "lastdelay (flow_begin i) = packet_delay i" "maxSeq (flow_begin i) = seqNum i" "avjitter (flow_begin i) = 0"
  "minSeq (flow_begin i) = 1" "pktdup (flow_begin i) = 0" "pktloss (flow_begin i) = 0" "lossEvents (flow_begin i) = 0"
  by (simp_all add: flow_begin_def new_flow_def)

lemma extreme_snoc:
  fixes g :: "info \<Rightarrow> 'x::linorder"
  shows "Max (g ` set (r # rs @ [i])) = max (g i) (Max (g ` set (r # rs)))"
    and "Min (g ` set (r # rs @ [i])) = min (g i) (Min (g ` set (r # rs)))"
proof -
  have "g ` set (r # rs @ [i]) = insert (g i) (g ` set (r # rs))" by auto
  then show "Max (g ` set (r # rs @ [i])) = max (g i) (Max (g ` set (r # rs)))"
    and "Min (g ` set (r # rs @ [i])) = min (g i) (Min (g ` set (r # rs)))" by (simp_all only:) simp_all
qed

lemma flow_figures:
  fixes r rs defines "f \<equiv> fold flow_add rs (flow_begin r)"
  shows "pktrecv f = of_nat (length (r # rs))"
    and "maxdelay f = Max (packet_delay ` set (r # rs))"
    and "mindelay f = Min (packet_delay ` set (r # rs))"
    and "secfirstline f = Min (secrxTime ` set (r # rs))"
    and "seclastline f = Max (secrxTime ` set (r # rs))"
    and "avdelay f = fl_sum (packet_delay r) (map packet_delay rs)"
    and "byterecv f = fl_sum (of_int (uint (size r))) (map (\<lambda>i. of_int (uint (size i))) rs)"
    and "lastdelay f = packet_delay (last (r # rs))"
    and "maxSeq f = Max (seqNum ` set (r # rs))"
    and "minSeq f = 1"
  unfolding f_def
  by (induction rs rule: rev_induct)
    (simp_all only: extreme_snoc fold_simps fold_append comp_apply flow_add_fields flow_begin_fields,
      simp_all add: add.commute)

subsection \<open>Lost packets\<close>

text \<open>A flow of which n packets with different sequence numbers up to m have been received.\<close>

definition counted :: "nat \<Rightarrow> nat \<Rightarrow> stflowinfo \<Rightarrow> bool" where
  "counted n m f \<longleftrightarrow> pktrecv f = of_nat n \<and> unat (maxSeq f) = m \<and> minSeq f = 1 \<and> pktdup f = 0 \<and> n \<le> m \<and>
     1 \<le> n \<and> pktloss f = (if n = 1 then 0 else of_nat (m - n))"

lemma ucast_of_unat: "unat w = n \<Longrightarrow> ucast w = (of_nat n :: 'a::len word)"
  using of_nat_unat[of w, symmetric] by simp

lemma ucast_u32_minus_1:
  assumes "1 \<le> unat (w :: u32)"
  shows "ucast (w - 1) = (of_nat (unat w - 1) :: u64)"
proof -
  have "unat (w - 1) = unat w - 1" using assms by (simp add: unat_sub_if_size)
  then show ?thesis by (rule ucast_of_unat)
qed

lemma count_seq_no_dup:
  assumes "\<not> ucast (max q (maxSeq g) - minSeq g + 1) < pktrecv g - ucast (pktdup g)"
  shows "pktloss (count_seq q g) = ucast (max q (maxSeq g) - minSeq g) - pktrecv g + ucast (pktdup g) + 1"
    and "pktdup (count_seq q g) = pktdup g"
  using assms by (simp_all add: count_seq_def settle_loss_def Let_def)

lemma counted_step:
  assumes "counted n m f" "max (unat q) m = m'" "n + 1 \<le> m'"
    and "pktrecv g = pktrecv f + 1" "maxSeq g = maxSeq f" "minSeq g = minSeq f" "pktdup g = pktdup f"
    "pktloss g = pktloss f"
  shows "counted (n + 1) m' (count_seq q g)"
proof -
  let ?M = "max q (maxSeq f)"
  have M: "unat ?M = m'" using assms(1,2) by (simp add: counted_def max_def word_le_nat_alt split: if_splits)
  then have b: "m' < 2 ^ 32" using unsigned_less[of ?M, where ?'a = nat] by simp
  have u: "ucast ?M = (of_nat m' :: u64)" using M by (rule ucast_of_unat)
  have u1: "ucast (?M - 1) = (of_nat (m' - 1) :: u64)" using ucast_u32_minus_1[of ?M] M assms(3) by simp
  have w: "unat (of_nat k :: u64) = k" if "k < 2 ^ 32" for k
    using that by (simp add: unat_of_nat)
  have "\<not> unat (of_nat m' :: u64) < unat (of_nat (n + 1) :: u64)" using b assms(3) w[of m'] w[of "n + 1"] by (simp del: of_nat_add of_nat_Suc)
  then have lt: "\<not> ucast ?M < (of_nat n + 1 :: u64)" by (simp add: u word_less_nat_alt add.commute)
  have l: "ucast (?M - 1) - (of_nat n + 1) + 1 = (of_nat (m' - (n + 1)) :: u64)"
    using assms(3) by (simp add: u1 of_nat_diff)
  have g: "minSeq g = 1" "pktdup g = 0" "pktrecv g = of_nat n + 1" "maxSeq g = maxSeq f"
    using assms by (simp_all add: counted_def)
  have "\<not> ucast (max q (maxSeq g) - minSeq g + 1) < pktrecv g - ucast (pktdup g)" using lt by (simp add: g)
  from count_seq_no_dup[OF this] show ?thesis
    using assms(1,3) M l by (simp add: counted_def g)
qed

text \<open>Different numbers from 1 up to m are at most m.\<close>

lemma distinct_bounded:
  assumes "distinct ns" "0 \<notin> set ns" "\<forall>n \<in> set ns. n \<le> (m :: nat)"
  shows "length ns \<le> m"
proof -
  have "n \<in> {1..m}" if "n \<in> set ns" for n
    using that assms(2,3) by (cases "n = 0") auto
  then have "set ns \<subseteq> {1..m}" by blast
  then show ?thesis using card_mono[of "{1..m}" "set ns"] distinct_card[OF assms(1)] by simp
qed

definition seqs :: "info list \<Rightarrow> nat list" where
  "seqs rs = map (\<lambda>i. unat (seqNum i)) rs"

lemma flow_counted:
  assumes "distinct (seqs (r # rs))" "0 \<notin> set (seqs (r # rs))"
  shows "counted (length (r # rs)) (Max (set (seqs (r # rs)))) (fold flow_add rs (flow_begin r))"
  using assms
proof (induction rs rule: rev_induct)
  case Nil
  then show ?case by (simp add: counted_def seqs_def Suc_le_eq)
next
  case (snoc i rs)
  have "distinct (seqs (r # rs))" "0 \<notin> set (seqs (r # rs))" using snoc.prems by (auto simp: seqs_def)
  note IH = snoc.IH[OF this]
  let ?m = "Max (set (seqs (r # rs @ [i])))"
  have "set (seqs (r # rs @ [i])) = insert (unat (seqNum i)) (set (seqs (r # rs)))" by (auto simp: seqs_def)
  then have m: "max (unat (seqNum i)) (Max (set (seqs (r # rs)))) = ?m" by (simp add: seqs_def)
  have "length (seqs (r # rs @ [i])) \<le> ?m"
    using snoc.prems by (intro distinct_bounded) simp_all
  then have "length (r # rs) + 1 \<le> ?m" by (simp add: seqs_def)
  from counted_step[OF IH m this] show ?case by (simp add: flow_add_def add_packet_def)
qed

text \<open>The lost packets of a flow: the numbers up to the largest that never came.\<close>

definition missing :: "info list \<Rightarrow> nat set" where
  "missing rs = {1..Max (set (seqs rs))} - set (seqs rs)"

lemma flow_loss:
  assumes "distinct (seqs (r # rs))" "0 \<notin> set (seqs (r # rs))" "rs \<noteq> []"
  shows "unat (pktloss (fold flow_add rs (flow_begin r))) = card (missing (r # rs))"
    and "pktdup (fold flow_add rs (flow_begin r)) = 0" and "pktrecv (fold flow_add rs (flow_begin r)) \<noteq> 0"
proof -
  let ?ns = "seqs (r # rs)" and ?f = "fold flow_add rs (flow_begin r)"
  note c = flow_counted[OF assms(1,2)]
  have "n \<in> {1..Max (set ?ns)}" if "n \<in> set ?ns" for n
    using that assms(2) Max_ge[of "set ?ns" n] by (cases "n = 0") simp_all
  then have sub: "set ?ns \<subseteq> {1..Max (set ?ns)}" by blast
  have "card (missing (r # rs)) = Max (set ?ns) - length (r # rs)"
    using card_Diff_subset[OF _ sub] distinct_card[OF assms(1)] by (simp add: missing_def seqs_def)
  moreover have "Max (set ?ns) < 2 ^ 32"
    using c unsigned_less[of "maxSeq ?f", where 'a = nat] by (simp add: counted_def)
  moreover have "pktloss ?f = of_nat (Max (set ?ns) - length (r # rs))"
    using c assms(3) by (cases rs) (auto simp: counted_def)
  ultimately show "unat (pktloss ?f) = card (missing (r # rs))"
    by (simp add: unat_of_nat del: of_nat_diff)
  show "pktdup ?f = 0" using c by (simp add: counted_def)
  have "length (r # rs) < 2 ^ 32" using c \<open>Max (set ?ns) < 2 ^ 32\<close> by (simp add: counted_def)
  then have "unat (of_nat (length (r # rs)) :: u64) = length (r # rs)"
    by (simp only: unat_of_nat) simp
  then show "pktrecv ?f \<noteq> 0" using c unfolding counted_def by (metis length_Cons old.nat.distinct(2) unat_0)
qed

subsection \<open>The table of the flows\<close>

type_synonym flow_key = "u32 \<times> string \<times> string \<times> u32 \<times> u32"

definition ikey :: "info \<Rightarrow> flow_key" where
  "ikey i = (flowId i, srcAddr i, destAddr i, srcPort i, destPort i)"

definition fkey :: "stflowinfo \<Rightarrow> flow_key" where
  "fkey f = (fi_flowId f, srcaddress f, destaddress f, srcport f, destport f)"

lemma same_flow_key: "same_flow i f \<longleftrightarrow> fkey f = ikey i"
  by (auto simp: same_flow_def fkey_def ikey_def)

lemma fkey_flow [simp]: "fkey (flow_add i f) = fkey f" "fkey (flow_begin i) = ikey i"
  by (simp_all add: fkey_def ikey_def flow_add_def add_packet_def flow_begin_def new_flow_def)

definition table :: "stflowinfo list \<Rightarrow> flow_key \<Rightarrow> stflowinfo option" where
  "table fs = map_of (map (\<lambda>f. (fkey f, f)) fs)"

lemma table_in: "distinct (map fkey fs) \<Longrightarrow> f \<in> set fs \<Longrightarrow> table fs (fkey f) = Some f"
  by (auto simp: table_def comp_def intro!: map_of_is_SomeI)

lemma table_None: "table fs k = None \<longleftrightarrow> k \<notin> fkey ` set fs"
  by (auto simp: table_def map_of_eq_None_iff image_iff)

lemma table_snoc: "k \<notin> fkey ` set fs \<Longrightarrow> fkey f = k \<Longrightarrow> table (fs @ [f]) = (table fs)(k \<mapsto> f)"
  using table_None[of fs k] by (auto simp: table_def map_add_def fun_eq_iff split: option.split)

lemma table_update:
  "z < length fs \<Longrightarrow> fkey f = fkey (fs ! z) \<Longrightarrow> distinct (map fkey fs) \<Longrightarrow>
     table (fs[z := f]) = (table fs)(fkey f \<mapsto> f)"
proof (induction fs arbitrary: z)
  case (Cons g gs)
  show ?case
  proof (cases z)
    case 0
    then show ?thesis using Cons.prems by (auto simp: table_def)
  next
    case (Suc y)
    then have "fkey g \<noteq> fkey f" using Cons.prems nth_mem[of y gs] by (auto simp: image_iff)
    then show ?thesis using Suc Cons.prems Cons.IH[of y] by (auto simp: table_def)
  qed
qed simp

lemma last_match_Some:
  "last_match P fs z found = Some j \<Longrightarrow> found = Some j \<or> (\<exists>k < length fs. j = z + k \<and> P (fs ! k))"
proof (induction fs arbitrary: z found)
  case (Cons f fs)
  then have "last_match P fs (z + 1) (if P f then Some z else found) = Some j" by simp
  from Cons.IH[OF this] show ?case
    by (cases "P f") (force, auto)
qed simp

lemma last_match_None: "last_match P fs z found = None \<longleftrightarrow> found = None \<and> (\<forall>f \<in> set fs. \<not> P f)"
  by (induction fs arbitrary: z found) auto

text \<open>The records of one flow, in the order of the log.\<close>

definition of_flow :: "flow_key \<Rightarrow> info list \<Rightarrow> info list" where
  "of_flow k rs = filter (\<lambda>i. ikey i = k) rs"

definition flow_stats :: "info list \<Rightarrow> stflowinfo option" where
  "flow_stats rs = (case rs of [] \<Rightarrow> None | r # rs' \<Rightarrow> Some (fold flow_add rs' (flow_begin r)))"

lemma flow_stats_snoc:
  "flow_stats (rs @ [i]) = Some (case flow_stats rs of None \<Rightarrow> flow_begin i | Some f \<Rightarrow> flow_add i f)"
  by (cases rs) (simp_all add: flow_stats_def)

definition kept_apart :: "info list \<Rightarrow> stflowinfo list \<Rightarrow> bool" where
  "kept_apart rs fs \<longleftrightarrow> distinct (map fkey fs) \<and> (\<forall>k. table fs k = flow_stats (of_flow k rs))"

lemma setline_keeps_apart:
  assumes "kept_apart rs fs" "flagfilter = 2 \<longrightarrow> fkey ` set fs \<subseteq> {ikey i}"
  shows "kept_apart (rs @ [i]) (setline flagfilter i (sectxTime i) (secrxTime i) fs)"
    and "fkey ` set (setline flagfilter i (sectxTime i) (secrxTime i) fs) \<subseteq> insert (ikey i) (fkey ` set fs)"
proof -
  let ?fs = "setline flagfilter i (sectxTime i) (secrxTime i) fs"
  have d: "distinct (map fkey fs)" and t: "\<And>k. table fs k = flow_stats (of_flow k rs)"
    using assms(1) unfolding kept_apart_def by blast+
  have s: "flow_stats (of_flow k (rs @ [i])) = (if k = ikey i
      then Some (case table fs k of None \<Rightarrow> flow_begin i | Some f \<Rightarrow> flow_add i f) else table fs k)" for k
    by (auto simp: of_flow_def t flow_stats_snoc)
  have new: "?fs = fs @ [flow_begin i] \<Longrightarrow> ikey i \<notin> fkey ` set fs \<Longrightarrow>
      kept_apart (rs @ [i]) ?fs \<and> fkey ` set ?fs \<subseteq> insert (ikey i) (fkey ` set fs)"
    using d table_None[of fs "ikey i"] table_snoc[of "ikey i" fs "flow_begin i"]
    by (auto simp: kept_apart_def s)
  have old: "?fs = fs[z := flow_add i (fs ! z)] \<Longrightarrow> z < length fs \<Longrightarrow> fkey (fs ! z) = ikey i \<Longrightarrow>
      kept_apart (rs @ [i]) ?fs \<and> fkey ` set ?fs \<subseteq> insert (ikey i) (fkey ` set fs)" for z
    using d table_update[of z fs "flow_add i (fs ! z)"] table_in[of fs "fs ! z"] set_update_subset_insert[of fs z]
      map_update[of fkey fs z "flow_add i (fs ! z)"] list_update_id[of "map fkey fs" z]
    by (fastforce simp: kept_apart_def s simp del: list_update_id)
  have e: "?fs = (case (if fs = [] then None else if flagfilter = 2 then Some 0 else last_match (same_flow i) fs 0 None) of
      Some z \<Rightarrow> fs[z := flow_add i (fs ! z)] | None \<Rightarrow> fs @ [flow_begin i])"
    by (simp add: setline_def flow_add_def flow_begin_def packet_delay_def Let_def split: option.split)
  have "kept_apart (rs @ [i]) ?fs \<and> fkey ` set ?fs \<subseteq> insert (ikey i) (fkey ` set fs)"
  proof (cases "if fs = [] then None else if flagfilter = 2 then Some 0 else last_match (same_flow i) fs 0 None")
    case None
    then have "ikey i \<notin> fkey ` set fs"
      by (auto simp: last_match_None same_flow_key split: if_splits)
    then show ?thesis using e None by (intro new) (simp only: option.case, assumption)
  next
    case (Some z)
    have "z < length fs \<and> fkey (fs ! z) = ikey i"
    proof (cases "flagfilter = 2")
      case True
      then show ?thesis using Some assms(2) by (cases fs) auto
    next
      case False
      then show ?thesis using Some last_match_Some[of "same_flow i" fs 0 None z]
        by (auto simp: same_flow_key split: if_splits)
    qed
    then show ?thesis using e Some by (intro old[of z]) (simp_all only: option.case)
  qed
  then show "kept_apart (rs @ [i]) ?fs" "fkey ` set ?fs \<subseteq> insert (ikey i) (fkey ` set fs)" by simp_all
qed

subsection \<open>A whole log\<close>

definition valid_records :: "int \<Rightarrow> u32 \<Rightarrow> info list \<Rightarrow> info list" where
  "valid_records flagfilter flownumsel lines =
     map (unify_flow flagfilter) (filter (\<lambda>i. errornum flagfilter flownumsel i = 0) lines)"

lemma dec_loop_run: "dec_loop flagfilter flownumsel None lines s = Some (fold (dec_record flagfilter flownumsel) lines s)"
  by (induction lines arbitrary: s) (simp_all add: reconstruct_def)

definition one_key :: "int \<Rightarrow> stflowinfo list \<Rightarrow> bool" where
  "one_key flagfilter fs \<longleftrightarrow> (flagfilter = 2 \<longrightarrow> fkey ` set fs \<subseteq> {(1, ''127.0.0.1'', ''127.0.0.1'', 9999, 8999)})"

lemma dec_valid_fields:
  "flowinfo (dec_valid ff i s) = setline ff i (sectxTime i) (secrxTime i) (flowinfo s)"
  "pktvalid (dec_valid ff i s) = pktvalid s + 1" "pkterr (dec_valid ff i s) = pkterr s"
  "secfirstline_gl (dec_valid ff i s) = min (secrxTime i) (secfirstline_gl s)"
  by (auto simp: dec_valid_def Let_def min_def)

lemma dec_log_state:
  fixes lines flagfilter flownumsel defines "s \<equiv> fold (dec_record flagfilter flownumsel) lines dec_init"
    and "rs \<equiv> valid_records flagfilter flownumsel lines"
  shows "kept_apart rs (flowinfo s) \<and> one_key flagfilter (flowinfo s) \<and>
    pktvalid s = of_nat (length rs) \<and> pkterr s = of_nat (length lines - length rs) \<and>
    secfirstline_gl s = Min (insert 90000 (secrxTime ` set rs))"
  unfolding s_def rs_def
proof (induction lines rule: rev_induct)
  case Nil
  show ?case
    by (simp add: dec_init_def valid_records_def kept_apart_def of_flow_def flow_stats_def table_def one_key_def)
next
  case (snoc i lines)
  let ?rs = "valid_records flagfilter flownumsel lines" and ?s = "fold (dec_record flagfilter flownumsel) lines dec_init"
  have le: "length ?rs \<le> length lines" by (simp add: valid_records_def)
  show ?case
  proof (cases "errornum flagfilter flownumsel i = 0")
    case False
    then have "fold (dec_record flagfilter flownumsel) (lines @ [i]) dec_init = ?s\<lparr>pkterr := pkterr ?s + 1\<rparr>"
      "valid_records flagfilter flownumsel (lines @ [i]) = ?rs"
      by (simp_all add: dec_record_def valid_records_def)
    then show ?thesis using snoc le by (simp add: Suc_diff_le add.commute)
  next
    case True
    let ?i = "unify_flow flagfilter i"
    have k: "flagfilter = 2 \<longrightarrow> ikey ?i = (1, ''127.0.0.1'', ''127.0.0.1'', 9999, 8999)"
      by (simp add: unify_flow_def ikey_def)
    have r: "valid_records flagfilter flownumsel (lines @ [i]) = ?rs @ [?i]"
      using True by (simp add: valid_records_def)
    have f: "fold (dec_record flagfilter flownumsel) (lines @ [i]) dec_init = dec_valid flagfilter ?i ?s"
      using True by (simp add: dec_record_def)
    note IH = snoc[THEN conjunct1] snoc[THEN conjunct2, THEN conjunct1]
      snoc[THEN conjunct2, THEN conjunct2, THEN conjunct1]
      snoc[THEN conjunct2, THEN conjunct2, THEN conjunct2, THEN conjunct1]
      snoc[THEN conjunct2, THEN conjunct2, THEN conjunct2, THEN conjunct2]
    have ok: "flagfilter = 2 \<longrightarrow> fkey ` set (flowinfo ?s) \<subseteq> {ikey ?i}" using IH(2) k by (simp add: one_key_def)
    note sk = setline_keeps_apart[OF IH(1) ok]
    have ok': "one_key flagfilter (setline flagfilter ?i (sectxTime ?i) (secrxTime ?i) (flowinfo ?s))"
      unfolding one_key_def
    proof
      assume "flagfilter = 2"
      then have "insert (ikey ?i) (fkey ` set (flowinfo ?s)) \<subseteq> {ikey ?i}" using ok by simp
      then show "fkey ` set (setline flagfilter ?i (sectxTime ?i) (secrxTime ?i) (flowinfo ?s)) \<subseteq>
          {(1, ''127.0.0.1'', ''127.0.0.1'', 9999, 8999)}"
        using sk(2) k \<open>flagfilter = 2\<close> by (simp only: simp_thms)
    qed
    have mn: "Min (insert 90000 (secrxTime ` set (?rs @ [?i]))) =
        min (secrxTime ?i) (Min (insert 90000 (secrxTime ` set ?rs)))"
    proof -
      have "insert 90000 (secrxTime ` set (?rs @ [?i])) = insert (secrxTime ?i) (insert 90000 (secrxTime ` set ?rs))"
        by auto
      then show ?thesis by (simp only:) simp
    qed
    have ln: "length (lines @ [i]) - length (?rs @ [?i]) = length lines - length ?rs"
      "of_nat (length ?rs) + 1 = (of_nat (length (?rs @ [?i])) :: u64)" by simp_all
    show ?thesis
      unfolding f r dec_valid_fields IH(3,4,5) ln mn using sk(1) ok' by (intro conjI refl)
  qed
qed

end
