(* ===== verification/Decoder_Log.thy ===== *)
theory Decoder_Log
  imports Decoder_Facts
begin

text \<open>ITGDec on whole logs: the flows of a log, their figures and their losses, and what the decoder makes
  of the records that the receiver writes.\<close>

subsection \<open>The records of the receiver\<close>

text \<open>59.999999 in double arithmetic is not exceeded by any number of seconds the receiver writes.\<close>

lemma seconds_accepted:
  assumes "0 \<le> t" "0 \<le> u" "u < 1000000"
  shows "0 \<le> sec_usec t u" "sec_usec t u \<le> rnd (59999999 / 1000000)"
proof -
  have e: "rnd (59 + rnd (rnd 999999 / 1000000)) \<le> rnd (59999999 / 1000000)" by code_simp
  define R where "R = rnd (59999999 / 1000000)"
  have l: "59999999 / 1000000 - 1 / 10 ^ 8 \<le> R"
    using dr.fl_bounds(1)[of "59999999 / 1000000" 60] by (simp add: R_def)
  note f = sec_usec_facts[OF assms]
  have "0 \<le> \<lfloor>sec_usec t u\<rfloor>" using f(1) by simp
  then show "0 \<le> sec_usec t u" by simp
  show "sec_usec t u \<le> rnd (59999999 / 1000000)"
  proof (cases "t mod 60 = 59 \<and> u = 999999")
    case True
    then show ?thesis using e assms(1) by (simp add: sec_usec_def smod_nonneg)
  next
    case False
    have "t mod 60 < 60" by simp
    then have "1000000 * (t mod 60) + u \<le> 59999998" using False assms(3) by linarith
    then have "(of_int (1000000 * (t mod 60) + u) :: rat) \<le> of_int 59999998" by (simp only: of_int_le_iff)
    then have "of_int (t mod 60) + of_int u / 1000000 \<le> (59999998 / 1000000 :: rat)" by simp
    then show ?thesis using f(3) l unfolding R_def[symmetric] by simp
  qed
qed

text \<open>Hours, minutes and seconds put together again.\<close>

lemma sec_of_sec_usec:
  assumes "0 \<le> t" "t < 86400" "0 \<le> u" "u < 1000000"
  shows "\<bar>sec_of (of_int (t sdiv 3600)) (of_int ((t smod 3600) sdiv 60)) (sec_usec t u) - (of_int t + of_int u / 1000000)\<bar>
    \<le> 1 / 10 ^ 10"
    and "0 \<le> sec_of (of_int (t sdiv 3600)) (of_int ((t smod 3600) sdiv 60)) (sec_usec t u)"
proof -
  let ?h = "t div 3600" and ?m = "(t mod 3600) div 60"
  have b: "0 \<le> ?h" "?h < 24" "0 \<le> ?m" "?m < 60" using assms by (simp_all add: div_less_iff_less_mult pos_imp_zdiv_nonneg_iff) linarith?
  have T: "?h * 3600 + ?m * 60 = t - t mod 60"
  proof -
    have "t mod 3600 = ?m * 60 + t mod 3600 mod 60" by (rule div_mult_mod_eq[symmetric])
    moreover have "t mod 3600 mod 60 = t mod 60" "t = ?h * 3600 + t mod 3600" by (simp_all add: mod_mod_cancel)
    ultimately show ?thesis by linarith
  qed
  have d: "dbl (of_int ?h :: u32) = of_int ?h" "dbl (of_int ?m :: u32) = of_int ?m"
    using b by (simp_all add: uint_u32_of_int)
  have r: "rnd (of_int n) = of_int n" if "0 \<le> n" "n < 2 ^ 53" for n using that by (rule rnd_of_int)
  have h: "rnd (of_int ?h * 3600) = of_int (?h * 3600)" using r[of "?h * 3600"] b by simp
  have m: "rnd (of_int ?m * 60) = of_int (?m * 60)" using r[of "?m * 60"] b by simp
  have hm: "rnd (of_int (?h * 3600) + of_int (?m * 60)) = of_int (t - t mod 60)"
  proof -
    have "rnd (of_int (?h * 3600) + of_int (?m * 60)) = rnd (of_int (?h * 3600 + ?m * 60))" by simp
    also have "\<dots> = rnd (of_int (t - t mod 60))" by (simp only: T)
    also have "\<dots> = of_int (t - t mod 60)" using T b by (intro r) simp_all
    finally show ?thesis .
  qed
  have e: "sec_of (of_int (t sdiv 3600)) (of_int ((t smod 3600) sdiv 60)) (sec_usec t u) =
      rnd (of_int (t - t mod 60) + sec_usec t u)"
    unfolding sec_of_def using assms(1) by (simp only: sdiv_nonneg smod_nonneg d h m hm)
  let ?x = "of_int (t - t mod 60) + sec_usec t u"
  note f = sec_usec_facts[OF assms(1,3,4)]
  have u: "0 \<le> (of_int u / 1000000 :: rat)" "(of_int u / 1000000 :: rat) \<le> 1" using assms(3,4) by simp_all
  have t: "(of_int t :: rat) \<le> 86399" "0 \<le> (of_int (t - t mod 60) :: rat)"
    using assms(2) T b by (simp_all flip: of_int_diff)
  have s0: "0 \<le> sec_usec t u" using f(1) seconds_accepted(1)[OF assms(1,3,4)] by simp
  have x: "0 \<le> ?x" "?x \<le> 86401" using s0 f(3) u t by (simp_all add: algebra_simps)
  note B = dr.fl_bounds[OF x]
  show "\<bar>sec_of (of_int (t sdiv 3600)) (of_int ((t smod 3600) sdiv 60)) (sec_usec t u) - (of_int t + of_int u / 1000000)\<bar>
    \<le> 1 / 10 ^ 10"
  proof -
    have "?x = of_int t - of_int (t mod 60) + sec_usec t u" by simp
    moreover have "86401 / 2 ^ 53 + 1 / 10 ^ 14 \<le> (1 :: rat) / 10 ^ 10" by simp
    ultimately show ?thesis using B f(2,3) unfolding e by linarith
  qed
  have "\<bar>rnd ?x - ?x\<bar> \<le> ?x" using dr.error[of ?x] x(1) by simp
  then show "0 \<le> sec_of (of_int (t sdiv 3600)) (of_int ((t smod 3600) sdiv 60)) (sec_usec t u)"
    unfolding e by linarith
qed

text \<open>C13: the decoder and the receiver fit together.  ITGDec rejects no record that the receiver logs for a
  packet sent and received on the same day, and the delay it computes from the record is the
  difference of the two times, up to a nanosecond of rounding.\<close>

theorem logged_delay:
  fixes i fid seqn src dst sp dp sz flownumsel
  assumes "0 \<le> t1" "t1 < 86400" "0 \<le> u1" "u1 < 1000000" "0 \<le> t2" "t2 < 86400" "0 \<le> u2" "u2 < 1000000"
  defines "r \<equiv> writeInBufferStandard i fid seqn src dst sp dp t1 t2 u1 u2 sz"
  shows "errornum 0 flownumsel r = 0 \<and>
    \<bar>packet_delay r - (of_int (t2 - t1) + of_int (u2 - u1) / 1000000)\<bar> \<le> 1 / 10 ^ 9"
proof -
  have h: "uint (of_int (t div 3600) :: u32) \<le> 23" "uint (of_int ((t mod 3600) div 60) :: u32) \<le> 59"
    if "0 \<le> t" "t < 86400" for t
    using that by (simp_all add: uint_u32_of_int pos_imp_zdiv_nonneg_iff)
  have w: "\<not> (of_int (t div 3600) :: u32) > 24" "\<not> (of_int ((t mod 3600) div 60) :: u32) > 59"
    if "0 \<le> t" "t < 86400" for t
    using h[OF that] by (simp_all add: word_less_def)
  note s = seconds_accepted[OF assms(1,3,4)] seconds_accepted[OF assms(5,7,8)]
  have e: "errornum 0 flownumsel r = 0"
    using w[OF assms(1,2)] w[OF assms(5,6)] s assms(1,5)
    by (simp add: errornum_def r_def writeInBufferStandard_def sdiv_nonneg smod_nonneg not_less)
  define x1 where "x1 = sectxTime r"
  define x2 where "x2 = secrxTime r"
  note b1 = sec_of_sec_usec[OF assms(1-4)] and b2 = sec_of_sec_usec[OF assms(5-8)]
  define A1 where "A1 = of_int t1 + of_int u1 / (1000000 :: rat)"
  define A2 where "A2 = of_int t2 + of_int u2 / (1000000 :: rat)"
  have x: "\<bar>x1 - A1\<bar> \<le> 1 / 10 ^ 10" "\<bar>x2 - A2\<bar> \<le> 1 / 10 ^ 10"
    using b1(1) b2(1)
    by (simp_all add: x1_def x2_def A1_def A2_def sectxTime_def secrxTime_def r_def writeInBufferStandard_def)
  have "(of_int u1 / 1000000 :: rat) \<le> 1" "(of_int u2 / 1000000 :: rat) \<le> 1"
    "0 \<le> (of_int u1 / 1000000 :: rat)" "0 \<le> (of_int u2 / 1000000 :: rat)"
    "(of_int t1 :: rat) \<le> 86400" "(of_int t2 :: rat) \<le> 86400" "(0 :: rat) \<le> of_int t1" "(0 :: rat) \<le> of_int t2"
    using assms by simp_all
  then have A: "0 \<le> A1" "A1 \<le> 86401" "0 \<le> A2" "A2 \<le> 86401" unfolding A1_def A2_def by linarith+
  have d: "packet_delay r = rnd (x2 - x1)" by (simp add: packet_delay_def deltatime_def x1_def x2_def)
  have "(1 :: rat) / 10 ^ 10 \<le> 1" by simp
  then have "\<bar>x2 - x1\<bar> \<le> 90000" using x A by linarith
  then have "\<bar>x2 - x1\<bar> / 2 ^ 53 \<le> 90000 / 2 ^ 53" by (rule divide_right_mono) simp
  with dr.error[of "x2 - x1"] have r: "\<bar>rnd (x2 - x1) - (x2 - x1)\<bar> \<le> 90000 / 2 ^ 53" by (rule order_trans)
  have "\<bar>rnd (x2 - x1) - (A2 - A1)\<bar> \<le> 90000 / 2 ^ 53 + (1 / 10 ^ 10 + 1 / 10 ^ 10)" using r x by linarith
  also have "\<dots> \<le> 1 / 10 ^ 9" by simp
  finally have "\<bar>packet_delay r - (A2 - A1)\<bar> \<le> 1 / 10 ^ 9" by (simp only: d)
  moreover have "A2 - A1 = of_int (t2 - t1) + of_int (u2 - u1) / 1000000" by (simp add: A1_def A2_def diff_divide_distrib)
  ultimately have "\<bar>packet_delay r - (of_int (t2 - t1) + of_int (u2 - u1) / 1000000)\<bar> \<le> 1 / 10 ^ 9" by simp
  with e show ?thesis by blast
qed

text \<open>Witness: sent one microsecond before midnight's last second ends, received 0.25 s earlier in clock time.\<close>

theorem logged_delay_witness:
  "errornum 0 0 (writeInBufferStandard info0 0 0 [] [] 0 0 86399 86399 999999 749999 0) = 0 \<and>
   \<bar>packet_delay (writeInBufferStandard info0 0 0 [] [] 0 0 86399 86399 999999 749999 0) + 1 / 4\<bar> \<le> 1 / 10 ^ 9"
  using logged_delay[where ?t1.0 = 86399 and ?t2.0 = 86399 and ?u1.0 = 999999 and ?u2.0 = 749999 and
    i = info0 and fid = 0 and seqn = 0 and src = "[]" and dst = "[]" and sp = 0 and dp = 0 and sz = 0 and flownumsel = 0]
  by simp

subsection \<open>Flows\<close>

text \<open>C8: ITGDec keeps the flows of a log apart.  Whatever the log and its interleaving, the table of
  flows has one entry per flow (id, addresses and ports), the entry of a flow is what its own valid
  records alone give, in their order, flows without a valid record have no entry, and the numbers
  of valid and of rejected records are counted.  With -f t all records belong to one flow.\<close>

theorem decoder_flows:
  "\<exists>s. dec_loop flagfilter flownumsel None lines dec_init = Some s \<and> distinct (map fkey (flowinfo s)) \<and>
    (\<forall>k. table (flowinfo s) k = flow_stats (of_flow k (valid_records flagfilter flownumsel lines))) \<and>
    pktvalid s = of_nat (length (valid_records flagfilter flownumsel lines)) \<and>
    pkterr s = of_nat (length lines - length (valid_records flagfilter flownumsel lines))"
  using dec_log_state[of flagfilter flownumsel lines] unfolding dec_loop_run kept_apart_def by blast

lemma flow_of_table:
  assumes "kept_apart rs fs" "f \<in> set fs"
  shows "\<exists>r rs'. of_flow (fkey f) rs = r # rs' \<and> f = fold flow_add rs' (flow_begin r)"
proof -
  have "flow_stats (of_flow (fkey f) rs) = Some f"
    using assms table_in[of fs f] unfolding kept_apart_def by metis
  then show ?thesis by (cases "of_flow (fkey f) rs") (simp_all add: flow_stats_def)
qed

text \<open>The figures that ITGDec reports for a flow are those of the flow's records: their number, the
  largest and the smallest delay, the first and the last arrival and, below 2^53, the exact number
  of bytes.\<close>

lemma decoder_figures:
  assumes "dec_loop flagfilter flownumsel None lines dec_init = Some s" "f \<in> set (flowinfo s)"
  defines "rs \<equiv> of_flow (fkey f) (valid_records flagfilter flownumsel lines)"
  shows "rs \<noteq> [] \<and> pktrecv f = of_nat (length rs) \<and>
    maxdelay f = Max (packet_delay ` set rs) \<and> mindelay f = Min (packet_delay ` set rs) \<and>
    secfirstline f = Min (secrxTime ` set rs) \<and> seclastline f = Max (secrxTime ` set rs) \<and>
    ((\<Sum>i\<leftarrow>rs. uint (size i)) < 2 ^ 53 \<longrightarrow> byterecv f = of_int (\<Sum>i\<leftarrow>rs. uint (size i)))"
proof -
  have "kept_apart (valid_records flagfilter flownumsel lines) (flowinfo s)"
    using assms(1) dec_log_state[of flagfilter flownumsel lines] by (simp add: dec_loop_run)
  from flow_of_table[OF this assms(2)] obtain r rs' where
    r: "rs = r # rs'" "f = fold flow_add rs' (flow_begin r)" by (auto simp: rs_def)
  have "byterecv f = of_int (\<Sum>i\<leftarrow>rs. uint (size i))" if "(\<Sum>i\<leftarrow>rs. uint (size i)) < 2 ^ 53"
    using that fl_sum_int[of "map (\<lambda>i. uint (size i)) rs'" "uint (size r)"]
    by (simp add: r flow_figures(7) comp_def)
  then show ?thesis using flow_figures[of rs' r] r by simp
qed

text \<open>Witnesses: a log of two interleaved flows; packet 3 of flow 1 is lost and packet 4 comes before packet 2.\<close>

definition dec_demo :: "info list" where
  "dec_demo = [info0\<lparr>flowId := 1, seqNum := 1, size := 100\<rparr>, info0\<lparr>flowId := 2, seqNum := 1, size := 7\<rparr>,
     info0\<lparr>flowId := 1, seqNum := 4, size := 50\<rparr>, info0\<lparr>flowId := 1, seqNum := 2, size := 6\<rparr>]"

lemma dec_demo_valid: "valid_records 0 0 dec_demo = dec_demo"
proof -
  have "\<not> rnd (59999999 / 1000000) < 0" using seconds_accepted[of 0 0] by simp
  then show ?thesis by (simp add: valid_records_def dec_demo_def errornum_def info0_def unify_flow_def)
qed

lemma dec_demo_flow:
  "\<exists>s f. dec_loop 0 0 None dec_demo dec_init = Some s \<and> f \<in> set (flowinfo s) \<and> fkey f = (1, [], [], 0, 0)"
proof -
  let ?s = "fold (dec_record 0 0) dec_demo dec_init"
  have "table (flowinfo ?s) (1, [], [], 0, 0) = flow_stats (of_flow (1, [], [], 0, 0) dec_demo)"
    using dec_log_state[of 0 0 dec_demo] by (simp add: kept_apart_def dec_demo_valid)
  then obtain f where "table (flowinfo ?s) (1, [], [], 0, 0) = Some f"
    by (simp add: flow_stats_def of_flow_def dec_demo_def ikey_def info0_def)
  then have "f \<in> set (flowinfo ?s) \<and> fkey f = (1, [], [], 0, 0)" by (auto simp: table_def dest!: map_of_SomeD)
  then show ?thesis by (auto simp: dec_loop_run)
qed

lemma dec_demo_records:
  "of_flow (1, [], [], 0, 0) dec_demo = [info0\<lparr>flowId := 1, seqNum := 1, size := 100\<rparr>,
     info0\<lparr>flowId := 1, seqNum := 4, size := 50\<rparr>, info0\<lparr>flowId := 1, seqNum := 2, size := 6\<rparr>]"
  by (simp add: of_flow_def dec_demo_def ikey_def info0_def)

lemma decoder_figures_example:
  "\<exists>s f. dec_loop 0 0 None dec_demo dec_init = Some s \<and> f \<in> set (flowinfo s) \<and> pktrecv f = 3 \<and> byterecv f = 156"
proof -
  obtain s f where s: "dec_loop 0 0 None dec_demo dec_init = Some s" "f \<in> set (flowinfo s)"
    "fkey f = (1, [], [], 0, 0)" using dec_demo_flow by blast
  then show ?thesis using decoder_figures[OF s(1,2)] by (auto simp: dec_demo_valid dec_demo_records)
qed

text \<open>C7: the packets that ITGDec reports as dropped are the lost ones.  If the records of a flow carry
  different sequence numbers, counted from 1, in any order, and there is more than one, then the
  reported loss is the number of sequence numbers up to the largest one that never arrived, and
  no packet is taken for a duplicate.\<close>

theorem decoder_loss:
  assumes "dec_loop flagfilter flownumsel None lines dec_init = Some s" "f \<in> set (flowinfo s)"
  defines "rs \<equiv> of_flow (fkey f) (valid_records flagfilter flownumsel lines)"
  assumes "distinct (seqs rs)" "0 \<notin> set (seqs rs)" "2 \<le> length rs"
  shows "rp_dropped (flow_report f) = card (missing rs) \<and> pktdup f = 0"
proof -
  have "kept_apart (valid_records flagfilter flownumsel lines) (flowinfo s)"
    using assms(1) dec_log_state[of flagfilter flownumsel lines] by (simp add: dec_loop_run)
  from flow_of_table[OF this assms(2)] obtain r rs' where
    r: "rs = r # rs'" "f = fold flow_add rs' (flow_begin r)" by (auto simp: rs_def)
  have "rs' \<noteq> []" using assms(6) r by auto
  then have "unat (pktloss f) = card (missing rs)" "pktdup f = 0" "pktrecv f \<noteq> 0"
    using flow_loss[of r rs'] assms(4,5) r by simp_all
  then show ?thesis by (auto simp: flow_report_def Let_def word_gt_0)
qed

theorem decoder_loss_witness:
  "\<exists>s f. dec_loop 0 0 None dec_demo dec_init = Some s \<and> f \<in> set (flowinfo s) \<and> rp_dropped (flow_report f) = 1"
proof -
  obtain s f where s: "dec_loop 0 0 None dec_demo dec_init = Some s" "f \<in> set (flowinfo s)"
    "fkey f = (1, [], [], 0, 0)" using dec_demo_flow by blast
  have q: "seqs (of_flow (fkey f) (valid_records 0 0 dec_demo)) = [1, 4, 2]"
    by (simp add: s dec_demo_valid dec_demo_records seqs_def)
  have "missing (of_flow (fkey f) (valid_records 0 0 dec_demo)) = {3}"
    unfolding missing_def q by (auto simp: numeral_eq_Suc)
  moreover have "2 \<le> length (of_flow (fkey f) (valid_records 0 0 dec_demo))"
    by (simp add: s dec_demo_valid dec_demo_records)
  ultimately show ?thesis using decoder_loss[OF s(1,2)] s(1,2) q by auto
qed

subsection \<open>Limits of the loss figures\<close>

definition packet :: "u32 \<Rightarrow> info" where
  "packet q = info0\<lparr>seqNum := q\<rparr>"

lemma seqNum_packet [simp]: "seqNum (packet q) = q" by (simp add: packet_def)

lemma flow_add_counters:
  fixes q f defines "g \<equiv> note_seq q (f\<lparr>pktrecv := pktrecv f + 1\<rparr>)"
  shows "pktloss (flow_add (packet q) f) = pktloss (settle_loss g)"
    and "lossEvents (flow_add (packet q) f) = lossEvents (settle_loss g)"
    and "pktdup (flow_add (packet q) f) = pktdup (settle_loss g)"
  by (simp_all add: g_def flow_add_def add_packet_def count_seq_def packet_def settle_loss_def note_seq_def Let_def)

text \<open>Reordering within a gap takes the counter of loss events below zero: after packets 1, 5, 2 and 3
  one packet is missing, and the counter stands at 2^32 - 1.\<close>

lemma loss_events_underflow:
  "lossEvents (fold flow_add [packet 5, packet 2, packet 3] (flow_begin (packet 1))) = - 1"
  by (simp add: flow_add_counters settle_loss_def note_seq_def Let_def)

text \<open>A duplicate after a gap hides a loss: of packets 1, 3 and 1 ITGDec reports none as dropped, though 2 is missing.\<close>

lemma duplicate_hides_loss:
  "rp_dropped (flow_report (fold flow_add [packet 3, packet 1] (flow_begin (packet 1)))) = 0 \<and>
   missing [packet 1, packet 3, packet 1] = {2}"
proof
  have "pktloss (fold flow_add [packet 3, packet 1] (flow_begin (packet 1))) = 0"
    by (simp add: flow_add_counters settle_loss_def note_seq_def Let_def)
  then show "rp_dropped (flow_report (fold flow_add [packet 3, packet 1] (flow_begin (packet 1)))) = 0"
    by (simp add: flow_report_def Let_def)
  show "missing [packet 1, packet 3, packet 1] = {2}"
  proof -
    have q: "seqs [packet 1, packet 3, packet 1] = [1, 3, 1]" by (simp add: seqs_def)
    show ?thesis unfolding missing_def q by (auto simp: numeral_eq_Suc)
  qed
qed

end
