(* ===== verification/DecoderSeries.thy ===== *)
theory DecoderSeries
  imports Decoder
begin

text \<open>ITGDec's time series (src/ITGDec/ITGDecod.cpp): split sorts the records of a log into one file per
  flow, elabsplit turns each file into rows (time, value) of bit rate, jitter, delay and packet loss,
  one row per interval, merge and mergeCombined put the rows of all flows side by side.\<close>

subsection \<open>split\<close>

text \<open>memFile is the list of its used slots.  A slot beyond the table, and a second file of the same name
  (flows that differ in their ports only), are outside the model: None.\<close>

definition MaxNumFlow :: nat where "MaxNumFlow = 1000"

record gestioneFileLog =
  mf_flowId :: u32
  mf_srcPort :: u32
  mf_destPort :: u32
  mf_destAddr :: string
  mf_srcAddr :: string
  mf_name :: "u32 \<times> string \<times> string"
  mf_lines :: "info list"

definition in_file :: "info \<Rightarrow> gestioneFileLog \<Rightarrow> bool" where
  "in_file i m \<longleftrightarrow> mf_flowId m = flowId i \<and> mf_srcAddr m = srcAddr i \<and> mf_destAddr m = destAddr i \<and>
     mf_srcPort m = srcPort i \<and> mf_destPort m = destPort i"

definition FlowPresent :: "info \<Rightarrow> gestioneFileLog list \<Rightarrow> nat option" where
  "FlowPresent i memFile = scan (in_file i) memFile"

definition split_record :: "info \<Rightarrow> gestioneFileLog list \<Rightarrow> gestioneFileLog list option" where
  "split_record i memFile = (case FlowPresent i memFile of
       Some z \<Rightarrow> Some (memFile[z := (memFile ! z)\<lparr>mf_lines := mf_lines (memFile ! z) @ [i]\<rparr>])
     | None \<Rightarrow> (let name = (flowId i, srcAddr i, destAddr i) in
         if length memFile = MaxNumFlow \<or> name \<in> mf_name ` set memFile then None
         else Some (memFile @ [\<lparr>mf_flowId = flowId i, mf_srcPort = srcPort i, mf_destPort = destPort i,
           mf_destAddr = destAddr i, mf_srcAddr = srcAddr i, mf_name = name, mf_lines = [i]\<rparr>])))"

fun split_log :: "info list \<Rightarrow> gestioneFileLog list \<Rightarrow> gestioneFileLog list option" where
  "split_log [] memFile = Some memFile"
| "split_log (i # is) memFile = (case split_record i memFile of None \<Rightarrow> None | Some m \<Rightarrow> split_log is m)"

subsection \<open>The intervals\<close>

text \<open>One series of a flow: the number of closed intervals, the start of the open one, what has been added
  up since, and the rows written.  The steps that the four series share; early says that an interval
  ends before the flow's first packet.\<close>

type_synonym row = "rat \<times> quotient"

record 'b series =
  intclosed :: u64
  secinit :: rat
  acc :: 'b
  rows :: "row list"

definition row_time :: "rat \<Rightarrow> u64 \<Rightarrow> rat" where
  "row_time ms c = rnd (rnd (dbl c * ms) / 1000)"

definition early :: "rat \<Rightarrow> rat \<Rightarrow> rat \<Rightarrow> u64 \<Rightarrow> bool" where
  "early ms gl first c \<longleftrightarrow> rnd (rnd (rnd (dbl (c + 1) * ms) / 1000) + gl) < first"

text \<open>The delay series computes the same bound in another order.\<close>

definition early_del :: "rat \<Rightarrow> rat \<Rightarrow> rat \<Rightarrow> u64 \<Rightarrow> bool" where
  "early_del ms gl first c \<longleftrightarrow> rnd (rnd (dbl (c + 1) * rnd (ms / 1000)) + gl) < first"

definition inttoclose :: "rat \<Rightarrow> rat \<Rightarrow> rat \<Rightarrow> u64 \<Rightarrow> u64" where
  "inttoclose ms gl rx c =
     (let temporary = rnd (rnd (deltatime gl rx * 1000) / ms)
      in of_int \<lfloor>rnd (rnd (of_int \<lceil>temporary\<rceil> - dbl c) - 1)\<rfloor>)"

fun close_loop :: "nat \<Rightarrow> rat \<Rightarrow> (u64 \<Rightarrow> bool) \<Rightarrow> ('b \<Rightarrow> quotient \<times> 'b) \<Rightarrow> 'b series \<Rightarrow> 'b series" where
  "close_loop 0 ms before close s = s"
| "close_loop (Suc n) ms before close s =
     (let (v, b) = (if before (intclosed s) then (Fin 0, acc s) else close (acc s))
      in close_loop n ms before close (s\<lparr>intclosed := intclosed s + 1, acc := b,
           rows := rows s @ [(row_time ms (intclosed s), v)]\<rparr>))"

definition series_packet ::
  "rat \<Rightarrow> rat \<Rightarrow> (u64 \<Rightarrow> bool) \<Rightarrow> ('b \<Rightarrow> quotient \<times> 'b) \<Rightarrow> (info \<Rightarrow> 'b \<Rightarrow> 'b) \<Rightarrow> info \<Rightarrow> 'b series \<Rightarrow> 'b series" where
  "series_packet ms gl before close add i s =
     (let rx = secrxTime i;
          s1 = (if rnd (rx - secinit s) > rnd (ms / 1000)
                then (let t = close_loop (unat (inttoclose ms gl rx (intclosed s))) ms before close s
                  in t\<lparr>secinit := rnd (rnd (rnd (dbl (intclosed t) * ms) / 1000) + gl)\<rparr>)
                else s)
      in s1\<lparr>acc := add i (acc s1)\<rparr>)"

text \<open>A whole file: the first record sets the start, the end of the file writes the last row.\<close>

definition series_file ::
  "rat \<Rightarrow> rat \<Rightarrow> (rat \<Rightarrow> u64 \<Rightarrow> bool) \<Rightarrow> ('b \<Rightarrow> quotient \<times> 'b) \<Rightarrow> (info \<Rightarrow> 'b \<Rightarrow> 'b) \<Rightarrow> ('b \<Rightarrow> quotient) \<Rightarrow> 'b \<Rightarrow>
     info list \<Rightarrow> row list" where
  "series_file ms gl before close add final b0 is =
     (let first = (case is of [] \<Rightarrow> 90000 | i # _ \<Rightarrow> secrxTime i);
          s = fold (series_packet ms gl (before first) close add) is
                \<lparr>intclosed = 0, secinit = gl, acc = b0, rows = []\<rparr>
      in rows s @ [(row_time ms (intclosed s), final (acc s))])"

subsection \<open>The four series\<close>

definition current_delay :: "info \<Rightarrow> rat" where
  "current_delay i = deltatime (sectxTime i) (secrxTime i)"

text \<open>Bit rate: tempbitrate.\<close>

definition bit_value :: "rat \<Rightarrow> rat \<Rightarrow> quotient" where
  "bit_value ms temp = fdiv (rnd (temp * 8)) ms"

definition bit_close :: "rat \<Rightarrow> rat \<Rightarrow> quotient \<times> rat" where
  "bit_close ms temp = (bit_value ms temp, 0)"

definition bit_add :: "info \<Rightarrow> rat \<Rightarrow> rat" where
  "bit_add i temp = rnd (temp + dbl (size i))"

definition bit_file :: "rat \<Rightarrow> rat \<Rightarrow> info list \<Rightarrow> row list" where
  "bit_file ms gl = series_file ms gl (early ms gl) (bit_close ms) bit_add (bit_value ms) 0"

text \<open>Jitter: tempjitter, pktjitter and lastdelay.\<close>

definition jit_value :: "rat \<times> u64 \<times> rat \<Rightarrow> quotient" where
  "jit_value = (\<lambda>(temp, n, last). fdiv temp (dbl (n - 1)))"

definition jit_close :: "rat \<times> u64 \<times> rat \<Rightarrow> quotient \<times> rat \<times> u64 \<times> rat" where
  "jit_close = (\<lambda>(temp, n, last).
     if n > 1 then (jit_value (temp, n, last), 0, 1, last) else (Fin 0, 0, n, last))"

definition jit_add :: "info \<Rightarrow> rat \<times> u64 \<times> rat \<Rightarrow> rat \<times> u64 \<times> rat" where
  "jit_add i = (\<lambda>(temp, n, last).
     (rnd (temp + \<bar>rnd (current_delay i - last)\<bar>), n + 1, current_delay i))"

definition jit_file :: "rat \<Rightarrow> rat \<Rightarrow> info list \<Rightarrow> row list" where
  "jit_file ms gl is = series_file ms gl (early ms gl) jit_close jit_add jit_value
     (0, 0, case is of [] \<Rightarrow> 0 | i # _ \<Rightarrow> current_delay i) is"

text \<open>Delay: tempdelay and pktdelay.\<close>

definition del_value :: "rat \<times> u64 \<Rightarrow> quotient" where
  "del_value = (\<lambda>(temp, n). fdiv temp (dbl n))"

definition del_close :: "rat \<times> u64 \<Rightarrow> quotient \<times> rat \<times> u64" where
  "del_close = (\<lambda>(temp, n). if n > 0 then (del_value (temp, n), 0, 0) else (Fin 0, temp, n))"

definition del_add :: "info \<Rightarrow> rat \<times> u64 \<Rightarrow> rat \<times> u64" where
  "del_add i = (\<lambda>(temp, n). (rnd (temp + current_delay i), n + 1))"

definition del_file :: "rat \<Rightarrow> rat \<Rightarrow> info list \<Rightarrow> row list" where
  "del_file ms gl = series_file ms gl (early_del ms gl) del_close del_add del_value (0, 0)"

text \<open>Packet loss: temppktloss, pktpktloss and totalpktloss.\<close>

definition pkt_value :: "u64 \<times> u64 \<times> u64 \<Rightarrow> quotient" where
  "pkt_value = (\<lambda>(temp, n, total). Fin (of_int (uint temp)))"

definition pkt_close :: "u64 \<times> u64 \<times> u64 \<Rightarrow> quotient \<times> u64 \<times> u64 \<times> u64" where
  "pkt_close = (\<lambda>(temp, n, total). (pkt_value (temp, n, total), 0, n, total))"

definition pkt_add :: "info \<Rightarrow> u64 \<times> u64 \<times> u64 \<Rightarrow> u64 \<times> u64 \<times> u64" where
  "pkt_add i = (\<lambda>(temp, n, total). let n' = n + 1; seq = ucast (seqNum i) in
     if seq > n' + total then (temp + seq - n' - total, n', seq - n') else (temp, n', total))"

definition pkt_file :: "rat \<Rightarrow> rat \<Rightarrow> info list \<Rightarrow> row list" where
  "pkt_file ms gl = series_file ms gl (early ms gl) pkt_close pkt_add pkt_value (0, 0, 0)"

subsection \<open>merge\<close>

text \<open>A value as it is read back from its six decimals, and the sum of two values.\<close>

definition lf :: "rat \<Rightarrow> rat" where
  "lf x = rnd (of_int (round_even (x * 1000000)) / 1000000)"

fun lf_value :: "quotient \<Rightarrow> quotient" where
  "lf_value (Fin x) = Fin (lf x)"
| "lf_value q = q"

fun qadd :: "quotient \<Rightarrow> quotient \<Rightarrow> quotient" where
  "qadd (Fin x) (Fin y) = Fin (rnd (x + y))"
| "qadd NaN y = NaN"
| "qadd x NaN = NaN"
| "qadd Inf y = Inf"
| "qadd x Inf = Inf"

record merge_line =
  ml_time :: "rat option"
  ml_values :: "quotient list"
  ml_sum :: quotient
  finishedfiles :: nat
  flagbreak :: nat

definition merge_read :: "row list \<Rightarrow> merge_line \<Rightarrow> merge_line" where
  "merge_read file l = (case file of
       [] \<Rightarrow> l\<lparr>flagbreak := flagbreak l + 1, finishedfiles := finishedfiles l + 1\<rparr>
     | (time, value) # _ \<Rightarrow> l\<lparr>
         ml_sum := qadd (ml_sum l) (lf_value value),
         ml_time := (if ml_time l = None then Some (lf time) else ml_time l),
         ml_values := ml_values l @ replicate (finishedfiles l) (Fin 0) @ [lf_value value],
         finishedfiles := 0\<rparr>)"

definition merge_row :: "row list list \<Rightarrow> merge_line" where
  "merge_row files =
     (let l = fold merge_read files
            \<lparr>ml_time = None, ml_values = [], ml_sum = Fin 0, finishedfiles = 0, flagbreak = 0\<rparr>
      in l\<lparr>ml_values := ml_values l @ replicate (finishedfiles l) (Fin 0), finishedfiles := 0\<rparr>)"

text \<open>The loop ends when as many files as there are flows are at their end; fuel bounds the rows.\<close>

fun merge :: "nat \<Rightarrow> nat \<Rightarrow> row list list \<Rightarrow> merge_line list option" where
  "merge 0 flownum files = None"
| "merge (Suc fuel) flownum files =
     (let l = merge_row files
      in if flagbreak l = flownum then Some []
         else map_option ((#) l) (merge fuel flownum (map tl files)))"

text \<open>mergeCombined adds up each of the four values over the flows; a missing value counts as -1.\<close>

record combined_line =
  cl_time :: "rat option"
  valuesum_bit :: quotient
  valuesum_del :: quotient
  valuesum_jit :: quotient
  valuesum_pkt :: quotient
  cl_break :: nat

definition head_value :: "row list \<Rightarrow> quotient" where
  "head_value file = (case file of [] \<Rightarrow> Fin (- 1) | (_, v) # _ \<Rightarrow> lf_value v)"

definition combined_read :: "row list \<times> row list \<times> row list \<times> row list \<Rightarrow> combined_line \<Rightarrow> combined_line" where
  "combined_read = (\<lambda>(bit, del, jit, pkt) l. case bit of
       [] \<Rightarrow> l\<lparr>cl_break := cl_break l + 1\<rparr>
     | (time, v) # _ \<Rightarrow> l\<lparr>
         cl_time := (if cl_time l = None then Some (lf time) else cl_time l),
         valuesum_bit := qadd (valuesum_bit l) (lf_value v),
         valuesum_del := qadd (valuesum_del l) (head_value del),
         valuesum_jit := qadd (valuesum_jit l) (head_value jit),
         valuesum_pkt := qadd (valuesum_pkt l) (head_value pkt)\<rparr>)"

definition combined_tl :: "row list \<times> row list \<times> row list \<times> row list \<Rightarrow> row list \<times> row list \<times> row list \<times> row list" where
  "combined_tl = (\<lambda>(bit, del, jit, pkt). if bit = [] then (bit, del, jit, pkt) else (tl bit, tl del, tl jit, tl pkt))"

fun mergeCombined :: "nat \<Rightarrow> nat \<Rightarrow> (row list \<times> row list \<times> row list \<times> row list) list \<Rightarrow> combined_line list option" where
  "mergeCombined 0 flownum files = None"
| "mergeCombined (Suc fuel) flownum files =
     (let l = fold combined_read files \<lparr>cl_time = None, valuesum_bit = Fin 0, valuesum_del = Fin 0,
            valuesum_jit = Fin 0, valuesum_pkt = Fin 0, cl_break = 0\<rparr>
      in if cl_break l = flownum then Some []
         else map_option ((#) l) (mergeCombined fuel flownum (map combined_tl files)))"

end
