(* ===== verification/Series_Facts.thy ===== *)
theory Series_Facts
  imports DecoderSeries Decoder_Facts
begin

text \<open>The rows of a time series cut the records of a flow into consecutive groups, one per row, and every
  row tells about its own group.  The interface interval_series says what a series has to provide:
  an accumulator that represents the open group, given the records before it.\<close>

subsection \<open>The interface of a series\<close>

locale interval_series =
  fixes ms :: rat and close :: "'b \<Rightarrow> quotient \<times> 'b" and add :: "info \<Rightarrow> 'b \<Rightarrow> 'b" and final :: "'b \<Rightarrow> quotient" and b0 :: 'b
    and rep :: "info list \<Rightarrow> info list \<Rightarrow> 'b \<Rightarrow> bool"
    and val :: "info list \<Rightarrow> info list \<Rightarrow> quotient" and fin :: "info list \<Rightarrow> info list \<Rightarrow> quotient"
  assumes rep_init: "rep [] [] b0"
    and rep_add: "rep h g b \<Longrightarrow> rep h (g @ [i]) (add i b)"
    and rep_close: "0 < ms \<Longrightarrow> length (h @ g) < 2 ^ 64 \<Longrightarrow> rep h g b \<Longrightarrow> fst (close b) = val h g \<and> rep (h @ g) [] (snd (close b))"
    and val_empty: "0 < ms \<Longrightarrow> val h [] = Fin 0"
    and rep_final: "rep h g b \<Longrightarrow> final b = fin h g"
begin

definition group_rows :: "info list list \<Rightarrow> row list" where
  "group_rows gs = map (\<lambda>k. (row_time ms (of_nat k), val (concat (take k gs)) (gs ! k))) [0..<length gs]"

lemma group_rows_snoc [simp]:
  "group_rows (gs @ [g]) = group_rows gs @ [(row_time ms (of_nat (length gs)), val (concat gs) g)]"
  by (simp add: group_rows_def nth_append)

lemma length_group_rows [simp]: "length (group_rows gs) = length gs" by (simp add: group_rows_def)

definition in_groups :: "info list list \<Rightarrow> info list \<Rightarrow> 'b series \<Rightarrow> bool" where
  "in_groups gs g s \<longleftrightarrow> intclosed s = of_nat (length gs) \<and> rows s = group_rows gs \<and> rep (concat gs) g (acc s)"

lemma close_loop_groups:
  "0 < ms \<Longrightarrow> length (concat gs @ g) < 2 ^ 64 \<Longrightarrow> in_groups gs g s \<Longrightarrow> \<exists>gs' g'. in_groups gs' g' (close_loop n ms before close s) \<and>
     concat gs' @ g' = concat gs @ g"
proof (induction n arbitrary: gs g s)
  case 0
  then show ?case by auto
next
  case (Suc n)
  note i = Suc.prems(3)[unfolded in_groups_def]
  show ?case
  proof (cases "before (intclosed s)")
    case True
    let ?s = "s\<lparr>intclosed := intclosed s + 1, acc := acc s, rows := rows s @ [(row_time ms (intclosed s), Fin 0)]\<rparr>"
    have "in_groups (gs @ [[]]) g ?s" using i Suc.prems(1) by (simp add: in_groups_def val_empty add.commute)
    from Suc.IH[OF Suc.prems(1) _ this] show ?thesis using True Suc.prems(2) by simp
  next
    case False
    let ?s = "s\<lparr>intclosed := intclosed s + 1, acc := snd (close (acc s)),
      rows := rows s @ [(row_time ms (intclosed s), fst (close (acc s)))]\<rparr>"
    have "in_groups (gs @ [g]) [] ?s" using i rep_close Suc.prems(1,2) by (simp add: in_groups_def add.commute)
    from Suc.IH[OF Suc.prems(1) _ this] show ?thesis using False Suc.prems(2) by (simp add: case_prod_beta)
  qed
qed

lemma series_packet_groups:
  assumes "0 < ms" "length (concat gs @ g) < 2 ^ 64" "in_groups gs g s"
  shows "\<exists>gs' g'. in_groups gs' g' (series_packet ms gl before close add i s) \<and> concat gs' @ g' = concat gs @ g @ [i] \<and>
    g' \<noteq> []"
proof -
  have "\<exists>s1 gs' g'. series_packet ms gl before close add i s = s1\<lparr>acc := add i (acc s1)\<rparr> \<and> in_groups gs' g' s1 \<and>
      concat gs' @ g' = concat gs @ g"
  proof (cases "rnd (secrxTime i - secinit s) > rnd (ms / 1000)")
    case True
    define t where "t = close_loop (unat (inttoclose ms gl (secrxTime i) (intclosed s))) ms before close s"
    from close_loop_groups[OF assms, of "unat (inttoclose ms gl (secrxTime i) (intclosed s))" before, folded t_def]
    obtain gs' g' where "in_groups gs' g' t" "concat gs' @ g' = concat gs @ g" by blast
    then show ?thesis using True
      by (intro exI[of _ "t\<lparr>secinit := rnd (rnd (rnd (dbl (intclosed t) * ms) / 1000) + gl)\<rparr>"] exI[of _ gs'] exI[of _ g'])
        (simp add: series_packet_def Let_def t_def[symmetric] in_groups_def)
  next
    case False
    then show ?thesis using assms(3)
      by (intro exI[of _ s] exI[of _ gs] exI[of _ g]) (simp add: series_packet_def Let_def)
  qed
  then obtain s1 gs' g' where "series_packet ms gl before close add i s = s1\<lparr>acc := add i (acc s1)\<rparr>"
    "in_groups gs' g' s1" "concat gs' @ g' = concat gs @ g" by blast
  then show ?thesis by (intro exI[of _ gs'] exI[of _ "g' @ [i]"]) (simp add: in_groups_def rep_add flip: append_assoc)
qed

lemma series_groups:
  assumes "0 < ms" "length is < 2 ^ 64"
  shows "\<exists>gs g. concat gs @ g = is \<and> (is = [] \<or> g \<noteq> []) \<and>
     series_file ms gl before close add final b0 is =
       group_rows gs @ [(row_time ms (of_nat (length gs)), fin (concat gs) g)]"
proof -
  let ?first = "case is of [] \<Rightarrow> 90000 | i # _ \<Rightarrow> secrxTime i"
  let ?s0 = "\<lparr>intclosed = 0, secinit = gl, acc = b0, rows = []\<rparr>"
  have "\<exists>gs g. in_groups gs g (fold (series_packet ms gl (before f) close add) is ?s0) \<and> concat gs @ g = is \<and>
      (is = [] \<or> g \<noteq> [])" for f
    using assms(2)
  proof (induction "is" rule: rev_induct)
    case Nil
    show ?case by (intro exI[of _ "[]"]) (simp add: in_groups_def group_rows_def rep_init)
  next
    case (snoc i "is")
    then obtain gs g where g: "in_groups gs g (fold (series_packet ms gl (before f) close add) is ?s0)" "concat gs @ g = is"
      by auto
    have "length (concat gs @ g) < 2 ^ 64" using snoc.prems g(2) by simp
    from series_packet_groups[OF assms(1) this g(1), of gl "before f" i] g(2) show ?case by (simp flip: append_assoc)
  qed
  then obtain gs g where g: "in_groups gs g (fold (series_packet ms gl (before ?first) close add) is ?s0)" "concat gs @ g = is"
    "is = [] \<or> g \<noteq> []" by blast
  then show ?thesis by (intro exI[of _ gs] exI[of _ g]) (simp add: series_file_def Let_def in_groups_def rep_final)
qed

text \<open>The rows as one list: row k tells about group k, the last one about the open group.\<close>

lemma series_rows:
  fixes gl before
  assumes "0 < ms" "length is < 2 ^ 64"
  defines "f \<equiv> series_file ms gl before close add final b0 is"
  shows "\<exists>gs. concat gs = is \<and> length gs = length f \<and> f \<noteq> [] \<and> (is = [] \<or> last gs \<noteq> []) \<and>
     (\<forall>k < length f. f ! k = (row_time ms (of_nat k),
        (if k + 1 < length f then val else fin) (concat (take k gs)) (gs ! k)))"
proof -
  from series_groups[OF assms(1,2), of gl before] obtain gs g where g: "concat gs @ g = is" "is = [] \<or> g \<noteq> []"
    "f = group_rows gs @ [(row_time ms (of_nat (length gs)), fin (concat gs) g)]" unfolding f_def by blast
  have "f ! k = (row_time ms (of_nat k), (if k + 1 < length f then val else fin) (concat (take k (gs @ [g]))) ((gs @ [g]) ! k))"
    if "k < length f" for k
    using that by (cases "k < length gs") (auto simp: g(3) nth_append group_rows_def less_Suc_eq)
  then show ?thesis using g by (intro exI[of _ "gs @ [g]"]) simp
qed

end

subsection \<open>Bit rate\<close>

definition sizes :: "info list \<Rightarrow> rat list" where
  "sizes g = map (\<lambda>i. of_int (uint (size i))) g"

lemma rnd_0 [simp]: "rnd 0 = 0" by (simp add: rnd_def)

interpretation bit: interval_series ms "bit_close ms" bit_add "bit_value ms" 0
  "\<lambda>h g b. b = fl_sum 0 (sizes g)" "\<lambda>h g. bit_value ms (fl_sum 0 (sizes g))" "\<lambda>h g. bit_value ms (fl_sum 0 (sizes g))"
  for ms
  by unfold_locales (simp_all add: sizes_def bit_add_def bit_close_def bit_value_def fdiv_def)

lemma fl_sum_sizes:
  assumes "(\<Sum>i\<leftarrow>g. uint (size i)) < 2 ^ 53"
  shows "fl_sum 0 (sizes g) = of_int (\<Sum>i\<leftarrow>g. uint (size i))"
  using fl_sum_int[of "map (\<lambda>i. uint (size i)) g" 0] assms by (simp add: sizes_def comp_def)

subsection \<open>Delay\<close>

definition del_mean :: "info list \<Rightarrow> quotient" where
  "del_mean g = fdiv (fl_sum 0 (map packet_delay g)) (rnd (of_nat (length g)))"

lemma dbl_of_nat: "n < 2 ^ 64 \<Longrightarrow> dbl (of_nat n :: u64) = rnd (of_nat n)"
  by (simp add: dbl_def uint_nat unat_of_nat)

lemma of_nat_u64_pos: "n < 2 ^ 64 \<Longrightarrow> (0 < (of_nat n :: u64)) = (0 < n)"
  by (simp add: word_less_nat_alt unat_of_nat)

interpretation del: interval_series ms del_close del_add del_value "(0, 0)"
  "\<lambda>h g b. b = (fl_sum 0 (map packet_delay g), of_nat (length g))"
  "\<lambda>h g. if g = [] then Fin 0 else del_mean g"
  "\<lambda>h g. del_value (fl_sum 0 (map packet_delay g), of_nat (length g))"
  for ms
  by unfold_locales
    (auto simp: del_add_def del_close_def del_value_def current_delay_def packet_delay_def del_mean_def
      dbl_of_nat of_nat_u64_pos split: prod.splits)

subsection \<open>Packet loss\<close>

definition lost :: "info list \<Rightarrow> u64" where
  "lost is = snd (snd (fold pkt_add is (0, 0, 0)))"

lemma pkt_count: "fst (snd (fold pkt_add is (0, 0, 0))) = of_nat (length is)"
  by (induction "is" rule: rev_induct)
    (auto simp: pkt_add_def Let_def case_prod_beta add.commute)

lemma lost_snoc:
  "lost (is @ [i]) = (if ucast (seqNum i) > of_nat (length is) + 1 + lost is
     then ucast (seqNum i) - (of_nat (length is) + 1) else lost is)"
  using pkt_count[of "is"] by (auto simp: lost_def pkt_add_def Let_def case_prod_beta)

interpretation pkt: interval_series ms pkt_close pkt_add pkt_value "(0, 0, 0)"
  "\<lambda>h g b. b = (lost (h @ g) - lost h, of_nat (length (h @ g)), lost (h @ g))"
  "\<lambda>h g. Fin (of_int (uint (lost (h @ g) - lost h)))" "\<lambda>h g. Fin (of_int (uint (lost (h @ g) - lost h)))"
  for ms
proof (unfold_locales, goal_cases)
  case 1
  show ?case by (simp add: lost_def)
next
  case (2 h g b i)
  then show ?case using lost_snoc[of "h @ g" i]
    by (auto simp: pkt_add_def Let_def algebra_simps)
qed (simp_all add: pkt_close_def pkt_value_def)

text \<open>The largest lead of a sequence number over the count of the packets.\<close>

fun excess :: "nat \<Rightarrow> nat list \<Rightarrow> nat" where
  "excess n [] = 0"
| "excess n (q # qs) = max (q - (n + 1)) (excess (n + 1) qs)"

lemma excess_append: "excess n (ps @ qs) = max (excess n ps) (excess (n + length ps) qs)"
  by (induction ps arbitrary: n) (simp_all add: max.assoc)

lemma excess_less: "\<forall>q \<in> set qs. q < 2 ^ 32 \<Longrightarrow> excess n qs < 2 ^ 32"
  by (induction qs arbitrary: n) auto

lemma unat_nat64: "n < 2 ^ 64 \<Longrightarrow> unat (of_nat n :: u64) = n"
  by (simp add: unat_of_nat)

lemma seqs_bound: "\<forall>q \<in> set (seqs is). q < 2 ^ 32"
proof -
  have "unat w < 2 ^ 32" for w :: u32 using unsigned_less[of w, where 'a = nat] by simp
  then show ?thesis by (simp add: seqs_def)
qed

lemma unat_u64_u32: "unat (ucast w :: u64) = unat (w :: u32)"
proof -
  have "unat w < 2 ^ 64" using unsigned_less[of w, where 'a = nat] by simp
  then show ?thesis unfolding ucast_of_unat[OF refl, of w] by (rule unat_nat64)
qed

lemma unat_lost:
  assumes "length is < 2 ^ 32"
  shows "unat (lost is) = excess 0 (seqs is)"
  using assms
proof (induction "is" rule: rev_induct)
  case Nil
  show ?case by (simp add: lost_def seqs_def)
next
  case (snoc i "is")
  let ?n = "length is" and ?q = "unat (seqNum i)"
  have e: "excess 0 (seqs is) < 2 ^ 32"
    by (rule excess_less[OF seqs_bound])
  have IH: "unat (lost is) = excess 0 (seqs is)" using snoc by simp
  have n: "unat (of_nat ?n + 1 :: u64) = ?n + 1"
    using snoc.prems unat_nat64[of "Suc ?n"] by (simp only: of_nat_Suc add.commute[of 1]) simp
  have s: "unat (of_nat ?n + 1 + lost is) = ?n + 1 + excess 0 (seqs is)"
    using n IH e snoc.prems by (subst unat_add_lem[THEN iffD1]) simp_all
  have q: "unat (ucast (seqNum i) :: u64) = ?q" by (rule unat_u64_u32)
  have l: "ucast (seqNum i) > of_nat ?n + 1 + lost is \<longleftrightarrow> ?q > ?n + 1 + excess 0 (seqs is)"
    unfolding word_less_nat_alt s q by simp
  have d: "unat (ucast (seqNum i) - (of_nat ?n + 1) :: u64) = ?q - (?n + 1)" if "?q > ?n + 1"
    using that n q by (subst unat_sub) (simp_all add: word_le_nat_alt)
  have "excess 0 (seqs (is @ [i])) = max (excess 0 (seqs is)) (?q - (?n + 1))"
    by (simp add: seqs_def excess_append)
  then show ?case using l d IH unfolding lost_snoc by (auto simp: max_def)
qed

subsection \<open>Jitter\<close>

text \<open>The differences between the delays of neighbouring packets, the first one against p.\<close>

fun jitters :: "rat \<Rightarrow> info list \<Rightarrow> rat list" where
  "jitters p [] = []"
| "jitters p (i # is) = \<bar>rnd (packet_delay i - p)\<bar> # jitters (packet_delay i) is"

definition prev :: "rat \<Rightarrow> info list \<Rightarrow> rat" where
  "prev l h = last (l # map packet_delay h)"

lemma prev_simps [simp]: "prev l [] = l" "prev l (h @ [i]) = packet_delay i" "prev l (i # is) = prev (packet_delay i) is"
  by (simp_all add: prev_def)

lemma jitters_snoc: "jitters p (g @ [i]) = jitters p g @ [\<bar>rnd (packet_delay i - prev p g)\<bar>]"
  by (induction g arbitrary: p) simp_all

lemma prev_append: "prev l (h @ g) = prev (prev l h) g"
  by (induction h arbitrary: l) simp_all

text \<open>Each group but the first has one difference per packet; the first has one less.\<close>

definition jit_count :: "info list \<Rightarrow> info list \<Rightarrow> nat" where
  "jit_count h g = length g - (if h = [] then 1 else 0)"

definition jit_sum :: "rat \<Rightarrow> info list \<Rightarrow> info list \<Rightarrow> rat" where
  "jit_sum l h g = fl_sum 0 (jitters (prev l h) g)"

definition jit_mean :: "rat \<Rightarrow> info list \<Rightarrow> info list \<Rightarrow> quotient" where
  "jit_mean l h g = (if jit_count h g = 0 then Fin 0 else fdiv (jit_sum l h g) (rnd (of_nat (jit_count h g))))"

definition jit_packets :: "info list \<Rightarrow> info list \<Rightarrow> nat" where
  "jit_packets h g = (if h = [] then length g else length g + 1)"

lemma jit_close_mean:
  assumes "length (h @ g) < 2 ^ 64" "n = (of_nat (jit_packets h g) :: u64)"
  shows "fst (jit_close (jit_sum l h g, n, p)) = jit_mean l h g"
    and "snd (jit_close (jit_sum l h g, n, p)) = (0, of_nat (jit_packets (h @ g) []), p)"
proof -
  have b: "jit_packets h g < 2 ^ 64" using assms(1) by (cases h) (simp_all add: jit_packets_def)
  have u: "unat n = jit_packets h g" using unat_nat64[OF b] assms(2) by simp
  have g: "n > 1 \<longleftrightarrow> jit_packets h g > 1" by (simp add: word_less_nat_alt u)
  have c: "jit_count h g = jit_packets h g - 1" by (simp add: jit_count_def jit_packets_def)
  show "fst (jit_close (jit_sum l h g, n, p)) = jit_mean l h g"
  proof (cases "jit_packets h g > 1")
    case True
    then have "n - 1 = of_nat (jit_count h g)" using assms(2) by (simp add: c of_nat_diff)
    moreover have "jit_count h g < 2 ^ 64" using b c by simp
    ultimately have "dbl (n - 1) = rnd (of_nat (jit_count h g))" by (simp only: dbl_of_nat)
    moreover have "n > 1" "jit_count h g \<noteq> 0" using True g c by simp_all
    ultimately show ?thesis by (simp add: jit_close_def jit_value_def jit_mean_def)
  next
    case False
    then show ?thesis using g c by (simp add: jit_close_def jit_mean_def)
  qed
  show "snd (jit_close (jit_sum l h g, n, p)) = (0, of_nat (jit_packets (h @ g) []), p)"
    using g assms(2) by (cases h; cases g) (auto simp: jit_close_def jit_packets_def)
qed

lemma jit_sum_empty: "jit_sum l h [] = 0" by (simp add: jit_sum_def)

interpretation jit: interval_series ms jit_close jit_add jit_value "(0, 0, l)"
  "\<lambda>h g b. b = (jit_sum l h g, of_nat (jit_packets h g), prev l (h @ g))"
  "jit_mean l" "\<lambda>h g. jit_value (jit_sum l h g, of_nat (jit_packets h g), prev l (h @ g))"
  for ms l
proof (unfold_locales, goal_cases)
  case 1
  show ?case by (simp add: jit_sum_def jit_packets_def)
next
  case (2 h g b i)
  have "prev l (h @ g) = prev (prev l h) g" by (rule prev_append)
  moreover have "prev l (h @ g @ [i]) = packet_delay i" using prev_simps(2)[of l "h @ g" i] by simp
  ultimately show ?case using 2
    by (simp add: jit_add_def jit_sum_def jit_packets_def jitters_snoc current_delay_def packet_delay_def add.commute)
next
  case (3 h g b)
  then show ?case using jit_close_mean[OF 3(2) refl] by (simp add: jit_sum_empty)
next
  case (4 h)
  show ?case by (simp add: jit_mean_def jit_count_def)
qed simp

end
