(* ===== verification/Series_Log.thy ===== *)
theory Series_Log
  imports Series_Facts Decoder_Log
begin

text \<open>What the time series of ITGDec tell: the bit rates, mean delays, mean jitters and losses of consecutive
  groups of packets, and how the rows of several flows come together.\<close>

subsection \<open>The series of a flow\<close>

text \<open>C23: the bit rate series accounts for every byte once.  The records of a flow fall into consecutive
  groups, one per row, and row k carries the time k * BT and the bit rate 8 * bytes / BT of its
  group.\<close>

theorem bitrate_rows:
  assumes "0 < ms" "length rs < 2 ^ 64" "(\<Sum>i\<leftarrow>rs. uint (size i)) < 2 ^ 53"
  shows "\<exists>gs. concat gs = rs \<and> length gs = length (bit_file ms gl rs) \<and>
    (\<forall>k < length gs. bit_file ms gl rs ! k =
      (row_time ms (of_nat k), fdiv (rnd (of_int (\<Sum>i\<leftarrow>gs ! k. uint (size i)) * 8)) ms))"
proof -
  from bit.series_rows[OF assms(1,2), of gl "early ms gl", folded bit_file_def] obtain gs where
    gs: "concat gs = rs" "length gs = length (bit_file ms gl rs)"
    "\<And>k. k < length (bit_file ms gl rs) \<Longrightarrow> bit_file ms gl rs ! k =
      (row_time ms (of_nat k), bit_value ms (fl_sum 0 (sizes (gs ! k))))" by auto
  have "(\<Sum>i\<leftarrow>gs ! k. uint (size i)) < 2 ^ 53" if "k < length gs" for k
  proof -
    have "rs = concat (take k gs) @ gs ! k @ concat (drop (Suc k) gs)"
      using gs(1) id_take_nth_drop[OF that] by (metis concat.simps(2) concat_append)
    moreover have "0 \<le> (\<Sum>i\<leftarrow>concat (take k gs). uint (size i))" "0 \<le> (\<Sum>i\<leftarrow>concat (drop (Suc k) gs). uint (size i))"
      by (intro sum_list_nonneg, fastforce)+
    ultimately show ?thesis using assms(3) by simp
  qed
  then show ?thesis using gs by (intro exI[of _ gs]) (simp add: bit_value_def fl_sum_sizes)
qed

text \<open>A row of the delay series is the mean delay of its group, and 0 for a group without packets.\<close>

lemma delay_rows:
  assumes "0 < ms" "length rs < 2 ^ 64" "rs \<noteq> []"
  shows "\<exists>gs. concat gs = rs \<and> length gs = length (del_file ms gl rs) \<and>
    (\<forall>k < length gs. del_file ms gl rs ! k =
      (row_time ms (of_nat k), if gs ! k = [] then Fin 0 else del_mean (gs ! k)))"
proof -
  from del.series_rows[OF assms(1,2), of gl "early_del ms gl", folded del_file_def] assms(3) obtain gs where
    gs: "concat gs = rs" "length gs = length (del_file ms gl rs)" "del_file ms gl rs \<noteq> []" "last gs \<noteq> []"
    and r: "\<And>k. k < length (del_file ms gl rs) \<Longrightarrow> del_file ms gl rs ! k =
      (row_time ms (of_nat k), (if k + 1 < length (del_file ms gl rs) then (\<lambda>h g. if g = [] then Fin 0 else del_mean g)
        else (\<lambda>h g. del_value (fl_sum 0 (map packet_delay g), of_nat (length g)))) (concat (take k gs)) (gs ! k))"
    by auto
  have "length (gs ! k) < 2 ^ 64" if "k < length gs" for k
    using sum_list_update[of k "map length gs"] member_le_sum_list[of "length (gs ! k)" "map length gs"] that assms(2) gs(1)
    by (auto simp: length_concat)
  then have v: "del_value (fl_sum 0 (map packet_delay (gs ! k)), of_nat (length (gs ! k))) = del_mean (gs ! k)"
    if "k < length gs" for k using that by (simp add: del_value_def del_mean_def dbl_of_nat)
  have "gs ! k \<noteq> []" if "k < length gs" "\<not> k + 1 < length gs" for k
  proof -
    have "k = length gs - 1" using that by simp
    moreover have "gs \<noteq> []" using gs(2,3) by auto
    ultimately show ?thesis using gs(4) last_conv_nth[of gs] by simp
  qed
  then show ?thesis using gs r v by (intro exI[of _ gs]) auto
qed

text \<open>A row of the jitter series is the mean of the differences between the delays of neighbouring
  packets of its group, the first of them against the packet before the group.\<close>

lemma jitter_rows:
  assumes "0 < ms" "length rs < 2 ^ 64" "rs \<noteq> []"
  shows "\<exists>gs. concat gs = rs \<and> length gs = length (jit_file ms gl rs) \<and>
    (\<forall>k. k + 1 < length gs \<longrightarrow> jit_file ms gl rs ! k =
      (row_time ms (of_nat k), jit_mean (packet_delay (hd rs)) (concat (take k gs)) (gs ! k)))"
proof -
  let ?l = "case rs of [] \<Rightarrow> 0 | i # _ \<Rightarrow> current_delay i"
  have l: "?l = packet_delay (hd rs)" using assms(3) by (cases rs) (simp_all add: current_delay_def packet_delay_def)
  from jit.series_rows[OF assms(1,2), of gl "early ms gl" ?l, folded jit_file_def] show ?thesis
    using assms(3) unfolding l by auto
qed

subsection \<open>Losses\<close>

definition total_value :: "row list \<Rightarrow> rat" where
  "total_value rl = (\<Sum>r\<leftarrow>rl. case snd r of Fin x \<Rightarrow> x | _ \<Rightarrow> 0)"

lemma excess_mono: "excess n qs \<le> excess n (qs @ ps)" by (simp add: excess_append)

lemma uint_lost_diff:
  assumes "length (h @ g) < 2 ^ 32"
  shows "uint (lost (h @ g) - lost h) = int (excess 0 (seqs (h @ g))) - int (excess 0 (seqs h))"
proof -
  have l: "unat (lost (h @ g)) = excess 0 (seqs (h @ g))" "unat (lost h) = excess 0 (seqs h)"
    using unat_lost[of "h @ g"] unat_lost[of h] assms by simp_all
  have "excess 0 (seqs h) \<le> excess 0 (seqs (h @ g))" by (simp add: seqs_def excess_append)
  then have "lost h \<le> lost (h @ g)" by (simp add: word_le_nat_alt l)
  then have "unat (lost (h @ g) - lost h) = unat (lost (h @ g)) - unat (lost h)" by (rule unat_sub)
  with \<open>excess 0 (seqs h) \<le> _\<close> show ?thesis by (simp add: uint_nat l)
qed

lemma total_lost:
  assumes "length (concat gs) < 2 ^ 32" "length rl = length gs"
    and "\<And>k. k < length gs \<Longrightarrow> snd (rl ! k) = Fin (of_int (uint (lost (concat (take k gs) @ gs ! k) - lost (concat (take k gs)))))"
  shows "total_value rl = of_nat (excess 0 (seqs (concat gs)))"
  using assms
proof (induction gs arbitrary: rl rule: rev_induct)
  case Nil
  then show ?case by (simp add: total_value_def seqs_def)
next
  case (snoc g gs)
  from snoc.prems(2) obtain rs r where r: "rl = rs @ [r]" "length rs = length gs"
    by (cases rl rule: rev_cases) simp_all
  have "snd (rs ! k) = Fin (of_int (uint (lost (concat (take k gs) @ gs ! k) - lost (concat (take k gs)))))"
    if "k < length gs" for k using snoc.prems(3)[of k] that r by (simp add: nth_append)
  then have "total_value rs = of_nat (excess 0 (seqs (concat gs)))"
    using snoc.prems(1) r by (intro snoc.IH) simp_all
  moreover have "snd r = Fin (of_int (uint (lost (concat gs @ g) - lost (concat gs))))"
    using snoc.prems(3)[of "length gs"] r by (simp add: nth_append)
  moreover have "length (concat gs @ g) < 2 ^ 32" using snoc.prems(1) by simp
  then have "(of_int (uint (lost (concat gs @ g) - lost (concat gs))) :: rat) =
      of_nat (excess 0 (seqs (concat gs @ g))) - of_nat (excess 0 (seqs (concat gs)))"
    by (simp only: uint_lost_diff of_int_diff of_int_of_nat_eq)
  ultimately show ?case by (simp only: r total_value_def) simp
qed

text \<open>In a flow whose packets arrive in order the lead over the count is the number of missing packets.\<close>

lemma excess_in_order:
  assumes "sorted_wrt (<) qs" "qs \<noteq> []" "n < hd qs"
  shows "excess n qs = last qs - (n + length qs)"
  using assms
proof (induction qs arbitrary: n rule: rev_induct)
  case (snoc q qs)
  show ?case
  proof (cases "qs = []")
    case False
    then have "excess n qs = last qs - (n + length qs)" using snoc by (simp add: sorted_wrt_append)
    moreover have "last qs < q" using snoc.prems(1) False by (simp add: sorted_wrt_append)
    ultimately show ?thesis by (simp add: excess_append)
  qed simp
qed simp

text \<open>C30: the losses of the series and of the summary agree.  For a flow whose packets arrived in the order
  of their sequence numbers, counted from 1, the values of the packet loss series add up to the
  number of sequence numbers that never arrived.\<close>

theorem loss_rows_total:
  assumes "0 < ms" "length rs < 2 ^ 32" "rs \<noteq> []" "sorted_wrt (<) (seqs rs)" "0 \<notin> set (seqs rs)"
  shows "total_value (pkt_file ms gl rs) = of_nat (card (missing rs))"
proof -
  have "length rs < 2 ^ 64" using assms(2) by simp
  from pkt.series_rows[OF assms(1) this, of gl "early ms gl", folded pkt_file_def] obtain gs where
    gs: "concat gs = rs" "length gs = length (pkt_file ms gl rs)"
    "\<And>k. k < length gs \<Longrightarrow> snd (pkt_file ms gl rs ! k) =
      Fin (of_int (uint (lost (concat (take k gs) @ gs ! k) - lost (concat (take k gs)))))" by auto
  have t: "total_value (pkt_file ms gl rs) = of_nat (excess 0 (seqs rs))"
    using total_lost[of gs "pkt_file ms gl rs"] gs assms(2) by simp
  let ?ns = "seqs rs"
  have ne: "?ns \<noteq> []" using assms(3) by (simp add: seqs_def)
  have d: "distinct ?ns" using assms(4) by (simp add: strict_sorted_iff)
  have "0 < hd ?ns" using ne assms(5) by (cases ?ns) auto
  then have e: "excess 0 ?ns = last ?ns - length ?ns" using excess_in_order[OF assms(4) ne] by simp
  have mx: "Max (set ?ns) = last ?ns"
  proof (rule Max_eqI)
    show "last ?ns \<in> set ?ns" using ne by (rule last_in_set)
    fix n assume "n \<in> set ?ns"
    then obtain k where "k < length ?ns" "n = ?ns ! k" by (auto simp: in_set_conv_nth)
    then show "n \<le> last ?ns"
      using assms(4) ne by (simp add: strict_sorted_iff last_conv_nth sorted_nth_mono)
  qed simp
  have "set ?ns \<subseteq> {1..last ?ns}"
  proof
    fix n assume n: "n \<in> set ?ns"
    then have "n \<le> last ?ns" using mx Max_ge[of "set ?ns" n] by simp
    moreover have "n \<noteq> 0" using n assms(5) by metis
    ultimately show "n \<in> {1..last ?ns}" by simp
  qed
  then have "card (missing rs) = last ?ns - length ?ns"
    using card_Diff_subset[of "set ?ns" "{1..last ?ns}"] distinct_card[OF d] by (simp add: missing_def mx)
  then show ?thesis using t e by simp
qed

subsection \<open>The rows of the four series\<close>

text \<open>How many rows there are, and their times, does not depend on what is added up.\<close>

definition shape :: "'b series \<Rightarrow> u64 \<times> rat \<times> rat list" where
  "shape s = (intclosed s, secinit s, map fst (rows s))"

lemma close_loop_shape:
  "shape s = shape t \<Longrightarrow> shape (close_loop n ms before close s) = shape (close_loop n ms before' close' t)"
proof (induction n arbitrary: s t)
  case (Suc n)
  have "shape (close_loop (Suc n) ms before close s) =
      shape (close_loop n ms before close (s\<lparr>intclosed := intclosed s + 1,
        acc := snd (if before (intclosed s) then (Fin 0, acc s) else close (acc s)),
        rows := rows s @ [(row_time ms (intclosed s), fst (if before (intclosed s) then (Fin 0, acc s) else close (acc s)))]\<rparr>))"
    by (simp add: case_prod_beta)
  also have "\<dots> = shape (close_loop n ms before' close' (t\<lparr>intclosed := intclosed t + 1,
        acc := snd (if before' (intclosed t) then (Fin 0, acc t) else close' (acc t)),
        rows := rows t @ [(row_time ms (intclosed t), fst (if before' (intclosed t) then (Fin 0, acc t) else close' (acc t)))]\<rparr>))"
    using Suc.prems by (intro Suc.IH) (simp add: shape_def)
  also have "\<dots> = shape (close_loop (Suc n) ms before' close' t)" by (simp add: case_prod_beta)
  finally show ?case .
qed simp

lemma series_packet_shape:
  assumes "shape s = shape t"
  shows "shape (series_packet ms gl before close add i s) = shape (series_packet ms gl before' close' add' i t)"
proof (cases "rnd (secrxTime i - secinit s) > rnd (ms / 1000)")
  case True
  let ?n = "unat (inttoclose ms gl (secrxTime i) (intclosed s))"
  have "shape (close_loop ?n ms before close s) = shape (close_loop ?n ms before' close' t)"
    using assms by (rule close_loop_shape)
  then show ?thesis using True assms by (simp add: series_packet_def Let_def shape_def)
next
  case False
  then show ?thesis using assms by (simp add: series_packet_def Let_def shape_def)
qed

lemma series_file_times:
  "map fst (series_file ms gl before close add final b0 rs) = map fst (series_file ms gl before' close' add' final' b0' rs)"
proof -
  have "shape (fold (series_packet ms gl (before f) close add) rs \<lparr>intclosed = 0, secinit = gl, acc = b0, rows = []\<rparr>) =
      shape (fold (series_packet ms gl (before' f) close' add') rs \<lparr>intclosed = 0, secinit = gl, acc = b0', rows = []\<rparr>)" for f
    by (induction rs rule: rev_induct) (simp add: shape_def, simp add: series_packet_shape)
  from this[of "case rs of [] \<Rightarrow> 90000 | i # _ \<Rightarrow> secrxTime i"] show ?thesis
    by (simp add: series_file_def Let_def shape_def)
qed

text \<open>The four series of a flow have the same rows in time, so that mergeCombined never reads beyond the
  end of one of them.\<close>

lemma series_aligned:
  "map fst (bit_file ms gl rs) = map fst (jit_file ms gl rs) \<and>
   map fst (bit_file ms gl rs) = map fst (del_file ms gl rs) \<and>
   map fst (bit_file ms gl rs) = map fst (pkt_file ms gl rs)"
  unfolding bit_file_def jit_file_def del_file_def pkt_file_def by (intro conjI series_file_times)

subsection \<open>Putting the flows side by side\<close>

definition column :: "nat \<Rightarrow> row list \<Rightarrow> quotient" where
  "column k f = (if k < length f then lf_value (snd (f ! k)) else Fin 0)"

definition column_sum :: "nat \<Rightarrow> row list list \<Rightarrow> quotient" where
  "column_sum k files = fold (\<lambda>f s. if k < length f then qadd s (lf_value (snd (f ! k))) else s) files (Fin 0)"

lemma merge_read_fold:
  "ml_values (fold merge_read files l) @ replicate (finishedfiles (fold merge_read files l)) (Fin 0) =
     ml_values l @ replicate (finishedfiles l) (Fin 0) @ map (column 0) files"
  "ml_sum (fold merge_read files l) = fold (\<lambda>f s. if 0 < length f then qadd s (lf_value (snd (f ! 0))) else s) files (ml_sum l)"
  "flagbreak (fold merge_read files l) = flagbreak l + length (filter (\<lambda>f. f = []) files)"
proof (induction files arbitrary: l)
  case (Cons f fs)
  { case 1
    have "replicate (Suc n) (Fin 0) @ xs = replicate n (Fin 0) @ Fin 0 # xs" for n xs
      by (metis append_Cons replicate_append_same replicate_Suc append_assoc append_Nil)
    then show ?case using Cons(1) by (cases f) (auto simp: merge_read_def column_def)
  next
    case 2
    show ?case using Cons(2) by (cases f) (auto simp: merge_read_def)
  next
    case 3
    show ?case using Cons(3) by (cases f) (auto simp: merge_read_def)
  }
qed simp_all

lemma merge_row_columns:
  "ml_values (merge_row files) = map (column 0) files" "ml_sum (merge_row files) = column_sum 0 files"
  "flagbreak (merge_row files) = length (filter (\<lambda>f. f = []) files)"
  by (simp_all add: merge_row_def Let_def merge_read_fold column_sum_def)

lemma column_tl: "column k (tl f) = column (Suc k) f"
  by (cases f) (simp_all add: column_def)

lemma column_sum_tl: "column_sum k (map tl files) = column_sum (Suc k) files"
  by (auto simp: column_sum_def fold_map comp_def nth_tl less_diff_conv intro!: fold_cong)

text \<open>The number of rows of the longest file.\<close>

definition longest :: "row list list \<Rightarrow> nat" where
  "longest files = foldr (\<lambda>f n. max (length f) n) files 0"

lemma longest_tl: "longest (map tl files) = longest files - 1"
  by (induction files) (auto simp: longest_def)

lemma longest_0: "longest files = 0 \<longleftrightarrow> length (filter (\<lambda>f. f = []) files) = length files"
proof -
  have "longest files = 0 \<longleftrightarrow> (\<forall>f \<in> set files. f = [])" by (induction files) (auto simp: longest_def)
  moreover have "length (filter (\<lambda>f. f = []) files) = length files \<longleftrightarrow> (\<forall>f \<in> set files. f = [])"
    using length_filter_less[of _ files "\<lambda>f. f = []"] filter_True[of files "\<lambda>f. f = []"] by (metis less_irrefl)
  ultimately show ?thesis by simp
qed

text \<open>Merge returns and keeps the columns apart.  Given more fuel than the longest file has rows it
  writes one line per row of the longest file; line k holds, for every flow in order, the flow's
  value of row k, or 0 for a flow whose file is at its end, and the sum of the values read.\<close>

lemma merge_columns:
  assumes "longest files < fuel"
  shows "\<exists>ls. merge fuel (length files) files = Some ls \<and> length ls = longest files \<and>
    (\<forall>k < length ls. ml_values (ls ! k) = map (column k) files \<and> ml_sum (ls ! k) = column_sum k files)"
  using assms
proof (induction fuel arbitrary: files)
  case (Suc fuel)
  show ?case
  proof (cases "longest files = 0")
    case True
    then show ?thesis by (simp add: Let_def merge_row_columns longest_0)
  next
    case False
    have "longest (map tl files) < fuel" using Suc.prems False by (simp add: longest_tl)
    from Suc.IH[OF this] obtain ls where ls: "merge fuel (length files) (map tl files) = Some ls"
      "length ls = longest files - 1"
      "\<And>k. k < length ls \<Longrightarrow> ml_values (ls ! k) = map (column (Suc k)) files \<and> ml_sum (ls ! k) = column_sum (Suc k) files"
      by (auto simp: longest_tl column_tl column_sum_tl comp_def)
    have "merge (Suc fuel) (length files) files = Some (merge_row files # ls)"
      using False ls(1) by (simp add: Let_def merge_row_columns longest_0)
    moreover have "ml_values ((merge_row files # ls) ! k) = map (column k) files \<and>
        ml_sum ((merge_row files # ls) ! k) = column_sum k files" if "k < Suc (length ls)" for k
      using that ls(3) by (cases k) (simp_all add: merge_row_columns)
    ultimately show ?thesis using False ls(2) by (intro exI[of _ "merge_row files # ls"]) simp
  qed
qed simp

subsection \<open>One file per flow\<close>

definition mkey :: "gestioneFileLog \<Rightarrow> flow_key" where
  "mkey m = (mf_flowId m, mf_srcAddr m, mf_destAddr m, mf_srcPort m, mf_destPort m)"

lemma in_file_key: "in_file i m \<longleftrightarrow> mkey m = ikey i"
  by (auto simp: in_file_def mkey_def ikey_def)

definition key_name :: "flow_key \<Rightarrow> u32 \<times> string \<times> string" where
  "key_name = (\<lambda>(fid, src, dst, sp, dp). (fid, src, dst))"

definition files_of :: "info list \<Rightarrow> gestioneFileLog list \<Rightarrow> bool" where
  "files_of p ms \<longleftrightarrow> distinct (map mkey ms) \<and> mkey ` set ms = ikey ` set p \<and>
     (\<forall>m \<in> set ms. mf_lines m = of_flow (mkey m) p \<and> mf_name m = key_name (mkey m))"

text \<open>A log that split can sort: at most 1000 flows, no two of which differ in their ports only.\<close>

definition splittable :: "info list \<Rightarrow> bool" where
  "splittable p \<longleftrightarrow> card (ikey ` set p) \<le> MaxNumFlow \<and> inj_on key_name (ikey ` set p)"

lemma split_record_files:
  assumes "files_of p ms" "splittable (p @ [i])"
  shows "\<exists>ms'. split_record i ms = Some ms' \<and> files_of (p @ [i]) ms'"
proof (cases "FlowPresent i ms")
  case (Some z)
  then have z: "z < length ms" "mkey (ms ! z) = ikey i"
    using scan_Some[of "in_file i" ms z] by (simp_all add: FlowPresent_def in_file_key)
  let ?m = "(ms ! z)\<lparr>mf_lines := mf_lines (ms ! z) @ [i]\<rparr>"
  have k: "mkey ?m = ikey i" using z by (simp add: mkey_def)
  have mk: "map mkey (ms[z := ?m]) = map mkey ms" using z k by (simp add: map_update list_update_same_conv)
  have upd: "m = ?m \<or> m \<in> set ms \<and> mkey m \<noteq> ikey i" if m: "m \<in> set (ms[z := ?m])" for m
  proof -
    obtain j where j: "j < length ms" "m = ms[z := ?m] ! j" using m by (auto simp: in_set_conv_nth)
    show ?thesis
    proof (cases "j = z")
      case False
      have "distinct (map mkey ms)" using assms(1) by (simp add: files_of_def)
      from nth_eq_iff_index_eq[OF this, of j z] False have "mkey (ms ! j) \<noteq> mkey (ms ! z)"
        using j z by simp
      then show ?thesis using j z False by simp
    qed (use j z in simp)
  qed
  have new: "mf_lines ?m = of_flow (ikey i) (p @ [i])" "mf_name ?m = key_name (ikey i)"
    using assms(1) z nth_mem[OF z(1)] by (simp_all add: files_of_def of_flow_def)
  have "mf_lines m = of_flow (mkey m) (p @ [i]) \<and> mf_name m = key_name (mkey m)"
    if "m \<in> set (ms[z := ?m])" for m
  proof (cases "m = ?m")
    case False
    with upd[OF that] have "m \<in> set ms" "mkey m \<noteq> ikey i" by blast+
    then show ?thesis using assms(1) by (simp add: files_of_def of_flow_def)
  qed (use k new in simp)
  moreover have "mkey ` set (ms[z := ?m]) = ikey ` set (p @ [i])"
  proof -
    have "mkey ` set (ms[z := ?m]) = mkey ` set ms" by (metis mk set_map)
    moreover have "ikey i \<in> mkey ` set ms" using z nth_mem by force
    ultimately show ?thesis using assms(1) by (auto simp: files_of_def)
  qed
  moreover have "distinct (map mkey (ms[z := ?m]))" using assms(1) unfolding mk files_of_def by blast
  ultimately have "files_of (p @ [i]) (ms[z := ?m])" unfolding files_of_def by blast
  then show ?thesis using Some by (simp add: split_record_def)
next
  case None
  then have new: "ikey i \<notin> mkey ` set ms" by (auto simp: FlowPresent_def scan_None in_file_key)
  let ?m = "\<lparr>mf_flowId = flowId i, mf_srcPort = srcPort i, mf_destPort = destPort i,
     mf_destAddr = destAddr i, mf_srcAddr = srcAddr i, mf_name = (flowId i, srcAddr i, destAddr i), mf_lines = [i]\<rparr>"
  have k: "mkey ?m = ikey i" "mf_name ?m = key_name (ikey i)" by (simp_all add: mkey_def ikey_def key_name_def)
  have sub: "mkey ` set ms \<subset> ikey ` set (p @ [i])" using assms(1) new by (auto simp: files_of_def)
  have "length ms = card (mkey ` set ms)" using assms(1) distinct_card[of "map mkey ms"] by (simp add: files_of_def)
  then have "length ms < MaxNumFlow" using psubset_card_mono[OF _ sub] assms(2) by (simp add: splittable_def)
  moreover have "(flowId i, srcAddr i, destAddr i) \<notin> mf_name ` set ms"
  proof
    assume "(flowId i, srcAddr i, destAddr i) \<in> mf_name ` set ms"
    then obtain m where m: "m \<in> set ms" "key_name (mkey m) = key_name (ikey i)"
      using assms(1) k by (auto simp: files_of_def)
    then have "mkey m = ikey i" using assms sub
      by (intro inj_onD[of key_name "ikey ` set (p @ [i])"]) (auto simp: splittable_def)
    then show False using m new by (metis imageI)
  qed
  moreover have "files_of (p @ [i]) (ms @ [?m])"
  proof -
    have "ikey i \<notin> ikey ` set p" using assms(1) new by (simp add: files_of_def)
    then have "of_flow (ikey i) p = []" unfolding of_flow_def filter_empty_conv by (metis imageI)
    then show ?thesis using assms(1) new k by (auto simp: files_of_def of_flow_def)
  qed
  ultimately show ?thesis using None by (simp add: split_record_def Let_def)
qed

lemma split_log_files:
  assumes "files_of p ms" "splittable (p @ rs)"
  shows "\<exists>ms'. split_log rs ms = Some ms' \<and> files_of (p @ rs) ms'"
  using assms
proof (induction rs arbitrary: p ms)
  case (Cons i rs)
  have sub: "ikey ` set (p @ [i]) \<subseteq> ikey ` set (p @ i # rs)" by auto
  have "splittable (p @ [i])" unfolding splittable_def
    using Cons.prems(2) card_mono[OF _ sub] inj_on_subset[OF _ sub] by (force simp: splittable_def simp del: set_append)
  from split_record_files[OF Cons.prems(1) this] obtain m where m: "split_record i ms = Some m" "files_of (p @ [i]) m"
    by blast
  then show ?case using Cons.IH[OF m(2)] Cons.prems(2) by simp
qed simp

text \<open>Split sorts a log by flows: for at most 1000 flows, no two of which differ in their ports only,
  there is exactly one file per flow, and it holds the records of its flow in their order.\<close>

lemma split_sorts:
  assumes "splittable rs"
  shows "\<exists>ms. split_log rs [] = Some ms \<and> distinct (map mkey ms) \<and> mkey ` set ms = ikey ` set rs \<and>
    (\<forall>m \<in> set ms. mf_lines m = of_flow (mkey m) rs)"
  using split_log_files[of "[]" "[]" rs] assms by (auto simp: files_of_def)

subsection \<open>Witnesses\<close>

text \<open>Three packets of a flow, of which packet 3 is lost, in intervals of one second.\<close>

definition series_demo :: "info list" where
  "series_demo = [info0\<lparr>seqNum := 1, size := 100\<rparr>, info0\<lparr>seqNum := 2, size := 50\<rparr>, info0\<lparr>seqNum := 4, size := 6\<rparr>]"

theorem bitrate_rows_witness:
  "\<exists>gs. concat gs = series_demo \<and> length gs = length (bit_file 1000 0 series_demo) \<and>
    (\<forall>k < length gs. bit_file 1000 0 series_demo ! k =
      (row_time 1000 (of_nat k), fdiv (rnd (of_int (\<Sum>i\<leftarrow>gs ! k. uint (size i)) * 8)) 1000))"
  by (rule bitrate_rows) (simp_all add: series_demo_def)

lemma delay_rows_example:
  "\<exists>gs. concat gs = series_demo \<and> length gs = length (del_file 1000 0 series_demo) \<and>
    (\<forall>k < length gs. del_file 1000 0 series_demo ! k =
      (row_time 1000 (of_nat k), if gs ! k = [] then Fin 0 else del_mean (gs ! k)))"
  by (rule delay_rows) (simp_all add: series_demo_def)

lemma jitter_rows_witness:
  "\<exists>gs. concat gs = series_demo \<and> length gs = length (jit_file 1000 0 series_demo) \<and>
    (\<forall>k. k + 1 < length gs \<longrightarrow> jit_file 1000 0 series_demo ! k =
      (row_time 1000 (of_nat k), jit_mean (packet_delay (hd series_demo)) (concat (take k gs)) (gs ! k)))"
  by (rule jitter_rows) (simp_all add: series_demo_def)

theorem loss_rows_total_witness: "total_value (pkt_file 1000 0 series_demo) = 1"
proof -
  have q: "seqs series_demo = [1, 2, 4]" by (simp add: seqs_def series_demo_def)
  have "missing series_demo = {3}" unfolding missing_def q by (auto simp: numeral_eq_Suc)
  then show ?thesis using loss_rows_total[of 1000 series_demo 0] q by (simp add: series_demo_def)
qed

lemma merge_columns_example:
  "\<exists>ls. merge 3 2 [[(0, Fin 1), (1, Fin 2)], [(0, Fin 4)]] = Some ls \<and> length ls = 2 \<and>
    ml_values (ls ! 1) = [Fin (lf 2), Fin 0]"
proof -
  have "longest [[(0, Fin 1), (1, Fin 2)], [(0, Fin 4)]] = 2" by (simp add: longest_def)
  then obtain ls where "merge 3 2 [[(0, Fin 1), (1, Fin 2)], [(0, Fin 4)]] = Some ls" "length ls = 2"
    "ml_values (ls ! 1) = map (column 1) [[(0, Fin 1), (1, Fin 2)], [(0, Fin 4)]]"
    using merge_columns[of "[[(0, Fin 1), (1, Fin 2)], [(0, Fin 4)]]" 3] by (auto simp: numeral_2_eq_2)
  then show ?thesis by (auto simp: column_def)
qed

lemma split_sorts_example:
  "\<exists>ms. split_log dec_demo [] = Some ms \<and> mkey ` set ms = {(1, [], [], 0, 0), (2, [], [], 0, 0)}"
proof -
  have k: "ikey ` set dec_demo = {(1, [], [], 0, 0), (2, [], [], 0, 0)}"
    by (auto simp: dec_demo_def ikey_def info0_def)
  then have "splittable dec_demo" by (auto simp: splittable_def MaxNumFlow_def inj_on_def key_name_def)
  from split_sorts[OF this] k show ?thesis by auto
qed

end
