(* ===== verification/FlowSender.thy ===== *)
theory FlowSender
  imports SendManager PacketRecv Proto
begin

text \<open>flowSender of src/ITGSend/ITGSend.cpp, the thread that generates the packets of a flow: what
  it writes into a packet, the log of the packets sent, the waiting between two packets, the
  packets that come back when round trip times are measured, and the end of the flow.  The
  random sizes and times come from the vendored library newran and are parameters of the flow;
  the local variables of the thread are the record snd_loc.  The build is the default one: with
  BURSTY, without SCTP and DCCP.\<close>

definition METER_OWDM :: u8 where "METER_OWDM = 1"
definition S_METER_RTTM :: u8 where "S_METER_RTTM = 2"
definition S_L7_TELNET :: u8 where "S_L7_TELNET = 1"
definition L7_DNS :: u8 where "L7_DNS = 3"
definition DefaultDuration :: u64 where "DefaultDuration = 10000"
definition rttmDelay :: int where "rttmDelay = 15"
definition MAX_POLL :: rat where "MAX_POLL = 1"

subsection \<open>State\<close>

text \<open>The fields of flowDescriptor that only the sending thread reads; the two functions give the
  n-th value drawn for the size of a packet and for the time to the next one.\<close>

record send_flow = flow_desc +
  f_icmptype :: int
  f_Duration :: u64
  f_TTL :: int
  f_Nagle :: bool
  f_iface :: "string option"
  f_srcPortSpecify :: bool
  f_serial :: int
  f_minPayloadSize :: int
  f_payloadBuffer :: bytes
  f_mean_adjustment :: int
  f_vectSize :: "u32 list"
  f_vectTime :: "rat list"
  f_numPacket :: u32
  f_KBToSend :: u64
  f_pollingMode :: bool
  f_Delay :: u64
  f_PktSize :: "nat \<Rightarrow> int"
  f_IntArriv :: "nat \<Rightarrow> rat"
  f_bursty :: bool
  f_OnPeriod :: "nat \<Rightarrow> rat"
  f_OffPeriod :: "nat \<Rightarrow> rat"

record sender_state = send_state +
  termsock :: bool
  s_buffer_size :: u16
  isFirstThread :: int
  isFirstThreadRttm :: int
  RifTime :: "int \<times> int"

record snd_loc =
  s_sock :: int
  s_payload :: bytes
  indexBuffer :: nat
  s_size :: int
  size_r :: int
  s_seqNum :: u32
  sockchk :: int
  recvPkts :: u32
  s_infos :: "info list"
  s_count :: nat
  indexVectSize :: nat
  indexVectTime :: nat
  drawnSizes :: nat
  drawnTimes :: nat
  OnDuration :: rat
  drawnOns :: nat
  drawnOffs :: nat
  byteSent :: u64
  tick_count :: rat
  lastTime :: "int \<times> int"
  end_time :: "int \<times> int"
  minSize :: int
  srcName :: string
  dstName :: string
  portSrc :: u16
  portDst :: u16

subsection \<open>What a packet holds\<close>

definition put_at :: "nat \<Rightarrow> bytes \<Rightarrow> bytes \<Rightarrow> bytes" where
  "put_at off bs buf = take off buf @ bs @ drop (off + length bs) buf"

text \<open>TCP packets with a preamble carry their size.\<close>

definition has_size :: "'f send_flow_scheme \<Rightarrow> bool" where
  "has_size f \<longleftrightarrow> f_l4Proto f = L4_TCP \<and> f_payloadLogType f \<noteq> PL_NONE"

definition ptrSize :: "'f send_flow_scheme \<Rightarrow> nat" where
  "ptrSize f = (if f_payloadLogType f = PL_STANDARD then 16 else 8)"

definition ptrToTruePayload :: "'f send_flow_scheme \<Rightarrow> nat" where
  "ptrToTruePayload f = (if f_payloadLogType f = PL_STANDARD then 16
     else if f_payloadLogType f = PL_SHORT then 8 else 0) + (if has_size f then 4 else 0)"

text \<open>The id goes into the buffer once, before the first packet.\<close>

definition put_id :: "int \<Rightarrow> 'f send_flow_scheme \<Rightarrow> bytes \<Rightarrow> bytes" where
  "put_id fid f buf = (if f_payloadLogType f \<noteq> PL_NONE
     then put_at 0 (u32_mem (htonl (of_int fid))) buf else buf)"

definition put_header :: "'f send_flow_scheme \<Rightarrow> snd_loc \<Rightarrow> bytes \<Rightarrow> bytes" where
  "put_header f l buf =
     (let time = fst (lastTime l) smod 86400;
          buf1 = (if f_payloadLogType f = PL_STANDARD
                  then put_at 12 (u32_mem (htonl (of_int (snd (lastTime l)))))
                         (put_at 8 (u32_mem (htonl (of_int time)))
                           (put_at 4 (u32_mem (htonl (s_seqNum l))) buf))
                  else if f_payloadLogType f = PL_SHORT
                  then put_at 4 (u32_mem (htonl (s_seqNum l))) buf else buf)
      in if has_size f then put_at (ptrSize f) (u32_mem (htonl (of_int (s_size l)))) buf1 else buf1)"

text \<open>With -Fp the payload comes from a file, as many bytes as the packet holds; at the end of the
  file the rest is zeroed.  None is a copy with a negative length or beyond the buffer.\<close>

definition copy_payload :: "'f send_flow_scheme \<Rightarrow> snd_loc \<Rightarrow> snd_loc option" where
  "copy_payload f l =
     (let dim = length (f_payloadBuffer f); off = ptrToTruePayload f; i = indexBuffer l in
      if dim = 0 then Some l
      else if s_size l < int off then None
      else
        let n = nat (s_size l) - off in
        if i + n \<le> dim then
          Some (l\<lparr>s_payload := put_at off (take n (drop i (f_payloadBuffer f))) (s_payload l),
                  indexBuffer := (if i + n = dim then 0 else i + n)\<rparr>)
        else
          let m = dim - i in
          if off + nat (s_size l) > MAX_PAYLOAD_SIZE then None
          else Some (l\<lparr>s_payload := put_at off
                        (drop i (f_payloadBuffer f) @ replicate (nat (s_size l) - m) 0) (s_payload l),
                       indexBuffer := 0\<rparr>))"

text \<open>The three kinds of message: the ICMP header has a checksum over the whole message; the
  identifier and the sequence number of the IPv4 one are not set.\<close>

definition icmp_message :: "bytes \<Rightarrow> int \<Rightarrow> bytes \<Rightarrow> bytes" where
  "icmp_message old type data =
     (let pre = [of_int type, 0]; post = old @ data
      in pre @ u16_mem (checksum (pre @ [0, 0] @ post)) @ post)"

definition wire_packet :: "os \<Rightarrow> call list \<Rightarrow> 'f send_flow_scheme \<Rightarrow> bytes \<Rightarrow> bytes option" where
  "wire_packet os h f data =
     (if f_l4Proto f = L4_ICMP \<and> f_meter f = METER_OWDM
      then (if ai_family (f_DestHost f) = PF_INET then Some (icmp_message (junk os h 4) (f_icmptype f) data)
            else if ai_family (f_DestHost f) = PF_INET6 then Some (icmp_message [] (f_icmptype f) data)
            else None)
      else Some data)"

text \<open>The size of the next packet, from the file of sizes or drawn, within the limits.\<close>

definition limit_size :: "int \<Rightarrow> int \<Rightarrow> int" where
  "limit_size least sz =
     (if sz > int MAX_PAYLOAD_SIZE then int MAX_PAYLOAD_SIZE else if sz < least then least else sz)"

definition next_size :: "'f send_flow_scheme \<Rightarrow> snd_loc \<Rightarrow> snd_loc" where
  "next_size f l =
     (if f_vectSize f = [] then
        l\<lparr>s_size := limit_size (minSize l) (f_PktSize f (drawnSizes l)), drawnSizes := drawnSizes l + 1\<rparr>
      else
        l\<lparr>s_size := limit_size (minSize l) (sint (f_vectSize f ! indexVectSize l)),
          indexVectSize := (indexVectSize l + 1) mod length (f_vectSize f)\<rparr>)"

definition next_time :: "'f send_flow_scheme \<Rightarrow> snd_loc \<Rightarrow> (rat \<times> snd_loc) option" where
  "next_time f l =
     (if f_vectTime f = [] then Some (f_IntArriv f (drawnTimes l), l\<lparr>drawnTimes := drawnTimes l + 1\<rparr>)
      else if indexVectTime l < length (f_vectTime f) then
        Some (f_vectTime f ! indexVectTime l,
              l\<lparr>indexVectTime := (indexVectTime l + 1) mod length (f_vectTime f)\<rparr>)
      else None)"

subsection \<open>The log of the packets\<close>

definition s_time_now :: "os \<Rightarrow> ('a world_scheme, int \<times> int) proc" where
  "s_time_now os = (\<lambda>s. (Ret (os_time os (GetTime # hist s)), log_call GetTime s))"

definition s_sockname :: "os \<Rightarrow> int \<Rightarrow> ('a world_scheme, sockaddr) proc" where
  "s_sockname os sock = (\<lambda>s. (Ret (os_from os (GetSockName sock # hist s)), log_call (GetSockName sock) s))"

definition s_peername :: "os \<Rightarrow> int \<Rightarrow> ('a world_scheme, sockaddr) proc" where
  "s_peername os sock = (\<lambda>s. (Ret (os_from os (GetPeerName sock # hist s)), log_call (GetPeerName sock) s))"

text \<open>The addresses of the records: those of the socket and of its peer when the first packet is
  logged.\<close>

definition own_addresses :: "os \<Rightarrow> snd_loc \<Rightarrow> ('a world_scheme, snd_loc) proc" where
  "own_addresses os l = (bnd (s_sockname os (s_sock l)) (\<lambda>a.
   bnd (s_peername os (s_sock l)) (\<lambda>b.
   ret (l\<lparr>portSrc := GET_PORT a (portSrc l), srcName := os_name os a,
            portDst := GET_PORT b (portDst l), dstName := os_name os b\<rparr>))))"

text \<open>A record goes into the buffer, for a remote log in network order; a full buffer is flushed.\<close>

definition buffer_bytes :: "os \<Rightarrow> snd_loc \<Rightarrow> bytes" where
  "buffer_bytes os l = concat (map (os_image os) (take (s_count l) (s_infos l)))"

definition s_log_record :: "os \<Rightarrow> (info \<Rightarrow> info) \<Rightarrow> snd_loc \<Rightarrow> ('a sender_state_scheme, snd_loc) proc" where
  "s_log_record os fill l = (bnd (gets id) (\<lambda>s.
   if s_count l \<ge> length (s_infos l) then fault
     else
       let r = fill (s_infos l ! s_count l);
           r' = (if logremoto s = 0 then r else infosHostToNet r);
           l' = l\<lparr>s_infos := (s_infos l)[s_count l := r'], s_count := s_count l + 1\<rparr>
       in if s_count l' = unat (s_buffer_size s)
          then (thn (s_flushBuffer os (buffer_bytes os l'))
           (ret (l'\<lparr>s_count := 0\<rparr>)))
          else ret l'))"

text \<open>The record of a packet that was sent: its two times are the same, and a telnet packet is
  logged, and from here on counted, as 20 bytes smaller.\<close>

definition log_sent :: "os \<Rightarrow> int \<Rightarrow> 'f send_flow_scheme \<Rightarrow> snd_loc \<Rightarrow> ('a sender_state_scheme, snd_loc) proc" where
  "log_sent os fid f l = (bnd ((if s_seqNum l = 1 then own_addresses os l else ret l)) (\<lambda>l1.
   (let size = (if f_l7Proto f = S_L7_TELNET then s_size l1 - 20 else s_size l1);
          time = fst (lastTime l1) smod 86400
      in s_log_record os (\<lambda>i. writeInBufferStandard i (htonl (of_int fid)) (htonl (s_seqNum l1))
           (srcName l1) (dstName l1) (portSrc l1) (portDst l1) time time
           (snd (lastTime l1)) (snd (lastTime l1)) (of_int size)) (l1\<lparr>s_size := size\<rparr>))))"

subsection \<open>Sending a packet\<close>

definition serial_toggle :: "'f send_flow_scheme \<Rightarrow> ('a world_scheme, unit) proc" where
  "serial_toggle f = cond (f_serial f \<noteq> -1) (sys0 (SerialToggle (f_serial f)))"

definition transmit :: "os \<Rightarrow> 'f send_flow_scheme \<Rightarrow> snd_loc \<Rightarrow> ('a world_scheme, snd_loc) proc" where
  "transmit os f l = (bnd (gets hist) (\<lambda>h.
   case wire_packet os h f (take (nat (s_size l)) (s_payload l)) of
       None \<Rightarrow> ret l
     | Some bs \<Rightarrow> (bnd (sys os (Send (s_sock l) bs)) (\<lambda>r.
      ret (l\<lparr>sockchk := r\<rparr>)))))"

text \<open>From the header of a packet to its record.\<close>

definition send_packet :: "os \<Rightarrow> int \<Rightarrow> 'f send_flow_scheme \<Rightarrow> snd_loc \<Rightarrow> ('a sender_state_scheme, snd_loc) proc" where
  "send_packet os fid f l =
     (case copy_payload f (l\<lparr>s_payload := put_header f l (s_payload l)\<rparr>) of
        None \<Rightarrow> fault
      | Some l1 \<Rightarrow> (bnd (transmit os f l1) (\<lambda>l2.
       thn (serial_toggle f)
       (bnd (gets id) (\<lambda>s.
       if sockchk l2 < 0 \<and> \<not> termsock s then ret l2
          else if logging s \<noteq> 0 \<and> f_meter f = METER_OWDM then log_sent os fid f l2
          else ret l2)))))"

subsection \<open>Waiting\<close>

text \<open>The ticker accumulates the milliseconds since it was last read.\<close>

definition elapsed_ms :: "int \<times> int \<Rightarrow> int \<times> int \<Rightarrow> rat" where
  "elapsed_ms prev now =
     rnd (rnd (rnd (of_int (fst now - fst prev)) * 1000) + rnd (rnd (of_int (snd now - snd prev)) / 1000))"

definition updateTicker :: "os \<Rightarrow> snd_loc \<Rightarrow> ('a world_scheme, snd_loc) proc" where
  "updateTicker os l = (bnd (s_time_now os) (\<lambda>now.
   ret (l\<lparr>tick_count := rnd (tick_count l + elapsed_ms (lastTime l) now), lastTime := now\<rparr>)))"

text \<open>A conversion to long truncates.\<close>

definition to_long :: "rat \<Rightarrow> int" where
  "to_long x = (if 0 \<le> x then \<lfloor>x\<rfloor> else \<lceil>x\<rceil>)"

definition sleep_time :: "'f send_flow_scheme \<Rightarrow> rat \<Rightarrow> int \<times> int" where
  "sleep_time f wait =
     (if \<not> f_pollingMode f then (to_long wait sdiv 1000, to_long (rnd (wait * 1000)) smod 1000000)
      else if wait \<le> MAX_POLL then (0, 0)
      else (to_long (rnd (wait - MAX_POLL)) sdiv 1000,
            to_long (rnd (rnd (wait - MAX_POLL) * 1000)) smod 1000000))"

definition s_pipe_msg :: "os \<Rightarrow> int \<Rightarrow> 'f send_flow_scheme \<Rightarrow> int \<Rightarrow> ('a send_state_scheme, unit) proc" where
  "s_pipe_msg os fid f code = (bnd (gets signalChannels) (\<lambda>cs.
   let c = nat (f_sigChanId f) in
     if f_sigChanId f < 0 \<or> length cs \<le> c then fault
     else sys0 (PipeWrite c (u32_mem (of_int fid) @ u32_mem (of_int code)))))"

definition fail_flow :: "os \<Rightarrow> int \<Rightarrow> 'f send_flow_scheme \<Rightarrow> ('a send_state_scheme, 'b) proc" where
  "fail_flow os fid f = (thn (s_pipe_msg os fid f MSG_SM_ERRFLOW)
   (thn (sys0 ExitThread)
   (thread_end)))"

subsection \<open>Packets that come back\<close>

text \<open>A packet of a flow whose round trip times are measured is received into the buffer that the next
  packet is built in; its record takes the time of sending from it, with the microseconds that
  the caller gives.\<close>

definition recv_back :: "os \<Rightarrow> 'f send_flow_scheme \<Rightarrow> snd_loc \<Rightarrow> ('a world_scheme, int \<times> snd_loc) proc" where
  "recv_back os f l =
     (if f_l4Proto f = L4_TCP then
        (bnd (TCPrecvPacket os (s_payload l) (s_sock l) (nat (minSize l)) (f_payloadLogType f)) (\<lambda>(sz, buf).
         ret (sz, l\<lparr>s_payload := buf\<rparr>)))
      else
        (bnd (sys_recv os (s_sock l) MAX_PAYLOAD_SIZE) (\<lambda>r.
         ret (case r of None \<Rightarrow> (-1, l)
                 | Some d \<Rightarrow> (int (length d), l\<lparr>s_payload := d @ drop (length d) (s_payload l)\<rparr>)))))"

definition log_back :: "os \<Rightarrow> int \<times> int \<Rightarrow> int \<Rightarrow> snd_loc \<Rightarrow> ('a sender_state_scheme, snd_loc) proc" where
  "log_back os rcv usec l =
     (let w = (\<lambda>k. mem_u32 (drop (4 * k) (s_payload l))) in
      (bnd (gets id) (\<lambda>s.
       if logging s \<noteq> 0 \<and> size_r l > 0
          then s_log_record os (\<lambda>i. writeInBufferStandard i (w 0) (w 1) (srcName l) (dstName l)
                 (portSrc l) (portDst l) (uint (ntohl (w 2))) (fst rcv smod 86400) usec (snd rcv)
                 (of_int (size_r l))) l
          else ret l)))"

text \<open>While waiting for the time of the next packet, its microseconds are those of the packet sent last.\<close>

definition wait_back :: "os \<Rightarrow> int \<Rightarrow> 'f send_flow_scheme \<Rightarrow> int \<Rightarrow> snd_loc \<Rightarrow> ('a sender_state_scheme, snd_loc) proc" where
  "wait_back os fid f timeUsec l = (bnd (sys_select os [s_sock l]) (\<lambda>(sel, ready).
   if sel < 0 then thn (sys0 (Print ''invalid fd or operation interrupted by signal'')) (fail_flow os fid f)
     else if ready (s_sock l) then
       (bnd (s_time_now os) (\<lambda>rcv.
        bnd (recv_back os f l) (\<lambda>(sz, l1).
        log_back os rcv timeUsec (l1\<lparr>size_r := sz, recvPkts := recvPkts l1 + 1\<rparr>))))
     else ret l))"

text \<open>The wait for the next packet: sleeps until the ticker has reached the time, which the ticker
  then loses.  The number of rounds is bounded.\<close>

primrec wait_loop :: "os \<Rightarrow> int \<Rightarrow> 'f send_flow_scheme \<Rightarrow> int \<Rightarrow> nat \<Rightarrow> rat \<Rightarrow> snd_loc \<Rightarrow>
    ('a sender_state_scheme, snd_loc) proc" where
  "wait_loop os fid f timeUsec 0 wait l = hang"
| "wait_loop os fid f timeUsec (Suc fuel) wait l =
     (let exitflag = (wait \<le> tick_count l);
          wait' = (if exitflag then wait else rnd (wait - tick_count l));
          l1 = (if exitflag then l else l\<lparr>tick_count := 0\<rparr>);
          timeout = (if exitflag then (0, 0) else sleep_time f wait')
      in (bnd ((if f_meter f = S_METER_RTTM then wait_back os fid f timeUsec l1
                    else thn (sys0 (Sleep (nat (fst timeout * 1000000 + snd timeout)))) (ret l1))) (\<lambda>l2.
       if exitflag then ret (l2\<lparr>tick_count := rnd (tick_count l2 - wait')\<rparr>)
             else (bnd (updateTicker os l2) (\<lambda>l3.
              wait_loop os fid f timeUsec fuel wait' l3)))))"

subsection \<open>The loop over the packets\<close>

text \<open>What ends the flow: its duration, the number of its packets or of its bytes.  A duration of
  exactly the default counts as none when another limit is given.\<close>

definition limits :: "'f send_flow_scheme \<Rightarrow> u64 \<times> u32 \<times> u64" where
  "limits f =
     (let d1 = (if f_Duration f = DefaultDuration \<and> f_numPacket f > 0 then -1 else f_Duration f);
          numPacket = (if f_numPacket f = 0 then -1 else f_numPacket f);
          bytes = 1024 * f_KBToSend f;
          d2 = (if d1 = DefaultDuration \<and> bytes > 0 then -1 else d1);
          byteToSend = (if bytes = 0 then -1 else bytes)
      in (d2, numPacket, byteToSend))"

definition end_of :: "int \<times> int \<Rightarrow> u64 \<Rightarrow> int \<times> int" where
  "end_of start Duration =
     (let usec = of_int (snd start) + (Duration mod 1000) * 1000
      in (sint (of_int (fst start) + Duration div 1000 + usec div 1000000), sint (usec :: u64) smod 1000000))"

definition time_less :: "int \<times> int \<Rightarrow> int \<times> int \<Rightarrow> bool" where
  "time_less a b \<longleftrightarrow> fst a < fst b \<or> fst a = fst b \<and> snd a < snd b"

definition goes_on :: "'f send_flow_scheme \<Rightarrow> snd_loc \<Rightarrow> bool" where
  "goes_on f l \<longleftrightarrow> (case limits f of (Duration, numPacket, byteToSend) \<Rightarrow>
     time_less (lastTime l) (end_time l) \<and> s_seqNum l - 1 < numPacket \<and> byteSent l < byteToSend)"

text \<open>A packet and the wait for the next one; the time that both took is taken off the duration of
  the burst.  The ticker is reset before every packet, so what the last wait took too long is
  not made up for.\<close>

definition pace :: "os \<Rightarrow> int \<Rightarrow> 'f send_flow_scheme \<Rightarrow> nat \<Rightarrow> int \<Rightarrow> snd_loc \<Rightarrow> ('a sender_state_scheme, snd_loc) proc" where
  "pace os fid f fuel timeUsec l = (case next_time f l of
       None \<Rightarrow> fault
     | Some (wait, l2) \<Rightarrow> (bnd (updateTicker os l2) (\<lambda>l3.
      wait_loop os fid f timeUsec fuel wait
           (if f_mean_adjustment f = 0 then l3\<lparr>tick_count := 0\<rparr> else l3))))"

definition send_round :: "os \<Rightarrow> int \<Rightarrow> 'f send_flow_scheme \<Rightarrow> nat \<Rightarrow> snd_loc \<Rightarrow> ('a sender_state_scheme, snd_loc) proc" where
  "send_round os fid f fuel l = (bnd (s_time_now os) (\<lambda>start.
   bnd (send_packet os fid f (l\<lparr>tick_count := 0\<rparr>)) (\<lambda>l1.
   bnd (pace os fid f fuel (snd (lastTime l)) (next_size f l1)) (\<lambda>l2.
   bnd (s_time_now os) (\<lambda>finish.
   ret (l2\<lparr>s_seqNum := s_seqNum l2 + 1, byteSent := byteSent l2 + of_int (sockchk l2),
             OnDuration := rnd (OnDuration l2 - elapsed_ms start finish)\<rparr>))))))"

text \<open>Between two bursts the flow is silent.\<close>

definition off_time :: "rat \<Rightarrow> int \<times> int" where
  "off_time d = (let sec = to_long d sdiv 1000
     in (sec, to_long (rnd (rnd (d - rnd (of_int (sec * 1000))) * 1000))))"

definition burst_pause :: "'f send_flow_scheme \<Rightarrow> snd_loc \<Rightarrow> ('a world_scheme, snd_loc) proc" where
  "burst_pause f l = (if f_bursty f then
     let w = off_time (f_OffPeriod f (drawnOffs l)) in
     (thn (sys0 (Sleep (nat (fst w * 1000000 + snd w))))
      (ret (l\<lparr>OnDuration := f_OnPeriod f (drawnOns l), drawnOns := drawnOns l + 1,
                drawnOffs := drawnOffs l + 1\<rparr>)))
     else ret l)"

text \<open>The loop over the bursts around the loop over the packets of a burst: a burst has at least one
  packet, and without bursts every round of the outer loop that follows the duration of the
  first is one packet.\<close>

primrec send_loop :: "os \<Rightarrow> int \<Rightarrow> 'f send_flow_scheme \<Rightarrow> nat \<Rightarrow> nat \<Rightarrow> snd_loc \<Rightarrow>
    ('a sender_state_scheme, snd_loc) proc" where
  "send_loop os fid f fuel 0 l = hang"
| "send_loop os fid f fuel (Suc n) l = (bnd (send_round os fid f fuel l) (\<lambda>l1.
 if OnDuration l1 > 0 \<and> goes_on f l1 then send_loop os fid f fuel n l1
     else (bnd (burst_pause f l1) (\<lambda>l2.
      if goes_on f l2 then send_loop os fid f fuel n l2 else ret l2))))"

subsection \<open>The last packets that come back\<close>

text \<open>After the last packet was sent, packets are awaited until as many have come back or none comes
  for 15 seconds.  Over TCP the size of the packet received is not stored: the one received
  last while sending counts.\<close>

definition drain_back :: "os \<Rightarrow> 'f send_flow_scheme \<Rightarrow> snd_loc \<Rightarrow> ('a sender_state_scheme, snd_loc) proc" where
  "drain_back os f l = (bnd (s_time_now os) (\<lambda>rcv.
   bnd (recv_back os f l) (\<lambda>(sz, l1).
   log_back os rcv (sint (ntohl (mem_u32 (drop 12 (s_payload l1)))))
       (l1\<lparr>size_r := (if f_l4Proto f = L4_TCP then size_r l1 else sz), recvPkts := recvPkts l1 + 1\<rparr>))))"

primrec drain_loop :: "os \<Rightarrow> 'f send_flow_scheme \<Rightarrow> nat \<Rightarrow> snd_loc \<Rightarrow> ('a sender_state_scheme, snd_loc) proc" where
  "drain_loop os f 0 l = hang"
| "drain_loop os f (Suc fuel) l =
     (if s_seqNum l - 1 > recvPkts l then
        (bnd (sys_select os [s_sock l]) (\<lambda>(sel, ready).
         if sel < 0 then thn (sys0 (Print ''send_packrttm'')) (drain_loop os f fuel l)
            else if ready (s_sock l) then (bnd (drain_back os f l) (\<lambda>l1.
             drain_loop os f fuel l1))
            else ret l))
      else ret l)"

definition finish_flow :: "os \<Rightarrow> int \<Rightarrow> 'f send_flow_scheme \<Rightarrow> snd_loc \<Rightarrow> ('a sender_state_scheme, unit) proc" where
  "finish_flow os fid f l = (bnd (gets id) (\<lambda>s.
   thn (cond (logging s \<noteq> 0 \<and> s_infos l \<noteq> []) (s_flushBuffer os (buffer_bytes os l)))
   (bnd (closeSock os (s_sock l)) (\<lambda>r.
   s_pipe_msg os fid f MSG_SM_ENDFLOW))))"
end
