(* ===== verification/FlowStart.thy ===== *)
theory FlowStart
  imports FlowSender RecvManager SendManager
begin

text \<open>How flowSender of src/ITGSend/ITGSend.cpp starts: the delay of the flow, the sender's log (with
  the client of the log server), the buffer, the socket and its addresses, the wait for the
  receiver in passive mode, the first size; and the whole thread.\<close>

subsection \<open>Times\<close>

text \<open>timeval_subtract of src/common/timestamp.h: the difference and whether it is negative.\<close>

definition timeval_subtract :: "int \<times> int \<Rightarrow> int \<times> int \<Rightarrow> (int \<times> int) \<times> bool" where
  "timeval_subtract x y0 =
     (let y1 = (if snd x < snd y0
                then let nsec = (snd y0 - snd x) sdiv 1000000 + 1
                     in (fst y0 + nsec, snd y0 - 1000000 * nsec) else y0);
          y = (if snd x - snd y1 > 1000000
               then let nsec = (snd y1 - snd x) sdiv 1000000
                    in (fst y1 - nsec, snd y1 + 1000000 * nsec) else y1)
      in ((fst x - fst y, snd x - snd y), fst x < fst y))"

definition start_time :: "int \<times> int \<Rightarrow> u64 \<Rightarrow> int \<times> int" where
  "start_time rif Delay =
     (let usec = of_int (snd rif) + (Delay mod 1000) * 1000
      in (sint (of_int (fst rif) + Delay div 1000 + usec div 1000000), sint (usec :: u64) smod 1000000))"

text \<open>The flow sleeps until the time to start it has passed; bounded rounds.\<close>

primrec delay_loop :: "os \<Rightarrow> nat \<Rightarrow> int \<times> int \<Rightarrow> int \<times> int \<Rightarrow> ('a world_scheme, unit) proc" where
  "delay_loop os 0 start now = hang"
| "delay_loop os (Suc fuel) start now =
     (case timeval_subtract start now of (rest, passed) \<Rightarrow>
        if passed then ret ()
        else (thn (sys0 (Sleep (nat (fst rest * 1000000 + snd rest))))
         (bnd (s_time_now os) (\<lambda>now'.
         delay_loop os fuel start now'))))"

definition wait_delay :: "os \<Rightarrow> nat \<Rightarrow> 'f send_flow_scheme \<Rightarrow> ('a sender_state_scheme, unit) proc" where
  "wait_delay os fuel f = cond (f_Delay f \<noteq> 0) (bnd (gets RifTime) (\<lambda>rif.
   bnd (s_time_now os) (\<lambda>now.
   delay_loop os fuel (start_time rif (f_Delay f)) now)))"

subsection \<open>The log\<close>

primrec s_await_connect :: "os \<Rightarrow> nat \<Rightarrow> int \<Rightarrow> u8 \<Rightarrow> ('a send_state_scheme, unit) proc" where
  "s_await_connect os 0 sock buffer = hang"
| "s_await_connect os (Suc fuel) sock buffer = (bnd (sys_recv os sock 1) (\<lambda>r.
 thn (die (r = None) ''Error into receive!'')
 ((let buffer' = (case r of Some (b # _) \<Rightarrow> b | _ \<Rightarrow> buffer) in
      if buffer' \<noteq> 1 then s_await_connect os fuel sock buffer' else ret ()))))"

definition createSignalingLogChannel :: "os \<Rightarrow> nat \<Rightarrow> u8 \<Rightarrow> ('a send_state_scheme, unit) proc" where
  "createSignalingLogChannel os fuel proto = (bnd (gets (\<lambda>s. junk os (hist s) 204)) (\<lambda>old.
   bnd (gets (\<lambda>s. hd (junk os (hist s) 1))) (\<lambda>b0.
   bnd (sys os (Socket 1)) (\<lambda>sock.
   thn (upd (\<lambda>s. s\<lparr>s_logSockSignaling := sock\<rparr>))
   (thn (die (sock < 0) ''Cannot create socket logSockSignaling!'')
   (thn (upd (\<lambda>s. s\<lparr>s_logHost := SET_PORT (s_logHost s) (htons 9001)\<rparr>))
   (bnd (gets s_logFile) (\<lambda>name.
   if length name \<ge> DIM_LOG_FILE then fault
     else (bnd (gets s_logHost) (\<lambda>h.
      bnd (sys os (Connect sock (port_of h))) (\<lambda>c.
      thn (die (c < 0) ''Error into connect !'')
      (thn (s_await_connect os fuel sock b0)
      (bnd (sys os (Send sock (signaling_image old proto name))) (\<lambda>w.
      die (w < 0) ''Cannot send infos to LogServer !''))))))))))))))"

text \<open>The port of the data channel comes as a 32-bit number.\<close>

definition createRemoteLogFile :: "os \<Rightarrow> nat \<Rightarrow> u8 \<Rightarrow> ('a send_state_scheme, unit) proc" where
  "createRemoteLogFile os fuel proto = (thn (createSignalingLogChannel os fuel proto)
   (thn (cond (proto = L4_UDP \<or> proto = L4_TCP) (bnd (sys os (Socket (if proto = L4_UDP then 2 else 1))) (\<lambda>k.
      thn (upd (\<lambda>s. s\<lparr>s_logSock := k\<rparr>))
      (die (k < 0) ''Cannot create socket logSock''))))
   (bnd (gets (\<lambda>s. junk os (hist s) 4)) (\<lambda>old.
   bnd (gets id) (\<lambda>s.
   bnd (sys_recv os (s_logSockSignaling s) 4) (\<lambda>r.
   thn (die (r = None) ''Cannot receive on signaling socket'')
   ((let d = (case r of None \<Rightarrow> [] | Some d \<Rightarrow> d);
          port = ntohl (mem_u32 (d @ drop (length d) old))
      in (thn (upd (\<lambda>s. s\<lparr>s_logHost := SET_PORT (s_logHost s) (htons (ucast port))\<rparr>))
       (thn (sys0 (Sleep 1000000))
       (bnd (gets s_logHost) (\<lambda>h.
       bnd (sys os (Connect (s_logSock s) (port_of h))) (\<lambda>c.
       die (c < 0) ''Error into connect with logsender!'')))))))))))))"

text \<open>The first flow opens the log of all flows: the local file, without which nothing is logged, or
  the channel to the log server.\<close>

definition open_sender_log :: "os \<Rightarrow> nat \<Rightarrow> u8 \<Rightarrow> ('a sender_state_scheme, unit) proc" where
  "open_sender_log os fuel proto = (thn (mutexThreadLock os ''mutexLog'')
   (bnd (gets id) (\<lambda>s.
   thn (cond (logging s \<noteq> 0 \<and> isFirstThread s = 1) (thn (upd (\<lambda>s. s\<lparr>isFirstThread := 0, isFirstThreadRttm := 0\<rparr>))
      (if logremoto s = 0 then
         (bnd (sys os (FOpen 0 (chars (s_logFile s)))) (\<lambda>ok.
          cond (ok < 0) (thn (sys0 (Print ''Cannot create local logfile''))
                              (upd (\<lambda>s. s\<lparr>logging := 0\<rparr>)))))
       else createRemoteLogFile os fuel proto)))
   (thn (mutexThreadUnlock os ''mutexLog'')
   (ret ())))))"

subsection \<open>The buffer\<close>

primrec random_payload :: "os \<Rightarrow> nat \<Rightarrow> ('a world_scheme, bytes) proc" where
  "random_payload os 0 = ret []"
| "random_payload os (Suc n) = (bnd (sys os Rand) (\<lambda>r.
 bnd (random_payload os n) (\<lambda>bs.
 ret (of_int (r smod 255) # bs))))"

definition init_payload :: "os \<Rightarrow> int \<Rightarrow> 'f send_flow_scheme \<Rightarrow> ('a world_scheme, bytes) proc" where
  "init_payload os fid f = (bnd ((if f_payloadBuffer f = [] then thn (sys0 SRand) (random_payload os MAX_PAYLOAD_SIZE)
             else ret (replicate MAX_PAYLOAD_SIZE 0))) (\<lambda>buf.
   ret (put_id fid f buf)))"

subsection \<open>The socket\<close>

definition socktype :: "u8 \<Rightarrow> int" where
  "socktype l4 = (if l4 = L4_UDP then 2 else if l4 = L4_ICMP then 3 else 1)"

text \<open>The source address is looked up by a name: that of "::" unless an IPv6 address was given, and,
  where it cannot be resolved, that of "0.0.0.0" or of the IPv4 address that was given.\<close>

definition source_host :: "os \<Rightarrow> int \<Rightarrow> 'f send_flow_scheme \<Rightarrow> ('a send_state_scheme, sockaddr) proc" where
  "source_host os fid f =
     (let given = f_srcAddrSpecify f; name = os_name os (f_SrcHost f);
          dotIpV6 = (if given \<and> ai_family (f_SrcHost f) = PF_INET6 then name else ''::'');
          dotIpV4 = (if given \<and> ai_family (f_SrcHost f) \<noteq> PF_INET6 then name else ''0.0.0.0'')
      in (bnd (sys os (Resolve dotIpV6)) (\<lambda>a.
       thn (cond (a < 0) (bnd (sys os (Resolve dotIpV4)) (\<lambda>b.
              cond (b < 0) (thn (sys0 (Print ''Error into getaddrinfo'')) (fail_flow os fid f)))))
       (gets (\<lambda>s. os_from os (hist s))))))"

definition bind_source :: "os \<Rightarrow> int \<Rightarrow> 'f send_flow_scheme \<Rightarrow> int \<Rightarrow> sockaddr \<Rightarrow> ('a send_state_scheme, sockaddr) proc" where
  "bind_source os fid f sock SrcHost =
     (let tmpPort = (if f_srcPortSpecify f then GET_PORT (f_SrcHost f) 0 else 0) in
      if f_srcPortSpecify f \<or> f_srcAddrSpecify f then (bnd (gets s_passiveMode) (\<lambda>passive.
       bnd ((if passive \<and> ai_family SrcHost \<noteq> ai_family (f_DestHost f) \<and> ai_family SrcHost = PF_INET
              then thn (sys os (Resolve (''::ffff:'' @ os_name os SrcHost)))
                       (gets (\<lambda>s. os_from os (hist s)))
              else ret SrcHost)) (\<lambda>h.
       bnd (sys os (Bind sock (port_of (SET_PORT h tmpPort)))) (\<lambda>b.
       thn (cond (b \<noteq> 0) (thn (sys0 (Print ''Could not bind a new socket'')) (fail_flow os fid f)))
       (ret (SET_PORT h tmpPort))))))
      else ret SrcHost)"

text \<open>Options whose failure is a warning.\<close>

definition option_warn :: "os \<Rightarrow> int \<Rightarrow> string \<Rightarrow> ('a world_scheme, unit) proc" where
  "option_warn os sock msg = (bnd (sys os (Setsockopt sock)) (\<lambda>r.
   cond (r < 0) (sys0 (Print msg))))"

definition socket_options :: "os \<Rightarrow> 'f send_flow_scheme \<Rightarrow> int \<Rightarrow> ('a world_scheme, unit) proc" where
  "socket_options os f sock = (thn (cond (f_l7Proto f \<noteq> S_L7_TELNET \<and> f_l7Proto f \<noteq> L7_DNS \<and> socktype (f_l4Proto f) = 1 \<and> \<not> f_Nagle f)
       (thn (sys0 (Print ''Nagle algorithm disabled''))
            (option_warn os sock ''Cannot disable Nagle Algorithm'')))
   (cond (f_iface f \<noteq> None) (thn (sys0 (Print ''Binding to device''))
      (bnd (sys os (Setsockopt sock)) (\<lambda>r.
      if r < 0 then sys0 (Print ''Cannot bind to device (hint: you must be root)'')
       else option_warn os sock (''Cannot set don'' @ [CHR 0x27] @ ''t route (hint: you must be root)''))))))"

definition quality_options :: "os \<Rightarrow> 'f send_flow_scheme \<Rightarrow> int \<Rightarrow> ('a world_scheme, unit) proc" where
  "quality_options os f sock = (thn (cond (f_DSByte f \<noteq> 0 \<and> ai_family (f_DestHost f) = PF_INET) (option_warn os sock ''Could not set DS byte''))
   (thn (cond (f_DSByte f \<noteq> 0 \<and> ai_family (f_DestHost f) = PF_INET6) (option_warn os sock ''Could not set DS byte''))
   (cond (f_TTL f > 0) (option_warn os sock ''Could not set TTL''))))"

text \<open>The flow connects to its receiver; in passive mode a TCP flow listens.\<close>

definition connect_flow :: "os \<Rightarrow> int \<Rightarrow> 'f send_flow_scheme \<Rightarrow> int \<Rightarrow> ('a send_state_scheme, unit) proc" where
  "connect_flow os fid f sock = (bnd (gets s_passiveMode) (\<lambda>passive.
   if \<not> passive then (bnd (sys os (Connect sock (port_of (f_DestHost f)))) (\<lambda>c.
      cond (c < 0) (thn (sys0 (Print ''Error in connect()'')) (fail_flow os fid f))))
     else cond (f_l4Proto f = L4_TCP) (bnd (sys os (Listen sock)) (\<lambda>c.
      cond (c < 0) (thn (sys0 (Print ''Error in listen() (Passive Mode)'')) (fail_flow os fid f))))))"

definition open_socket :: "os \<Rightarrow> nat \<Rightarrow> u8 \<Rightarrow> int \<Rightarrow> 'f send_flow_scheme \<Rightarrow> ('a sender_state_scheme, int \<times> sockaddr) proc" where
  "open_socket os fuel proto fid f = (bnd (source_host os fid f) (\<lambda>src.
   bnd (sys os (Socket (socktype (f_l4Proto f)))) (\<lambda>sock.
   thn (cond (sock < 0) (thn (sys0 (Print ''Could not create a new socket'')) (fail_flow os fid f)))
   (thn (option_warn os sock ''flowSender sending msg'')
   (thn (bind_source os fid f sock src)
   (thn (socket_options os f sock)
   (thn (open_sender_log os fuel proto)
   (thn (connect_flow os fid f sock)
   (thn (quality_options os f sock)
   (bnd (s_sockname os sock) (\<lambda>a.
   ret (sock, a))))))))))))"

subsection \<open>Passive mode\<close>

text \<open>The receiver learns through the signaling channel that it may come.  The TCP connection it opens
  replaces the socket; a UDP receiver punches a hole, which gives its address.\<close>

definition accept_receiver :: "os \<Rightarrow> int \<Rightarrow> 'f send_flow_scheme \<Rightarrow> int \<Rightarrow>
    ('a send_state_scheme, int \<times> 'f send_flow_scheme) proc" where
  "accept_receiver os fid f sock =
     (if f_l4Proto f = L4_TCP then (bnd (sys os (Accept sock)) (\<lambda>newSock.
      thn (cond (newSock < 0) (thn (sys0 (Print ''Error in accept() (Passive Mode)'')) (fail_flow os fid f)))
      (thn (closeSock os sock)
      (ret (newSock, f)))))
      else if f_l4Proto f = L4_UDP then (bnd (sys_recv os sock 1) (\<lambda>r.
       bnd (gets (\<lambda>s. os_from os (hist s))) (\<lambda>from.
       thn (cond (r = None) (s_ReportErrorAndExit ''error in recvfrom(). (Passive Mode)''))
       ((let f' = f\<lparr>f_DestHost := from\<rparr> in (bnd (sys os (Connect sock (port_of from))) (\<lambda>c.
         thn (cond (c < 0) (thn (sys0 (Print ''Error in connect() (Passive Mode)'')) (fail_flow os fid f')))
         (ret (sock, f')))))))))
      else ret (sock, f))"

definition meet_receiver :: "os \<Rightarrow> int \<Rightarrow> 'f send_flow_scheme \<Rightarrow> int \<Rightarrow>
    ('a send_state_scheme, int \<times> 'f send_flow_scheme) proc" where
  "meet_receiver os fid f sock = (bnd (gets s_passiveMode) (\<lambda>passive.
   if passive then thn (s_pipe_msg os fid f MSG_SM_SNDACK) (accept_receiver os fid f sock)
     else ret (sock, f)))"

subsection \<open>The thread\<close>

text \<open>The variables of the thread before the first packet; the values of a file of times are used from
  the second on.\<close>

definition snd_loc_init :: "'f send_flow_scheme \<Rightarrow> bytes \<Rightarrow> info list \<Rightarrow> int \<Rightarrow> int \<times> int \<Rightarrow> int \<times> int \<Rightarrow> snd_loc" where
  "snd_loc_init f buf infos sock ends now = \<lparr>
     s_sock = sock, s_payload = buf, indexBuffer = 0, s_size = 0, size_r = 0, s_seqNum = 1,
     sockchk = 0, recvPkts = 0, s_infos = infos, s_count = 0, indexVectSize = 0,
     indexVectTime = (if f_vectTime f = [] then 0 else 1), drawnSizes = 0, drawnTimes = 0,
     OnDuration = 0, drawnOns = 0, drawnOffs = 0, byteSent = 0, tick_count = 0, lastTime = now,
     end_time = ends, minSize = f_minPayloadSize f + (if has_size f then 4 else 0),
     srcName = '''', dstName = '''', portSrc = 0, portDst = 0\<rparr>"

definition note_hosts :: "os \<Rightarrow> 'f send_flow_scheme \<Rightarrow> sockaddr \<Rightarrow> snd_loc \<Rightarrow> snd_loc" where
  "note_hosts os f src l = l\<lparr>portSrc := GET_PORT src (if f_srcPortSpecify f then GET_PORT (f_SrcHost f) 0 else 0),
     srcName := os_name os src, portDst := GET_PORT (f_DestHost f) 0, dstName := os_name os (f_DestHost f)\<rparr>"

definition first_burst :: "'f send_flow_scheme \<Rightarrow> snd_loc \<Rightarrow> snd_loc" where
  "first_burst f l = (if f_bursty f then l\<lparr>OnDuration := f_OnPeriod f 0, drawnOns := 1\<rparr>
     else l\<lparr>OnDuration := rnd (of_int (uint (fst (limits f))))\<rparr>)"

definition start_flow :: "os \<Rightarrow> nat \<Rightarrow> u8 \<Rightarrow> int \<Rightarrow> 'f send_flow_scheme \<Rightarrow>
    ('a sender_state_scheme, 'f send_flow_scheme \<times> snd_loc) proc" where
  "start_flow os fuel proto fid f0 = (thn (wait_delay os fuel f0)
   (bnd (gets (\<lambda>s. if logging s \<noteq> 0 then replicate (unat (s_buffer_size s)) info0 else [])) (\<lambda>infos.
   bnd (s_time_now os) (\<lambda>t0.
   bnd (init_payload os fid f0) (\<lambda>buf.
   bnd (open_socket os fuel proto fid f0) (\<lambda>(sock0, src).
   bnd (meet_receiver os fid f0 sock0) (\<lambda>(sock, f).
   thn (sys0 (Print ''Started sending packets''))
   (bnd (s_time_now os) (\<lambda>start.
   thn (serial_toggle f)
   (bnd (s_time_now os) (\<lambda>now.
   ret (f, first_burst f (next_size f (note_hosts os f0 src
       (snd_loc_init f buf infos sock (end_of start (fst (limits f))) now)))))))))))))))"

text \<open>A thread that has sent its packets and, for round trip times, waited for those that come back.\<close>

definition flowSender :: "os \<Rightarrow> nat \<Rightarrow> nat \<Rightarrow> u8 \<Rightarrow> int \<Rightarrow> 'f send_flow_scheme \<Rightarrow> ('a sender_state_scheme, unit) proc" where
  "flowSender os fuel rounds proto fid f0 = (bnd (start_flow os fuel proto fid f0) (\<lambda>(f, l).
   bnd (send_loop os fid f fuel rounds l) (\<lambda>l1.
   thn (serial_toggle f)
   (bnd ((if f_meter f = S_METER_RTTM then drain_loop os f rounds l1 else ret l1)) (\<lambda>l2.
   finish_flow os fid f l2)))))"
end
