(* ===== verification/FlowSender_Facts.thy ===== *)
theory FlowSender_Facts
  imports FlowStart DataThread_Facts
begin

text \<open>What the sending thread puts on the wire and into its log.  Every procedure of the thread adds
  calls to the history and changes nothing else; the calls are kept as the list that was added,
  from which the packets sent and the bytes of the log are read.\<close>

subsection \<open>The calls that a procedure adds\<close>

lemma bnd_RetE:
  assumes "bnd m f s = (Ret y, s2)"
  obtains x s1 where "m s = (Ret x, s1)" "f x s1 = (Ret y, s2)"
  using assms by (auto simp: bnd_def split: prod.splits out.splits)

definition adds :: "call list \<Rightarrow> 'a world_scheme \<Rightarrow> 'a world_scheme \<Rightarrow> bool" where
  "adds h s s' \<longleftrightarrow> s' = s\<lparr>hist := h @ hist s\<rparr>"

lemma adds_refl [simp]: "adds [] s s" by (simp add: adds_def)

lemma adds_call [simp]: "adds [c] s (log_call c s)" by (simp add: adds_def log_call_def)

lemma adds_trans: "adds h s s1 \<Longrightarrow> adds g s1 s2 \<Longrightarrow> adds (g @ h) s s2"
  by (simp add: adds_def)

lemma adds_log_call: "adds h s s1 \<Longrightarrow> adds (c # h) s (log_call c s1)"
  by (simp add: adds_def log_call_def)

lemma adds_hist: "adds h s s' \<Longrightarrow> hist s' = h @ hist s"
  by (simp add: adds_def)

lemma adds_fields:
  fixes s :: "'a sender_state_scheme"
  assumes "adds h s s'"
  shows "logging s' = logging s" "logremoto s' = logremoto s" "s_buffer_size s' = s_buffer_size s"
    "termsock s' = termsock s" "signalChannels s' = signalChannels s" "s_passiveMode s' = s_passiveMode s"
    "s_logSock s' = s_logSock s"
  using assms by (simp_all add: adds_def)

text \<open>The messages sent on a socket, in their order.\<close>

fun sent :: "int \<Rightarrow> call list \<Rightarrow> bytes list" where
  "sent sock [] = []"
| "sent sock (c # h) = sent sock h @ (case c of Send k bs \<Rightarrow> if k = sock then [bs] else [] | _ \<Rightarrow> [])"

lemma sent_append: "sent sock (g @ h) = sent sock h @ sent sock g"
  by (induction g) simp_all

lemma written_append: "written i (g @ h) = written i h @ written i g"
  by (induction g) (simp_all split: call.splits)

text \<open>Calls that neither send nor write.\<close>

definition idle :: "call \<Rightarrow> bool" where
  "idle c \<longleftrightarrow> (case c of Send _ _ \<Rightarrow> False | FWrite _ _ \<Rightarrow> False | _ \<Rightarrow> True)"

lemma idle_nothing:
  assumes "\<forall>c \<in> set h. idle c"
  shows "sent sock h = []" "written i h = []"
  using assms by (induction h) (auto simp: idle_def split: call.splits)

subsection \<open>Waiting\<close>

lemma s_time_now_apply [proc_simps]:
  "s_time_now os s = (Ret (os_time os (GetTime # hist s)), log_call GetTime s)"
  "bnd (s_time_now os) g s = g (os_time os (GetTime # hist s)) (log_call GetTime s)"
  by (simp_all add: s_time_now_def bnd_def)

lemma updateTicker_run [proc_simps]:
  "bnd (updateTicker os l) g s =
     (let now = os_time os (GetTime # hist s)
      in g (l\<lparr>tick_count := rnd (tick_count l + elapsed_ms (lastTime l) now), lastTime := now\<rparr>)
           (log_call GetTime s))"
  by (simp add: updateTicker_def proc_simps Let_def)

text \<open>One way delay: the wait changes the ticker alone.\<close>

lemma wait_loop_effect:
  assumes "wait_loop os fid f u fuel wait l s = (Ret l', s')" "f_meter f \<noteq> S_METER_RTTM"
  shows "\<exists>h t now. adds h s s' \<and> (\<forall>c \<in> set h. idle c) \<and> l' = l\<lparr>tick_count := t, lastTime := now\<rparr>"
  using assms(1)
proof (induction fuel arbitrary: wait l s)
  case 0
  then show ?case by (simp add: hang_apply)
next
  case (Suc fuel)
  let ?t = "if wait \<le> tick_count l then (0, 0) else sleep_time f (rnd (wait - tick_count l))"
  let ?c = "Sleep (nat (fst ?t * 1000000 + snd ?t))"
  show ?case
  proof (cases "wait \<le> tick_count l")
    case True
    then have "s' = log_call ?c s \<and> l' = l\<lparr>tick_count := rnd (tick_count l - wait)\<rparr>"
      using Suc.prems assms(2) by (simp add: proc_simps Let_def)
    then show ?thesis
      by (intro exI[of _ "[?c]"] exI[of _ "rnd (tick_count l - wait)"] exI[of _ "lastTime l"])
         (simp add: idle_def)
  next
    case False
    define now where "now = os_time os (GetTime # ?c # hist s)"
    define l3 where "l3 = l\<lparr>tick_count := rnd (elapsed_ms (lastTime l) now), lastTime := now\<rparr>"
    have "wait_loop os fid f u fuel (rnd (wait - tick_count l)) l3 (log_call GetTime (log_call ?c s)) = (Ret l', s')"
      using Suc.prems assms(2) False by (simp add: proc_simps Let_def l3_def now_def)
    from Suc.IH[OF this] obtain h t now' where
      *: "adds h (log_call GetTime (log_call ?c s)) s'" "\<forall>c \<in> set h. idle c"
        "l' = l3\<lparr>tick_count := t, lastTime := now'\<rparr>" by blast
    have "adds (h @ [GetTime, ?c]) s s'"
      using adds_trans[OF adds_log_call[OF adds_call] *(1)] by simp
    then show ?thesis
      using *(2,3) by (intro exI[of _ "h @ [GetTime, ?c]"] exI[of _ t] exI[of _ now'])
        (simp add: idle_def l3_def)
  qed
qed

subsection \<open>The header of a packet\<close>

definition known_type :: "'f send_flow_scheme \<Rightarrow> bool" where
  "known_type f \<longleftrightarrow> f_payloadLogType f \<in> {PL_STANDARD, PL_SHORT, PL_NONE}"

definition header_bytes :: "int \<Rightarrow> 'f send_flow_scheme \<Rightarrow> u32 \<Rightarrow> int \<times> int \<Rightarrow> int \<Rightarrow> bytes" where
  "header_bytes fid f seqn time sz =
     (if f_payloadLogType f \<noteq> PL_NONE then u32_mem (htonl (of_int fid)) @ u32_mem (htonl seqn) else []) @
     (if f_payloadLogType f = PL_STANDARD
      then u32_mem (htonl (of_int (fst time smod 86400))) @ u32_mem (htonl (of_int (snd time))) else []) @
     (if has_size f then u32_mem (htonl (of_int sz)) else [])"

lemma pl_numbers [simp]: "PL_STANDARD = 0" "PL_SHORT = 1" "PL_NONE = 2"
  by (simp_all add: PL_STANDARD_def PL_SHORT_def PL_NONE_def)

lemma length_header_bytes: "known_type f \<Longrightarrow> length (header_bytes fid f q t z) = ptrToTruePayload f"
  by (auto simp: header_bytes_def ptrToTruePayload_def known_type_def has_size_def)

lemma put_at_facts:
  assumes "off + length bs \<le> length buf"
  shows "length (put_at off bs buf) = length buf"
    and "take (off + length bs) (put_at off bs buf) = take off buf @ bs"
    and "n \<le> off \<Longrightarrow> take n (put_at off bs buf) = take n buf"
  using assms by (cases bs; simp add: put_at_def min_def)+

lemma put_u32:
  assumes "off + 4 \<le> length buf"
  shows "length (put_at off (u32_mem w) buf) = length buf"
    and "take (off + 4) (put_at off (u32_mem w) buf) = take off buf @ u32_mem w"
    and "n \<le> off \<Longrightarrow> take n (put_at off (u32_mem w) buf) = take n buf"
  using put_at_facts[where off = off and bs = "u32_mem w" and buf = buf] assms by simp_all

definition has_id :: "int \<Rightarrow> 'f send_flow_scheme \<Rightarrow> bytes \<Rightarrow> bool" where
  "has_id fid f buf \<longleftrightarrow> length buf = MAX_PAYLOAD_SIZE \<and>
     (f_payloadLogType f \<noteq> PL_NONE \<longrightarrow> take 4 buf = u32_mem (htonl (of_int fid)))"

lemma put_header_facts:
  assumes "has_id fid f buf" "known_type f"
  shows "length (put_header f l buf) = MAX_PAYLOAD_SIZE"
    and "take (ptrToTruePayload f) (put_header f l buf) =
      header_bytes fid f (s_seqNum l) (lastTime l) (s_size l)"
proof -
  have len: "length buf = 64000" using assms(1) by (simp add: has_id_def MAX_PAYLOAD_SIZE_def)
  have id: "f_payloadLogType f \<noteq> 2 \<Longrightarrow> take 4 buf = u32_mem (htonl (of_int fid))"
    using assms(1) by (simp add: has_id_def)
  define A where "A = u32_mem (htonl (s_seqNum l))"
  define B where "B = u32_mem (htonl (of_int (fst (lastTime l) smod 86400)))"
  define C where "C = u32_mem (htonl (of_int (snd (lastTime l))))"
  define D where "D = u32_mem (htonl (of_int (s_size l)))"
  define b1 where "b1 = put_at 4 A buf"
  define b2 where "b2 = put_at 8 B b1"
  define b3 where "b3 = put_at 12 C b2"
  have l1: "length b1 = 64000" and t1: "take 8 b1 = take 4 buf @ A"
    using put_u32[where off = 4 and buf = buf and w = "htonl (s_seqNum l)"] len by (simp_all add: b1_def A_def)
  have l2: "length b2 = 64000" and t2: "take 12 b2 = take 8 b1 @ B"
    using put_u32[where off = 8 and buf = b1 and w = "htonl (of_int (fst (lastTime l) smod 86400))"] l1 by (simp_all add: b2_def B_def)
  have l3: "length b3 = 64000" and t3: "take 16 b3 = take 12 b2 @ C"
    using put_u32[where off = 12 and buf = b2 and w = "htonl (of_int (snd (lastTime l)))"] l2 by (simp_all add: b3_def C_def)
  have D3: "length (put_at 16 D b3) = 64000" "take 20 (put_at 16 D b3) = take 16 b3 @ D"
    using put_u32[where off = 16 and buf = b3 and w = "htonl (of_int (s_size l))"] l3 by (simp_all add: D_def)
  have D1: "length (put_at 8 D b1) = 64000" "take 12 (put_at 8 D b1) = take 8 b1 @ D"
    using put_u32[where off = 8 and buf = b1 and w = "htonl (of_int (s_size l))"] l1 by (simp_all add: D_def)
  have h: "put_header f l buf = (let b = (if f_payloadLogType f = 0 then b3
      else if f_payloadLogType f = 1 then b1 else buf)
      in if has_size f then put_at (ptrSize f) D b else b)"
    by (simp add: put_header_def Let_def A_def B_def C_def D_def b1_def b2_def b3_def)
  show "length (put_header f l buf) = MAX_PAYLOAD_SIZE"
    using assms(2) l1 l3 len D1 D3
    by (auto simp: h ptrSize_def MAX_PAYLOAD_SIZE_def Let_def known_type_def has_size_def)
  have hb: "header_bytes fid f (s_seqNum l) (lastTime l) (s_size l) =
     (if f_payloadLogType f \<noteq> 2 then take 4 buf @ A else []) @
     (if f_payloadLogType f = 0 then B @ C else []) @ (if has_size f then D else [])"
    using id by (simp add: header_bytes_def A_def B_def C_def D_def)
  consider "f_payloadLogType f = 0" | "f_payloadLogType f = 1" | "f_payloadLogType f = 2"
    using assms(2) by (auto simp: known_type_def)
  then show "take (ptrToTruePayload f) (put_header f l buf) =
      header_bytes fid f (s_seqNum l) (lastTime l) (s_size l)"
  proof cases
    case 1
    then show ?thesis using t1 t2 t3 D3 by (simp add: h hb ptrToTruePayload_def ptrSize_def)
  next
    case 2
    then show ?thesis using t1 D1 by (simp add: h hb ptrToTruePayload_def ptrSize_def)
  next
    case 3
    then show ?thesis by (simp add: h hb ptrToTruePayload_def has_size_def)
  qed
qed

text \<open>The payload of a file does not touch the header.\<close>

lemma copy_payload_facts:
  assumes "copy_payload f l = Some l1" "length (s_payload l) = MAX_PAYLOAD_SIZE"
    and "int (ptrToTruePayload f) \<le> s_size l" "s_size l \<le> int MAX_PAYLOAD_SIZE"
  shows "\<exists>buf i. l1 = l\<lparr>s_payload := buf, indexBuffer := i\<rparr> \<and> length buf = MAX_PAYLOAD_SIZE \<and>
    take (ptrToTruePayload f) buf = take (ptrToTruePayload f) (s_payload l)"
proof -
  define dim where "dim = length (f_payloadBuffer f)"
  define off where "off = ptrToTruePayload f"
  define i where "i = indexBuffer l"
  define n where "n = nat (s_size l) - off"
  have sz: "off \<le> nat (s_size l)" "nat (s_size l) \<le> MAX_PAYLOAD_SIZE" "\<not> s_size l < int off"
    using assms(3,4) by (auto simp: off_def)
  have eq: "copy_payload f l = (if dim = 0 then Some l else if s_size l < int off then None
      else if i + n \<le> dim then
        Some (l\<lparr>s_payload := put_at off (take n (drop i (f_payloadBuffer f))) (s_payload l),
                indexBuffer := (if i + n = dim then 0 else i + n)\<rparr>)
      else if off + nat (s_size l) > MAX_PAYLOAD_SIZE then None
      else Some (l\<lparr>s_payload := put_at off (drop i (f_payloadBuffer f) @
             replicate (nat (s_size l) - (dim - i)) 0) (s_payload l), indexBuffer := 0\<rparr>))"
    by (simp only: copy_payload_def Let_def dim_def off_def i_def n_def)
  consider (none) "dim = 0" | (fits) "dim \<noteq> 0" "i + n \<le> dim" | (wraps) "dim \<noteq> 0" "\<not> i + n \<le> dim" by blast
  then show ?thesis
  proof cases
    case none
    then have "l1 = l" using assms(1) eq by simp
    then show ?thesis using assms(2) by (intro exI[of _ "s_payload l"] exI[of _ "indexBuffer l"]) simp
  next
    case fits
    define bs where "bs = take n (drop i (f_payloadBuffer f))"
    have "length bs = n" using fits by (simp add: bs_def dim_def)
    then have b: "off + length bs \<le> length (s_payload l)" using sz assms(2) by (simp add: n_def)
    have "l1 = l\<lparr>s_payload := put_at off bs (s_payload l), indexBuffer := (if i + n = dim then 0 else i + n)\<rparr>"
      using assms(1) fits sz(3) eq by (simp add: bs_def)
    then show ?thesis using put_at_facts[OF b] assms(2)
      by (intro exI[of _ "put_at off bs (s_payload l)"] exI[of _ "if i + n = dim then 0 else i + n"]) (simp add: off_def)
  next
    case wraps
    define bs where "bs = drop i (f_payloadBuffer f) @ replicate (nat (s_size l) - (dim - i)) 0"
    have fits: "off + nat (s_size l) \<le> MAX_PAYLOAD_SIZE"
      using assms(1) wraps sz(3) eq by (simp split: if_splits)
    have "length bs = nat (s_size l)" using wraps sz by (simp add: bs_def dim_def n_def)
    then have b: "off + length bs \<le> length (s_payload l)" using fits assms(2) by simp
    have "l1 = l\<lparr>s_payload := put_at off bs (s_payload l), indexBuffer := 0\<rparr>"
      using assms(1) wraps sz(3) fits eq by (simp add: bs_def)
    then show ?thesis using put_at_facts[OF b] assms(2)
      by (intro exI[of _ "put_at off bs (s_payload l)"] exI[of _ 0]) (simp add: off_def)
  qed
qed

subsection \<open>Sending and logging one packet\<close>

lemma buffer_bytes_store:
  assumes "s_count l < length (s_infos l)"
  shows "buffer_bytes os (l\<lparr>s_infos := (s_infos l)[s_count l := r], s_count := s_count l + 1\<rparr>) =
    buffer_bytes os l @ os_image os r"
  using assms by (simp add: buffer_bytes_def take_Suc_conv_app_nth)

lemma s_flushBuffer_run:
  assumes "logremoto s = 0"
  shows "s_flushBuffer os bs s = (Ret (), log_call (MutexUnlock ''mutexLog'') (log_call (FFlush 0)
    (log_call (FWrite 0 bs) (log_call (MutexLock ''mutexLog'') s))))"
    and "bnd (s_flushBuffer os bs) g s = g () (log_call (MutexUnlock ''mutexLog'') (log_call (FFlush 0)
    (log_call (FWrite 0 bs) (log_call (MutexLock ''mutexLog'') s))))"
  using assms by (simp_all add: s_flushBuffer_def proc_simps thread_apply bnd_def)

lemma s_log_record_effect:
  fixes s :: "'a sender_state_scheme"
  assumes "s_log_record os fill l s = (Ret l', s')" "logremoto s = 0"
  shows "\<exists>h xs n. adds h s s' \<and> sent k h = [] \<and> l' = l\<lparr>s_infos := xs, s_count := n\<rparr> \<and>
    written 0 h @ buffer_bytes os l' = buffer_bytes os l @ os_image os (fill (s_infos l ! s_count l))"
proof -
  define l1 where "l1 = l\<lparr>s_infos := (s_infos l)[s_count l := fill (s_infos l ! s_count l)],
    s_count := s_count l + 1\<rparr>"
  have c: "s_count l < length (s_infos l)"
    using assms(1) by (simp add: s_log_record_def proc_simps split: if_splits)
  note b = buffer_bytes_store[OF c, of os "fill (s_infos l ! s_count l)", folded l1_def]
  show ?thesis
  proof (cases "s_count l1 = unat (s_buffer_size s)")
    case True
    define h where "h = [MutexUnlock ''mutexLog'', FFlush 0, FWrite 0 (buffer_bytes os l1), MutexLock ''mutexLog'']"
    have "(s', l') = (log_call (MutexUnlock ''mutexLog'') (log_call (FFlush 0) (log_call (FWrite 0 (buffer_bytes os l1))
        (log_call (MutexLock ''mutexLog'') s))), l1\<lparr>s_count := 0\<rparr>)"
      using assms c True 
      by (simp add: s_log_record_def proc_simps Let_def l1_def s_flushBuffer_run)
    then have "adds h s s'" "l' = l1\<lparr>s_count := 0\<rparr>" by (simp_all add: h_def adds_def log_call_def)
    moreover have "sent k h = []" "written 0 h = buffer_bytes os l1" by (simp_all add: h_def)
    ultimately show ?thesis using b
      by (intro exI[of _ h] exI[of _ "s_infos l1"] exI[of _ "0 :: nat"]) (simp add: l1_def buffer_bytes_def)
  next
    case False
    have "s' = s" "l' = l1"
      using assms c False by (simp_all add: s_log_record_def proc_simps Let_def l1_def)
    then show ?thesis using b
      by (intro exI[of _ "[]"] exI[of _ "s_infos l1"] exI[of _ "s_count l1"]) (simp add: l1_def)
  qed
qed

text \<open>What a record of the sender says of a packet.\<close>

definition record_of :: "int \<Rightarrow> 'f send_flow_scheme \<Rightarrow> u32 \<Rightarrow> int \<times> int \<Rightarrow> int \<Rightarrow> info \<Rightarrow> bool" where
  "record_of fid f seqn time sz r \<longleftrightarrow> flowId r = of_int fid \<and> seqNum r = seqn \<and>
     size r = of_int (if f_l7Proto f = S_L7_TELNET then sz - 20 else sz) \<and>
     (let t = fst time smod 86400 in
      txTime1 r = of_int (t sdiv 3600) \<and> txTime2 r = of_int ((t smod 3600) sdiv 60) \<and>
      txTime3 r = sec_usec t (snd time) \<and>
      rxTime1 r = txTime1 r \<and> rxTime2 r = txTime2 r \<and> rxTime3 r = txTime3 r)"

definition kept :: "snd_loc \<Rightarrow> snd_loc \<Rightarrow> bool" where
  "kept l l' \<longleftrightarrow> s_sock l' = s_sock l \<and> s_seqNum l' = s_seqNum l \<and> minSize l' = minSize l \<and>
     end_time l' = end_time l \<and> byteSent l' = byteSent l"

lemma kept_refl [simp]: "kept l l" by (simp add: kept_def)

lemma kept_trans: "kept l l1 \<Longrightarrow> kept l1 l2 \<Longrightarrow> kept l l2"
  by (simp add: kept_def)

lemma log_sent_effect:
  fixes s :: "'a sender_state_scheme"
  assumes "log_sent os fid f l s = (Ret l', s')" "logremoto s = 0"
  shows "\<exists>h r. adds h s s' \<and> sent k h = [] \<and> kept l l' \<and> s_payload l' = s_payload l \<and>
    sockchk l' = sockchk l \<and> lastTime l' = lastTime l \<and>
    written 0 h @ buffer_bytes os l' = buffer_bytes os l @ os_image os r \<and>
    record_of fid f (s_seqNum l) (lastTime l) (s_size l) r"
proof -
  obtain l1 s1 where a: "(if s_seqNum l = 1 then own_addresses os l else ret l) s = (Ret l1, s1)"
    and b: "(let size = (if f_l7Proto f = S_L7_TELNET then s_size l1 - 20 else s_size l1);
          time = fst (lastTime l1) smod 86400
      in s_log_record os (\<lambda>i. writeInBufferStandard i (htonl (of_int fid)) (htonl (s_seqNum l1))
           (srcName l1) (dstName l1) (portSrc l1) (portDst l1) time time
           (snd (lastTime l1)) (snd (lastTime l1)) (of_int size)) (l1\<lparr>s_size := size\<rparr>)) s1 = (Ret l', s')"
    using assms(1) unfolding log_sent_def by (rule bnd_RetE)
  have "\<exists>g sn dn sp dp. adds g s s1 \<and> (\<forall>c \<in> set g. idle c) \<and>
      l1 = l\<lparr>portSrc := sp, srcName := sn, portDst := dp, dstName := dn\<rparr>"
  proof (cases "s_seqNum l = 1")
    case True
    then have "s1 = log_call (GetPeerName (s_sock l)) (log_call (GetSockName (s_sock l)) s) \<and>
      (\<exists>sn dn sp dp. l1 = l\<lparr>portSrc := sp, srcName := sn, portDst := dp, dstName := dn\<rparr>)"
      using a by (auto simp: own_addresses_def s_sockname_def s_peername_def bnd_def proc_simps)
    then show ?thesis
      by (intro exI[of _ "[GetPeerName (s_sock l), GetSockName (s_sock l)]"]) (auto simp: adds_def log_call_def idle_def)
  next
    case False
    then have "s1 = s" "l1 = l" using a by (simp_all add: proc_simps)
    then show ?thesis
      by (intro exI[of _ "[]"] exI[of _ "srcName l"] exI[of _ "dstName l"] exI[of _ "portSrc l"] exI[of _ "portDst l"]) simp
  qed
  then obtain g sn dn sp dp where g: "adds g s s1" "\<forall>c \<in> set g. idle c"
    "l1 = l\<lparr>portSrc := sp, srcName := sn, portDst := dp, dstName := dn\<rparr>" by blast
  define sz where "sz = (if f_l7Proto f = S_L7_TELNET then s_size l - 20 else s_size l)"
  define tm where "tm = fst (lastTime l) smod 86400"
  define fill where "fill = (\<lambda>i. writeInBufferStandard i (htonl (of_int fid)) (htonl (s_seqNum l))
     sn dn sp dp tm tm (snd (lastTime l)) (snd (lastTime l)) (of_int sz))"
  have "s_log_record os fill (l1\<lparr>s_size := sz\<rparr>) s1 = (Ret l', s')"
    using b by (cases "f_l7Proto f = S_L7_TELNET") (simp_all add: Let_def g(3) fill_def tm_def sz_def)
  from s_log_record_effect[OF this, of k] adds_fields[OF g(1)] assms(2)
  obtain h xs n where h: "adds h s1 s'" "sent k h = []" "l' = (l1\<lparr>s_size := sz\<rparr>)\<lparr>s_infos := xs, s_count := n\<rparr>"
    "written 0 h @ buffer_bytes os l' = buffer_bytes os (l1\<lparr>s_size := sz\<rparr>) @ os_image os (fill (s_infos l ! s_count l))"
    by (auto simp: g(3))
  show ?thesis
  proof (intro exI[of _ "h @ g"] exI[of _ "fill (s_infos l ! s_count l)"] conjI)
    show "written 0 (h @ g) @ buffer_bytes os l' = buffer_bytes os l @ os_image os (fill (s_infos l ! s_count l))"
      using h(4) idle_nothing(2)[OF g(2)] by (simp add: written_append buffer_bytes_def g(3))
    show "record_of fid f (s_seqNum l) (lastTime l) (s_size l) (fill (s_infos l ! s_count l))"
      by (simp add: record_of_def fill_def writeInBufferStandard_def Let_def sz_def tm_def)
  qed (use adds_trans[OF g(1) h(1)] h idle_nothing(1)[OF g(2)] g(3) in \<open>simp_all add: sent_append kept_def\<close>)
qed

text \<open>The flows considered below: one way delay over UDP, TCP or another connected socket, logged into
  a local file if at all; and the thread between two packets.\<close>

definition one_way :: "'f send_flow_scheme \<Rightarrow> bool" where
  "one_way f \<longleftrightarrow> known_type f \<and> f_meter f = METER_OWDM \<and> f_l4Proto f \<noteq> L4_ICMP"

lemma meters [simp]: "METER_OWDM = 1" "S_METER_RTTM = 2"
  by (simp_all add: METER_OWDM_def S_METER_RTTM_def)

definition thread_ready :: "int \<Rightarrow> 'f send_flow_scheme \<Rightarrow> snd_loc \<Rightarrow> bool" where
  "thread_ready fid f l \<longleftrightarrow> has_id fid f (s_payload l) \<and>
     int (ptrToTruePayload f) \<le> minSize l \<and> minSize l \<le> int MAX_PAYLOAD_SIZE \<and>
     minSize l \<le> s_size l \<and> s_size l \<le> int MAX_PAYLOAD_SIZE"

text \<open>The packet that one round sends, and its record, if there is one.\<close>

definition packet_of :: "int \<Rightarrow> 'f send_flow_scheme \<Rightarrow> u32 \<Rightarrow> int \<times> int \<Rightarrow> int \<Rightarrow> bytes \<Rightarrow> bool" where
  "packet_of fid f seqn time sz pkt \<longleftrightarrow> int (length pkt) = sz \<and> sz \<le> int MAX_PAYLOAD_SIZE \<and>
     take (ptrToTruePayload f) pkt = header_bytes fid f seqn time sz"

definition logged_as :: "bool \<Rightarrow> (info \<Rightarrow> bool) \<Rightarrow> info list \<Rightarrow> bool" where
  "logged_as b P recs \<longleftrightarrow> (if b then \<exists>r. recs = [r] \<and> P r else recs = [])"

lemma has_id_cong:
  assumes "has_id fid f buf" "length buf' = MAX_PAYLOAD_SIZE" "known_type f"
    and "take (ptrToTruePayload f) buf' = header_bytes fid f q t z"
  shows "has_id fid f buf'"
proof -
  have "take 4 buf' = u32_mem (htonl (of_int fid))" if "f_payloadLogType f \<noteq> 2"
  proof -
    have "4 \<le> ptrToTruePayload f"
      using that assms(3) by (auto simp: known_type_def ptrToTruePayload_def)
    then have "take 4 buf' = take 4 (take (ptrToTruePayload f) buf')" by (simp add: min_def)
    also have "\<dots> = u32_mem (htonl (of_int fid))" using that by (simp add: assms(4) header_bytes_def)
    finally show ?thesis .
  qed
  then show ?thesis using assms(2) by (simp add: has_id_def)
qed

lemma send_packet_effect:
  fixes s :: "'a sender_state_scheme"
  assumes "send_packet os fid f l s = (Ret l', s')" "one_way f" "thread_ready fid f l" "logremoto s = 0"
  shows "\<exists>h pkt recs. adds h s s' \<and> sent (s_sock l) h = [pkt] \<and>
    packet_of fid f (s_seqNum l) (lastTime l) (s_size l) pkt \<and>
    kept l l' \<and> lastTime l' = lastTime l \<and> sockchk l' = os_int os (Send (s_sock l) pkt # hist s) \<and> has_id fid f (s_payload l') \<and>
    written 0 h @ buffer_bytes os l' = buffer_bytes os l @ concat (map (os_image os) recs) \<and>
    logged_as (logging s \<noteq> 0 \<and> (0 \<le> sockchk l' \<or> termsock s)) (record_of fid f (s_seqNum l) (lastTime l) (s_size l)) recs"
proof -
  define hd1 where "hd1 = put_header f l (s_payload l)"
  have kt: "known_type f" and om: "f_meter f = 1" "f_l4Proto f \<noteq> L4_ICMP" using assms(2) by (simp_all add: one_way_def)
  have id: "has_id fid f (s_payload l)" using assms(3) by (simp add: thread_ready_def)
  have sz: "int (ptrToTruePayload f) \<le> s_size l" "s_size l \<le> int MAX_PAYLOAD_SIZE"
    using assms(3) by (auto simp: thread_ready_def)
  note ph = put_header_facts[OF id kt, of l, folded hd1_def]
  obtain l1 where cp: "copy_payload f (l\<lparr>s_payload := hd1\<rparr>) = Some l1"
    using assms(1) by (auto simp: send_packet_def hd1_def fault_apply split: option.splits)
  from copy_payload_facts[OF cp] ph(1) sz obtain buf i where
    l1: "l1 = l\<lparr>s_payload := buf, indexBuffer := i\<rparr>" and lb: "length buf = MAX_PAYLOAD_SIZE"
    and tb: "take (ptrToTruePayload f) buf = header_bytes fid f (s_seqNum l) (lastTime l) (s_size l)"
    using ph(2) by auto
  have id': "has_id fid f buf" by (rule has_id_cong[OF id lb kt tb])
  define pkt where "pkt = take (nat (s_size l)) buf"
  have pkt: "packet_of fid f (s_seqNum l) (lastTime l) (s_size l) pkt"
  proof -
    have "ptrToTruePayload f \<le> nat (s_size l)" "nat (s_size l) \<le> MAX_PAYLOAD_SIZE" "int (nat (s_size l)) = s_size l"
      using sz by linarith+
    then show ?thesis using tb lb sz(2) by (simp add: packet_of_def pkt_def)
  qed
  define r where "r = os_int os (Send (s_sock l) pkt # hist s)"
  define l2 where "l2 = l1\<lparr>sockchk := r\<rparr>"
  define g where "g = (if f_serial f \<noteq> -1 then [SerialToggle (f_serial f)] else []) @ [Send (s_sock l) pkt]"
  define s1 where "s1 = log_call (Send (s_sock l) pkt) s"
  define s2 where "s2 = (if f_serial f \<noteq> -1 then log_call (SerialToggle (f_serial f)) s1 else s1)"
  have g: "adds g s s2" "sent (s_sock l) g = [pkt]" "written 0 g = []"
    by (simp_all add: adds_def s2_def s1_def g_def log_call_def)
  have t: "bnd (transmit os f l1) k s = k l2 s1" for k :: "snd_loc \<Rightarrow> ('a sender_state_scheme, snd_loc) proc"
    using om by (simp add: transmit_def wire_packet_def proc_simps l1 l2_def r_def pkt_def s1_def)
  have u: "bnd (serial_toggle f) k s1 = k () s2" for k :: "unit \<Rightarrow> ('a sender_state_scheme, snd_loc) proc"
    by (simp add: serial_toggle_def proc_simps s2_def)
  have run: "(if sockchk l2 < 0 \<and> \<not> termsock s2 then ret l2
          else if logging s2 \<noteq> 0 \<and> f_meter f = METER_OWDM then log_sent os fid f l2 else ret l2) s2 = (Ret l', s')"
    using assms(1) unfolding send_packet_def hd1_def[symmetric] cp option.case thn_bnd t u bnd_prim id_apply .
  have tl: "termsock s2 = termsock s" "logging s2 = logging s" "logremoto s2 = 0"
    using adds_fields[OF g(1)] assms(4) by simp_all
  have l2f: "kept l l2" "lastTime l2 = lastTime l" "s_payload l2 = buf" "s_size l2 = s_size l"
    "s_seqNum l2 = s_seqNum l" "buffer_bytes os l2 = buffer_bytes os l"
    "sockchk l2 = os_int os (Send (s_sock l) pkt # hist s)"
    by (simp_all add: l2_def l1 kept_def buffer_bytes_def r_def)
  show ?thesis
  proof (cases "logging s = 0 \<or> sockchk l2 < 0 \<and> \<not> termsock s")
    case True
    then have e: "l' = l2" "s' = s2" using run om by (auto simp: tl ret_apply split: if_splits)
    show ?thesis using True g pkt l2f id'
      by (intro exI[of _ g] exI[of _ pkt] exI[of _ "[]"]) (auto simp: e logged_as_def)
  next
    case False
    then have "log_sent os fid f l2 s2 = (Ret l', s')" using run om by (auto simp: tl split: if_splits)
    from log_sent_effect[OF this tl(3), of "s_sock l"] obtain h rec where
      h: "adds h s2 s'" "sent (s_sock l) h = []" "kept l2 l'" "s_payload l' = buf" "sockchk l' = sockchk l2"
        "lastTime l' = lastTime l" "written 0 h @ buffer_bytes os l' = buffer_bytes os l @ os_image os rec"
        "record_of fid f (s_seqNum l) (lastTime l) (s_size l) rec"
      by (auto simp: l2f)
    show ?thesis
      using adds_trans[OF g(1) h(1)] g h l2f(7) kept_trans[OF l2f(1) h(3)] False pkt id'
      by (intro exI[of _ "h @ g"] exI[of _ pkt] exI[of _ "[rec]"]) (auto simp: sent_append written_append logged_as_def)
  qed
qed

text \<open>One round: one packet, at most one record, and the next sequence number.\<close>

lemma next_size_facts:
  "minSize l \<le> int MAX_PAYLOAD_SIZE \<Longrightarrow> minSize l \<le> s_size (next_size f l)"
  "minSize l \<le> int MAX_PAYLOAD_SIZE \<Longrightarrow> s_size (next_size f l) \<le> int MAX_PAYLOAD_SIZE"
  "kept l (next_size f l)" "s_payload (next_size f l) = s_payload l"
  "buffer_bytes os (next_size f l) = buffer_bytes os l" "lastTime (next_size f l) = lastTime l"
  "sockchk (next_size f l) = sockchk l"
  by (auto simp: next_size_def limit_size_def kept_def buffer_bytes_def)

lemma pace_effect:
  assumes "pace os fid f fuel u l s = (Ret l', s')" "f_meter f \<noteq> S_METER_RTTM"
  shows "\<exists>h. adds h s s' \<and> (\<forall>c \<in> set h. idle c) \<and> kept l l' \<and> s_payload l' = s_payload l \<and>
    s_size l' = s_size l \<and> buffer_bytes os l' = buffer_bytes os l \<and> sockchk l' = sockchk l"
proof -
  obtain w l2 where nt: "next_time f l = Some (w, l2)"
    using assms(1) by (auto simp: pace_def fault_apply split: option.splits)
  have l2: "kept l l2" "s_payload l2 = s_payload l" "s_size l2 = s_size l" "buffer_bytes os l2 = buffer_bytes os l"
    "sockchk l2 = sockchk l"
    using nt by (auto simp: next_time_def kept_def buffer_bytes_def split: if_splits)
  define now where "now = os_time os (GetTime # hist s)"
  define t where "t = (if f_mean_adjustment f = 0 then 0 else rnd (tick_count l2 + elapsed_ms (lastTime l2) now))"
  define l3 where "l3 = l2\<lparr>tick_count := t, lastTime := now\<rparr>"
  have "wait_loop os fid f u fuel w l3 (log_call GetTime s) = (Ret l', s')"
    using assms(1) by (cases "f_mean_adjustment f = 0"; cases l2)
      (simp_all add: pace_def nt proc_simps Let_def l3_def now_def t_def)
  from wait_loop_effect[OF this assms(2)] obtain h t' now' where
    h: "adds h (log_call GetTime s) s'" "\<forall>c \<in> set h. idle c" "l' = l3\<lparr>tick_count := t', lastTime := now'\<rparr>" by blast
  show ?thesis
    using adds_trans[OF adds_call h(1)] h(2) l2
    by (intro exI[of _ "h @ [GetTime]"]) (simp add: h(3) l3_def kept_def buffer_bytes_def idle_def)
qed

lemma send_round_effect:
  fixes s :: "'a sender_state_scheme"
  assumes "send_round os fid f fuel l s = (Ret l', s')" "one_way f" "thread_ready fid f l" "logremoto s = 0"
  shows "\<exists>h pkt recs. adds h s s' \<and> sent (s_sock l) h = [pkt] \<and>
    packet_of fid f (s_seqNum l) (lastTime l) (s_size l) pkt \<and>
    (\<exists>h0. sockchk l' = os_int os (Send (s_sock l) pkt # h0)) \<and>
    s_sock l' = s_sock l \<and> s_seqNum l' = s_seqNum l + 1 \<and> thread_ready fid f l' \<and>
    written 0 h @ buffer_bytes os l' = buffer_bytes os l @ concat (map (os_image os) recs) \<and>
    logged_as (logging s \<noteq> 0 \<and> (0 \<le> sockchk l' \<or> termsock s)) (record_of fid f (s_seqNum l) (lastTime l) (s_size l)) recs"
proof -
  let ?l0 = "l\<lparr>tick_count := 0\<rparr>"
  let ?s0 = "log_call GetTime s"
  obtain l1 s1 where a: "send_packet os fid f ?l0 ?s0 = (Ret l1, s1)"
    and b: "bnd (pace os fid f fuel (snd (lastTime l)) (next_size f l1)) (\<lambda>l2.
      bnd (s_time_now os) (\<lambda>finish. ret (l2\<lparr>s_seqNum := s_seqNum l2 + 1, byteSent := byteSent l2 + of_int (sockchk l2),
        OnDuration := rnd (OnDuration l2 - elapsed_ms (os_time os (GetTime # hist s)) finish)\<rparr>))) s1 = (Ret l', s')"
    using assms(1) unfolding send_round_def s_time_now_apply(2) by (rule bnd_RetE)
  obtain l2 s2 where c: "pace os fid f fuel (snd (lastTime l)) (next_size f l1) s1 = (Ret l2, s2)"
    and d: "l' = l2\<lparr>s_seqNum := s_seqNum l2 + 1, byteSent := byteSent l2 + of_int (sockchk l2),
        OnDuration := rnd (OnDuration l2 - elapsed_ms (os_time os (GetTime # hist s)) (os_time os (GetTime # hist s2)))\<rparr>"
      "s' = log_call GetTime s2"
    using b by (elim bnd_RetE[where m = "pace os fid f fuel (snd (lastTime l)) (next_size f l1)"])
      (auto simp: s_time_now_apply ret_apply)
  have "thread_ready fid f ?l0" "logremoto ?s0 = 0"
    using assms(3,4) by (simp_all add: thread_ready_def log_call_def)
  then have "\<exists>h pkt recs. adds h ?s0 s1 \<and> sent (s_sock l) h = [pkt] \<and>
      packet_of fid f (s_seqNum l) (lastTime l) (s_size l) pkt \<and>
      (\<exists>h0. sockchk l1 = os_int os (Send (s_sock l) pkt # h0)) \<and> kept l l1 \<and> has_id fid f (s_payload l1) \<and>
      written 0 h @ buffer_bytes os l1 = buffer_bytes os l @ concat (map (os_image os) recs) \<and>
      logged_as (logging s \<noteq> 0 \<and> (0 \<le> sockchk l1 \<or> termsock s)) (record_of fid f (s_seqNum l) (lastTime l) (s_size l)) recs"
    using send_packet_effect[OF a assms(2)] by (fastforce simp: kept_def buffer_bytes_def log_call_def)
  then obtain h pkt recs where
    h: "adds h ?s0 s1" "sent (s_sock l) h = [pkt]" "packet_of fid f (s_seqNum l) (lastTime l) (s_size l) pkt"
      "\<exists>h0. sockchk l1 = os_int os (Send (s_sock l) pkt # h0)" "kept l l1" "has_id fid f (s_payload l1)"
      "written 0 h @ buffer_bytes os l1 = buffer_bytes os l @ concat (map (os_image os) recs)"
      "logged_as (logging s \<noteq> 0 \<and> (0 \<le> sockchk l1 \<or> termsock s)) (record_of fid f (s_seqNum l) (lastTime l) (s_size l)) recs"
    by blast
  have m: "f_meter f \<noteq> S_METER_RTTM" using assms(2) by (simp add: one_way_def)
  from pace_effect[OF c m] obtain g where
    g: "adds g s1 s2" "\<forall>c \<in> set g. idle c" "kept (next_size f l1) l2" "s_payload l2 = s_payload l1"
      "s_size l2 = s_size (next_size f l1)" "buffer_bytes os l2 = buffer_bytes os l1" "sockchk l2 = sockchk l1"
    by (auto simp: next_size_facts)
  have k: "kept l l2" using kept_trans[OF kept_trans[OF h(5) next_size_facts(3)] g(3)] .
  have min: "minSize l1 \<le> int MAX_PAYLOAD_SIZE" "minSize l2 = minSize l" "minSize l1 = minSize l"
    using assms(3) h(5) k by (simp_all add: thread_ready_def kept_def)
  have add: "adds (GetTime # g @ h @ [GetTime]) s s'"
    using adds_log_call[OF adds_trans[OF adds_trans[OF adds_call h(1)] g(1)]] d(2) by simp
  show ?thesis
  proof (rule exI[of _ "GetTime # g @ h @ [GetTime]"], rule exI[of _ pkt], rule exI[of _ recs], intro conjI)
    show "adds (GetTime # g @ h @ [GetTime]) s s'" by (rule add)
    show "\<exists>h0. sockchk l' = os_int os (Send (s_sock l) pkt # h0)"
      using h(4) g(7) by (simp add: d(1))
    show "thread_ready fid f l'"
      using assms(3) h(6) g(4,5) min next_size_facts(1,2)[OF min(1), of f]
      by (simp add: thread_ready_def d(1))
  qed (use h idle_nothing[OF g(2)] k g d(1) in \<open>simp_all add: sent_append written_append kept_def buffer_bytes_def\<close>)
qed

text \<open>Any number of rounds.  A round is known by the time and the size of its packet, the packet and
  its record, if there is one.\<close>

type_synonym round = "(int \<times> int) \<times> int \<times> bytes \<times> info list"

definition round_ok :: "os \<Rightarrow> int \<Rightarrow> 'f send_flow_scheme \<Rightarrow> 'a sender_state_scheme \<Rightarrow> int \<Rightarrow> u32 \<Rightarrow> round \<Rightarrow> bool" where
  "round_ok os fid f s sock seqn = (\<lambda>(t, z, pkt, rs). packet_of fid f seqn t z pkt \<and>
     (\<exists>h. logged_as (logging s \<noteq> 0 \<and> (0 \<le> os_int os (Send sock pkt # h) \<or> termsock s))
           (record_of fid f seqn t z) rs))"

definition rounds_ok :: "os \<Rightarrow> int \<Rightarrow> 'f send_flow_scheme \<Rightarrow> 'a sender_state_scheme \<Rightarrow> int \<Rightarrow> u32 \<Rightarrow> round list \<Rightarrow> bool" where
  "rounds_ok os fid f s sock seqn xs \<longleftrightarrow> (\<forall>i < length xs. round_ok os fid f s sock (seqn + of_nat i) (xs ! i))"

lemma rounds_ok_Cons:
  "round_ok os fid f s sock seqn x \<Longrightarrow> rounds_ok os fid f s sock (seqn + 1) xs \<Longrightarrow>
     rounds_ok os fid f s sock seqn (x # xs)"
  by (auto simp: rounds_ok_def nth_Cons split: nat.splits)
     (metis (no_types, lifting) add.assoc of_nat_Suc)

lemma burst_pause_effect:
  assumes "burst_pause f l s = (Ret l', s')"
  shows "\<exists>h. adds h s s' \<and> (\<forall>c \<in> set h. idle c) \<and> kept l l' \<and> s_payload l' = s_payload l \<and>
    s_size l' = s_size l \<and> buffer_bytes os l' = buffer_bytes os l"
proof (cases "f_bursty f")
  case True
  define w where "w = off_time (f_OffPeriod f (drawnOffs l))"
  have "s' = log_call (Sleep (nat (fst w * 1000000 + snd w))) s"
    "l' = l\<lparr>OnDuration := f_OnPeriod f (drawnOns l), drawnOns := drawnOns l + 1, drawnOffs := drawnOffs l + 1\<rparr>"
    using assms True by (simp_all add: burst_pause_def proc_simps Let_def w_def)
  then show ?thesis
    by (intro exI[of _ "[Sleep (nat (fst w * 1000000 + snd w))]"]) (simp add: idle_def kept_def buffer_bytes_def)
next
  case False
  then have "l' = l" "s' = s" using assms by (simp_all add: burst_pause_def ret_apply)
  then show ?thesis by (intro exI[of _ "[]"]) simp
qed

lemma round_ok_adds: "adds h s s1 \<Longrightarrow> round_ok os fid f s1 = round_ok os fid f s"
  by (intro ext) (simp add: round_ok_def adds_def)

lemma rounds_ok_adds: "adds h s s1 \<Longrightarrow> rounds_ok os fid f s1 = rounds_ok os fid f s"
  by (intro ext) (simp add: rounds_ok_def round_ok_adds)

lemma send_loop_effect:
  fixes s :: "'a sender_state_scheme"
  assumes "send_loop os fid f fuel n l s = (Ret l', s')" "one_way f" "thread_ready fid f l" "logremoto s = 0"
  shows "\<exists>h xs. adds h s s' \<and> xs \<noteq> [] \<and> sent (s_sock l) h = map (\<lambda>(t, z, p, rs). p) xs \<and>
    rounds_ok os fid f s (s_sock l) (s_seqNum l) xs \<and>
    s_sock l' = s_sock l \<and> s_seqNum l' = s_seqNum l + of_nat (length xs) \<and>
    written 0 h @ buffer_bytes os l' =
      buffer_bytes os l @ concat (map (os_image os) (concat (map (\<lambda>(t, z, p, rs). rs) xs)))"
  using assms
proof (induction n arbitrary: l s)
  case 0
  then show ?case by (simp add: hang_apply)
next
  case (Suc n)
  obtain l1 s1 where a: "send_round os fid f fuel l s = (Ret l1, s1)"
    and b: "(if OnDuration l1 > 0 \<and> goes_on f l1 then send_loop os fid f fuel n l1
       else bnd (burst_pause f l1) (\<lambda>l2. if goes_on f l2 then send_loop os fid f fuel n l2 else ret l2)) s1 = (Ret l', s')"
    using Suc.prems(1) unfolding send_loop.simps by (rule bnd_RetE)
  from send_round_effect[OF a Suc.prems(2-4)] obtain h pkt recs where
    h: "adds h s s1" "sent (s_sock l) h = [pkt]" "packet_of fid f (s_seqNum l) (lastTime l) (s_size l) pkt"
      "\<exists>h0. sockchk l1 = os_int os (Send (s_sock l) pkt # h0)"
      "s_sock l1 = s_sock l" "s_seqNum l1 = s_seqNum l + 1" "thread_ready fid f l1"
      "written 0 h @ buffer_bytes os l1 = buffer_bytes os l @ concat (map (os_image os) recs)"
      "logged_as (logging s \<noteq> 0 \<and> (0 \<le> sockchk l1 \<or> termsock s))
         (record_of fid f (s_seqNum l) (lastTime l) (s_size l)) recs"
    by blast
  define x where "x = (lastTime l, s_size l, pkt, recs)"
  have x: "round_ok os fid f s (s_sock l) (s_seqNum l) x"
    using h(3,4,9) by (auto simp: round_ok_def x_def)
  obtain g l2 s2 where g: "adds g s1 s2" "\<forall>c \<in> set g. idle c" "kept l1 l2" "s_payload l2 = s_payload l1"
      "s_size l2 = s_size l1" "buffer_bytes os l2 = buffer_bytes os l1"
    and c: "(send_loop os fid f fuel n l2 s2 = (Ret l', s')) \<or> (l' = l2 \<and> s' = s2)"
  proof (cases "OnDuration l1 > 0 \<and> goes_on f l1")
    case True
    then show ?thesis using b by (intro that[of "[]" s1 l1]) simp_all
  next
    case False
    then have "bnd (burst_pause f l1) (\<lambda>l2. if goes_on f l2 then send_loop os fid f fuel n l2 else ret l2) s1 = (Ret l', s')"
      using b by auto
    then obtain l2 s2 where p: "burst_pause f l1 s1 = (Ret l2, s2)"
      "(if goes_on f l2 then send_loop os fid f fuel n l2 else ret l2) s2 = (Ret l', s')"
      by (rule bnd_RetE)
    from burst_pause_effect[OF p(1), of os] p(2) show ?thesis
      using that by (cases "goes_on f l2") (auto simp: ret_apply)
  qed
  have s2: "adds (g @ h) s s2" by (rule adds_trans[OF h(1) g(1)])
  have l2: "s_sock l2 = s_sock l" "s_seqNum l2 = s_seqNum l + 1" "thread_ready fid f l2"
    using g(3-5) h(5-7) by (simp_all add: kept_def thread_ready_def)
  have gh: "sent (s_sock l) (g @ h) = [pkt]"
    "written 0 (g @ h) @ buffer_bytes os l2 = buffer_bytes os l @ concat (map (os_image os) recs)"
    using idle_nothing[OF g(2)] h(2,8) g(6) by (simp_all add: sent_append written_append)
  from c show ?case
  proof
    assume d: "send_loop os fid f fuel n l2 s2 = (Ret l', s')"
    from Suc.IH[OF d Suc.prems(2) l2(3)] adds_fields[OF s2] Suc.prems(4) obtain k xs where
      k: "adds k s2 s'" "sent (s_sock l) k = map (\<lambda>(t, z, p, rs). p) xs"
        "rounds_ok os fid f s2 (s_sock l) (s_seqNum l + 1) xs" "s_sock l' = s_sock l"
        "s_seqNum l' = s_seqNum l + 1 + of_nat (length xs)"
        "written 0 k @ buffer_bytes os l' = buffer_bytes os l2 @
           concat (map (os_image os) (concat (map (\<lambda>(t, z, p, rs). rs) xs)))"
      by (auto simp: l2)
    have "rounds_ok os fid f s (s_sock l) (s_seqNum l) (x # xs)"
      by (rule rounds_ok_Cons[OF x]) (use k(3) in \<open>simp add: rounds_ok_adds[OF s2]\<close>)
    moreover have "sent (s_sock l) (k @ g @ h) = map (\<lambda>(t, z, p, rs). p) (x # xs)"
      using gh(1) k(2) by (simp add: sent_append[of _ k] x_def)
    moreover have "written 0 (k @ g @ h) @ buffer_bytes os l' =
      buffer_bytes os l @ concat (map (os_image os) (concat (map (\<lambda>(t, z, p, rs). rs) (x # xs))))"
    proof -
      have "written 0 (k @ g @ h) @ buffer_bytes os l' = written 0 (g @ h) @ written 0 k @ buffer_bytes os l'"
        by (simp add: written_append[of _ k])
      also have "\<dots> = (written 0 (g @ h) @ buffer_bytes os l2) @
           concat (map (os_image os) (concat (map (\<lambda>(t, z, p, rs). rs) xs)))"
        by (simp only: k(6) append_assoc)
      finally show ?thesis by (simp only: gh(2)) (simp add: x_def)
    qed
    ultimately show ?thesis using adds_trans[OF s2 k(1)] k(4,5)
      by (intro exI[of _ "k @ g @ h"] exI[of _ "x # xs"]) simp
  next
    assume d: "l' = l2 \<and> s' = s2"
    have "rounds_ok os fid f s (s_sock l) (s_seqNum l) [x]"
      using x by (simp add: rounds_ok_def)
    then show ?thesis using d s2 gh l2
      by (intro exI[of _ "g @ h"] exI[of _ "[x]"]) (simp add: x_def)
  qed
qed
end
