(* ===== verification/FlowSender_Log.thy ===== *)
theory FlowSender_Log
  imports FlowSender_Facts
begin

text \<open>What a flow of ITGSend guarantees: its packets are numbered and a receiver reads from each what
  the sender put into it; the sender's log holds one record per packet; the limits of the flow
  are kept, and under a running clock the flow ends.\<close>

subsection \<open>The packets\<close>

lemma drop_header:
  assumes "take n pkt = hb" "k + 4 \<le> n" "length hb = n"
  shows "mem_u32 (drop k (pkt @ rest)) = mem_u32 (drop k hb)"
proof -
  have "pkt @ rest = hb @ (drop n pkt @ rest)" by (simp flip: assms(1))
  then have "drop k (pkt @ rest) = drop k (hb @ (drop n pkt @ rest))" by (rule arg_cong)
  also have "\<dots> = drop k hb @ (drop n pkt @ rest)" using assms(2,3) by simp
  finally have "drop k (pkt @ rest) = drop k hb @ (drop n pkt @ rest)" .
  moreover have "4 \<le> length (drop k hb)" using assms(2,3) by simp
  ultimately show ?thesis by (simp only: mem_u32_append)
qed

lemma drop_u32 [simp]:
  "drop 4 (u32_mem a @ xs) = xs" "drop 8 (u32_mem a @ u32_mem b @ xs) = xs"
  "drop 12 (u32_mem a @ u32_mem b @ u32_mem c @ xs) = xs"
  "drop 16 (u32_mem a @ u32_mem b @ u32_mem c @ u32_mem d @ xs) = xs"
  by simp_all

lemma mem_u32_alone [simp]: "mem_u32 (u32_mem w) = w"
  using mem_u32_mem[of w "[]"] by simp

lemma packet_fields:
  assumes "packet_of fid f seqn time z pkt" "known_type f"
  shows "f_payloadLogType f \<noteq> PL_NONE \<Longrightarrow> mem_u32 (pkt @ rest) = htonl (of_int fid)"
    and "f_payloadLogType f \<noteq> PL_NONE \<Longrightarrow> mem_u32 (drop 4 (pkt @ rest)) = htonl seqn"
    and "f_payloadLogType f = PL_STANDARD \<Longrightarrow>
      mem_u32 (drop 8 (pkt @ rest)) = htonl (of_int (fst time smod 86400))"
    and "f_payloadLogType f = PL_STANDARD \<Longrightarrow> mem_u32 (drop 12 (pkt @ rest)) = htonl (of_int (snd time))"
    and "has_size f \<Longrightarrow> mem_u32 (drop (ptrSize f) (pkt @ rest)) = htonl (of_int z)"
proof -
  note d = drop_header[OF conjunct2[OF conjunct2[OF assms(1)[unfolded packet_of_def]]] _ length_header_bytes[OF assms(2)], where rest = rest]
  let ?p = "f_payloadLogType f"
  have h: "?p \<noteq> 2 \<Longrightarrow> header_bytes fid f seqn time z = u32_mem (htonl (of_int fid)) @ u32_mem (htonl seqn) @
     (if ?p = 0 then u32_mem (htonl (of_int (fst time smod 86400))) @ u32_mem (htonl (of_int (snd time))) else []) @
     (if has_size f then u32_mem (htonl (of_int z)) else [])"
    by (simp add: header_bytes_def)
  show "mem_u32 (pkt @ rest) = htonl (of_int fid)" if "?p \<noteq> PL_NONE"
    using d[of 0] that assms(2) by (auto simp: h ptrToTruePayload_def known_type_def)
  show "mem_u32 (drop 4 (pkt @ rest)) = htonl seqn" if "?p \<noteq> PL_NONE"
    using d[of 4] that assms(2) by (auto simp: h ptrToTruePayload_def known_type_def)
  show "mem_u32 (drop 8 (pkt @ rest)) = htonl (of_int (fst time smod 86400))" if "?p = PL_STANDARD"
    using d[of 8] that by (simp add: h ptrToTruePayload_def)
  show "mem_u32 (drop 12 (pkt @ rest)) = htonl (of_int (snd time))" if "?p = PL_STANDARD"
    using d[of 12] that by (simp add: h ptrToTruePayload_def)
  show "mem_u32 (drop (ptrSize f) (pkt @ rest)) = htonl (of_int z)" if "has_size f"
  proof -
    have "?p = 0 \<or> ?p = 1" using that assms(2) by (auto simp: has_size_def known_type_def)
    then show ?thesis
    proof
      assume "?p = 0"
      then show ?thesis using d[of 16] that h by (simp add: ptrSize_def ptrToTruePayload_def)
    next
      assume "?p = 1"
      then show ?thesis using d[of 8] that h by (simp add: ptrSize_def ptrToTruePayload_def)
    qed
  qed
qed

lemma sint_u32_small: "0 \<le> z \<Longrightarrow> z < 2 ^ 31 \<Longrightarrow> sint (of_int z :: u32) = z"
  by (simp add: sint_sbintrunc' signed_take_bit_int_eq_self)

text \<open>What the receiver's record of a packet says; the time must be one that gettimeofday gives.\<close>

lemma packet_record:
  assumes "packet_of fid f seqn time z pkt" "f_payloadLogType f = PL_STANDARD"
    and "payloadLogType fs = PL_STANDARD" "0 \<le> fst time" "0 \<le> snd time" "snd time < 1000000"
  shows "payload_record fs (loc\<lparr>payload := pkt @ rest\<rparr>) now sz i =
    writeInBufferStandard i (htonl (of_int fid)) (htonl seqn) (helpSrc loc) (helpDst loc)
      (srcPortD loc) (dstPortD loc) (fst time smod 86400) (fst now smod 86400) (snd time) (snd now) (of_int sz)"
proof -
  have kt: "known_type f" using assms(2) by (simp add: known_type_def)
  note pf = packet_fields[OF assms(1) kt, where rest = rest]
  have t: "sint (of_int (fst time smod 86400) :: u32) = fst time smod 86400"
    using assms(4) by (intro sint_u32_small)
      (simp_all add: smod_nonneg order_less_trans[OF pos_mod_bound])
  have u: "sint (of_int (snd time) :: u32) = snd time"
    using assms(5,6) by (intro sint_u32_small) simp_all
  show ?thesis
    using pf(1-4) assms(2,3) t u by (simp add: payload_record_def Let_def)
qed

subsection \<open>The flow ends\<close>

text \<open>A clock of which a later reading is at least d milliseconds after an earlier one.\<close>

definition clock_advances :: "os \<Rightarrow> rat \<Rightarrow> bool" where
  "clock_advances os d \<longleftrightarrow> 0 < d \<and>
     (\<forall>h g. d \<le> elapsed_ms (os_time os (GetTime # h)) (os_time os (GetTime # g @ GetTime # h)))"

text \<open>The ticker was last read on the clock.\<close>

definition clock_read :: "os \<Rightarrow> snd_loc \<Rightarrow> 'a world_scheme \<Rightarrow> bool" where
  "clock_read os l s \<longleftrightarrow> (\<exists>h g. lastTime l = os_time os (GetTime # h) \<and> hist s = g @ GetTime # h)"

lemma clock_read_adds:
  assumes "clock_read os l s" "adds h s s'" "lastTime l' = lastTime l"
  shows "clock_read os l' s'"
proof -
  obtain k g where "lastTime l = os_time os (GetTime # k)" "hist s = g @ GetTime # k"
    using assms(1) by (auto simp: clock_read_def)
  then have "lastTime l' = os_time os (GetTime # k) \<and> hist s' = (h @ g) @ GetTime # k"
    using assms(2,3) by (simp add: adds_hist)
  then show ?thesis unfolding clock_read_def by blast
qed

lemma clock_read_now: "lastTime l' = os_time os (GetTime # hist s) \<Longrightarrow> clock_read os l' (log_call GetTime s)"
  unfolding clock_read_def by (intro exI[of _ "hist s"] exI[of _ "[]"]) simp

lemma clock_tick:
  assumes "clock_advances os d" "clock_read os l s"
  shows "3 / 4 * d \<le> rnd (elapsed_ms (lastTime l) (os_time os (GetTime # hist s)))"
proof -
  define e where "e = elapsed_ms (lastTime l) (os_time os (GetTime # hist s))"
  have e: "d \<le> e" "0 < d" using assms by (auto simp: e_def clock_advances_def clock_read_def)
  then have "\<bar>rnd e - e\<bar> \<le> e / 2 ^ 53" using rnd_error[of e] by simp
  then have "e - e / 2 ^ 53 \<le> rnd e" by linarith
  then show ?thesis using e unfolding e_def[symmetric] by simp
qed

text \<open>The wait ends: each round takes at least half of d off what is left.\<close>

lemma wait_loop_returns:
  assumes "clock_advances os d" "f_meter f \<noteq> S_METER_RTTM"
  shows "clock_read os l s \<Longrightarrow> wait - tick_count l \<le> d * 2 ^ 51 \<Longrightarrow> wait - tick_count l \<le> of_nat fuel * (d / 2) \<Longrightarrow>
    \<exists>l' s'. wait_loop os fid f u (Suc fuel) wait l s = (Ret l', s') \<and> clock_read os l' s'"
proof (induction fuel arbitrary: wait l s)
  case 0
  then have e: "wait \<le> tick_count l" by simp
  show ?case
    using e assms(2) clock_read_adds[OF 0(1) adds_call refl]
    by (simp add: proc_simps Let_def clock_read_def)
next
  case (Suc fuel)
  define v where "v = wait - tick_count l"
  show ?case
  proof (cases "wait \<le> tick_count l")
    case True
    then show ?thesis
      using assms(2) clock_read_adds[OF Suc.prems(1) adds_call refl]
      by (simp add: proc_simps Let_def clock_read_def)
  next
    case False
    have d: "0 < d" using assms(1) by (simp add: clock_advances_def)
    define t where "t = sleep_time f (rnd v)"
    define c where "c = Sleep (nat (fst t * 1000000 + snd t))"
    define now where "now = os_time os (GetTime # c # hist s)"
    define l3 where "l3 = l\<lparr>tick_count := rnd (elapsed_ms (lastTime l) now), lastTime := now\<rparr>"
    define s3 where "s3 = log_call GetTime (log_call c s)"
    have v: "0 < v" "v \<le> d * 2 ^ 51" "v \<le> of_nat (Suc fuel) * (d / 2)"
      using False Suc.prems by (simp_all add: v_def)
    have "\<bar>rnd v - v\<bar> \<le> v / 2 ^ 53" using rnd_error[of v] v(1) by simp
    then have r: "rnd v \<le> v + v / 2 ^ 53" by linarith
    have r2: "v / 2 ^ 53 \<le> d / 4" using v(2) by simp
    have cr: "clock_read os l (log_call c s)" by (rule clock_read_adds[OF Suc.prems(1) adds_call refl])
    have "3 / 4 * d \<le> tick_count l3"
      using clock_tick[OF assms(1) cr] by (simp add: l3_def now_def)
    then have le: "rnd v - tick_count l3 \<le> v - d / 2" using r r2 by linarith
    moreover have "of_nat (Suc fuel) * (d / 2) = of_nat fuel * (d / 2) + d / 2"
      by (simp add: algebra_simps add_divide_distrib)
    ultimately have "rnd v - tick_count l3 \<le> of_nat fuel * (d / 2)" "rnd v - tick_count l3 \<le> d * 2 ^ 51"
      using v d by linarith+
    moreover have "clock_read os l3 s3"
      unfolding s3_def by (rule clock_read_now) (simp add: l3_def now_def)
    ultimately obtain l' s' where "wait_loop os fid f u (Suc fuel) (rnd v) l3 s3 = (Ret l', s')" "clock_read os l' s'"
      using Suc.IH by blast
    moreover have "wait_loop os fid f u (Suc (Suc fuel)) wait l s = wait_loop os fid f u (Suc fuel) (rnd v) l3 s3"
      using False assms(2) unfolding wait_loop.simps(2)[of os fid f u "Suc fuel"]
      by (simp add: proc_simps Let_def v_def[symmetric] t_def[symmetric] c_def[symmetric] l3_def s3_def now_def del: wait_loop.simps)
    ultimately show ?thesis by simp
  qed
qed

text \<open>What a thread needs in order not to stop: the times it waits are bounded, the buffer of the log has
  room, and the file of times is not read behind its end.\<close>

definition waits_up_to :: "rat \<Rightarrow> 'f send_flow_scheme \<Rightarrow> bool" where
  "waits_up_to w f \<longleftrightarrow> (\<forall>n. f_IntArriv f n \<le> w) \<and> (\<forall>x \<in> set (f_vectTime f). x \<le> w)"

definition log_room :: "snd_loc \<Rightarrow> 'a sender_state_scheme \<Rightarrow> bool" where
  "log_room l s \<longleftrightarrow> logging s \<noteq> 0 \<longrightarrow>
     length (s_infos l) = unat (s_buffer_size s) \<and> s_count l < length (s_infos l)"

definition times_left :: "'f send_flow_scheme \<Rightarrow> snd_loc \<Rightarrow> bool" where
  "times_left f l \<longleftrightarrow> f_vectTime f = [] \<or> indexVectTime l < length (f_vectTime f)"

definition thread_live :: "os \<Rightarrow> 'f send_flow_scheme \<Rightarrow> snd_loc \<Rightarrow> 'a sender_state_scheme \<Rightarrow> bool" where
  "thread_live os f l s \<longleftrightarrow> clock_read os l s \<and> log_room l s \<and> times_left f l"

lemma next_time_Some:
  assumes "waits_up_to w f" "times_left f l"
  shows "\<exists>wt l2. next_time f l = Some (wt, l2) \<and> wt \<le> w \<and> tick_count l2 = tick_count l \<and>
    lastTime l2 = lastTime l \<and> s_infos l2 = s_infos l \<and> s_count l2 = s_count l \<and> times_left f l2"
proof (cases "f_vectTime f = []")
  case True
  then show ?thesis using assms(1) by (simp add: next_time_def waits_up_to_def times_left_def)
next
  case False
  then have "indexVectTime l < length (f_vectTime f)" using assms(2) by (simp add: times_left_def)
  then show ?thesis using assms(1) False by (simp add: next_time_def waits_up_to_def times_left_def)
qed

lemma pace_returns:
  fixes s :: "'a sender_state_scheme"
  assumes "clock_advances os d" "f_meter f \<noteq> S_METER_RTTM" "waits_up_to w f" "w \<le> d * 2 ^ 51"
    and "w \<le> of_nat fuel * (d / 2)" "thread_live os f l s" "tick_count l = 0"
  shows "\<exists>l' s'. pace os fid f (Suc fuel) u l s = (Ret l', s') \<and> thread_live os f l' s'"
proof -
  obtain wt l2 where nt: "next_time f l = Some (wt, l2)" and wt: "wt \<le> w"
    and l2: "tick_count l2 = 0" "lastTime l2 = lastTime l" "s_infos l2 = s_infos l" "s_count l2 = s_count l"
      "times_left f l2"
    using next_time_Some[OF assms(3), of l] assms(6,7) by (auto simp: thread_live_def)
  have cr: "clock_read os l s" using assms(6) by (simp add: thread_live_def)
  define now where "now = os_time os (GetTime # hist s)"
  define t where "t = (if f_mean_adjustment f = 0 then 0 else rnd (elapsed_ms (lastTime l) now))"
  define l3 where "l3 = l2\<lparr>tick_count := t, lastTime := now\<rparr>"
  have "0 \<le> t" using clock_tick[OF assms(1) cr] assms(1) by (auto simp: t_def now_def clock_advances_def)
  then have b: "wt - tick_count l3 \<le> d * 2 ^ 51" "wt - tick_count l3 \<le> of_nat fuel * (d / 2)"
    using wt assms(4,5) by (simp_all add: l3_def)
  have "clock_read os l3 (log_call GetTime s)" by (rule clock_read_now) (simp add: l3_def now_def)
  from wait_loop_returns[OF assms(1,2) this b, of fid u] obtain l' s' where
    r: "wait_loop os fid f u (Suc fuel) wt l3 (log_call GetTime s) = (Ret l', s')" "clock_read os l' s'" by blast
  from wait_loop_effect[OF r(1) assms(2)] obtain h t' n' where
    e: "adds h (log_call GetTime s) s'" "l' = l3\<lparr>tick_count := t', lastTime := n'\<rparr>" by blast
  have "thread_live os f l' s'"
    using assms(6) r(2) l2 adds_fields[OF adds_trans[OF adds_call e(1)]]
    by (auto simp: thread_live_def log_room_def times_left_def e(2) l3_def)
  moreover have "pace os fid f (Suc fuel) u l s = (Ret l', s')"
    using r(1) l2(1,2) by (cases "f_mean_adjustment f = 0"; cases l2)
      (simp_all add: pace_def nt proc_simps Let_def l3_def t_def now_def del: wait_loop.simps)
  ultimately show ?thesis by blast
qed

lemma s_log_record_returns:
  fixes s :: "'a sender_state_scheme"
  assumes "s_count l < length (s_infos l)" "length (s_infos l) = unat (s_buffer_size s)" "logremoto s = 0"
  shows "\<exists>l' s' h. s_log_record os fill l s = (Ret l', s') \<and> adds h s s' \<and> lastTime l' = lastTime l \<and>
    tick_count l' = tick_count l \<and> indexVectTime l' = indexVectTime l \<and> length (s_infos l') = length (s_infos l) \<and> s_count l' < length (s_infos l')"
proof -
  define r where "r = (if logremoto s = 0 then fill (s_infos l ! s_count l)
     else infosHostToNet (fill (s_infos l ! s_count l)))"
  define l1 where "l1 = l\<lparr>s_infos := (s_infos l)[s_count l := r], s_count := s_count l + 1\<rparr>"
  show ?thesis
  proof (cases "s_count l + 1 = unat (s_buffer_size s)")
    case True
    define s1 where "s1 = log_call (MutexUnlock ''mutexLog'') (log_call (FFlush 0)
      (log_call (FWrite 0 (buffer_bytes os l1)) (log_call (MutexLock ''mutexLog'') s)))"
    obtain h where f: "adds h s s1"
      unfolding s1_def by (blast intro: adds_log_call adds_call)
    have "s_log_record os fill l s = (Ret (l1\<lparr>s_count := 0\<rparr>), s1)"
      using assms True by (simp add: s_log_record_def proc_simps Let_def l1_def r_def s1_def s_flushBuffer_run)
    then show ?thesis using f assms by (intro exI[of _ "l1\<lparr>s_count := 0\<rparr>"] exI[of _ s1] exI[of _ h]) (auto simp: l1_def)
  next
    case False
    then have "s_log_record os fill l s = (Ret l1, s)"
      using assms(1) by (simp add: s_log_record_def proc_simps Let_def l1_def r_def)
    then show ?thesis using False assms by (intro exI[of _ l1] exI[of _ s] exI[of _ "[]"]) (auto simp: l1_def)
  qed
qed

lemma own_addresses_run:
  "\<exists>sn dn sp dp. own_addresses os l s = (Ret (l\<lparr>portSrc := sp, srcName := sn, portDst := dp, dstName := dn\<rparr>),
     log_call (GetPeerName (s_sock l)) (log_call (GetSockName (s_sock l)) s))"
  by (auto simp: own_addresses_def s_sockname_def s_peername_def bnd_def ret_apply)

lemma send_packet_returns:
  fixes s :: "'a sender_state_scheme"
  assumes "f_payloadBuffer f = []" "one_way f" "logremoto s = 0" "log_room l s"
  shows "\<exists>l' s' h. send_packet os fid f l s = (Ret l', s') \<and> adds h s s' \<and> lastTime l' = lastTime l \<and>
    tick_count l' = tick_count l \<and> indexVectTime l' = indexVectTime l \<and> log_room l' s'"
proof -
  define l0 where "l0 = l\<lparr>s_payload := put_header f l (s_payload l)\<rparr>"
  have cp: "copy_payload f l0 = Some l0" using assms(1) by (simp add: copy_payload_def Let_def)
  define pkt where "pkt = take (nat (s_size l)) (s_payload l0)"
  define l2 where "l2 = l0\<lparr>sockchk := os_int os (Send (s_sock l) pkt # hist s)\<rparr>"
  define s1 where "s1 = log_call (Send (s_sock l) pkt) s"
  define s2 where "s2 = (if f_serial f \<noteq> -1 then log_call (SerialToggle (f_serial f)) s1 else s1)"
  obtain g where g: "adds g s s2"
    unfolding s2_def s1_def by (cases "f_serial f = -1") (auto intro: adds_log_call adds_call)
  have om: "f_meter f = 1" "f_l4Proto f \<noteq> L4_ICMP" using assms(2) by (simp_all add: one_way_def)
  have t: "bnd (transmit os f l0) k s = k l2 s1" for k :: "snd_loc \<Rightarrow> ('a sender_state_scheme, snd_loc) proc"
    using om by (simp add: transmit_def wire_packet_def proc_simps l0_def l2_def pkt_def s1_def)
  have u: "bnd (serial_toggle f) k s1 = k () s2" for k :: "unit \<Rightarrow> ('a sender_state_scheme, snd_loc) proc"
    by (simp add: serial_toggle_def proc_simps s2_def)
  have run: "send_packet os fid f l s = (if sockchk l2 < 0 \<and> \<not> termsock s2 then ret l2
          else if logging s2 \<noteq> 0 \<and> f_meter f = METER_OWDM then log_sent os fid f l2 else ret l2) s2"
    unfolding send_packet_def l0_def[symmetric] cp option.case thn_bnd t u bnd_prim id_apply ..
  have l2: "lastTime l2 = lastTime l" "indexVectTime l2 = indexVectTime l" "s_infos l2 = s_infos l" "s_count l2 = s_count l"
    "tick_count l2 = tick_count l"
    by (simp_all add: l2_def l0_def)
  have st: "logging s2 = logging s" "s_buffer_size s2 = s_buffer_size s" "logremoto s2 = 0"
    using adds_fields[OF g] assms(3) by simp_all
  show ?thesis
  proof (cases "logging s = 0 \<or> sockchk l2 < 0 \<and> \<not> termsock s2")
    case True
    then have "send_packet os fid f l s = (Ret l2, s2)" using run om st by (auto simp: ret_apply)
    then show ?thesis using g l2 st assms(4) by (intro exI[of _ l2] exI[of _ s2] exI[of _ g]) (auto simp: log_room_def)
  next
    case False
    obtain l3 s3 k where a: "(if s_seqNum l2 = 1 then own_addresses os l2 else ret l2) s2 = (Ret l3, s3)"
      "adds k s2 s3" "lastTime l3 = lastTime l" "indexVectTime l3 = indexVectTime l" "s_infos l3 = s_infos l" "s_count l3 = s_count l"
      "tick_count l3 = tick_count l"
    proof (cases "s_seqNum l2 = 1")
      case True
      obtain sn dn sp dp where o: "own_addresses os l2 s2 =
          (Ret (l2\<lparr>portSrc := sp, srcName := sn, portDst := dp, dstName := dn\<rparr>),
           log_call (GetPeerName (s_sock l2)) (log_call (GetSockName (s_sock l2)) s2))"
        using own_addresses_run by blast
      have "adds [GetPeerName (s_sock l2), GetSockName (s_sock l2)] s2
        (log_call (GetPeerName (s_sock l2)) (log_call (GetSockName (s_sock l2)) s2))"
        by (simp add: adds_def log_call_def)
      from that[OF _ this, of "l2\<lparr>portSrc := sp, srcName := sn, portDst := dp, dstName := dn\<rparr>"] True l2 o
      show thesis by simp
    next
      case False
      then show thesis using l2 by (intro that[of l2 s2 "[]"]) (simp_all add: ret_apply)
    qed
    have ls: "log_sent os fid f l2 s2 = (let size = (if f_l7Proto f = S_L7_TELNET then s_size l3 - 20 else s_size l3);
          time = fst (lastTime l3) smod 86400
      in s_log_record os (\<lambda>i. writeInBufferStandard i (htonl (of_int fid)) (htonl (s_seqNum l3))
           (srcName l3) (dstName l3) (portSrc l3) (portDst l3) time time
           (snd (lastTime l3)) (snd (lastTime l3)) (of_int size)) (l3\<lparr>s_size := size\<rparr>)) s3"
      unfolding log_sent_def using a(1) by (simp add: bnd_def)
    define l4 where "l4 = l3\<lparr>s_size := (if f_l7Proto f = S_L7_TELNET then s_size l3 - 20 else s_size l3)\<rparr>"
    have "s_count l4 < length (s_infos l4)" "length (s_infos l4) = unat (s_buffer_size s3)" "logremoto s3 = 0"
      using False assms(4) a st adds_fields[OF a(2)] by (simp_all add: log_room_def l4_def)
    then obtain l' s' h where r: "log_sent os fid f l2 s2 = (Ret l', s')" "adds h s3 s'" "lastTime l' = lastTime l4"
      "tick_count l' = tick_count l4" "indexVectTime l' = indexVectTime l4" "length (s_infos l') = length (s_infos l4)" "s_count l' < length (s_infos l')"
      using s_log_record_returns[of l4 s3 os] unfolding ls Let_def l4_def[symmetric] by blast
    have "send_packet os fid f l s = (Ret l', s')" using run False r(1) om st by auto
    moreover note adds_trans[OF adds_trans[OF g a(2)] r(2)]
    moreover have "log_room l' s'"
      using False assms(4) r a st adds_fields[OF r(2)] adds_fields[OF a(2)] by (simp add: log_room_def l4_def)
    ultimately show ?thesis using r a
      by (intro exI[of _ l'] exI[of _ s'] exI[of _ "h @ k @ g"]) (auto simp: l4_def)
  qed
qed

definition live_flow :: "os \<Rightarrow> rat \<Rightarrow> rat \<Rightarrow> nat \<Rightarrow> 'f send_flow_scheme \<Rightarrow> bool" where
  "live_flow os d w fuel f \<longleftrightarrow> one_way f \<and> f_payloadBuffer f = [] \<and> clock_advances os d \<and>
     waits_up_to w f \<and> w \<le> d * 2 ^ 51 \<and> w \<le> of_nat fuel * (d / 2)"

lemma thread_live_cong:
  "thread_live os f l s \<Longrightarrow> adds h s s' \<Longrightarrow> lastTime l' = lastTime l \<Longrightarrow> s_infos l' = s_infos l \<Longrightarrow>
     s_count l' = s_count l \<Longrightarrow> indexVectTime l' = indexVectTime l \<Longrightarrow>
     thread_live os f l' (s' :: 'a sender_state_scheme)"
  using clock_read_adds adds_fields by (fastforce simp: thread_live_def log_room_def times_left_def)

lemma send_round_returns:
  fixes s :: "'a sender_state_scheme"
  assumes "live_flow os d w fuel f" "thread_live os f l s" "logremoto s = 0"
  shows "\<exists>l' s'. send_round os fid f (Suc fuel) l s = (Ret l', s') \<and> thread_live os f l' s'"
proof -
  have lf: "one_way f" "f_payloadBuffer f = []" "f_meter f \<noteq> S_METER_RTTM"
    using assms(1) by (simp_all add: live_flow_def one_way_def)
  let ?l0 = "l\<lparr>tick_count := 0\<rparr>"
  let ?s0 = "log_call GetTime s"
  have "log_room ?l0 ?s0" "logremoto ?s0 = 0"
    using assms(2,3) by (auto simp: thread_live_def log_room_def log_call_def)
  from send_packet_returns[OF lf(2,1) this(2,1), of os fid] obtain l1 s1 h where
    a: "send_packet os fid f ?l0 ?s0 = (Ret l1, s1)" "adds h ?s0 s1" "lastTime l1 = lastTime l"
      "tick_count l1 = 0" "indexVectTime l1 = indexVectTime l" "log_room l1 s1" by auto
  have ad: "adds (h @ [GetTime]) s s1" using adds_trans[OF adds_call a(2)] .
  have "thread_live os f (next_size f l1) s1"
    using assms(2) a(3-6) clock_read_adds[OF _ ad, of os l "next_size f l1"]
    by (auto simp: thread_live_def log_room_def times_left_def next_size_def)
  moreover have "tick_count (next_size f l1) = 0"
    using a(4) by (simp add: next_size_def)
  ultimately obtain l2 s2 where
    c: "pace os fid f (Suc fuel) (snd (lastTime l)) (next_size f l1) s1 = (Ret l2, s2)" "thread_live os f l2 s2"
    using pace_returns[of os d f w fuel] assms(1) lf(3) unfolding live_flow_def by blast
  define l3 where "l3 = l2\<lparr>s_seqNum := s_seqNum l2 + 1, byteSent := byteSent l2 + of_int (sockchk l2),
    OnDuration := rnd (OnDuration l2 - elapsed_ms (os_time os (GetTime # hist s)) (os_time os (GetTime # hist s2)))\<rparr>"
  have "send_round os fid f (Suc fuel) l s = (Ret l3, log_call GetTime s2)"
    unfolding send_round_def s_time_now_apply(2)
    by (simp add: bnd_Ret[where m = "send_packet os fid f ?l0", OF a(1)]
      bnd_Ret[where m = "pace os fid f (Suc fuel) (snd (lastTime l)) (next_size f l1)", OF c(1)]
      s_time_now_apply ret_apply l3_def)
  moreover have "thread_live os f l3 (log_call GetTime s2)"
    by (rule thread_live_cong[OF c(2) adds_call]) (simp_all add: l3_def)
  ultimately show ?thesis by blast
qed

lemma burst_pause_returns:
  fixes s :: "'a sender_state_scheme"
  assumes "thread_live os f l s"
  shows "\<exists>l' s'. burst_pause f l s = (Ret l', s') \<and> thread_live os f l' s'"
proof (cases "f_bursty f")
  case True
  define c where "c = Sleep (nat (fst (off_time (f_OffPeriod f (drawnOffs l))) * 1000000 + snd (off_time (f_OffPeriod f (drawnOffs l)))))"
  show ?thesis using True thread_live_cong[OF assms adds_call[of c]]
    by (simp add: burst_pause_def proc_simps Let_def c_def)
next
  case False
  then show ?thesis using assms by (simp add: burst_pause_def ret_apply)
qed

lemma unat_next:
  assumes "unat (q - 1 :: u32) < unat (m :: u32)"
  shows "unat (q + 1 - 1) = unat (q - 1) + 1"
proof -
  obtain p where q: "q = p + 1" by (metis diff_add_cancel)
  have "unat m < 2 ^ 32" using unsigned_less[of m] by simp
  then have "unat p + 1 < 2 ^ 32" using assms by (simp add: q)
  then have "unat (p + 1) = unat p + 1" by (simp add: unat_word_ariths(1))
  then show ?thesis by (simp add: q add.commute[of 1])
qed

lemma send_loop_returns:
  fixes s :: "'a sender_state_scheme"
  assumes "live_flow os d w fuel f"
  shows "thread_live os f l s \<Longrightarrow> thread_ready fid f l \<Longrightarrow> logremoto s = 0 \<Longrightarrow>
    unat (s_seqNum l - 1) < unat (fst (snd (limits f))) \<Longrightarrow>
    unat (fst (snd (limits f))) \<le> unat (s_seqNum l - 1) + n \<Longrightarrow>
    \<exists>l' s'. send_loop os fid f (Suc fuel) n l s = (Ret l', s') \<and> \<not> goes_on f l' \<and>
      unat (s_seqNum l - 1) < unat (s_seqNum l' - 1) \<and> unat (s_seqNum l' - 1) \<le> unat (fst (snd (limits f)))"
proof (induction n arbitrary: l s)
  case 0
  then show ?case by simp
next
  case (Suc n)
  let ?m = "fst (snd (limits f))"
  have ow: "one_way f" using assms by (simp add: live_flow_def)
  from send_round_returns[OF assms Suc.prems(1,3), of fid] obtain l1 s1 where
    a: "send_round os fid f (Suc fuel) l s = (Ret l1, s1)" "thread_live os f l1 s1" by blast
  from send_round_effect[OF a(1) ow Suc.prems(2,3)] obtain h where
    h: "adds h s s1" "s_seqNum l1 = s_seqNum l + 1" "thread_ready fid f l1" by blast
  have go: "unat (s_seqNum x - 1) < unat ?m" if "goes_on f x" for x
    using that by (auto simp: goes_on_def word_less_nat_alt split: prod.splits)
  have q: "unat (s_seqNum l1 - 1) = unat (s_seqNum l - 1) + 1"
    unfolding h(2) by (rule unat_next[OF Suc.prems(4)])
  from burst_pause_returns[OF a(2)] obtain l2 s2 where
    p: "burst_pause f l1 s1 = (Ret l2, s2)" "thread_live os f l2 s2" by blast
  from burst_pause_effect[OF p(1), of os] obtain g where
    g: "adds g s1 s2" "kept l1 l2" "s_payload l2 = s_payload l1" "s_size l2 = s_size l1" by blast
  have l2: "thread_ready fid f l2" "s_seqNum l2 = s_seqNum l1" "logremoto s2 = 0" "logremoto s1 = 0"
    using g h(3) adds_fields[OF h(1)] adds_fields[OF g(1)] Suc.prems(3) by (simp_all add: kept_def thread_ready_def)
  have run: "send_loop os fid f (Suc fuel) (Suc n) l s =
     (if OnDuration l1 > 0 \<and> goes_on f l1 then send_loop os fid f (Suc fuel) n l1 s1
      else if goes_on f l2 then send_loop os fid f (Suc fuel) n l2 s2 else (Ret l2, s2))"
    unfolding send_loop.simps using a(1) p(1) by (simp add: bnd_def ret_apply)
  consider (go1) "OnDuration l1 > 0 \<and> goes_on f l1" | (go2) "\<not> (OnDuration l1 > 0 \<and> goes_on f l1)" "goes_on f l2"
    | (stop) "\<not> (OnDuration l1 > 0 \<and> goes_on f l1)" "\<not> goes_on f l2" by blast
  then show ?case
  proof cases
    case go1
    then show ?thesis using Suc.IH[OF a(2) h(3) l2(4)] go[of l1] q Suc.prems(5) run by fastforce
  next
    case go2
    then show ?thesis using Suc.IH[OF p(2) l2(1,3)] go[of l2] q Suc.prems(5) run l2(2) by fastforce
  next
    case stop
    then show ?thesis using run q l2(2) Suc.prems(4) by auto
  qed
qed

lemma limits_packets: "fst (snd (limits f)) \<noteq> 0"
  by (simp add: limits_def Let_def)

text \<open>C10: a flow ends: under a clock that advances, with times to wait that are bounded, the loop over
  the packets of a flow with one way delay returns, for any random sizes and times, after at
  least one packet and at most as many as the flow was given, and it stops because one of its
  limits is reached.\<close>

theorem flow_ends:
  assumes "live_flow os d w fuel f" "thread_live os f l s" "thread_ready fid f l" "logremoto s = 0"
    and "s_seqNum l = 1" "unat (fst (snd (limits f))) \<le> n"
  shows "\<exists>l' s'. send_loop os fid f (Suc fuel) n l s = (Ret l', s') \<and> \<not> goes_on f l' \<and>
    1 \<le> unat (s_seqNum l' - 1) \<and> unat (s_seqNum l' - 1) \<le> unat (fst (snd (limits f)))"
proof -
  have "0 < unat (fst (snd (limits f)))" using limits_packets[of f] by (simp add: unat_gt_0)
  then show ?thesis
    using send_loop_returns[OF assms(1-4), of n] assms(5,6) by fastforce
qed

subsection \<open>The packets and the records\<close>

text \<open>C5: the messages that a flow sends are numbered from 1 without gaps, and from each of them, at the
  start of the receiver's buffer, payload_record of the receiver makes a record with the id of the
  flow, that number and the length of the message; over TCP the size that TCPrecvPacket looks
  for in the preamble is that length.\<close>

theorem sent_packets_identified:
  assumes "send_loop os fid f fuel n l s = (Ret l', s')" "one_way f" "f_payloadLogType f \<noteq> PL_NONE"
    and "thread_ready fid f l" "logremoto s = 0" "s_seqNum l = 1" "payloadLogType fs = f_payloadLogType f"
  shows "\<exists>pkts. sent (s_sock l) (hist s') = sent (s_sock l) (hist s) @ pkts \<and> pkts \<noteq> [] \<and>
    s_seqNum l' = 1 + of_nat (length pkts) \<and>
    (\<forall>i < length pkts. \<forall>loc rest now i0.
       let r = payload_record fs (loc\<lparr>payload := pkts ! i @ rest\<rparr>) now (int (length (pkts ! i))) i0
       in flowId r = of_int fid \<and> seqNum r = 1 + of_nat i \<and> size r = of_nat (length (pkts ! i)) \<and>
          (f_l4Proto f = L4_TCP \<longrightarrow> size_offset (f_payloadLogType f) = Some (ptrSize f) \<and>
             size_field (pkts ! i @ rest) (ptrSize f) = int (length (pkts ! i))))"
proof -
  have kt: "known_type f" and pl: "f_payloadLogType f = 0 \<or> f_payloadLogType f = 1"
    using assms(2,3) by (auto simp: one_way_def known_type_def)
  from send_loop_effect[OF assms(1,2,4,5)] obtain h xs where
    h: "adds h s s'" "xs \<noteq> []" "sent (s_sock l) h = map (\<lambda>(t, z, p, rs). p) xs"
      "rounds_ok os fid f s (s_sock l) 1 xs" "s_seqNum l' = 1 + of_nat (length xs)"
    unfolding assms(6) by blast
  show ?thesis
  proof (intro exI[of _ "map (\<lambda>(t, z, p, rs). p) xs"] conjI allI impI)
    show "sent (s_sock l) (hist s') = sent (s_sock l) (hist s) @ map (\<lambda>(t, z, p, rs). p) xs"
      by (simp add: adds_hist[OF h(1)] sent_append h(3))
  next
    fix i loc rest now i0
    assume i: "i < length (map (\<lambda>(t, z, p, rs). p) xs)"
    obtain t z p rs where x: "xs ! i = (t, z, p, rs)" by (cases "xs ! i") auto
    have pk: "packet_of fid f (1 + of_nat i) t z p"
      using h(4) i x by (auto simp: rounds_ok_def round_ok_def)
    have z: "z = int (length p)" "length p \<le> MAX_PAYLOAD_SIZE" using pk by (auto simp: packet_of_def)
    have sz: "sint (of_int (int (length p)) :: u32) = int (length p)"
      using z(2) by (intro sint_u32_small) (simp_all add: MAX_PAYLOAD_SIZE_def)
    note pf = packet_fields[OF pk kt, where rest = rest]
    have "has_size f \<Longrightarrow> size_field (p @ rest) (ptrSize f) = int (length p)"
      using pf(5) sz by (simp add: size_field_def z(1))
    then show "let r = payload_record fs (loc\<lparr>payload := map (\<lambda>(t, z, p, rs). p) xs ! i @ rest\<rparr>) now
          (int (length (map (\<lambda>(t, z, p, rs). p) xs ! i))) i0
       in flowId r = of_int fid \<and> seqNum r = 1 + of_nat i \<and> size r = of_nat (length (map (\<lambda>(t, z, p, rs). p) xs ! i)) \<and>
          (f_l4Proto f = L4_TCP \<longrightarrow> size_offset (f_payloadLogType f) = Some (ptrSize f) \<and>
             size_field (map (\<lambda>(t, z, p, rs). p) xs ! i @ rest) (ptrSize f) = int (length (map (\<lambda>(t, z, p, rs). p) xs ! i)))"
      using i pf(1,2) pl assms(7)
      by (auto simp: x payload_record_def Let_def writeInBufferStandard_def writeInBufferShort_def has_size_def
        size_offset_def ptrSize_def)
  qed (use h in simp_all)
qed

text \<open>The end of the thread writes what is left in the buffer.\<close>

lemma finish_flow_writes:
  fixes s :: "'a sender_state_scheme"
  assumes "finish_flow os fid f l s = (Ret (), s')" "logging s \<noteq> 0" "logremoto s = 0"
  shows "\<exists>h. adds h s s' \<and> written 0 h = buffer_bytes os l \<and> sent k h = []"
proof -
  define c where "c = nat (f_sigChanId f)"
  define w where "w = PipeWrite c (u32_mem (of_int fid) @ u32_mem (of_int MSG_SM_ENDFLOW))"
  define g where "g = (if s_infos l \<noteq> [] then [MutexUnlock ''mutexLog'', FFlush 0, FWrite 0 (buffer_bytes os l), MutexLock ''mutexLog''] else [])"
  have "s' = s\<lparr>hist := w # Close (s_sock l) # g @ hist s\<rparr>"
  proof (cases "s_infos l = []")
    case True
    then show ?thesis using assms
      by (auto simp: finish_flow_def s_pipe_msg_def proc_simps thread_apply Let_def w_def c_def g_def log_call_def
        split: if_splits)
  next
    case False
    then show ?thesis using assms
      by (auto simp: finish_flow_def s_pipe_msg_def proc_simps thread_apply Let_def w_def c_def g_def
        s_flushBuffer_run log_call_def split: if_splits)
  qed
  then have "adds (w # Close (s_sock l) # g) s s'" by (simp add: adds_def)
  moreover have "written 0 (w # Close (s_sock l) # g) = buffer_bytes os l" "sent k (w # Close (s_sock l) # g) = []"
    by (simp_all add: w_def g_def buffer_bytes_def)
  ultimately show ?thesis by blast
qed

lemma concat_singletons: "(\<forall>x \<in> set xs. \<exists>y. g x = [y]) \<Longrightarrow> concat (map g xs) = map (\<lambda>x. hd (g x)) xs"
  by (induction xs) fastforce+

text \<open>C6: the sender's log: when the thread has ended, the local log file has grown by one record per
  message sent, in their order, with the flow's id, the message's number and, but for telnet,
  its length; provided that no send fails.\<close>

theorem sender_log:
  assumes "bnd (send_loop os fid f fuel n l) (finish_flow os fid f) s = (Ret (), s')"
    and "one_way f" "thread_ready fid f l" "logremoto s = 0" "logging s \<noteq> 0" "s_count l = 0"
    and "\<forall>bs h. 0 \<le> os_int os (Send (s_sock l) bs # h)"
  shows "\<exists>pkts recs. sent (s_sock l) (hist s') = sent (s_sock l) (hist s) @ pkts \<and> pkts \<noteq> [] \<and>
    written 0 (hist s') = written 0 (hist s) @ concat (map (os_image os) recs) \<and> length recs = length pkts \<and>
    (\<forall>i < length pkts. flowId (recs ! i) = of_int fid \<and> seqNum (recs ! i) = s_seqNum l + of_nat i \<and>
       (f_l7Proto f \<noteq> S_L7_TELNET \<longrightarrow> size (recs ! i) = of_nat (length (pkts ! i))))"
proof -
  obtain l1 s1 where a: "send_loop os fid f fuel n l s = (Ret l1, s1)" and b: "finish_flow os fid f l1 s1 = (Ret (), s')"
    using assms(1) by (rule bnd_RetE)
  from send_loop_effect[OF a assms(2-4)] obtain h xs where
    h: "adds h s s1" "xs \<noteq> []" "sent (s_sock l) h = map (\<lambda>(t, z, p, rs). p) xs"
      "rounds_ok os fid f s (s_sock l) (s_seqNum l) xs"
      "written 0 h @ buffer_bytes os l1 = buffer_bytes os l @
         concat (map (os_image os) (concat (map (\<lambda>(t, z, p, rs). rs) xs)))" by blast
  have "logging s1 \<noteq> 0" "logremoto s1 = 0" using adds_fields[OF h(1)] assms(4,5) by simp_all
  from finish_flow_writes[OF b this, of "s_sock l"] obtain g where
    g: "adds g s1 s'" "written 0 g = buffer_bytes os l1" "sent (s_sock l) g = []" by blast
  define rof where "rof = (\<lambda>(t :: int \<times> int, z :: int, p :: bytes, rs :: info list). rs)"
  have r: "\<exists>r. rof (xs ! i) = [r] \<and> record_of fid f (s_seqNum l + of_nat i) (fst (xs ! i)) (fst (snd (xs ! i))) r \<and>
      packet_of fid f (s_seqNum l + of_nat i) (fst (xs ! i)) (fst (snd (xs ! i))) (fst (snd (snd (xs ! i))))"
    if "i < length xs" for i
    using h(4) that assms(5,7) unfolding rounds_ok_def round_ok_def rof_def
    by (cases "xs ! i") (fastforce simp: logged_as_def)
  then have "\<forall>x \<in> set xs. \<exists>y. rof x = [y]" by (metis in_set_conv_nth)
  from concat_singletons[OF this] have c: "concat (map rof xs) = map (\<lambda>x. hd (rof x)) xs" .
  show ?thesis
  proof (intro exI[of _ "map (\<lambda>(t, z, p, rs). p) xs"] exI[of _ "map (\<lambda>x. hd (rof x)) xs"] conjI allI impI)
    show "written 0 (hist s') = written 0 (hist s) @ concat (map (os_image os) (map (\<lambda>x. hd (rof x)) xs))"
      using h(5) g(2) c assms(6)
      by (simp add: adds_hist[OF h(1)] adds_hist[OF g(1)] written_append rof_def buffer_bytes_def)
    show "sent (s_sock l) (hist s') = sent (s_sock l) (hist s) @ map (\<lambda>(t, z, p, rs). p) xs"
      by (simp add: adds_hist[OF h(1)] adds_hist[OF g(1)] sent_append h(3) g(3))
  next
    fix i assume "i < length (map (\<lambda>(t, z, p, rs). p) xs)"
    then have i: "i < length xs" by simp
    obtain y where y: "rof (xs ! i) = [y]" "record_of fid f (s_seqNum l + of_nat i) (fst (xs ! i)) (fst (snd (xs ! i))) y"
      "packet_of fid f (s_seqNum l + of_nat i) (fst (xs ! i)) (fst (snd (xs ! i))) (fst (snd (snd (xs ! i))))"
      using r[OF i] by blast
    show "flowId (map (\<lambda>x. hd (rof x)) xs ! i) = of_int fid"
      "seqNum (map (\<lambda>x. hd (rof x)) xs ! i) = s_seqNum l + of_nat i"
      using i y by (simp_all add: record_of_def)
    show "size (map (\<lambda>x. hd (rof x)) xs ! i) = of_nat (length (map (\<lambda>(t, z, p, rs). p) xs ! i))"
      if "f_l7Proto f \<noteq> S_L7_TELNET"
      using i y that by (cases "xs ! i") (auto simp: record_of_def packet_of_def)
  qed (use h in simp_all)
qed

subsection \<open>Examples\<close>

text \<open>A host on which every call succeeds and every call takes a second; a UDP flow of three packets of
  512 bytes, one a second, and its thread before the first packet.\<close>

definition snd_os :: os where
  "snd_os = os_ok\<lparr>os_int := (\<lambda>h. 512), os_time := (\<lambda>h. (int (length h), 0))\<rparr>"

definition snd_flow :: "unit send_flow_scheme" where
  "snd_flow = \<lparr>f_SrcHost = any_addr, f_DestHost = any_addr, f_meter = 1, f_l4Proto = L4_UDP, f_l7Proto = 0,
     f_DSByte = 0, f_sigChanId = 0, f_serialReceiver = [], f_payloadLogType = PL_STANDARD,
     f_srcAddrSpecify = False, f_dstAddrSpecify = False, f_SigDestHost = any_addr, f_SigSrcHost = None,
     f_SigSrcPort = 0, f_SigInterface = None, f_icmptype = 8, f_Duration = 10000, f_TTL = 0, f_Nagle = True,
     f_iface = None, f_srcPortSpecify = False, f_serial = -1, f_minPayloadSize = 16, f_payloadBuffer = [],
     f_mean_adjustment = 1, f_vectSize = [], f_vectTime = [], f_numPacket = 3, f_KBToSend = 0,
     f_pollingMode = False, f_Delay = 0, f_PktSize = (\<lambda>n. 512), f_IntArriv = (\<lambda>n. 1000), f_bursty = False,
     f_OnPeriod = (\<lambda>n. 0), f_OffPeriod = (\<lambda>n. 0)\<rparr>"

definition snd_demo :: "unit sender_state_scheme" where
  "snd_demo = \<lparr>hist = [GetTime], flows = [],
     signalChannels = [\<lparr>ch_socket = 0, ch_flows = 1, ch_DestAddr = any_addr, ch_errorLog = False, ch_pipe = 0\<rparr>],
     s_multiFlows = False, s_passiveMode = False, okToNewSignalingChan = True, globalSigAddr = [],
     signalChanCount = 1, logging = 1, logremoto = 0, s_logSock = 0, s_logSockSignaling = 0,
     s_logHost = any_addr, s_logFile = [], namelogReceiver = 0, logServer = 0, logFileReceiver = [],
     serverLogReceiver = any_addr, protoTx_ServerLogReceiver = 0, termsock = False, s_buffer_size = 2,
     isFirstThread = 0, isFirstThreadRttm = 0, RifTime = (0, 0)\<rparr>"

definition snd_thread :: snd_loc where
  "snd_thread = next_size snd_flow (snd_loc_init snd_flow
     (put_id 7 snd_flow (replicate MAX_PAYLOAD_SIZE 0)) [info0, info0] 5 (end_of (1, 0) (fst (limits snd_flow))) (1, 0))"

lemma half_rnd: "0 \<le> x \<Longrightarrow> x / 2 \<le> rnd x"
proof -
  assume "0 \<le> x"
  then have "\<bar>rnd x - x\<bar> \<le> x / 2 ^ 53" using rnd_error[of x] by simp
  then have "x - x / 2 ^ 53 \<le> rnd x" by linarith
  then show "x / 2 \<le> rnd x" using \<open>0 \<le> x\<close> by simp
qed

lemma snd_clock: "clock_advances snd_os 1"
proof -
  have "1 \<le> elapsed_ms (int (Suc (length h)), 0) (int (Suc (length (g @ GetTime # h))), 0)" for h g
  proof -
    define k where "k = int (length g) + 1"
    have k: "1 \<le> (of_int k :: rat)" by (simp add: k_def)
    have z: "rnd 0 = 0" by (simp add: rnd_def)
    have a: "1 / 2 \<le> rnd (of_int k)" using half_rnd[of "of_int k"] k by simp
    then have b: "250 \<le> rnd (rnd (of_int k) * 1000)" using half_rnd[of "rnd (of_int k) * 1000"] by simp
    then have "125 \<le> rnd (rnd (rnd (of_int k) * 1000))" using half_rnd[of "rnd (rnd (of_int k) * 1000)"] by simp
    then show ?thesis by (simp add: elapsed_ms_def z k_def algebra_simps)
  qed
  then show ?thesis by (simp add: clock_advances_def snd_os_def)
qed

lemma snd_thread_facts:
  "live_flow snd_os 1 1000 2000 snd_flow" "thread_live snd_os snd_flow snd_thread snd_demo"
  "thread_ready 7 snd_flow snd_thread" "logremoto snd_demo = 0" "s_seqNum snd_thread = 1"
  "unat (fst (snd (limits snd_flow))) \<le> 3" "one_way snd_flow" "s_count snd_thread = 0" "s_sock snd_thread = 5"
proof -
  show "live_flow snd_os 1 1000 2000 snd_flow"
    using snd_clock by (simp add: live_flow_def one_way_def known_type_def waits_up_to_def snd_flow_def L4_UDP_def L4_ICMP_def)
  have l: "snd_thread = (snd_loc_init snd_flow (put_id 7 snd_flow (replicate MAX_PAYLOAD_SIZE 0)) [info0, info0] 5
      (end_of (1, 0) (fst (limits snd_flow))) (1, 0))\<lparr>s_size := 512, drawnSizes := 1\<rparr>"
    by (simp add: snd_thread_def next_size_def limit_size_def snd_loc_init_def snd_flow_def has_size_def
      L4_UDP_def L4_TCP_def MAX_PAYLOAD_SIZE_def)
  show "thread_live snd_os snd_flow snd_thread snd_demo"
    unfolding thread_live_def clock_read_def
    by (intro conjI exI[of _ "[] :: call list"])
      (simp_all add: l snd_loc_init_def snd_demo_def snd_os_def log_room_def times_left_def snd_flow_def)
  show "thread_ready 7 snd_flow snd_thread"
  proof -
    define buf where "buf = put_at 0 (u32_mem (htonl 7)) (replicate MAX_PAYLOAD_SIZE 0)"
    have "0 + 4 \<le> length (replicate MAX_PAYLOAD_SIZE (0 :: u8))" by (simp add: MAX_PAYLOAD_SIZE_def)
    from put_u32(1,2)[OF this] have "length buf = MAX_PAYLOAD_SIZE" "take 4 buf = u32_mem (htonl 7)"
      by (simp_all add: buf_def)
    moreover have "s_payload snd_thread = buf"
      by (simp add: l snd_loc_init_def put_id_def buf_def snd_flow_def)
    ultimately show ?thesis
      by (simp add: thread_ready_def has_id_def l snd_loc_init_def snd_flow_def ptrToTruePayload_def has_size_def
        MAX_PAYLOAD_SIZE_def L4_UDP_def L4_TCP_def)
  qed
  show "unat (fst (snd (limits snd_flow))) \<le> 3" by (simp add: limits_def snd_flow_def Let_def)
  show "one_way snd_flow"
    by (simp add: one_way_def known_type_def snd_flow_def L4_UDP_def L4_ICMP_def)
qed (simp_all add: snd_demo_def snd_thread_def next_size_def snd_loc_init_def)

theorem flow_ends_witness:
  "\<exists>l' s'. send_loop snd_os 7 snd_flow 2001 3 snd_thread snd_demo = (Ret l', s') \<and> \<not> goes_on snd_flow l' \<and>
    1 \<le> unat (s_seqNum l' - 1) \<and> unat (s_seqNum l' - 1) \<le> unat (fst (snd (limits snd_flow)))"
  using flow_ends[OF snd_thread_facts(1-6)] by (simp add: numeral_eq_Suc)

lemma snd_run: "\<exists>l' s'. send_loop snd_os 7 snd_flow 2001 3 snd_thread snd_demo = (Ret l', s')"
proof -
  have "unat (s_seqNum snd_thread - 1) < unat (fst (snd (limits snd_flow)))"
    "unat (fst (snd (limits snd_flow))) \<le> unat (s_seqNum snd_thread - 1) + 3"
    by (simp_all add: snd_thread_facts(5) limits_def snd_flow_def Let_def)
  from send_loop_returns[OF snd_thread_facts(1-4) this] show ?thesis by (auto simp: numeral_eq_Suc)
qed

theorem sent_packets_identified_witness:
  "\<exists>l' s' pkts. send_loop snd_os 7 snd_flow 2001 3 snd_thread snd_demo = (Ret l', s') \<and>
    sent 5 (hist s') = pkts \<and> pkts \<noteq> [] \<and>
    (\<forall>i < length pkts. \<forall>loc rest now i0.
       let r = payload_record (slot_demo\<lparr>payloadLogType := 0\<rparr>) (loc\<lparr>payload := pkts ! i @ rest\<rparr>) now (int (length (pkts ! i))) i0
       in flowId r = 7 \<and> seqNum r = 1 + of_nat i)"
proof -
  obtain l' s' where r: "send_loop snd_os 7 snd_flow 2001 3 snd_thread snd_demo = (Ret l', s')" using snd_run by blast
  have "f_payloadLogType snd_flow \<noteq> PL_NONE" "payloadLogType (slot_demo\<lparr>payloadLogType := 0\<rparr>) = f_payloadLogType snd_flow"
    by (simp_all add: snd_flow_def)
  from sent_packets_identified[OF r snd_thread_facts(7) this(1) snd_thread_facts(3-5) this(2)] r show ?thesis
    by (fastforce simp: snd_thread_facts(9) snd_demo_def Let_def)
qed

theorem sender_log_witness:
  "\<exists>s' pkts recs. bnd (send_loop snd_os 7 snd_flow 2001 3 snd_thread) (finish_flow snd_os 7 snd_flow) snd_demo = (Ret (), s') \<and>
    sent 5 (hist s') = pkts \<and> pkts \<noteq> [] \<and> written 0 (hist s') = concat (map (os_image snd_os) recs) \<and>
    length recs = length pkts \<and> (\<forall>i < length pkts. seqNum (recs ! i) = 1 + of_nat i)"
proof -
  obtain l' s1 where r: "send_loop snd_os 7 snd_flow 2001 3 snd_thread snd_demo = (Ret l', s1)" using snd_run by blast
  from send_loop_effect[OF r snd_thread_facts(7,3,4)] obtain h where "adds h snd_demo s1" by blast
  then have "logremoto s1 = 0" "signalChannels s1 = signalChannels snd_demo"
    using adds_fields by (simp_all add: snd_demo_def adds_def)
  then have "\<exists>s'. finish_flow snd_os 7 snd_flow l' s1 = (Ret (), s')"
    by (simp add: finish_flow_def s_pipe_msg_def proc_simps thread_apply s_flushBuffer_run snd_flow_def snd_demo_def log_call_def)
  then obtain s' where f: "bnd (send_loop snd_os 7 snd_flow 2001 3 snd_thread) (finish_flow snd_os 7 snd_flow) snd_demo = (Ret (), s')"
    using r by (auto simp: bnd_def)
  have "logging snd_demo \<noteq> 0" "\<forall>bs h. 0 \<le> os_int snd_os (Send (s_sock snd_thread) bs # h)"
    by (simp_all add: snd_demo_def snd_os_def)
  from sender_log[OF f snd_thread_facts(7,3,4) this(1) snd_thread_facts(8) this(2)] f show ?thesis
    by (fastforce simp: snd_thread_facts(5,9) snd_demo_def)
qed
end
