(* ===== verification/FlowStart_Facts.thy ===== *)
theory FlowStart_Facts
  imports FlowSender_Facts LogServer
begin

text \<open>The start of a flow of ITGSend: it does not begin before its delay has passed, and the log server
  understands the message with which the sender's log is opened.\<close>

subsection \<open>The delay\<close>

definition usecs :: "int \<times> int \<Rightarrow> int" where
  "usecs t = fst t * 1000000 + snd t"

definition proper_time :: "int \<times> int \<Rightarrow> bool" where
  "proper_time t \<longleftrightarrow> 0 \<le> fst t \<and> 0 \<le> snd t \<and> snd t < 1000000"

lemma timeval_subtract_proper:
  assumes "proper_time x" "proper_time y"
  shows "usecs (fst (timeval_subtract x y)) = usecs x - usecs y"
    and "snd (timeval_subtract x y) \<longleftrightarrow> usecs x < usecs y"
proof -
  have "(snd y - snd x) sdiv 1000000 = 0" if "snd x < snd y"
    using that assms by (simp add: sdiv_nonneg proper_time_def)
  then show "usecs (fst (timeval_subtract x y)) = usecs x - usecs y"
    "snd (timeval_subtract x y) \<longleftrightarrow> usecs x < usecs y"
    using assms by (auto simp: timeval_subtract_def Let_def usecs_def proper_time_def)
qed

lemma uint_u64_of_int: "0 \<le> t \<Longrightarrow> t < 2 ^ 64 \<Longrightarrow> uint (of_int t :: u64) = t"
  by (simp add: uint_word_of_int)

lemma uint_u64_add:
  "uint (a :: u64) + uint b < 2 ^ 64 \<Longrightarrow> uint (a + b) = uint a + uint b"
  by (simp add: uint_word_ariths(1))

lemma uint_u64_mult:
  "uint (a :: u64) * uint b < 2 ^ 64 \<Longrightarrow> uint (a * b) = uint a * uint b"
  by (simp add: uint_word_ariths(3))

lemma sint_u64_small: "uint (w :: u64) < 2 ^ 63 \<Longrightarrow> sint w = uint w"
proof -
  assume a: "uint w < 2 ^ 63"
  have "0 \<le> uint w" by simp
  then have "- (2 ^ 63) \<le> uint w" by (rule order_trans[rotated]) simp
  with a show "sint w = uint w" by (simp add: sint_uint signed_take_bit_int_eq_self)
qed

lemma start_time_usecs:
  assumes "proper_time r" "fst r < 2 ^ 40" "uint D < 2 ^ 40"
  shows "usecs (start_time r D) = usecs r + 1000 * uint D" "proper_time (start_time r D)"
proof -
  define U where "U = snd r + (uint D mod 1000) * 1000"
  have U: "0 \<le> U" "U < 2000000" using assms(1) by (auto simp: U_def proper_time_def)
  have m: "uint ((D mod 1000) * 1000) = (uint D mod 1000) * 1000"
    by (subst uint_u64_mult) (simp_all add: uint_mod order_less_trans[OF mult_strict_right_mono[OF pos_mod_bound]])
  have s: "uint (of_int (snd r) :: u64) = snd r"
    using assms(1) by (intro uint_u64_of_int) (simp_all add: proper_time_def)
  have u: "uint (of_int (snd r) + (D mod 1000) * 1000 :: u64) = U"
    using U by (subst uint_u64_add) (simp_all add: m s U_def)
  have f: "uint (of_int (fst r) :: u64) = fst r"
    using assms(1,2) by (intro uint_u64_of_int) (simp_all add: proper_time_def)
  have d: "uint (D div 1000) = uint D div 1000" by (simp add: uint_div)
  have d2: "uint D div 1000 < 2 ^ 40" "0 \<le> uint D div 1000" using assms(3) by (simp_all add: pos_imp_zdiv_nonneg_iff)
  have q: "uint ((of_int (snd r) + (D mod 1000) * 1000) div 1000000 :: u64) = U div 1000000"
    using u by (simp add: uint_div)
  have qb: "0 \<le> U div 1000000" "U div 1000000 < 2" using U by auto
  have a: "uint (of_int (fst r) + D div 1000 :: u64) = fst r + uint D div 1000"
    using d2 assms(2) by (subst uint_u64_add) (simp_all add: f d)
  have b: "uint (of_int (fst r) + D div 1000 + (of_int (snd r) + (D mod 1000) * 1000) div 1000000 :: u64) =
      fst r + uint D div 1000 + U div 1000000"
    using d2 qb assms(2) by (subst uint_u64_add) (simp_all add: a q)
  have st: "start_time r D = (fst r + uint D div 1000 + U div 1000000, U mod 1000000)"
    using u b d2 qb assms(1,2) U
    by (simp add: start_time_def Let_def sint_u64_small smod_nonneg proper_time_def)
  have e1: "uint D = 1000 * (uint D div 1000) + uint D mod 1000" by simp
  have e2: "U = 1000000 * (U div 1000000) + U mod 1000000" by simp
  have "usecs (start_time r D) = 1000000 * fst r + 1000000 * (uint D div 1000) + U"
    using e2 by (simp add: st usecs_def)
  also have "\<dots> = usecs r + 1000 * uint D"
    using e1 unfolding usecs_def U_def by linarith
  finally show "usecs (start_time r D) = usecs r + 1000 * uint D" .
  show "proper_time (start_time r D)"
    unfolding st using assms(1) d2 qb U by (simp add: proper_time_def)
qed

lemma delay_loop_late:
  assumes "delay_loop os fuel start now s = (Ret (), s')" "proper_time start" "\<And>h. proper_time (os_time os h)"
    and "now = os_time os (hist s)"
  shows "usecs start < usecs (os_time os (hist s'))"
  using assms(1,4)
proof (induction fuel arbitrary: now s)
  case 0
  then show ?case by (simp add: hang_apply)
next
  case (Suc fuel)
  have pn: "proper_time now" using assms(3) Suc.prems(2) by simp
  note ts = timeval_subtract_proper[OF assms(2) pn]
  obtain rest passed where r: "timeval_subtract start now = (rest, passed)" by (cases "timeval_subtract start now")
  show ?case
  proof (cases passed)
    case True
    then show ?thesis using Suc.prems ts(2) r by (simp add: ret_apply)
  next
    case False
    define s2 where "s2 = log_call GetTime (log_call (Sleep (nat (fst rest * 1000000 + snd rest))) s)"
    have "delay_loop os fuel start (os_time os (hist s2)) s2 = (Ret (), s')"
      using Suc.prems(1) r False by (simp add: proc_simps s2_def)
    then show ?thesis using Suc.IH by blast
  qed
qed

text \<open>C17: a flow with a delay does not start early: when wait_delay returns, the clock has passed the
  time at which the sender was started by more than the delay.\<close>

theorem flow_not_early:
  assumes "wait_delay os fuel f s = (Ret (), s')" "f_Delay f \<noteq> 0" "uint (f_Delay f) < 2 ^ 40"
    and "proper_time (RifTime s)" "fst (RifTime s) < 2 ^ 40" "\<forall>h. proper_time (os_time os h)"
  shows "usecs (RifTime s) + 1000 * uint (f_Delay f) < usecs (os_time os (hist s'))"
proof -
  have "delay_loop os fuel (start_time (RifTime s) (f_Delay f)) (os_time os (hist (log_call GetTime s)))
      (log_call GetTime s) = (Ret (), s')"
    using assms(1,2) by (simp add: wait_delay_def proc_simps)
  from delay_loop_late[OF this] start_time_usecs[OF assms(4,5,3)] assms(6) show ?thesis by simp
qed

text \<open>Witness: started at second 1000.25 with a delay of 1.5 seconds, the clock shows 1001, then 1003.\<close>

definition delay_os :: os where
  "delay_os = os_ok\<lparr>os_time := (\<lambda>h. if length h = 1 then (1001, 0) else (1003, 0))\<rparr>"

definition delay_demo :: "unit sender_state_scheme" where
  "delay_demo = \<lparr>hist = [], flows = [], signalChannels = [], s_multiFlows = False, s_passiveMode = False,
     okToNewSignalingChan = True, globalSigAddr = [], signalChanCount = 0, logging = 0, logremoto = 0,
     s_logSock = 0, s_logSockSignaling = 0, s_logHost = any_addr, s_logFile = bytes_of ''snd.log'',
     namelogReceiver = 0, logServer = 0, logFileReceiver = [], serverLogReceiver = any_addr,
     protoTx_ServerLogReceiver = 0, termsock = False, s_buffer_size = 2, isFirstThread = 1,
     isFirstThreadRttm = 0, RifTime = (1000, 250000)\<rparr>"

definition delay_flow :: "unit send_flow_scheme" where
  "delay_flow = \<lparr>f_SrcHost = any_addr, f_DestHost = any_addr, f_meter = 1, f_l4Proto = L4_UDP, f_l7Proto = 0,
     f_DSByte = 0, f_sigChanId = 0, f_serialReceiver = [], f_payloadLogType = PL_STANDARD,
     f_srcAddrSpecify = False, f_dstAddrSpecify = False, f_SigDestHost = any_addr, f_SigSrcHost = None,
     f_SigSrcPort = 0, f_SigInterface = None, f_icmptype = 8, f_Duration = 10000, f_TTL = 0, f_Nagle = True,
     f_iface = None, f_srcPortSpecify = False, f_serial = -1, f_minPayloadSize = 16, f_payloadBuffer = [],
     f_mean_adjustment = 1, f_vectSize = [], f_vectTime = [], f_numPacket = 3, f_KBToSend = 0,
     f_pollingMode = False, f_Delay = 1500, f_PktSize = (\<lambda>n. 512), f_IntArriv = (\<lambda>n. 1000),
     f_bursty = False, f_OnPeriod = (\<lambda>n. 0), f_OffPeriod = (\<lambda>n. 0)\<rparr>"

theorem flow_not_early_witness:
  "\<exists>s'. wait_delay delay_os (Suc (Suc 0)) delay_flow delay_demo = (Ret (), s') \<and> 1001750000 < usecs (os_time delay_os (hist s'))"
proof -
  have nz: "(1500 :: u64) \<noteq> 0" by simp
  have st: "start_time (1000, 250000) 1500 = (1001, 750000)"
    by (simp add: start_time_def Let_def sint_u64_small smod_nonneg uint_word_ariths uint_div uint_mod)
  have t1: "timeval_subtract (1001, 750000) (1001, 0) = ((0, 750000), False)"
    by (simp add: timeval_subtract_def)
  have "timeval_subtract (1001, 750000) (1003, 0) = ((-2, 750000), True)"
    by (simp add: timeval_subtract_def)
  with nz st t1 obtain s' where r: "wait_delay delay_os (Suc (Suc 0)) delay_flow delay_demo = (Ret (), s')"
    by (simp add: wait_delay_def proc_simps delay_demo_def delay_flow_def delay_os_def log_call_def)
  have "f_Delay delay_flow \<noteq> 0" "uint (f_Delay delay_flow) < 2 ^ 40" "proper_time (RifTime delay_demo)"
    "fst (RifTime delay_demo) < 2 ^ 40" "\<forall>h. proper_time (os_time delay_os h)"
    by (simp_all add: delay_flow_def delay_demo_def proper_time_def delay_os_def)
  from flow_not_early[OF r this] r show ?thesis
    by (simp add: delay_demo_def delay_flow_def usecs_def)
qed

subsection \<open>The log server's view\<close>

lemma s_await_connect_adds:
  "s_await_connect os fuel sock b s = (Ret (), s') \<Longrightarrow> \<exists>h. hist s' = h @ hist s \<and> s_logSockSignaling s' = s_logSockSignaling s"
proof (induction fuel arbitrary: b s)
  case 0
  then show ?case by (simp add: hang_apply)
next
  case (Suc fuel)
  define d where "d = map_option (take 1) (os_data os (Recv sock 1 # hist s))"
  define b' where "b' = (case d of Some (b # _) \<Rightarrow> b | _ \<Rightarrow> b)"
  have n: "d \<noteq> None" and r: "(if b' \<noteq> 1 then s_await_connect os fuel sock b' else ret ()) (log_call (Recv sock 1) s) = (Ret (), s')"
    using Suc.prems by (auto simp: proc_simps die_def d_def b'_def Let_def split: if_splits)
  show ?case
  proof (cases "b' = 1")
    case True
    then show ?thesis using r by (auto simp: ret_apply log_call_def)
  next
    case False
    then have "s_await_connect os fuel sock b' (log_call (Recv sock 1) s) = (Ret (), s')" using r by simp
    from Suc.IH[OF this] show ?thesis by (auto simp: log_call_def)
  qed
qed

text \<open>The last thing that createSignalingLogChannel of the sender does is to send one message, and
  recvInfo of the log server reads from it the protocol that the sender logs with and the name of
  its log file.\<close>

lemma log_registration:
  assumes "createSignalingLogChannel os fuel proto s = (Ret (), s')" "0 \<notin> set (s_logFile s)"
    and "invFindL4Proto proto = Some pname"
  shows "\<exists>msg. length msg = SIGNALING_SIZE \<and> (\<exists>h. hist s' = Send (s_logSockSignaling s') msg # h) \<and>
    (\<forall>os2 ch (t :: log_server). 0 \<le> os_int os2 (Send ch [LOG_CONNECT] # hist t) \<and>
       os_data os2 (Recv ch SIGNALING_SIZE # Send ch [LOG_CONNECT] # hist t) = Some msg \<longrightarrow>
       (\<exists>t'. recvInfo os2 ch t = (Ret (proto, chars (s_logFile s)), t')))"
proof -
  define old where "old = junk os (hist s) 204"
  define name where "name = s_logFile s"
  define msg where "msg = signaling_image old proto name"
  define sock where "sock = os_int os (Socket 1 # hist s)"
  define s1 where "s1 = (log_call (Socket 1) s)\<lparr>s_logSockSignaling := sock, s_logHost := SET_PORT (s_logHost s) (htons 9001)\<rparr>"
  define s2 where "s2 = log_call (Connect sock (port_of (s_logHost s1))) s1"
  have len: "length name < DIM_LOG_FILE" and
    run: "bnd (s_await_connect os fuel sock (hd (junk os (hist s) 1))) (\<lambda>_. bnd (sys os (Send sock msg))
        (\<lambda>w. die (w < 0) ''Cannot send infos to LogServer !'')) s2 = (Ret (), s')"
    using assms(1) by (auto simp: createSignalingLogChannel_def proc_simps die_def old_def msg_def sock_def s1_def
      s2_def name_def Let_def log_call_def split: if_splits)
  obtain s3 where a: "s_await_connect os fuel sock (hd (junk os (hist s) 1)) s2 = (Ret (), s3)"
    and b: "bnd (sys os (Send sock msg)) (\<lambda>w. die (w < 0) ''Cannot send infos to LogServer !'') s3 = (Ret (), s')"
    by (rule bnd_RetE[OF run]) (use that in \<open>simp add: unit_eq\<close>)
  from s_await_connect_adds[OF a] have "s_logSockSignaling s3 = sock" by (simp add: s2_def s1_def log_call_def)
  moreover have "s' = log_call (Send sock msg) s3"
    using b by (auto simp: proc_simps die_def split: if_splits)
  ultimately have h: "hist s' = Send (s_logSockSignaling s') msg # hist s3" by (simp add: log_call_def)
  have lo: "length old = 204" by (simp add: old_def)
  have lm: "length msg = SIGNALING_SIZE"
    using len lo by (simp add: msg_def signaling_image_def SIGNALING_SIZE_def DIM_LOG_FILE_def)
  have msg: "msg @ ys = [proto] @ take 3 (drop 1 old) @ name @ 0 # drop (5 + length name) old @ ys" for ys
    by (simp add: msg_def signaling_image_def)
  have hd: "hd (msg @ ys) = proto" and "drop 4 (msg @ ys) = name @ 0 # drop (5 + length name) old @ ys" for ys
    using lo unfolding msg by simp_all
  moreover have "cstring (name @ 0 # xs) = Some (chars name)" for xs
    using assms(2) by (auto simp: cstring_def name_def takeWhile_append)
  ultimately have c: "cstring (drop 4 (msg @ ys)) = Some (chars name)" for ys by simp
  have "\<exists>t'. recvInfo os2 ch t = (Ret (proto, chars name), t')"
    if "0 \<le> os_int os2 (Send ch [LOG_CONNECT] # hist t)"
      "os_data os2 (Recv ch SIGNALING_SIZE # Send ch [LOG_CONNECT] # hist t) = Some msg" for os2 ch and t :: log_server
  proof -
    have "length msg = 204" using lm by (simp add: SIGNALING_SIZE_def)
    then have "cstring (drop 4 msg @ ys) = Some (chars name)" for ys using c[of ys] by simp
    moreover have "hd msg = proto" "msg \<noteq> []" using hd[of "[]"] lm by (auto simp: SIGNALING_SIZE_def)
    ultimately show ?thesis using that lm assms(3)
      by (simp add: recvInfo_def proc_simps log_call_def)
  qed
  then show ?thesis using lm h unfolding name_def by blast
qed

text \<open>Witness: the server answers at once and the sender logs to snd.log over TCP.\<close>

definition reg_os :: os where
  "reg_os = os_ok\<lparr>os_data := (\<lambda>h. Some [1])\<rparr>"

lemma log_registration_example:
  "\<exists>s' msg h. createSignalingLogChannel reg_os (Suc 0) 1 delay_demo = (Ret (), s') \<and> hist s' = Send 0 msg # h \<and>
    (\<exists>t'. recvInfo (os_ok\<lparr>os_data := (\<lambda>h. Some msg)\<rparr>) 4 init_server = (Ret (1, ''snd.log''), t'))"
proof -
  have n: "0 \<notin> set (s_logFile delay_demo)" by (simp add: delay_demo_def bytes_of_def)
  have p: "invFindL4Proto 1 = Some ''TCP''" by code_simp
  obtain s' where r: "createSignalingLogChannel reg_os (Suc 0) 1 delay_demo = (Ret (), s')" "s_logSockSignaling s' = 0"
    by (simp add: createSignalingLogChannel_def proc_simps die_def reg_os_def os_ok_def delay_demo_def
      log_call_def Let_def DIM_LOG_FILE_def bytes_of_def)
  from log_registration[OF r(1) n p] obtain msg h where
    m: "hist s' = Send 0 msg # h" "\<forall>os2 ch (t :: log_server). 0 \<le> os_int os2 (Send ch [LOG_CONNECT] # hist t) \<and>
       os_data os2 (Recv ch SIGNALING_SIZE # Send ch [LOG_CONNECT] # hist t) = Some msg \<longrightarrow>
       (\<exists>t'. recvInfo os2 ch t = (Ret (1, chars (s_logFile delay_demo)), t'))"
    unfolding r(2) by blast
  have "\<exists>t'. recvInfo (os_ok\<lparr>os_data := (\<lambda>h. Some msg)\<rparr>) 4 init_server = (Ret (1, chars (s_logFile delay_demo)), t')"
    by (rule m(2)[rule_format]) (simp add: os_ok_def)
  then show ?thesis using r(1) m(1) by (auto simp: delay_demo_def)
qed

end
