(* ===== verification/CNum.thy ===== *)
theory CNum
  imports CLib Double Proto
begin

text \<open>More of the C library, as the option parser of ITGSend uses it: strtol with base 0, strtod,
  fgets, strcpy into an array, and doubles with their infinities and NaN.\<close>

subsection \<open>Doubles\<close>

text \<open>The two zeros are one value.\<close>

datatype dbl = Fin rat | PInf | MInf | NaN

text \<open>Rounding to double precision with its least exponent and its overflow.\<close>

definition round_abs :: "rat \<Rightarrow> rat" where
  "round_abs x = (let u = pow2 (max (bin_exp x - 52) (-1074)) in of_int (round_even (x / u)) * u)"

definition to_dbl :: "rat \<Rightarrow> dbl" where
  "to_dbl x = (if x = 0 then Fin 0
     else if 0 < x then (let r = round_abs x in if r < 2 ^ 1024 then Fin r else PInf)
     else (let r = round_abs (- x) in if r < 2 ^ 1024 then Fin (- r) else MInf))"

definition d_neg :: "dbl \<Rightarrow> dbl" where
  "d_neg x = (case x of Fin q \<Rightarrow> Fin (- q) | PInf \<Rightarrow> MInf | MInf \<Rightarrow> PInf | NaN \<Rightarrow> NaN)"

definition d_sub :: "dbl \<Rightarrow> dbl \<Rightarrow> dbl" where
  "d_sub x y = (case (x, y) of
      (Fin p, Fin q) \<Rightarrow> to_dbl (p - q)
    | (NaN, _) \<Rightarrow> NaN | (_, NaN) \<Rightarrow> NaN
    | (PInf, PInf) \<Rightarrow> NaN | (MInf, MInf) \<Rightarrow> NaN
    | (Fin _, _) \<Rightarrow> d_neg y
    | (_, _) \<Rightarrow> x)"

text \<open>Division by a divisor that is not zero.\<close>

definition d_div :: "dbl \<Rightarrow> dbl \<Rightarrow> dbl" where
  "d_div x y = (case (x, y) of
      (Fin p, Fin q) \<Rightarrow> to_dbl (p / q)
    | (Fin p, PInf) \<Rightarrow> Fin 0 | (Fin p, MInf) \<Rightarrow> Fin 0
    | (PInf, Fin q) \<Rightarrow> (if 0 < q then PInf else MInf)
    | (MInf, Fin q) \<Rightarrow> (if 0 < q then MInf else PInf)
    | (_, _) \<Rightarrow> NaN)"

text \<open>Comparisons with a NaN are false.\<close>

definition d_le :: "dbl \<Rightarrow> dbl \<Rightarrow> bool" where
  "d_le x y \<longleftrightarrow> (case (x, y) of
      (NaN, _) \<Rightarrow> False | (_, NaN) \<Rightarrow> False
    | (Fin p, Fin q) \<Rightarrow> p \<le> q
    | (MInf, _) \<Rightarrow> True | (_, PInf) \<Rightarrow> True
    | (_, _) \<Rightarrow> False)"

text \<open>Conversion to a 64-bit integer; what does not fit gives the least one.\<close>

definition long_of :: "dbl \<Rightarrow> int" where
  "long_of x = (case x of
      Fin q \<Rightarrow> if - (2 ^ 63) \<le> \<lfloor>q\<rfloor> \<and> \<lfloor>q\<rfloor> < 2 ^ 63 then \<lfloor>q\<rfloor> else - (2 ^ 63)
    | _ \<Rightarrow> - (2 ^ 63))"

subsection \<open>strtod\<close>

definition hex_val :: "char \<Rightarrow> nat option" where
  "hex_val c = (let n = (of_char (to_lower c) :: nat) in
     if 48 \<le> n \<and> n \<le> 57 then Some (n - 48)
     else if 97 \<le> n \<and> n \<le> 102 then Some (n - 87) else None)"

definition base_digit :: "nat \<Rightarrow> char \<Rightarrow> bool" where
  "base_digit b c \<longleftrightarrow> (case hex_val c of None \<Rightarrow> False | Some d \<Rightarrow> d < b)"

definition base_val :: "nat \<Rightarrow> string \<Rightarrow> nat" where
  "base_val b = foldl (\<lambda>n c. b * n + the (hex_val c)) 0"

definition take_sign :: "string \<Rightarrow> bool \<times> string" where
  "take_sign s = (case s of
      c # t \<Rightarrow> if c = CHR ''-'' then (True, t) else if c = CHR ''+'' then (False, t) else (False, s)
    | [] \<Rightarrow> (False, s))"

text \<open>A prefix, without regard to case.\<close>

definition starts_with :: "string \<Rightarrow> string \<Rightarrow> bool" where
  "starts_with p s \<longleftrightarrow> length p \<le> length s \<and> map to_lower (take (length p) s) = p"

text \<open>The exponent behind a mantissa: a letter, a sign and digits, or nothing.\<close>

definition exponent :: "char \<Rightarrow> string \<Rightarrow> int" where
  "exponent letter s =
     (if s \<noteq> [] \<and> to_lower (hd s) = letter
      then (case take_sign (tl s) of (neg, t) \<Rightarrow>
        let e = int (base_val 10 (takeWhile (base_digit 10) t)) in if neg then - e else e)
      else 0)"

definition power_rat :: "rat \<Rightarrow> int \<Rightarrow> rat" where
  "power_rat b e = (if 0 \<le> e then b ^ nat e else 1 / b ^ nat (- e))"

text \<open>A mantissa in base b with its exponent, None without a digit; the exponent of a hexadecimal number
  is one of two.\<close>

definition mantissa :: "nat \<Rightarrow> string \<Rightarrow> rat option" where
  "mantissa b s =
     (let ds = takeWhile (base_digit b) s; t = dropWhile (base_digit b) s;
          fs = (if t \<noteq> [] \<and> hd t = CHR ''.'' then takeWhile (base_digit b) (tl t) else []);
          u = (if t \<noteq> [] \<and> hd t = CHR ''.'' then dropWhile (base_digit b) (tl t) else t);
          e = (if b = 16 then power_rat 2 (exponent CHR ''p'' u) else power_rat 10 (exponent CHR ''e'' u))
      in if ds = [] \<and> fs = [] then None
         else Some (of_nat (base_val b (ds @ fs)) / of_nat b ^ length fs * e))"

definition strtod_abs :: "string \<Rightarrow> dbl" where
  "strtod_abs s =
     (if starts_with ''inf'' s then PInf
      else if starts_with ''nan'' s then NaN
      else case (if starts_with ''0x'' s then mantissa 16 (drop 2 s) else None) of
             Some q \<Rightarrow> to_dbl q
           | None \<Rightarrow> (case mantissa 10 s of Some q \<Rightarrow> to_dbl q | None \<Rightarrow> Fin 0))"

definition strtod :: "string \<Rightarrow> dbl" where
  "strtod s = (case take_sign (dropWhile is_space s) of (neg, t) \<Rightarrow>
     if neg then d_neg (strtod_abs t) else strtod_abs t)"

subsection \<open>strtol with base 0\<close>

text \<open>A prefix gives the base: 0x sixteen, 0 eight.  The result is None when nothing is converted.\<close>

definition strtol0 :: "string \<Rightarrow> int option" where
  "strtol0 s = (case take_sign (dropWhile is_space s) of (neg, t) \<Rightarrow>
     let hex = starts_with ''0x'' t \<and> length t > 2 \<and> base_digit 16 (t ! 2);
         b = (if hex then 16 else if starts_with ''0'' t then 8 else 10);
         ds = takeWhile (base_digit b) (if hex then drop 2 t else t);
         v = int (base_val b ds)
     in if ds = [] then None
        else Some (if neg then max (- (2 ^ 63)) (- v) else min (2 ^ 63 - 1) v))"

subsection \<open>Strings\<close>

text \<open>Character n of a C string: NUL at its end.  It is not read behind the NUL.\<close>

definition char_at :: "string \<Rightarrow> nat \<Rightarrow> char" where
  "char_at s n = (if n < length s then s ! n else CHR 0x00)"

text \<open>An argument that the parsers take for an option.\<close>

definition is_option :: "string \<Rightarrow> bool" where
  "is_option s \<longleftrightarrow> char_at s 0 = CHR ''-''"

text \<open>strcpy into an array: what is behind the copied string stays.  None is an overflow.\<close>

definition strcpy :: "bytes \<Rightarrow> string \<Rightarrow> bytes option" where
  "strcpy buf s = (if length s < length buf
     then Some (bytes_of s @ 0 # drop (length s + 1) buf) else None)"

text \<open>The lines that successive calls of fgets read, at most n + 1 characters at a time.\<close>

fun fgets_line :: "nat \<Rightarrow> string \<Rightarrow> string \<times> string" where
  "fgets_line 0 s = ([], s)"
| "fgets_line (Suc n) [] = ([], [])"
| "fgets_line (Suc n) (c # s) = (if c = CHR 0x0A then ([c], s)
     else (case fgets_line n s of (l, r) \<Rightarrow> (c # l, r)))"

lemma fgets_line_length: "length (snd (fgets_line n s)) = length s - length (fst (fgets_line n s))"
  by (induction n s rule: fgets_line.induct) (auto split: prod.split)

lemma fgets_line_shorter [simp]: "length (snd (fgets_line (Suc n) (c # s))) < Suc (length s)"
  using fgets_line_length[of n s] by (auto split: prod.split)

function fgets_lines :: "nat \<Rightarrow> string \<Rightarrow> string list" where
  "fgets_lines n [] = []"
| "fgets_lines n (c # s) = fst (fgets_line (Suc n) (c # s)) # fgets_lines n (snd (fgets_line (Suc n) (c # s)))"
  by pat_completeness auto
termination
  by (relation "measure (\<lambda>(n, s). length s)") (simp_all del: fgets_line.simps)

declare fgets_lines.simps(2) [simp del]

lemma fgets_line_split: "fst (fgets_line n s) @ snd (fgets_line n s) = s"
  by (induction n s rule: fgets_line.induct) (auto split: prod.split)

text \<open>Nothing of a file is lost.\<close>

lemma concat_fgets_lines [simp]: "concat (fgets_lines n s) = s"
  by (induction n s rule: fgets_lines.induct) (simp_all add: fgets_lines.simps(2) fgets_line_split del: fgets_line.simps)

lemma length_strcpy [len_simps]: "strcpy buf s = Some b \<Longrightarrow> length b = length buf"
  by (auto simp: strcpy_def split: if_splits)

end
