(* ===== verification/Traffic.thy ===== *)
theory Traffic
  imports CNum SendState
begin

text \<open>The traffic models of ITGSend (src/ITGSend/traffic.cpp).  A random variable of the vendored
  library newran is the term that the program builds: its draws are not modelled.  The parsers of
  the application protocols give the pair of the time between packets and of their size; a pointer
  into argv with argc is the list of the arguments from there on.\<close>

datatype distro = pdConstant | pdUniform | pdExponential | pdPareto | pdCauchy | pdNormal | pdPoisson
  | pdGamma | pdWeibull | pdTelnet | pdAoM | pdDiscrete | pdExtreme_Largest | pdQuake | pdStudent
  | pdCSa | pdCSi

datatype rv =
    RConstant dbl
  | RUniform
  | RExponential
  | RExponentialMean dbl
  | RPareto dbl
  | RCauchy
  | RNormal
  | RPoisson dbl
  | RGamma dbl
  | RWeibull dbl dbl
  | RStudent dbl dbl dbl
  | RDiscrete "(dbl \<times> dbl) list"
  | RMixed "(dbl \<times> rv) list"
  | RScale dbl rv
  | RShift rv dbl
  | RRecip dbl rv

definition lit :: "rat \<Rightarrow> dbl" where "lit = to_dbl"

definition RUnit :: rv where "RUnit = RConstant (Fin 1)"

type_synonym traffic = "(distro \<times> rv) \<times> (distro \<times> rv)"

subsection \<open>Application protocols\<close>

text \<open>A DiscreteGen without values has the positions of its probabilities.\<close>

definition telnetParser :: traffic where
  "telnetParser = ((pdPareto, RScale (lit 1.1) (RPareto (lit 0.95))),
     (pdTelnet, RShift (RDiscrete (zip (map lit [0.65, 0.13, 0.07, 0.05, 0.03, 0.01, 0.01, 0.01, 0.01,
        0.005, 0.005, 0.005, 0.005, 0.005, 0.005]) (map (\<lambda>n. Fin (of_nat n)) [0..<15]))) (Fin 21)))"

definition dnsParser :: traffic where
  "dnsParser = ((pdConstant, RScale (d_div (Fin 1000) (lit 0.56)) RUnit),
     (pdUniform, RShift (RScale (Fin 220) RUniform) (Fin 100)))"

definition CSParsera :: traffic where
  "CSParsera = ((pdStudent, RScale (Fin 1) (RStudent (lit 41.6994) (lit 0.104821) (lit 0.704073))),
     (pdCSa, RScale (Fin 1) (RMixed
        [(lit 0.3732, RShift (RScale (lit 4.3915) RNormal) (lit 34.8352)),
         (lit 0.6268, RShift (RScale (lit 3.6186) RNormal) (lit 49.4904))])))"

definition CSParseri :: traffic where
  "CSParseri = ((pdStudent, RScale (Fin 1) (RStudent (lit 41.6858) (lit 0.0694393) (lit 1.08341))),
     (pdDiscrete, RScale (Fin 1) (RDiscrete
        [(lit 0.8312, Fin 27), (lit 0.0018, Fin 28), (lit 0.0453, Fin 29), (lit 0.0195, Fin 30),
         (lit 0.0879, Fin 31), (lit 0.0024, Fin 32), (lit 0.0106, Fin 33), (lit 0.0013, Fin 35)])))"

definition QuakeParser :: traffic where
  "QuakeParser = ((pdQuake, RScale (Fin 1) (RMixed
        [(lit 0.6, RExponentialMean (lit 4.29)), (lit 0.4, RConstant (lit 10.75))])),
     (pdNormal, RShift (RScale (lit 3.2035755) RNormal) (lit 64.151757)))"

subsection \<open>Voice\<close>

record voip =
  framesize :: rat
  samples :: rat
  VAD :: rat
  header_size :: rat
  pkts :: rat

definition voip0 :: voip where
  "voip0 = \<lparr>framesize = 80, samples = 1, VAD = 1, header_size = 12, pkts = 100\<rparr>"

definition voip_codec :: "string \<Rightarrow> voip \<Rightarrow> voip option" where
  "voip_codec name v =
     (if name = ''G.711.1'' then Some (v\<lparr>framesize := 80, samples := 1, pkts := 100\<rparr>)
      else if name = ''G.711.2'' then Some (v\<lparr>framesize := 80, samples := 2, pkts := 50\<rparr>)
      else if name = ''G.729.2'' then Some (v\<lparr>framesize := 10, samples := 2, pkts := 50\<rparr>)
      else if name = ''G.729.3'' then Some (v\<lparr>framesize := 10, samples := 3, pkts := 33\<rparr>)
      else if name = ''G.723.1'' then Some (v\<lparr>framesize := 30, samples := 1, pkts := 26\<rparr>)
      else None)"

definition voip_header :: "string \<Rightarrow> voip \<Rightarrow> voip option" where
  "voip_header name v = (if name = ''RTP'' then Some (v\<lparr>header_size := 12\<rparr>)
     else if name = ''CRTP'' then Some (v\<lparr>header_size := 2\<rparr>) else None)"

text \<open>The buffer of a message about an unknown option has room for a pointer instead of the option: a
  longer one is written behind its end.\<close>

definition what_is :: "string \<Rightarrow> ('a send_state_scheme, 'b) proc" where
  "what_is opt = (if length opt > 8 then fault else s_ReportErrorAndExit ''What is ?'')"

text \<open>The options of VoIP take up the rest of the line; the message about a wrong one names the second
  argument of the line.\<close>

fun voip_loop :: "string \<Rightarrow> string list \<Rightarrow> voip \<Rightarrow> ('a send_state_scheme, voip) proc" where
  "voip_loop second [] v = ret v"
| "voip_loop second (opt # rest) v =
     (if char_at opt 0 \<noteq> CHR ''-'' then what_is second
      else if char_at opt 1 = CHR ''x'' then
        (case rest of
           [] \<Rightarrow> s_ReportErrorAndExit ''Invalid Codec Type''
         | name # rest' \<Rightarrow> (case voip_codec name v of
               None \<Rightarrow> s_ReportErrorAndExit ''Invalid Codec Type''
             | Some v' \<Rightarrow> voip_loop second rest' v'))
      else if char_at opt 1 = CHR ''h'' then
        (case rest of
           [] \<Rightarrow> s_ReportErrorAndExit ''Invalid Protocol Type''
         | name # rest' \<Rightarrow> (case voip_header name v of
               None \<Rightarrow> s_ReportErrorAndExit ''Invalid Protocol Type (RTP or CRTP)''
             | Some v' \<Rightarrow> voip_loop second rest' v'))
      else if char_at opt 1 = CHR ''V'' then
        (if char_at opt 2 = CHR ''A'' \<and> char_at opt 3 = CHR ''D''
         then voip_loop second rest (v\<lparr>VAD := rnd 0.65\<rparr>)
         else s_ReportErrorAndExit ''Invalid Option (VAD)'')
      else what_is second)"

definition voip_traffic :: "voip \<Rightarrow> traffic" where
  "voip_traffic v = ((pdConstant, RScale (d_div (Fin 1000) (Fin (pkts v))) RUnit),
     (pdConstant, RShift (RScale (Fin (rnd (rnd (VAD v * framesize v) * samples v))) RUnit)
        (Fin (header_size v))))"

definition voIPParser :: "string \<Rightarrow> string list \<Rightarrow> ('a send_state_scheme, traffic) proc" where
  "voIPParser second args = bnd (voip_loop second args voip0) (\<lambda>v.
     thn (sys0 (Print ''Voice Codec'')) (ret (voip_traffic v)))"

subsection \<open>Distributions\<close>

text \<open>Value of argument n, and the tests of the options: d_nonpos is a comparison with 0 that a NaN
  passes over.\<close>

definition real_arg :: "string list \<Rightarrow> nat \<Rightarrow> dbl" where
  "real_arg args n = strtod (args ! n)"

definition int_arg :: "string list \<Rightarrow> nat \<Rightarrow> dbl" where
  "int_arg args n = Fin (of_int (sint (atoi (args ! n))))"

definition d_nonpos :: "dbl \<Rightarrow> bool" where "d_nonpos x \<longleftrightarrow> d_le x (Fin 0)"

text \<open>One of the two periods of a bursty flow: n1 and n2 are the numbers of arguments that a distribution
  with one and with two parameters needs.  The deviation of a normal distribution is not tested: the
  code compares a pointer with 0.\<close>

definition bursty_period :: "nat \<Rightarrow> nat \<Rightarrow> string list \<Rightarrow> ((distro \<times> rv) \<times> string list) option" where
  "bursty_period n1 n2 args =
     (let c = char_at (args ! 0) 0; x = real_arg args 1; y = real_arg args 2;
          one = (\<lambda>bad d r. if length args < n1 \<or> bad then None else Some ((d, r), drop 2 args));
          two = (\<lambda>bad d r. if length args < n2 \<or> bad then None else Some ((d, r), drop 3 args))
      in if c = CHR ''C'' then one (d_nonpos x) pdConstant (RScale (int_arg args 1) RUnit)
         else if c = CHR ''U'' then two (d_nonpos x \<or> d_le y x) pdUniform
           (RShift (RScale (d_sub x y) RUniform) y)
         else if c = CHR ''E'' then one (d_nonpos x) pdExponential (RScale x RExponential)
         else if c = CHR ''V'' then two (d_nonpos x \<or> d_nonpos y) pdPareto (RScale y (RPareto x))
         else if c = CHR ''Y'' then two (d_nonpos y) pdCauchy (RShift (RScale y RCauchy) x)
         else if c = CHR ''N'' then two False pdNormal (RShift (RScale y RNormal) x)
         else if c = CHR ''O'' then one (d_nonpos x) pdPoisson (RScale (Fin 1) (RPoisson x))
         else if c = CHR ''G'' then two (d_nonpos x \<or> d_nonpos y) pdGamma (RScale y (RGamma x))
         else if c = CHR ''W'' then two (d_nonpos x \<or> d_nonpos y) pdWeibull (RScale (Fin 1) (RWeibull x y))
         else None)"

definition burstyParser :: "string list \<Rightarrow>
    ('a send_state_scheme, (distro \<times> rv) \<times> (distro \<times> rv) \<times> string list) proc" where
  "burstyParser args = (case bursty_period 4 5 args of
      None \<Rightarrow> s_ReportErrorAndExit ''Invalid settings for the On/Off periods''
    | Some (on, rest) \<Rightarrow> (case bursty_period 2 3 rest of
          None \<Rightarrow> s_ReportErrorAndExit ''Invalid settings for the Off/Off periods''
        | Some (off, rest') \<Rightarrow> ret (on, off, rest')))"

text \<open>A period consumes arguments, and leaves the other period at least one.\<close>

lemma bursty_period_rest:
  assumes "bursty_period n1 n2 args = Some (d, rest)" "n1 \<ge> 2" "n2 \<ge> 3"
  shows "\<exists>k \<ge> 2. rest = drop k args \<and> k \<le> length args"
  using assms
  by (auto simp: bursty_period_def Let_def split: if_splits intro: exI[of _ 2] exI[of _ 3])

end
