(* ===== verification/FlowParser.thy ===== *)
theory FlowParser
  imports Traffic FlowStart Strtok
begin

text \<open>flowParser of src/ITGSend/ITGSend.cpp: the options of a flow, whether they come from the command
  line, from a script or from a manager.  argv from position h on, with argc, is the list of the
  remaining arguments, the option itself being its head.  The flow that is being described and the
  local variables of the parser are one record.\<close>

subsection \<open>State\<close>

text \<open>The time and the size of the packets, and the periods of a bursty flow, are terms of newran (theory
  Traffic); the fields of send_flow with the values drawn from them are set when the flow starts.\<close>

record flow_spec = send_flow +
  p_IntArriv :: "distro \<times> rv"
  p_PktSize :: "distro \<times> rv"
  p_OnPeriod :: "(distro \<times> rv) option"
  p_OffPeriod :: "(distro \<times> rv) option"
  p_dstPortSpecify :: bool
  p_payloadFile :: string
  p_vectTime :: "dbl list"
  p_Delay :: u64
  p_SigPort :: u16
  p_SigDestHostSpecify :: bool
  p_seed :: dbl

text \<open>The globals that only the parsers use; payloads holds the payload file and the payload of the other
  flows, in the order of their numbers.\<close>

record parse_state = sender_state +
  protoTxLog :: u8
  flowCount :: nat
  payloads :: "(string \<times> bytes) list"
  g_payloadLogType :: int
  g_mean_adjustment :: int
  managerMode :: bool
  managerSock :: int
  cmdMode :: bool
  parserParams :: "(int \<times> string) list"

definition StandardMinPayloadSize :: int where "StandardMinPayloadSize = 16"
definition ShortMinPayloadSize :: int where "ShortMinPayloadSize = 8"
definition NoneMinPayloadSize :: int where "NoneMinPayloadSize = 4"
definition DIM_MAX_IP_PACKET :: int where "DIM_MAX_IP_PACKET = 65536"
definition DIM_NOME_FILE :: nat where "DIM_NOME_FILE = 200"
definition L4_SCTP :: u8 where "L4_SCTP = 4"
definition L4_DCCP :: u8 where "L4_DCCP = 5"
definition DEFAULT_PORT :: u16 where "DEFAULT_PORT = 8999"
definition DEFAULT_PORT_SENDER :: u16 where "DEFAULT_PORT_SENDER = 8997"
definition DEFAULT_LOG_PORT :: u16 where "DEFAULT_LOG_PORT = 9002"

text \<open>The argument of an option that needs one.\<close>

definition need_arg :: "string list \<Rightarrow> string \<Rightarrow> ('a send_state_scheme, string) proc" where
  "need_arg args msg = (if length args < 2 then s_ReportErrorAndExit msg else ret (args ! 1))"

definition lookup :: "os \<Rightarrow> string \<Rightarrow> string \<Rightarrow> ('a send_state_scheme, sockaddr) proc" where
  "lookup os name msg = (bnd (sys os (Resolve name)) (\<lambda>r.
   thn (cond (r \<noteq> 0) (s_ReportErrorAndExit msg)) (gets (\<lambda>s. os_from os (hist s)))))"

definition warn_scope :: "sockaddr \<Rightarrow> ('a world_scheme, unit) proc" where
  "warn_scope h = cond (ai_family h = PF_INET6 \<and> is_linklocal (ip h) \<and> scope_id h = 0)
     (sys0 (Print ''** WARNING **: IPv6 address scope id not specified by the sender''))"

subsection \<open>Options with a number\<close>

definition opt_t :: "string list \<Rightarrow> flow_spec \<Rightarrow> ('a send_state_scheme, flow_spec \<times> string list) proc" where
  "opt_t args f = (let temp = strtol (args ! 1) in
     if length args < 2 \<or> temp \<le> 0 then s_ReportErrorAndExit ''Invalid Duration''
     else ret (f\<lparr>f_Duration := of_int temp\<rparr>, drop 2 args))"

definition opt_z :: "string list \<Rightarrow> flow_spec \<Rightarrow> ('a send_state_scheme, flow_spec \<times> string list) proc" where
  "opt_z args f = (let temp = strtol (args ! 1) in
     if length args < 2 \<or> temp \<le> 0 then s_ReportErrorAndExit ''Invalid number of packets''
     else ret (f\<lparr>f_numPacket := of_int temp\<rparr>, drop 2 args))"

definition opt_k :: "string list \<Rightarrow> flow_spec \<Rightarrow> ('a send_state_scheme, flow_spec \<times> string list) proc" where
  "opt_k args f = (if length args < 2 \<or> strtoul (args ! 1) = 0
     then s_ReportErrorAndExit ''Invalid number of kbyte''
     else ret (f\<lparr>f_KBToSend := strtoul (args ! 1)\<rparr>, drop 2 args))"

definition opt_d :: "string list \<Rightarrow> flow_spec \<Rightarrow> ('a send_state_scheme, flow_spec \<times> string list) proc" where
  "opt_d args f = (let temp = strtol (args ! 1) in
     if length args < 2 \<or> no_conversion (args ! 1) \<or> temp < 0 then s_ReportErrorAndExit ''Invalid Delay''
     else ret (f\<lparr>p_Delay := of_int temp\<rparr>, drop 2 args))"

text \<open>The option for the time to live also forgets the serial line of the receiver.\<close>

definition no_serial :: "flow_spec \<Rightarrow> flow_spec" where
  "no_serial f = f\<lparr>f_serialReceiver := the (strcpy (f_serialReceiver f) ''noSerial'')\<rparr>"

definition opt_f :: "string list \<Rightarrow> flow_spec \<Rightarrow> ('a send_state_scheme, flow_spec \<times> string list) proc" where
  "opt_f args f = (bnd (need_arg args ''Invalid TTL'') (\<lambda>a.
   case strtol0 a of
       None \<Rightarrow> s_ReportErrorAndExit ''Invalid TTL''
     | Some temp \<Rightarrow> if temp < 0 \<or> temp > 255 then s_ReportErrorAndExit ''Invalid TTL''
         else ret ((no_serial f)\<lparr>f_TTL := temp\<rparr>, drop 2 args)))"

definition opt_b :: "string list \<Rightarrow> flow_spec \<Rightarrow> ('a send_state_scheme, flow_spec \<times> string list) proc" where
  "opt_b args f = (bnd (need_arg args ''Invalid DS Byte'') (\<lambda>a.
   case strtol0 a of
       None \<Rightarrow> s_ReportErrorAndExit ''Invalid DS Byte''
     | Some temp \<Rightarrow> if temp < 0 \<or> temp > 255 then s_ReportErrorAndExit ''Invalid DS Byte''
         else ret (f\<lparr>f_DSByte := of_int temp\<rparr>, drop 2 args)))"

definition opt_j :: "string list \<Rightarrow> flow_spec \<Rightarrow> ('a send_state_scheme, flow_spec \<times> string list) proc" where
  "opt_j args f = (bnd (need_arg args ''j option needs either 1 or 0'') (\<lambda>a.
   if sint (atoi a) \<noteq> 0 \<and> sint (atoi a) \<noteq> 1
     then s_ReportErrorAndExit ''j option needs either 1 or 0''
     else ret (f\<lparr>f_mean_adjustment := sint (atoi a)\<rparr>, drop 2 args)))"

subsection \<open>Payload and meter\<close>

definition min_payload :: "int \<Rightarrow> int \<Rightarrow> int" where
  "min_payload type old = (if type = PL_SHORT then ShortMinPayloadSize
     else if type = PL_NONE then NoneMinPayloadSize else old)"

definition rttm_msg :: string where
  "rttm_msg = ''It is possible to use the RTT meter only with the standard payload type''"

definition opt_p :: "string list \<Rightarrow> flow_spec \<Rightarrow> ('a parse_state_scheme, flow_spec \<times> string list) proc" where
  "opt_p args f = (if char_at (hd args) 2 \<noteq> CHR ''o'' then (bnd (need_arg args ''Invalid payload log type'') (\<lambda>a.
   thn (cond (is_option a) (s_ReportErrorAndExit ''Invalid payload log type''))
   (bnd (gets g_payloadLogType) (\<lambda>g.
   (let n = sint (atoi a); type = (if n < 0 \<or> n > 2 then g else n) in (thn (cond (n < 0 \<or> n > 2) (sys0 (Print ''Warning !! Incorrect payload log type'')))
        (thn (cond (type \<noteq> 0 \<and> f_meter f = S_METER_RTTM) (s_ReportErrorAndExit rttm_msg))
        (ret (f\<lparr>f_payloadLogType := type, f_minPayloadSize := min_payload type (f_minPayloadSize f)\<rparr>,
              drop 2 args)))))))))
     else if hd args = ''-poll'' then ret (f\<lparr>f_pollingMode := True\<rparr>, drop 1 args)
     else s_ReportErrorAndExit ''Error in parsing -p or -poll options'')"

text \<open>The meter's name is read even when there is no further argument.\<close>

definition opt_m :: "string list \<Rightarrow> flow_spec \<Rightarrow> ('a send_state_scheme, flow_spec \<times> string list) proc" where
  "opt_m args f = (if length args < 2 then fault
     else let m = findMeter (args ! 1) in
       if m = LX_ERROR_BYTE then s_ReportErrorAndExit ''Invalid measure type''
       else if m = S_METER_RTTM \<and> f_minPayloadSize f < StandardMinPayloadSize
         then s_ReportErrorAndExit rttm_msg
       else ret (f\<lparr>f_meter := m\<rparr>, drop 2 args))"

subsection \<open>Addresses\<close>

definition opt_a :: "os \<Rightarrow> string list \<Rightarrow> flow_spec \<Rightarrow> ('a send_state_scheme, flow_spec \<times> string list) proc" where
  "opt_a os args f = (bnd (need_arg args ''Invalid destination address'') (\<lambda>a.
   bnd (lookup os a ''Invalid destination address'') (\<lambda>h.
   thn (warn_scope h)
   (bnd ((if p_SigDestHostSpecify f then ret f else (bnd (lookup os a ''Invalid destination address for the signal channel'') (\<lambda>g.
      thn (warn_scope g)
      ((let p = GET_PORT (f_SigDestHost f) (p_SigPort f)
          in ret (f\<lparr>p_SigPort := p, f_SigDestHost := SET_PORT g p\<rparr>))))))) (\<lambda>f1.
   ret (f1\<lparr>f_DestHost := SET_PORT h (GET_PORT (f_DestHost f) 0), f_dstAddrSpecify := True\<rparr>, drop 2 args))))))"

definition opt_i :: "string list \<Rightarrow> flow_spec \<Rightarrow> ('a send_state_scheme, flow_spec \<times> string list) proc" where
  "opt_i args f = (if f_srcAddrSpecify f then s_ReportErrorAndExit ''use -i <interface> OR -sa <source_address>''
     else (bnd (need_arg args ''Invalid interface'') (\<lambda>a.
      ret (f\<lparr>f_iface := Some a\<rparr>, drop 2 args))))"

text \<open>A port is the low half of the number.\<close>

definition port_arg :: "string \<Rightarrow> u16" where
  "port_arg a = htons (ucast (atoi a))"

definition opt_r :: "string list \<Rightarrow> flow_spec \<Rightarrow> ('a send_state_scheme, flow_spec \<times> string list) proc" where
  "opt_r args f =
     (if char_at (hd args) 2 = CHR ''p'' then (bnd (need_arg args ''Invalid port number'') (\<lambda>a.
      ret (f\<lparr>f_DestHost := SET_PORT (f_DestHost f) (port_arg a), p_dstPortSpecify := True\<rparr>, drop 2 args)))
      else if char_at (hd args) 2 = CHR ''k'' then (bnd (need_arg args ''Invalid Serial Port'') (\<lambda>a.
       case strcpy (f_serialReceiver f) a of
          None \<Rightarrow> fault
        | Some b \<Rightarrow> ret (f\<lparr>f_serialReceiver := b\<rparr>, drop 2 args)))
      else what_is (hd args))"

definition opt_s :: "os \<Rightarrow> string list \<Rightarrow> flow_spec \<Rightarrow> ('a send_state_scheme, flow_spec \<times> string list) proc" where
  "opt_s os args f =
     (if length (hd args) = 2 then
        (if length args < 2 \<or> d_le (Fin 1) (strtod (args ! 1)) \<or> d_nonpos (strtod (args ! 1))
         then s_ReportErrorAndExit ''Invalid seed (0 < seed < 1)''
         else ret (f\<lparr>p_seed := strtod (args ! 1)\<rparr>, drop 2 args))
      else if char_at (hd args) 2 = CHR ''p'' then (bnd (need_arg args ''Invalid port number'') (\<lambda>a.
       ret (f\<lparr>f_SrcHost := SET_PORT (f_SrcHost f) (port_arg a), f_srcPortSpecify := True\<rparr>, drop 2 args)))
      else if char_at (hd args) 2 = CHR ''k'' then (bnd (need_arg args ''Invalid Serial Port'') (\<lambda>a.
       bnd (sys os (SerialUp a)) (\<lambda>fd.
       thn (cond (fd = -1) (sys0 (Print ''Error opening interface'')))
       (ret ((no_serial f)\<lparr>f_serial := fd\<rparr>, drop 2 args)))))
      else if char_at (hd args) 2 = CHR ''a'' then
        (if f_iface f \<noteq> None then s_ReportErrorAndExit ''use -i <interface> OR -sa <source_address>''
         else (bnd (need_arg args ''Invalid source address'') (\<lambda>a.
          bnd (lookup os a ''Invalid source address'') (\<lambda>h.
          thn (warn_scope h)
          (ret (f\<lparr>f_SrcHost := SET_PORT h (GET_PORT (f_SrcHost f) 0), f_srcAddrSpecify := True\<rparr>, drop 2 args))))))
      else what_is (hd args))"

subsection \<open>Signaling\<close>

definition sig_port :: "string list \<Rightarrow> ('a send_state_scheme, u16) proc" where
  "sig_port args = (bnd (need_arg args ''Invalid port number'') (\<lambda>a.
   if sint (atoi a) < 1 \<or> sint (atoi a) > 65535 then s_ReportErrorAndExit ''Invalid port number''
     else ret (ucast (atoi a))))"

text \<open>The option for the interface skips two arguments more than it has.\<close>

definition opt_S :: "os \<Rightarrow> string list \<Rightarrow> flow_spec \<Rightarrow> ('a send_state_scheme, flow_spec \<times> string list) proc" where
  "opt_S os args f = (let c = char_at (hd args) 2; d = char_at (hd args) 3 in
     if c = CHR ''s'' \<and> d = CHR ''a'' then (bnd (need_arg args ''Invalid source address for the signal channel'') (\<lambda>a.
      bnd (lookup os a ''Invalid source address for the signal channel'') (\<lambda>h.
      thn (warn_scope h)
      (ret (f\<lparr>f_SigSrcHost := Some h\<rparr>, drop 2 args)))))
     else if c = CHR ''s'' \<and> d = CHR ''p'' then (bnd (sig_port args) (\<lambda>p.
      ret (f\<lparr>p_SigPort := p, f_SigSrcPort := p\<rparr>, drop 2 args)))
     else if c = CHR ''d'' \<and> d = CHR ''a'' then (bnd (need_arg args ''Invalid destination address for the signal channel'') (\<lambda>a.
      bnd (lookup os a ''Invalid destination address for the signal channel'') (\<lambda>h.
      thn (warn_scope h)
      ((let p = GET_PORT (f_SigDestHost f) (p_SigPort f)
        in ret (f\<lparr>p_SigPort := p, f_SigDestHost := SET_PORT h p, p_SigDestHostSpecify := True\<rparr>, drop 2 args))))))
     else if c = CHR ''d'' \<and> d = CHR ''p'' then (bnd (sig_port args) (\<lambda>p.
      ret (f\<lparr>p_SigPort := p, f_SigDestHost := SET_PORT (f_SigDestHost f) (htons p)\<rparr>, drop 2 args)))
     else if c = CHR ''i'' then (bnd (need_arg args ''Invalid interface'') (\<lambda>a.
      ret (f\<lparr>f_SigInterface := Some a\<rparr>, drop 4 args)))
     else what_is (hd args))"

subsection \<open>Logs\<close>

text \<open>The arguments of -L and -X: none, an address, a protocol, or both in either order.  The first
  component of the result is the address found, the second the protocol.\<close>

definition no_value :: "string list \<Rightarrow> bool" where
  "no_value args \<longleftrightarrow> args = [] \<or> is_option (hd args) \<or> findL7Proto (hd args) \<noteq> LX_ERROR_BYTE"

definition server_arg :: "os \<Rightarrow> string \<Rightarrow> string \<Rightarrow> sockaddr \<times> u8 \<Rightarrow> ('a send_state_scheme, sockaddr \<times> u8) proc" where
  "server_arg os a msg v = (if findL4Proto a = LX_ERROR_BYTE then (bnd (lookup os a msg) (\<lambda>h.
   ret (h, snd v)))
     else ret (fst v, findL4Proto a))"

definition server_args :: "os \<Rightarrow> string list \<Rightarrow> sockaddr \<times> u8 \<Rightarrow>
    ('a send_state_scheme, (sockaddr \<times> u8) \<times> string list) proc" where
  "server_args os args v = (if no_value (tl args) then ret (v, drop 1 args)
     else (bnd (server_arg os (args ! 1) ''Invalid log-server address or protocol'' v) (\<lambda>v1.
      if no_value (drop 2 args) then ret (v1, drop 2 args)
       else (bnd (server_arg os (args ! 2) ''Invalid log-server address'' v1) (\<lambda>v2.
        ret (v2, drop 3 args))))))"

definition opt_L :: "os \<Rightarrow> string list \<Rightarrow> ('a parse_state_scheme, string list) proc" where
  "opt_L os args = (thn (upd (\<lambda>s. s\<lparr>logging := 1, logremoto := 1\<rparr>))
   (bnd (gets (\<lambda>s. (s_logHost s, protoTxLog s))) (\<lambda>v.
   bnd (server_args os args v) (\<lambda>(v', rest).
   thn (upd (\<lambda>s. s\<lparr>s_logHost := fst v', protoTxLog := snd v'\<rparr>))
   (ret rest)))))"

definition opt_X :: "os \<Rightarrow> string list \<Rightarrow> ('a parse_state_scheme, string list) proc" where
  "opt_X os args = (thn (upd (\<lambda>s. s\<lparr>logServer := 1\<rparr>))
   (bnd (gets (\<lambda>s. (serverLogReceiver s, protoTx_ServerLogReceiver s))) (\<lambda>v.
   bnd (server_args os args v) (\<lambda>(v', rest).
   thn (upd (\<lambda>s. s\<lparr>serverLogReceiver := fst v', protoTx_ServerLogReceiver := snd v'\<rparr>))
   (ret rest)))))"

text \<open>The test for the name of an application protocol in -l, -x and -q is never true: the search does
  not return 0.\<close>

definition no_name :: "string list \<Rightarrow> bool" where
  "no_name args \<longleftrightarrow> args = [] \<or> is_option (hd args) \<or> findL7Proto (hd args) = 0"

definition DefaultLogFile :: string where "DefaultLogFile = ''/tmp/ITGSend.log''"

definition set_logFile :: "string \<Rightarrow> ('a send_state_scheme, unit) proc" where
  "set_logFile a = (if length a \<ge> DIM_LOG_FILE then fault else upd (\<lambda>s. s\<lparr>s_logFile := bytes_of a\<rparr>))"

definition opt_l :: "string list \<Rightarrow> ('a send_state_scheme, string list) proc" where
  "opt_l args = (thn (upd (\<lambda>s. s\<lparr>logging := 1\<rparr>))
   (if no_name (tl args) then thn (set_logFile DefaultLogFile) (ret (drop 1 args))
     else thn (set_logFile (args ! 1)) (ret (drop 2 args))))"

definition opt_x :: "string list \<Rightarrow> ('a send_state_scheme, string list) proc" where
  "opt_x args = (thn (upd (\<lambda>s. s\<lparr>namelogReceiver := 1\<rparr>))
   (if no_name (tl args) then ret (drop 1 args)
     else (bnd (gets logFileReceiver) (\<lambda>old.
      case strcpy old (args ! 1) of
         None \<Rightarrow> fault
       | Some b \<Rightarrow> thn (upd (\<lambda>s. s\<lparr>logFileReceiver := b\<rparr>)) (ret (drop 2 args))))))"

definition opt_q :: "string list \<Rightarrow> ('a sender_state_scheme, string list) proc" where
  "opt_q args = (if no_name (tl args) then ret (drop 1 args)
     else thn (upd (\<lambda>s. s\<lparr>s_buffer_size := ucast (atoi (args ! 1))\<rparr>)) (ret (drop 2 args)))"

text \<open>Options that a script does not allow in the line of a flow.\<close>

definition not_in_script :: "string \<Rightarrow> ('a send_state_scheme, unit) proc" where
  "not_in_script msg = (bnd (gets s_multiFlows) (\<lambda>m.
   cond m (s_ReportErrorAndExit msg)))"

definition log_option :: "os \<Rightarrow> char \<Rightarrow> string list \<Rightarrow> ('a parse_state_scheme, string list) proc" where
  "log_option os c args =
     (if c = CHR ''L'' then thn (not_in_script ''-L option not allowed into script file'') (opt_L os args)
      else if c = CHR ''X'' then thn (not_in_script ''-X option not allowed into script file'') (opt_X os args)
      else if c = CHR ''l'' then thn (not_in_script ''-l option not allowed into script file'') (opt_l args)
      else if c = CHR ''x'' then thn (not_in_script ''-x option not allowed into script file'') (opt_x args)
      else opt_q args)"

subsection \<open>The transport protocol\<close>

text \<open>Every use of the option adds the size of an int to the least payload.\<close>

definition opt_T :: "string list \<Rightarrow> flow_spec \<Rightarrow> ('a send_state_scheme, flow_spec \<times> string list) proc" where
  "opt_T args f = (bnd (need_arg args ''Invalid Protocol Type'') (\<lambda>a.
   (let l4 = findL4Proto a;
          f1 = f\<lparr>f_l4Proto := l4, f_minPayloadSize := f_minPayloadSize f + 4\<rparr>;
          typed = (l4 = L4_ICMP \<and> length args > 2 \<and> \<not> is_option (args ! 2)) in
      if l4 = LX_ERROR_BYTE \<or> l4 = L4_DCCP \<or> l4 = L4_SCTP
      then s_ReportErrorAndExit ''Invalid Protocol Type''
      else if typed then ret (f1\<lparr>f_icmptype := sint (atoi (args ! 2))\<rparr>, drop 3 args)
      else ret (f1, drop 2 args))))"

subsection \<open>Distributions\<close>

text \<open>An option with n arguments, itself included, and a test of their values.\<close>

definition dist_opt :: "string list \<Rightarrow> nat \<Rightarrow> bool \<Rightarrow> string \<Rightarrow> distro \<Rightarrow> rv \<Rightarrow>
    ('a send_state_scheme, (distro \<times> rv) \<times> string list) proc" where
  "dist_opt args n bad msg d r = (if length args < n \<or> bad then s_ReportErrorAndExit msg
     else ret ((d, r), drop n args))"

definition pps_msg :: string where "pps_msg = ''Invalid pkts per sec''"
definition size_msg :: string where "size_msg = ''Invalid pkt size''"

text \<open>The time between packets, from packets per second where it is constant, uniform, exponential or
  Poisson.\<close>

definition time_option :: "char \<Rightarrow> string list \<Rightarrow> ('a send_state_scheme, (distro \<times> rv) \<times> string list) proc" where
  "time_option c args = (let x = real_arg args 1; y = real_arg args 2; s = d_div (Fin 1000) in
     if c = CHR ''C'' then dist_opt args 2 (d_nonpos x) pps_msg pdConstant (RScale (s x) RUnit)
     else if c = CHR ''U'' then dist_opt args 3 (d_nonpos x \<or> d_le y x) pps_msg pdUniform
       (RShift (RScale (d_sub (s x) (s y)) RUniform) (s y))
     else if c = CHR ''E'' then dist_opt args 2 (d_nonpos x) pps_msg pdExponential (RScale (s x) RExponential)
     else if c = CHR ''V'' then dist_opt args 3 (d_nonpos x \<or> d_nonpos y)
       ''Invalid Pareto Distribution parameter values'' pdPareto (RScale y (RPareto x))
     else if c = CHR ''Y'' then dist_opt args 3 (d_nonpos y) pps_msg pdCauchy (RShift (RScale y RCauchy) x)
     else if c = CHR ''N'' then dist_opt args 3 False pps_msg pdNormal (RShift (RScale y RNormal) x)
     else if c = CHR ''O'' then dist_opt args 2 (d_nonpos x) pps_msg pdPoisson (RRecip (Fin 1000) (RPoisson x))
     else if c = CHR ''G'' then dist_opt args 3 (d_nonpos x \<or> d_nonpos y)
       ''Invalid Gamma Distribution parameter values'' pdGamma (RScale y (RGamma x))
     else dist_opt args 3 (d_nonpos x \<or> d_nonpos y)
       ''Invalid Weibull Distribution parameter values'' pdWeibull (RScale (Fin 1) (RWeibull x y)))"

definition size_option :: "char \<Rightarrow> string list \<Rightarrow> ('a send_state_scheme, (distro \<times> rv) \<times> string list) proc" where
  "size_option c args = (let x = real_arg args 1; y = real_arg args 2; m = int_arg args 1; n = int_arg args 2;
       i = sint (atoi (args ! 1)); j = sint (atoi (args ! 2)) in
     if c = CHR ''c'' then dist_opt args 2 (i < 1) size_msg pdConstant (RScale m RUnit)
     else if c = CHR ''u'' then dist_opt args 3 (i < 1 \<or> j \<le> i) size_msg pdUniform
       (RShift (RScale (d_sub n m) RUniform) m)
     else if c = CHR ''e'' then dist_opt args 2 (i < 1) size_msg pdExponential (RScale m RExponential)
     else if c = CHR ''v'' then dist_opt args 3 (d_nonpos y)
       ''Invalid Pareto Distribution parameter values'' pdPareto (RScale y (RPareto x))
     else if c = CHR ''y'' then dist_opt args 3 (j \<le> 0) pps_msg pdCauchy (RShift (RScale n RCauchy) m)
     else if c = CHR ''n'' then dist_opt args 3 False size_msg pdNormal (RShift (RScale n RNormal) m)
     else if c = CHR ''o'' then dist_opt args 2 (i < 0) size_msg pdPoisson (RScale (Fin 1) (RPoisson m))
     else if c = CHR ''g'' then dist_opt args 3 (d_nonpos y)
       ''Invalid Gamma Distribution parameter values'' pdGamma (RScale y (RGamma x))
     else dist_opt args 3 (d_nonpos x \<or> d_nonpos y)
       ''Invalid Weilbull Distribution Parameter values'' pdWeibull (RScale (Fin 1) (RWeibull x y)))"

definition opt_B :: "string list \<Rightarrow> flow_spec \<Rightarrow> ('a send_state_scheme, flow_spec \<times> string list) proc" where
  "opt_B args f = (if length args < 3
     then s_ReportErrorAndExit ''Invalid settings for the On/Off periods1''
     else (bnd (burstyParser (tl args)) (\<lambda>(on, off, rest).
      ret (f\<lparr>p_OnPeriod := Some on, p_OffPeriod := Some off, f_bursty := True\<rparr>, rest))))"

subsection \<open>Files\<close>

text \<open>The whole content of a file; None is an error of the read.\<close>

definition read_file :: "os \<Rightarrow> nat \<Rightarrow> ('a world_scheme, bytes option) proc" where
  "read_file os k = (\<lambda>s. (Ret (os_data os (FRead k # hist s)), log_call (FRead k) s))"

definition open_file :: "os \<Rightarrow> string \<Rightarrow> string \<Rightarrow> ('a send_state_scheme, nat) proc" where
  "open_file os name msg = (bnd (sys os (FOpen 1 name)) (\<lambda>k.
   thn (cond (k < 0) (s_ReportErrorAndExit msg)) (ret (nat k))))"

text \<open>The lines as C strings: at most 28 characters at a time, as far as the first NUL.\<close>

definition file_lines :: "bytes \<Rightarrow> string list" where
  "file_lines b = map (takeWhile (\<lambda>c. c \<noteq> CHR 0x00)) (fgets_lines 27 (chars b))"

text \<open>Every line that is not just a newline has to hold a valid value.\<close>

definition size_line :: "string \<Rightarrow> u32 option" where
  "size_line l = (let n = sint (atoi l) in if n \<le> 0 \<or> n > DIM_MAX_IP_PACKET then None else Some (of_int n))"

definition time_line :: "string \<Rightarrow> dbl option" where
  "time_line l = (let t = strtod l in if d_nonpos t \<or> t = PInf then None else Some t)"

fun parse_lines :: "(string \<Rightarrow> 'v option) \<Rightarrow> string list \<Rightarrow> 'v list option" where
  "parse_lines p [] = Some []"
| "parse_lines p (l # ls) = (if l = [CHR 0x0A] then parse_lines p ls
     else case p l of None \<Rightarrow> None | Some v \<Rightarrow> map_option (Cons v) (parse_lines p ls))"

definition read_values :: "os \<Rightarrow> (string \<Rightarrow> 'v option) \<Rightarrow> string \<Rightarrow> ('a send_state_scheme, 'v list) proc" where
  "read_values os p name = (bnd (open_file os name ''Error in opening the file'') (\<lambda>k.
   bnd (read_file os k) (\<lambda>d.
   (case d of None \<Rightarrow> s_ReportErrorAndExit ''Error in reading the file''
      | Some b \<Rightarrow> if b = [] then s_ReportErrorAndExit ''Error in reading the file''
          else (case parse_lines p (file_lines b) of
              None \<Rightarrow> s_ReportErrorAndExit ''Error in reading the file: negative, too big or invalid number''
            | Some vs \<Rightarrow> thn (sys0 (FClose k)) (ret vs))))))"

text \<open>In a script a flow takes over the payload of another flow whose file has a different name.\<close>

definition shared_payload :: "string \<Rightarrow> (string \<times> bytes) list \<Rightarrow> bytes \<Rightarrow> bytes" where
  "shared_payload name others old =
     foldl (\<lambda>b (file, buf). if buf \<noteq> [] \<and> file \<noteq> name then buf else b) old others"

definition load_payload :: "os \<Rightarrow> string \<Rightarrow> ('a send_state_scheme, bytes) proc" where
  "load_payload os name = (bnd (open_file os name ''Error in opening the file of payload'') (\<lambda>k.
   bnd (read_file os k) (\<lambda>d.
   (case d of
        None \<Rightarrow> s_ReportErrorAndExit ''Error in reading the file of payload''
      | Some b \<Rightarrow> thn (sys0 (FClose k)) (ret b)))))"

definition opt_Fp :: "os \<Rightarrow> string \<Rightarrow> flow_spec \<Rightarrow> ('a parse_state_scheme, flow_spec) proc" where
  "opt_Fp os name f = (bnd (gets s_multiFlows) (\<lambda>m.
   bnd (gets payloads) (\<lambda>others.
   thn (cond m (thn (mutexThreadLock os ''mutexBufferPayload'') (thn (mutexThreadUnlock os ''mutexBufferPayload'') (ret ()))))
   (bnd (ret (if m then shared_payload name others (f_payloadBuffer f) else f_payloadBuffer f)) (\<lambda>b.
   bnd ((if b \<noteq> [] then ret b else load_payload os name)) (\<lambda>b'.
   ret (f\<lparr>p_payloadFile := name, f_payloadBuffer := b'\<rparr>)))))))"

definition opt_Fs :: "os \<Rightarrow> string \<Rightarrow> flow_spec \<Rightarrow> ('a parse_state_scheme, flow_spec) proc" where
  "opt_Fs os name f = (bnd (read_values os size_line name) (\<lambda>vs.
   ret (f\<lparr>f_vectSize := f_vectSize f @ vs\<rparr>)))"

text \<open>The first of the times is the delay of the flow; a file of empty lines has none.\<close>

definition opt_Ft :: "os \<Rightarrow> string \<Rightarrow> flow_spec \<Rightarrow> ('a parse_state_scheme, flow_spec) proc" where
  "opt_Ft os name f = (bnd (read_values os time_line name) (\<lambda>vs.
   (let all = p_vectTime f @ vs in
      if all = [] then fault
      else ret (f\<lparr>p_vectTime := all, p_Delay := of_int (long_of (hd all))\<rparr>))))"

definition opt_F :: "os \<Rightarrow> string list \<Rightarrow> flow_spec \<Rightarrow> ('a parse_state_scheme, flow_spec \<times> string list) proc" where
  "opt_F os args f = (let c = char_at (hd args) 2 in
     if c \<notin> {CHR ''p'', CHR ''s'', CHR ''t''} then what_is (hd args)
     else (bnd (need_arg args ''Invalid name file specified'') (\<lambda>a.
      thn (cond (is_option a) (s_ReportErrorAndExit ''Invalid name file specified''))
      (bnd ((if length a \<ge> DIM_NOME_FILE then fault
         else if c = CHR ''p'' then opt_Fp os a f
         else if c = CHR ''s'' then opt_Fs os a f
         else opt_Ft os a f)) (\<lambda>f1.
      ret (f1, drop 2 args))))))"

subsection \<open>Application protocols\<close>

definition set_traffic :: "traffic \<Rightarrow> flow_spec \<Rightarrow> flow_spec" where
  "set_traffic t f = f\<lparr>p_IntArriv := fst t, p_PktSize := snd t\<rparr>"

text \<open>A protocol that the table knows and the switch does not, AoM, leaves the position in the line as it
  is: the loop reads the same argument for ever.\<close>

definition app_protocol :: "string \<Rightarrow> string list \<Rightarrow> flow_spec \<Rightarrow>
    ('a send_state_scheme, flow_spec \<times> string list) proc" where
  "app_protocol second args f0 = (let l7 = findL7Proto (hd args); f = f0\<lparr>f_l7Proto := l7\<rparr> in
     if l7 = LX_ERROR_BYTE then what_is (hd args)
     else if l7 = 1 then ret ((set_traffic telnetParser f)\<lparr>f_l4Proto := L4_TCP\<rparr>, tl args)
     else if l7 = 2 then (bnd (voIPParser second (tl args)) (\<lambda>t.
      ret ((set_traffic t f)\<lparr>f_l4Proto := L4_UDP\<rparr>, [])))
     else if l7 = 3 then ret (set_traffic dnsParser f, tl args)
     else if l7 = 5 then ret ((set_traffic CSParsera f)\<lparr>f_l4Proto := L4_UDP\<rparr>, tl args)
     else if l7 = 6 then ret ((set_traffic CSParseri f)\<lparr>f_l4Proto := L4_UDP\<rparr>, tl args)
     else if l7 = 7 then ret ((set_traffic QuakeParser f)\<lparr>f_l4Proto := L4_UDP\<rparr>, tl args)
     else hang)"

subsection \<open>The loop over the arguments\<close>

definition with_flow :: "flow_spec \<Rightarrow> ('s, string list) proc \<Rightarrow> ('s, flow_spec \<times> string list) proc" where
  "with_flow f m = bnd m (\<lambda>rest. ret (f, rest))"

definition parse_option :: "os \<Rightarrow> string list \<Rightarrow> flow_spec \<Rightarrow> ('a parse_state_scheme, flow_spec \<times> string list) proc" where
  "parse_option os args f = (let c = char_at (hd args) 1 in
     if c = CHR ''p'' then opt_p args f
     else if c = CHR ''m'' then opt_m args f
     else if c = CHR ''a'' then opt_a os args f
     else if c = CHR ''i'' then opt_i args f
     else if c = CHR ''r'' then opt_r args f
     else if c = CHR ''f'' then opt_f args f
     else if c = CHR ''t'' then opt_t args f
     else if c = CHR ''z'' then opt_z args f
     else if c = CHR ''k'' then opt_k args f
     else if c = CHR ''d'' then opt_d args f
     else if c = CHR ''b'' then opt_b args f
     else if c = CHR ''j'' then opt_j args f
     else if c \<in> {CHR ''L'', CHR ''X'', CHR ''l'', CHR ''x'', CHR ''q''} then with_flow f (log_option os c args)
     else if c = CHR ''T'' then opt_T args f
     else if c = CHR ''s'' then opt_s os args f
     else if c \<in> {CHR ''C'', CHR ''U'', CHR ''E'', CHR ''V'', CHR ''Y'', CHR ''N'', CHR ''O'', CHR ''G'', CHR ''W''}
       then bnd (time_option c args) (\<lambda>(d, rest). ret (f\<lparr>p_IntArriv := d\<rparr>, rest))
     else if c = CHR ''B'' then opt_B args f
     else if c \<in> {CHR ''c'', CHR ''u'', CHR ''e'', CHR ''v'', CHR ''y'', CHR ''n'', CHR ''o'', CHR ''g'', CHR ''w''}
       then bnd (size_option c args) (\<lambda>(d, rest). ret (f\<lparr>p_PktSize := d\<rparr>, rest))
     else if c = CHR ''D'' then ret (f\<lparr>f_Nagle := False\<rparr>, drop 1 args)
     else if c = CHR ''H'' then thn (upd (\<lambda>s. s\<lparr>s_passiveMode := True\<rparr>)) (ret (f, drop 1 args))
     else if c = CHR ''F'' then opt_F os args f
     else if c = CHR ''S'' then opt_S os args f
     else what_is (hd args))"

definition parse_arg :: "os \<Rightarrow> string \<Rightarrow> string list \<Rightarrow> flow_spec \<Rightarrow> ('a parse_state_scheme, flow_spec \<times> string list) proc" where
  "parse_arg os second args f = (if is_option (hd args) then parse_option os args f
     else app_protocol second args f)"

text \<open>Every round takes at least one argument, so that as many rounds as there are arguments are enough.\<close>

primrec parse_rounds :: "os \<Rightarrow> string \<Rightarrow> nat \<Rightarrow> string list \<Rightarrow> flow_spec \<Rightarrow> ('a parse_state_scheme, flow_spec) proc" where
  "parse_rounds os second 0 args f = (if args = [] then ret f else hang)"
| "parse_rounds os second (Suc n) args f = (if args = [] then ret f
     else bnd (parse_arg os second args f) (\<lambda>(f', rest). parse_rounds os second n rest f'))"

text \<open>More than 200 arguments are written behind the array; an empty line has no first argument.\<close>

definition parse_args :: "os \<Rightarrow> string list \<Rightarrow> flow_spec \<Rightarrow> ('a parse_state_scheme, flow_spec) proc" where
  "parse_args os argv f = (if argv = [] \<or> length argv > 200 then fault
     else let args = (if hd argv = ''-gui'' then tl argv else argv)
       in parse_rounds os (argv ! 1) (length args) args f)"

end
