(* ===== verification/SendMain.thy ===== *)
theory SendMain
  imports FlowParser
begin

text \<open>ITGSend around the options of a flow (src/ITGSend/ITGSend.cpp): what flowParser does before and
  after it has read them, the global options of a script (parserMultiFlows), the three modes of the
  program (modeCommandLine, modeScript, modeManager) and main.\<close>

subsection \<open>Before the options\<close>

text \<open>The local address as a literal; were it not found, the program would go on with a null pointer.\<close>

definition loopback :: "os \<Rightarrow> ('a world_scheme, sockaddr) proc" where
  "loopback os = (bnd (sys os (Resolve ''127.0.0.1'')) (\<lambda>r.
   if r \<noteq> 0 then fault else gets (\<lambda>s. os_from os (hist s))))"

definition log_defaults :: "os \<Rightarrow> ('a parse_state_scheme, unit) proc" where
  "log_defaults os = (thn (set_logFile DefaultLogFile)
   (bnd (loopback os) (\<lambda>h.
   thn (upd (\<lambda>s. s\<lparr>s_logHost := SET_PORT h (htons DEFAULT_LOG_PORT), protoTxLog := L4_UDP\<rparr>))
   (bnd (loopback os) (\<lambda>g.
   upd (\<lambda>s. s\<lparr>serverLogReceiver := SET_PORT g (htons DEFAULT_LOG_PORT), protoTx_ServerLogReceiver := L4_UDP\<rparr>))))))"

definition default_flow :: "flow_desc \<Rightarrow> int \<Rightarrow> int \<Rightarrow> sockaddr \<Rightarrow> sockaddr \<Rightarrow> sockaddr \<Rightarrow> flow_spec" where
  "default_flow old type adjust dest src sig = \<lparr>
     f_SrcHost = src, f_DestHost = SET_PORT dest (htons DEFAULT_PORT),
     f_meter = METER_OWDM, f_l4Proto = L4_UDP, f_l7Proto = 0, f_DSByte = 0,
     f_sigChanId = f_sigChanId old,
     f_serialReceiver = (case strcpy (f_serialReceiver old) ''noSerial'' of Some b \<Rightarrow> b | None \<Rightarrow> f_serialReceiver old),
     f_payloadLogType = type, f_srcAddrSpecify = False, f_dstAddrSpecify = False,
     f_SigDestHost = SET_PORT sig (htons DEFAULT_PORT_SIGNALING), f_SigSrcHost = None,
     f_SigSrcPort = 0, f_SigInterface = None,
     f_icmptype = 8, f_Duration = DefaultDuration, f_TTL = 0, f_Nagle = True, f_iface = None,
     f_srcPortSpecify = False, f_serial = -1, f_minPayloadSize = StandardMinPayloadSize,
     f_payloadBuffer = [], f_mean_adjustment = adjust, f_vectSize = [], f_vectTime = [],
     f_numPacket = 0, f_KBToSend = 0, f_pollingMode = False, f_Delay = 0,
     f_PktSize = (\<lambda>_. 0), f_IntArriv = (\<lambda>_. 0), f_bursty = False,
     f_OnPeriod = (\<lambda>_. 0), f_OffPeriod = (\<lambda>_. 0),
     p_IntArriv = (pdConstant, RScale (d_div (Fin 1000) (Fin 1000)) RUnit),
     p_PktSize = (pdConstant, RScale (Fin 512) RUnit),
     p_OnPeriod = None, p_OffPeriod = None, p_dstPortSpecify = False, p_payloadFile = [],
     p_vectTime = [], p_Delay = 0, p_SigPort = 0, p_SigDestHostSpecify = False, p_seed = Fin 0\<rparr>"

definition init_flow :: "os \<Rightarrow> nat \<Rightarrow> ('a parse_state_scheme, flow_spec) proc" where
  "init_flow os i = (bnd (gets id) (\<lambda>s.
   bnd (loopback os) (\<lambda>d.
   bnd (loopback os) (\<lambda>src.
   bnd (loopback os) (\<lambda>sig.
   thn (cond (\<not> s_multiFlows s) (log_defaults os))
   (if i < length (flows s) then
       ret (default_flow (flows s ! i) (g_payloadLogType s) (g_mean_adjustment s) d src sig)
     else fault))))))"

text \<open>A line without a newline ends the program.\<close>

definition parse_line :: "os \<Rightarrow> nat \<Rightarrow> string \<Rightarrow> ('a parse_state_scheme, flow_spec) proc" where
  "parse_line os i line = (case strip_newline line of
      None \<Rightarrow> thn (sys0 (Print ''No newline at the end of file'')) (exit_with 1)
    | Some l \<Rightarrow> (bnd (init_flow os i) (\<lambda>f.
     bnd (gets cmdMode) (\<lambda>c.
     parse_args os (split_line c l) f))))"

subsection \<open>After the options\<close>

definition passive_error :: "bool \<Rightarrow> flow_spec \<Rightarrow> string option" where
  "passive_error multi f =
     (if multi \<and> f_dstAddrSpecify f then Some ''-a <address> option not work on passive-multiflow mode''
      else if f_l4Proto f \<noteq> L4_TCP \<and> f_l4Proto f \<noteq> L4_UDP \<or> f_l7Proto f \<noteq> 0
      then Some ''Passive Mode only with TCP or UDP protocol''
      else if multi \<and> (\<not> f_srcPortSpecify f \<or> \<not> p_dstPortSpecify f)
      then Some ''Passive-multiflow mode requires -sp and -rp options'' else None)"

definition passive_ports :: "flow_spec \<Rightarrow> flow_spec" where
  "passive_ports f = f\<lparr>
     f_SrcHost := (if f_srcPortSpecify f then f_SrcHost f else SET_PORT (f_SrcHost f) (htons DEFAULT_PORT_SENDER)),
     f_srcPortSpecify := True,
     f_DestHost := (if p_dstPortSpecify f then f_DestHost f else SET_PORT (f_DestHost f) (htons DEFAULT_PORT)),
     p_dstPortSpecify := True\<rparr>"

text \<open>A seed that was not given is taken from the clock; the pipe is the one that the parser waits on.\<close>

definition check_flow :: "os \<Rightarrow> flow_spec \<Rightarrow> ('a send_state_scheme, flow_spec \<times> int) proc" where
  "check_flow os f = (thn (cond (p_seed f = Fin 0) (sys0 GetTime))
   (bnd (sys os Pipe) (\<lambda>p.
   thn (cond (p < 0) (thn (sys0 (Print ''Error in flowParser() trying to create a new pipe'')) exitThread))
   (bnd (gets id) (\<lambda>s.
   if \<not> s_passiveMode s then ret (f, p)
     else (case passive_error (s_multiFlows s) f of
         Some msg \<Rightarrow> s_ReportErrorAndExit msg
       | None \<Rightarrow> ret (passive_ports f, p)))))))"

text \<open>When the signaling channel has told the receiver's address, the flow goes there; in passive mode
  the source is of the same family.\<close>

definition adopt_receiver :: "os \<Rightarrow> bool \<Rightarrow> flow_spec \<Rightarrow> ('a send_state_scheme, flow_spec) proc" where
  "adopt_receiver os flag f = (if flag = f_dstAddrSpecify f then ret f
     else (let p = GET_PORT (f_DestHost f) (p_SigPort f) in (bnd (sys os (Resolve (os_name os (f_SigDestHost f)))) (\<lambda>r.
      thn (cond (r < 0) (thn (sys0 (Print ''flowParser getaddrinfo() (1)'')) exitThread))
      (bnd (gets (\<lambda>s. os_from os (hist s))) (\<lambda>h.
      ret (f\<lparr>f_DestHost := SET_PORT h p, p_SigPort := p\<rparr>)))))))"

definition passive_source :: "os \<Rightarrow> flow_spec \<Rightarrow> ('a send_state_scheme, flow_spec) proc" where
  "passive_source os f = (bnd (gets s_passiveMode) (\<lambda>passive.
   if passive \<and> \<not> f_srcAddrSpecify f \<and> ai_family (f_SigDestHost f) = PF_INET6 then
       (let p = GET_PORT (f_SrcHost f) (p_SigPort f) in (bnd (sys os (Resolve ''::'')) (\<lambda>r.
        thn (cond (r < 0) (thn (sys0 (Print ''flowParser getaddrinfo() (2)'')) exitThread))
        (bnd (gets (\<lambda>s. os_from os (hist s))) (\<lambda>h.
        thn (warn_scope h)
        (ret (f\<lparr>f_SrcHost := SET_PORT h p, p_SigPort := p\<rparr>)))))))
     else ret f))"

text \<open>flows[id] while the signaling channel is found, which may fill in the receiver's address.\<close>

definition store_flow :: "nat \<Rightarrow> flow_spec \<Rightarrow> ('a send_state_scheme, unit) proc" where
  "store_flow i f = upd (upd_flow i (\<lambda>_. flow_desc.truncate f))"

definition reload_flow :: "nat \<Rightarrow> flow_spec \<Rightarrow> ('a send_state_scheme, flow_spec) proc" where
  "reload_flow i f = gets (\<lambda>s. flow_desc.extend (flows s ! i) (flow_desc.more f))"

definition find_channel :: "os \<Rightarrow> nat \<Rightarrow> flow_spec \<Rightarrow> ('a send_state_scheme, flow_spec \<times> nat) proc" where
  "find_channel os i f = (bnd (gets (\<lambda>s. unat (mem_u32 (junk os (hist s) 4)))) (\<lambda>old.
   thn (store_flow i f)
   (bnd (identifySignalManager os i old) (\<lambda>(rit, chan).
   thn (cond (rit = -1) (thn (sys0 (Print ''Error into function identifySignalManager()'')) exitThread))
   (bnd (reload_flow i f) (\<lambda>f1.
   bnd (adopt_receiver os (f_dstAddrSpecify f) f1) (\<lambda>f2.
   bnd (passive_source os f2) (\<lambda>f3.
   ret (f3, chan)))))))))"

subsection \<open>The thread\<close>

definition MNG_FLOWEND :: u32 where "MNG_FLOWEND = 2"

definition report_end :: "os \<Rightarrow> string \<Rightarrow> ('a parse_state_scheme, unit) proc" where
  "report_end os line = (bnd (gets id) (\<lambda>s.
   cond (managerMode s) (thn (sys os (Send (managerSock s)
       (u32_mem MNG_FLOWEND @ u32_mem (of_nat (length line)) @ bytes_of line))) (ret ()))))"

definition await_end :: "os \<Rightarrow> nat \<Rightarrow> string \<Rightarrow> int \<Rightarrow> nat \<Rightarrow> ('a parse_state_scheme, unit) proc" where
  "await_end os i line pipe chan = (thn (sys0 (PipeWrite chan (u32_mem (of_nat i) @ u32_mem (of_int MSG_SM_NEWFLOW))))
   (bnd (sys_recv os pipe 8) (\<lambda>r.
   thn ((let d = (case r of None \<Rightarrow> [] | Some d \<Rightarrow> d);
          code = sint (mem_u32 (drop 4 (d @ drop (length d) (u32_mem (of_nat i) @ u32_mem (of_int MSG_SM_NEWFLOW)))))
      in cond (code \<noteq> MSG_FP_END) (sys0 (Print
           (if code = MSG_FP_ERR1 then ''Error at Receiver side''
            else if code = MSG_FP_ERR2 then ''Error - FlowSender interrupted by an error''
            else ''Error undefined message received from signal manager'')))))
   (thn (sys0 (Print ''Finished sending packets''))
   (thn (report_end os line)
   (thn (sys0 (Close (pipe + 1)))
   (sys0 (Close pipe))))))))"

text \<open>What the thread does with the flow that its options have described.\<close>

definition run_flow :: "os \<Rightarrow> nat \<Rightarrow> string \<Rightarrow> flow_spec \<Rightarrow> ('a parse_state_scheme, unit) proc" where
  "run_flow os i line f0 = (bnd (check_flow os f0) (\<lambda>(f1, pipe).
   bnd (find_channel os i f1) (\<lambda>(f2, chan).
   bnd (gets id) (\<lambda>s.
   if (namelogReceiver s = 1 \<or> logServer s = 1) \<and> chan < length (signalChannels s) \<and> ch_errorLog (signalChannels s ! chan)
     then (thn (sys0 (Print ''Error log file specified is already open''))
      (thn (isChannelClosable os chan)
      (cond (s_multiFlows s) exitThread)))
     else (thn (store_flow i (f2\<lparr>f_Delay := p_Delay f2\<rparr>))
      (thn (await_end os i (butlast line) pipe chan)
      (cond (s_multiFlows s) exitThread)))))))"

definition flowParser :: "os \<Rightarrow> nat \<Rightarrow> string \<Rightarrow> ('a parse_state_scheme, unit) proc" where
  "flowParser os i line = bnd (parse_line os i line) (run_flow os i line)"

subsection \<open>Scripts\<close>

text \<open>The global options of a script.  An argument that is no option is never passed over: the loop does
  not end.  The buffer of the last message has room for a character instead of the option.\<close>

definition multi_option :: "os \<Rightarrow> char \<Rightarrow> string list \<Rightarrow> ('a parse_state_scheme, string list) proc" where
  "multi_option os c args =
     (if c = CHR ''h'' then (thn (sys0 (Print ''help''))
      (exit_with 1))
      else if c = CHR ''q'' then
        (if no_value (tl args) then ret (drop 1 args)
         else thn (upd (\<lambda>s. s\<lparr>s_buffer_size := ucast (atoi (args ! 1))\<rparr>)) (ret (drop 2 args)))
      else if c = CHR ''l'' then opt_l args
      else if c = CHR ''L'' then opt_L os args
      else if c = CHR ''X'' then opt_X os args
      else if c = CHR ''x'' then opt_x args
      else if length (hd args) > 2 then fault
      else s_ReportErrorAndExit ''Option can not be used as a global option in the multy flow mode !'')"

primrec multi_rounds :: "os \<Rightarrow> nat \<Rightarrow> string list \<Rightarrow> ('a parse_state_scheme, unit) proc" where
  "multi_rounds os 0 args = (if args = [] then ret () else hang)"
| "multi_rounds os (Suc n) args = (if args = [] then ret ()
     else if \<not> is_option (hd args) then hang
     else bnd (multi_option os (char_at (hd args) 1) args) (multi_rounds os n))"

definition parserMultiFlows :: "os \<Rightarrow> string list \<Rightarrow> ('a parse_state_scheme, unit) proc" where
  "parserMultiFlows os args = thn (log_defaults os) (multi_rounds os (length args) args)"

text \<open>The lines that are greater than an empty line, as strcmp compares them; at most 398 characters of a
  line are read at a time.\<close>

definition flow_line :: "string \<Rightarrow> bool" where
  "flow_line l \<longleftrightarrow> l \<noteq> [] \<and> (of_char (hd l) :: nat) > 10"

definition script_lines :: "bytes \<Rightarrow> string list" where
  "script_lines b = filter flow_line
     (map (takeWhile (\<lambda>c. c \<noteq> CHR 0x00)) (fgets_lines 397 (chars b)))"

text \<open>Flow k gets the number k + 1 and a thread of its own; there are 400 slots for the lines.\<close>

definition start_parser :: "os \<Rightarrow> bool \<Rightarrow> string \<Rightarrow> ('a parse_state_scheme, unit) proc" where
  "start_parser os detach line = (bnd (gets flowCount) (\<lambda>k.
   bnd (gets id) (\<lambda>s.
   if k \<ge> length (parserParams s) then fault
     else (thn (upd (\<lambda>s. s\<lparr>parserParams := (parserParams s)[k := (int k + 1, line)]\<rparr>))
      (thn (createThread os ''flowParser'' k detach)
      (upd (\<lambda>s. s\<lparr>flowCount := k + 1\<rparr>)))))))"

primrec start_parsers :: "os \<Rightarrow> string list \<Rightarrow> ('a parse_state_scheme, unit) proc" where
  "start_parsers os [] = ret ()"
| "start_parsers os (l # ls) = thn (start_parser os False l) (start_parsers os ls)"

definition modeScript :: "os \<Rightarrow> string list \<Rightarrow> ('a parse_state_scheme, unit) proc" where
  "modeScript os argv = (thn (upd (\<lambda>s. s\<lparr>flowCount := 0, s_multiFlows := True\<rparr>))
   (bnd (sys os (FOpen 1 (hd argv))) (\<lambda>k.
   thn (cond (k < 0) (thn (sys0 (Print ''Cannot open the script for reading'')) (exit_with 1)))
   (thn (parserMultiFlows os (tl argv))
   (bnd (read_file os (nat k)) (\<lambda>d.
   thn ((let b = (case d of None \<Rightarrow> [] | Some b \<Rightarrow> b) in (thn (cond (b = []) (thn (sys0 (Print ''errore'')) (exit_with 1)))
      (start_parsers os (script_lines b)))))
   (thn (sys0 (FClose (nat k)))
   (bnd (gets flowCount) (\<lambda>n.
   thn (joinThread os n [0..<n])
   (ret ()))))))))))"

subsection \<open>The command line\<close>

definition MAX_FLOW_LINE_SIZE :: nat where "MAX_FLOW_LINE_SIZE = 1460"

definition modeCommandLine :: "os \<Rightarrow> string list \<Rightarrow> ('a parse_state_scheme, unit) proc" where
  "modeCommandLine os argv = (thn (upd (\<lambda>s. s\<lparr>cmdMode := True\<rparr>))
   ((let line = argvToString argv (length argv) in
      if length line \<ge> MAX_FLOW_LINE_SIZE then fault else flowParser os 1 line)))"

subsection \<open>A manager\<close>

text \<open>A datagram goes into a buffer that keeps what the one before has left; the line ends at the first
  newline of the buffer, which may be one of those.  An error of recvfrom writes before the
  buffer unless there is such a newline.\<close>

definition manager_line :: "bytes \<Rightarrow> int \<Rightarrow> (nat \<times> string) option" where
  "manager_line buf received =
     (let text = chars (takeWhile (\<lambda>b. b \<noteq> 0) buf);
          k = length (takeWhile (\<lambda>c. c \<noteq> CHR 0x0A) text);
          len = (if k < length text then int k else received)
      in if len < 0 \<or> len + 1 \<ge> int (length buf) then None
         else Some (nat len, take (MAX_FLOW_LINE_SIZE - 3) (chars (takeWhile (\<lambda>b. b \<noteq> 0) (take (nat len) buf))
                @ (if 0 \<in> set (take (nat len) buf) then [] else [CHR 0x0A]))))"

text \<open>The acknowledgement: the type in one byte, the size as a short at the third, and the line from
  the ninth on, cut off after len + 3 bytes; the line is moved by 8 bytes inside the buffer.\<close>

definition manager_ack :: "bytes \<Rightarrow> nat \<Rightarrow> bytes" where
  "manager_ack buf len =
     take (len + 3) (put_at 2 (u16_mem (of_nat len)) (put_at 0 [1] (put_at 8 (take len buf) buf)))"

definition manager_round :: "os \<Rightarrow> bytes \<Rightarrow> ('a parse_state_scheme, bytes) proc" where
  "manager_round os buf = (bnd (gets managerSock) (\<lambda>sock.
   bnd (sys_recv os sock (MAX_FLOW_LINE_SIZE - 3)) (\<lambda>r.
   (let d = (case r of None \<Rightarrow> [] | Some d \<Rightarrow> d);
          buf1 = d @ drop (length d) buf in
      case manager_line buf1 (case r of None \<Rightarrow> -1 | Some d \<Rightarrow> int (length d)) of
        None \<Rightarrow> fault
      | Some (len, line) \<Rightarrow>
          if len + 8 > MAX_FLOW_LINE_SIZE then fault else
          (let buf2 = put_at len [10, 0] buf1; ack = manager_ack buf2 len in (bnd (sys os (Send sock ack)) (\<lambda>w.
           thn (cond (w < 0) (sys0 (Print ''modeManager: error while sending ACK to the manager'')))
           (thn (start_parser os True line)
           (thn (mutexThreadLock os ''mutexBufferPayload'')
           (thn (mutexThreadUnlock os ''mutexBufferPayload'')
           (ret (put_at 2 (u16_mem (of_nat len)) (put_at 0 [1] (put_at 8 (take len buf2) buf2))))))))))))))"

primrec manager_rounds :: "os \<Rightarrow> nat \<Rightarrow> bytes \<Rightarrow> ('a parse_state_scheme, unit) proc" where
  "manager_rounds os 0 buf = hang"
| "manager_rounds os (Suc n) buf = bnd (manager_round os buf) (manager_rounds os n)"

definition DEFAULT_PORT_SENDER_MANAGER :: u16 where "DEFAULT_PORT_SENDER_MANAGER = 8998"

definition modeManager :: "os \<Rightarrow> nat \<Rightarrow> string list \<Rightarrow> ('a parse_state_scheme, unit) proc" where
  "modeManager os rounds argv = (thn (upd (\<lambda>s. s\<lparr>flowCount := 0, managerMode := True, s_multiFlows := True\<rparr>))
   (thn (sys0 (Print ''Press Ctrl-C to terminate''))
   (thn (parserMultiFlows os (tl argv))
   (thn (sys os (Resolve ''0.0.0.0''))
   (bnd (sys os (Socket 2)) (\<lambda>sock.
   thn (upd (\<lambda>s. s\<lparr>managerSock := sock\<rparr>))
   (thn (cond (sock < 0) (sys0 (Print ''error socket()!'')))
   (bnd (sys os (Bind sock (unat DEFAULT_PORT_SENDER_MANAGER))) (\<lambda>b.
   thn (cond (b \<noteq> 0) (sys0 (Print ''error bind()!'')))
   (bnd (gets (\<lambda>s. junk os (hist s) MAX_FLOW_LINE_SIZE)) (\<lambda>buf.
   manager_rounds os rounds buf)))))))))))"

subsection \<open>main\<close>

definition asks_help :: "string \<Rightarrow> bool" where
  "asks_help a \<longleftrightarrow> char_at a 0 = CHR ''-'' \<and> (char_at a 1 = CHR ''h'' \<or> char_at a 1 = CHR ''-'' \<and> char_at a 2 = CHR ''h'')"

definition DefaultRecvLogFile :: string where "DefaultRecvLogFile = ''/tmp/ITGRecv.log''"

definition init_sender :: "os \<Rightarrow> ('a parse_state_scheme, unit) proc" where
  "init_sender os = (thn (mutexThreadInit os ''mutex'')
   (thn (mutexThreadInit os ''mutexLog'')
   (thn (mutexThreadInit os ''mutexLogRem'')
   (thn (mutexThreadInit os ''mutexBufferPayload'')
   (bnd (s_time_now os) (\<lambda>now.
   upd (\<lambda>s. s\<lparr>RifTime := now\<rparr>)))))))"

definition init_channels :: "sig_channel list \<Rightarrow> sig_channel list" where
  "init_channels = map (\<lambda>h. h\<lparr>ch_socket := -1, ch_flows := 0, ch_errorLog := False\<rparr>)"

text \<open>The arguments without the program's name; the number of rounds bounds the server of a manager.\<close>

definition send_main :: "os \<Rightarrow> nat \<Rightarrow> string list \<Rightarrow> ('a parse_state_scheme, unit) proc" where
  "send_main os rounds argv =
     (if argv = [] \<or> asks_help (hd argv) then thn (sys0 (Print ''help'')) (exit_with 1)
      else (thn (init_sender os)
       (thn (cond (hd argv = ''-gui'') (thn (createThread os ''waitStopKey'' 0 True) (ret ())))
       (thn (set_logFile DefaultLogFile)
       (thn (upd (\<lambda>s. s\<lparr>logFileReceiver := bytes_of DefaultRecvLogFile @ replicate (DIM_LOG_FILE - length DefaultRecvLogFile) 0,
                   signalChannels := init_channels (signalChannels s)\<rparr>))
       (thn ((if char_at (hd argv) 0 = CHR ''-'' \<and> char_at (hd argv) 1 = CHR ''Q'' then modeManager os rounds argv
         else if \<not> is_option (hd argv) \<and> findL7Proto (hd argv) = LX_ERROR_BYTE then modeScript os argv
         else modeCommandLine os argv))
       (s_Terminate os 0)))))))"

end
