(* ===== verification/FlowParser_Facts.thy ===== *)
theory FlowParser_Facts
  imports SendMain
begin

text \<open>What the option parser of ITGSend accepts, that it ends, and that the options a user writes are
  the ones that the flow gets.\<close>

subsection \<open>Every accepted flow is within its bounds\<close>

definition meter_codes :: "u8 set" where "meter_codes = {METER_OWDM, S_METER_RTTM}"
definition transport_codes :: "u8 set" where "transport_codes = {L4_TCP, L4_UDP, L4_ICMP}"
definition payload_types :: "int set" where "payload_types = {PL_STANDARD, PL_SHORT, PL_NONE}"
definition flags :: "int set" where "flags = {0, 1}"

text \<open>The tables of the random variables are not empty, and not larger than what a double counts
  without loss.\<close>

fun rv_small :: "rv \<Rightarrow> bool" where
  "rv_small (RDiscrete pvs) = (0 < length pvs \<and> length pvs \<le> 2 ^ 20)"
| "rv_small (RMixed prs) = (0 < length prs \<and> length prs \<le> 2 ^ 20 \<and> (\<forall>(p, r) \<in> set prs. rv_small r))"
| "rv_small (RScale a r) = rv_small r"
| "rv_small (RShift r a) = rv_small r"
| "rv_small (RRecip a r) = rv_small r"
| "rv_small r = True"

definition period_small :: "(distro \<times> rv) option \<Rightarrow> bool" where
  "period_small d \<longleftrightarrow> (case d of None \<Rightarrow> True | Some (_, r) \<Rightarrow> rv_small r)"

lemma period_small_simps [simp]: "period_small None" "period_small (Some (d, r)) = rv_small r"
  by (simp_all add: period_small_def)

definition flow_ok :: "flow_spec \<Rightarrow> bool" where
  "flow_ok f \<longleftrightarrow> 0 \<le> f_TTL f \<and> f_TTL f \<le> 255 \<and> f_DSByte f \<le> 255
     \<and> 0 < uint (f_Duration f) \<and> uint (f_Duration f) < 2 ^ 63
     \<and> f_meter f \<in> meter_codes \<and> f_l4Proto f \<in> transport_codes
     \<and> f_payloadLogType f \<in> payload_types \<and> f_mean_adjustment f \<in> flags
     \<and> 4 \<le> f_minPayloadSize f \<and> length (f_serialReceiver f) = 10
     \<and> (\<forall>n \<in> set (f_vectSize f). 0 < uint n \<and> uint n \<le> 65536)
     \<and> (\<forall>t \<in> set (p_vectTime f). t = NaN \<or> (\<exists>q > 0. t = Fin q))
     \<and> rv_small (snd (p_IntArriv f)) \<and> rv_small (snd (p_PktSize f))
     \<and> period_small (p_OnPeriod f) \<and> period_small (p_OffPeriod f)"

lemma RUnit_small [simp]: "rv_small RUnit" by (simp add: RUnit_def)

lemma bursty_period_out:
  assumes "bursty_period n1 n2 args = Some (d, rest)" "n1 \<ge> 2" "n2 \<ge> 3"
  shows "rv_small (snd d) \<and> (\<exists>k \<ge> 2. rest = drop k args \<and> k \<le> length args)"
  using bursty_period_rest[OF assms] assms(1)
  by (auto simp: bursty_period_def Let_def split: if_splits)

lemma protocols_small [simp]:
  "rv_small (snd (fst telnetParser))" "rv_small (snd (snd telnetParser))"
  "rv_small (snd (fst dnsParser))" "rv_small (snd (snd dnsParser))"
  "rv_small (snd (fst CSParsera))" "rv_small (snd (snd CSParsera))"
  "rv_small (snd (fst CSParseri))" "rv_small (snd (snd CSParseri))"
  "rv_small (snd (fst QuakeParser))" "rv_small (snd (snd QuakeParser))"
  "rv_small (snd (fst (voip_traffic v)))" "rv_small (snd (snd (voip_traffic v)))"
  by (simp_all add: telnetParser_def dnsParser_def CSParsera_def CSParseri_def QuakeParser_def voip_traffic_def)

text \<open>A step of the parser: it does not hang unless H, leaves the default payload type alone, takes at
  least one argument and keeps flow_ok.\<close>

definition log_type_ok :: "'a parse_state_scheme \<Rightarrow> bool" where
  "log_type_ok s \<longleftrightarrow> g_payloadLogType s \<in> payload_types"

definition later :: "string list \<Rightarrow> string list \<Rightarrow> bool" where
  "later rest args \<longleftrightarrow> length rest < length args \<and> set rest \<subseteq> set args"

lemma later_drop [simp]:
  "later (drop n args) args \<longleftrightarrow> 0 < n \<and> args \<noteq> []"
  "later (tl args) args \<longleftrightarrow> args \<noteq> []"
  "later [] args \<longleftrightarrow> args \<noteq> []"
  "later (drop n (tl args)) args \<longleftrightarrow> args \<noteq> []"
  by (cases args; force simp: later_def dest: in_set_dropD)+

definition good_step :: "bool \<Rightarrow> string list \<Rightarrow> flow_spec \<Rightarrow>
    ('a parse_state_scheme, flow_spec \<times> string list) proc \<Rightarrow> bool" where
  "good_step H args f m \<longleftrightarrow> (\<forall>s. case m s of
      (Ret (f', rest), s') \<Rightarrow> (log_type_ok s \<longrightarrow> log_type_ok s') \<and> (flow_ok f \<and> log_type_ok s \<longrightarrow> flow_ok f')
        \<and> later rest args
    | (Hang, _) \<Rightarrow> H
    | _ \<Rightarrow> True)"

lemmas run_parser = proc_simps need_arg_def s_ReportErrorAndExit_def

named_theorems step_defs \<open>the options of the parser\<close>

lemma log_type_ok_log [simp]: "log_type_ok (log_call c s) = log_type_ok s"
  by (simp add: log_type_ok_def log_call_def)

lemma strtol_less: "strtol s < 2 ^ 63"
proof -
  have "- (int v) < 2 ^ 63" for v :: nat by (rule order.strict_trans1[of _ 0]) simp_all
  then show ?thesis by (auto simp: strtol_def Let_def max_def split: option.split)
qed

lemma uint_strtol: "0 < strtol s \<Longrightarrow> uint (of_int (strtol s) :: u64) = strtol s"
  using strtol_less[of s] by (simp add: unsigned_of_int take_bit_int_eq_self)

lemma byte_word: "0 \<le> n \<Longrightarrow> n \<le> 255 \<Longrightarrow> (of_int n :: u32) \<le> 255"
  by (simp add: word_le_def unsigned_of_int take_bit_int_eq_self)

lemma good_opt_t: "args \<noteq> [] \<Longrightarrow> good_step H args f (opt_t args f)"
  using strtol_less[of "args ! 1"]
  by (auto simp: good_step_def opt_t_def run_parser flow_ok_def Let_def uint_strtol)

lemma good_opt_z: "args \<noteq> [] \<Longrightarrow> good_step H args f (opt_z args f)"
  by (auto simp: good_step_def opt_z_def run_parser flow_ok_def Let_def)

lemma good_opt_k: "args \<noteq> [] \<Longrightarrow> good_step H args f (opt_k args f)"
  by (auto simp: good_step_def opt_k_def run_parser flow_ok_def Let_def)

lemma good_opt_d: "args \<noteq> [] \<Longrightarrow> good_step H args f (opt_d args f)"
  by (auto simp: good_step_def opt_d_def run_parser flow_ok_def Let_def)

lemma good_opt_f: "args \<noteq> [] \<Longrightarrow> good_step H args f (opt_f args f)"
  by (auto simp: good_step_def opt_f_def run_parser flow_ok_def Let_def no_serial_def strcpy_def
      split: option.splits)

lemma good_opt_b: "args \<noteq> [] \<Longrightarrow> good_step H args f (opt_b args f)"
  by (auto simp: good_step_def opt_b_def run_parser flow_ok_def Let_def byte_word split: option.splits)

lemma good_opt_j: "args \<noteq> [] \<Longrightarrow> good_step H args f (opt_j args f)"
  by (auto simp: good_step_def opt_j_def run_parser flow_ok_def Let_def flags_def)


lemma good_opt_p: "args \<noteq> [] \<Longrightarrow> good_step H args f (opt_p args f)"
  by (auto simp: good_step_def opt_p_def run_parser flow_ok_def Let_def log_type_ok_def log_call_def
      min_payload_def ShortMinPayloadSize_def NoneMinPayloadSize_def payload_types_def
      PL_STANDARD_def PL_SHORT_def PL_NONE_def)

lemma findMeter_code: "findMeter a \<noteq> LX_ERROR_BYTE \<Longrightarrow> findMeter a \<in> meter_codes"
  by (auto simp: findMeter_def meters_def meter_codes_def METER_OWDM_def S_METER_RTTM_def split: if_splits)

lemma good_opt_m: "args \<noteq> [] \<Longrightarrow> good_step H args f (opt_m args f)"
  by (auto simp: good_step_def opt_m_def run_parser flow_ok_def Let_def findMeter_code)

lemma findL4_code: "findL4Proto a \<noteq> LX_ERROR_BYTE \<Longrightarrow> findL4Proto a \<noteq> L4_DCCP \<Longrightarrow> findL4Proto a \<noteq> L4_SCTP
    \<Longrightarrow> findL4Proto a \<in> transport_codes"
  by (auto simp: findL4Proto_def l4Protocols_def transport_codes_def L4_TCP_def L4_UDP_def L4_ICMP_def
      L4_DCCP_def L4_SCTP_def split: if_splits)

lemma transport_in [simp]: "L4_ICMP \<in> transport_codes" "L4_TCP \<in> transport_codes" "L4_UDP \<in> transport_codes"
  by (simp_all add: transport_codes_def)

lemma good_opt_T: "args \<noteq> [] \<Longrightarrow> good_step H args f (opt_T args f)"
  by (auto simp: good_step_def opt_T_def run_parser flow_ok_def Let_def findL4_code)

lemmas run_lookup = lookup_def warn_scope_def what_is_def log_type_ok_def log_call_def

lemma good_opt_a: "args \<noteq> [] \<Longrightarrow> good_step H args f (opt_a os args f)"
  by (auto simp: good_step_def opt_a_def run_parser run_lookup flow_ok_def Let_def)

lemma good_opt_i: "args \<noteq> [] \<Longrightarrow> good_step H args f (opt_i args f)"
  by (auto simp: good_step_def opt_i_def run_parser flow_ok_def)

lemma good_opt_r: "args \<noteq> [] \<Longrightarrow> good_step H args f (opt_r args f)"
  by (auto simp: good_step_def opt_r_def run_parser run_lookup flow_ok_def strcpy_def split: option.splits)

lemma good_opt_s: "args \<noteq> [] \<Longrightarrow> good_step H args f (opt_s os args f)"
  by (auto simp: good_step_def opt_s_def run_parser run_lookup flow_ok_def no_serial_def strcpy_def)

lemma good_opt_S: "args \<noteq> [] \<Longrightarrow> good_step H args f (opt_S os args f)"
  by (auto simp: good_step_def opt_S_def sig_port_def run_parser run_lookup flow_ok_def Let_def)

lemma good_time: "args \<noteq> [] \<Longrightarrow>
    good_step H args f (bnd (time_option c args) (\<lambda>(d, rest). ret (f\<lparr>p_IntArriv := d\<rparr>, rest)))"
  by (auto simp: good_step_def time_option_def dist_opt_def run_parser flow_ok_def Let_def)

lemma good_size: "args \<noteq> [] \<Longrightarrow>
    good_step H args f (bnd (size_option c args) (\<lambda>(d, rest). ret (f\<lparr>p_PktSize := d\<rparr>, rest)))"
  by (auto simp: good_step_def size_option_def dist_opt_def run_parser flow_ok_def Let_def)

lemma good_opt_B: "args \<noteq> [] \<Longrightarrow> good_step H args f (opt_B args f)"
  by (auto simp: good_step_def opt_B_def burstyParser_def run_parser flow_ok_def
      dest!: bursty_period_out split: option.splits)

text \<open>The logs change settings of the program only.\<close>

lemma server_arg_out:
  fixes s :: "'a parse_state_scheme"
  shows "server_arg os a msg v s = (x, s') \<Longrightarrow> log_type_ok s' = log_type_ok s \<and> x \<noteq> Hang"
  by (auto simp: server_arg_def lookup_def run_parser log_type_ok_def log_call_def split: if_splits)

lemma server_args_out:
  fixes s :: "'a parse_state_scheme"
  assumes "server_args os args v s = (x, s')" "args \<noteq> []"
  shows "log_type_ok s' = log_type_ok s \<and> x \<noteq> Hang
     \<and> (\<forall>v' rest. x = Ret (v', rest) \<longrightarrow> later rest args)"
  using assms
  by (auto simp: server_args_def bnd_def ret_def split: if_splits prod.splits out.splits
      dest!: server_arg_out[of os _ _ _ s] server_arg_out)

definition good_rest :: "string list \<Rightarrow> ('a parse_state_scheme, string list) proc \<Rightarrow> bool" where
  "good_rest args m \<longleftrightarrow> (\<forall>s. case m s of
      (Ret rest, s') \<Rightarrow> (log_type_ok s \<longrightarrow> log_type_ok s') \<and> later rest args
    | (Hang, _) \<Rightarrow> False
    | _ \<Rightarrow> True)"

lemma good_rest_server:
  assumes "args \<noteq> []" "\<And>s. log_type_ok (g s) = log_type_ok s" "\<And>v s. log_type_ok (h v s) = log_type_ok s"
  shows "good_rest args (thn (upd g) (bnd (gets k) (\<lambda>v. bnd (server_args os args v)
     (\<lambda>(v', rest). thn (upd (h v')) (ret rest)))))"
proof -
  have "case bnd (server_args os args (k (g s))) (\<lambda>(v', rest). thn (upd (h v')) (ret rest)) (g s) of
      (Ret rest, s') \<Rightarrow> (log_type_ok s \<longrightarrow> log_type_ok s') \<and> later rest args
    | (Hang, _) \<Rightarrow> False | _ \<Rightarrow> True" for s
    using server_args_out[of os args "k (g s)" "g s"] assms
    by (cases "server_args os args (k (g s)) (g s)" rule: prod.exhaust)
       (auto simp: bnd_def run_parser split: out.split prod.split)
  then show ?thesis by (simp add: good_rest_def run_parser)
qed

lemma good_rest_L: "args \<noteq> [] \<Longrightarrow> good_rest args (opt_L os args)"
  unfolding opt_L_def
  by (rule good_rest_server[where h = "\<lambda>v' s. s\<lparr>s_logHost := fst v', protoTxLog := snd v'\<rparr>"])
     (simp_all add: log_type_ok_def)

lemma good_rest_X: "args \<noteq> [] \<Longrightarrow> good_rest args (opt_X os args)"
  unfolding opt_X_def
  by (rule good_rest_server[where h = "\<lambda>v' s. s\<lparr>serverLogReceiver := fst v', protoTx_ServerLogReceiver := snd v'\<rparr>"])
     (simp_all add: log_type_ok_def)

lemma no_name_rest: "\<not> no_name (tl args) \<Longrightarrow> 2 \<le> length args"
  by (cases args; cases "tl args") (auto simp: no_name_def)

lemma good_rest_l: "args \<noteq> [] \<Longrightarrow> good_rest args (opt_l args)"
  by (auto simp: good_rest_def opt_l_def set_logFile_def run_parser log_type_ok_def dest!: no_name_rest)

lemma good_rest_x: "args \<noteq> [] \<Longrightarrow> good_rest args (opt_x args)"
  by (auto simp: good_rest_def opt_x_def run_parser log_type_ok_def dest!: no_name_rest split: option.split)

lemma good_rest_q: "args \<noteq> [] \<Longrightarrow> good_rest args (opt_q args)"
  by (auto simp: good_rest_def opt_q_def run_parser log_type_ok_def dest!: no_name_rest)

lemma good_rest_not_in_script: "good_rest args m \<Longrightarrow> good_rest args (thn (not_in_script msg) m)"
  by (auto simp: good_rest_def not_in_script_def run_parser)

lemma good_rest_option: "args \<noteq> [] \<Longrightarrow> good_rest args (log_option os c args)"
  by (simp add: log_option_def good_rest_not_in_script good_rest_L good_rest_X good_rest_l good_rest_x
      good_rest_q)

lemma good_with_flow: "good_rest args m \<Longrightarrow> good_step H args f (with_flow f m)"
  by (fastforce simp: good_rest_def good_step_def with_flow_def bnd_def ret_def split: prod.splits out.splits)

text \<open>What a file of values gives.\<close>

lemma parse_lines_values:
  "parse_lines p ls = Some vs \<Longrightarrow> v \<in> set vs \<Longrightarrow> \<exists>l. p l = Some v"
  by (induction ls arbitrary: vs) (auto split: if_splits option.splits)

definition values_of :: "(string \<Rightarrow> 'v option) \<Rightarrow> 'v list \<Rightarrow> bool" where
  "values_of p vs \<longleftrightarrow> (\<forall>v \<in> set vs. \<exists>l. p l = Some v)"

lemma read_values_out:
  fixes s :: "'a parse_state_scheme"
  assumes "read_values os p name s = (x, s')"
  shows "log_type_ok s' = log_type_ok s \<and> x \<noteq> Hang \<and> (\<forall>vs. x = Ret vs \<longrightarrow> values_of p vs)"
  using assms
  by (auto simp: read_values_def open_file_def read_file_def run_parser bnd_def values_of_def
      split: if_splits option.splits dest: parse_lines_values)

lemma size_values:
  assumes "values_of size_line vs" "n \<in> set vs"
  shows "0 < uint n \<and> uint n \<le> 65536"
proof -
  obtain l where l: "size_line l = Some n" using assms by (auto simp: values_of_def)
  then have n: "n = atoi l" "0 < sint n" "sint n \<le> 65536"
    by (auto simp: size_line_def Let_def DIM_MAX_IP_PACKET_def split: if_splits)
  then show ?thesis by (simp add: uint_sint take_bit_int_eq_self)
qed

lemma time_values:
  assumes "values_of time_line vs" "t \<in> set vs"
  shows "t = NaN \<or> (\<exists>q > 0. t = Fin q)"
proof -
  obtain l where l: "time_line l = Some t" using assms by (auto simp: values_of_def)
  then have "\<not> d_nonpos t" "t \<noteq> PInf" by (auto simp: time_line_def Let_def split: if_splits)
  then show ?thesis by (cases t) (auto simp: d_nonpos_def d_le_def)
qed

definition good_file :: "flow_spec \<Rightarrow> ('a parse_state_scheme, flow_spec) proc \<Rightarrow> bool" where
  "good_file f m \<longleftrightarrow> (\<forall>s. case m s of
      (Ret f', s') \<Rightarrow> (log_type_ok s \<longrightarrow> log_type_ok s') \<and> (flow_ok f \<longrightarrow> flow_ok f')
    | (Hang, _) \<Rightarrow> False
    | _ \<Rightarrow> True)"

lemma good_file_values:
  fixes g :: "'v list \<Rightarrow> ('a parse_state_scheme, flow_spec) proc"
  assumes "\<And>vs. values_of p vs \<Longrightarrow> good_file f (g vs)"
  shows "good_file f (bnd (read_values os p name) g)"
  unfolding good_file_def
proof
  fix s :: "'a parse_state_scheme"
  obtain x s' where m: "read_values os p name s = (x, s')" by fastforce
  note out = read_values_out[OF m]
  show "case bnd (read_values os p name) g s of
      (Ret f', s') \<Rightarrow> (log_type_ok s \<longrightarrow> log_type_ok s') \<and> (flow_ok f \<longrightarrow> flow_ok f')
    | (Hang, _) \<Rightarrow> False | _ \<Rightarrow> True"
  proof (cases x)
    case (Ret vs)
    then have "good_file f (g vs)" using out assms by simp
    then show ?thesis using out m Ret
      by (auto simp: good_file_def bnd_def dest!: spec[of _ s'] split: out.splits prod.splits)
  qed (use out m in \<open>simp_all add: bnd_def\<close>)
qed

lemma good_opt_Fs: "good_file f (opt_Fs os name f)"
  unfolding opt_Fs_def
  by (rule good_file_values)
     (auto simp: good_file_def ret_def flow_ok_def ball_Un dest: size_values)

lemma good_opt_Ft: "good_file f (opt_Ft os name f)"
  unfolding opt_Ft_def
  by (rule good_file_values)
     (auto simp: good_file_def run_parser flow_ok_def ball_Un Let_def dest: time_values)

lemma good_opt_Fp: "good_file f (opt_Fp os name f)"
  by (auto simp: good_file_def opt_Fp_def load_payload_def open_file_def read_file_def run_parser bnd_def
      mutexThreadLock_def mutexThreadUnlock_def flow_ok_def Let_def split: option.split)

lemma good_step_file:
  assumes "good_file f m" "args \<noteq> []"
  shows "good_step H args f (bnd m (\<lambda>f1. ret (f1, drop 2 args)))"
  using assms by (fastforce simp: good_step_def good_file_def bnd_def ret_def split: prod.splits out.splits)

lemma good_step_need:
  "(\<And>a. good_step H args f (m a)) \<Longrightarrow> good_step H args f (bnd (need_arg args msg) m)"
  by (auto simp: good_step_def run_parser)

lemma good_step_guard:
  "good_step H args f m \<Longrightarrow> good_step H args f (thn (cond b (s_ReportErrorAndExit msg)) m)"
  by (auto simp: good_step_def run_parser)

lemma good_file_if: "good_file f m \<Longrightarrow> good_file f n \<Longrightarrow> good_file f (if b then m else n)"
  by simp

lemma good_file_fault: "good_file f fault"
  by (simp add: good_file_def fault_def)

lemma good_step_what_is: "good_step H args f (what_is opt)"
  by (simp add: good_step_def what_is_def run_parser)

lemma good_step_if:
  "good_step H args f m \<Longrightarrow> good_step H args f n \<Longrightarrow> good_step H args f (if b then m else n)"
  by simp

lemma good_opt_F: "args \<noteq> [] \<Longrightarrow> good_step H args f (opt_F os args f)"
  unfolding opt_F_def Let_def
  by (intro good_step_if good_step_what_is good_step_need good_step_guard good_step_file good_file_if
      good_file_fault good_opt_Fp good_opt_Fs good_opt_Ft)

subsection \<open>Application protocols\<close>

lemma voip_loop_out:
  "voip_loop second args v s = (x, s') \<Longrightarrow> log_type_ok s' = log_type_ok s \<and> x \<noteq> Hang"
  for s :: "'a parse_state_scheme"
  by (induction second args v arbitrary: x rule: voip_loop.induct)
     (auto simp: run_parser what_is_def log_type_ok_def log_call_def split: if_splits list.splits option.splits)

lemma flow_ok_traffic:
  "flow_ok f \<Longrightarrow> rv_small (snd (fst t)) \<Longrightarrow> rv_small (snd (snd t)) \<Longrightarrow>
    flow_ok (set_traffic t (f\<lparr>f_l7Proto := l7\<rparr>))"
  "flow_ok f \<Longrightarrow> rv_small (snd (fst t)) \<Longrightarrow> rv_small (snd (snd t)) \<Longrightarrow> p \<in> transport_codes \<Longrightarrow> flow_ok ((set_traffic t (f\<lparr>f_l7Proto := l7\<rparr>))\<lparr>f_l4Proto := p\<rparr>)"
  by (simp_all add: set_traffic_def flow_ok_def)

lemma good_step_voip:
  assumes "args \<noteq> []" "\<And>v. flow_ok f \<Longrightarrow> flow_ok (g (voip_traffic v))"
  shows "good_step H args f (bnd (voIPParser second (tl args)) (\<lambda>t. ret (g t, [])))"
  unfolding good_step_def
proof
  fix s :: "'a parse_state_scheme"
  obtain x s' where m: "voip_loop second (tl args) voip0 s = (x, s')" by fastforce
  note out = voip_loop_out[OF m]
  show "case bnd (voIPParser second (tl args)) (\<lambda>t. ret (g t, [])) s of
      (Ret (f', rest), s') \<Rightarrow> (log_type_ok s \<longrightarrow> log_type_ok s') \<and> (flow_ok f \<and> log_type_ok s \<longrightarrow> flow_ok f')
        \<and> later rest args
    | (Hang, _) \<Rightarrow> H | _ \<Rightarrow> True"
  proof (cases x)
    case (Ret v)
    then have "voIPParser second (tl args) s = (Ret (voip_traffic v), log_call (Print ''Voice Codec'') s')"
      using m by (simp add: voIPParser_def bnd_Ret run_parser)
    then show ?thesis using out assms by (simp add: bnd_Ret ret_def)
  qed (use out m in \<open>simp_all add: voIPParser_def bnd_def\<close>)
qed

lemma good_step_ret:
  "args \<noteq> [] \<Longrightarrow> (flow_ok f \<Longrightarrow> flow_ok f') \<Longrightarrow> good_step H args f (ret (f', tl args))"
  by (simp add: good_step_def ret_def)

lemma good_step_hang: "H \<Longrightarrow> good_step H args f hang"
  by (simp add: good_step_def hang_def)

lemma findL7_values: "findL7Proto a \<in> {1, 2, 3, 4, 5, 6, 7, LX_ERROR_BYTE}"
  by (simp add: findL7Proto_def l7Protocols_def)

lemma good_step_cases:
  "(b \<Longrightarrow> good_step H args f m) \<Longrightarrow> (\<not> b \<Longrightarrow> good_step H args f n) \<Longrightarrow> good_step H args f (if b then m else n)"
  by simp

lemma good_app:
  assumes "args \<noteq> []" "findL7Proto (hd args) = 4 \<Longrightarrow> H"
  shows "good_step H args f (app_protocol second args f)"
  unfolding app_protocol_def Let_def
  by (intro good_step_cases good_step_what_is good_step_voip good_step_ret good_step_hang flow_ok_traffic
      transport_in protocols_small assms) (use findL7_values[of "hd args"] in auto)

subsection \<open>The loop\<close>

lemma good_option: "args \<noteq> [] \<Longrightarrow> good_step H args f (parse_option os args f)"
  unfolding parse_option_def Let_def
  by (intro good_step_if good_opt_p good_opt_m good_opt_a good_opt_i good_opt_r good_opt_f good_opt_t good_opt_z
      good_opt_k good_opt_d good_opt_b good_opt_j good_with_flow good_rest_option good_opt_T good_opt_s good_time
      good_opt_B good_size good_opt_F good_opt_S good_step_what_is)
     (auto simp: good_step_def run_parser flow_ok_def log_type_ok_def)

lemma good_arg:
  "args \<noteq> [] \<Longrightarrow> (findL7Proto (hd args) = 4 \<Longrightarrow> H) \<Longrightarrow> good_step H args f (parse_arg os second args f)"
  unfolding parse_arg_def by (intro good_step_if good_option good_app)

text \<open>One round: its outcome and the flow that it leaves.\<close>

lemma good_stepD:
  assumes "good_step H args f m" "m s = (x, s')"
  shows "x = Hang \<Longrightarrow> H"
    and "x = Ret (f', rest) \<Longrightarrow> later rest args"
    and "x = Ret (f', rest) \<Longrightarrow> log_type_ok s \<Longrightarrow> log_type_ok s'"
    and "x = Ret (f', rest) \<Longrightarrow> log_type_ok s \<Longrightarrow> flow_ok f \<Longrightarrow> flow_ok f'"
  using assms by (auto simp: good_step_def dest!: spec[of _ s])

lemma parse_rounds_ok:
  assumes "parse_rounds os second n args f s = (Ret f', s')" "flow_ok f" "log_type_ok s"
  shows "flow_ok f' \<and> log_type_ok s'"
  using assms
proof (induction n arbitrary: args f s)
  case (Suc n)
  show ?case
  proof (cases "args = []")
    case False
    obtain x t where m: "parse_arg os second args f s = (x, t)" by fastforce
    note good = good_stepD[OF good_arg[of args True] m]
    from Suc.prems(1) False m obtain f1 rest where x: "x = Ret (f1, rest)"
      and run: "parse_rounds os second n rest f1 t = (Ret f', s')"
      by (cases x) (auto simp: bnd_def)
    show ?thesis using Suc.IH[OF run] good(3,4)[OF _ _ x] Suc.prems(2,3) False by blast
  qed (use Suc.prems in \<open>simp add: ret_def\<close>)
qed (simp add: ret_def hang_def split: if_splits)

text \<open>The arguments that the rounds look at as options or protocols are among those of the line.\<close>

definition knows_aom :: "string list \<Rightarrow> bool" where
  "knows_aom args \<longleftrightarrow> (\<exists>a \<in> set args. findL7Proto a = 4)"

lemma parse_rounds_end:
  assumes "length args \<le> n" "\<not> knows_aom args"
  shows "fst (parse_rounds os second n args f s) \<noteq> Hang"
  using assms
proof (induction n arbitrary: args f s)
  case (Suc n)
  show ?case
  proof (cases "args = []")
    case False
    obtain x t where m: "parse_arg os second args f s = (x, t)" by fastforce
    have no: "findL7Proto (hd args) \<noteq> 4" using Suc.prems(2) False by (auto simp: knows_aom_def)
    note good = good_stepD[OF good_arg[of args False] m]
    show ?thesis
    proof (cases x)
      case (Ret r)
      then obtain f1 rest where r: "x = Ret (f1, rest)" by (cases r) auto
      then have "later rest args" using good(2) no False by blast
      then have "length rest \<le> n" "\<not> knows_aom rest" using Suc.prems
        by (auto simp: later_def knows_aom_def)
      from Suc.IH[OF this] show ?thesis using m r False by (simp add: bnd_def)
    qed (use m False good(1) no in \<open>auto simp: bnd_def\<close>)
  qed (simp add: ret_def)
qed (simp add: ret_def)

lemma default_flow_ok:
  assumes "log_type_ok s" "g_mean_adjustment s \<in> flags" "length (f_serialReceiver old) = 10"
  shows "flow_ok (default_flow old (g_payloadLogType s) (g_mean_adjustment s) d src sig)"
  using assms
  by (simp add: flow_ok_def default_flow_def log_type_ok_def strcpy_def meter_codes_def DefaultDuration_def
      StandardMinPayloadSize_def)

text \<open>What runs before the options leaves the settings alone that the default flow is made of.\<close>

lemma init_flow_ok:
  assumes "init_flow os i s = (Ret f, s')" "log_type_ok s" "g_mean_adjustment s \<in> flags"
    "\<forall>d \<in> set (flows s). length (f_serialReceiver d) = 10"
  shows "flow_ok f \<and> log_type_ok s'"
proof -
  have d: "flow_ok (default_flow (flows s ! i) (g_payloadLogType s) (g_mean_adjustment s) d src sig)"
    if "i < length (flows s)" for d src sig
    using that assms(2,3,4) by (intro default_flow_ok) auto
  show ?thesis
    using assms(1,2)
    by (auto simp: init_flow_def loopback_def log_defaults_def set_logFile_def run_parser log_type_ok_def
        log_call_def split: if_splits intro!: d[simplified log_type_ok_def])
qed

end
