(* ===== verification/Decimal.thy ===== *)
theory Decimal
  imports CNum
begin

text \<open>Decimal notation of a natural number, as printf writes it with %u, and its way back through the
  conversions of the C library (theories CLib and CNum).\<close>

definition digit :: "nat \<Rightarrow> char" where
  "digit d = char_of (48 + d)"

fun dec :: "nat \<Rightarrow> string" where
  "dec n = (if n < 10 then [digit n] else dec (n div 10) @ [digit (n mod 10)])"

declare dec.simps [simp del]

lemma of_char_digit [simp]: "d < 10 \<Longrightarrow> (of_char (digit d) :: nat) = 48 + d"
  by (simp add: digit_def)

lemma dec_cases:
  obtains d where "n < 10" "dec n = [digit d]" "d = n" |
    d where "\<not> n < 10" "dec n = dec (n div 10) @ [digit d]" "d = n mod 10"
  by (cases "n < 10") (simp_all add: dec.simps[of n])

lemma dec_digits: "set (dec n) \<subseteq> digit ` {..<10}"
proof (induction n rule: dec.induct)
  case (1 n)
  have "n mod 10 < 10" by simp
  with 1 show ?case by (cases n rule: dec_cases) auto
qed

lemma dec_not_Nil [simp]: "dec n \<noteq> []"
  by (subst dec.simps) simp

lemma digits_val_snoc [simp]: "digits_val (ds @ [c]) = 10 * digits_val ds + digit_val c"
  by (simp add: digits_val_def)

lemma digits_val_dec [simp]: "digits_val (dec n) = n"
proof (induction n rule: dec.induct)
  case (1 n)
  then show ?case
    by (cases n rule: dec_cases) (simp_all add: digit_val_def digits_val_def)
qed

lemma hd_dec: "\<exists>d < 10. hd (dec n) = digit d"
proof -
  have "hd (dec n) \<in> digit ` {..<10}" using dec_digits[of n] hd_in_set[OF dec_not_Nil] by blast
  then show ?thesis by blast
qed

lemma digit_class [simp]:
  assumes "d < 10"
  shows "is_digit (digit d)" "\<not> is_space (digit d)" "digit d \<noteq> CHR ''-''" "digit d \<noteq> CHR ''+''"
    "digit d \<noteq> CHR ''^''" "digit d \<noteq> CHR 0x0A" "digit d \<noteq> CHR 0x00"
proof -
  have "(of_char (digit d) :: nat) = 48 + d" using assms by simp
  then show "is_digit (digit d)" "\<not> is_space (digit d)" "digit d \<noteq> CHR ''-''" "digit d \<noteq> CHR ''+''"
    "digit d \<noteq> CHR ''^''" "digit d \<noteq> CHR 0x0A" "digit d \<noteq> CHR 0x00"
    using assms by (auto simp: is_digit_def is_space_def of_char_def)
qed

lemma dec_is_digits: "list_all is_digit (dec n)"
  using dec_digits[of n] by (auto simp: list_all_iff)

lemma dropWhile_none: "xs \<noteq> [] \<Longrightarrow> \<not> P (hd xs) \<Longrightarrow> dropWhile P xs = xs"
  by (cases xs) auto

lemma dec_no_space [simp]: "dropWhile is_space (dec n) = dec n"
  using hd_dec[of n] by (auto intro: dropWhile_none)

lemma dec_no_sign [simp]: "hd (dec n) \<noteq> CHR ''-''" "hd (dec n) \<noteq> CHR ''+''"
  using hd_dec[of n] by (metis digit_class(3)) (use hd_dec[of n] in \<open>metis digit_class(4)\<close>)

lemma dec_no_option [simp]: "\<not> is_option (dec n)"
  using dec_no_sign(1)[of n] by (cases "dec n") (simp_all add: is_option_def char_at_def)

lemma takeWhile_all: "list_all P xs \<Longrightarrow> takeWhile P xs = xs" "list_all P xs \<Longrightarrow> dropWhile P xs = []"
  by (induction xs) auto

lemma dec_parts_dec [simp]: "dec_parts (dec n) = Some (False, dec n, [])"
  using dec_is_digits[of n] by (simp add: dec_parts_def Let_def takeWhile_all)

lemma strtol_dec [simp]: "n < 2 ^ 63 \<Longrightarrow> strtol (dec n) = int n"
proof -
  assume "n < 2 ^ 63"
  then have "int n \<le> 2 ^ 63 - 1" by simp
  then show ?thesis by (simp add: strtol_def min_def)
qed

lemma no_conversion_dec [simp]: "\<not> no_conversion (dec n)"
  by (simp add: no_conversion_def)

lemma strtoul_dec [simp]: "n < 2 ^ 64 \<Longrightarrow> strtoul (dec n) = of_nat n"
  by (simp add: strtoul_def)

lemma atoi_dec [simp]: "n < 2 ^ 31 \<Longrightarrow> atoi (dec n) = of_nat n"
  by (simp add: atoi_def)

lemma sint_atoi_dec [simp]:
  assumes "n < 2 ^ 31"
  shows "sint (of_nat n :: 32 word) = int n"
  using assms by (simp add: signed_of_nat signed_take_bit_int_eq_self)

text \<open>The numbers with a base: a decimal number starts with 0 only when it is 0.\<close>

lemma hex_val_digit [simp]: "d < 10 \<Longrightarrow> hex_val (digit d) = Some d"
proof -
  assume d: "d < 10"
  have "to_lower (digit d) = digit d" using d by (simp add: to_lower_def)
  then show ?thesis using d by (simp add: hex_val_def)
qed

lemma base_val_dec [simp]: "base_val 10 (dec n) = n"
proof (induction n rule: dec.induct)
  case (1 n)
  have b: "base_val 10 (ds @ [digit d]) = 10 * base_val 10 ds + d" if "d < 10" for ds d
    using that by (simp add: base_val_def)
  have "n mod 10 < 10" by simp
  then show ?case using 1 b[of "n mod 10" "dec (n div 10)"]
    by (cases n rule: dec_cases) (simp_all add: base_val_def)
qed

lemma dec_base_digits: "list_all (base_digit 10) (dec n)"
  using dec_digits[of n] by (auto simp: list_all_iff base_digit_def)

lemma dec_takeWhile [simp]: "takeWhile (base_digit 10) (dec n) = dec n" "dropWhile (base_digit 10) (dec n) = []"
  using dec_base_digits by (simp_all add: takeWhile_all)

lemma take_sign_dec [simp]: "take_sign (dec n) = (False, dec n)"
  using dec_no_sign[of n] by (cases "dec n") (simp_all add: take_sign_def)

lemma hd_dec_zero: "hd (dec n) = CHR ''0'' \<Longrightarrow> n = 0"
proof (induction n rule: dec.induct)
  case (1 n)
  show ?case
  proof (cases n rule: dec_cases)
    case (1 d)
    have "(of_char CHR ''0'' :: nat) = 48" by simp
    then show ?thesis using 1 \<open>hd (dec n) = CHR ''0''\<close> of_char_digit[of d] by simp
  next
    case (2 d)
    then have "hd (dec n) = hd (dec (n div 10))" by simp
    then have "n div 10 = 0" using 1 2 by simp
    then show ?thesis using 2 by simp
  qed
qed

lemma to_lower_digit [simp]: "d < 10 \<Longrightarrow> to_lower (digit d) = digit d"
  by (simp add: to_lower_def)

lemma starts_with_dec:
  assumes "starts_with (c # cs) (dec n)"
  shows "hd (dec n) = c"
proof -
  obtain d where d: "d < 10" "hd (dec n) = digit d" using hd_dec by blast
  have "map to_lower (take (length (c # cs)) (dec n)) = c # cs" using assms by (simp add: starts_with_def)
  then have "to_lower (hd (dec n)) = c" by (cases "dec n") simp_all
  then show ?thesis using d by simp
qed

lemma dec_0: "dec 0 = ''0''"
  by (simp add: dec.simps) code_simp

lemma not_hex_dec: "\<not> starts_with ''0x'' (dec n)"
proof
  assume h: "starts_with ''0x'' (dec n)"
  then have "n = 0" using starts_with_dec hd_dec_zero by blast
  then show False using h by (simp add: dec_0 starts_with_def)
qed

lemma strtol0_dec [simp]:
  assumes "n < 2 ^ 63"
  shows "strtol0 (dec n) = Some (int n)"
proof (cases "n = 0")
  case True
  then show ?thesis
    by (simp add: dec_0 strtol0_def Let_def is_space_def take_sign_def starts_with_def to_lower_def base_digit_def
        hex_val_def base_val_def)
next
  case False
  then have "\<not> starts_with ''0'' (dec n)" using starts_with_dec hd_dec_zero by blast
  moreover have "int n \<le> 2 ^ 63 - 1" using assms by simp
  ultimately show ?thesis using not_hex_dec[of n] by (simp add: strtol0_def Let_def min_def)
qed

lemma not_digits: "\<not> is_digit CHR ''i''" "\<not> is_digit CHR ''n''"
  by (simp_all add: is_digit_def)

lemma digit_not_letter: "d < 10 \<Longrightarrow> digit d \<noteq> CHR ''i'' \<and> digit d \<noteq> CHR ''n''"
  by (metis digit_class(1) not_digits)

lemma strtod_dec [simp]: "strtod (dec n) = to_dbl (of_nat n)"
proof -
  obtain d where d: "d < 10" "hd (dec n) = digit d" using hd_dec by blast
  have "\<not> starts_with (c # cs) (dec n)" if "c \<in> {CHR ''i'', CHR ''n''}" for c cs
  proof
    assume "starts_with (c # cs) (dec n)"
    then have "hd (dec n) = c" by (rule starts_with_dec)
    then show False using d digit_not_letter[OF d(1)] that by auto
  qed
  moreover have "mantissa 10 (dec n) = Some (of_nat n)"
    by (simp add: mantissa_def Let_def exponent_def power_rat_def)
  ultimately show ?thesis using not_hex_dec[of n] by (simp add: strtod_def strtod_abs_def)
qed

text \<open>A whole number below 2^53 is a double.\<close>

lemma to_dbl_nat:
  assumes "0 < n" "n < 2 ^ 53"
  shows "to_dbl (of_nat n) = Fin (of_nat n)"
proof -
  have n: "(0 :: rat) < of_nat n" "(of_nat n :: rat) < 2 ^ 53"
    using assms of_nat_less_iff[of n "2 ^ 53", where 'a = rat] by simp_all
  have "bin_exp (of_nat n) < 53"
  proof (rule ccontr)
    assume "\<not> bin_exp (of_nat n) < 53"
    then have "pow2 53 \<le> pow2 (bin_exp (of_nat n))" by (intro pow2_mono) simp
    also have "\<dots> \<le> of_nat n" using n by (intro bin_exp_le)
    finally show False using n by (simp add: pow2_def)
  qed
  define k where "k = nat (- max (bin_exp (of_nat n)  - 52) (- 1074))"
  have k: "max (bin_exp (of_nat n :: rat) - 52) (- 1074) = - int k"
    using \<open>bin_exp (of_nat n) < 53\<close> by (simp add: k_def)
  have u: "pow2 (- int k) = 1 / 2 ^ k" by (simp add: pow2_def)
  have i: "round_even (of_int m) = m" for m by (simp add: round_even_def)
  have "round_even (of_nat (n * 2 ^ k)) = int (n * 2 ^ k)" by (metis i of_int_of_nat_eq)
  then have "round_abs (of_nat n) = of_nat n"
    by (simp add: round_abs_def Let_def k u)
  moreover have "(of_nat n :: rat) < 2 ^ 1024"
    using n(2) by (rule order.strict_trans2) simp
  ultimately show ?thesis using n(1) by (simp add: to_dbl_def)
qed

end
