(* ===== verification/FlowOptions.thy ===== *)
theory FlowOptions
  imports FlowParser_Facts Decimal
begin

text \<open>The option parser of ITGSend from the user's side: numbers written in decimal are read back, and a
  flow gets the settings that its options say, in the order of the line.\<close>

subsection \<open>Settings\<close>

text \<open>What a user may say about a flow, how it is written and what the flow becomes.  The table res gives
  the address that a host name is resolved to.\<close>

datatype transport = TCP | UDP | ICMP

datatype setting =
    Duration nat | Packets nat | KBytes nat | DelayMs nat | DSByte nat | TTL nat
  | SrcPort nat | DstPort nat | SigDstPort nat | Transport transport | Payload nat
  | Rate nat | UniformRate nat nat | PktSize nat | UniformSize nat nat
  | NoNagle | Polling | Dest string | Src string

fun render :: "setting \<Rightarrow> string list" where
  "render (Duration n) = [''-t'', dec n]"
| "render (Packets n) = [''-z'', dec n]"
| "render (KBytes n) = [''-k'', dec n]"
| "render (DelayMs n) = [''-d'', dec n]"
| "render (DSByte n) = [''-b'', dec n]"
| "render (TTL n) = [''-f'', dec n]"
| "render (SrcPort n) = [''-sp'', dec n]"
| "render (DstPort n) = [''-rp'', dec n]"
| "render (SigDstPort n) = [''-Sdp'', dec n]"
| "render (Transport p) = [''-T'', case p of TCP \<Rightarrow> ''TCP'' | UDP \<Rightarrow> ''UDP'' | ICMP \<Rightarrow> ''ICMP'']"
| "render (Payload n) = [''-p'', dec n]"
| "render (Rate n) = [''-C'', dec n]"
| "render (UniformRate m n) = [''-U'', dec m, dec n]"
| "render (PktSize n) = [''-c'', dec n]"
| "render (UniformSize m n) = [''-u'', dec m, dec n]"
| "render NoNagle = [''-D'']"
| "render Polling = [''-poll'']"
| "render (Dest a) = [''-a'', a]"
| "render (Src a) = [''-sa'', a]"

fun valid_setting :: "setting \<Rightarrow> bool" where
  "valid_setting (Duration n) = (0 < n \<and> n < 2 ^ 63)"
| "valid_setting (Packets n) = (0 < n \<and> n < 2 ^ 32)"
| "valid_setting (KBytes n) = (0 < n \<and> n < 2 ^ 64)"
| "valid_setting (DelayMs n) = (n < 2 ^ 63)"
| "valid_setting (DSByte n) = (n \<le> 255)"
| "valid_setting (TTL n) = (n \<le> 255)"
| "valid_setting (SrcPort n) = (n < 65536)"
| "valid_setting (DstPort n) = (n < 65536)"
| "valid_setting (SigDstPort n) = (0 < n \<and> n < 65536)"
| "valid_setting (Payload n) = (n \<le> 2)"
| "valid_setting (Rate n) = (0 < n \<and> n < 2 ^ 53)"
| "valid_setting (UniformRate m n) = (0 < m \<and> m < n \<and> n < 2 ^ 53)"
| "valid_setting (PktSize n) = (0 < n \<and> n < 2 ^ 31)"
| "valid_setting (UniformSize m n) = (0 < m \<and> m < n \<and> n < 2 ^ 31)"
| "valid_setting (Dest a) = (a \<noteq> '''' \<and> CHR ''^'' \<notin> set a)"
| "valid_setting (Src a) = (a \<noteq> '''' \<and> CHR ''^'' \<notin> set a)"
| "valid_setting _ = True"

definition per_second :: "nat \<Rightarrow> dbl" where
  "per_second n = d_div (Fin 1000) (Fin (of_nat n))"

definition size_of :: "nat \<Rightarrow> dbl" where "size_of n = Fin (of_nat n)"

fun meaning :: "(string \<Rightarrow> sockaddr) \<Rightarrow> setting \<Rightarrow> flow_spec \<Rightarrow> flow_spec" where
  "meaning res (Duration n) f = f\<lparr>f_Duration := of_nat n\<rparr>"
| "meaning res (Packets n) f = f\<lparr>f_numPacket := of_nat n\<rparr>"
| "meaning res (KBytes n) f = f\<lparr>f_KBToSend := of_nat n\<rparr>"
| "meaning res (DelayMs n) f = f\<lparr>p_Delay := of_nat n\<rparr>"
| "meaning res (DSByte n) f = f\<lparr>f_DSByte := of_nat n\<rparr>"
| "meaning res (TTL n) f = (no_serial f)\<lparr>f_TTL := int n\<rparr>"
| "meaning res (SrcPort n) f = f\<lparr>f_SrcHost := SET_PORT (f_SrcHost f) (htons (of_nat n)), f_srcPortSpecify := True\<rparr>"
| "meaning res (DstPort n) f = f\<lparr>f_DestHost := SET_PORT (f_DestHost f) (htons (of_nat n)), p_dstPortSpecify := True\<rparr>"
| "meaning res (SigDstPort n) f = f\<lparr>p_SigPort := of_nat n,
     f_SigDestHost := SET_PORT (f_SigDestHost f) (htons (of_nat n))\<rparr>"
| "meaning res (Transport p) f = f\<lparr>f_l4Proto := (case p of TCP \<Rightarrow> L4_TCP | UDP \<Rightarrow> L4_UDP | ICMP \<Rightarrow> L4_ICMP),
     f_minPayloadSize := f_minPayloadSize f + 4\<rparr>"
| "meaning res (Payload n) f = f\<lparr>f_payloadLogType := int n,
     f_minPayloadSize := (if n = 1 then 8 else if n = 2 then 4 else f_minPayloadSize f)\<rparr>"
| "meaning res (Rate n) f = f\<lparr>p_IntArriv := (pdConstant, RScale (per_second n) RUnit)\<rparr>"
| "meaning res (UniformRate m n) f = f\<lparr>p_IntArriv := (pdUniform,
     RShift (RScale (d_sub (per_second m) (per_second n)) RUniform) (per_second n))\<rparr>"
| "meaning res (PktSize n) f = f\<lparr>p_PktSize := (pdConstant, RScale (size_of n) RUnit)\<rparr>"
| "meaning res (UniformSize m n) f = f\<lparr>p_PktSize := (pdUniform,
     RShift (RScale (d_sub (size_of n) (size_of m)) RUniform) (size_of m))\<rparr>"
| "meaning res NoNagle f = f\<lparr>f_Nagle := False\<rparr>"
| "meaning res Polling f = f\<lparr>f_pollingMode := True\<rparr>"
| "meaning res (Dest a) f =
     (let f1 = (if p_SigDestHostSpecify f then f
                else f\<lparr>p_SigPort := GET_PORT (f_SigDestHost f) (p_SigPort f),
                       f_SigDestHost := SET_PORT (res a) (GET_PORT (f_SigDestHost f) (p_SigPort f))\<rparr>)
      in f1\<lparr>f_DestHost := SET_PORT (res a) (GET_PORT (f_DestHost f) 0), f_dstAddrSpecify := True\<rparr>)"
| "meaning res (Src a) f = f\<lparr>f_SrcHost := SET_PORT (res a) (GET_PORT (f_SrcHost f) 0), f_srcAddrSpecify := True\<rparr>"

text \<open>An option is read as it is meant, whatever follows it.\<close>

definition reads :: "os \<Rightarrow> string list \<Rightarrow> (flow_spec \<Rightarrow> flow_spec) \<Rightarrow> bool" where
  "reads os opt g \<longleftrightarrow> (\<forall>second rest f (s :: unit parse_state_scheme).
     (rest = [] \<or> is_option (hd rest)) \<and> f_meter f = METER_OWDM \<and> f_iface f = None \<longrightarrow>
     (\<exists>s'. parse_arg os second (opt @ rest) f s = (Ret (g f, rest), s') \<and> same_but_calls s s'))"

lemma readsI:
  assumes "is_option (hd opt)" "opt \<noteq> []"
    "\<And>rest f s :: unit parse_state_scheme. rest = [] \<or> is_option (hd rest) \<Longrightarrow> f_meter f = METER_OWDM \<Longrightarrow> f_iface f = None \<Longrightarrow>
      \<exists>s'. parse_option os (opt @ rest) f s = (Ret (g f, rest), s') \<and> same_but_calls s s'"
  shows "reads os opt g"
  using assms by (simp add: reads_def parse_arg_def)

lemmas run_option = parse_option_def char_at_def is_option_def Let_def run_parser

lemma word_nonzero: "0 < n \<Longrightarrow> n < 2 ^ 64 \<Longrightarrow> (of_nat n :: u64) \<noteq> 0"
  by (simp add: word_of_nat_eq_0_iff nat_dvd_not_less)

lemma reads_t: "0 < n \<Longrightarrow> n < 2 ^ 63 \<Longrightarrow> reads os [''-t'', dec n] (meaning res (Duration n))"
  by (rule readsI) (simp_all add: run_option opt_t_def)

lemma reads_z: "0 < n \<Longrightarrow> n < 2 ^ 32 \<Longrightarrow> reads os [''-z'', dec n] (meaning res (Packets n))"
  by (rule readsI) (simp_all add: run_option opt_z_def)

lemma reads_k: "0 < n \<Longrightarrow> n < 2 ^ 64 \<Longrightarrow> reads os [''-k'', dec n] (meaning res (KBytes n))"
  using word_nonzero[of n] by (intro readsI) (simp_all add: run_option opt_k_def)

lemma reads_d: "n < 2 ^ 63 \<Longrightarrow> reads os [''-d'', dec n] (meaning res (DelayMs n))"
  by (rule readsI) (simp_all add: run_option opt_d_def)

lemma reads_b: "n \<le> 255 \<Longrightarrow> reads os [''-b'', dec n] (meaning res (DSByte n))"
  by (rule readsI) (simp_all add: run_option opt_b_def)

lemma reads_f: "n \<le> 255 \<Longrightarrow> reads os [''-f'', dec n] (meaning res (TTL n))"
  by (rule readsI) (simp_all add: run_option opt_f_def)

lemma port_arg_dec: "n < 65536 \<Longrightarrow> port_arg (dec n) = htons (of_nat n)"
  by (simp add: port_arg_def unsigned_of_nat take_bit_nat_eq_self)

lemma reads_sp: "n < 65536 \<Longrightarrow> reads os [''-sp'', dec n] (meaning res (SrcPort n))"
  by (rule readsI) (simp_all add: run_option opt_s_def port_arg_dec)

lemma reads_rp: "n < 65536 \<Longrightarrow> reads os [''-rp'', dec n] (meaning res (DstPort n))"
  by (rule readsI) (simp_all add: run_option opt_r_def port_arg_dec)

lemma sig_port_dec:
  "0 < n \<Longrightarrow> n < 65536 \<Longrightarrow> sig_port (opt # dec n # rest) = ret (of_nat n)"
  by (rule ext) (simp add: sig_port_def run_parser unsigned_of_nat take_bit_nat_eq_self)

lemma reads_Sdp: "0 < n \<Longrightarrow> n < 65536 \<Longrightarrow> reads os [''-Sdp'', dec n] (meaning res (SigDstPort n))"
  by (rule readsI) (simp_all add: run_option opt_S_def sig_port_dec)

lemma find_transport: "findL4Proto ''TCP'' = L4_TCP" "findL4Proto ''UDP'' = L4_UDP" "findL4Proto ''ICMP'' = L4_ICMP"
  by code_simp+

lemma transport_codes_differ: "L4_TCP \<noteq> LX_ERROR_BYTE" "L4_UDP \<noteq> LX_ERROR_BYTE" "L4_ICMP \<noteq> LX_ERROR_BYTE"
  "L4_TCP \<noteq> L4_DCCP" "L4_UDP \<noteq> L4_DCCP" "L4_ICMP \<noteq> L4_DCCP" "L4_TCP \<noteq> L4_SCTP" "L4_UDP \<noteq> L4_SCTP"
  "L4_ICMP \<noteq> L4_SCTP" "L4_TCP \<noteq> L4_ICMP" "L4_UDP \<noteq> L4_ICMP"
  by (simp_all add: L4_TCP_def L4_UDP_def L4_ICMP_def L4_DCCP_def L4_SCTP_def LX_ERROR_BYTE_def)

lemma reads_T: "reads os (render (Transport p)) (meaning res (Transport p))"
proof (cases p)
  case ICMP
  show ?thesis unfolding ICMP
  proof (rule readsI)
    fix rest f and s :: "unit parse_state_scheme"
    assume "rest = [] \<or> is_option (hd rest)"
    then show "\<exists>s'. parse_option os (render (Transport ICMP) @ rest) f s =
        (Ret (meaning res (Transport ICMP) f, rest), s') \<and> same_but_calls s s'"
      by (cases rest)
         (simp_all add: parse_option_def char_at_def Let_def run_parser opt_T_def find_transport transport_codes_differ)
  qed (simp_all add: is_option_def char_at_def)
qed ((rule readsI, simp_all add: run_option opt_T_def find_transport transport_codes_differ)[1])+

lemma meter_codes_differ: "METER_OWDM \<noteq> S_METER_RTTM" by (simp add: METER_OWDM_def S_METER_RTTM_def)

lemma min_payload_dec: "min_payload (int n) old = (if n = 1 then 8 else if n = 2 then 4 else old)"
  by (simp add: min_payload_def PL_SHORT_def PL_NONE_def ShortMinPayloadSize_def NoneMinPayloadSize_def)

lemma reads_p: "n \<le> 2 \<Longrightarrow> reads os [''-p'', dec n] (meaning res (Payload n))"
  by (rule readsI)
     (simp_all add: parse_option_def char_at_def Let_def run_parser opt_p_def meter_codes_differ min_payload_dec,
      simp add: is_option_def char_at_def)

lemma real_dec: "0 < n \<Longrightarrow> n < 2 ^ 53 \<Longrightarrow> real_arg (opt # dec n # rest) (Suc 0) = Fin (of_nat n)"
  "0 < n \<Longrightarrow> n < 2 ^ 53 \<Longrightarrow> real_arg (opt # a # dec n # rest) 2 = Fin (of_nat n)"
  by (simp_all add: real_arg_def to_dbl_nat)

lemma Fin_tests [simp]: "d_nonpos (Fin (of_nat n)) \<longleftrightarrow> n = 0" "d_le (Fin (of_nat m)) (Fin (of_nat n)) \<longleftrightarrow> m \<le> n"
  by (simp_all add: d_nonpos_def d_le_def)

lemma reads_C: "0 < n \<Longrightarrow> n < 2 ^ 53 \<Longrightarrow> reads os [''-C'', dec n] (meaning res (Rate n))"
  by (rule readsI)
     (simp_all add: parse_option_def char_at_def is_option_def Let_def run_parser time_option_def dist_opt_def real_dec
       per_second_def)

lemma reads_U: "0 < m \<Longrightarrow> m < n \<Longrightarrow> n < 2 ^ 53 \<Longrightarrow> reads os [''-U'', dec m, dec n] (meaning res (UniformRate m n))"
  by (rule readsI)
     (simp_all add: parse_option_def char_at_def is_option_def Let_def run_parser time_option_def dist_opt_def real_dec
       per_second_def)

lemma int_dec: "n < 2 ^ 31 \<Longrightarrow> int_arg (opt # dec n # rest) (Suc 0) = size_of n"
  "n < 2 ^ 31 \<Longrightarrow> int_arg (opt # a # dec n # rest) 2 = size_of n"
  by (simp_all add: int_arg_def size_of_def)

lemma reads_c: "0 < n \<Longrightarrow> n < 2 ^ 31 \<Longrightarrow> reads os [''-c'', dec n] (meaning res (PktSize n))"
  by (rule readsI)
     (simp_all add: parse_option_def char_at_def is_option_def Let_def run_parser size_option_def dist_opt_def int_dec)

lemma reads_u: "0 < m \<Longrightarrow> m < n \<Longrightarrow> n < 2 ^ 31 \<Longrightarrow> reads os [''-u'', dec m, dec n] (meaning res (UniformSize m n))"
  by (rule readsI)
     (simp_all add: parse_option_def char_at_def is_option_def Let_def run_parser size_option_def dist_opt_def int_dec)

lemma reads_flags:
  "reads os [''-D''] (meaning res NoNagle)" "reads os [''-poll''] (meaning res Polling)"
  by (rule readsI, simp_all add: run_option opt_p_def)+

lemma lookup_resolves:
  "resolves os res \<Longrightarrow> bnd (lookup os a msg) g s = g (res a) (log_call (Resolve a) s)"
  by (simp add: lookup_def run_parser resolves_def)

lemma reads_a: "resolves os res \<Longrightarrow> reads os [''-a'', a] (meaning res (Dest a))"
  by (rule readsI)
     (simp_all add: parse_option_def char_at_def is_option_def Let_def run_parser opt_a_def lookup_resolves warn_scope_def)


lemma reads_sa: "resolves os res \<Longrightarrow> reads os [''-sa'', a] (meaning res (Src a))"
  by (rule readsI)
     (simp_all add: parse_option_def char_at_def is_option_def Let_def run_parser opt_s_def lookup_resolves warn_scope_def)

lemma reads_setting:
  assumes "resolves os res" "valid_setting x"
  shows "reads os (render x) (meaning res x)"
  using assms
  by (cases x)
     (simp_all add: reads_t reads_z reads_k reads_d reads_b reads_f reads_sp reads_rp reads_Sdp reads_p reads_C
       reads_U reads_c reads_u reads_flags reads_a reads_sa reads_T[unfolded render.simps] del: meaning.simps)

subsection \<open>A line of settings\<close>

lemma render_head: "render x \<noteq> [] \<and> is_option (hd (render x))"
  by (cases x) (simp_all add: is_option_def char_at_def)

lemma render_first: "concat (map render xs) = [] \<or> is_option (hd (concat (map render xs)))"
  using render_head by (cases xs) (auto simp: hd_append)

lemma meaning_keeps: "f_meter (meaning res x f) = f_meter f \<and> f_iface (meaning res x f) = f_iface f"
  by (cases x) (simp_all add: Let_def no_serial_def)

lemma parse_settings:
  fixes s :: "unit parse_state_scheme"
  assumes "resolves os res" "\<forall>x \<in> set xs. valid_setting x" "length (concat (map render xs)) \<le> n"
    "f_meter f = METER_OWDM" "f_iface f = None"
  shows "\<exists>s'. parse_rounds os second n (concat (map render xs)) f s = (Ret (fold (meaning res) xs f), s')
    \<and> same_but_calls s s'"
  using assms
proof (induction xs arbitrary: f s n)
  case Nil
  then show ?case by (cases n) (simp_all add: ret_def)
next
  case (Cons x xs)
  let ?rest = "concat (map render xs)"
  from Cons.prems have "reads os (render x) (meaning res x)" by (simp add: reads_setting)
  then obtain s1 where one: "parse_arg os second (render x @ ?rest) f s = (Ret (meaning res x f, ?rest), s1)"
    "same_but_calls s s1"
    using render_first[of xs] Cons.prems(4,5) unfolding reads_def by blast
  obtain m where n: "n = Suc m" "length ?rest \<le> m" using Cons.prems(3) render_head[of x]
    by (cases n; cases "render x") auto
  from Cons.IH[OF Cons.prems(1) _ n(2), of "meaning res x f" s1] Cons.prems(2,4,5) meaning_keeps[of res x f]
  obtain s2 where two: "parse_rounds os second m ?rest (meaning res x f) s1 = (Ret (fold (meaning res) xs (meaning res x f)), s2)"
    "same_but_calls s1 s2" by auto
  have "parse_rounds os second n (concat (map render (x # xs))) f s = (Ret (fold (meaning res) (x # xs) f), s2)"
    using one(1) two(1) render_head[of x] by (simp add: n(1) bnd_Ret)
  then show ?case using one(2) two(2) same_but_calls_trans by blast
qed

lemma init_flow_out:
  assumes "init_flow os i s = (Ret f, s')"
  shows "f_meter f = METER_OWDM \<and> f_iface f = None \<and> cmdMode s' = cmdMode s"
  using assms
  by (auto simp: init_flow_def loopback_def log_defaults_def set_logFile_def run_parser default_flow_def
      log_call_def split: if_splits)

lemma dec_no_caret: "CHR ''^'' \<notin> set (dec n)"
proof
  assume "CHR ''^'' \<in> set (dec n)"
  then obtain d where "d < 10" "CHR ''^'' = digit d" using dec_digits[of n] by blast
  then show False using digit_class(5)[of d] by simp
qed

lemma render_words: "valid_setting x \<Longrightarrow> a \<in> set (render x) \<Longrightarrow> a \<noteq> [] \<and> CHR ''^'' \<notin> set a"
  by (cases x) (auto simp: dec_no_caret split: transport.splits)

lemma parse_args_plain:
  "argv \<noteq> [] \<Longrightarrow> length argv \<le> 200 \<Longrightarrow> hd argv \<noteq> ''-gui'' \<Longrightarrow>
    parse_args os argv f = parse_rounds os (argv ! 1) (length argv) argv f"
  by (simp add: parse_args_def Let_def)

lemma argv_words:
  assumes "\<forall>a \<in> set argv. a \<noteq> [] \<and> CHR ''^'' \<notin> set a"
  shows "\<exists>l. strip_newline (argvToString argv (length argv)) = Some l \<and> split_line True l = argv"
  using assms fields_concat[of argv "CHR ''^''"]
  by (simp add: strip_newline_def argvToString_def argv_loop_concat split_line_def Let_def strtok_r_first
      token_loop_fields)

lemma parse_line_argv:
  fixes s :: "unit parse_state_scheme"
  assumes "cmdMode s" "init_flow os i s = (Ret f0, s0)" "argv \<noteq> []" "length argv \<le> 200" "hd argv \<noteq> ''-gui''"
    "\<forall>a \<in> set argv. a \<noteq> [] \<and> CHR ''^'' \<notin> set a"
  shows "parse_line os i (argvToString argv (length argv)) s = parse_rounds os (argv ! 1) (length argv) argv f0 s0"
proof -
  obtain l where "strip_newline (argvToString argv (length argv)) = Some l" "split_line True l = argv"
    using argv_words[OF assms(6)] by blast
  then show ?thesis using assms init_flow_out[OF assms(2)]
    by (simp add: parse_line_def bnd_Ret proc_simps parse_args_plain)
qed

text \<open>C4: what a user types on the command line is what the flow gets.  modeCommandLine joins the
  arguments that render writes for a list of valid settings; when the line fits into its array, the
  flow is set up with the default flow changed by exactly those settings, in the order of the line
  (split and read again by flowParser); when it does not, the array is left.\<close>

theorem command_line_understood:
  fixes s :: "unit parse_state_scheme"
  assumes "resolves os res" "xs \<noteq> []" "\<forall>x \<in> set xs. valid_setting x" "argv = concat (map render xs)"
    "length argv \<le> 200" "init_flow os 1 (s\<lparr>cmdMode := True\<rparr>) = (Ret f0, s0)"
    "line = argvToString argv (length argv)"
  shows "if length line < MAX_FLOW_LINE_SIZE
    then \<exists>s'. modeCommandLine os argv s = run_flow os 1 line (fold (meaning res) xs f0) s' \<and> same_but_calls s0 s'
    else fst (modeCommandLine os argv s) = Fault"
proof (cases "length line < MAX_FLOW_LINE_SIZE")
  case True
  have words: "\<forall>a \<in> set argv. a \<noteq> [] \<and> CHR ''^'' \<notin> set a" using assms(3,4) render_words by fastforce
  have argv: "argv \<noteq> []" using assms(2,4) render_head by (cases xs) auto
  have gui: "hd argv \<noteq> ''-gui''"
    using assms(2,4) by (cases xs; cases "hd xs") (auto split: transport.splits)
  have mode: "cmdMode (s\<lparr>cmdMode := True\<rparr>)" by simp
  obtain s' where "parse_line os 1 line (s\<lparr>cmdMode := True\<rparr>) = (Ret (fold (meaning res) xs f0), s')" "same_but_calls s0 s'"
    unfolding assms(7) parse_line_argv[OF mode assms(6) argv assms(5) gui words]
    using parse_settings[OF assms(1,3) order.refl] init_flow_out[OF assms(6)] assms(4) by blast
  then show ?thesis
    using True assms(7) by (auto simp: modeCommandLine_def flowParser_def proc_simps bnd_def Let_def)
next
  case False
  then show ?thesis using assms(7) by (simp add: modeCommandLine_def proc_simps Let_def)
qed

definition demo_desc :: flow_desc where
  "demo_desc = \<lparr>f_SrcHost = any_addr, f_DestHost = any_addr, f_meter = 0, f_l4Proto = 0, f_l7Proto = 0,
     f_DSByte = 0, f_sigChanId = 0, f_serialReceiver = replicate 10 0, f_payloadLogType = 0,
     f_srcAddrSpecify = False, f_dstAddrSpecify = False, f_SigDestHost = any_addr, f_SigSrcHost = None,
     f_SigSrcPort = 0, f_SigInterface = None\<rparr>"

definition cmd_demo :: "unit parse_state_scheme" where
  "cmd_demo = \<lparr>hist = [], flows = replicate 3 demo_desc, signalChannels = [], s_multiFlows = False,
     s_passiveMode = False,
     okToNewSignalingChan = True, globalSigAddr = [], signalChanCount = 0, logging = 0, logremoto = 0,
     s_logSock = 0, s_logSockSignaling = 0, s_logHost = any_addr, s_logFile = [],
     namelogReceiver = 0, logServer = 0, logFileReceiver = [], serverLogReceiver = any_addr,
     protoTx_ServerLogReceiver = 0, termsock = False, s_buffer_size = 50, isFirstThread = 1,
     isFirstThreadRttm = 1, RifTime = (0, 0), protoTxLog = 0, flowCount = 0, payloads = [],
     g_payloadLogType = 0, g_mean_adjustment = 1, managerMode = False, managerSock = 0, cmdMode = True,
     parserParams = replicate 3 (0, [])\<rparr>"

lemma demo_init: "\<exists>f0 s0. init_flow os_ok 1 cmd_demo = (Ret f0, s0)"
  by (simp add: init_flow_def loopback_def log_defaults_def set_logFile_def proc_simps os_ok_def cmd_demo_def
      DefaultLogFile_def DIM_LOG_FILE_def log_call_def)

lemma demo_resolves: "resolves os_ok (\<lambda>_. any_addr)"
  by (simp add: resolves_def os_ok_def)

definition demo_line :: "setting list" where
  "demo_line = [Dest ''receiver'', Rate 200, UniformSize 100 1400, Transport TCP, DSByte 8, Duration 20000]"

lemma demo_valid: "\<forall>x \<in> set demo_line. valid_setting x" "demo_line \<noteq> []" "length (concat (map render demo_line)) \<le> 200"
  by (auto simp: demo_line_def)

theorem command_line_understood_witness:
  "\<exists>f0 s0 s' line. modeCommandLine os_ok (concat (map render demo_line)) cmd_demo =
     run_flow os_ok 1 line (fold (meaning (\<lambda>_. any_addr)) demo_line f0) s' \<and> same_but_calls s0 s'"
proof -
  let ?argv = "concat (map render demo_line)"
  obtain f0 s0 where init: "init_flow os_ok 1 cmd_demo = (Ret f0, s0)" using demo_init by blast
  have "cmd_demo\<lparr>cmdMode := True\<rparr> = cmd_demo" by (simp add: cmd_demo_def)
  with init have init: "init_flow os_ok 1 (cmd_demo\<lparr>cmdMode := True\<rparr>) = (Ret f0, s0)" by simp
  have "length (argvToString ?argv (length ?argv)) < MAX_FLOW_LINE_SIZE"
    by (simp add: argvToString_def argv_loop_concat demo_line_def MAX_FLOW_LINE_SIZE_def dec.simps)
  with command_line_understood[OF demo_resolves demo_valid(2,1) refl demo_valid(3) init refl] show ?thesis by auto
qed

text \<open>C9: every flow that the option parser accepts, from the command line, a script or a manager, is
  within the bounds that the sending thread counts on.\<close>

theorem accepted_flow:
  assumes "parse_line os i line s = (Ret f, s')" "log_type_ok s" "g_mean_adjustment s \<in> flags"
    "\<forall>d \<in> set (flows s). length (f_serialReceiver d) = 10"
  shows "flow_ok f"
proof -
  from assms(1) obtain l where l: "strip_newline line = Some l"
    by (auto simp: parse_line_def proc_simps split: option.splits)
  obtain x t where init: "init_flow os i s = (x, t)" by fastforce
  with assms(1) l obtain f0 where x: "x = Ret f0" and run: "parse_args os (split_line (cmdMode t) l) f0 t = (Ret f, s')"
    by (cases x) (auto simp: parse_line_def bnd_def gets_def)
  have ok: "flow_ok f0" "log_type_ok t" using init_flow_ok[OF init[unfolded x] assms(2-4)] by auto
  show ?thesis using run parse_rounds_ok[OF _ ok] by (auto simp: parse_args_def Let_def fault_def split: if_splits)
qed

text \<open>C15: the option parser ends on every line that does not name the protocol AoM: its rounds never run
  out.\<close>

theorem parser_ends:
  assumes "\<not> knows_aom argv"
  shows "fst (parse_args os argv f s) \<noteq> Hang"
proof -
  have "\<not> knows_aom (tl argv)" using assms by (cases argv) (auto simp: knows_aom_def)
  then show ?thesis using assms by (simp add: parse_args_def Let_def fault_def parse_rounds_end)
qed

lemma aom_hangs: "fst (parse_args os [''AoM''] f s) = Hang"
  by (simp add: parse_args_def parse_arg_def is_option_def char_at_def app_protocol_def findL7Proto_def
      l7Protocols_def LX_ERROR_BYTE_def strcaseeq_def to_lower_def bnd_def hang_def)


theorem accepted_flow_witness:
  "\<exists>f s'. parse_line os_ok 1 (argvToString [''-t'', dec 5000] (Suc (Suc 0))) cmd_demo = (Ret f, s') \<and> flow_ok f"
proof -
  let ?argv = "concat (map render [Duration 5000])"
  obtain f0 s0 where init: "init_flow os_ok 1 cmd_demo = (Ret f0, s0)" using demo_init by blast
  have "cmdMode cmd_demo" by (simp add: cmd_demo_def)
  moreover have "\<forall>a \<in> set ?argv. a \<noteq> [] \<and> CHR ''^'' \<notin> set a" by (simp add: dec_no_caret)
  ultimately have "parse_line os_ok 1 (argvToString ?argv (length ?argv)) cmd_demo
      = parse_rounds os_ok (?argv ! 1) (length ?argv) ?argv f0 s0"
    using init by (intro parse_line_argv) auto
  moreover obtain f s' where "parse_rounds os_ok (?argv ! 1) (length ?argv) ?argv f0 s0 = (Ret f, s')"
    using parse_settings[OF demo_resolves _ order.refl, of "[Duration 5000]"] init_flow_out[OF init] by fastforce
  ultimately have run: "parse_line os_ok 1 (argvToString ?argv (length ?argv)) cmd_demo = (Ret f, s')" by simp
  have "flow_ok f"
    by (rule accepted_flow[OF run])
       (simp_all add: cmd_demo_def demo_desc_def log_type_ok_def payload_types_def PL_STANDARD_def flags_def)
  then show ?thesis using run by auto
qed

definition demo_flow :: flow_spec where
  "demo_flow = default_flow demo_desc 0 1 any_addr any_addr any_addr"

theorem parser_ends_witness: "fst (parse_args os_ok [''VoIP'', ''-x'', ''G.711.2''] demo_flow cmd_demo) \<noteq> Hang"
  by (rule parser_ends) (simp add: knows_aom_def findL7Proto_def l7Protocols_def strcaseeq_def to_lower_def LX_ERROR_BYTE_def)

subsection \<open>What the parser lets pass\<close>

text \<open>Every option for the transport protocol makes the least payload larger, so that the test of the
  option for the meter is passed with short packets, and a number of packets that is a multiple of
  2^32 is no limit.\<close>

lemma rttm_with_short_packets:
  "let f = fold (meaning res) [Payload 1, Transport UDP, Transport UDP] demo_flow
   in f_payloadLogType f = PL_SHORT \<and> opt_m [''-m'', ''RTTM''] f s = (Ret (f\<lparr>f_meter := S_METER_RTTM\<rparr>, []), s)"
proof -
  have m: "findMeter ''RTTM'' = S_METER_RTTM" by code_simp
  have "S_METER_RTTM \<noteq> LX_ERROR_BYTE" by (simp add: S_METER_RTTM_def LX_ERROR_BYTE_def)
  then show ?thesis
    by (simp add: opt_m_def run_parser Let_def m StandardMinPayloadSize_def PL_SHORT_def)
qed

lemma packets_wrap: "opt_z [''-z'', dec 4294967296] f s = (Ret (f\<lparr>f_numPacket := 0\<rparr>, []), s)"
  by (simp add: opt_z_def Let_def ret_def)

lemma interface_skips_options:
  "opt_S os ([''-Si'', a, b, c] @ rest) f s = (Ret (f\<lparr>f_SigInterface := Some a\<rparr>, rest), s)"
  by (simp add: opt_S_def Let_def char_at_def run_parser)

lemma payload_of_other_file:
  "shared_payload ''mine'' [(''mine'', [1]), (''other'', [2])] [] = [2]"
  by (simp add: shared_payload_def)

lemma script_argument_hangs: "fst (multi_rounds os (Suc n) (''name'' # args) s) = Hang"
  by (simp add: is_option_def char_at_def hang_def)

end
