(* ===== verification/SendMain_Facts.thy ===== *)
theory SendMain_Facts
  imports FlowOptions
begin

text \<open>The flows of a script, and the checks that a flow passes in passive mode.\<close>

subsection \<open>Scripts\<close>

lemma start_parser_out:
  "start_parser os d l s = (if flowCount s \<ge> length (parserParams s) then (Fault, s)
     else (Ret (), (if d then log_call (PthreadDetach (flowCount s)) else id) (log_call (PthreadCreate ''flowParser'' (flowCount s)) s)
       \<lparr>parserParams := (parserParams s)[flowCount s := (int (flowCount s) + 1, l)], flowCount := flowCount s + 1\<rparr>))"
  by (simp add: start_parser_def createThread_def proc_simps log_call_def)

lemma start_parsers_out:
  assumes "flowCount s + length ls \<le> length (parserParams s)"
  shows "\<exists>s'. start_parsers os ls s = (Ret (), s') \<and> flowCount s' = flowCount s + length ls
    \<and> parserParams s' = take (flowCount s) (parserParams s)
        @ zip (map (\<lambda>k. int k + 1) [flowCount s..<flowCount s + length ls]) ls
        @ drop (flowCount s + length ls) (parserParams s)
    \<and> hist s' = rev (map (PthreadCreate ''flowParser'') [flowCount s..<flowCount s + length ls]) @ hist s"
  using assms
proof (induction ls arbitrary: s)
  case (Cons l ls)
  define t where "t = (log_call (PthreadCreate ''flowParser'' (flowCount s)) s)
       \<lparr>parserParams := (parserParams s)[flowCount s := (int (flowCount s) + 1, l)], flowCount := flowCount s + 1\<rparr>"
  have one: "start_parser os False l s = (Ret (), t)"
    using Cons.prems by (simp add: start_parser_out t_def)
  have t: "flowCount t = flowCount s + 1" "hist t = PthreadCreate ''flowParser'' (flowCount s) # hist s"
    "parserParams t = (parserParams s)[flowCount s := (int (flowCount s) + 1, l)]"
    by (simp_all add: t_def log_call_def)
  have "flowCount t + length ls \<le> length (parserParams t)" using Cons.prems by (simp add: t)
  from Cons.IH[OF this] obtain s' where s': "start_parsers os ls t = (Ret (), s')"
    "flowCount s' = flowCount t + length ls"
    "parserParams s' = take (flowCount t) (parserParams t)
        @ zip (map (\<lambda>k. int k + 1) [flowCount t..<flowCount t + length ls]) ls
        @ drop (flowCount t + length ls) (parserParams t)"
    "hist s' = rev (map (PthreadCreate ''flowParser'') [flowCount t..<flowCount t + length ls]) @ hist t"
    by blast
  have up: "[flowCount s..<flowCount s + length (l # ls)] = flowCount s # [flowCount t..<flowCount t + length ls]"
    by (subst upt_conv_Cons) (simp_all add: t)
  have "take (flowCount t) (parserParams t) = take (flowCount s) (parserParams s) @ [(int (flowCount s) + 1, l)]"
    using Cons.prems by (simp add: t take_Suc_conv_app_nth)
  then have "parserParams s' = take (flowCount s) (parserParams s)
        @ zip (map (\<lambda>k. int k + 1) [flowCount s..<flowCount s + length (l # ls)]) (l # ls)
        @ drop (flowCount s + length (l # ls)) (parserParams s)"
    unfolding up s'(3) by (simp add: t)
  moreover have "hist s' = rev (map (PthreadCreate ''flowParser'') [flowCount s..<flowCount s + length (l # ls)]) @ hist s"
    unfolding up s'(4) by (simp add: t)
  ultimately show ?case using one s'(1,2) by (simp add: proc_simps bnd_Ret t)
qed (simp add: ret_def)

lemma start_parsers_fault:
  assumes "length (parserParams s) < flowCount s + length ls" "flowCount s \<le> length (parserParams s)"
  shows "fst (start_parsers os ls s) = Fault"
  using assms
proof (induction ls arbitrary: s)
  case (Cons l ls)
  show ?case
  proof (cases "flowCount s \<ge> length (parserParams s)")
    case False
    let ?t = "(log_call (PthreadCreate ''flowParser'' (flowCount s)) s)
       \<lparr>parserParams := (parserParams s)[flowCount s := (int (flowCount s) + 1, l)], flowCount := flowCount s + 1\<rparr>"
    have "fst (start_parsers os ls ?t) = Fault" using Cons.prems False by (intro Cons.IH) (simp_all add: log_call_def)
    then show ?thesis using False by (simp add: proc_simps bnd_def start_parser_out)
  qed (simp add: proc_simps bnd_def start_parser_out)
qed simp

text \<open>The lines of a script file come back whole.\<close>

lemma fgets_whole:
  "length l \<le> n \<Longrightarrow> CHR 0x0A \<notin> set l \<Longrightarrow> fgets_line (Suc n) (l @ CHR 0x0A # r) = (l @ [CHR 0x0A], r)"
proof (induction l arbitrary: n)
  case (Cons c l)
  then show ?case by (cases n) auto
qed simp

lemma fgets_lines_whole:
  "\<forall>l \<in> set ls. length l \<le> n \<and> CHR 0x0A \<notin> set l \<Longrightarrow>
    fgets_lines n (concat (map (\<lambda>l. l @ [CHR 0x0A]) ls)) = map (\<lambda>l. l @ [CHR 0x0A]) ls"
proof (induction ls)
  case (Cons l ls)
  let ?r = "concat (map (\<lambda>l. l @ [CHR 0x0A]) ls)"
  obtain c cs where c: "l @ CHR 0x0A # ?r = c # cs" by (cases l) auto
  have "fgets_line (Suc n) (l @ CHR 0x0A # ?r) = (l @ [CHR 0x0A], ?r)" using Cons.prems by (simp add: fgets_whole)
  then have "fgets_lines n (l @ CHR 0x0A # ?r) = (l @ [CHR 0x0A]) # fgets_lines n ?r"
    unfolding c by (simp add: fgets_lines.simps(2) del: fgets_line.simps)
  then show ?case using Cons by simp
qed simp

definition script_text :: "string list \<Rightarrow> string" where
  "script_text ls = concat (map (\<lambda>l. l @ [CHR 0x0A]) ls)"

text \<open>A line that is not longer than the buffer and starts behind the control characters.\<close>

definition plain_line :: "string \<Rightarrow> bool" where
  "plain_line l \<longleftrightarrow> l \<noteq> [] \<and> length l \<le> 397 \<and> CHR 0x0A \<notin> set l \<and> CHR 0x00 \<notin> set l \<and> (of_char (hd l) :: nat) > 10"

lemma script_lines_text:
  assumes "\<forall>l \<in> set ls. plain_line l"
  shows "script_lines (bytes_of (script_text ls)) = map (\<lambda>l. l @ [CHR 0x0A]) ls"
proof -
  let ?nl = "\<lambda>l. l @ [CHR 0x0A]"
  have t: "takeWhile (\<lambda>c. c \<noteq> CHR 0x00) (?nl l) = ?nl l" "flow_line (?nl l)" if "plain_line l" for l
    using that takeWhile_eq_all_conv[of "\<lambda>c. c \<noteq> CHR 0x00" "?nl l"]
    by (auto simp: plain_line_def flow_line_def)
  have "fgets_lines 397 (script_text ls) = map ?nl ls"
    unfolding script_text_def using assms by (intro fgets_lines_whole) (auto simp: plain_line_def)
  moreover have "map (takeWhile (\<lambda>c. c \<noteq> CHR 0x00)) (map ?nl ls) = map ?nl ls"
    using assms by (auto simp: plain_line_def)
  moreover have "filter flow_line (map ?nl ls) = map ?nl ls"
    using assms t(2) by (intro filter_True) auto
  ultimately show ?thesis by (simp add: script_lines_def del: map_map)
qed

text \<open>C14: a script starts one thread per line: with as many lines as there are slots, or fewer, line k
  becomes flow k + 1 in slot k, unchanged, and its thread is created in the order of the script; a
  longer script writes behind the table.\<close>

theorem script_flows:
  assumes "\<forall>l \<in> set ls. plain_line l" "flowCount s = 0"
  shows "if length ls \<le> length (parserParams s)
    then (\<exists>s'. start_parsers os (script_lines (bytes_of (script_text ls))) s = (Ret (), s')
      \<and> flowCount s' = length ls
      \<and> (\<forall>k < length ls. parserParams s' ! k = (int k + 1, ls ! k @ [CHR 0x0A]))
      \<and> hist s' = rev (map (PthreadCreate ''flowParser'') [0..<length ls]) @ hist s)
    else fst (start_parsers os (script_lines (bytes_of (script_text ls))) s) = Fault"
proof (cases "length ls \<le> length (parserParams s)")
  case True
  then have "flowCount s + length (map (\<lambda>l. l @ [CHR 0x0A]) ls) \<le> length (parserParams s)"
    using assms(2) by simp
  from start_parsers_out[OF this, of os] True assms show ?thesis
    by (fastforce simp: script_lines_text nth_append)
next
  case False
  then show ?thesis using assms
    by (simp add: script_lines_text start_parsers_fault)
qed

theorem script_flows_witness:
  "\<exists>s'. start_parsers os_ok (script_lines (bytes_of (script_text [''-t 5'', ''VoIP'']))) cmd_demo = (Ret (), s')
    \<and> flowCount s' = 2 \<and> parserParams s' ! 1 = (2, ''VoIP'' @ [CHR 0x0A])"
  using script_flows[of "[''-t 5'', ''VoIP'']" cmd_demo os_ok]
  by (auto simp: plain_line_def cmd_demo_def)

text \<open>The flows have one number more than there are slots: the last line of a script with as many lines
  as slots describes a flow behind the table of flows.\<close>

lemma last_flow_faults:
  assumes "length (flows s) \<le> i" "init_flow os i s = (Ret f, s')"
  shows False
  using assms
  by (auto simp: init_flow_def loopback_def log_defaults_def set_logFile_def run_parser log_call_def split: if_splits)

subsection \<open>Passive mode\<close>

text \<open>C20: a flow passes the checks in passive mode only with TCP or UDP and without an application
  protocol, in a script only with both ports and without an address of the receiver; it then has
  both ports, those that the user gave unchanged.  Otherwise the checks change nothing.\<close>

theorem passive_flow_checked:
  assumes "check_flow os f s = (Ret (f', p), s')"
  shows "if s_passiveMode s
    then f_l4Proto f' \<in> {L4_TCP, L4_UDP} \<and> f_l7Proto f' = 0
      \<and> (s_multiFlows s \<longrightarrow> \<not> f_dstAddrSpecify f' \<and> f_srcPortSpecify f \<and> p_dstPortSpecify f)
      \<and> f_srcPortSpecify f' \<and> p_dstPortSpecify f'
      \<and> f_SrcHost f' = (if f_srcPortSpecify f then f_SrcHost f else SET_PORT (f_SrcHost f) (htons 8997))
      \<and> f_DestHost f' = (if p_dstPortSpecify f then f_DestHost f else SET_PORT (f_DestHost f) (htons 8999))
    else f' = f"
  using assms
  by (auto simp: check_flow_def run_parser exitThread_def passive_error_def passive_ports_def log_call_def
      DEFAULT_PORT_def DEFAULT_PORT_SENDER_def split: if_splits)

theorem passive_flow_checked_witness:
  "\<exists>f' p s'. check_flow os_ok demo_flow (cmd_demo\<lparr>s_passiveMode := True\<rparr>) = (Ret (f', p), s')
    \<and> f_SrcHost f' = SET_PORT any_addr (htons 8997) \<and> f_srcPortSpecify f'"
proof -
  obtain f' p s' where run: "check_flow os_ok demo_flow (cmd_demo\<lparr>s_passiveMode := True\<rparr>) = (Ret (f', p), s')"
    by (simp add: check_flow_def run_parser os_ok_def cmd_demo_def demo_flow_def default_flow_def passive_error_def
        L4_UDP_def L4_TCP_def log_call_def)
  from passive_flow_checked[OF run] show ?thesis using run
    by (simp add: cmd_demo_def demo_flow_def default_flow_def)
qed

end
