(* ===== verification/RecvMain.thy ===== *)
theory RecvMain
  imports SignalManager Decimal
begin

text \<open>ITGRecv around its signaling threads (src/ITGRecv/ITGRecv.cpp): the options of the command line
  (parserRecv), the initial values (recvInit) and main, which opens the log and then either
  accepts the connections of senders for ever or, in passive mode, connects to the one sender.
  The build is the one of RecvState.  Freeing of addresses is left out.\<close>

subsection \<open>State\<close>

record recv_main = recv_state +
  m_logFile :: string
  m_ifaceBind :: "string option"
  l4ProtoLog :: u8
  defaultPortSignaling :: int
  m_numHolePkt :: u16
  SigInterface :: "string option"
  para_socket :: "int list"

definition R_DEFAULT_LOG_FILE :: string where "R_DEFAULT_LOG_FILE = ''/tmp/ITGRecv.log''"
definition R_DEFAULT_LOG_IP :: string where "R_DEFAULT_LOG_IP = ''127.0.0.1''"
definition R_DEFAULT_LOG_PORT :: u16 where "R_DEFAULT_LOG_PORT = 9002"
definition MAX_L4_PORTS :: nat where "MAX_L4_PORTS = 65536"

subsection \<open>Options\<close>

text \<open>argv with argc is the list of the remaining arguments; an option gets them with itself at the head
  and returns what is left.\<close>

definition r_usage :: "string \<Rightarrow> ('a world_scheme, 'b) proc" where
  "r_usage msg = (thn (sys0 (Print msg))
   (thn (sys0 (Print ''help''))
   (exit_with 1)))"

definition r_value :: "string list \<Rightarrow> ('a world_scheme, string) proc" where
  "r_value args = (if length args < 2 then r_usage ''Missing parameter'' else ret (args ! 1))"

definition set_recv_log :: "string \<Rightarrow> ('a recv_main_scheme, unit) proc" where
  "set_recv_log name = (if length name < DIM_LOG_FILE then upd (\<lambda>s. s\<lparr>m_logFile := name\<rparr>) else fault)"

definition r_opt_q :: "string list \<Rightarrow> ('a recv_main_scheme, string list) proc" where
  "r_opt_q args = (bnd (r_value args) (\<lambda>a.
   thn (upd (\<lambda>s. s\<lparr>r_buffer_size := ucast (atoi a)\<rparr>))
   (ret (drop 2 args))))"

definition r_opt_i :: "string list \<Rightarrow> ('a recv_main_scheme, string list) proc" where
  "r_opt_i args = (bnd (r_value args) (\<lambda>a.
   thn (upd (\<lambda>s. s\<lparr>m_ifaceBind := Some a\<rparr>))
   (ret (drop 2 args))))"

definition r_opt_l :: "string list \<Rightarrow> ('a recv_main_scheme, string list) proc" where
  "r_opt_l args = (thn (upd (\<lambda>s. s\<lparr>logCheck := 1\<rparr>))
   (if length args > 1 \<and> \<not> is_option (args ! 1)
     then thn (set_recv_log (args ! 1)) (ret (drop 2 args))
     else thn (set_recv_log R_DEFAULT_LOG_FILE) (ret (drop 1 args))))"

text \<open>A sub-option of -L, a letter, a colon and a value.  The second character of an empty argument lies
  behind its end.\<close>

definition log_suboption :: "os \<Rightarrow> string \<Rightarrow> ('a recv_main_scheme, unit) proc" where
  "log_suboption os a =
     (if a = [] then fault
      else if char_at a 1 \<noteq> CHR '':'' then r_usage ''Invalid sub-option format''
      else if hd a = CHR ''a'' then (bnd (sys os (Resolve (drop 2 a))) (\<lambda>r.
       thn (cond (r \<noteq> 0) (r_usage ''Invalid log-server address''))
       (upd (\<lambda>s. s\<lparr>globaleLogHost := os_from os (hist s)\<rparr>))))
      else if hd a = CHR ''p'' then upd (\<lambda>s. s\<lparr>defaultLogPortSignaling := ucast (atoi (drop 2 a))\<rparr>)
      else if hd a = CHR ''P'' then (thn (cond (findL4Proto (drop 2 a) = LX_ERROR_BYTE) (r_usage ''Invalid transport protocol''))
       (upd (\<lambda>s. s\<lparr>l4ProtoLog := findL4Proto (drop 2 a)\<rparr>)))
      else r_usage ''Unknow sub-option'')"

fun log_suboptions :: "os \<Rightarrow> string list \<Rightarrow> ('a recv_main_scheme, string list) proc" where
  "log_suboptions os [] = ret []"
| "log_suboptions os (a # as) = (if is_option a then ret (a # as)
     else thn (log_suboption os a) (log_suboptions os as))"

definition r_opt_L :: "os \<Rightarrow> string list \<Rightarrow> ('a recv_main_scheme, string list) proc" where
  "r_opt_L os args = (thn (upd (\<lambda>s. s\<lparr>logRemote := 1\<rparr>))
   (log_suboptions os (tl args)))"

text \<open>Were reportErrorAndExit to return, an argument that is not there would be read.\<close>

definition r_opt_S :: "os \<Rightarrow> string list \<Rightarrow> ('a recv_main_scheme, string list) proc" where
  "r_opt_S os args = (let c = char_at (hd args) 2 in
     if c = CHR ''p'' then
       (if length args \<le> 1 \<or> is_option (args ! 1) then r_usage ''Missing parameter''
        else thn (upd (\<lambda>s. s\<lparr>defaultPortSignaling := sint (atoi (args ! 1))\<rparr>)) (ret (drop 2 args)))
     else if c = CHR ''i'' then
       (if length args < 2 then thn (r_report os ''Invalid interface'') fault
        else thn (upd (\<lambda>s. s\<lparr>SigInterface := Some (args ! 1)\<rparr>)) (ret (drop 2 args)))
     else r_usage ''parserRecv: Unknow option'')"

definition r_opt_H :: "os \<Rightarrow> string list \<Rightarrow> ('a recv_main_scheme, string list) proc" where
  "r_opt_H os args = (thn (upd (\<lambda>s. s\<lparr>passiveMode := True\<rparr>))
   (if length args < 2 then r_usage ''Invalid ITGSend address or protocol''
     else (bnd (sys os (Resolve (args ! 1))) (\<lambda>r.
      thn (cond (r \<noteq> 0) (r_usage ''Invalid ITGSend address or protocol''))
      (thn (upd (\<lambda>s. s\<lparr>passiveSender := os_from os (hist s)\<rparr>))
      (ret (drop 2 args)))))))"

definition r_opt_n :: "os \<Rightarrow> string list \<Rightarrow> ('a recv_main_scheme, string list) proc" where
  "r_opt_n os args =
     (if length args < 2 then thn (r_report os ''Invalid number of Hole Punching packets'') fault
      else (thn (r_check os (sint (atoi (args ! 1)) < 0) ''Invalid number of Hole Punching packets'')
       (thn (upd (\<lambda>s. s\<lparr>m_numHolePkt := ucast (atoi (args ! 1))\<rparr>))
       (ret (drop 2 args)))))"

definition r_opt_a :: "os \<Rightarrow> string list \<Rightarrow> ('a recv_main_scheme, string list) proc" where
  "r_opt_a os args =
     (if length args < 2 then thn (r_report os ''Invalid address for -a option'') fault
      else (bnd (sys os (Resolve (args ! 1))) (\<lambda>r.
       thn (cond (r \<noteq> 0) (thn (r_report os ''Invalid address for -a option'') fault))
       (thn (upd (\<lambda>s. s\<lparr>globalBindAddr := Some (os_from os (hist s))\<rparr>))
       (ret (drop 2 args))))))"

definition recv_option :: "os \<Rightarrow> char \<Rightarrow> string list \<Rightarrow> ('a recv_main_scheme, string list) proc" where
  "recv_option os c args =
     (if c = CHR ''h'' then thn (sys0 (Print ''help'')) (exit_with 1)
      else if c = CHR ''q'' then r_opt_q args
      else if c = CHR ''i'' then r_opt_i args
      else if c = CHR ''l'' then r_opt_l args
      else if c = CHR ''L'' then r_opt_L os args
      else if c = CHR ''S'' then r_opt_S os args
      else if c = CHR ''H'' then r_opt_H os args
      else if c = CHR ''n'' then r_opt_n os args
      else if c = CHR ''a'' then r_opt_a os args
      else r_usage ''parserRecv: Unknow option'')"

primrec recv_rounds :: "os \<Rightarrow> nat \<Rightarrow> string list \<Rightarrow> ('a recv_main_scheme, unit) proc" where
  "recv_rounds os 0 args = (if args = [] then ret () else hang)"
| "recv_rounds os (Suc n) args = (if args = [] then ret ()
     else if \<not> is_option (hd args) then r_usage ''Unknow option''
     else bnd (recv_option os (char_at (hd args) 1) args) (recv_rounds os n))"

definition parserRecv :: "os \<Rightarrow> string list \<Rightarrow> ('a recv_main_scheme, unit) proc" where
  "parserRecv os args = recv_rounds os (length args) args"

subsection \<open>recvInit\<close>

primrec init_ports :: "os \<Rightarrow> nat \<Rightarrow> ('a recv_main_scheme, unit) proc" where
  "init_ports os 0 = ret ()"
| "init_ports os (Suc n) = (bnd (mutexThreadInit os ''sharedTcp'') (\<lambda>a.
 thn (r_check os (a < 0) ''Cannot initialize Mutex for shared socket'')
 (bnd (mutexThreadInit os ''sharedUdp'') (\<lambda>b.
 thn (r_check os (b < 0) ''Cannot initialize Mutex for shared socket'')
 (init_ports os n)))))"

definition recvInit :: "os \<Rightarrow> ('a recv_main_scheme, unit) proc" where
  "recvInit os = (bnd (mutexThreadInit os ''mutexLog'') (\<lambda>a.
   thn (r_check os (a < 0) ''Cannot initialize Mutex'')
   (bnd (mutexThreadInit os ''mutexLogRem'') (\<lambda>b.
   thn (r_check os (b < 0) ''Cannot initialize Mutex for remote log'')
   (thn (upd (\<lambda>s. s\<lparr>sharedTcp := (\<lambda>_. \<lparr>shSocket = 0, inUse = 0\<rparr>), sharedUdp := (\<lambda>_. \<lparr>shSocket = 0, inUse = 0\<rparr>)\<rparr>))
   (thn (init_ports os MAX_L4_PORTS)
   (thn (upd (\<lambda>s. s\<lparr>m_logFile := R_DEFAULT_LOG_FILE, l4ProtoLog := L4_UDP\<rparr>))
   (bnd (sys os (Resolve R_DEFAULT_LOG_IP)) (\<lambda>r.
   thn (cond (r \<noteq> 0) (thn (r_report os ''Cannot set the default IP log address'') fault))
   (upd (\<lambda>s. s\<lparr>globaleLogHost := SET_PORT (os_from os (hist s)) (htons R_DEFAULT_LOG_PORT)\<rparr>)))))))))))"

subsection \<open>main\<close>

definition init_tables :: "'a recv_main_scheme \<Rightarrow> 'a recv_main_scheme" where
  "init_tables s = s\<lparr>r_memLogFile := map (\<lambda>f. f\<lparr>num := -1, logFile := '' ''\<rparr>) (r_memLogFile s),
     para_socket := map (\<lambda>_. 0) (para_socket s)\<rparr>"

text \<open>A remote log wins over a local one.\<close>

definition open_recv_log :: "os \<Rightarrow> nat \<Rightarrow> ('a recv_main_scheme, unit) proc" where
  "open_recv_log os fuel = (thn (upd (\<lambda>s. if logCheck s \<noteq> 0 \<and> logRemote s \<noteq> 0 then s\<lparr>logCheck := 0\<rparr> else s))
   (bnd (gets id) (\<lambda>s.
   if logCheck s \<noteq> 0 \<and> logRemote s = 0 then (bnd (sys os (FOpen MAX_NUM_THREAD (m_logFile s))) (\<lambda>r.
      thn (r_check os (r < 0) (''Error into open this file : '' @ m_logFile s))
      (upd (\<lambda>s. s\<lparr>r_outOpen := (r \<ge> 0)\<rparr>))))
     else cond (logRemote s \<noteq> 0) (bnd (r_createRemoteLogFile os fuel (globaleLogHost s) (bytes_of (m_logFile s)) (l4ProtoLog s)
              (globaleLogSock s) (\<lambda>n s. s\<lparr>globaleLogSockSignaling := n\<rparr>) (\<lambda>n s. s\<lparr>globaleLogSock := n\<rparr>)) (\<lambda>l.
      (case l of (host, sigSock, lsock) \<Rightarrow> upd (\<lambda>s. s\<lparr>globaleLogHost := host,
          globaleLogSockSignaling := sigSock, globaleLogSock := lsock\<rparr>)))))))"

text \<open>The address for the signaling channel: of IPv6 if the host has it.  After a failed getaddrinfo there is
  no socket.\<close>

definition signaling_socket :: "os \<Rightarrow> string \<Rightarrow> ('a world_scheme, (int \<times> sockaddr) option) proc" where
  "signaling_socket os name = (bnd (sys os (Resolve name)) (\<lambda>r.
   if r \<noteq> 0 then ret None
     else (bnd (gets (\<lambda>s. os_from os (hist s))) (\<lambda>a.
      bnd (sys os (Socket 1)) (\<lambda>k.
      ret (if k < 0 then None else Some (k, a)))))))"

definition open_signaling :: "os \<Rightarrow> ('a recv_state_scheme, int \<times> sockaddr) proc" where
  "open_signaling os = (bnd (signaling_socket os ''::'') (\<lambda>x.
   case x of Some k \<Rightarrow> ret k
     | None \<Rightarrow> (bnd (signaling_socket os ''0.0.0.0'') (\<lambda>y.
      case y of Some k \<Rightarrow> ret k
         | None \<Rightarrow> thn (r_report os ''Cannot create a socket for signaling'') fault))))"

definition int_text :: "int \<Rightarrow> string" where
  "int_text n = (if n < 0 then CHR ''-'' # dec (nat (- n)) else dec (nat n))"

text \<open>The buffers of the two messages have room for five and for four characters of the port.\<close>

definition port_error :: "os \<Rightarrow> nat \<Rightarrow> string \<Rightarrow> string \<Rightarrow> int \<Rightarrow> ('a recv_main_scheme, unit) proc" where
  "port_error os room before after port = (let text = before @ int_text port @ after in
     if length text \<ge> room then fault else r_report os text)"

definition bind_error :: "os \<Rightarrow> int \<Rightarrow> ('a recv_main_scheme, unit) proc" where
  "bind_error os port = port_error os (30 + 4 + 15) ''Cannot bind a socket on port '' '' for signaling'' port"

definition listen_error :: "os \<Rightarrow> int \<Rightarrow> ('a recv_main_scheme, unit) proc" where
  "listen_error os port =
     port_error os (49 + 4) ''Cannot listen for signaling connections on port '' [] port"

text \<open>Binding to the interface of -Si; a host that allows it is also asked not to route in passive mode.\<close>

definition signaling_device :: "os \<Rightarrow> int \<Rightarrow> bool \<Rightarrow> ('a recv_main_scheme, unit) proc" where
  "signaling_device os sock passive = (bnd (gets SigInterface) (\<lambda>i.
   cond (i \<noteq> None) (thn (sys0 (Print ''Binding to device for signaling channel''))
      (bnd (sys os (Setsockopt sock)) (\<lambda>r.
      if r < 0 then sys0 (Print ''** WARNING ** Cannot bind to device (hint: you must be root)'')
       else cond passive (bnd (sys os (Setsockopt sock)) (\<lambda>d.
        cond (d < 0) (sys0 (Print ''** WARNING ** Cannot set dont route (hint: you must be root)'')))))))))"

text \<open>Connection i is served by a thread that gets position i of the table para, which holds the socket of
  the connection; the table has MAX_NUM_THREAD entries, and i is never reset.\<close>

primrec accept_rounds :: "os \<Rightarrow> nat \<Rightarrow> nat \<Rightarrow> int \<Rightarrow> ('a recv_main_scheme, unit) proc" where
  "accept_rounds os 0 i sock = hang"
| "accept_rounds os (Suc rounds) i sock = (bnd (sys os (Accept sock)) (\<lambda>k.
 thn (r_check os (k < 0) ''Connection fault on port for signaling'')
 (if i \<ge> MAX_NUM_THREAD then fault else (thn (upd (\<lambda>s. s\<lparr>para_socket := (para_socket s)[i := k]\<rparr>))
      (bnd (createThread os ''signalManager'' i True) (\<lambda>c.
      thn (r_check os (c < 0) ''Cannot create thread'')
      (accept_rounds os rounds (i + 1) sock)))))))"

definition serve_senders :: "os \<Rightarrow> nat \<Rightarrow> ('a recv_main_scheme, unit) proc" where
  "serve_senders os rounds = (bnd (open_signaling os) (\<lambda>k.
   bnd (sys os (Setsockopt (fst k))) (\<lambda>o1.
   thn (r_check os (o1 < 0) ''Error setting SO_REUSEADDR option'')
   (bnd (gets defaultPortSignaling) (\<lambda>port.
   bnd (sys os (Bind (fst k) (unat (of_int port :: u16)))) (\<lambda>b.
   thn (cond (b \<noteq> 0) (bind_error os port))
   (thn (signaling_device os (fst k) False)
   (bnd (sys os (Listen (fst k))) (\<lambda>l.
   thn (cond (l < 0) (listen_error os port))
   (accept_rounds os rounds 0 (fst k)))))))))))"

definition serve_passive :: "os \<Rightarrow> nat \<Rightarrow> nat \<Rightarrow> ('a recv_main_scheme, unit) proc" where
  "serve_passive os rounds fuel = (bnd (sys os (Socket 1)) (\<lambda>sock.
   thn (r_check os (sock < 0) ''Socket error(Passive Mode)'')
   (thn (signaling_device os sock True)
   (bnd (gets defaultPortSignaling) (\<lambda>port.
   thn (upd (\<lambda>s. s\<lparr>passiveSender := SET_PORT (passiveSender s) (htons (of_int port))\<rparr>))
   (bnd (sys os (Connect sock (unat (of_int port :: u16)))) (\<lambda>c.
   thn (r_check os (c < 0) ''Connection fault for signaling (Passive Mode)'')
   (thn (upd (\<lambda>s. s\<lparr>para_socket := (para_socket s)[0 := sock]\<rparr>))
   (bnd (gets m_ifaceBind) (\<lambda>i.
   thn (signalManager os rounds fuel i sock) (r_terminate os 0)))))))))))"

text \<open>The arguments without the program's name; rounds bounds the server, fuel the wait for the log server.\<close>

definition recv_main :: "os \<Rightarrow> nat \<Rightarrow> nat \<Rightarrow> string list \<Rightarrow> ('a recv_main_scheme, unit) proc" where
  "recv_main os rounds fuel argv = (let gui = (argv \<noteq> [] \<and> hd argv = ''-gui'') in (thn (cond gui (thn (upd (\<lambda>s. s\<lparr>r_gui := True\<rparr>))
      (thn (createThread os ''waitStopKey'' MAX_NUM_THREAD True) (ret ()))))
   (thn (upd init_tables)
   (thn (recvInit os)
   (thn (parserRecv os (if gui then tl argv else argv))
   (thn (open_recv_log os fuel)
   (thn (sys0 (Print ''Press Ctrl-C to terminate''))
   (bnd (gets passiveMode) (\<lambda>passive.
   if \<not> passive then serve_senders os rounds else serve_passive os rounds fuel)))))))))"

end
