(* ===== verification/RecvMain_Facts.thy ===== *)
theory RecvMain_Facts
  imports RecvMain
begin

text \<open>The options of ITGRecv from the user's side, the end of the parser and the connections that main
  accepts.\<close>

subsection \<open>Settings\<close>

datatype log_part = LogAddr string | LogPort nat | LogProto string

datatype recv_setting =
    Buffer nat | DataIface string | LogFile string | DefaultLog | RemoteLog "log_part list"
  | SigPort nat | SigIface string | PassiveTo string | HolePackets nat | BindTo string

fun part_text :: "log_part \<Rightarrow> string" where
  "part_text (LogAddr a) = ''a:'' @ a"
| "part_text (LogPort n) = ''p:'' @ dec n"
| "part_text (LogProto p) = ''P:'' @ p"

fun recv_text :: "recv_setting \<Rightarrow> string list" where
  "recv_text (Buffer n) = [''-q'', dec n]"
| "recv_text (DataIface i) = [''-i'', i]"
| "recv_text (LogFile f) = [''-l'', f]"
| "recv_text DefaultLog = [''-l'']"
| "recv_text (RemoteLog ps) = ''-L'' # map part_text ps"
| "recv_text (SigPort n) = [''-Sp'', dec n]"
| "recv_text (SigIface i) = [''-Si'', i]"
| "recv_text (PassiveTo a) = [''-H'', a]"
| "recv_text (HolePackets n) = [''-n'', dec n]"
| "recv_text (BindTo a) = [''-a'', a]"

fun valid_part :: "log_part \<Rightarrow> bool" where
  "valid_part (LogPort n) = (n < 65536)"
| "valid_part (LogProto p) = (findL4Proto p \<noteq> LX_ERROR_BYTE)"
| "valid_part _ = True"

fun valid_recv :: "recv_setting \<Rightarrow> bool" where
  "valid_recv (Buffer n) = (n < 65536)"
| "valid_recv (LogFile f) = (\<not> is_option f \<and> length f < 200)"
| "valid_recv (RemoteLog ps) = list_all valid_part ps"
| "valid_recv (SigPort n) = (n < 65536)"
| "valid_recv (HolePackets n) = (n < 65536)"
| "valid_recv _ = True"

fun part_meaning :: "(string \<Rightarrow> sockaddr) \<Rightarrow> log_part \<Rightarrow> 'a recv_main_scheme \<Rightarrow> 'a recv_main_scheme" where
  "part_meaning res (LogAddr a) s = s\<lparr>globaleLogHost := res a\<rparr>"
| "part_meaning res (LogPort n) s = s\<lparr>defaultLogPortSignaling := of_nat n\<rparr>"
| "part_meaning res (LogProto p) s = s\<lparr>l4ProtoLog := findL4Proto p\<rparr>"

fun recv_meaning :: "(string \<Rightarrow> sockaddr) \<Rightarrow> recv_setting \<Rightarrow> 'a recv_main_scheme \<Rightarrow> 'a recv_main_scheme" where
  "recv_meaning res (Buffer n) s = s\<lparr>r_buffer_size := of_nat n\<rparr>"
| "recv_meaning res (DataIface i) s = s\<lparr>m_ifaceBind := Some i\<rparr>"
| "recv_meaning res (LogFile f) s = s\<lparr>logCheck := 1, m_logFile := f\<rparr>"
| "recv_meaning res DefaultLog s = s\<lparr>logCheck := 1, m_logFile := R_DEFAULT_LOG_FILE\<rparr>"
| "recv_meaning res (RemoteLog ps) s = fold (part_meaning res) ps (s\<lparr>logRemote := 1\<rparr>)"
| "recv_meaning res (SigPort n) s = s\<lparr>defaultPortSignaling := int n\<rparr>"
| "recv_meaning res (SigIface i) s = s\<lparr>SigInterface := Some i\<rparr>"
| "recv_meaning res (PassiveTo a) s = s\<lparr>passiveMode := True, passiveSender := res a\<rparr>"
| "recv_meaning res (HolePackets n) s = s\<lparr>m_numHolePkt := of_nat n\<rparr>"
| "recv_meaning res (BindTo a) s = s\<lparr>globalBindAddr := Some (res a)\<rparr>"

text \<open>The settings do not look at the calls.\<close>

lemma same_cong:
  assumes "\<And>s. g s\<lparr>hist := []\<rparr> = g (s\<lparr>hist := []\<rparr>)" "same_but_calls s t"
  shows "same_but_calls (g s) (g t)"
  using assms unfolding same_but_calls_def by metis

lemma part_meaning_same: "same_but_calls s t \<Longrightarrow> same_but_calls (part_meaning res p s) (part_meaning res p t)"
  by (erule same_cong[where g = "part_meaning res p", rotated]) (cases p; simp)

lemma parts_meaning_same:
  "same_but_calls s t \<Longrightarrow> same_but_calls (fold (part_meaning res) ps s) (fold (part_meaning res) ps t)"
  by (induction ps arbitrary: s t) (simp_all add: part_meaning_same)

lemma parts_meaning_hist:
  "fold (part_meaning res) ps s\<lparr>hist := h\<rparr> = fold (part_meaning res) ps (s\<lparr>hist := h\<rparr>)"
proof (induction ps arbitrary: s)
  case (Cons p ps)
  have "part_meaning res p s\<lparr>hist := h\<rparr> = part_meaning res p (s\<lparr>hist := h\<rparr>)" by (cases p) simp_all
  then show ?case by (simp add: Cons)
qed simp

lemma recv_meaning_same:
  "same_but_calls s t \<Longrightarrow> same_but_calls (recv_meaning res x s) (recv_meaning res x t)"
  by (erule same_cong[where g = "recv_meaning res x", rotated]) (cases x; simp add: parts_meaning_hist; rule arg_cong[where f = "fold _ _"]; simp)

lemma settings_same:
  "same_but_calls s t \<Longrightarrow> same_but_calls (fold (recv_meaning res) xs s) (fold (recv_meaning res) xs t)"
  by (induction xs arbitrary: s t) (simp_all add: recv_meaning_same del: recv_meaning.simps)

text \<open>An option is read as it is meant, whatever option follows it.\<close>

definition recv_reads :: "os \<Rightarrow> string list \<Rightarrow> ('a recv_main_scheme \<Rightarrow> 'a recv_main_scheme) \<Rightarrow> bool" where
  "recv_reads os opt g \<longleftrightarrow> (\<forall>rest s. rest = [] \<or> is_option (hd rest) \<longrightarrow>
     (\<exists>s'. recv_option os (char_at (hd opt) 1) (opt @ rest) s = (Ret rest, s') \<and> same_but_calls (g s) s'))"

lemma same_log [simp]: "same_but_calls (g s) (log_call c t) = same_but_calls (g s) t"
  by simp

lemma resolvesD: "resolves os res \<Longrightarrow> os_int os (Resolve a # h) = 0" "resolves os res \<Longrightarrow> os_from os (Resolve a # h) = res a"
  by (simp_all add: resolves_def)

lemma atoi_u16: "n < 65536 \<Longrightarrow> ucast (of_nat n :: u32) = (of_nat n :: u16)"
  by (simp add: unsigned_of_nat take_bit_nat_eq_self)

lemmas run_recv = recv_option_def char_at_def r_value_def Let_def proc_simps atoi_u16

lemma recv_readsI:
  assumes "\<And>rest s. rest = [] \<or> is_option (hd rest) \<Longrightarrow>
    \<exists>s'. recv_option os (char_at (hd opt) 1) (opt @ rest) s = (Ret rest, s') \<and> same_but_calls (g s) s'"
  shows "recv_reads os opt g"
  using assms by (simp add: recv_reads_def)

lemma part_no_option: "\<not> is_option (part_text p)"
  by (cases p) (simp_all add: is_option_def char_at_def)

lemma suboption_reads:
  assumes "resolves os res" "valid_part p"
  shows "\<exists>s'. log_suboption os (part_text p) s = (Ret (), s') \<and> same_but_calls (part_meaning res p s) s'"
proof (cases p)
  case (LogAddr a)
  have "(log_call c s)\<lparr>globaleLogHost := h\<rparr> = log_call c (s\<lparr>globaleLogHost := h\<rparr>)" for c h
    by (simp add: log_call_def)
  then show ?thesis using assms by (simp add: LogAddr log_suboption_def char_at_def proc_simps resolvesD)
qed (use assms in \<open>simp_all add: log_suboption_def char_at_def proc_simps atoi_u16\<close>)

lemma suboptions_read:
  assumes "resolves os res" "list_all valid_part ps" "rest = [] \<or> is_option (hd rest)"
  shows "\<exists>s'. log_suboptions os (map part_text ps @ rest) s = (Ret rest, s') \<and>
    same_but_calls (fold (part_meaning res) ps s) s'"
  using assms(2)
proof (induction ps arbitrary: s)
  case Nil
  then show ?case using assms(3) by (cases rest) (auto simp: proc_simps)
next
  case (Cons p ps)
  obtain s1 where one: "log_suboption os (part_text p) s = (Ret (), s1)"
    "same_but_calls (part_meaning res p s) s1"
    using suboption_reads[OF assms(1)] Cons.prems by force
  obtain s2 where two: "log_suboptions os (map part_text ps @ rest) s1 = (Ret rest, s2)"
    "same_but_calls (fold (part_meaning res) ps s1) s2" using Cons by force
  have "log_suboptions os (map part_text (p # ps) @ rest) s = (Ret rest, s2)"
    using one two by (simp add: part_no_option thn_bnd bnd_Ret)
  moreover have "same_but_calls (fold (part_meaning res) (p # ps) s) s2"
    using parts_meaning_same[OF one(2)] two(2) same_but_calls_trans by fastforce
  ultimately show ?case by blast
qed

lemma reads_number:
  assumes "n < 65536"
  shows "recv_reads os (recv_text (Buffer n)) (recv_meaning res (Buffer n))"
    "recv_reads os (recv_text (SigPort n)) (recv_meaning res (SigPort n))"
    "recv_reads os (recv_text (HolePackets n)) (recv_meaning res (HolePackets n))"
  by (rule recv_readsI; use assms in \<open>simp add: run_recv r_opt_q_def r_opt_S_def r_opt_n_def r_check_def\<close>)+

lemma reads_name:
  "recv_reads os (recv_text (DataIface i)) (recv_meaning res (DataIface i))"
  "recv_reads os (recv_text (SigIface i)) (recv_meaning res (SigIface i))"
  "\<not> is_option f \<Longrightarrow> length f < 200 \<Longrightarrow> recv_reads os (recv_text (LogFile f)) (recv_meaning res (LogFile f))"
  by (rule recv_readsI; simp add: run_recv r_opt_i_def r_opt_S_def r_opt_l_def set_recv_log_def DIM_LOG_FILE_def)+

lemma reads_default: "recv_reads os (recv_text DefaultLog) (recv_meaning res DefaultLog)"
proof (rule recv_readsI)
  fix rest and s :: "'a recv_main_scheme"
  assume "rest = [] \<or> is_option (hd rest)"
  then show "\<exists>s'. recv_option os (char_at (hd (recv_text DefaultLog)) 1) (recv_text DefaultLog @ rest) s = (Ret rest, s')
      \<and> same_but_calls (recv_meaning res DefaultLog s) s'"
    by (cases rest) (simp_all add: run_recv r_opt_l_def set_recv_log_def DIM_LOG_FILE_def R_DEFAULT_LOG_FILE_def)
qed

lemma reads_address:
  fixes res :: "string \<Rightarrow> sockaddr"
  assumes "resolves os res"
  shows "recv_reads os (recv_text (PassiveTo a)) (recv_meaning res (PassiveTo a))"
    "recv_reads os (recv_text (BindTo a)) (recv_meaning res (BindTo a))"
  by (rule recv_readsI;
      simp add: run_recv r_opt_H_def r_opt_a_def resolvesD[OF assms] same_but_calls_def log_call_def)+

lemma reads_remote:
  assumes "resolves os res" "list_all valid_part ps"
  shows "recv_reads os (recv_text (RemoteLog ps)) (recv_meaning res (RemoteLog ps))"
  by (rule recv_readsI) (use suboptions_read[OF assms] in \<open>simp add: run_recv r_opt_L_def\<close>)

lemma reads_recv:
  assumes "resolves os res" "valid_recv x"
  shows "recv_reads os (recv_text x) (recv_meaning res x)"
  using assms
  by (cases x) (simp_all add: reads_number reads_name reads_default reads_address reads_remote del: recv_text.simps recv_meaning.simps)

lemma recv_text_first: "concat (map recv_text xs) = [] \<or> is_option (hd (concat (map recv_text xs)))"
proof (cases xs)
  case (Cons x ys)
  have "recv_text x \<noteq> [] \<and> is_option (hd (recv_text x))" by (cases x) (simp_all add: is_option_def char_at_def)
  then show ?thesis using Cons by (auto simp: hd_append)
qed simp

lemma rounds_read:
  assumes "resolves os res" "list_all valid_recv xs" "length (concat (map recv_text xs)) \<le> n"
  shows "\<exists>s'. recv_rounds os n (concat (map recv_text xs)) s = (Ret (), s') \<and>
    same_but_calls (fold (recv_meaning res) xs s) s'"
  using assms(2,3)
proof (induction xs arbitrary: s n)
  case Nil
  then show ?case by (cases n) (simp_all add: proc_simps)
next
  case (Cons x xs)
  let ?rest = "concat (map recv_text xs)"
  have x: "recv_text x \<noteq> [] \<and> is_option (hd (recv_text x))" by (cases x) (simp_all add: is_option_def char_at_def)
  obtain s1 where one: "recv_option os (char_at (hd (recv_text x)) 1) (recv_text x @ ?rest) s = (Ret ?rest, s1)"
    "same_but_calls (recv_meaning res x s) s1"
    using reads_recv[OF assms(1), of x, unfolded recv_reads_def, rule_format, OF _ recv_text_first[of xs]] Cons.prems(1)
    by auto
  obtain m where n: "n = Suc m" "length ?rest \<le> m" using Cons.prems(2) x by (cases n; cases "recv_text x") auto
  obtain s2 where two: "recv_rounds os m ?rest s1 = (Ret (), s2)"
    "same_but_calls (fold (recv_meaning res) xs s1) s2" using Cons.IH[OF _ n(2)] Cons.prems(1) by force
  have "recv_rounds os n (concat (map recv_text (x # xs))) s = (Ret (), s2)"
    using one(1) two(1) x by (simp add: n(1) bnd_Ret hd_append)
  moreover have "same_but_calls (fold (recv_meaning res) (x # xs) s) s2"
    using settings_same[OF one(2), of res xs] two(2) same_but_calls_trans by fastforce
  ultimately show ?case by blast
qed

text \<open>C25: the options of ITGRecv mean what its help says: from the arguments that a user writes for a
  list of settings, on a host that knows the names in them, parserRecv gets exactly those
  settings, a later one winning over an earlier one.\<close>

theorem receiver_options:
  assumes "resolves os res" "list_all valid_recv xs"
  shows "\<exists>s'. parserRecv os (concat (map recv_text xs)) s = (Ret (), s') \<and>
    same_but_calls (fold (recv_meaning res) xs s) s'"
  unfolding parserRecv_def using assms order.refl by (rule rounds_read)

definition recv_demo :: "unit recv_main_scheme" where
  "recv_demo = \<lparr>hist = [], r_flagTerm = 0, logCheck = 0, logRemote = 0, r_buffer_size = 50,
     r_memLogFile = [], r_outOpen = False, passiveMode = False, passiveSender = any_addr,
     globalBindAddr = None, globaleLogHost = any_addr, globaleLogSock = 0, globaleLogSockSignaling = 0,
     defaultLogPortSignaling = 9001, r_gui = False, sharedTcp = (\<lambda>_. \<lparr>shSocket = 0, inUse = 0\<rparr>),
     sharedUdp = (\<lambda>_. \<lparr>shSocket = 0, inUse = 0\<rparr>), slots = [], numFlow = 0, fileDescriptor = NoLog,
     nameFileLog = [], protocolLog = 0, logHost = any_addr, logSock = 0, logSockSignaling = 0,
     m_logFile = [], m_ifaceBind = None, l4ProtoLog = L4_UDP, defaultPortSignaling = 9000,
     m_numHolePkt = 1, SigInterface = None, para_socket = replicate 400 0\<rparr>"

lemma os_ok_resolves: "resolves os_ok (\<lambda>_. any_addr)"
  by (simp add: resolves_def os_ok_def)

theorem receiver_options_witness:
  "\<exists>s'. parserRecv os_ok (concat (map recv_text [SigPort 9500, LogFile ''a.log'', RemoteLog [LogPort 77, LogProto ''TCP'']]))
      recv_demo = (Ret (), s') \<and> defaultPortSignaling s' = 9500 \<and> m_logFile s' = ''a.log'' \<and>
      logRemote s' = 1 \<and> defaultLogPortSignaling s' = 77 \<and> l4ProtoLog s' = L4_TCP"
proof -
  have p: "findL4Proto ''TCP'' = L4_TCP" by code_simp
  have v: "list_all valid_recv [SigPort 9500, LogFile ''a.log'', RemoteLog [LogPort 77, LogProto ''TCP'']]"
    by (simp add: is_option_def char_at_def p L4_TCP_def LX_ERROR_BYTE_def)
  obtain s' where s: "parserRecv os_ok (concat (map recv_text
        [SigPort 9500, LogFile ''a.log'', RemoteLog [LogPort 77, LogProto ''TCP'']])) recv_demo = (Ret (), s')"
    "same_but_calls (fold (recv_meaning (\<lambda>_. any_addr))
        [SigPort 9500, LogFile ''a.log'', RemoteLog [LogPort 77, LogProto ''TCP'']] recv_demo) s'"
    using receiver_options[OF os_ok_resolves v] by blast
  have "s'\<lparr>hist := []\<rparr> = (fold (recv_meaning (\<lambda>_. any_addr))
        [SigPort 9500, LogFile ''a.log'', RemoteLog [LogPort 77, LogProto ''TCP'']] recv_demo)\<lparr>hist := []\<rparr>"
    using s(2) by (simp only: same_but_calls_def)
  then have "defaultPortSignaling (s'\<lparr>hist := []\<rparr>) = 9500 \<and> m_logFile (s'\<lparr>hist := []\<rparr>) = ''a.log'' \<and>
      logRemote (s'\<lparr>hist := []\<rparr>) = 1 \<and> defaultLogPortSignaling (s'\<lparr>hist := []\<rparr>) = 77 \<and>
      l4ProtoLog (s'\<lparr>hist := []\<rparr>) = L4_TCP" by (simp add: p)
  then show ?thesis using s(1) by simp
qed

subsection \<open>The end of the parser\<close>

text \<open>reportErrorAndExit ends the program as long as it is not being ended already.\<close>

definition exits :: "('s, 'b) proc \<Rightarrow> bool" where
  "exits m \<longleftrightarrow> (\<forall>s. \<exists>c. fst (m s) = Exited c)"

definition quiet :: "('s, 'b) proc \<Rightarrow> bool" where
  "quiet m \<longleftrightarrow> (\<forall>s. (\<exists>x. fst (m s) = Ret x) \<or> (\<exists>c. fst (m s) = Exited c))"

named_theorems quiet_intros \<open>procedures that return or end the program\<close>

lemma quiet_prim [quiet_intros]:
  "quiet (ret x)" "quiet (gets f)" "quiet (upd g)" "quiet (sys os c)" "quiet (sys0 d)" "quiet (exit_with e)"
  by (simp_all add: quiet_def proc_simps)

lemma quiet_bnd [quiet_intros]: "quiet m \<Longrightarrow> (\<And>x. quiet (f x)) \<Longrightarrow> quiet (bnd m f)"
  unfolding quiet_def[of "bnd m f"]
proof
  fix s assume m: "quiet m" and f: "\<And>x. quiet (f x)"
  show "(\<exists>y. fst (bnd m f s) = Ret y) \<or> (\<exists>c. fst (bnd m f s) = Exited c)"
    using m[unfolded quiet_def, rule_format, of s] f[unfolded quiet_def, rule_format] by (cases "m s") (fastforce simp: bnd_def)
qed

lemma quiet_thn [quiet_intros]: "quiet m \<Longrightarrow> quiet k \<Longrightarrow> quiet (thn m k)"
  by (simp add: thn_def quiet_bnd)

lemma quiet_if [quiet_intros]:
  "quiet p \<Longrightarrow> quiet q \<Longrightarrow> quiet (if b then p else q)" "quiet r \<Longrightarrow> quiet (cond b r)"
  by (simp_all add: cond_def quiet_prim)

lemma exits_bnd: "quiet m \<Longrightarrow> (\<And>x. exits (f x)) \<Longrightarrow> exits (bnd m f)"
  unfolding exits_def
proof
  fix s assume m: "quiet m" and f: "\<And>x. \<forall>s. \<exists>c. fst (f x s) = Exited c"
  show "\<exists>c. fst (bnd m f s) = Exited c"
    using m[unfolded quiet_def, rule_format, of s] f by (cases "m s") (auto simp: bnd_def)
qed

lemma exits_thn: "quiet m \<Longrightarrow> exits k \<Longrightarrow> exits (thn m k)"
  by (simp add: thn_def exits_bnd)

lemma exits_exit: "exits (exit_with c)"
  by (simp add: exits_def proc_simps)

lemma r_terminate_exits: "exits (r_terminate os sign)"
  unfolding r_terminate_def r_fail_in_terminate_def r_report_in_terminate_def thread_apply
  by (intro exits_bnd exits_thn exits_exit quiet_intros)

lemma r_report_exits: "r_flagTerm s = R_NO_TERMINATE \<Longrightarrow> \<exists>c. fst (r_report os msg s) = Exited c"
  using r_terminate_exits[unfolded exits_def, rule_format] by (simp add: r_report_def proc_simps)

text \<open>An option step of a program that is not being ended returns what is left of at least one argument
  fewer, or ends the program.\<close>

definition running :: "'a recv_state_scheme \<Rightarrow> bool" where
  "running s \<longleftrightarrow> r_flagTerm s = R_NO_TERMINATE"

definition clean_step :: "string list \<Rightarrow> ('a recv_main_scheme, string list) proc \<Rightarrow> bool" where
  "clean_step args m \<longleftrightarrow> (\<forall>s. running s \<longrightarrow> (case m s of
      (Ret rest, s') \<Rightarrow> running s' \<and> length rest < length args \<and> set rest \<subseteq> set args
    | (Exited c, s') \<Rightarrow> True
    | _ \<Rightarrow> False))"

lemma running_upd [simp]:
  "running (log_call c s) = running s"
  by (simp add: running_def log_call_def)

text \<open>What a user has to leave alone: log files with names that do not fit, and empty arguments.\<close>

definition plain_args :: "string list \<Rightarrow> bool" where
  "plain_args args \<longleftrightarrow> (\<forall>a \<in> set args. a \<noteq> [] \<and> length a < DIM_LOG_FILE)"

lemma log_suboption_clean:
  assumes "running s" "a \<noteq> []" "log_suboption os a s = (x, s')"
  shows "(x = Ret () \<and> running s') \<or> (\<exists>c. x = Exited c)"
  using assms
  by (auto simp: log_suboption_def r_usage_def proc_simps running_def log_call_def split: if_splits)

lemma log_suboptions_clean:
  assumes "running s" "plain_args args" "log_suboptions os args s = (x, s')"
  shows "(\<exists>rest. x = Ret rest \<and> running s' \<and> length rest \<le> length args \<and> set rest \<subseteq> set args) \<or> (\<exists>c. x = Exited c)"
  using assms
proof (induction args arbitrary: s)
  case (Cons a args)
  show ?case
  proof (cases "is_option a")
    case False
    obtain y t where one: "log_suboption os a s = (y, t)" by fastforce
    with Cons.prems have "(y = Ret () \<and> running t) \<or> (\<exists>c. y = Exited c)"
      by (intro log_suboption_clean) (auto simp: plain_args_def)
    then show ?thesis using Cons.IH[of t] Cons.prems False one
      by (fastforce simp: thn_bnd bnd_def plain_args_def)
  qed (use Cons.prems in \<open>auto simp: proc_simps\<close>)
qed (auto simp: proc_simps)

lemma r_value_clean:
  "r_value args s = (if length args < 2 then (Exited 1, log_call (Print ''help'') (log_call (Print ''Missing parameter'') s))
    else (Ret (args ! 1), s))"
  by (simp add: r_value_def r_usage_def proc_simps)

lemma clean_stepI:
  assumes "\<And>s x s'. running s \<Longrightarrow> m s = (x, s') \<Longrightarrow>
    (\<exists>rest. x = Ret rest \<and> running s' \<and> length rest < length args \<and> set rest \<subseteq> set args) \<or> (\<exists>c. x = Exited c)"
  shows "clean_step args (m :: ('a recv_main_scheme, string list) proc)"
  unfolding clean_step_def
proof (intro allI impI)
  fix s :: "'a recv_main_scheme"
  assume "running s"
  moreover obtain x s' where "m s = (x, s')" by fastforce
  ultimately show "case m s of (Ret rest, s') \<Rightarrow> running s' \<and> length rest < length args \<and> set rest \<subseteq> set args
      | (Exited c, s') \<Rightarrow> True | _ \<Rightarrow> False" using assms by fastforce
qed

lemma drop_shorter: "0 < n \<Longrightarrow> xs \<noteq> [] \<Longrightarrow> length (drop n xs) < length xs" "set (drop n xs) \<subseteq> set xs"
  by (auto dest: in_set_dropD)

lemma clean_values:
  assumes "args \<noteq> []"
  shows "clean_step args (r_opt_q args)" "clean_step args (r_opt_i args)" "clean_step args (r_opt_H os args)"
  using assms drop_shorter[of 2 args]
  by (auto simp: clean_step_def r_opt_q_def r_opt_i_def r_opt_H_def r_value_def r_usage_def proc_simps running_def
      log_call_def)

lemma clean_l: "args \<noteq> [] \<Longrightarrow> plain_args args \<Longrightarrow> clean_step args (r_opt_l args)"
  using drop_shorter[of 2 args] drop_shorter[of 1 args]
  by (auto simp: clean_step_def r_opt_l_def set_recv_log_def proc_simps running_def plain_args_def
      R_DEFAULT_LOG_FILE_def DIM_LOG_FILE_def)

lemma clean_L:
  assumes "args \<noteq> []" "plain_args args"
  shows "clean_step args (r_opt_L os args)"
proof (rule clean_stepI)
  fix s x s' assume "running s" "r_opt_L os args s = (x, s')"
  then have "running (s\<lparr>logRemote := 1\<rparr>)" "log_suboptions os (tl args) (s\<lparr>logRemote := 1\<rparr>) = (x, s')"
    by (simp_all add: r_opt_L_def proc_simps running_def)
  from log_suboptions_clean[OF this(1) _ this(2)] assms
  show "(\<exists>rest. x = Ret rest \<and> running s' \<and> length rest < length args \<and> set rest \<subseteq> set args) \<or> (\<exists>c. x = Exited c)"
    by (cases args) (fastforce simp: plain_args_def)+
qed

text \<open>reportErrorAndExit as the last thing of a step.\<close>

lemma clean_report:
  assumes "r_flagTerm s = R_NO_TERMINATE"
  shows "bnd (r_report os msg) f s = (x, s') \<longleftrightarrow> (\<exists>c. x = Exited c \<and> r_report os msg s = (Exited c, s'))"
  using r_report_exits[OF assms, of os msg] by (cases "r_report os msg s") (auto simp: bnd_def)

lemmas run_clean = r_usage_def r_check_def proc_simps running_def Let_def clean_report

lemma clean_S: "args \<noteq> [] \<Longrightarrow> clean_step args (r_opt_S os args)"
  by (rule clean_stepI) (auto simp: r_opt_S_def run_clean dest: in_set_dropD split: if_splits)

lemma clean_n: "args \<noteq> [] \<Longrightarrow> clean_step args (r_opt_n os args)"
  by (rule clean_stepI) (auto simp: r_opt_n_def run_clean dest: in_set_dropD split: if_splits)

lemma clean_a: "args \<noteq> [] \<Longrightarrow> clean_step args (r_opt_a os args)"
  by (rule clean_stepI) (auto simp: r_opt_a_def run_clean log_call_def dest: in_set_dropD split: if_splits)

lemma clean_usage: "clean_step args (thn (sys0 (Print m)) (exit_with e))" "clean_step args (r_usage u)"
  by (simp_all add: clean_step_def r_usage_def proc_simps)

lemma clean_option:
  assumes "args \<noteq> []" "plain_args args"
  shows "clean_step args (recv_option os c args)"
  using assms by (simp add: recv_option_def clean_usage clean_values clean_l clean_L clean_S clean_n clean_a)

lemma clean_stepD:
  assumes "clean_step args m" "m s = (x, s')" "running s"
  shows "x = Ret rest \<Longrightarrow> running s' \<and> length rest < length args \<and> set rest \<subseteq> set args"
    and "(\<exists>rest. x = Ret rest) \<or> (\<exists>c. x = Exited c)"
  using assms by (cases x; fastforce simp: clean_step_def)+

lemma rounds_clean:
  assumes "length args \<le> n" "plain_args args" "running s"
  shows "\<exists>s' c. recv_rounds os n args s = (Ret (), s') \<or> recv_rounds os n args s = (Exited c, s')"
  using assms
proof (induction n arbitrary: args s)
  case (Suc n)
  show ?case
  proof (cases "args = [] \<or> \<not> is_option (hd args)")
    case False
    then have step: "clean_step args (recv_option os (char_at (hd args) 1) args)" using Suc.prems clean_option by blast
    obtain x t where m: "recv_option os (char_at (hd args) 1) args s = (x, t)" by fastforce
    show ?thesis
    proof (cases x)
      case (Ret rest)
      then have "running t" "length rest \<le> n" "plain_args rest"
        using clean_stepD(1)[OF step m Suc.prems(3) Ret] Suc.prems by (auto simp: plain_args_def)
      from Suc.IH[OF this(2,3,1)] show ?thesis using False m Ret by (simp add: bnd_def)
    qed (use clean_stepD(2)[OF step m Suc.prems(3)] m False in \<open>auto simp: bnd_def\<close>)
  qed (auto simp: proc_simps r_usage_def)
qed (simp add: proc_simps)

text \<open>C37: on arguments that are not empty and fit into the array for the log file, parserRecv returns or
  ends the program, on every host: it neither loops nor leaves an array.\<close>

theorem receiver_parser_safe:
  assumes "plain_args args" "r_flagTerm s = R_NO_TERMINATE"
  shows "\<exists>s' c. parserRecv os args s = (Ret (), s') \<or> parserRecv os args s = (Exited c, s')"
  unfolding parserRecv_def using assms by (intro rounds_clean) (simp_all add: running_def)

theorem receiver_parser_safe_witness:
  "\<exists>s' c. parserRecv os_ok [''-L'', ''x'', ''-Sp''] recv_demo = (Ret (), s') \<or>
     parserRecv os_ok [''-L'', ''x'', ''-Sp''] recv_demo = (Exited c, s')"
  by (rule receiver_parser_safe) (simp_all add: plain_args_def DIM_LOG_FILE_def recv_demo_def R_NO_TERMINATE_def)

subsection \<open>Connections\<close>

definition connection :: "int \<Rightarrow> nat \<Rightarrow> call list" where
  "connection sock i = [Accept sock, PthreadCreate ''signalManager'' i, PthreadDetach i]"

definition host_accepts :: "os \<Rightarrow> int \<Rightarrow> bool" where
  "host_accepts os sock \<longleftrightarrow> (\<forall>h. os_int os (Accept sock # h) \<ge> 0) \<and>
     (\<forall>i h. os_int os (PthreadCreate ''signalManager'' i # h) = 0)"

text \<open>What accept returned for connection j, when the loop was at connection i in the state s.\<close>

definition accepted :: "os \<Rightarrow> int \<Rightarrow> 'a world_scheme \<Rightarrow> nat \<Rightarrow> nat \<Rightarrow> int" where
  "accepted os sock s i j = os_int os (Accept sock # rev (concat (map (connection sock) [i..<j])) @ hist s)"

definition served :: "os \<Rightarrow> int \<Rightarrow> nat \<Rightarrow> nat \<Rightarrow> 'a recv_main_scheme \<Rightarrow> 'a recv_main_scheme \<Rightarrow> bool" where
  "served os sock i n s s' \<longleftrightarrow> hist s' = rev (concat (map (connection sock) [i..<n])) @ hist s \<and>
     length (para_socket s') = length (para_socket s) \<and>
     (\<forall>j < length (para_socket s). para_socket s' ! j =
        (if i \<le> j \<and> j < n then accepted os sock s i j else para_socket s ! j))"

lemma served_same: "served os sock i i s s"
  by (simp add: served_def)

lemma served_one:
  assumes "served os sock (i + 1) n s1 s'" "i < n" "hist s1 = rev (connection sock i) @ hist s"
    "para_socket s1 = (para_socket s)[i := os_int os (Accept sock # hist s)]"
  shows "served os sock i n s s'"
proof -
  have up: "[i..<j] = i # [i + 1..<j]" if "i < j" for j using that by (simp add: upt_conv_Cons)
  have "accepted os sock s1 (i + 1) j = accepted os sock s i j" if "i < j" for j
    using that assms(3) by (simp add: accepted_def up)
  moreover have "accepted os sock s i i = os_int os (Accept sock # hist s)" by (simp add: accepted_def)
  moreover have "(i \<le> j \<and> j < n) = (j = i \<or> i + 1 \<le> j \<and> j < n)" for j using assms(2) by auto
  ultimately show ?thesis using assms(1,3,4) up[OF assms(2)] by (simp add: served_def nth_list_update)
qed

lemma accept_steps:
  assumes "host_accepts os sock" "i + n \<le> MAX_NUM_THREAD"
  shows "\<exists>s'. accept_rounds os (n + m) i sock s = accept_rounds os m (i + n) sock s' \<and>
    served os sock i (i + n) s s'"
  using assms(2)
proof (induction n arbitrary: i s)
  case (Suc n)
  define s0 where "s0 = (log_call (Accept sock) s)
    \<lparr>para_socket := (para_socket s)[i := os_int os (Accept sock # hist s)]\<rparr>"
  define s1 where "s1 = log_call (PthreadDetach i) (log_call (PthreadCreate ''signalManager'' i) s0)"
  have a: "\<not> os_int os (Accept sock # h) < 0" "os_int os (PthreadCreate ''signalManager'' j # h) = 0" for h j
    using assms(1) by (auto simp: host_accepts_def not_less)
  have p: "para_socket (log_call c t) = para_socket t" for c and t :: "'a recv_main_scheme"
    by (simp add: log_call_def)
  have one: "accept_rounds os (Suc n + m) i sock s = accept_rounds os (n + m) (i + 1) sock s1"
    using Suc.prems by (simp add: proc_simps r_check_def createThread_def a s1_def s0_def p)
  obtain s' where "accept_rounds os (n + m) (i + 1) sock s1 = accept_rounds os m (i + 1 + n) sock s'"
    "served os sock (i + 1) (i + 1 + n) s1 s'"
    using Suc.IH[of "i + 1" s1] Suc.prems by auto
  moreover have "hist s1 = rev (connection sock i) @ hist s"
    by (simp add: s1_def s0_def connection_def log_call_def)
  moreover have "para_socket s1 = (para_socket s)[i := os_int os (Accept sock # hist s)]"
    by (simp add: s1_def s0_def p)
  ultimately have "served os sock i (i + Suc n) s s'"
    using served_one[of os sock i "i + 1 + n" s1 s' s] by simp
  then show ?case using one \<open>accept_rounds os (n + m) (i + 1) sock s1 = _\<close> by auto
qed (auto intro!: exI served_same)

text \<open>C36: main accepts one connection after the other and starts for the i-th the thread that works on
  position i of its table, where it has stored the connection's socket, 400 of them; with one more
  connection it leaves the table.\<close>

theorem receiver_serves:
  assumes "host_accepts os sock"
  shows "(\<forall>n \<le> 400. \<exists>s'. accept_rounds os n 0 sock s = (Hang, s') \<and>
      hist s' = rev (concat (map (connection sock) [0..<n])) @ hist s \<and>
      (\<forall>j < n. j < length (para_socket s) \<longrightarrow> para_socket s' ! j = accepted os sock s 0 j))
    \<and> fst (accept_rounds os 401 0 sock s) = Fault"
proof -
  have "\<exists>s'. accept_rounds os n 0 sock s = (Hang, s') \<and>
      hist s' = rev (concat (map (connection sock) [0..<n])) @ hist s \<and>
      (\<forall>j < n. j < length (para_socket s) \<longrightarrow> para_socket s' ! j = accepted os sock s 0 j)" if "n \<le> 400" for n
    using accept_steps[OF assms, of 0 n 0 s] that by (auto simp: hang_def MAX_NUM_THREAD_def served_def)
  moreover obtain s' where "accept_rounds os (400 + 1) 0 sock s = accept_rounds os 1 (0 + 400) sock s'"
    using accept_steps[OF assms, of 0 400 1 s] by (auto simp: MAX_NUM_THREAD_def)
  moreover have "\<not> os_int os (Accept sock # h) < 0" for h using assms by (auto simp: host_accepts_def not_less)
  ultimately show ?thesis
    by (simp add: proc_simps r_check_def MAX_NUM_THREAD_def)
qed

theorem receiver_serves_witness:
  "(\<exists>s'. accept_rounds os_ok 2 0 5 recv_demo = (Hang, s') \<and>
     hist s' = rev (concat (map (connection 5) [0..<2])) \<and> para_socket s' ! 1 = accepted os_ok 5 recv_demo 0 1) \<and>
   fst (accept_rounds os_ok 401 0 5 recv_demo) = Fault"
proof -
  have h: "host_accepts os_ok 5" by (simp add: host_accepts_def os_ok_def)
  note r = receiver_serves[OF h, of recv_demo]
  have "hist recv_demo = []" "length (para_socket recv_demo) = 400" by (simp_all add: recv_demo_def)
  moreover from spec[OF conjunct1[OF r], of 2] obtain s' where
    "accept_rounds os_ok 2 0 5 recv_demo = (Hang, s')"
    "hist s' = rev (concat (map (connection 5) [0..<2])) @ hist recv_demo"
    "\<forall>j < 2. j < length (para_socket recv_demo) \<longrightarrow> para_socket s' ! j = accepted os_ok 5 recv_demo 0 j"
    by auto
  ultimately show ?thesis using conjunct2[OF r] by auto
qed

end
