(* ===== verification/DecText.thy ===== *)
theory DecText
  imports DecoderSeries Decimal
begin

text \<open>The text form of a log in ITGDec (src/ITGDec/ITGDecod.cpp): writeline with fprintf for -l and readline
  with fscanf for -t, in the build without V21 and V23.  The text is a string; a directive of
  fscanf takes what it matches off its front.\<close>

subsection \<open>fprintf\<close>

definition pad :: "nat \<Rightarrow> char \<Rightarrow> string \<Rightarrow> string" where
  "pad n c s = replicate (n - length s) c @ s"

text \<open>%lf: six decimals of the value, rounded to even; -0 does not occur among the doubles of the model.\<close>

definition fmt_lf :: "rat \<Rightarrow> string" where
  "fmt_lf x = (let n = nat (round_even (\<bar>x\<bar> * 1000000))
     in (if x < 0 then ''-'' else []) @ dec (n div 1000000) @ ''.'' @ pad 6 CHR ''0'' (dec (n mod 1000000)))"

definition fmt_u :: "'a::len word \<Rightarrow> string" where
  "fmt_u w = dec (unat w)"

definition fmt_time :: "u32 \<Rightarrow> u32 \<Rightarrow> rat \<Rightarrow> string" where
  "fmt_time h m s = fmt_u h @ '':'' @ fmt_u m @ '':'' @ fmt_lf s"

text \<open>The ports are printed with %hu, as unsigned shorts.\<close>

definition fmt_host :: "string \<Rightarrow> u32 \<Rightarrow> string" where
  "fmt_host a p = pad 46 CHR '' '' a @ ''/'' @ fmt_u (ucast p :: u16)"

definition writeline :: "info \<Rightarrow> string" where
  "writeline i = ''Flow>'' @ pad 4 CHR ''0'' (fmt_u (flowId i)) @ '' ''
     @ ''Seq>'' @ pad 7 CHR '' '' (fmt_u (seqNum i)) @ '' ''
     @ ''Src>'' @ fmt_host (srcAddr i) (srcPort i) @ '' ''
     @ ''Dest>'' @ fmt_host (destAddr i) (destPort i) @ '' ''
     @ ''txTime>'' @ fmt_time (txTime1 i) (txTime2 i) (txTime3 i) @ '' ''
     @ ''rxTime>'' @ fmt_time (rxTime1 i) (rxTime2 i) (rxTime3 i) @ '' ''
     @ ''Size>'' @ pad 5 CHR '' '' (fmt_u (size i)) @ [CHR 0x0A]"

subsection \<open>fscanf\<close>

text \<open>Literal characters; white space in the format; %c with a width.\<close>

fun scan_lit :: "string \<Rightarrow> string \<Rightarrow> string option" where
  "scan_lit [] s = Some s"
| "scan_lit (c # cs) (d # s) = (if c = d then scan_lit cs s else None)"
| "scan_lit (c # cs) [] = None"

definition scan_space :: "string \<Rightarrow> string" where
  "scan_space s = dropWhile is_space s"

definition scan_chars :: "nat \<Rightarrow> string \<Rightarrow> (string \<times> string) option" where
  "scan_chars n s = (if length s < n then None else Some (take n s, drop n s))"

text \<open>%u, with a width that counts a sign too; the value is that of strtoul, cut to 32 bits.\<close>

definition scan_u :: "nat option \<Rightarrow> string \<Rightarrow> (u32 \<times> string) option" where
  "scan_u width s =
     (let t = dropWhile is_space s;
          room = (case width of None \<Rightarrow> length t | Some n \<Rightarrow> n);
          signed = (t \<noteq> [] \<and> 0 < room \<and> hd t \<in> {CHR ''-'', CHR ''+''});
          u = (if signed then tl t else t);
          ds = takeWhile is_digit (take (if signed then room - 1 else room) u)
      in if ds = [] then None
         else Some (ucast (strtoul ((if signed then [hd t] else []) @ ds)), drop (length ds) u))"

text \<open>%lf for numbers in plain decimal notation that start with a digit; None also stands for the other forms that strtod knows
  (exponents, hexadecimal numbers, infinities), which no log has.\<close>

definition scan_lf :: "string \<Rightarrow> (rat \<times> string) option" where
  "scan_lf s =
     (case take_sign (dropWhile is_space s) of (neg, t) \<Rightarrow>
        let ds = takeWhile is_digit t; u = dropWhile is_digit t;
            dot = (u \<noteq> [] \<and> hd u = CHR ''.'');
            fs = (if dot then takeWhile is_digit (tl u) else []);
            v = (if dot then dropWhile is_digit (tl u) else u);
            q = rnd (of_nat (digits_val (ds @ fs)) / 10 ^ length fs)
        in if ds = [] \<or> (v \<noteq> [] \<and> hd v \<in> set ''eExX'') then None
           else Some (if neg then - q else q, v))"

definition scan_time :: "string \<Rightarrow> string \<Rightarrow> ((u32 \<times> u32 \<times> rat) \<times> string) option" where
  "scan_time name s = (case scan_lit name s of None \<Rightarrow> None | Some s1 \<Rightarrow>
     (case scan_u None s1 of None \<Rightarrow> None | Some (h, s2) \<Rightarrow>
     (case scan_lit '':'' s2 of None \<Rightarrow> None | Some s3 \<Rightarrow>
     (case scan_u None s3 of None \<Rightarrow> None | Some (m, s4) \<Rightarrow>
     (case scan_lit '':'' s4 of None \<Rightarrow> None | Some s5 \<Rightarrow>
     (case scan_lf s5 of None \<Rightarrow> None | Some (x, s6) \<Rightarrow> Some ((h, m, x), scan_space s6)))))))"

text \<open>An address: one character that is dropped and 45 that are stored; the last byte of the array of 46
  keeps what malloc has left there (see open_log).\<close>

definition scan_host :: "string \<Rightarrow> string \<Rightarrow> ((string \<times> u32) \<times> string) option" where
  "scan_host name s = (case scan_lit name s of None \<Rightarrow> None | Some s1 \<Rightarrow>
     (case scan_chars 1 s1 of None \<Rightarrow> None | Some (_, s2) \<Rightarrow>
     (case scan_chars 45 s2 of None \<Rightarrow> None | Some (a, s3) \<Rightarrow>
     (case scan_lit ''/'' s3 of None \<Rightarrow> None | Some s4 \<Rightarrow>
     (case scan_u None s4 of None \<Rightarrow> None | Some (p, s5) \<Rightarrow>
        Some ((takeWhile (\<lambda>c. c \<noteq> CHR 0x00) a, p), scan_space s5))))))"

text \<open>The first fscanf of a line meets the end of the file before it has matched anything.\<close>

definition at_end :: "string \<Rightarrow> bool" where
  "at_end s \<longleftrightarrow> (length s < 5 \<and> s = take (length s) ''Flow>'') \<or>
     (take 5 s = ''Flow>'' \<and> dropWhile is_space (drop 5 s) = [])"

datatype text_read = TextEnd | TextZero | TextInfo info string | TextBad

text \<open>A line: TextZero is a flow 0, with which reading stops; TextBad is a line that fscanf does not
  match, after which the record is in part what malloc left there.\<close>

definition scan_line :: "string \<Rightarrow> (info \<times> string) option" where
  "scan_line s = (case scan_lit ''Flow>'' s of None \<Rightarrow> None | Some s1 \<Rightarrow>
     (case scan_u (Some 4) s1 of None \<Rightarrow> None | Some (f, s2) \<Rightarrow>
     (case scan_lit ''Seq>'' (scan_space s2) of None \<Rightarrow> None | Some s3 \<Rightarrow>
     (case scan_u (Some 7) s3 of None \<Rightarrow> None | Some (q, s4) \<Rightarrow>
     (case scan_host ''Src>'' (scan_space s4) of None \<Rightarrow> None | Some ((sa, sp), s5) \<Rightarrow>
     (case scan_host ''Dest>'' s5 of None \<Rightarrow> None | Some ((da, dp), s6) \<Rightarrow>
     (case scan_time ''txTime>'' s6 of None \<Rightarrow> None | Some ((t1, t2, t3), s7) \<Rightarrow>
     (case scan_time ''rxTime>'' s7 of None \<Rightarrow> None | Some ((r1, r2, r3), s8) \<Rightarrow>
     (case scan_lit ''Size>'' s8 of None \<Rightarrow> None | Some s9 \<Rightarrow>
     (case scan_u (Some 5) s9 of None \<Rightarrow> None | Some (z, s10) \<Rightarrow>
        Some (\<lparr>flowId = f, seqNum = q, srcPort = sp, destPort = dp, txTime1 = t1, txTime2 = t2,
          rxTime1 = r1, rxTime2 = r2, size = z, srcAddr = sa, destAddr = da, txTime3 = t3, rxTime3 = r3\<rparr>,
          scan_space s10)))))))))))"

definition readline :: "string \<Rightarrow> text_read" where
  "readline s = (if at_end s then TextEnd
     else case scan_line s of
       None \<Rightarrow> TextBad
     | Some (i, t) \<Rightarrow> if flowId i = 0 then TextZero else TextInfo i t)"

subsection \<open>All lines\<close>

lemma scan_lit_length: "scan_lit p s = Some t \<Longrightarrow> length s = length p + length t"
  by (induction p s rule: scan_lit.induct) (auto split: if_splits)

lemma scan_space_length: "length (scan_space s) \<le> length s"
  by (simp add: scan_space_def length_dropWhile_le)

lemma scan_chars_length: "scan_chars n s = Some (a, t) \<Longrightarrow> length t \<le> length s"
  by (auto simp: scan_chars_def split: if_splits)

lemma scan_u_length: "scan_u w s = Some (n, t) \<Longrightarrow> length t \<le> length s"
  using length_dropWhile_le[of is_space s]
  by (auto simp: scan_u_def Let_def split: if_splits)

lemma take_sign_length: "take_sign w = (neg, u) \<Longrightarrow> length u \<le> length w"
  by (cases w) (auto simp: take_sign_def split: if_splits)

lemma scan_lf_length:
  assumes "scan_lf s = Some (x, t)"
  shows "length t \<le> length s"
proof -
  obtain neg u where u: "take_sign (dropWhile is_space s) = (neg, u)" by fastforce
  then have "length u \<le> length (dropWhile is_space s)" by (rule take_sign_length)
  also have "\<dots> \<le> length s" by (rule length_dropWhile_le)
  finally have u_s: "length u \<le> length s" .
  define v where "v = dropWhile is_digit u"
  have "length v \<le> length u" "length (dropWhile is_digit (tl v)) \<le> length v"
    using length_dropWhile_le[of is_digit u] length_dropWhile_le[of is_digit "tl v"] by (simp_all add: v_def)
  moreover have "t = v \<or> t = dropWhile is_digit (tl v)"
    using assms by (auto simp: scan_lf_def u Let_def v_def split: if_splits)
  ultimately show ?thesis using u_s by auto
qed

lemmas scan_lengths = scan_lit_length scan_chars_length scan_u_length scan_lf_length

lemma scan_time_length: "scan_time p s = Some (x, t) \<Longrightarrow> length t \<le> length s"
  by (fastforce simp: scan_time_def split: option.splits prod.splits dest!: scan_lengths
      intro: order.trans[OF scan_space_length])

lemma scan_host_length: "scan_host p s = Some (x, t) \<Longrightarrow> length t \<le> length s"
  by (fastforce simp: scan_host_def split: option.splits prod.splits dest!: scan_lengths
      intro: order.trans[OF scan_space_length])

lemma le_scan_space: "k \<le> length (scan_space s) \<Longrightarrow> k \<le> length s" "length (scan_space s) = k \<Longrightarrow> k \<le> length s"
  using scan_space_length[of s] by auto

lemma scan_line_length: "scan_line s = Some (i, t) \<Longrightarrow> length t < length s"
  unfolding scan_line_def
  by (auto split: option.splits prod.splits dest!: scan_lengths scan_time_length scan_host_length le_scan_space
      intro!: le_imp_less_Suc order.trans[OF scan_space_length])

lemma readline_length: "readline s = TextInfo i t \<Longrightarrow> length t < length s"
  by (auto simp: readline_def scan_line_length split: if_splits option.splits)

text \<open>The records that successive calls of readline give, and what stops the reading.\<close>

function text_records :: "string \<Rightarrow> info list \<times> text_read" where
  "text_records s = (case readline s of
       TextInfo i t \<Rightarrow> (case text_records t of (is, e) \<Rightarrow> (i # is, e))
     | e \<Rightarrow> ([], e))"
  by pat_completeness auto
termination
  by (relation "measure length") (simp_all add: readline_length)

declare text_records.simps [simp del]

end
