(* ===== verification/DecMain.thy ===== *)
theory DecMain
  imports DecText OS
begin

text \<open>main of ITGDec (src/ITGDec/ITGDecod.cpp): its options, the files it opens, the record loop with
  everything that is written per record, and what is written at the end.  The state is the disk,
  what has been printed, and the variables of theories Decoder and DecoderSeries.  A text file
  is its characters, a binary log the list of its records; the .bit, .jit, .del and .pkt files,
  which exist only while the program runs, are passed on as their rows.  Fault also stands for
  what is outside the model: an infinite interval, a log that is written to while it is read,
  a text file read as records, more flows than there are slots.\<close>

subsection \<open>State\<close>

datatype content = Records "info list" | Text string

datatype printed = Msg string | PSize u32 | PGap rat | PFlow stflowinfo dec_report | PTotal nat dec_report u64

record dec_io =
  disk :: "string \<Rightarrow> content option"
  stdout :: "printed list"
  dst :: dec_state
  memFile :: "gestioneFileLog list"
  secrx :: rat
  spin :: nat

text \<open>The environment: which files can be opened for writing, the bytes that the k-th record read from a
  text finds behind the 45 characters of its two addresses, in memory that malloc has handed out and
  readline does not set, and how printf writes a NaN.\<close>

record dec_env =
  writable :: "string \<Rightarrow> bool"
  stale :: "nat \<Rightarrow> char \<times> char"
  nan_text :: string

record dec_opts =
  loginname :: string
  logoutname :: string
  octavename :: string
  delayfpname :: string
  jitterfpname :: string
  userstring :: string
  senderlogname :: string
  bitratefile :: string
  jitterfile :: string
  pktlossfile :: string
  delayfile :: string
  combinedstatsfile :: string
  msbitrate :: CNum.dbl
  msjitter :: CNum.dbl
  mspktloss :: CNum.dbl
  msdelay :: CNum.dbl
  flagdelay :: bool
  flagjitter :: bool
  flagbitrate :: bool
  flagpktloss :: bool
  flagcombinedstats :: bool
  flaglogout :: bool
  flagsplit :: bool
  flagps :: bool
  flagidt :: bool
  flagoctave :: bool
  flagreconstruct :: bool
  flageachdj :: bool
  flagwinlin :: bool
  elab_type :: nat
  o_flagfilter :: int
  logintype :: nat
  logouttype :: nat
  flownumsel :: u32

definition fileNameSize :: nat where "fileNameSize = 200"

definition default_opts :: "string \<Rightarrow> dec_opts" where
  "default_opts name = \<lparr>loginname = name, logoutname = [], octavename = [], delayfpname = [], jitterfpname = [],
     userstring = [], senderlogname = [], bitratefile = ''bitrate.dat'', jitterfile = ''jitter.dat'',
     pktlossfile = ''packetloss.dat'', delayfile = ''delay.dat'', combinedstatsfile = ''combined_stats.dat'',
     msbitrate = CNum.Fin 0, msjitter = CNum.Fin 0, mspktloss = CNum.Fin 0, msdelay = CNum.Fin 0,
     flagdelay = False, flagjitter = False, flagbitrate = False, flagpktloss = False, flagcombinedstats = False,
     flaglogout = False, flagsplit = False, flagps = False, flagidt = False, flagoctave = False,
     flagreconstruct = False, flageachdj = False, flagwinlin = False, elab_type = 0, o_flagfilter = 0,
     logintype = 0, logouttype = 0, flownumsel = 0\<rparr>"

subsection \<open>Options\<close>

type_synonym dec_step = "(dec_io, dec_opts \<times> string list) proc"

definition say :: "printed \<Rightarrow> (dec_io, unit) proc" where
  "say p = upd (\<lambda>s. s\<lparr>stdout := stdout s @ [p]\<rparr>)"

definition stop :: "string \<Rightarrow> (dec_io, 'a) proc" where
  "stop msg = thn (say (Msg msg)) (exit_with 1)"

definition no_dec_arg :: "string list \<Rightarrow> bool" where
  "no_dec_arg args \<longleftrightarrow> length args < 2 \<or> is_option (args ! 1)"

text \<open>An option with an interval in milliseconds and, if the next argument is no option, the name of a file.
  Without an interval the option is passed over with a message.\<close>

definition interval_opt ::
    "string \<Rightarrow> (CNum.dbl \<Rightarrow> dec_opts \<Rightarrow> dec_opts) \<Rightarrow> (string \<Rightarrow> dec_opts \<Rightarrow> dec_opts) \<Rightarrow> string list \<Rightarrow> dec_opts \<Rightarrow> dec_step" where
  "interval_opt what set_ms set_file args q =
     (if no_dec_arg args then thn (say (Msg (''Error 1 on '' @ what))) (ret (q, drop 1 args))
      else let ms = strtod (args ! 1) in
        if d_le ms (CNum.Fin 0) then stop (''Error 2 on '' @ what)
        else let q1 = set_ms ms q; rest = drop 2 args in
          if rest \<noteq> [] \<and> \<not> is_option (hd rest) then ret (set_file (hd rest) q1, tl rest) else ret (q1, rest))"

definition dec_opt_c :: "CNum.dbl \<Rightarrow> dec_opts \<Rightarrow> dec_opts" where
  "dec_opt_c ms q = q\<lparr>flagdelay := True, msdelay := ms, flagbitrate := True, msbitrate := ms, flagjitter := True,
     msjitter := ms, flagpktloss := True, mspktloss := ms, flagcombinedstats := True\<rparr>"

definition dec_opt_l :: "string list \<Rightarrow> dec_opts \<Rightarrow> dec_step" where
  "dec_opt_l args q = (if no_dec_arg args then stop ''Error on output log file name''
     else ret (q\<lparr>flaglogout := True, logoutname := args ! 1\<rparr>, drop 2 args))"

definition dec_opt_r :: "string list \<Rightarrow> dec_opts \<Rightarrow> dec_step" where
  "dec_opt_r args q = (if no_dec_arg args then stop ''Error on sender log file name''
     else let q1 = q\<lparr>flagreconstruct := True, flaglogout := True, senderlogname := args ! 1, logouttype := 1\<rparr>;
              rest = drop 2 args in
       if rest \<noteq> [] \<and> \<not> is_option (hd rest) then ret (q1\<lparr>logoutname := hd rest\<rparr>, tl rest)
       else ret (q1\<lparr>logoutname := ''reconstructed.dat''\<rparr>, rest))"

text \<open>The names of -x are put together in arrays of fileNameSize characters.\<close>

definition dec_opt_x :: "string list \<Rightarrow> dec_opts \<Rightarrow> dec_step" where
  "dec_opt_x args q =
     (if no_dec_arg args then ret (q\<lparr>flageachdj := True, delayfpname := ''eachdelay.dat'',
        jitterfpname := ''eachjitter.dat''\<rparr>, drop 1 args)
      else let d = ''eachdelay_'' @ args ! 1 @ ''.dat''; j = ''eachjitter_'' @ args ! 1 @ ''.dat'' in
        if length j \<ge> fileNameSize then fault
        else ret (q\<lparr>flageachdj := True, delayfpname := d, jitterfpname := j\<rparr>, drop 2 args))"

definition dec_opt_s :: "string list \<Rightarrow> dec_opts \<Rightarrow> dec_step" where
  "dec_opt_s args q = (if no_dec_arg args then ret (q\<lparr>flagsplit := True, userstring := ''log''\<rparr>, drop 1 args)
     else ret (q\<lparr>flagsplit := True, userstring := args ! 1\<rparr>, drop 2 args))"

definition dec_opt_o :: "string list \<Rightarrow> dec_opts \<Rightarrow> dec_step" where
  "dec_opt_o args q = (if no_dec_arg args then stop ''Error on output octave file name''
     else ret (q\<lparr>flagoctave := True, octavename := args ! 1\<rparr>, drop 2 args))"

definition dec_opt_f :: "string list \<Rightarrow> dec_opts \<Rightarrow> dec_step" where
  "dec_opt_f args q =
     (if no_dec_arg args then thn (say (Msg ''Error 1 flow number'')) (ret (q, drop 1 args))
      else if char_at (args ! 1) 0 = CHR ''t'' then ret (q\<lparr>o_flagfilter := 2\<rparr>, drop 2 args)
      else let n = atoi (args ! 1) in
        if n = 0 then stop ''Error 2 on flow number''
        else ret (q\<lparr>flownumsel := n, o_flagfilter := 1\<rparr>, drop 2 args))"

definition dec_option :: "char \<Rightarrow> string list \<Rightarrow> dec_opts \<Rightarrow> dec_step" where
  "dec_option c args q =
     (if c = CHR 0x00 then stop ''Invalid option!!''
      else if c = CHR ''d'' then interval_opt ''delay time'' (\<lambda>ms q. q\<lparr>msdelay := ms, flagdelay := True\<rparr>) (\<lambda>f q. q\<lparr>delayfile := f\<rparr>) args q
      else if c = CHR ''b'' then interval_opt ''bitrate time'' (\<lambda>ms q. q\<lparr>msbitrate := ms, flagbitrate := True\<rparr>) (\<lambda>f q. q\<lparr>bitratefile := f\<rparr>) args q
      else if c = CHR ''j'' then interval_opt ''jitter time'' (\<lambda>ms q. q\<lparr>msjitter := ms, flagjitter := True\<rparr>) (\<lambda>f q. q\<lparr>jitterfile := f\<rparr>) args q
      else if c = CHR ''p'' then interval_opt ''packet loss time'' (\<lambda>ms q. q\<lparr>mspktloss := ms, flagpktloss := True\<rparr>) (\<lambda>f q. q\<lparr>pktlossfile := f\<rparr>) args q
      else if c = CHR ''c'' then interval_opt ''interval value'' dec_opt_c (\<lambda>f q. q\<lparr>combinedstatsfile := f\<rparr>) args q
      else if c = CHR ''h'' \<or> c = CHR ''-'' then stop ''help''
      else if c = CHR ''v'' then ret (q\<lparr>elab_type := 1\<rparr>, drop 1 args)
      else if c = CHR ''t'' then ret (q\<lparr>logintype := 1\<rparr>, drop 1 args)
      else if c = CHR ''w'' then ret (q\<lparr>flagwinlin := True\<rparr>, drop 1 args)
      else if c = CHR ''P'' then ret (q\<lparr>flagps := True\<rparr>, drop 1 args)
      else if c = CHR ''I'' then ret (q\<lparr>flagidt := True\<rparr>, drop 1 args)
      else if c = CHR ''l'' then dec_opt_l args q
      else if c = CHR ''r'' then dec_opt_r args q
      else if c = CHR ''x'' then dec_opt_x args q
      else if c = CHR ''s'' then dec_opt_s args q
      else if c = CHR ''i'' then ret (q\<lparr>elab_type := 2\<rparr>, drop 1 args)
      else if c = CHR ''o'' then dec_opt_o args q
      else if c = CHR ''f'' then dec_opt_f args q
      else stop ''Invalid option!!'')"

primrec dec_rounds :: "nat \<Rightarrow> string list \<Rightarrow> dec_opts \<Rightarrow> (dec_io, dec_opts) proc" where
  "dec_rounds 0 args q = (if args = [] then ret q else hang)"
| "dec_rounds (Suc n) args q = (if args = [] then ret q
     else if \<not> is_option (hd args) then stop ''Invalid option!!''
     else bnd (dec_option (char_at (hd args) 1) args q) (\<lambda>(q', rest). dec_rounds n rest q'))"

text \<open>Without an option that says what to do, the summary is printed; -x alone does not say it.\<close>

definition series_wanted :: "dec_opts \<Rightarrow> bool" where
  "series_wanted q \<longleftrightarrow> flagbitrate q \<or> flagdelay q \<or> flagjitter q \<or> flagpktloss q"

definition default_action :: "dec_opts \<Rightarrow> dec_opts" where
  "default_action q = (if flagdelay q \<or> flagjitter q \<or> flagps q \<or> flagidt q \<or> flagbitrate q \<or> elab_type q \<noteq> 0
       \<or> flaglogout q \<or> flagpktloss q \<or> flagoctave q \<or> flagsplit q \<or> flagreconstruct q then q else q\<lparr>elab_type := 1\<rparr>)"

definition parse_dec :: "string list \<Rightarrow> (dec_io, dec_opts) proc" where
  "parse_dec argv =
     (if argv = [] then stop ''Missing filename!!!''
      else if is_option (hd argv) \<and> (char_at (hd argv) 1 = CHR ''h'' \<or> char_at (hd argv) 1 = CHR ''-'') then stop ''help''
      else (bnd (dec_rounds (length argv) (tl argv) (default_opts (hd argv))) (\<lambda>q.
       ret (default_action q))))"

subsection \<open>Files\<close>

text \<open>A name as the array that strncpy has filled: without a NUL when it is too long.\<close>

definition cname :: "nat \<Rightarrow> string \<Rightarrow> (dec_io, string) proc" where
  "cname n name = (if length name < n then ret name else fault)"

definition put_file :: "string \<Rightarrow> content \<Rightarrow> (dec_io, unit) proc" where
  "put_file name c = upd (\<lambda>s. s\<lparr>disk := (disk s)(name \<mapsto> c)\<rparr>)"

definition remove_file :: "string \<Rightarrow> (dec_io, unit) proc" where
  "remove_file name = upd (\<lambda>s. s\<lparr>disk := (disk s)(name := None)\<rparr>)"

definition add_text :: "string \<Rightarrow> string \<Rightarrow> (dec_io, unit) proc" where
  "add_text name t = (bnd (gets (\<lambda>s. disk s name)) (\<lambda>c.
   case c of Some (Text x) \<Rightarrow> put_file name (Text (x @ t)) | _ \<Rightarrow> fault))"

definition add_record :: "string \<Rightarrow> info \<Rightarrow> (dec_io, unit) proc" where
  "add_record name i = (bnd (gets (\<lambda>s. disk s name)) (\<lambda>c.
   case c of Some (Records x) \<Rightarrow> put_file name (Records (x @ [i])) | _ \<Rightarrow> fault))"

text \<open>Opening for writing, which empties the file; the log itself must not be among them.\<close>

definition open_out :: "dec_env \<Rightarrow> dec_opts \<Rightarrow> string \<Rightarrow> content \<Rightarrow> (dec_io, unit) proc" where
  "open_out env q name c = (bnd (cname fileNameSize name) (\<lambda>n.
   if n = loginname q then fault
     else if \<not> writable env n then stop (''Error opening file for write '' @ n)
     else put_file n c))"

text \<open>The addresses that are read from a text end only where malloc has left a NUL behind them; otherwise
  the string functions run on into the rest of the record, which is outside the model.\<close>

definition addresses_end :: "dec_env \<Rightarrow> nat \<Rightarrow> bool" where
  "addresses_end env n \<longleftrightarrow> list_all (\<lambda>k. stale env k = (CHR 0x00, CHR 0x00)) [0..<n]"

definition open_log :: "dec_env \<Rightarrow> dec_opts \<Rightarrow> (dec_io, info list \<times> text_read) proc" where
  "open_log env q = (bnd (cname fileNameSize (loginname q)) (\<lambda>n.
   bnd (gets (\<lambda>s. disk s n)) (\<lambda>c.
   case c of
       None \<Rightarrow> stop (''Error opening log file '' @ n)
     | Some (Records x) \<Rightarrow> if logintype q = 0 then ret (x, TextEnd) else fault
     | Some (Text t) \<Rightarrow>
         if logintype q \<noteq> 0 \<and> addresses_end env (length (fst (text_records t))) then ret (text_records t)
         else fault)))"

definition open_outputs :: "dec_env \<Rightarrow> dec_opts \<Rightarrow> (dec_io, unit) proc" where
  "open_outputs env q = (thn (cond (flaglogout q) (open_out env q (logoutname q) (if logouttype q = 0 then Text [] else Records [])))
   (thn (cond (flagoctave q) (open_out env q (octavename q) (Text [])))
   (thn (cond (series_wanted q \<or> flagsplit q) (upd (\<lambda>s. s\<lparr>memFile := []\<rparr>)))
   (cond (flageachdj q) (thn (open_out env q (delayfpname q) (Text [])) (open_out env q (jitterfpname q) (Text [])))))))"

subsection \<open>The record loop\<close>

text \<open>A turning bar; the index goes back to 0 behind the last of the four characters.\<close>

definition mark :: "(dec_io, unit) proc" where
  "mark = upd (\<lambda>s. s\<lparr>spin := (if spin s + 1 > 3 then 0 else spin s + 1)\<rparr>)"

text \<open>found opens the sender's log anew for every record.\<close>

definition found :: "dec_opts \<Rightarrow> info \<Rightarrow> (dec_io, info option) proc" where
  "found q i = (bnd (cname fileNameSize (senderlogname q)) (\<lambda>n.
   bnd (gets (\<lambda>s. disk s n)) (\<lambda>c.
   case c of None \<Rightarrow> stop (''Error opening log file '' @ n)
     | Some (Records sent) \<Rightarrow> ret (List.find (same_packet i) sent)
     | Some (Text t) \<Rightarrow> fault)))"

definition take_tx :: "dec_opts \<Rightarrow> info \<Rightarrow> (dec_io, info) proc" where
  "take_tx q i = (if \<not> flagreconstruct q then ret i
     else (bnd (found q i) (\<lambda>j.
      case j of None \<Rightarrow> stop ''Error, unable to find correspondent line in sender log file''
       | Some j \<Rightarrow> ret (i\<lparr>txTime1 := txTime1 j, txTime2 := txTime2 j, txTime3 := txTime3 j\<rparr>))))"

definition octave_line :: "info \<Rightarrow> string" where
  "octave_line i = pad 7 CHR '' '' (fmt_u (flowId i)) @ '' '' @ pad 7 CHR '' '' (fmt_u (seqNum i)) @ '' ''
     @ fmt_u (txTime1 i) @ '' '' @ fmt_u (txTime2 i) @ '' '' @ fmt_lf (txTime3 i) @ '' ''
     @ fmt_u (rxTime1 i) @ '' '' @ fmt_u (rxTime2 i) @ '' '' @ fmt_lf (rxTime3 i) @ '' ''
     @ fmt_u (size i) @ [CHR 0x0A]"

text \<open>What is written for every record, valid or not.\<close>

definition show_record :: "dec_opts \<Rightarrow> info \<Rightarrow> (dec_io, unit) proc" where
  "show_record q i = (thn (cond (flagps q) (say (PSize (size i))))
   (bnd (gets id) (\<lambda>s.
   thn (cond (\<not> flagfirstline (dst s) \<and> flagidt q) (say (PGap (rnd (secrxTime i - secrx s)))))
   (thn (cond (flaglogout q)
       (if logouttype q = 0 then add_text (logoutname q) (writeline i) else add_record (logoutname q) i))
   (cond (flagoctave q) (add_text (octavename q) (octave_line i)))))))"

definition flow_text :: "u32 \<times> string \<times> string \<Rightarrow> string" where
  "flow_text = (\<lambda>(f, src, dst). fmt_u f @ ''-'' @ src @ ''-'' @ dst)"

definition flow_file :: "gestioneFileLog \<Rightarrow> string" where
  "flow_file m = flow_text (mf_name m) @ ''.dat''"

text \<open>split: the file of a new flow is opened; the records of all files go to the disk at the end of the loop.
  A flow id of 2^32 - 1 marks a free slot.\<close>

definition dec_split :: "dec_env \<Rightarrow> dec_opts \<Rightarrow> info \<Rightarrow> (dec_io, unit) proc" where
  "dec_split env q i = (bnd (gets memFile) (\<lambda>m.
   let name = flow_text (flowId i, srcAddr i, destAddr i) @ ''.dat'' in
     if flowId i = -1 then fault
     else (thn (cond (FlowPresent i m = None)
         (if name = loginname q then fault
          else cond (\<not> writable env name) (stop (''Unable to open file '' @ name))))
      (case split_record i m of None \<Rightarrow> fault | Some m' \<Rightarrow> upd (\<lambda>s. s\<lparr>memFile := m'\<rparr>)))))"

definition each_packet :: "dec_opts \<Rightarrow> info \<Rightarrow> (dec_io, unit) proc" where
  "each_packet q j = cond (flageachdj q) (bnd (gets dst) (\<lambda>s.
   thn (add_text (delayfpname q) (fmt_lf (current_delay j) @ [CHR 0x0A]))
   (cond (\<not> flagfirstline s)
       (add_text (jitterfpname q) (fmt_lf \<bar>rnd (last_delay s - current_delay j)\<bar> @ [CHR 0x0A])))))"

definition valid_packet :: "dec_env \<Rightarrow> dec_opts \<Rightarrow> info \<Rightarrow> (dec_io, unit) proc" where
  "valid_packet env q j = (thn (cond (series_wanted q \<or> flagsplit q) (dec_split env q j))
   (thn (each_packet q j)
   (upd (\<lambda>s. s\<lparr>dst := dec_valid (o_flagfilter q) j (dst s), secrx := secrxTime j\<rparr>))))"

definition dec_packet :: "dec_env \<Rightarrow> dec_opts \<Rightarrow> info \<Rightarrow> (dec_io, unit) proc" where
  "dec_packet env q i0 = (thn (mark)
   (bnd (take_tx q i0) (\<lambda>i.
   thn (show_record q i)
   (if errornum (o_flagfilter q) (flownumsel q) i > 0
     then upd (\<lambda>s. s\<lparr>dst := (dst s)\<lparr>pkterr := pkterr (dst s) + 1\<rparr>\<rparr>)
     else valid_packet env q (unify_flow (o_flagfilter q) i)))))"

primrec dec_packets :: "dec_env \<Rightarrow> dec_opts \<Rightarrow> info list \<Rightarrow> (dec_io, unit) proc" where
  "dec_packets env q [] = ret ()"
| "dec_packets env q (i # is) = thn (dec_packet env q i) (dec_packets env q is)"

text \<open>A text that ends with a flow 0 is reported and read no further.\<close>

definition end_of_log :: "text_read \<Rightarrow> (dec_io, unit) proc" where
  "end_of_log e = (case e of TextEnd \<Rightarrow> ret () | TextZero \<Rightarrow> say (Msg ''Error reading input file'') | _ \<Rightarrow> fault)"

subsection \<open>After the loop\<close>

text \<open>The loops over memFile end at a free slot, which a full table does not have.\<close>

definition used_slots :: "(dec_io, gestioneFileLog list) proc" where
  "used_slots = (bnd (gets memFile) (\<lambda>m.
   if length m \<ge> MaxNumFlow then fault else ret m))"

primrec for_each :: "('a \<Rightarrow> (dec_io, unit) proc) \<Rightarrow> 'a list \<Rightarrow> (dec_io, unit) proc" where
  "for_each p [] = ret ()"
| "for_each p (x # xs) = thn (p x) (for_each p xs)"

definition save_flow :: "gestioneFileLog \<Rightarrow> (dec_io, unit) proc" where
  "save_flow m = put_file (flow_file m) (Records (mf_lines m))"

text \<open>An interval that is infinite or not a number is outside the model.\<close>

definition the_ms :: "bool \<Rightarrow> CNum.dbl \<Rightarrow> (dec_io, rat) proc" where
  "the_ms flag ms = (if \<not> flag then ret 0 else case ms of CNum.Fin r \<Rightarrow> ret r | _ \<Rightarrow> fault)"

definition extensions :: "dec_opts \<Rightarrow> string list" where
  "extensions q = (if flagbitrate q then [''.bit''] else []) @ (if flagjitter q then [''.jit''] else []) @
     (if flagdelay q then [''.del''] else []) @ (if flagpktloss q then [''.pkt''] else [])"

definition open_series :: "dec_env \<Rightarrow> dec_opts \<Rightarrow> gestioneFileLog \<Rightarrow> (dec_io, unit) proc" where
  "open_series env q m = for_each (\<lambda>e. cond (\<not> writable env (flow_file m @ e))
     (stop (''Error opening file for write '' @ flow_file m @ e))) (extensions q)"

record flow_rows =
  bit_rows :: "row list"
  jit_rows :: "row list"
  del_rows :: "row list"
  pkt_rows :: "row list"

definition elabsplit :: "dec_env \<Rightarrow> dec_opts \<Rightarrow> gestioneFileLog list \<Rightarrow> (dec_io, flow_rows list) proc" where
  "elabsplit env q m = (bnd (the_ms (flagbitrate q) (msbitrate q)) (\<lambda>b.
   bnd (the_ms (flagjitter q) (msjitter q)) (\<lambda>j.
   bnd (the_ms (flagdelay q) (msdelay q)) (\<lambda>d.
   bnd (the_ms (flagpktloss q) (mspktloss q)) (\<lambda>p.
   thn (for_each (open_series env q) m)
   (bnd (gets (\<lambda>s. secfirstline_gl (dst s))) (\<lambda>gl.
   ret (map (\<lambda>f. \<lparr>bit_rows = bit_file b gl (mf_lines f), jit_rows = jit_file j gl (mf_lines f),
       del_rows = del_file d gl (mf_lines f), pkt_rows = pkt_file p gl (mf_lines f)\<rparr>) m))))))))"

definition fmt_q :: "dec_env \<Rightarrow> quotient \<Rightarrow> string" where
  "fmt_q env x = (case x of Decoder.Fin r \<Rightarrow> fmt_lf r | Decoder.Inf \<Rightarrow> ''inf'' | Decoder.NaN \<Rightarrow> nan_text env)"

definition merge_text :: "dec_env \<Rightarrow> merge_line \<Rightarrow> string" where
  "merge_text env l = (case ml_time l of None \<Rightarrow> [] | Some t \<Rightarrow> fmt_lf t) @
     concat (map (\<lambda>v. '' '' @ fmt_q env v) (ml_values l)) @ '' '' @ fmt_q env (ml_sum l) @ [CHR 0x0A]"

definition merge_head :: "gestioneFileLog list \<Rightarrow> string" where
  "merge_head m = ''Time'' @ concat (map (\<lambda>f. '' '' @ flow_text (mf_flowId f, mf_srcAddr f, mf_destAddr f)) m)
     @ '' Aggregate-Flow'' @ [CHR 0x0A]"

definition enough_rows :: "row list list \<Rightarrow> nat" where
  "enough_rows files = Suc (fold max (map length files) 0)"

definition merge_out :: "dec_env \<Rightarrow> string \<Rightarrow> gestioneFileLog list \<Rightarrow> row list list \<Rightarrow> (dec_io, unit) proc" where
  "merge_out env name m files = (bnd (cname fileNameSize name) (\<lambda>n.
   bnd (gets (\<lambda>s. length (flowinfo (dst s)))) (\<lambda>flownum.
   if \<not> writable env n then stop (''Error opening file for write '' @ n)
     else case merge (enough_rows files) flownum files of
       None \<Rightarrow> hang
     | Some ls \<Rightarrow> put_file n (Text (merge_head m @ concat (map (merge_text env) ls))))))"

definition combined_text :: "dec_env \<Rightarrow> combined_line \<Rightarrow> string" where
  "combined_text env l = (case cl_time l of None \<Rightarrow> [] | Some t \<Rightarrow> fmt_lf t) @
     '' '' @ fmt_q env (valuesum_bit l) @ '' '' @ fmt_q env (valuesum_del l) @
     '' '' @ fmt_q env (valuesum_jit l) @ '' '' @ fmt_q env (valuesum_pkt l) @ [CHR 0x0A]"

definition merge_combined_out :: "dec_env \<Rightarrow> string \<Rightarrow> flow_rows list \<Rightarrow> (dec_io, unit) proc" where
  "merge_combined_out env name files = (bnd (cname fileNameSize name) (\<lambda>n.
   bnd (gets (\<lambda>s. length (flowinfo (dst s)))) (\<lambda>flownum.
   if \<not> writable env n then stop (''Error opening file for write '' @ n)
     else case mergeCombined (enough_rows (map bit_rows files)) flownum
         (map (\<lambda>f. (bit_rows f, del_rows f, jit_rows f, pkt_rows f)) files) of
       None \<Rightarrow> hang
     | Some ls \<Rightarrow> put_file n (Text (concat (map (combined_text env) ls))))))"

definition write_series :: "dec_env \<Rightarrow> dec_opts \<Rightarrow> gestioneFileLog list \<Rightarrow> (dec_io, unit) proc" where
  "write_series env q m = (bnd (elabsplit env q m) (\<lambda>r.
   thn (cond (flagbitrate q \<and> \<not> flagcombinedstats q) (merge_out env (bitratefile q) m (map bit_rows r)))
   (thn (cond (flagjitter q \<and> \<not> flagcombinedstats q) (merge_out env (jitterfile q) m (map jit_rows r)))
   (thn (cond (flagdelay q \<and> \<not> flagcombinedstats q) (merge_out env (delayfile q) m (map del_rows r)))
   (thn (cond (flagpktloss q \<and> \<not> flagcombinedstats q) (merge_out env (pktlossfile q) m (map pkt_rows r)))
   (thn (cond (flagcombinedstats q) (merge_combined_out env (combinedstatsfile q) r))
   (for_each (\<lambda>e. for_each (\<lambda>f. remove_file (flow_file f @ e)) m) (extensions q))))))))"

text \<open>-s keeps the files of the flows under names with a suffix, which has room for nine characters.\<close>

definition rename_flow :: "dec_opts \<Rightarrow> gestioneFileLog \<Rightarrow> (dec_io, unit) proc" where
  "rename_flow q f = (bnd (cname 10 (userstring q)) (\<lambda>u.
   thn (put_file (flow_text (mf_name f) @ ''.'' @ u @ ''.dat'') (Records (mf_lines f)))
   (remove_file (flow_file f))))"

definition finish_flows :: "dec_env \<Rightarrow> dec_opts \<Rightarrow> (dec_io, unit) proc" where
  "finish_flows env q = cond (series_wanted q \<or> flagsplit q) (bnd (used_slots) (\<lambda>m.
   thn (for_each save_flow m)
   (thn (cond (series_wanted q) (write_series env q m))
   (thn (cond (series_wanted q \<and> \<not> flagsplit q) (for_each (\<lambda>f. remove_file (flow_file f)) m))
   (cond (flagsplit q) (for_each (rename_flow q) m))))))"

definition print_report :: "dec_opts \<Rightarrow> (dec_io, unit) proc" where
  "print_report q = cond (elab_type q = 1) (bnd (gets dst) (\<lambda>d.
   thn (for_each (\<lambda>f. say (PFlow f (flow_report f))) (flowinfo d))
   (say (PTotal (length (flowinfo d)) (total_report d) (pkterr d)))))"

definition dec_main :: "dec_env \<Rightarrow> string list \<Rightarrow> (dec_io, unit) proc" where
  "dec_main env argv = (bnd (parse_dec argv) (\<lambda>q.
   bnd (open_log env q) (\<lambda>r.
   thn (open_outputs env q)
   (thn (dec_packets env q (fst r))
   (thn (end_of_log (snd r))
   (bnd (gets dst) (\<lambda>d.
   thn (cond (pktvalid d = 0) (say (Msg ''Empty log file'')))
   (thn (finish_flows env q)
   (thn (print_report q)
   (exit_with 0))))))))))"

definition dec_start :: "(string \<Rightarrow> content option) \<Rightarrow> dec_io" where
  "dec_start d = \<lparr>disk = d, stdout = [], dst = dec_init, memFile = [], secrx = 0, spin = 0\<rparr>"

end
