(* ===== verification/DecText_Facts.thy ===== *)
theory DecText_Facts
  imports DecText
begin

text \<open>A log that ITGDec has written as text is read back: what the reader gets for a record, and that
  writing it again gives the same text.\<close>

subsection \<open>Numbers\<close>

lemma length_dec: "n < 10 ^ k \<Longrightarrow> 0 < k \<Longrightarrow> length (dec n) \<le> k"
proof (induction n arbitrary: k rule: dec.induct)
  case (1 n)
  show ?case
  proof (cases n rule: dec_cases)
    case (2 d)
    then have "1 < k" using "1.prems" by (cases "k = 1") auto
    then have "n div 10 < 10 ^ (k - 1)" using "1.prems"
      by (simp add: less_mult_imp_div_less flip: power_Suc2)
    then show ?thesis using 1 2 \<open>1 < k\<close> by fastforce
  qed (use "1.prems" in simp)
qed

lemma digits_val_append: "digits_val (xs @ ys) = digits_val xs * 10 ^ length ys + digits_val ys"
proof (induction ys rule: rev_induct)
  case (snoc y ys)
  then show ?case by (simp add: digits_val_snoc[unfolded append.simps] flip: append_assoc)
qed (simp add: digits_val_def)

lemma digits_val_zeros [simp]: "digits_val (replicate n CHR ''0'' @ s) = digits_val s"
proof -
  have "digits_val (replicate n CHR ''0'') = 0"
    by (induction n) (simp_all add: digits_val_def digit_val_def)
  then show ?thesis by (simp add: digits_val_append)
qed

lemma zeros_digits: "list_all is_digit (replicate n CHR ''0'')"
  by (simp add: list_all_iff is_digit_def)

lemma takeWhile_digits:
  assumes "list_all is_digit ds" "r = [] \<or> \<not> is_digit (hd r)"
  shows "takeWhile is_digit (ds @ r) = ds" "dropWhile is_digit (ds @ r) = r"
proof -
  have "takeWhile is_digit r = []" "dropWhile is_digit r = r" using assms(2) by (cases r; simp)+
  then show "takeWhile is_digit (ds @ r) = ds" "dropWhile is_digit (ds @ r) = r"
    using assms(1) by (simp_all add: takeWhile_append2 dropWhile_append2 list_all_iff)
qed

text \<open>%u reads a padded number back, up to its width and no further.\<close>

definition stops :: "string \<Rightarrow> bool" where
  "stops r \<longleftrightarrow> r = [] \<or> \<not> is_digit (hd r)"

lemma digits_no_sign:
  assumes "list_all is_digit ds" "ds \<noteq> []"
  shows "hd ds \<noteq> CHR ''-''" "hd ds \<noteq> CHR ''+''" "\<not> is_space (hd ds)"
proof -
  have "is_digit (hd ds)" using assms by (cases ds) simp_all
  then show "hd ds \<noteq> CHR ''-''" "hd ds \<noteq> CHR ''+''" "\<not> is_space (hd ds)"
    by (auto simp: is_digit_def is_space_def)
qed

lemma strtoul_digits:
  assumes "list_all is_digit ds" "ds \<noteq> []" "digits_val ds < 2 ^ 64"
  shows "strtoul ds = of_nat (digits_val ds)"
  using digits_no_sign[OF assms(1,2)] assms(2,3)
  by (simp add: strtoul_def dec_parts_def Let_def dropWhile_none takeWhile_all[OF assms(1)])

lemma scan_digits:
  assumes "list_all is_digit ds" "ds \<noteq> []" "digits_val ds < 2 ^ 32" "stops r" "w = None \<or> w = Some m \<and> length ds \<le> m"
    "list_all is_space sp"
  shows "scan_u w (sp @ ds @ r) = Some (of_nat (digits_val ds), r)"
proof -
  have sp: "dropWhile is_space (sp @ ds @ r) = ds @ r"
    using digits_no_sign(3)[OF assms(1,2)] assms(2,6)
    by (induction sp) (cases ds; simp)+
  have room: "takeWhile is_digit (take (case w of None \<Rightarrow> length (ds @ r) | Some n \<Rightarrow> n) (ds @ r)) = ds"
  proof -
    let ?k = "case w of None \<Rightarrow> length (ds @ r) | Some n \<Rightarrow> n"
    have "take ?k (ds @ r) = ds @ take (?k - length ds) r" using assms(5) by auto
    moreover have "take (?k - length ds) r = [] \<or> \<not> is_digit (hd (take (?k - length ds) r))"
      using assms(4) by (cases r; cases "?k - length ds") (auto simp: stops_def)
    ultimately show ?thesis using takeWhile_digits(1)[OF assms(1)] by presburger
  qed
  have "hd (ds @ r) = hd ds" using assms(2) by simp
  then have "hd (ds @ r) \<notin> {CHR ''-'', CHR ''+''}" using digits_no_sign[OF assms(1,2)] by simp
  moreover have "digits_val ds < 2 ^ 64" using assms(3) by (rule order.strict_trans) simp
  moreover have "(ucast (of_nat (digits_val ds) :: u64) :: u32) = of_nat (digits_val ds)"
    using \<open>digits_val ds < 2 ^ 64\<close> by (simp add: unsigned_of_nat take_bit_nat_eq_self)
  ultimately show ?thesis using room assms(2) strtoul_digits[OF assms(1,2)]
    by (simp only: scan_u_def sp Let_def) simp
qed

lemma scan_padded:
  assumes "c = CHR '' '' \<or> c = CHR ''0''" "n < 2 ^ 32" "length (dec n) \<le> w" "stops r"
  shows "scan_u (Some w) (pad w c (dec n) @ r) = Some (of_nat n, r)"
  using assms(1)
proof
  assume c: "c = CHR '' ''"
  have "list_all is_space (replicate (w - length (dec n)) c)" by (simp add: c list_all_iff is_space_def)
  from scan_digits[OF dec_is_digits dec_not_Nil _ assms(4) _ this, of n "Some w" w] assms(2,3)
  show ?thesis by (simp add: pad_def)
next
  assume c: "c = CHR ''0''"
  have "list_all is_digit (pad w c (dec n))" using zeros_digits dec_is_digits by (simp add: pad_def c)
  moreover have "digits_val (pad w c (dec n)) = n" "length (pad w c (dec n)) \<le> w" "pad w c (dec n) \<noteq> []"
    using assms(3) by (simp_all add: pad_def c)
  ultimately show ?thesis using scan_digits[of "pad w c (dec n)" r "Some w" w "[]"] assms(2,4) by simp
qed

lemma scan_plain:
  assumes "n < 2 ^ 32" "stops r"
  shows "scan_u None (dec n @ r) = Some (of_nat n, r)"
  using scan_digits[OF dec_is_digits dec_not_Nil _ assms(2), of n None 0 "[]"] assms(1) by simp

text \<open>%lf reads the six decimals.\<close>

lemma stops_space [simp]: "stops (CHR '' '' # r)" "stops (CHR '':'' # r)" "stops (CHR 0x0A # r)" "stops (CHR ''/'' # r)"
  by (simp_all add: stops_def is_digit_def)

lemma round_even_nonneg: "0 \<le> x \<Longrightarrow> 0 \<le> round_even x"
  by (simp add: round_even_def Let_def)

lemma pad_zeros_digits: "list_all is_digit (pad k CHR ''0'' (dec n))"
  using zeros_digits dec_is_digits by (simp add: pad_def)

lemma length_pad: "length s \<le> k \<Longrightarrow> length (pad k c s) = k"
  by (simp add: pad_def)

lemma fmt_lf_scan:
  assumes "0 \<le> x" "r = [] \<or> hd r \<in> {CHR '' '', CHR 0x0A}"
  shows "scan_lf (fmt_lf x @ r) = Some (lf x, r)"
proof -
  define n where "n = nat (round_even (x * 1000000))"
  have rn: "rnd (of_int (round_even (x * 1000000)) / 1000000) = lf x" by (simp add: lf_def)
  have n: "(of_nat n :: rat) = of_int (round_even (x * 1000000))"
    using round_even_nonneg[of "x * 1000000"] assms(1) by (simp add: n_def)
  let ?i = "dec (n div 1000000)" and ?f = "pad 6 CHR ''0'' (dec (n mod 1000000))"
  have whole: "fmt_lf x @ r = ?i @ CHR ''.'' # ?f @ r" using assms(1) by (simp add: fmt_lf_def Let_def n_def)
  have "length (dec (n mod 1000000)) \<le> 6" by (rule length_dec) simp_all
  then have lf: "length ?f = 6" by (rule length_pad)
  have "\<not> is_digit CHR ''.''" by (simp add: is_digit_def)
  then have i: "takeWhile is_digit (?i @ CHR ''.'' # ?f @ r) = ?i" "dropWhile is_digit (?i @ CHR ''.'' # ?f @ r) = CHR ''.'' # ?f @ r"
    using takeWhile_digits[OF dec_is_digits, of "CHR ''.'' # ?f @ r"] by simp_all
  have "r = [] \<or> \<not> is_digit (hd r)" using assms(2) by (auto simp: is_digit_def)
  then have f: "takeWhile is_digit (?f @ r) = ?f" "dropWhile is_digit (?f @ r) = r"
    using takeWhile_digits[OF pad_zeros_digits] by simp_all
  have start: "take_sign (dropWhile is_space (?i @ CHR ''.'' # ?f @ r)) = (False, ?i @ CHR ''.'' # ?f @ r)"
    using hd_dec[of "n div 1000000"] by (cases ?i) (auto simp: take_sign_def)
  have "digits_val (?i @ ?f) = n"
  proof -
    have "digits_val (pad 6 CHR ''0'' (dec (n mod 1000000))) = n mod 1000000" by (simp add: pad_def)
    then show ?thesis using div_mult_mod_eq[of n 1000000] by (simp add: digits_val_append lf)
  qed
  moreover have "\<not> (r \<noteq> [] \<and> hd r \<in> set ''eExX'')" using assms(2) by auto
  ultimately show ?thesis
    unfolding whole scan_lf_def start by (simp add: i f Let_def lf n rn)
qed

subsection \<open>Lines\<close>

lemma scan_lit_append [simp]: "scan_lit p (p @ s) = Some s"
  by (induction p) simp_all

lemma scan_space_letter [simp]:
  "scan_space (CHR '' '' # s) = scan_space s" "s \<noteq> [] \<Longrightarrow> \<not> is_space (hd s) \<Longrightarrow> scan_space s = s" "scan_space [] = []"
  "scan_space (CHR 0x0A # s) = scan_space s"
  by (cases s; simp add: scan_space_def is_space_def)+

lemma unat_bound: "unat (w :: u32) < 2 ^ 32" "unat (v :: u16) < 2 ^ 16"
  using unsigned_less[of w, where 'a = nat] unsigned_less[of v, where 'a = nat] by simp_all

lemma scan_u32:
  fixes w :: u32
  shows "stops r \<Longrightarrow> scan_u None (fmt_u w @ r) = Some (w, r)"
  using scan_plain[of "unat w" r] unat_bound(1)[of w] by (simp add: fmt_u_def)

lemma scan_u16:
  fixes w :: u16
  shows "stops r \<Longrightarrow> scan_u None (fmt_u w @ r) = Some (ucast w, r)"
proof -
  have "unat w < 2 ^ 32" using unat_bound(2)[of w] by simp
  then show "stops r \<Longrightarrow> scan_u None (fmt_u w @ r) = Some (ucast w, r)"
    using scan_plain[of "unat w" r] by (simp add: fmt_u_def)
qed

lemma scan_width:
  fixes w :: u32
  assumes "unat w < 10 ^ k" "0 < k" "c = CHR '' '' \<or> c = CHR ''0''" "stops r"
  shows "scan_u (Some k) (pad k c (fmt_u w) @ r) = Some (w, r)"
  using scan_padded[OF assms(3) _ length_dec[OF assms(1,2)] assms(4)] unat_bound(1)[of w] by (simp add: fmt_u_def)

definition text_addr :: "string \<Rightarrow> string" where
  "text_addr a = pad 45 CHR '' '' a"

definition text_port :: "u32 \<Rightarrow> u32" where
  "text_port p = ucast (ucast p :: u16)"

definition text_info :: "info \<Rightarrow> info" where
  "text_info i = i\<lparr>srcAddr := text_addr (srcAddr i), destAddr := text_addr (destAddr i),
     srcPort := text_port (srcPort i), destPort := text_port (destPort i),
     txTime3 := lf (txTime3 i), rxTime3 := lf (rxTime3 i)\<rparr>"

definition printable :: "info \<Rightarrow> bool" where
  "printable i \<longleftrightarrow> 0 < unat (flowId i) \<and> unat (flowId i) < 10 ^ 4 \<and> unat (seqNum i) < 10 ^ 7 \<and> unat (size i) < 10 ^ 5 \<and>
     length (srcAddr i) \<le> 45 \<and> length (destAddr i) \<le> 45 \<and> CHR 0x00 \<notin> set (srcAddr i) \<and> CHR 0x00 \<notin> set (destAddr i) \<and>
     0 \<le> txTime3 i \<and> txTime3 i < 60 \<and> 0 \<le> rxTime3 i \<and> rxTime3 i < 60"

text \<open>What follows a field of a line: a letter.\<close>

definition letter_next :: "string \<Rightarrow> bool" where
  "letter_next s \<longleftrightarrow> s = [] \<or> \<not> is_space (hd s)"

lemma letter_next_space: "letter_next s \<Longrightarrow> scan_space s = s"
  by (cases s) (simp_all add: letter_next_def)

lemma takeWhile_true: "\<forall>x \<in> set xs. P x \<Longrightarrow> takeWhile P xs = xs"
  by (induction xs) auto

lemma scan_host_line:
  assumes "length a \<le> 45" "CHR 0x00 \<notin> set a" "letter_next r"
  shows "scan_host name (name @ fmt_host a p @ CHR '' '' # r) = Some ((text_addr a, text_port p), r)"
proof -
  have a: "pad 46 CHR '' '' a = CHR '' '' # text_addr a" "length (text_addr a) = 45"
    using assms(1) by (simp_all add: pad_def text_addr_def Suc_diff_le flip: replicate_Suc)
  have "CHR 0x00 \<notin> set (text_addr a)" using assms(2) by (simp add: text_addr_def pad_def)
  then have "takeWhile (\<lambda>c. c \<noteq> CHR 0x00) (text_addr a) = text_addr a" by (intro takeWhile_true) auto
  then show ?thesis
    using a(2) assms(3)
    by (simp add: scan_host_def fmt_host_def a(1) scan_chars_def scan_u16 text_port_def letter_next_space)
qed

lemma scan_time_line:
  assumes "0 \<le> x" "letter_next r"
  shows "scan_time name (name @ fmt_time h m x @ CHR '' '' # r) = Some ((h, m, lf x), r)"
  using assms by (simp add: scan_time_def fmt_time_def scan_u32 fmt_lf_scan letter_next_space)

lemma letter_names [simp]:
  "letter_next (CHR ''S'' # s)" "letter_next (CHR ''D'' # s)" "letter_next (CHR ''t'' # s)" "letter_next (CHR ''r'' # s)"
  by (simp_all add: letter_next_def is_space_def)

text \<open>What the reader gets for a record.\<close>

lemma scan_line_writeline:
  assumes "printable i" "letter_next r"
  shows "scan_line (writeline i @ r) = Some (text_info i, r)"
proof -
  have p: "length (srcAddr i) \<le> 45" "length (destAddr i) \<le> 45" "CHR 0x00 \<notin> set (srcAddr i)" "CHR 0x00 \<notin> set (destAddr i)"
    "0 \<le> txTime3 i" "0 \<le> rxTime3 i" using assms(1) by (auto simp: printable_def)
  have host: "scan_host ''Src>'' (CHR ''S'' # CHR ''r'' # CHR ''c'' # CHR ''>'' # fmt_host a p @ CHR '' '' # t)
      = Some ((text_addr a, text_port p), t)"
    "scan_host ''Dest>'' (CHR ''D'' # CHR ''e'' # CHR ''s'' # CHR ''t'' # CHR ''>'' # fmt_host a p @ CHR '' '' # t)
      = Some ((text_addr a, text_port p), t)"
    if "length a \<le> 45" "CHR 0x00 \<notin> set a" "letter_next t" for a p t
    using scan_host_line[OF that, of "''Src>''" p] scan_host_line[OF that, of "''Dest>''" p] by simp_all
  have time: "scan_time ''txTime>'' (CHR ''t'' # CHR ''x'' # CHR ''T'' # CHR ''i'' # CHR ''m'' # CHR ''e'' # CHR ''>'' #
        fmt_time h m x @ CHR '' '' # t) = Some ((h, m, lf x), t)"
    "scan_time ''rxTime>'' (CHR ''r'' # CHR ''x'' # CHR ''T'' # CHR ''i'' # CHR ''m'' # CHR ''e'' # CHR ''>'' #
        fmt_time h m x @ CHR '' '' # t) = Some ((h, m, lf x), t)"
    if "0 \<le> x" "letter_next t" for h m x t
    using scan_time_line[OF that, of "''txTime>''" h m] scan_time_line[OF that, of "''rxTime>''" h m] by simp_all
  have num: "scan_u (Some 4) (pad 4 CHR ''0'' (fmt_u (flowId i)) @ CHR '' '' # t) = Some (flowId i, CHR '' '' # t)"
    "scan_u (Some 7) (pad 7 CHR '' '' (fmt_u (seqNum i)) @ CHR '' '' # t) = Some (seqNum i, CHR '' '' # t)"
    "scan_u (Some 5) (pad 5 CHR '' '' (fmt_u (size i)) @ CHR 0x0A # t) = Some (size i, CHR 0x0A # t)" for t
    using assms(1) by (intro scan_width; simp add: printable_def)+
  show ?thesis
    using p assms(2)
    by (simp add: scan_line_def writeline_def num host time letter_next_space text_info_def)
qed

lemma readline_writeline:
  assumes "printable i" "letter_next r"
  shows "readline (writeline i @ r) = TextInfo (text_info i) r"
proof -
  have "\<not> at_end (writeline i @ r)"
    by (simp add: at_end_def writeline_def is_space_def)
  moreover have "flowId i \<noteq> 0" using assms(1) by (auto simp: printable_def)
  ultimately show ?thesis
    by (simp add: readline_def scan_line_writeline[OF assms] text_info_def)
qed

lemma writeline_letter: "letter_next (writeline i @ r)"
  by (simp add: letter_next_def writeline_def is_space_def)

lemma text_records_lines:
  "list_all printable is \<Longrightarrow> text_records (concat (map writeline is)) = (map text_info is, TextEnd)"
proof (induction "is")
  case Nil
  show ?case by (simp add: text_records.simps[of "[]"] readline_def at_end_def)
next
  case (Cons i "is")
  have "letter_next (concat (map writeline is))"
  proof (cases "is")
    case (Cons j js)
    then show ?thesis using writeline_letter[of j "concat (map writeline js)"] by simp
  qed (simp add: letter_next_def)
  then show ?case using Cons readline_writeline[of i "concat (map writeline is)"]
    by (simp add: text_records.simps[of "writeline i @ _"])
qed

subsection \<open>Writing the text again\<close>

lemma round_even_near:
  assumes "\<bar>y - of_int n\<bar> < 1 / 2"
  shows "round_even y = n"
proof (cases "of_int n \<le> y")
  case True
  then have "\<lfloor>y\<rfloor> = n" using assms by (intro floor_unique) linarith+
  then show ?thesis using assms True by (simp add: round_even_def Let_def)
next
  case False
  then have "of_int (n - 1) \<le> y" "y < of_int (n - 1) + 1" using assms by simp_all
  then have "\<lfloor>y\<rfloor> = n - 1" by (rule floor_unique)
  moreover have "y - of_int (n - 1) > 1 / 2" using assms False by simp
  ultimately show ?thesis by (simp add: round_even_def Let_def)
qed

lemma round_even_le: "x < of_int n \<Longrightarrow> round_even x \<le> n"
proof -
  assume "x < of_int n"
  then have "\<lfloor>x\<rfloor> < n" by (simp add: floor_less_iff)
  then show ?thesis by (simp add: round_even_def Let_def)
qed

lemma fmt_lf_lf:
  assumes "0 \<le> x" "x < 60"
  shows "fmt_lf (lf x) = fmt_lf x" "0 \<le> lf x"
proof -
  define n where "n = round_even (x * 1000000)"
  have n: "0 \<le> n" "n \<le> 60000000"
    using round_even_nonneg[of "x * 1000000"] round_even_le[of "x * 1000000" 60000000] assms by (simp_all add: n_def)
  define y where "y = (of_int n / 1000000 :: rat)"
  have y: "0 \<le> y" "y \<le> 60" using n by (simp_all add: y_def)
  have l: "lf x = rnd y" by (simp add: lf_def n_def y_def)
  have e: "\<bar>rnd y - y\<bar> \<le> 60 / 2 ^ 53"
    using dr.error[of y] y by (auto intro: order.trans divide_right_mono)
  have "rnd y * 1000000 - of_int n = (rnd y - y) * 1000000" by (simp add: y_def left_diff_distrib)
  then have "\<bar>rnd y * 1000000 - of_int n\<bar> = \<bar>rnd y - y\<bar> * 1000000" by (simp only: abs_mult)
  also have "\<dots> < 1 / 2" using e by simp
  finally have r: "round_even (rnd y * 1000000) = n" by (rule round_even_near)
  show nn: "0 \<le> lf x"
  proof (cases "n = 0")
    case False
    then have "1 / 1000000 \<le> y" using n by (simp add: y_def)
    moreover have "y - 60 / 2 ^ 53 \<le> rnd y" using e by linarith
    ultimately show ?thesis by (simp add: l)
  qed (simp add: l y_def rnd_def)
  have "\<not> rnd y < 0" "\<not> x < 0" using nn assms by (simp_all add: l)
  then show "fmt_lf (lf x) = fmt_lf x"
    using r nn assms by (simp add: fmt_lf_def l[symmetric] n_def)
qed

lemma pad_text_addr: "length a \<le> 45 \<Longrightarrow> pad 46 CHR '' '' (text_addr a) = pad 46 CHR '' '' a"
proof -
  assume "length a \<le> 45"
  then have "46 - length a = Suc (45 - length a)" by simp
  with \<open>length a \<le> 45\<close> show ?thesis by (simp add: pad_def text_addr_def)
qed

lemma text_port_again: "(ucast (text_port p) :: u16) = ucast p"
  unfolding text_port_def by (rule bit_word_eqI) (auto simp: bit_simps)

lemma writeline_text_info: "printable i \<Longrightarrow> writeline (text_info i) = writeline i"
  by (simp add: writeline_def text_info_def fmt_host_def fmt_time_def fmt_lf_lf pad_text_addr text_port_again
      printable_def)

text \<open>Addresses and ports of 16 bits are kept apart.\<close>

lemma text_addr_inj:
  assumes "text_addr a = text_addr b" "a \<noteq> []" "b \<noteq> []" "hd a \<noteq> CHR '' ''" "hd b \<noteq> CHR '' ''"
  shows "a = b"
proof -
  have "dropWhile (\<lambda>c. c = CHR '' '') (text_addr a) = a" if "a \<noteq> []" "hd a \<noteq> CHR '' ''" for a
    using that by (simp add: text_addr_def pad_def dropWhile_append dropWhile_none)
  then show ?thesis using assms by metis
qed

subsection \<open>Records that do not fit\<close>

lemma digits_val_less: "list_all is_digit ds \<Longrightarrow> digits_val ds < 10 ^ length ds"
proof (induction ds rule: rev_induct)
  case (snoc c ds)
  then have "digit_val c < 10" "digits_val ds < 10 ^ length ds" by (auto simp: is_digit_def digit_val_def)
  then show ?case by simp
qed (simp add: digits_val_def)

lemma dec_longer: "10 ^ k \<le> n \<Longrightarrow> k < length (dec n)"
proof (rule ccontr)
  assume "10 ^ k \<le> n" "\<not> k < length (dec n)"
  then have "n < 10 ^ length (dec n)" "(10 :: nat) ^ length (dec n) \<le> 10 ^ k"
    using digits_val_less[OF dec_is_digits[of n]] by (simp_all add: power_increasing)
  then show False using \<open>10 ^ k \<le> n\<close> by simp
qed

text \<open>A sequence number of more than seven digits is cut, and what is left of it is not what the format
  expects.\<close>

lemma long_sequence_number:
  assumes "unat (flowId i) < 10 ^ 4" "10 ^ 7 \<le> unat (seqNum i)"
  shows "scan_line (writeline i @ r) = None"
proof -
  let ?ds = "dec (unat (seqNum i))"
  have l: "7 < length ?ds" using dec_longer[OF assms(2)] .
  then obtain d t where dt: "drop 7 ?ds = d # t" by (cases "drop 7 ?ds") simp_all
  have "d \<in> set ?ds" using in_set_dropD[of d 7 ?ds] dt by simp
  then have "is_digit d" using dec_is_digits[of "unat (seqNum i)"] by (auto simp: list_all_iff)
  then have d: "\<not> is_space d" "d \<noteq> CHR ''S''" by (auto simp: is_digit_def is_space_def)
  have split: "pad 7 CHR '' '' (fmt_u (seqNum i)) = take 7 ?ds @ d # t"
    using l append_take_drop_id[of 7 ?ds] dt by (simp add: pad_def fmt_u_def)
  have seven: "list_all is_digit (take 7 ?ds)" "take 7 ?ds \<noteq> []" "length (take 7 ?ds) = 7"
    using dec_is_digits[of "unat (seqNum i)"] l by (auto simp: list_all_iff dest: in_set_takeD)
  have sp: "dropWhile is_space (take 7 ?ds @ d # u) = take 7 ?ds @ d # u" for u
    using digits_no_sign(3)[OF seven(1,2)] seven(2) by (cases "take 7 ?ds") simp_all
  have "\<exists>v. scan_u (Some 7) (pad 7 CHR '' '' (fmt_u (seqNum i)) @ u) = Some (v, d # t @ u)" for u
    using digits_no_sign[OF seven(1,2)] seven sp[of "t @ u"]
    by (simp add: split scan_u_def Let_def takeWhile_all(1))
  then obtain v where v: "scan_u (Some 7) (pad 7 CHR '' '' (fmt_u (seqNum i)) @ u) = Some (v u, d # t @ u)" for u
    by metis
  have "scan_u (Some 4) (pad 4 CHR ''0'' (fmt_u (flowId i)) @ CHR '' '' # u) = Some (flowId i, CHR '' '' # u)" for u
    using assms(1) by (intro scan_width) simp_all
  moreover have "letter_next (d # u)" for u using d by (simp add: letter_next_def)
  ultimately show ?thesis
    using d by (simp add: scan_line_def writeline_def v letter_next_space scan_host_def)
qed

end
