(* ===== verification/DecMain_Facts.thy ===== *)
theory DecMain_Facts
  imports DecMain DecText_Facts
begin

text \<open>What main of ITGDec does with a log: its record loop is the one of theories Decoder and
  DecoderSeries, the summary without options is their report, and a log exported as text is a
  log again.\<close>

subsection \<open>The record loop\<close>

lemma bnd_RetD: "bnd m f s = (Ret y, s') \<Longrightarrow> \<exists>x t. m s = (Ret x, t) \<and> f x t = (Ret y, s')"
  by (cases "m s") (auto simp: bnd_def split: out.splits)

lemma thn_RetD: "thn m k s = (Ret y, s') \<Longrightarrow> \<exists>x t. m s = (Ret x, t) \<and> k t = (Ret y, s')"
  unfolding thn_def by (rule bnd_RetD)

text \<open>Writing and printing leave the statistics and the table of the flows alone.\<close>

definition core :: "dec_io \<Rightarrow> dec_state \<times> gestioneFileLog list" where
  "core s = (dst s, memFile s)"

lemma core_simps [simp]:
  "core (s\<lparr>disk := d\<rparr>) = core s" "core (s\<lparr>stdout := p\<rparr>) = core s" "core (s\<lparr>spin := n\<rparr>) = core s"
  by (simp_all add: core_def)

definition quiet_core :: "(dec_io, 'a) proc \<Rightarrow> bool" where
  "quiet_core m \<longleftrightarrow> (\<forall>s. core (snd (m s)) = core s)"

named_theorems core_intros \<open>procedures that leave the statistics alone\<close>

lemma quiet_core_prim [core_intros]:
  "quiet_core (ret x)" "quiet_core fault" "quiet_core (exit_with c)" "quiet_core (gets f)" "quiet_core (say p)"
  "quiet_core (put_file n c')" "quiet_core mark"
  by (simp_all add: quiet_core_def proc_simps say_def put_file_def mark_def)

lemma quiet_core_bnd [core_intros]:
  assumes "quiet_core m" "\<And>x. quiet_core (f x)"
  shows "quiet_core (bnd m f)"
  unfolding quiet_core_def
proof
  fix s
  obtain x t where m: "m s = (x, t)" by fastforce
  then have "core t = core s" using assms(1)[unfolded quiet_core_def, rule_format, of s] by simp
  then show "core (snd (bnd m f s)) = core s"
    using assms(2)[unfolded quiet_core_def, rule_format] m by (cases x) (auto simp: bnd_def)
qed

lemma quiet_core_thn [core_intros]: "quiet_core m \<Longrightarrow> quiet_core k \<Longrightarrow> quiet_core (thn m k)"
  by (simp add: thn_def quiet_core_bnd)

lemma quiet_core_if [core_intros]:
  "quiet_core p \<Longrightarrow> quiet_core q \<Longrightarrow> quiet_core (if b then p else q)" "quiet_core r \<Longrightarrow> quiet_core (cond b r)"
  by (simp_all add: cond_def quiet_core_prim)

lemma quiet_core_files [core_intros]: "quiet_core (stop m)" "quiet_core (add_text n t)" "quiet_core (add_record n i)"
  "quiet_core (cname k n)"
  unfolding stop_def add_text_def add_record_def cname_def
  by (intro core_intros | simp split: option.split content.split add: core_intros)+

lemma quiet_core_show: "quiet_core (show_record q i)"
  unfolding show_record_def by (intro core_intros)

lemma quiet_core_each: "quiet_core (each_packet q j)"
  unfolding each_packet_def by (intro core_intros)

lemma coreD: "quiet_core m \<Longrightarrow> m s = (x, t) \<Longrightarrow> dst t = dst s \<and> memFile t = memFile s"
  by (auto simp: quiet_core_def core_def dest: spec[of _ s])

definition valid_record :: "dec_opts \<Rightarrow> info \<Rightarrow> bool" where
  "valid_record q i \<longleftrightarrow> errornum (o_flagfilter q) (flownumsel q) i = 0"

definition splits :: "dec_opts \<Rightarrow> bool" where
  "splits q \<longleftrightarrow> series_wanted q \<or> flagsplit q"

lemma dec_split_RetD:
  assumes "dec_split env q j s = (Ret (), t)"
  shows "split_record j (memFile s) = Some (memFile t) \<and> dst t = dst s"
  using assms
  by (auto simp: dec_split_def proc_simps Let_def stop_def say_def split: if_splits option.splits)

lemma valid_packet_RetD:
  assumes "valid_packet env q j s = (Ret (), t)"
  shows "dst t = dec_valid (o_flagfilter q) j (dst s) \<and>
    (if splits q then split_record j (memFile s) = Some (memFile t) else memFile t = memFile s)"
proof -
  obtain s1 s2 where 1: "cond (splits q) (dec_split env q j) s = (Ret (), s1)"
    and 2: "each_packet q j s1 = (Ret (), s2)"
    and t: "t = s2\<lparr>dst := dec_valid (o_flagfilter q) j (dst s2), secrx := secrxTime j\<rparr>"
    using assms unfolding valid_packet_def splits_def
    by (auto dest!: thn_RetD simp: upd_apply)
  show ?thesis
    using 1 t coreD[OF quiet_core_each 2] dec_split_RetD by (auto simp: cond_apply split: if_splits)
qed

lemma dec_packet_RetD:
  assumes "dec_packet env q i s = (Ret (), t)" "\<not> flagreconstruct q"
  shows "dst t = dec_record (o_flagfilter q) (flownumsel q) i (dst s) \<and>
    (if splits q \<and> valid_record q i then split_record (unify_flow (o_flagfilter q) i) (memFile s) = Some (memFile t)
     else memFile t = memFile s)"
proof -
  obtain s1 s2 where s1: "mark s = (Ret (), s1)" and s2: "show_record q i s1 = (Ret (), s2)"
    and rest: "(if errornum (o_flagfilter q) (flownumsel q) i > 0
      then upd (\<lambda>s. s\<lparr>dst := (dst s)\<lparr>pkterr := pkterr (dst s) + 1\<rparr>\<rparr>)
      else valid_packet env q (unify_flow (o_flagfilter q) i)) s2 = (Ret (), t)"
    using assms unfolding dec_packet_def
    by (auto dest!: thn_RetD bnd_RetD simp: take_tx_def ret_apply)
  have "dst s2 = dst s \<and> memFile s2 = memFile s"
    using coreD[OF quiet_core_prim(7) s1] coreD[OF quiet_core_show s2] by simp
  then show ?thesis
    using rest valid_packet_RetD[of env q "unify_flow (o_flagfilter q) i" s2 t]
    by (auto simp: dec_record_def valid_record_def upd_apply split: if_splits)
qed

text \<open>The records that split gets.\<close>

definition split_input :: "dec_opts \<Rightarrow> info list \<Rightarrow> info list" where
  "split_input q is = map (unify_flow (o_flagfilter q)) (filter (valid_record q) is)"

lemma dec_packets_refine:
  assumes "dec_packets env q is s = (Ret (), t)" "\<not> flagreconstruct q"
  shows "dec_loop (o_flagfilter q) (flownumsel q) None is (dst s) = Some (dst t) \<and>
    (if splits q then split_log (split_input q is) (memFile s) = Some (memFile t) else memFile t = memFile s)"
  using assms(1)
proof (induction "is" arbitrary: s)
  case (Cons i "is")
  then obtain s1 where one: "dec_packet env q i s = (Ret (), s1)" and rest: "dec_packets env q is s1 = (Ret (), t)"
    by (auto dest!: thn_RetD)
  from dec_packet_RetD[OF one assms(2)] Cons.IH[OF rest]
  show ?case by (auto simp: reconstruct_def split_input_def split: if_splits)
qed (simp add: ret_apply split_input_def)

text \<open>When the record loop of main gets through a log without -r, its statistics are those of the loop
  that the properties of the summary are about, and, if files per flow are wanted, its table is
  the one that split makes of the valid records; what is printed and exported on the way changes
  neither.\<close>

lemma main_loop_refines:
  assumes "dec_packets env q is s = (Ret (), t)" "\<not> flagreconstruct q"
  shows "dec_loop (o_flagfilter q) (flownumsel q) None is (dst s) = Some (dst t) \<and>
    (if splits q then split_log (split_input q is) (memFile s) = Some (memFile t) else memFile t = memFile s)"
  using assms by (rule dec_packets_refine)

definition text_demo :: info where
  "text_demo = \<lparr>flowId = 1, seqNum = 12, srcPort = 40000, destPort = 8999, txTime1 = 10, txTime2 = 15, rxTime1 = 10,
     rxTime2 = 15, size = 512, srcAddr = ''10.0.0.1'', destAddr = ''10.0.0.2'', txTime3 = 1 / 2, rxTime3 = 3 / 4\<rparr>"

definition demo_env :: dec_env where
  "demo_env = \<lparr>writable = (\<lambda>_. True), stale = (\<lambda>_. (CHR 0x00, CHR 0x00)), nan_text = ''-nan''\<rparr>"

lemma demo_second: "\<not> rnd (59999999 / 1000000) * 4 < 3" "\<not> rnd (59999999 / 1000000) < 3 / 4"
    "\<not> rnd (59999999 / 1000000) < 1 / 2" "\<not> rnd (59999999 / 1000000) * 2 < 1"
  by code_simp+

lemma text_demo_split: "split_record text_demo [] = Some [\<lparr>mf_flowId = 1, mf_srcPort = 40000, mf_destPort = 8999,
    mf_destAddr = ''10.0.0.2'', mf_srcAddr = ''10.0.0.1'', mf_name = (1, ''10.0.0.1'', ''10.0.0.2''), mf_lines = [text_demo]\<rparr>]"
  by (simp add: split_record_def FlowPresent_def MaxNumFlow_def text_demo_def)

definition split_opts :: dec_opts where
  "split_opts = (default_opts ''a'')\<lparr>flagsplit := True\<rparr>"

lemma split_opts_simps [simp]:
  "flagsplit split_opts" "\<not> series_wanted split_opts" "\<not> flagps split_opts" "\<not> flagidt split_opts" "\<not> flaglogout split_opts"
  "\<not> flagoctave split_opts" "\<not> flageachdj split_opts" "\<not> flagreconstruct split_opts" "o_flagfilter split_opts = 0"
  "flownumsel split_opts = 0" "loginname split_opts = ''a''" "splits split_opts"
  by (simp_all add: split_opts_def default_opts_def series_wanted_def splits_def)

lemma text_demo_valid: "errornum 0 n text_demo = 0" "unify_flow 0 i = i"
  by (simp_all add: errornum_def text_demo_def demo_second unify_flow_def)

lemma text_demo_packet:
  assumes "memFile s = []"
  shows "\<exists>t. dec_packet demo_env split_opts text_demo s = (Ret (), t)"
proof -
  have split: "bnd (dec_split demo_env split_opts text_demo) f s1 = f () (s1\<lparr>memFile := the (split_record text_demo [])\<rparr>)"
    if "memFile s1 = []" for s1 f
    using that by (intro bnd_Ret)
       (simp add: dec_split_def proc_simps text_demo_split demo_env_def flow_text_def FlowPresent_def Let_def,
        simp add: text_demo_def)
  show ?thesis
    using assms by (simp add: dec_packet_def mark_def take_tx_def show_record_def valid_packet_def each_packet_def
        text_demo_valid proc_simps split)
qed

lemma main_loop_refines_example:
  "\<exists>t. dec_packets demo_env split_opts [text_demo] (dec_start Map.empty) = (Ret (), t) \<and>
    dec_loop 0 0 None [text_demo] dec_init = Some (dst t) \<and> split_log [text_demo] [] = Some (memFile t)"
proof -
  obtain t where t: "dec_packets demo_env split_opts [text_demo] (dec_start Map.empty) = (Ret (), t)"
    using text_demo_packet[of "dec_start Map.empty"] by (auto simp: dec_start_def thn_bnd bnd_Ret proc_simps)
  have "split_input split_opts [text_demo] = [text_demo]"
    by (simp add: split_input_def valid_record_def text_demo_valid)
  with main_loop_refines[OF t] t show ?thesis by (simp add: dec_start_def)
qed

subsection \<open>The summary\<close>

lemma for_each_say: "for_each (\<lambda>x. say (f x)) xs s = (Ret (), s\<lparr>stdout := stdout s @ map f xs\<rparr>)"
  by (induction xs arbitrary: s) (simp_all add: proc_simps say_def)

definition summary :: "dec_state \<Rightarrow> printed list" where
  "summary d = map (\<lambda>f. PFlow f (flow_report f)) (flowinfo d) @
     [PTotal (length (flowinfo d)) (total_report d) (pkterr d)]"

text \<open>Options without files, lists and series: the loop never stops.\<close>

definition plain_opts :: "dec_opts \<Rightarrow> bool" where
  "plain_opts q \<longleftrightarrow> \<not> flagreconstruct q \<and> \<not> splits q \<and> \<not> flagps q \<and> \<not> flagidt q \<and> \<not> flagoctave q \<and> \<not> flageachdj q \<and>
     logouttype q = 0 \<and> (flaglogout q \<longrightarrow> length (logoutname q) < fileNameSize)"

definition exported :: "dec_opts \<Rightarrow> info list \<Rightarrow> (string \<Rightarrow> content option) \<Rightarrow> string \<Rightarrow> content option" where
  "exported q is d = (if flaglogout q then (case d (logoutname q) of
       Some (Text t) \<Rightarrow> d(logoutname q \<mapsto> Text (t @ concat (map writeline is))) | _ \<Rightarrow> d) else d)"

lemma plain_packets:
  assumes "plain_opts q" "flaglogout q \<longrightarrow> (\<exists>t. disk s (logoutname q) = Some (Text t))"
  shows "\<exists>t. dec_packets env q is s = (Ret (), t) \<and> disk t = exported q is (disk s) \<and> stdout t = stdout s"
  using assms(2)
proof (induction "is" arbitrary: s)
  case Nil
  then show ?case by (auto simp: ret_apply exported_def)
next
  case (Cons i "is")
  have "\<exists>s1. dec_packet env q i s = (Ret (), s1) \<and> disk s1 = exported q [i] (disk s) \<and> stdout s1 = stdout s"
    using assms(1) Cons.prems
    by (auto simp: plain_opts_def splits_def dec_packet_def mark_def take_tx_def show_record_def valid_packet_def
        each_packet_def add_text_def put_file_def exported_def proc_simps)
  then obtain s1 where one: "dec_packet env q i s = (Ret (), s1)" "disk s1 = exported q [i] (disk s)" "stdout s1 = stdout s"
    by blast
  moreover have "flaglogout q \<longrightarrow> (\<exists>t. disk s1 (logoutname q) = Some (Text t))"
    using Cons.prems one(2) by (auto simp: exported_def)
  ultimately obtain t where "dec_packets env q is s1 = (Ret (), t)" "disk t = exported q is (disk s1)" "stdout t = stdout s1"
    using Cons.IH by blast
  then show ?case using one Cons.prems by (auto simp: thn_bnd bnd_Ret exported_def split: if_splits)
qed

lemma cond_False [simp]: "cond False p s = (Ret (), s)" "cond True p = p"
  by (simp_all add: cond_def ret_def)

text \<open>Whatever the decoder has counted so far, its loop on records goes through.\<close>

lemma dec_loop_total: "\<exists>d'. dec_loop ff n None is d = Some d'"
  by (induction "is" arbitrary: d) (simp_all add: reconstruct_def)

definition the_loop :: "dec_opts \<Rightarrow> info list \<Rightarrow> dec_state" where
  "the_loop q is = the (dec_loop (o_flagfilter q) (flownumsel q) None is dec_init)"

definition plain_output :: "dec_opts \<Rightarrow> info list \<Rightarrow> printed list" where
  "plain_output q is = (if pktvalid (the_loop q is) = 0 then [Msg ''Empty log file''] else []) @
     (if elab_type q = 1 then summary (the_loop q is) else [])"

lemma say_bnd: "bnd (say p) f s = f () (s\<lparr>stdout := stdout s @ [p]\<rparr>)"
  by (simp add: say_def proc_simps)

lemma print_report_Ret:
  "print_report q s = (Ret (), s\<lparr>stdout := stdout s @ (if elab_type q = 1 then summary (dst s) else [])\<rparr>)"
  by (simp add: print_report_def proc_simps bnd_Ret[where m = "for_each p xs" for p xs, OF for_each_say] summary_def)
     (simp add: say_def upd_apply)

lemma open_out_Ret:
  assumes "length n < fileNameSize" "n \<noteq> loginname q" "writable env n"
  shows "open_out env q n c s = (Ret (), s\<lparr>disk := (disk s)(n \<mapsto> c)\<rparr>)"
  using assms by (simp add: open_out_def cname_def put_file_def proc_simps)

lemma plain_main:
  assumes "parse_dec argv (dec_start d) = (Ret q, dec_start d)" "plain_opts q"
    "open_log env q (dec_start d) = (Ret (is, TextEnd), dec_start d)"
    "flaglogout q \<longrightarrow> writable env (logoutname q) \<and> logoutname q \<noteq> loginname q"
  shows "\<exists>s'. dec_main env argv (dec_start d) = (Exited 0, s') \<and> stdout s' = plain_output q is \<and>
    disk s' = (if flaglogout q then d(logoutname q \<mapsto> Text (concat (map writeline is))) else d)"
proof -
  define s1 where "s1 = (if flaglogout q then (dec_start d)\<lparr>disk := d(logoutname q \<mapsto> Text [])\<rparr> else dec_start d)"
  have p: "\<not> series_wanted q" "\<not> flagsplit q" "\<not> flagoctave q" "\<not> flageachdj q" "\<not> flagreconstruct q" "\<not> splits q"
    "logouttype q = 0" "flaglogout q \<longrightarrow> length (logoutname q) < fileNameSize"
    using assms(2) by (auto simp: plain_opts_def splits_def)
  have o: "open_outputs env q (dec_start d) = (Ret (), s1)"
    using p assms(4)
    by (cases "flaglogout q") (simp_all add: open_outputs_def thn_bnd bnd_Ret[OF open_out_Ret] bnd_cond s1_def dec_start_def)
  have "flaglogout q \<longrightarrow> (\<exists>t. disk s1 (logoutname q) = Some (Text t))" by (simp add: s1_def)
  from plain_packets[OF assms(2) this] obtain t where t: "dec_packets env q is s1 = (Ret (), t)"
    "disk t = exported q is (disk s1)" "stdout t = stdout s1" by blast
  have "dst s1 = dec_init" by (simp add: s1_def dec_start_def)
  with dec_packets_refine[OF t(1) p(5)] have d: "dst t = the_loop q is" by (simp add: the_loop_def)
  have "stdout s1 = []" "exported q is (disk s1) = (if flaglogout q then d(logoutname q \<mapsto> Text (concat (map writeline is))) else d)"
    by (simp_all add: s1_def dec_start_def exported_def)
  then show ?thesis using t d p
    by (simp add: dec_main_def thn_bnd bnd_Ret[where m = "parse_dec argv", OF assms(1)]
        bnd_Ret[where m = "open_log env q", OF assms(3)] bnd_Ret[where m = "open_outputs env q", OF o]
        bnd_Ret[where m = "dec_packets env q is", OF t(1)]
        bnd_Ret[where m = "print_report q", OF print_report_Ret] end_of_log_def finish_flows_def plain_output_def
        proc_simps say_bnd)
qed

definition usable_name :: "string \<Rightarrow> bool" where
  "usable_name a \<longleftrightarrow> \<not> is_option a \<and> length a < fileNameSize"

lemma rounds_simps [simp]:
  "dec_rounds n [] q = ret q"
  "dec_rounds (Suc n) (x # rest) q = (if \<not> is_option x then stop ''Invalid option!!''
     else bnd (dec_option (char_at x 1) (x # rest) q) (\<lambda>(q', rest'). dec_rounds n rest' q'))"
  by (cases n) simp_all

lemma plain_options:
  "usable_name b \<Longrightarrow> bnd (dec_option CHR ''l'' [''-l'', b] q) f = f (q\<lparr>flaglogout := True, logoutname := b\<rparr>, [])"
  "bnd (dec_option CHR ''t'' (''-t'' # rest) q) f = f (q\<lparr>logintype := 1\<rparr>, rest)"
  by (simp_all add: dec_option_def dec_opt_l_def no_dec_arg_def usable_name_def proc_simps)

lemma plain_flags: "is_option ''-l''" "is_option ''-t''"
  by (simp_all add: is_option_def char_at_def)

lemma parse_plain:
  assumes "usable_name a" "usable_name b"
  shows "parse_dec [a] s = (Ret ((default_opts a)\<lparr>elab_type := 1\<rparr>), s)"
    "parse_dec [a, ''-l'', b] s = (Ret ((default_opts a)\<lparr>flaglogout := True, logoutname := b\<rparr>), s)"
    "parse_dec [a, ''-t''] s = (Ret ((default_opts a)\<lparr>logintype := 1, elab_type := 1\<rparr>), s)"
    "parse_dec [a, ''-t'', ''-l'', b] s = (Ret ((default_opts a)\<lparr>logintype := 1, flaglogout := True, logoutname := b\<rparr>), s)"
  using assms(1)
  by (simp_all add: parse_dec_def usable_name_def[of a] plain_options[simplified] assms(2) plain_flags char_at_def
        bnd_prim(1) bnd_bnd)
     (simp_all add: ret_apply default_action_def default_opts_def series_wanted_def)

text \<open>What the two runs open.\<close>

lemma open_records:
  assumes "length (loginname q) < fileNameSize" "logintype q = 0" "d (loginname q) = Some (Records is)"
  shows "open_log env q (dec_start d) = (Ret (is, TextEnd), dec_start d)"
  using assms by (simp add: open_log_def cname_def dec_start_def proc_simps)

lemma open_text:
  assumes "length (loginname q) < fileNameSize" "logintype q \<noteq> 0" "addresses_end env (length is)" "list_all printable is"
    "d (loginname q) = Some (Text (concat (map writeline is)))"
  shows "open_log env q (dec_start d) = (Ret (map text_info is, TextEnd), dec_start d)"
  using assms by (simp add: open_log_def cname_def dec_start_def proc_simps text_records_lines)

lemma concat_text_info: "list_all printable is \<Longrightarrow> concat (map writeline (map text_info is)) = concat (map writeline is)"
  by (induction "is") (simp_all add: writeline_text_info)

definition summary_of :: "info list \<Rightarrow> printed list" where
  "summary_of is = (let d = the (dec_loop 0 0 None is dec_init) in
     (if pktvalid d = 0 then [Msg ''Empty log file''] else []) @ summary d)"

text \<open>C24: the text of a log is a log.  A log whose records fit into the columns of the text, decoded with -l,
  is written to a text file, from which readline gets all the records, in their order, with the 45
  characters that it stores of each address (filled up with blanks) and the seconds rounded to
  microseconds.  The last byte of the arrays for the addresses is not set by readline.  Where malloc
  has left a NUL in it, so that the addresses end there, the decoder with -t prints the summary of
  exactly these records, and exporting the text once more gives the same text; where it has not,
  nothing is claimed.\<close>

theorem text_log_roundtrip:
  assumes "list_all printable is" "d a = Some (Records is)" "usable_name a" "usable_name b" "usable_name c"
    "a \<noteq> b" "b \<noteq> c" "writable env b" "writable env c"
  shows "\<exists>s1 txt. dec_main env [a, ''-l'', b] (dec_start d) = (Exited 0, s1) \<and> disk s1 b = Some (Text txt) \<and>
    text_records txt = (map text_info is, TextEnd) \<and>
    (addresses_end env (length is) \<longrightarrow> (\<exists>s2 s3.
      dec_main env [b, ''-t''] (dec_start (disk s1)) = (Exited 0, s2) \<and> stdout s2 = summary_of (map text_info is) \<and>
      dec_main env [b, ''-t'', ''-l'', c] (dec_start (disk s1)) = (Exited 0, s3) \<and> disk s3 c = Some (Text txt)))"
proof -
  let ?q1 = "(default_opts a)\<lparr>flaglogout := True, logoutname := b\<rparr>"
  let ?q2 = "(default_opts b)\<lparr>logintype := 1, elab_type := 1\<rparr>"
  let ?q3 = "(default_opts b)\<lparr>logintype := 1, flaglogout := True, logoutname := c\<rparr>"
  let ?txt = "concat (map writeline is)"
  have plain: "plain_opts ?q1" "plain_opts ?q2" "plain_opts ?q3"
    using assms(3-5) by (simp_all add: plain_opts_def default_opts_def splits_def series_wanted_def usable_name_def)
  have names: "length a < fileNameSize" "length b < fileNameSize" using assms(3,4) by (simp_all add: usable_name_def)
  have "open_log env ?q1 (dec_start d) = (Ret (is, TextEnd), dec_start d)"
    using names assms(2) by (intro open_records) (simp_all add: default_opts_def)
  from plain_main[OF parse_plain(2)[OF assms(3,4)] plain(1) this] assms(6,8)
  obtain s1 where s1: "dec_main env [a, ''-l'', b] (dec_start d) = (Exited 0, s1)" "disk s1 b = Some (Text ?txt)"
    by (auto simp: default_opts_def)
  have again: "\<exists>s2 s3. dec_main env [b, ''-t''] (dec_start (disk s1)) = (Exited 0, s2) \<and>
      stdout s2 = summary_of (map text_info is) \<and>
      dec_main env [b, ''-t'', ''-l'', c] (dec_start (disk s1)) = (Exited 0, s3) \<and> disk s3 c = Some (Text ?txt)"
    if ends: "addresses_end env (length is)"
  proof -
    have open2: "open_log env q (dec_start (disk s1)) = (Ret (map text_info is, TextEnd), dec_start (disk s1))"
      if "q \<in> {?q2, ?q3}" for q
      using that names s1(2) assms(1) ends by (intro open_text) (auto simp: default_opts_def)
    from plain_main[OF parse_plain(3)[OF assms(4,5)] plain(2) open2]
    obtain s2 where s2: "dec_main env [b, ''-t''] (dec_start (disk s1)) = (Exited 0, s2)"
      "stdout s2 = plain_output ?q2 (map text_info is)" by (auto simp: default_opts_def)
    have "plain_output ?q2 (map text_info is) = summary_of (map text_info is)"
      by (simp add: plain_output_def summary_of_def the_loop_def default_opts_def Let_def)
    moreover from plain_main[OF parse_plain(4)[OF assms(4,5)] plain(3) open2] assms(7,9)
    obtain s3 where "dec_main env [b, ''-t'', ''-l'', c] (dec_start (disk s1)) = (Exited 0, s3)"
      "disk s3 c = Some (Text (concat (map writeline (map text_info is))))" by (auto simp: default_opts_def)
    ultimately show ?thesis using s2 concat_text_info[OF assms(1)] by auto
  qed
  show ?thesis using s1 again text_records_lines[OF assms(1)] by blast
qed

theorem text_log_roundtrip_witness:
  "\<exists>s1 s2. dec_main demo_env [''a'', ''-l'', ''b''] (dec_start [''a'' \<mapsto> Records [text_demo]]) = (Exited 0, s1) \<and>
    dec_main demo_env [''b'', ''-t''] (dec_start (disk s1)) = (Exited 0, s2) \<and> stdout s2 = summary_of [text_info text_demo]"
proof -
  have "list_all printable [text_demo]" by (simp add: printable_def text_demo_def)
  from text_log_roundtrip[OF this, of "[''a'' \<mapsto> Records [text_demo]]" "''a''" "''b''" "''c''" demo_env]
  show ?thesis
    by (auto simp: demo_env_def addresses_end_def usable_name_def is_option_def char_at_def fileNameSize_def)
qed

subsection \<open>The end of the options\<close>

lemma dec_option_shorter:
  assumes "args \<noteq> []" "dec_option c args q s = (x, s')"
  shows "x \<noteq> Hang" "x = Ret (q', rest) \<Longrightarrow> length rest < length args"
  using assms
  by (auto simp: dec_option_def interval_opt_def dec_opt_l_def dec_opt_r_def dec_opt_x_def dec_opt_s_def dec_opt_o_def
      dec_opt_f_def stop_def say_def Let_def proc_simps no_dec_arg_def split: if_splits)

lemma dec_rounds_end: "length args \<le> n \<Longrightarrow> fst (dec_rounds n args q s) \<noteq> Hang"
proof (induction n arbitrary: args q s)
  case (Suc n)
  show ?case
  proof (cases "args = [] \<or> \<not> is_option (hd args)")
    case False
    obtain x t where m: "dec_option (char_at (hd args) 1) args q s = (x, t)" by fastforce
    note short = dec_option_shorter[OF _ m]
    show ?thesis
    proof (cases x)
      case (Ret r)
      obtain q' rest where r: "r = (q', rest)" by fastforce
      then have "length rest \<le> n" using short(2)[of q' rest] Ret False Suc.prems by auto
      from Suc.IH[OF this] show ?thesis using False m Ret r by (simp add: bnd_def)
    qed (use False m short in \<open>auto simp: bnd_def\<close>)
  qed (auto simp: proc_simps stop_def say_def)
qed (simp add: proc_simps)

lemma parse_dec_ends: "fst (parse_dec argv s) \<noteq> Hang"
proof -
  have "fst (dec_rounds (length argv) (tl argv) (default_opts (hd argv)) s) \<noteq> Hang" by (intro dec_rounds_end) simp
  then show ?thesis
    by (cases "dec_rounds (length argv) (tl argv) (default_opts (hd argv)) s")
       (auto simp: parse_dec_def stop_def say_def proc_simps bnd_def ret_def split: out.split)
qed

end
