(* ===== verification/Manager.thy ===== *)
theory Manager
  imports SendMain
begin

text \<open>The remote control of a sender: libITG (src/libITG/ITGapi.cpp), whose two functions send a command
  to ITGSend and look for an answer, and ITGManager (src/ITGManager/ITGManager.cpp), a program
  around them.  The Windows branches are left out.\<close>

subsection \<open>libITG\<close>

record manager = world +
  socket_r :: int
  host :: string

text \<open>Every command opens a socket of its own, and the answers are looked for on the last one.  Without
  a local address the code goes on with a null pointer.\<close>

definition DITGsend :: "os \<Rightarrow> string \<Rightarrow> string \<Rightarrow> ('a manager_scheme, int) proc" where
  "DITGsend os sender message = (bnd (sys os (Resolve ''0.0.0.0'')) (\<lambda>r.
   thn ((if r \<noteq> 0 then fault else ret ()))
   (bnd (sys os (Socket 2)) (\<lambda>k.
   thn (upd (\<lambda>s. s\<lparr>socket_r := k\<rparr>))
   (thn (cond (k < 0) (sys0 (Print ''error into create a socket  - DITGSend function'')))
   (bnd (sys os (Fcntl k)) (\<lambda>f.
   bnd (sys os (Fcntl k)) (\<lambda>g.
   bnd (sys os (Resolve sender)) (\<lambda>h.
   if h \<noteq> 0 then (thn (sys0 (Print ''DITGsend: Invalid destination address''))
      (ret (-1)))
     else (bnd (sys os (Send k (bytes_of message))) (\<lambda>n.
      ret (if n \<noteq> int (length message) then -1 else 0))))))))))))"

text \<open>The answer has its type in the first byte, its length in the next two, and its text behind them;
  the text is moved to the start of the buffer and closed with a NUL.  No message is None.\<close>

definition answer_text :: "bytes \<Rightarrow> (u8 \<times> string) option" where
  "answer_text buf = (let len = unat (mem_u16 (drop 1 buf)) in
     if 3 + len > length buf then None
     else Some (hd buf, chars (takeWhile (\<lambda>b. b \<noteq> 0) (take len (drop 3 buf)))))"

definition catchManagerMsg :: "os \<Rightarrow> ('a manager_scheme, (int \<times> string \<times> string) option) proc" where
  "catchManagerMsg os = (bnd (gets socket_r) (\<lambda>k.
   if k = 0 then ret None else (bnd (gets (\<lambda>s. junk os (hist s) MAX_FLOW_LINE_SIZE)) (\<lambda>buf.
      bnd (sys_recv os k MAX_FLOW_LINE_SIZE) (\<lambda>r.
      case r of None \<Rightarrow> ret None
       | Some d \<Rightarrow> (bnd (gets (\<lambda>s. os_name os (os_from os (hist s)))) (\<lambda>who.
        case answer_text (d @ drop (length d) buf) of
             None \<Rightarrow> fault
           | Some (msgtype, msg) \<Rightarrow> ret (Some (uint msgtype, who, msg)))))))))"

subsection \<open>ITGManager\<close>

text \<open>The thread that reads commands from the console; after the end of the input, fgets leaves the last
  line in its array, which is sent again.\<close>

definition console_size :: nat where "console_size = 10000"

definition console_round :: "os \<Rightarrow> bytes \<Rightarrow> ('a manager_scheme, bytes) proc" where
  "console_round os c = (bnd (sys_recv os 0 (console_size - 1)) (\<lambda>r.
   let c' = (case r of None \<Rightarrow> c | Some d \<Rightarrow> d @ 0 # drop (length d + 1) c) in
     if hd c' = 67 then (thn (sys0 (Print ''Terminated by request''))
      (exit_with 1))
     else (bnd (gets host) (\<lambda>name.
      thn ((if hd c' = 45 then case cstring c' of None \<Rightarrow> fault
          | Some line \<Rightarrow> (thn (DITGsend os name line)
           (ret ()))
        else ret ()))
      (ret c')))))"

primrec console_rounds :: "os \<Rightarrow> nat \<Rightarrow> bytes \<Rightarrow> ('a manager_scheme, unit) proc" where
  "console_rounds os 0 c = hang"
| "console_rounds os (Suc n) c = bnd (console_round os c) (console_rounds os n)"

definition m_waitStopKey :: "os \<Rightarrow> nat \<Rightarrow> ('a manager_scheme, unit) proc" where
  "m_waitStopKey os rounds = (bnd (gets (\<lambda>s. junk os (hist s) console_size)) (\<lambda>c.
   console_rounds os rounds c))"

text \<open>The name of the host is copied over the nine characters of localhost.\<close>

definition set_host :: "string \<Rightarrow> ('a manager_scheme, unit) proc" where
  "set_host name = (if length name > 9 then fault else upd (\<lambda>s. s\<lparr>host := name\<rparr>))"

definition command_line :: "string list \<Rightarrow> string" where
  "command_line args = concat (map (\<lambda>a. '' '' @ a) args)"

primrec answer_rounds :: "os \<Rightarrow> nat \<Rightarrow> ('a manager_scheme, unit) proc" where
  "answer_rounds os 0 = hang"
| "answer_rounds os (Suc n) = (bnd (catchManagerMsg os) (\<lambda>m.
 thn ((case m of None \<Rightarrow> ret () | Some (i, who, msg) \<Rightarrow> sys0 (Print (''Received msg type '' @ who @ msg))))
 (thn (sys0 (Sleep 1))
 (answer_rounds os n))))"

definition manager_main :: "os \<Rightarrow> nat \<Rightarrow> string list \<Rightarrow> ('a manager_scheme, unit) proc" where
  "manager_main os rounds args =
     (if args \<noteq> [] \<and> hd args = ''-h'' then (thn (sys0 (Print ''help''))
      (exit_with 1))
      else (thn (sys0 (Print ''ITGManager started. Press Ctrl-C to terminate''))
       (thn (createThread os ''waitStopKey'' 0 True)
       (thn ((if args = [] then ret () else set_host (hd args)))
       (bnd (gets host) (\<lambda>name.
       thn (sys0 (Print (''Using '' @ name)))
       (thn ((if length (command_line (tl args)) \<ge> console_size then fault else ret ()))
       (thn ((if length args > 1 then (thn (DITGsend os name (command_line (tl args)))
         (ret ())) else ret ()))
       (answer_rounds os rounds)))))))))"

end
