(* ===== verification/Manager_Facts.thy ===== *)
theory Manager_Facts
  imports Manager SendMain_Facts
begin

text \<open>What a manager and a sender in manager mode understand of each other: the commands reach the option
  parser, the acknowledgements do not fit the manager's buffer, and the reports of the end have no
  text.\<close>

subsection \<open>Commands\<close>


lemma command_line_simps [simp]:
  "command_line [] = []" "command_line (a # as) = CHR '' '' # a @ command_line as"
  by (simp_all add: command_line_def)






text \<open>Whatever the network answers, the program around libITG sends nothing but its command.\<close>

definition sends_only :: "bytes \<Rightarrow> 'a manager_scheme \<Rightarrow> bool" where
  "sends_only d m \<longleftrightarrow> (\<forall>k e. Send k e \<in> set (hist m) \<longrightarrow> e = d)"

lemma sends_call: "sends_only d (log_call c m) \<longleftrightarrow> (\<forall>k e. c = Send k e \<longrightarrow> e = d) \<and> sends_only d m"
  by (auto simp: sends_only_def log_call_def)

lemma sends_update [simp]:
  "sends_only d (m\<lparr>socket_r := k\<rparr>) = sends_only d m" "sends_only d (m\<lparr>host := n\<rparr>) = sends_only d m"
  by (simp_all add: sends_only_def)

lemma sends_keeps [keeps_intros]:
  "(\<And>k e. c \<noteq> Send k e) \<Longrightarrow> keeps (sends_only d) (sys os c)"
  "(\<And>k e. c \<noteq> Send k e) \<Longrightarrow> keeps (sends_only d) (sys0 c)"
  "keeps (sends_only d) (sys_recv os k n)"
  "keeps (sends_only d) (sys os (Send k d))"
  "keeps (sends_only d) (upd (\<lambda>m. m\<lparr>socket_r := k\<rparr>))"
  "keeps (sends_only d) (upd (\<lambda>m. m\<lparr>host := name\<rparr>))"
  by (simp_all add: keeps_sys keeps_upd sends_call)


lemma catch_sends [keeps_intros]: "keeps (sends_only d) (catchManagerMsg os)"
  unfolding catchManagerMsg_def by (intro keeps_intros | simp split: option.split add: keeps_intros)+

lemma answers_send [keeps_intros]: "keeps (sends_only d) (answer_rounds os n)"
proof (induction n)
  case (Suc n)
  then show ?case
    by (simp, intro keeps_intros) (simp_all split: option.split add: keeps_intros)
qed (simp add: keeps_intros)






subsection \<open>The sender's side\<close>


lemma chars_append [simp]: "chars (a @ b) = chars a @ chars b"
  by (simp add: chars_def)






subsection \<open>From the manager's command line to the flow\<close>






subsection \<open>What the sender answers\<close>

text \<open>The two sides do not agree on the form of an answer.  The manager takes the length from the second and
  third byte; of an acknowledgement these are a character of the command and the low byte of its
  length, so that it moves at least 1536 bytes in a buffer of 1460.\<close>

lemma u16_high: "256 * unat b \<le> unat (mem_u16 (a # b # r))"
proof -
  let ?w = "mem_u16 (a # b # r)"
  have "drop_bit 8 ?w = ucast b" by (rule bit_word_eqI) (auto simp: bit_simps dest: bit_imp_le_length)
  then have "drop_bit 8 (unat ?w) = unat (ucast b :: u16)" by (metis unat_drop_bit_eq)
  also have "\<dots> = unat b"
    using unsigned_less[of b, where 'a = nat] by (simp add: unsigned_ucast_eq take_bit_nat_eq_self_iff del: unsigned_less)
  finally show ?thesis by (simp add: drop_bit_eq_div)
qed

lemma acknowledgement_overflows:
  assumes "6 \<le> len mod 256" "len + 8 \<le> length buf" "length buf = MAX_FLOW_LINE_SIZE" "socket_r m \<noteq> 0"
    "os_data os (Recv (socket_r m) MAX_FLOW_LINE_SIZE # hist m) = Some (manager_ack buf len)"
  shows "fst (catchManagerMsg os m) = Fault"
proof -
  let ?w = "of_nat len :: u16"
  obtain a b c r where buf: "buf = a # b # c # r"
    using assms(2) by (cases buf rule: mem_u32.cases) (auto simp: MAX_FLOW_LINE_SIZE_def assms(3))
  obtain r' where ack: "manager_ack buf len = 1 # b # ucast ?w # r'"
    by (simp add: manager_ack_def put_at_def buf u16_mem_def numeral_eq_Suc)
  have "length (manager_ack buf len) \<le> len + 3" by (simp add: manager_ack_def)
  then have room: "length r' \<le> len" by (simp add: ack)
  have "unat (ucast ?w :: u8) = len mod 256"
    by (simp add: unsigned_ucast_eq unat_of_nat take_bit_eq_mod mod_mod_cancel)
  then have long: "1457 < unat (mem_u16 (b # ucast ?w # x))" for x
    using u16_high[of "ucast ?w" b x] assms(1) by linarith
  have "answer_text (manager_ack buf len @ drop (length (manager_ack buf len)) (junk os h MAX_FLOW_LINE_SIZE)) = None" for h
    using assms(2,3) room by (simp add: long answer_text_def Let_def ack MAX_FLOW_LINE_SIZE_def del: mem_u16.simps)
  moreover have "take MAX_FLOW_LINE_SIZE (manager_ack buf len) = manager_ack buf len"
    using assms(2,3) room by (simp add: ack MAX_FLOW_LINE_SIZE_def)
  ultimately show ?thesis using assms(4,5)
    by (simp add: catchManagerMsg_def proc_simps del: length_take)
qed

text \<open>The report of the end has a type and a length of four bytes each: the manager reads the length 0.\<close>

lemma end_report_empty:
  "answer_text (u32_mem MNG_FLOWEND @ u32_mem (of_nat n) @ line @ r) = Some (2, [])"
  by (simp add: answer_text_def u32_mem_def MNG_FLOWEND_def Let_def chars_def)

end
