(* ===== verification/SctpDccp.thy ===== *)
theory SctpDccp
  imports DataThread PacketRecv
begin

text \<open>The data threads of ITGRecv (src/ITGRecv/data.cpp) that are compiled only with SCTP or DCCP: sctpSock
  and dccpSock, each as its set-up and one round of its packet loop, with the table of SCTP
  sessions, and what typeParser (src/ITGRecv/ITGRecv.cpp) does to that table when a flow ends.
  The argument of Socket is the protocol number of SCTP and the socket type of DCCP.\<close>

subsection \<open>dccpSock\<close>

definition dccp_listen :: "os \<Rightarrow> nat \<Rightarrow> int \<Rightarrow> string \<Rightarrow> ('a recv_state_scheme, unit) proc" where
  "dccp_listen os k sock msg = (bnd (sys os (Listen sock)) (\<lambda>l.
   if l < 0 then r_report os msg
     else (bnd (sockname os sock) (\<lambda>a.
      thn (upd (upd_slot k (\<lambda>f. f\<lparr>destHost := a\<rparr>)))
      (thn (sys0 (Print ''Listening on port''))
      (sendPipeMsg k 1))))))"

definition dccp_accept :: "os \<Rightarrow> int \<Rightarrow> ('a recv_state_scheme, int \<times> sockaddr) proc" where
  "dccp_accept os sock = (bnd (sys os (Accept sock)) (\<lambda>newSock.
   bnd (gets (\<lambda>s. os_from os (hist s))) (\<lambda>from.
   thn (r_check os (newSock < 0) ''Cannot accept connection'')
   (bnd (closeSock os sock) (\<lambda>c.
   thn (r_check os (c = -1) ''Cannot close socket sock'')
   (ret (newSock, from)))))))"

definition dccpSock_setup :: "os \<Rightarrow> nat \<Rightarrow> ('a recv_state_scheme, data_loc) proc" where
  "dccpSock_setup os k = (bnd (gets (\<lambda>s. junk os (hist s) R_MAX_PAYLOAD)) (\<lambda>buf.
   thn (data_init k)
   (bnd (data_serial os k) (\<lambda>h.
   bnd (sys os (Socket 6)) (\<lambda>sock.
   thn (r_check os (sock < 0) ''Cannot create a DCCP socket on port'')
   (thn (set_dsByte os k sock)
   (bnd (gets (\<lambda>s. slots s ! k)) (\<lambda>f.
   bnd (sys os (Bind sock (unat (ntohs (sin_port (destHost f)))))) (\<lambda>b.
   thn (cond (b < 0) (thn (sys0 (Print ''Error into bind function''))
      (thn (sendPipeMsg k 2)
      (sys0 (Sleep R_INFINITE)))))
   (bnd (sys os (Setsockopt sock)) (\<lambda>g.
   thn (r_check os (g < 0) ''Cannot set option DCCP_SERVICE'')
   (thn (dccp_listen os k sock ''Cannot listen on a port'')
   (bnd (dccp_accept os sock) (\<lambda>(newSock, from).
   bnd (data_start os k newSock h buf) (\<lambda>loc.
   ret (loc\<lparr>srcAddress := from\<rparr>))))))))))))))))"

text \<open>The addresses of a record are taken with the first packet; there is no passive mode.\<close>

definition peer_addresses :: "os \<Rightarrow> nat \<Rightarrow> data_loc \<Rightarrow> ('a recv_state_scheme, data_loc) proc" where
  "peer_addresses os k loc = (bnd (gets (\<lambda>s. slots s ! k)) (\<lambda>f.
   ret (if firstpacket loc then note_dst os (destHost f) (note_src os (srcAddress loc) loc)\<lparr>firstpacket := False\<rparr>
          else loc)))"

text \<open>Sending back is tried again as long as the host is busy.\<close>

primrec dccp_send :: "os \<Rightarrow> nat \<Rightarrow> int \<Rightarrow> bytes \<Rightarrow> ('a recv_state_scheme, unit) proc" where
  "dccp_send os 0 sock d = hang"
| "dccp_send os (Suc fuel) sock d = (bnd (sys os (Send sock d)) (\<lambda>w.
 if w \<ge> 0 then ret ()
     else (bnd (sys os Errno) (\<lambda>e.
      if e = 11 then dccp_send os fuel sock d
       else r_report os ''Cannot send payload back for rttm''))))"

definition dccp_packet :: "os \<Rightarrow> nat \<Rightarrow> nat \<Rightarrow> data_loc \<Rightarrow> int \<Rightarrow> ('a recv_state_scheme, data_loc) proc" where
  "dccp_packet os fuel k loc1 sz = (thn (toggle loc1)
   (bnd (time_now os) (\<lambda>now.
   bnd (gets id) (\<lambda>s.
   bnd ((if logCheck s \<noteq> 0 \<or> logRemote s \<noteq> 0
       then bnd (peer_addresses os k loc1) (\<lambda>loc2. log_packet os k loc2 now sz) else ret loc1)) (\<lambda>loc2.
   bnd (gets (\<lambda>s. p_meter (slots s ! k))) (\<lambda>m.
   thn (cond (m = METER_RTTM) (dccp_send os fuel (sockD loc2) (take (nat sz) (payload loc2))))
   (ret loc2)))))))"

text \<open>At the end of the stream the loop goes on asking.\<close>

definition dccpSock_round :: "os \<Rightarrow> nat \<Rightarrow> nat \<Rightarrow> data_loc \<Rightarrow> ('a recv_state_scheme, data_loc) proc" where
  "dccpSock_round os fuel k loc = (bnd (sys_recv os (sockD loc) R_MAX_PAYLOAD) (\<lambda>r.
   case r of
       None \<Rightarrow> (thn (r_report os ''Cannot receive UDP packets'')
        (ret loc))
     | Some d \<Rightarrow>
         if d = [] then ret loc
         else dccp_packet os fuel k (loc\<lparr>payload := d @ drop (length d) (payload loc)\<rparr>) (int (length d))))"

subsection \<open>SCTP sessions\<close>

record sctp_session =
  ss_port :: u16
  parsedStreams :: u32
  busyStreams :: u32
  ss_sock :: int

record sctp_state = recv_state +
  sctpSessionCount :: int
  sctpSessions :: "sctp_session list"

text \<open>The sessions on a port among the first n of the table; the table has MAX_NUM_THREAD entries.\<close>

definition live_on :: "u16 \<Rightarrow> sctp_session \<Rightarrow> bool" where
  "live_on port x \<longleftrightarrow> parsedStreams x > 0 \<and> ss_port x = port"

definition find_session :: "u16 \<Rightarrow> nat \<Rightarrow> sctp_session list \<Rightarrow> nat option" where
  "find_session port n t = List.find (\<lambda>i. live_on port (t ! i)) [0..<min n (length t)]"

text \<open>A stream of a session that is there joins it; otherwise the next position becomes a new session.\<close>

definition sctp_join :: "u16 \<Rightarrow> ('a sctp_state_scheme, nat \<times> bool) proc" where
  "sctp_join port = (bnd (gets id) (\<lambda>s.
   let n = nat (sctpSessionCount s); t = sctpSessions s in
     case find_session port n t of
       Some i \<Rightarrow> (thn (upd (\<lambda>s. s\<lparr>sctpSessions := t[i := (t ! i)\<lparr>parsedStreams := parsedStreams (t ! i) + 1\<rparr>]\<rparr>))
        (ret (i, False)))
     | None \<Rightarrow>
         if n \<ge> length t then fault
         else (thn (upd (\<lambda>s. s\<lparr>sctpSessionCount := sctpSessionCount s + 1, sctpSessions :=
             t[n := \<lparr>ss_port = port, parsedStreams = 1, busyStreams = 0, ss_sock = -1\<rparr>]\<rparr>))
          (ret (n, True)))))"

text \<open>At the end of a flow its session is given up, with all its streams; a port without a session is
  taken for the position behind the last one.\<close>

definition sctp_release :: "os \<Rightarrow> u16 \<Rightarrow> ('a sctp_state_scheme, unit) proc" where
  "sctp_release os port = (thn (mutexThreadLock os ''mutexSctp'')
   (bnd (gets id) (\<lambda>s.
   let n = nat (sctpSessionCount s); t = sctpSessions s;
         i = (case find_session port n t of Some i \<Rightarrow> i | None \<Rightarrow> n) in
     if i \<ge> length t then fault
     else (thn (upd (\<lambda>s. s\<lparr>sctpSessions := t[i := (t ! i)\<lparr>parsedStreams := 0, ss_sock := 0\<rparr>],
         sctpSessionCount := sctpSessionCount s - 1\<rparr>))
      (thn (mutexThreadUnlock os ''mutexSctp'')
      (ret ()))))))"

subsection \<open>sctpSock\<close>

text \<open>The local variables of the thread: those of the others, the number of the session, and whether
  the thread has made it.\<close>

record sctp_loc =
  sl_loc :: data_loc
  sctpId :: nat
  newSession :: bool

text \<open>A new session: the mutex of the sessions is held while accept waits for the sender, and while a thread
  whose bind has failed sleeps.\<close>

definition sctp_open :: "os \<Rightarrow> nat \<Rightarrow> nat \<Rightarrow> int \<Rightarrow> ('a sctp_state_scheme, data_loc) proc" where
  "sctp_open os k i h = (bnd (sys os (Socket 132)) (\<lambda>sock.
   thn (r_check os (sock < 0) ''Cannot create a STREAM socket on port'')
   (bnd (gets (\<lambda>s. slots s ! k)) (\<lambda>f.
   bnd (sys os (Bind sock (unat (ntohs (sin_port (destHost f)))))) (\<lambda>b.
   thn (cond (b < 0) (thn (sendPipeMsg k 2)
      (sys0 (Sleep R_INFINITE))))
   (thn (dccp_listen os k sock ''Cannot listen on a port'')
   (bnd (dccp_accept os sock) (\<lambda>(newSock, from).
   bnd (data_start os k newSock h (replicate R_MAX_PAYLOAD 0)) (\<lambda>loc.
   thn (upd (\<lambda>s. s\<lparr>sctpSessions := (sctpSessions s)[i := (sctpSessions s ! i)\<lparr>ss_sock := newSock\<rparr>]\<rparr>))
   (ret (loc\<lparr>srcAddress := from\<rparr>)))))))))))"

text \<open>Another stream of a session uses the session's socket; it does not tell the signaling thread, and it
  has no address of the sender.\<close>

definition sctp_share :: "int \<Rightarrow> int \<Rightarrow> data_loc" where
  "sctp_share sock h = \<lparr>sockD = sock, payload = replicate R_MAX_PAYLOAD 0, srcAddress = any_addr, firstpacket = True,
     helpSrc = [], helpDst = [], srcPortD = 0, dstPortD = 0, hComm = h\<rparr>"

definition sctpSock_setup :: "os \<Rightarrow> nat \<Rightarrow> ('a sctp_state_scheme, sctp_loc) proc" where
  "sctpSock_setup os k = (thn (data_init k)
   (bnd (data_serial os k) (\<lambda>h.
   bnd (gets (\<lambda>s. GET_PORT (destHost (slots s ! k)) 0)) (\<lambda>port.
   bnd (mutexThreadLock os ''mutexSctp'') (\<lambda>a.
   bnd (sctp_join port) (\<lambda>(i, new).
   bnd ((if new then sctp_open os k i h
       else gets (\<lambda>s. sctp_share (ss_sock (sctpSessions s ! i)) h))) (\<lambda>loc.
   bnd (mutexThreadUnlock os ''mutexSctp'') (\<lambda>b.
   ret \<lparr>sl_loc = loc, sctpId = i, newSession = new\<rparr>))))))))"

text \<open>The address of the sender is read from a variable that only a new session has set.\<close>

definition sctp_address :: "sctp_loc \<Rightarrow> bool \<Rightarrow> ('a recv_state_scheme, unit) proc" where
  "sctp_address l used = (if used \<and> \<not> newSession l then fault else ret ())"

text \<open>One round: whatever SCTPrecvPacket returns, also for an error or the end of the stream, is taken for
  the size of a packet.\<close>

definition sctp_packet :: "os \<Rightarrow> nat \<Rightarrow> sctp_loc \<Rightarrow> data_loc \<Rightarrow> int \<Rightarrow> ('a recv_state_scheme, sctp_loc) proc" where
  "sctp_packet os k l loc1 sz = (thn (toggle loc1)
   (bnd (time_now os) (\<lambda>now.
   bnd (gets id) (\<lambda>s.
   bnd ((if logCheck s \<noteq> 0 \<or> logRemote s \<noteq> 0 then (thn (sctp_address l (firstpacket loc1))
      (bnd (peer_addresses os k loc1) (\<lambda>loc2.
      log_packet os k loc2 now sz)))
       else ret loc1)) (\<lambda>loc2.
   bnd (gets (\<lambda>s. p_meter (slots s ! k))) (\<lambda>m.
   thn (cond (m = METER_RTTM) (thn (sctp_address l True)
      (bnd (sys os (Send (sockD loc2) (take (nat sz) (payload loc2)))) (\<lambda>w.
      r_check os (w < 0) ''Cannot send payload back for rttm''))))
   (ret (l\<lparr>sl_loc := loc2\<rparr>))))))))"

definition sctpSock_round :: "os \<Rightarrow> nat \<Rightarrow> nat \<Rightarrow> sctp_loc \<Rightarrow> ('a recv_state_scheme, sctp_loc) proc" where
  "sctpSock_round os fuel k l = (bnd (gets (\<lambda>s. junk os (hist s) MAX_PAYLOAD_SIZE)) (\<lambda>stale.
   bnd (gets (\<lambda>s. slots s ! k)) (\<lambda>f.
   bnd (SCTPrecvPacket os stale fuel (payload (sl_loc l)) (sockD (sl_loc l)) (nat (preambleSize f))
       (payloadLogType f)) (\<lambda>(sz, buf).
   sctp_packet os k l ((sl_loc l)\<lparr>payload := buf\<rparr>) sz))))"

end
