(* ===== verification/SctpDccp_Facts.thy ===== *)
theory SctpDccp_Facts
  imports SctpDccp DataThread_Facts
begin

text \<open>dccpSock keeps one record per packet, as udpSock does; the table of SCTP sessions keeps the ports
  apart until the first of them is given up.\<close>

subsection \<open>dccpSock\<close>

lemma peer_addresses_run:
  "\<exists>loc'. peer_addresses os k loc s = (Ret loc', s) \<and> sockD loc' = sockD loc \<and> payload loc' = payload loc"
  by (simp add: peer_addresses_def proc_simps note_src_def note_dst_def)

lemma dccp_send_run:
  "calls_succeed os \<Longrightarrow> dccp_send os (Suc fuel) sock d s = (Ret (), log_call (Send sock d) s)"
  by (simp add: proc_simps calls_succeedD not_less[symmetric])

lemma dccp_round_logs:
  assumes "data_ready os k m pl fid sock loc s"
  shows "\<exists>loc' s' d r. dccpSock_round os (Suc fuel) k loc s = (Ret loc', s') \<and> data_ready os k m pl fid sock loc' s' \<and>
    received os sock (hist s') = received os sock (hist s) @ [d] \<and>
    flow_log os k s' = flow_log os k s @ os_image os r \<and> tells pl fid d r"
proof -
  from assms have ok: "calls_succeed os" "datagrams os" "loop_ready k m pl fid s" "sockD loc = sock"
    by (simp_all add: data_ready_def)
  define h where "h = Recv sock R_MAX_PAYLOAD # hist s"
  from ok(2) obtain d where d: "os_data os h = Some d" "8 \<le> length d" "length d \<le> R_MAX_PAYLOAD"
    unfolding datagrams_def h_def by (metis R_MAX_PAYLOAD_8)
  define s1 where "s1 = log_call (Recv sock R_MAX_PAYLOAD) s"
  define loc1 where "loc1 = loc\<lparr>payload := d @ drop (length d) (payload loc)\<rparr>"
  define s2 where "s2 = (if hComm loc1 > 0 then log_call (SerialToggle (hComm loc1)) s1 else s1)"
  define s3 where "s3 = log_call GetTime s2"
  obtain loc2 where pa: "peer_addresses os k loc1 s3 = (Ret loc2, s3)" "sockD loc2 = sock"
    "payload loc2 = d @ drop (length d) (payload loc)"
    using peer_addresses_run[of os k loc1 s3] ok(4) by (auto simp: loc1_def)
  have r3: "loop_ready k m pl fid s3" "flow_log os k s3 = flow_log os k s"
    "received os sock (hist s3) = received os sock (hist s) @ [d]"
    using ok d by (auto simp: s3_def s2_def s1_def h_def)
  obtain s5 r where st: "log_packet os k loc2 (os_time os (GetTime # hist s2)) (int (length d)) s3 = (Ret loc2, s5)"
    and s5: "loop_ready k m pl fid s5" "flow_log os k s5 = flow_log os k s3 @ os_image os r" "tells pl fid d r"
      "received os sock (hist s5) = received os sock (hist s3)"
    using store_packet[OF ok(1) r3(1) d(2) pa(3)] by blast
  define s6 where "s6 = (if m = METER_RTTM then log_call (Send sock (take (length d) (payload loc2))) s5 else s5)"
  have lc: "logCheck s3 \<noteq> 0" using r3(1) by (simp add: loop_ready_def logs_to_file_def)
  have m5: "p_meter (slots s5 ! k) = m" using s5(1) by (simp add: loop_ready_def)
  have pk: "dccp_packet os (Suc fuel) k loc1 (int (length d)) s1 = (Ret loc2, s6)"
    using lc m5 dccp_send_run[OF ok(1)] pa(2)
    by (simp add: dccp_packet_def proc_simps s2_def[symmetric] s3_def[symmetric] s6_def bnd_Ret[OF dccp_send_run[OF ok(1)]]
        bnd_Ret[of "peer_addresses os k loc1" s3, OF pa(1)]
        bnd_Ret[of "log_packet os k loc2 (os_time os (GetTime # hist s2)) (int (length d))" s3, OF st]
        del: dccp_send.simps)
  have "dccpSock_round os (Suc fuel) k loc s = (Ret loc2, s6)"
    using d ok pk by (auto simp: dccpSock_round_def proc_simps h_def[symmetric] s1_def[symmetric] loc1_def)
  moreover have "data_ready os k m pl fid sock loc2 s6"
    using ok s5(1) pa(2) by (cases "m = METER_RTTM") (simp_all add: data_ready_def s6_def)
  moreover have "received os sock (hist s6) = received os sock (hist s) @ [d]"
    "flow_log os k s6 = flow_log os k s @ os_image os r" using s5 r3 by (simp_all add: s6_def)
  ultimately show ?thesis using s5(3) by blast
qed

interpretation dccp: packet_loop "dccpSock_round os (Suc fuel) k" "data_ready os k m pl fid sock" "flow_log os k"
  "\<lambda>s. received os sock (hist s)" "os_image os" "tells pl fid" for os fuel k m pl fid sock
  by unfold_locales (rule dccp_round_logs)

lemma dccpSock_lossless:
  assumes "data_ready os k m pl fid sock loc s"
  shows "\<exists>loc' s' ps rs. packet_rounds (dccpSock_round os (Suc fuel) k) n loc s = (Ret loc', s') \<and>
    length ps = n \<and> received os sock (hist s') = received os sock (hist s) @ ps \<and>
    flow_log os k s' = flow_log os k s @ concat (map (os_image os) rs) \<and> list_all2 (tells pl fid) ps rs"
  using dccp.rounds_log[OF assms, of fuel n] by blast

subsection \<open>SCTP sessions\<close>

text \<open>The streams that join one after another, by their ports.\<close>

primrec sctp_joins :: "u16 list \<Rightarrow> ('a sctp_state_scheme, (nat \<times> bool) list) proc" where
  "sctp_joins [] = ret []"
| "sctp_joins (p # ps) = bnd (sctp_join p) (\<lambda>x. bnd (sctp_joins ps) (\<lambda>r. ret (x # r)))"

text \<open>The table after the streams qs: one session per port, with the number of its streams.\<close>

definition port_table :: "u16 list \<Rightarrow> nat \<Rightarrow> sctp_session list \<Rightarrow> bool" where
  "port_table qs n t \<longleftrightarrow> n \<le> length t \<and> inj_on (\<lambda>i. ss_port (t ! i)) {..<n} \<and>
     (\<lambda>i. ss_port (t ! i)) ` {..<n} = set qs \<and>
     (\<forall>i < n. parsedStreams (t ! i) = of_nat (count_list qs (ss_port (t ! i))))"

lemma port_tableD:
  assumes "port_table qs n t"
  shows "n \<le> length t" "i < n \<Longrightarrow> j < n \<Longrightarrow> ss_port (t ! i) = ss_port (t ! j) \<longleftrightarrow> i = j"
    "p \<in> set qs \<longleftrightarrow> (\<exists>i < n. ss_port (t ! i) = p)" "n = card (set qs)"
    "i < n \<Longrightarrow> parsedStreams (t ! i) = of_nat (count_list qs (ss_port (t ! i)))"
proof -
  have q: "set qs = (\<lambda>i. ss_port (t ! i)) ` {..<n}" and inj: "inj_on (\<lambda>i. ss_port (t ! i)) {..<n}"
    using assms by (simp_all add: port_table_def)
  show "n \<le> length t" "i < n \<Longrightarrow> parsedStreams (t ! i) = of_nat (count_list qs (ss_port (t ! i)))"
    using assms by (simp_all add: port_table_def)
  show "i < n \<Longrightarrow> j < n \<Longrightarrow> ss_port (t ! i) = ss_port (t ! j) \<longleftrightarrow> i = j"
    using inj_on_eq_iff[OF inj, of i j] by simp
  show "p \<in> set qs \<longleftrightarrow> (\<exists>i < n. ss_port (t ! i) = p)" by (auto simp: q)
  show "n = card (set qs)" by (simp add: q card_image[OF inj])
qed

lemma live_session:
  assumes "port_table qs n t" "length qs < 2 ^ 32" "i < n"
  shows "live_on p (t ! i) \<longleftrightarrow> ss_port (t ! i) = p"
proof -
  define c where "c = count_list qs (ss_port (t ! i))"
  have "ss_port (t ! i) \<in> set qs" using port_tableD(3)[OF assms(1)] assms(3) by blast
  then have "c \<noteq> 0" "c < 2 ^ 32"
    using assms(2) count_le_length[of qs "ss_port (t ! i)"] by (auto simp: c_def count_list_0_iff)
  then have "unat (of_nat c :: u32) \<noteq> 0" by (simp add: unat_of_nat take_bit_nat_eq_self)
  then have "(of_nat c :: u32) \<noteq> 0" by auto
  then show ?thesis using port_tableD(5)[OF assms(1,3)] by (simp add: live_on_def c_def word_neq_0_conv)
qed

lemma find_session_table:
  assumes "port_table qs n t" "length qs < 2 ^ 32"
  shows "find_session p n t = None \<longleftrightarrow> p \<notin> set qs"
    and "find_session p n t = Some i \<Longrightarrow> i < n \<and> ss_port (t ! i) = p"
proof -
  have n: "min n (length t) = n" using port_tableD(1)[OF assms(1)] by simp
  show "find_session p n t = None \<longleftrightarrow> p \<notin> set qs"
    using live_session[OF assms] by (auto simp: find_session_def n find_None_iff port_tableD(3)[OF assms(1)])
  show "find_session p n t = Some i \<Longrightarrow> i < n \<and> ss_port (t ! i) = p"
    using live_session[OF assms] by (auto simp: find_session_def n find_Some_iff)
qed

lemma table_new_port:
  assumes "port_table qs n t" "p \<notin> set qs" "n < length t"
  shows "port_table (qs @ [p]) (n + 1) (t[n := \<lparr>ss_port = p, parsedStreams = 1, busyStreams = 0, ss_sock = c\<rparr>])"
    (is "port_table _ _ ?t")
proof -
  have port: "ss_port (?t ! i) = (if i = n then p else ss_port (t ! i))" for i using assms(3) by simp
  have image: "(\<lambda>i. ss_port (?t ! i)) ` {..<n} = (\<lambda>i. ss_port (t ! i)) ` {..<n}" by (rule image_cong) auto
  have "inj_on (\<lambda>i. ss_port (?t ! i)) {..<n} = inj_on (\<lambda>i. ss_port (t ! i)) {..<n}" by (rule inj_on_cong) auto
  then have inj: "inj_on (\<lambda>i. ss_port (?t ! i)) {..<Suc n}"
    using assms image by (simp add: port_table_def lessThan_Suc)
  have "count_list qs p = 0" using assms(2) by (simp add: count_list_0_iff)
  then have "parsedStreams (?t ! i) = of_nat (count_list (qs @ [p]) (ss_port (?t ! i)))" if "i < Suc n" for i
    using that assms(2,3) port_tableD(3,5)[OF assms(1)] by (cases "i = n") (auto simp: less_Suc_eq)
  then show ?thesis using assms inj image by (simp add: port_table_def lessThan_Suc)
qed

lemma table_more_streams:
  assumes "port_table qs n t" "i < n" "ss_port (t ! i) = p"
  shows "port_table (qs @ [p]) n (t[i := (t ! i)\<lparr>parsedStreams := parsedStreams (t ! i) + 1\<rparr>])"
    (is "port_table _ _ ?t")
proof -
  have n: "i < length t" using assms(2) port_tableD(1)[OF assms(1)] by simp
  have port: "ss_port (?t ! j) = ss_port (t ! j)" for j using n by (cases "i = j") simp_all
  have p: "p \<in> set qs" using port_tableD(3)[OF assms(1)] assms(2,3) by blast
  have "parsedStreams (?t ! j) = of_nat (count_list (qs @ [p]) (ss_port (?t ! j)))" if "j < n" for j
    unfolding port using port_tableD(2,5)[OF assms(1)] that assms(2,3) n by (cases "i = j") auto
  then show ?thesis using assms(1) p by (auto simp: port_table_def port insert_absorb)
qed

lemma sctp_join_step:
  assumes "port_table qs n (sctpSessions s)" "sctpSessionCount s = int n" "length qs < 2 ^ 32"
    "p \<in> set qs \<or> n < length (sctpSessions s)"
  shows "\<exists>i n' s'. sctp_join p s = (Ret (i, p \<notin> set qs), s') \<and> port_table (qs @ [p]) n' (sctpSessions s') \<and>
    sctpSessionCount s' = int n' \<and> length (sctpSessions s') = length (sctpSessions s) \<and>
    n \<le> n' \<and> i < n' \<and> ss_port (sctpSessions s' ! i) = p \<and>
    (\<forall>j < n. ss_port (sctpSessions s' ! j) = ss_port (sctpSessions s ! j))"
proof (cases "find_session p n (sctpSessions s)")
  case None
  then have p: "p \<notin> set qs" using find_session_table(1)[OF assms(1,3)] by blast
  then have n: "n < length (sctpSessions s)" using assms(4) by blast
  show ?thesis
    using None p n assms(2) table_new_port[OF assms(1) p n, of "-1"]
    by (auto simp: sctp_join_def proc_simps Let_def intro!: exI[of _ "n + 1"])
next
  case (Some i)
  then have i: "i < n" "ss_port (sctpSessions s ! i) = p" using find_session_table(2)[OF assms(1,3)] by blast+
  have p: "p \<in> set qs" using port_tableD(3)[OF assms(1)] i by blast
  have len: "i < length (sctpSessions s)" using port_tableD(1)[OF assms(1)] i(1) by simp
  have port: "ss_port ((sctpSessions s)[i := (sctpSessions s ! i)\<lparr>parsedStreams := c\<rparr>] ! j) = ss_port (sctpSessions s ! j)" for j c
    using len by (cases "i = j") simp_all
  show ?thesis
    using Some p i assms(2) table_more_streams[OF assms(1) i]
    by (auto simp: sctp_join_def proc_simps Let_def port intro!: exI[of _ n])
qed

lemma sctp_joins_table:
  assumes "port_table qs n (sctpSessions s)" "sctpSessionCount s = int n" "length (qs @ ps) < 2 ^ 32"
    "card (set (qs @ ps)) \<le> length (sctpSessions s)"
  shows "\<exists>r n' s'. sctp_joins ps s = (Ret r, s') \<and> port_table (qs @ ps) n' (sctpSessions s') \<and>
    sctpSessionCount s' = int n' \<and> n \<le> n' \<and> length r = length ps \<and>
    (\<forall>j < n. ss_port (sctpSessions s' ! j) = ss_port (sctpSessions s ! j)) \<and>
    (\<forall>k < length ps. fst (r ! k) < n' \<and> ss_port (sctpSessions s' ! fst (r ! k)) = ps ! k \<and>
       (snd (r ! k) \<longleftrightarrow> ps ! k \<notin> set (qs @ take k ps)))"
  using assms
proof (induction ps arbitrary: qs n s)
  case Nil
  then show ?case by (auto simp: ret_def)
next
  case (Cons p ps)
  have "p \<in> set qs \<or> n < length (sctpSessions s)"
  proof (rule disjCI)
    assume "\<not> n < length (sctpSessions s)"
    then have "card (set (qs @ p # ps)) \<le> card (set qs)"
      using Cons.prems(4) port_tableD(4)[OF Cons.prems(1)] by simp
    then have "set qs = set (qs @ p # ps)" by (intro card_seteq) auto
    then show "p \<in> set qs" by auto
  qed
  from sctp_join_step[OF Cons.prems(1,2) _ this] Cons.prems(3) obtain i n1 s1 where
    one: "sctp_join p s = (Ret (i, p \<notin> set qs), s1)" "port_table (qs @ [p]) n1 (sctpSessions s1)"
      "sctpSessionCount s1 = int n1" "length (sctpSessions s1) = length (sctpSessions s)" "n \<le> n1" "i < n1"
      "ss_port (sctpSessions s1 ! i) = p" "\<forall>j < n. ss_port (sctpSessions s1 ! j) = ss_port (sctpSessions s ! j)"
    by auto
  have "length ((qs @ [p]) @ ps) < 2 ^ 32" "card (set ((qs @ [p]) @ ps)) \<le> length (sctpSessions s1)"
    using Cons.prems(3,4) one(4) by simp_all
  from Cons.IH[OF one(2,3) this] obtain r n2 s2 where
    two: "sctp_joins ps s1 = (Ret r, s2)" "port_table ((qs @ [p]) @ ps) n2 (sctpSessions s2)"
      "sctpSessionCount s2 = int n2" "n1 \<le> n2" "length r = length ps"
      "\<forall>j < n1. ss_port (sctpSessions s2 ! j) = ss_port (sctpSessions s1 ! j)"
      "\<forall>k < length ps. fst (r ! k) < n2 \<and> ss_port (sctpSessions s2 ! fst (r ! k)) = ps ! k \<and>
       (snd (r ! k) \<longleftrightarrow> ps ! k \<notin> set ((qs @ [p]) @ take k ps))"
    by blast
  have run: "sctp_joins (p # ps) s = (Ret ((i, p \<notin> set qs) # r), s2)"
    using one(1) two(1) by (simp add: bnd_Ret ret_def)
  have each: "fst (((i, p \<notin> set qs) # r) ! k) < n2 \<and> ss_port (sctpSessions s2 ! fst (((i, p \<notin> set qs) # r) ! k)) = (p # ps) ! k \<and>
      (snd (((i, p \<notin> set qs) # r) ! k) \<longleftrightarrow> (p # ps) ! k \<notin> set (qs @ take k (p # ps)))" if "k < length (p # ps)" for k
    using that one(6,7) two(4,6,7) by (cases k) auto
  show ?case
    using run two one(5,8) each by (intro exI[of _ "(i, p \<notin> set qs) # r"] exI[of _ n2] exI[of _ s2]) auto
qed

text \<open>C40: streams that come in one after another on an empty table are sorted by port: stream k gets a
  session on its own port, makes it exactly if it is the first on that port, two streams share a
  session exactly if they have the same port, there are as many sessions as ports, and each session
  counts its streams.\<close>

theorem sctp_streams:
  assumes "sctpSessionCount s = 0" "length ps < 2 ^ 32" "card (set ps) \<le> length (sctpSessions s)"
  shows "\<exists>r s'. sctp_joins ps s = (Ret r, s') \<and> length r = length ps \<and> sctpSessionCount s' = int (card (set ps)) \<and>
    (\<forall>k < length ps. let x = sctpSessions s' ! fst (r ! k) in ss_port x = ps ! k \<and>
       parsedStreams x = of_nat (count_list ps (ps ! k)) \<and> (snd (r ! k) \<longleftrightarrow> ps ! k \<notin> set (take k ps))) \<and>
    (\<forall>j < length ps. \<forall>k < length ps. fst (r ! j) = fst (r ! k) \<longleftrightarrow> ps ! j = ps ! k)"
proof -
  have "port_table [] 0 (sctpSessions s)" by (simp add: port_table_def)
  from sctp_joins_table[OF this, of ps] assms obtain r n s' where
    r: "sctp_joins ps s = (Ret r, s')" "port_table ps n (sctpSessions s')" "sctpSessionCount s' = int n"
      "length r = length ps" and
    each: "\<forall>k < length ps. fst (r ! k) < n \<and> ss_port (sctpSessions s' ! fst (r ! k)) = ps ! k \<and>
       (snd (r ! k) \<longleftrightarrow> ps ! k \<notin> set (take k ps))"
    by auto
  have "fst (r ! j) = fst (r ! k) \<longleftrightarrow> ps ! j = ps ! k" if "j < length ps" "k < length ps" for j k
    using each that port_tableD(2)[OF r(2), of "fst (r ! j)" "fst (r ! k)"] by metis
  moreover have "parsedStreams (sctpSessions s' ! fst (r ! k)) = of_nat (count_list ps (ps ! k))" if "k < length ps" for k
    using each that port_tableD(5)[OF r(2), of "fst (r ! k)"] by auto
  ultimately show ?thesis
    using r each port_tableD(4)[OF r(2)] by (intro exI[of _ r] exI[of _ s']) (auto simp: Let_def)
qed

definition sctp_demo :: "sctp_session list \<Rightarrow> unit sctp_state_scheme" where
  "sctp_demo t = \<lparr>hist = [], r_flagTerm = R_NO_TERMINATE, logCheck = 1, logRemote = 0, r_buffer_size = 2,
     r_memLogFile = init_table, r_outOpen = True, passiveMode = False, passiveSender = any_addr,
     globalBindAddr = None, globaleLogHost = any_addr, globaleLogSock = 0, globaleLogSockSignaling = 0,
     defaultLogPortSignaling = 9001, r_gui = False, sharedTcp = (\<lambda>p. \<lparr>shSocket = 0, inUse = 0\<rparr>),
     sharedUdp = (\<lambda>p. \<lparr>shSocket = 0, inUse = 0\<rparr>), slots = [], numFlow = 1, fileDescriptor = GlobalOut,
     nameFileLog = [], protocolLog = 0, logHost = any_addr, logSock = 0, logSockSignaling = 0,
     sctpSessionCount = 0, sctpSessions = t\<rparr>"

definition no_session :: sctp_session where
  "no_session = \<lparr>ss_port = 0, parsedStreams = 0, busyStreams = 0, ss_sock = 0\<rparr>"

theorem sctp_streams_witness:
  "\<exists>r s'. sctp_joins [7, 9, 7] (sctp_demo [no_session, no_session]) = (Ret r, s') \<and>
     sctpSessionCount s' = 2 \<and> fst (r ! 0) = fst (r ! 2) \<and> fst (r ! 0) \<noteq> fst (r ! 1)"
proof -
  have "set [7, 9, 7 :: u16] = {7, 9}" by auto
  then have "card (set [7, 9, 7 :: u16]) = 2" by simp
  then have "card (set [7, 9, 7 :: u16]) \<le> length (sctpSessions (sctp_demo [no_session, no_session]))"
    "sctpSessionCount (sctp_demo [no_session, no_session]) = 0"
    by (simp_all add: sctp_demo_def)
  from sctp_streams[OF this(2) _ this(1)] \<open>card (set [7, 9, 7]) = 2\<close> obtain r s' where
    r: "sctp_joins [7, 9, 7] (sctp_demo [no_session, no_session]) = (Ret r, s')" "sctpSessionCount s' = 2"
      "\<forall>j < 3. \<forall>k < 3. fst (r ! j) = fst (r ! k) \<longleftrightarrow> [7, 9, 7 :: u16] ! j = [7, 9, 7] ! k"
    by auto
  from r(3)[rule_format, of 0 2] r(3)[rule_format, of 0 1] r(1,2) show ?thesis by auto
qed

lemma bnd_join:
  "bnd (sctp_join p) f s = (case find_session p (nat (sctpSessionCount s)) (sctpSessions s) of
     Some i \<Rightarrow> f (i, False) (s\<lparr>sctpSessions := (sctpSessions s)[i := (sctpSessions s ! i)
         \<lparr>parsedStreams := parsedStreams (sctpSessions s ! i) + 1\<rparr>]\<rparr>)
   | None \<Rightarrow> if nat (sctpSessionCount s) \<ge> length (sctpSessions s) then (Fault, s)
       else f (nat (sctpSessionCount s), True) (s\<lparr>sctpSessionCount := sctpSessionCount s + 1,
         sctpSessions := (sctpSessions s)[nat (sctpSessionCount s) :=
           \<lparr>ss_port = p, parsedStreams = 1, busyStreams = 0, ss_sock = -1\<rparr>]\<rparr>))"
  by (simp add: sctp_join_def proc_simps Let_def split: option.split)

lemma bnd_release:
  "bnd (sctp_release os p) f s = (let n = nat (sctpSessionCount s); t = sctpSessions s;
      i = (case find_session p n t of Some i \<Rightarrow> i | None \<Rightarrow> n); s1 = log_call (MutexLock ''mutexSctp'') s
    in if i \<ge> length t then (Fault, s1)
       else f () (log_call (MutexUnlock ''mutexSctp'') (s1\<lparr>sctpSessions := t[i := (t ! i)\<lparr>parsedStreams := 0, ss_sock := 0\<rparr>],
         sctpSessionCount := sctpSessionCount s - 1\<rparr>)))"
  by (simp add: sctp_release_def bnd_def thn_def gets_def upd_def ret_def fault_def sys_def thread_apply Let_def log_call_def
      split: option.split)

text \<open>Giving up a session moves the end of the table in front of the sessions behind it: of two sessions,
  the second is not found again once the first has ended, and a further stream on its port
  overwrites it as if it were new.\<close>

lemma sctp_release_hides:
  assumes "sctpSessionCount s = 2" "sctpSessions s = [a, b]" "live_on p a" "live_on q b" "p \<noteq> q"
  shows "\<exists>s'. bnd (sctp_release os p) (\<lambda>_. bnd (sctp_join q) ret) s = (Ret (1, True), s')"
proof -
  have "find_session p 2 [a, b] = Some 0" "\<not> live_on q (a\<lparr>parsedStreams := 0, ss_sock := 0\<rparr>)"
    using assms(3) by (simp_all add: find_session_def numeral_eq_Suc live_on_def)
  moreover from this have "find_session q 1 [a\<lparr>parsedStreams := 0, ss_sock := 0\<rparr>, b] = None"
    by (simp add: find_session_def)
  ultimately show ?thesis
    by (simp add: bnd_release bnd_join assms(1,2) Let_def log_call_def ret_apply)
qed

text \<open>A stream that shares a session has no address of its sender, which its first record needs.\<close>

lemma shared_stream_faults:
  "\<not> newSession l \<Longrightarrow> firstpacket loc \<Longrightarrow> logCheck s \<noteq> 0 \<Longrightarrow> fst (sctp_packet os k l loc sz s) = Fault"
  by (simp add: sctp_packet_def proc_simps sctp_address_def)

end
