(* ===== verification/DblArith.thy ===== *)
theory DblArith
  imports CNum
begin

text \<open>The arithmetic of doubles that the random variables of newran use, beyond CNum: sums,
  products, division by zero, comparisons, conversions to integers, and when a result is exact.
  The two zeros are one value, so that a quotient by zero has the sign of its dividend.\<close>

definition d_add :: "dbl \<Rightarrow> dbl \<Rightarrow> dbl" where
  "d_add x y = (case (x, y) of
      (Fin p, Fin q) \<Rightarrow> to_dbl (p + q)
    | (NaN, _) \<Rightarrow> NaN | (_, NaN) \<Rightarrow> NaN
    | (PInf, MInf) \<Rightarrow> NaN | (MInf, PInf) \<Rightarrow> NaN
    | (Fin _, _) \<Rightarrow> y
    | (_, _) \<Rightarrow> x)"

definition d_mul :: "dbl \<Rightarrow> dbl \<Rightarrow> dbl" where
  "d_mul x y = (case (x, y) of
      (Fin p, Fin q) \<Rightarrow> to_dbl (p * q)
    | (NaN, _) \<Rightarrow> NaN | (_, NaN) \<Rightarrow> NaN
    | (Fin p, _) \<Rightarrow> (if p = 0 then NaN else if 0 < p then y else d_neg y)
    | (_, Fin q) \<Rightarrow> (if q = 0 then NaN else if 0 < q then x else d_neg x)
    | (_, _) \<Rightarrow> (if x = y then PInf else MInf))"

definition d_quot :: "dbl \<Rightarrow> dbl \<Rightarrow> dbl" where
  "d_quot x y = (if y = Fin 0
     then (case x of Fin p \<Rightarrow> if p = 0 then NaN else if 0 < p then PInf else MInf | _ \<Rightarrow> x)
     else d_div x y)"

definition d_lt :: "dbl \<Rightarrow> dbl \<Rightarrow> bool" where
  "d_lt x y \<longleftrightarrow> d_le x y \<and> x \<noteq> y"

definition d_abs :: "dbl \<Rightarrow> dbl" where
  "d_abs x = (case x of Fin q \<Rightarrow> Fin \<bar>q\<bar> | MInf \<Rightarrow> PInf | _ \<Rightarrow> x)"

definition d_floor :: "dbl \<Rightarrow> dbl" where
  "d_floor x = (case x of Fin q \<Rightarrow> Fin (of_int \<lfloor>q\<rfloor>) | _ \<Rightarrow> x)"

definition d_ceil :: "dbl \<Rightarrow> dbl" where
  "d_ceil x = (case x of Fin q \<Rightarrow> Fin (of_int \<lceil>q\<rceil>) | _ \<Rightarrow> x)"

definition d_int :: "int \<Rightarrow> dbl" where "d_int n = to_dbl (of_int n)"

text \<open>Truncation towards zero; a value that does not fit gives the pattern of the conversion
  instruction.\<close>

definition trunc :: "rat \<Rightarrow> int" where
  "trunc q = (if 0 \<le> q then \<lfloor>q\<rfloor> else \<lceil>q\<rceil>)"

definition int_of :: "dbl \<Rightarrow> int" where
  "int_of x = (case x of
      Fin q \<Rightarrow> if - (2 ^ 31) \<le> trunc q \<and> trunc q < 2 ^ 31 then trunc q else - (2 ^ 31)
    | _ \<Rightarrow> - (2 ^ 31))"

definition ulong_of :: "dbl \<Rightarrow> u64" where
  "ulong_of x = (case x of
      Fin q \<Rightarrow> if - (2 ^ 63) \<le> trunc q \<and> trunc q < 2 ^ 64 then of_int (trunc q) else 2 ^ 63
    | _ \<Rightarrow> 2 ^ 63)"

subsection \<open>Exact results\<close>

lemma pow2_shift: "pow2 (a - b) * pow2 b = pow2 a"
  by (simp flip: pow2_add)

lemma pow2_nat: "0 \<le> e \<Longrightarrow> pow2 e = of_int (2 ^ nat e)"
  by (simp add: pow2_def)

text \<open>A number with at most 53 significant bits, whose last bit is not below the least exponent.\<close>

definition exact :: "rat \<Rightarrow> bool" where
  "exact x \<longleftrightarrow> (\<exists>k e. x = of_int k * pow2 e \<and> \<bar>k\<bar> < 2 ^ 53 \<and> - 1074 \<le> e \<and> e \<le> 900)"

lemma round_abs_exact:
  assumes "x = of_int k * pow2 e" "0 < k" "k < 2 ^ 53" "- 1074 \<le> e"
  shows "round_abs x = x"
proof -
  have x: "0 < x" using assms by simp
  let ?b = "max (bin_exp x - 52) (-1074)"
  have "pow2 (bin_exp x) \<le> x" using bin_exp_le[OF x] .
  also have "x < pow2 53 * pow2 e"
  proof -
    have "of_int k < (of_int (2 ^ 53) :: rat)" using assms(3) by (simp only: of_int_less_iff)
    then show ?thesis using assms(1) by (simp add: pow2_def[of 53])
  qed
  finally have "pow2 (bin_exp x) < pow2 (53 + e)" by (simp add: pow2_add)
  then have "bin_exp x < 53 + e" by (rule pow2_mono_less)
  then have b: "?b \<le> e" using assms(4) by simp
  have "x = of_int k * pow2 (e - ?b) * pow2 ?b"
    by (simp only: assms(1) mult.assoc pow2_shift)
  then have "x / pow2 ?b = of_int k * pow2 (e - ?b)"
    using pow2_pos[of ?b] by (metis less_irrefl nonzero_mult_div_cancel_right)
  also have "\<dots> = of_int (k * 2 ^ nat (e - ?b))" using b by (simp add: pow2_nat)
  finally have "x / pow2 ?b = of_int (k * 2 ^ nat (e - ?b))" .
  then have "round_abs x = x / pow2 ?b * pow2 ?b"
    by (simp only: round_abs_def Let_def round_even_int)
  then show ?thesis using pow2_pos[of ?b] by simp
qed

lemma exact_small:
  assumes "x = of_int k * pow2 e" "0 < k" "k < 2 ^ 53" "e \<le> 900"
  shows "x < 2 ^ 1024"
proof -
  have "of_int k < (of_int (2 ^ 53) :: rat)" using assms(3) by (simp only: of_int_less_iff)
  then have "x < pow2 53 * pow2 e" using assms(1) by (simp add: pow2_def[of 53])
  also have "\<dots> = pow2 (53 + e)" by (simp add: pow2_add)
  also have "\<dots> \<le> pow2 1023" using assms(4) by (intro pow2_mono) simp
  also have "\<dots> < 2 ^ 1024" by (simp add: pow2_def)
  finally show ?thesis .
qed

lemma to_dbl_exact [simp]:
  assumes "exact x"
  shows "to_dbl x = Fin x"
proof -
  obtain k e where x: "x = of_int k * pow2 e" "\<bar>k\<bar> < 2 ^ 53" "- 1074 \<le> e" "e \<le> 900"
    using assms by (auto simp: exact_def)
  consider "k = 0" | "0 < k" | "0 < - k" by linarith
  then show ?thesis
  proof cases
    case 2
    then have "0 < x" using x by simp
    with 2 x round_abs_exact[of x k e] exact_small[of x k e] show ?thesis
      by (simp add: to_dbl_def Let_def)
  next
    case 3
    then have "x < 0" using x by (simp add: mult_less_0_iff)
    moreover have "- x = of_int (- k) * pow2 e" using x by simp
    ultimately show ?thesis using 3 x round_abs_exact[of "- x" "- k" e] exact_small[of "- x" "- k" e]
      by (simp add: to_dbl_def Let_def)
  qed (use x in \<open>simp add: to_dbl_def\<close>)
qed

lemma exactI: "x = of_int k * pow2 e \<Longrightarrow> \<bar>k\<bar> < 2 ^ 53 \<Longrightarrow> - 1074 \<le> e \<Longrightarrow> e \<le> 900 \<Longrightarrow> exact x"
  by (auto simp: exact_def)

lemma exact_int: "\<bar>k\<bar> < 2 ^ 53 \<Longrightarrow> exact (of_int k)"
  by (rule exactI[of _ k 0]) (simp_all add: pow2_def)

lemma exact_frac:
  assumes "\<bar>k\<bar> < 2 ^ 53" "n \<le> 1074"
  shows "exact (of_int k / 2 ^ n)"
  using assms by (intro exactI[of _ k "- int n"]) (auto simp: pow2_def)

end
