(* ===== verification/Urng.thy ===== *)
theory Urng
  imports DblArith "HOL-Library.Signed_Division"
begin

text \<open>The uniform generators of the library newran that ITGSend draws from
  (src/ITGSend/newran/newran1.cpp, newran.h).  An unsigned long is a word of 64 bits, a short one of
  16; a long is an integer, none of whose values leaves 64 bits.  A throw is Inl of the exception.
  ITGSend itself uses MotherOfAll.\<close>

subsection \<open>Exceptions\<close>

datatype nr_error = Runtime_error string | Logic_error string | Invalid_argument string

type_synonym 'a nr = "nr_error + 'a"

definition nr_bind :: "'a nr \<Rightarrow> ('a \<Rightarrow> 'b nr) \<Rightarrow> 'b nr" where
  "nr_bind m f = (case m of Inl e \<Rightarrow> Inl e | Inr x \<Rightarrow> f x)"

lemma nr_bind_simps [simp]: "nr_bind (Inl e) f = Inl e" "nr_bind (Inr x) f = f x"
  by (simp_all add: nr_bind_def)

lemma nr_bind_Inr: "nr_bind m f = Inr y \<longleftrightarrow> (\<exists>x. m = Inr x \<and> f x = Inr y)"
  by (cases m) auto

definition seed_range :: nr_error where
  "seed_range = Logic_error ''Newran: seed out of range''"

subsection \<open>Lewis, Goodman and Miller\<close>

record lgm =
  lg_seed :: int
  lg_Update :: bool

record lgm_mixed = lgm +
  lg_Buffer :: "int list"
  lg_seed_mixed :: int

definition LGM_base :: "dbl \<Rightarrow> lgm nr" where
  "LGM_base s = (if d_le (Fin 1) s \<or> d_le s (Fin 0) then Inl seed_range
     else Inr \<lparr>lg_seed = long_of (d_mul s (Fin 2147483648)), lg_Update = False\<rparr>)"

definition LGM_NextValue :: "int \<Rightarrow> int" where
  "LGM_NextValue seed =
     (let hi = seed sdiv 127773; lo = seed - hi * 127773; s = 16807 * lo - 2836 * hi
      in if s \<le> 0 then s + 2147483647 else s)"

definition LGM_base_Next :: "'a lgm_scheme \<Rightarrow> dbl \<times> 'a lgm_scheme" where
  "LGM_base_Next g = (let s = LGM_NextValue (lg_seed g)
     in (d_quot (d_int s) (Fin 2147483648), g\<lparr>lg_seed := s\<rparr>))"

definition LGM_base_ulNext :: "'a lgm_scheme \<Rightarrow> u64 \<times> 'a lgm_scheme" where
  "LGM_base_ulNext g = (let s = LGM_NextValue (lg_seed g)
     in (push_bit 1 (of_int s), g\<lparr>lg_seed := s\<rparr>))"

text \<open>The buffer of the mixed generator: n more values; the seed is the last one.\<close>

fun LGM_fill :: "nat \<Rightarrow> int \<Rightarrow> int list \<times> int" where
  "LGM_fill 0 seed = ([], seed)"
| "LGM_fill (Suc n) seed = (let s = LGM_NextValue seed in
     case LGM_fill n s of (b, s') \<Rightarrow> (s # b, s'))"

text \<open>The member seed_mixed starts undefined: it is set before it is read.\<close>

definition LGM_mixed :: "int \<Rightarrow> dbl \<Rightarrow> lgm_mixed nr" where
  "LGM_mixed junk s = nr_bind (LGM_base s) (\<lambda>g. case LGM_fill 128 (lg_seed g) of (b, s') \<Rightarrow>
     Inr \<lparr>lg_seed = s', lg_Update = lg_Update g, lg_Buffer = b, lg_seed_mixed = junk\<rparr>)"

definition LGM_mixed_NextValue :: "lgm_mixed \<Rightarrow> lgm_mixed" where
  "LGM_mixed_NextValue g =
     (case LGM_base_Next g of (u, g1) \<Rightarrow>
        let i = int_of (d_mul u (Fin 128)); s = LGM_NextValue (lg_seed g1)
        in g1\<lparr>lg_seed := s, lg_seed_mixed := lg_Buffer g1 ! nat i,
              lg_Buffer := (lg_Buffer g1)[nat i := s]\<rparr>)"

definition LGM_mixed_Next :: "lgm_mixed \<Rightarrow> dbl \<times> lgm_mixed" where
  "LGM_mixed_Next g = (let h = LGM_mixed_NextValue g
     in (d_quot (d_int (lg_seed_mixed h)) (Fin 2147483648), h))"

definition LGM_mixed_ulNext :: "lgm_mixed \<Rightarrow> u64 \<times> lgm_mixed" where
  "LGM_mixed_ulNext g = (let h = LGM_mixed_NextValue g
     in (push_bit 1 (of_int (lg_seed_mixed h)), h))"

subsection \<open>Wichmann and Hill\<close>

record wh =
  wh_seed1 :: u64
  wh_seed2 :: u64
  wh_seed3 :: u64
  wh_Update :: bool

definition WH :: "dbl \<Rightarrow> wh nr" where
  "WH s = (if d_le (Fin 1) s \<or> d_le s (Fin 0) then Inl seed_range
     else Inr \<lparr>wh_seed1 = ulong_of (d_mul s (Fin 30269)), wh_seed2 = 1234, wh_seed3 = 5678,
       wh_Update = False\<rparr>)"

definition d_ulong :: "u64 \<Rightarrow> dbl" where "d_ulong w = d_int (uint w)"

definition WH_Next :: "wh \<Rightarrow> dbl \<times> wh" where
  "WH_Next g =
     (let s1 = 171 * wh_seed1 g mod 30269; s2 = 172 * wh_seed2 g mod 30307;
          s3 = 170 * wh_seed3 g mod 30323;
          x = d_add (d_add (d_quot (d_ulong s1) (Fin 30269)) (d_quot (d_ulong s2) (Fin 30307)))
                (d_quot (d_ulong s3) (Fin 30323))
      in (if d_lt x (Fin 1) then x else if d_lt x (Fin 2) then d_sub x (Fin 1) else d_sub x (Fin 2),
          g\<lparr>wh_seed1 := s1, wh_seed2 := s2, wh_seed3 := s3\<rparr>))"

definition WH_ulNext :: "wh \<Rightarrow> u64 \<times> wh" where
  "WH_ulNext g = (case WH_Next g of (u, h) \<Rightarrow> (ulong_of (d_floor (d_mul u (Fin 4294967296))), h))"

subsection \<open>Fishman and Moore\<close>

record fm =
  fm_seed :: u64
  fm_Update :: bool

definition FM :: "dbl \<Rightarrow> fm nr" where
  "FM s = (if d_le (Fin 1) s \<or> d_le s (Fin 0) then Inl seed_range
     else Inr \<lparr>fm_seed = ulong_of (d_mul s (Fin 2147483648)), fm_Update = False\<rparr>)"

definition FM_NextValue :: "u64 \<Rightarrow> u64" where
  "FM_NextValue x =
     (let a1x1 = 0x38AA * drop_bit 16 x; a0x0 = 0xA0C8 * (x AND 0xFFFF);
          m = (0xFFFF97E2 * ((x AND 0xFFFF) - drop_bit 16 x) + a1x1 + a0x0) AND 0xFFFFFFFF;
          a1x1' = a1x1 + drop_bit 16 m; ax = push_bit 16 m AND 0xFFFFFFFF;
          a0x0' = a0x0 + ax; a1x1'' = (if a0x0' < ax then a1x1' + 1 else a1x1');
          y = push_bit 1 a1x1'' + drop_bit 31 a0x0' + (a0x0' AND 0x7FFFFFFF)
      in if y AND 0x80000000 \<noteq> 0 then y - 2147483647 else y)"

definition FM_Next :: "fm \<Rightarrow> dbl \<times> fm" where
  "FM_Next g = (let s = FM_NextValue (fm_seed g)
     in (d_quot (d_ulong s) (Fin 2147483648), g\<lparr>fm_seed := s\<rparr>))"

definition FM_ulNext :: "fm \<Rightarrow> u64 \<times> fm" where
  "FM_ulNext g = (let s = FM_NextValue (fm_seed g) in (push_bit 1 s, g\<lparr>fm_seed := s\<rparr>))"

subsection \<open>The mother of all generators\<close>

record mother =
  mother1 :: "u16 list"
  mother2 :: "u16 list"
  mStart :: u16
  mo_seed :: u64
  mo_Update :: bool

text \<open>The arrays of ten shorts start undefined.\<close>

definition MotherOfAll :: "u16 list \<Rightarrow> u16 list \<Rightarrow> dbl \<Rightarrow> mother nr" where
  "MotherOfAll junk1 junk2 s =
     (if d_le (Fin 1) s \<or> d_le s (Fin 0) then Inl seed_range
      else let seed = ulong_of (d_mul s (Fin 2147483648))
        in if 2147483647 < seed \<or> seed = 0 then Inl seed_range
           else Inr \<lparr>mother1 = junk1, mother2 = junk2, mStart = 1, mo_seed = seed, mo_Update = False\<rparr>)"

text \<open>One number of the start-up: multiply with carry on 16 bits.  The product is of type int.\<close>

definition mother_start_number :: "u16 \<Rightarrow> u64 \<Rightarrow> u64" where
  "mother_start_number sNumber number = scast (30903 * ucast sNumber :: u32) + drop_bit 16 number"

text \<open>The numbers of the start-up, n of them; the arrays get nine each, carries first.\<close>

fun mother_numbers :: "nat \<Rightarrow> u16 \<Rightarrow> u64 \<Rightarrow> u16 list" where
  "mother_numbers 0 sNumber number = []"
| "mother_numbers (Suc n) sNumber number =
     (let m = mother_start_number sNumber number; s = ucast (m AND 0xFFFF)
      in s # mother_numbers n s m)"

definition mother_init :: "mother \<Rightarrow> mother" where
  "mother_init g =
     (let ns = mother_numbers 18 (ucast (mo_seed g AND 0xFFFF)) (mo_seed g AND 0x7FFFFFFF);
          m1 = take 9 ns @ drop 9 (mother1 g); m2 = drop 9 ns @ drop 9 (mother2 g)
      in g\<lparr>mother1 := m1[0 := m1 ! 0 AND 0x7FFF], mother2 := m2[0 := m2 ! 0 AND 0x7FFF],
           mStart := 0\<rparr>)"

text \<open>memmove (m+2, m+1, 8 shorts).\<close>

definition mother_shift :: "u16 list \<Rightarrow> u16 list" where
  "mother_shift m = take 2 m @ take 8 (drop 1 m) @ drop 10 m"

definition mother_coeffs1 :: "u32 list" where
  "mother_coeffs1 = [1941, 1860, 1812, 1776, 1492, 1215, 1066, 12013]"

definition mother_coeffs2 :: "u32 list" where
  "mother_coeffs2 = [1111, 2222, 3333, 4444, 5555, 6666, 7777, 9272]"

text \<open>The carry is sign-extended to unsigned long; the linear combination is an int.\<close>

definition mother_combine :: "u32 list \<Rightarrow> u16 list \<Rightarrow> u64" where
  "mother_combine as m = scast (m ! 0) +
     scast (sum_list (map2 (*) as (map scast (take 8 (drop 2 m)))) :: u32)"

definition mother_store :: "u16 list \<Rightarrow> u64 \<Rightarrow> u16 list" where
  "mother_store m number = m[0 := ucast (number div 65536), 1 := ucast (0xFFFF AND number)]"

definition Mother :: "mother \<Rightarrow> mother" where
  "Mother g0 =
     (let g = (if mStart g0 \<noteq> 0 then mother_init g0 else g0);
          m1 = mother_shift (mother1 g); m2 = mother_shift (mother2 g);
          m1' = mother_store m1 (mother_combine mother_coeffs1 m1);
          m2' = mother_store m2 (mother_combine mother_coeffs2 m2)
      in g\<lparr>mother1 := m1', mother2 := m2',
           mo_seed := (push_bit 16 (scast (m1' ! 1)) + scast (m2' ! 1)) AND 0xFFFFFFFF\<rparr>)"

definition Mother_Next :: "mother \<Rightarrow> dbl \<times> mother" where
  "Mother_Next g = (let h = Mother g
     in (d_quot (d_add (d_ulong (mo_seed h)) (Fin (1 / 2))) (Fin 4294967296), h))"

definition Mother_ulNext :: "mother \<Rightarrow> u64 \<times> mother" where
  "Mother_ulNext g = (let h = Mother g in (mo_seed h, h))"

subsection \<open>Multiply with carry\<close>

record mwc =
  mw_x :: u64
  mw_crry :: u64
  mw_Update :: bool

definition MultWithCarry :: "dbl \<Rightarrow> mwc nr" where
  "MultWithCarry s = (if d_le (Fin 1) s \<or> d_le s (Fin 0) then Inl seed_range
     else Inr \<lparr>mw_x = ulong_of (d_mul s (Fin 4294967296)), mw_crry = 1234567, mw_Update = False\<rparr>)"

text \<open>The build does not define HAS_INT64: the product is formed from halves.\<close>

definition MWC_NextValue :: "u64 \<times> u64 \<Rightarrow> u64 \<times> u64" where
  "MWC_NextValue xc = (case xc of (x, crry) \<Rightarrow>
     let mult = 2083801278; m_hi = drop_bit 16 mult; m_lo = mult AND 0xFFFF;
         x_hi = drop_bit 16 x; x_lo = x AND 0xFFFF;
         c_hi = drop_bit 16 crry; c_lo = crry AND 0xFFFF;
         y = x_lo * m_lo + c_lo;
         axc = x_lo * m_hi + x_hi * m_lo + c_hi + drop_bit 16 y
     in ((y AND 0xFFFF) + (push_bit 16 axc AND 0xFFFFFFFF), x_hi * m_hi + drop_bit 16 axc))"

definition MWC_step :: "mwc \<Rightarrow> mwc" where
  "MWC_step g = (case MWC_NextValue (mw_x g, mw_crry g) of (x, c) \<Rightarrow> g\<lparr>mw_x := x, mw_crry := c\<rparr>)"

definition MWC_Next :: "mwc \<Rightarrow> dbl \<times> mwc" where
  "MWC_Next g = (let h = MWC_step g
     in (d_quot (d_add (d_ulong (mw_x h)) (Fin (1 / 2))) (Fin 4294967296), h))"

definition MWC_ulNext :: "mwc \<Rightarrow> u64 \<times> mwc" where
  "MWC_ulNext g = (let h = MWC_step g in (mw_x h, h))"

subsection \<open>Mersenne Twister\<close>

text \<open>The state is static: all objects of the class share it.  None is an access outside of the array,
  as an index read from a seed file can give.\<close>

record mt_static =
  mt :: "u64 list"
  mti :: int

definition mt0 :: mt_static where "mt0 = \<lparr>mt = replicate 624 0, mti = 625\<rparr>"

fun mt_init_loop :: "nat \<Rightarrow> nat \<Rightarrow> u64 list \<Rightarrow> u64 list" where
  "mt_init_loop 0 i m = m"
| "mt_init_loop (Suc n) i m =
     (let p = m ! (i - 1) in mt_init_loop n (i + 1)
        (m[i := (1812433253 * (p XOR drop_bit 30 p) + of_nat i) AND 0xFFFFFFFF]))"

definition init_genrand :: "u64 \<Rightarrow> mt_static \<Rightarrow> mt_static" where
  "init_genrand s g = g\<lparr>mt := mt_init_loop 623 1 ((mt g)[0 := s AND 0xFFFFFFFF]), mti := 624\<rparr>"

definition mag01 :: "u64 \<Rightarrow> u64" where
  "mag01 y = (if y AND 1 = 0 then 0 else 0x9908B0DF)"

definition mt_mix :: "u64 \<Rightarrow> u64 \<Rightarrow> u64 \<Rightarrow> u64" where
  "mt_mix a b c = (let y = (a AND 0x80000000) OR (b AND 0x7FFFFFFF)
     in c XOR drop_bit 1 y XOR mag01 y)"

text \<open>A loop over kk: n rounds, the word at distance d; the two loops are the first and the second.\<close>

fun mt_loop :: "nat \<Rightarrow> nat \<Rightarrow> int \<Rightarrow> u64 list \<Rightarrow> u64 list" where
  "mt_loop 0 kk d m = m"
| "mt_loop (Suc n) kk d m =
     mt_loop n (kk + 1) d (m[kk := mt_mix (m ! kk) (m ! (kk + 1)) (m ! nat (int kk + d))])"

definition mt_generate :: "u64 list \<Rightarrow> u64 list" where
  "mt_generate m =
     (let m1 = mt_loop 227 0 397 m; m2 = mt_loop 396 227 (- 227) m1
      in m2[623 := mt_mix (m2 ! 623) (m2 ! 0) (m2 ! 396)])"

definition temper :: "u64 \<Rightarrow> u64" where
  "temper y =
     (let a = y XOR drop_bit 11 y; b = a XOR (push_bit 7 a AND 0x9D2C5680);
          c = b XOR (push_bit 15 b AND 0xEFC60000)
      in c XOR drop_bit 18 c)"

definition genrand_int32 :: "mt_static \<Rightarrow> (u64 \<times> mt_static) option" where
  "genrand_int32 g0 =
     (let g = (if mti g0 \<ge> 624
               then (let g1 = (if mti g0 = 625 then init_genrand 5489 g0 else g0)
                     in g1\<lparr>mt := mt_generate (mt g1), mti := 0\<rparr>)
               else g0)
      in if mti g < 0 then None else Some (temper (mt g ! nat (mti g)), g\<lparr>mti := mti g + 1\<rparr>))"

definition MT :: "dbl \<Rightarrow> mt_static \<Rightarrow> mt_static" where
  "MT s g = init_genrand (ulong_of (d_mul s (Fin 4294967296))) g"

definition MT_Next :: "mt_static \<Rightarrow> (dbl \<times> mt_static) option" where
  "MT_Next g = map_option (map_prod
     (\<lambda>y. d_quot (d_add (d_ulong y) (Fin (1 / 2))) (Fin 4294967296)) (\<lambda>h. h)) (genrand_int32 g)"

end
