(* ===== verification/Urng_Facts.thy ===== *)
theory Urng_Facts
  imports Urng
begin

text \<open>What the uniform generators of newran compute.\<close>

subsection \<open>Halves of words\<close>

lemma and_low16: "x AND 0xFFFF = take_bit 16 (x :: 'a :: len word)"
  by (simp add: take_bit_eq_mask mask_eq_exp_minus_1)

lemma and_low31: "x AND 0x7FFFFFFF = take_bit 31 (x :: 'a :: len word)"
  by (simp add: take_bit_eq_mask mask_eq_exp_minus_1)

lemma and_low32: "x AND 0xFFFFFFFF = take_bit 32 (x :: 'a :: len word)"
  by (simp add: take_bit_eq_mask mask_eq_exp_minus_1)

lemma uint_take64: "uint (take_bit n (x :: u64)) = uint x mod 2 ^ n"
proof -
  have "uint (take_bit n x) = take_bit n (uint x)"
    by (rule bit_eqI) (auto simp: bit_simps dest: bit_imp_le_length)
  then show ?thesis by (simp only: take_bit_eq_mod)
qed

lemma uint_drop64: "uint (drop_bit n (x :: u64)) = uint x div 2 ^ n"
proof -
  have "uint (drop_bit n x) = drop_bit n (uint x)"
    by (rule bit_eqI) (auto simp: bit_simps dest: bit_imp_le_length)
  then show ?thesis by (simp only: drop_bit_eq_div)
qed

lemma uint_push64: "uint x * 2 ^ n < 2 ^ 64 \<Longrightarrow> uint (push_bit n (x :: u64)) = uint x * 2 ^ n"
proof -
  assume b: "uint x * 2 ^ n < 2 ^ 64"
  have "uint (push_bit n x) = take_bit 64 (push_bit n (uint x))"
    by (rule bit_eqI) (auto simp: bit_simps dest: bit_imp_le_length)
  also have "\<dots> = uint x * 2 ^ n mod 2 ^ 64" by (simp only: push_bit_eq_mult take_bit_eq_mod)
  also have "\<dots> = uint x * 2 ^ n" using b by (intro mod_pos_pos_trivial) simp_all
  finally show ?thesis .
qed

lemma uint_add64: "uint x + uint y < 2 ^ 64 \<Longrightarrow> uint (x + y :: u64) = uint x + uint y"
  by (simp add: uint_word_ariths)

lemma uint_mult64: "uint x * uint y < 2 ^ 64 \<Longrightarrow> uint (x * y :: u64) = uint x * uint y"
  by (simp add: uint_word_ariths)

lemma len64: "LENGTH(64) = 64" by simp

lemmas word_parts = and_low16 and_low31 and_low32

subsection \<open>LGM\<close>

lemma mod_near: "- m < s \<Longrightarrow> s < m \<Longrightarrow> s mod m = (if s < 0 then s + m else s)" for s m :: int
  using mod_pos_pos_trivial[of "s + m" m] by (simp add: mod_pos_pos_trivial)

lemma lgm_coprime: "2147483647 dvd 16807 * x \<longleftrightarrow> 2147483647 dvd (x :: int)"
proof
  assume "2147483647 dvd 16807 * x"
  then obtain k where k: "16807 * x = 2147483647 * k" by (elim dvdE)
  have "x = 1407677000 * (16807 * x) - 2147483647 * (11017 * x)" by simp
  also have "\<dots> = 2147483647 * (1407677000 * k - 11017 * x)" by (simp add: k)
  finally show "2147483647 dvd x" by (rule dvdI)
qed simp

lemma LGM_NextValue_nonneg:
  assumes "0 \<le> x"
  shows "LGM_NextValue x = (let s = 16807 * (x mod 127773) - 2836 * (x div 127773)
    in if s \<le> 0 then s + 2147483647 else s)"
proof -
  have "x sdiv 127773 = x div 127773" using assms
    by (cases "x = 0") (simp_all add: signed_divide_int_def)
  then show ?thesis by (simp only: LGM_NextValue_def Let_def minus_div_mult_eq_mod)
qed

text \<open>The decomposition of Schrage is the multiplication by 16807 modulo the prime 2^31-1, for every
  seed of its range, and stays in the range.\<close>

lemma LGM_NextValue_mod:
  assumes "0 < x" "x < 2147483647"
  shows "LGM_NextValue x = 16807 * x mod 2147483647"
proof -
  define h l s where "h = x div 127773" and "l = x mod 127773" and "s = 16807 * l - 2836 * h"
  have x: "x = 127773 * h + l" by (simp add: h_def l_def)
  have hl: "0 \<le> h" "h \<le> 16807" "0 \<le> l" "l < 127773" using assms by (auto simp: h_def l_def)
  have sx: "16807 * x = s + 2147483647 * h" using x by (simp add: s_def)
  have b: "- 2147483647 < s" "s < 2147483647" using hl by (auto simp: s_def)
  have nz: "s \<noteq> 0"
  proof
    assume "s = 0"
    then have "2147483647 dvd 16807 * x" using sx by simp
    then have "2147483647 dvd x" by (simp only: lgm_coprime)
    with assms show False by (auto dest: zdvd_imp_le)
  qed
  have "(s + 2147483647 * h) mod 2147483647 = (if s < 0 then s + 2147483647 else s)"
    using mod_near[OF b] by simp
  moreover have "LGM_NextValue x = (if s \<le> 0 then s + 2147483647 else s)"
    using assms by (simp only: LGM_NextValue_nonneg Let_def s_def h_def l_def less_imp_le)
  ultimately show ?thesis using nz by (simp only: sx) auto
qed

lemma LGM_NextValue_range:
  assumes "0 < x" "x < 2147483647"
  shows "0 < LGM_NextValue x" "LGM_NextValue x < 2147483647"
proof -
  have "\<not> 2147483647 dvd 16807 * x" using assms by (auto simp only: lgm_coprime dest: zdvd_imp_le)
  then have "16807 * x mod 2147483647 \<noteq> 0" by (simp add: dvd_eq_mod_eq_0)
  moreover have "0 \<le> 16807 * x mod 2147483647" "16807 * x mod 2147483647 < 2147483647" by simp_all
  ultimately show "0 < LGM_NextValue x" "LGM_NextValue x < 2147483647"
    unfolding LGM_NextValue_mod[OF assms] by linarith+
qed

text \<open>Two seeds that the constructor accepts lie outside of the range, and the generator stands still
  on them: 0 for s below 2^-31, and 2^31-1 for s just below 1.\<close>

lemma LGM_stuck: "LGM_NextValue 0 = 2147483647" "LGM_NextValue 2147483647 = 2147483647"
  by (simp_all add: LGM_NextValue_def signed_divide_int_def)

text \<open>Whatever the seed was, the place in the buffer of the mixed generator exists.\<close>

lemma exact_over_31: "\<bar>k\<bar> < 2 ^ 53 \<Longrightarrow> exact (of_int k / 2147483648)"
  using exact_frac[of k 31] by simp

lemma d_quot_31:
  assumes "\<bar>k\<bar> < 2 ^ 53"
  shows "d_quot (d_int k) (Fin 2147483648) = Fin (of_int k / 2147483648)"
  using assms by (simp add: d_quot_def d_div_def d_int_def exact_int exact_over_31)

lemma LGM_NextValue_bounds:
  assumes "0 \<le> x" "x < 2 ^ 32"
  shows "0 < LGM_NextValue x" "LGM_NextValue x < 2 ^ 31"
proof -
  have "0 \<le> x div 127773" "x div 127773 \<le> 33614" using assms by simp_all
  moreover have "0 \<le> x mod 127773" "x mod 127773 < 127773" by simp_all
  ultimately show "0 < LGM_NextValue x" "LGM_NextValue x < 2 ^ 31"
    unfolding LGM_NextValue_nonneg[OF assms(1)] Let_def by (auto simp del: minus_mod_eq_mult_div)
qed

lemma mixed_index:
  assumes "0 \<le> x" "x < 2 ^ 31"
  shows "int_of (d_mul (d_quot (d_int x) (Fin 2147483648)) (Fin 128)) = x div 16777216"
proof -
  have e: "exact (of_int x / 16777216)" using exact_frac[of x 24] assms by simp
  have "(of_int x / 16777216 :: rat) < 128" using assms by simp
  then have "\<lfloor>of_int x / 16777216 :: rat\<rfloor> < 128" by (simp add: floor_less_iff)
  moreover have f: "\<lfloor>of_int x / 16777216 :: rat\<rfloor> = x div 16777216"
    using floor_divide_of_int_eq[of x 16777216, where ?'a = rat] by simp
  ultimately show ?thesis
    using assms e by (simp add: d_quot_31 d_mul_def int_of_def trunc_def)
qed

lemma length_LGM_fill [simp]: "length (fst (LGM_fill n s)) = n"
  by (induction n arbitrary: s) (simp_all add: Let_def case_prod_beta)

subsection \<open>Fishman and Moore\<close>

lemma fm_coprime: "2147483647 dvd 950706376 * x \<longleftrightarrow> 2147483647 dvd (x :: int)"
proof
  assume "2147483647 dvd 950706376 * x"
  then obtain k where k: "950706376 * x = 2147483647 * k" by (elim dvdE)
  have "x = 340363889 * (950706376 * x) - 2147483647 * (150681529 * x)" by simp
  also have "\<dots> = 2147483647 * (340363889 * k - 150681529 * x)" by (simp add: k)
  finally show "2147483647 dvd x" by (rule dvdI)
qed simp

text \<open>The middle part of the product of halves, modulo 2^32.\<close>

lemma fm_middle:
  assumes "0 \<le> x0" "x0 < 65536" "0 \<le> x1" "x1 < 32768"
    and x: "uint x = 65536 * x1 + (x0 :: int)" 
  shows "uint ((0xFFFF97E2 * ((x AND 0xFFFF) - drop_bit 16 x) + 0x38AA * drop_bit 16 x +
    0xA0C8 * (x AND 0xFFFF)) AND 0xFFFFFFFF :: u64) = 14506 * x0 + 41160 * x1"
proof -
  have lo: "uint (x AND 0xFFFF) = x0" using assms by (simp add: and_low16 uint_take64)
  have hi: "uint (drop_bit 16 x) = x1" using assms by (simp add: uint_drop64)
  define w where "w = 0xFFFF97E2 * ((x AND 0xFFFF) - drop_bit 16 x) + 0x38AA * drop_bit 16 x +
    0xA0C8 * (x AND 0xFFFF)"
  have "w = of_int (4294940642 * (x0 - x1) + 14506 * x1 + 41160 * x0)"
    by (simp add: w_def flip: lo hi)
  then have "uint w = (4294940642 * (x0 - x1) + 14506 * x1 + 41160 * x0) mod 2 ^ 64"
    by (simp only: uint_word_of_int len64)
  then have "uint w mod 2 ^ 32 = (4294940642 * (x0 - x1) + 14506 * x1 + 41160 * x0) mod 2 ^ 32"
    by (simp add: mod_mod_cancel)
  also have "4294940642 * (x0 - x1) + 14506 * x1 + 41160 * x0 =
      (14506 * x0 + 41160 * x1) + 2 ^ 32 * (x0 - x1)" by simp
  also have "\<dots> mod 2 ^ 32 = (14506 * x0 + 41160 * x1) mod 2 ^ 32" by (rule mod_mult_self2)
  also have "\<dots> = 14506 * x0 + 41160 * x1" using assms by (intro mod_pos_pos_trivial) simp_all
  finally show ?thesis unfolding w_def[symmetric] by (simp only: and_low32 uint_take64)
qed

text \<open>Reduction modulo 2^31-1 by adding the high part to the low one.\<close>

lemma mersenne_fold:
  fixes P :: int
  assumes "0 < P" "P < 2 ^ 62" "\<not> 2147483647 dvd P"
  defines "y \<equiv> P div 2147483648 + P mod 2147483648"
  shows "(if y \<ge> 2147483648 then y - 2147483647 else y) = P mod 2147483647"
proof -
  have P: "P = y + 2147483647 * (P div 2147483648)"
    unfolding y_def using div_mult_mod_eq[of P 2147483648] by linarith
  then have "P mod 2147483647 = y mod 2147483647" by (metis mod_mult_self2)
  moreover have "0 \<le> P div 2147483648" "P div 2147483648 < 2147483648"
    "0 \<le> P mod 2147483648" "P mod 2147483648 < 2147483648" using assms(1,2) by simp_all
  then have y: "0 \<le> y" "y < 2 * 2147483647 + 1" unfolding y_def by linarith+
  moreover have "\<not> 2147483647 dvd y"
    using assms(3) P by (metis dvd_add dvd_triv_left)
  then have "y \<noteq> 2147483647" "y \<noteq> 2 * 2147483647" by auto
  moreover have "y mod 2147483647 = (if y \<ge> 2147483647 then y - 2147483647 else y)"
    if "y < 2 * 2147483647" using that y mod_pos_pos_trivial[of "y - 2147483647" 2147483647]
    by (auto simp: mod_pos_pos_trivial)
  ultimately show ?thesis by auto
qed

lemma bit31_test:
  assumes "uint (y :: u64) < 2 ^ 32"
  shows "(y AND 0x80000000 \<noteq> 0) = (uint y \<ge> 2147483648)"
proof -
  have "(y AND 0x80000000 \<noteq> 0) = bit y 31"
    using and_exp_eq_0_iff_not_bit[of y 31] by simp
  moreover have "bit y 31 = odd (uint y div 2147483648)"
  proof -
    have "bit y 31 = bit (uint y) 31" by (simp add: bit_uint_iff)
    then show ?thesis by (simp only: bit_iff_odd[of "uint y"]) simp
  qed
  moreover have "uint y div 2147483648 = (if uint y \<ge> 2147483648 then 1 else 0)"
    using assms by (auto simp: div_pos_geq div_pos_pos_trivial)
  ultimately show ?thesis by simp
qed

lemma FM_NextValue_mod:
  assumes "0 < uint x" "uint x < 2147483647"
  shows "uint (FM_NextValue x) = 950706376 * uint x mod 2147483647"
proof -
  define x0 x1 mid where "x0 = uint x mod 65536" and "x1 = uint x div 65536"
    and "mid = 14506 * x0 + 41160 * x1"
  have x: "uint x = 65536 * x1 + x0" by (simp add: x0_def x1_def)
  have b: "0 \<le> x0" "x0 < 65536" "0 \<le> x1" "x1 < 32768" using assms by (simp_all add: x0_def x1_def)
  have lo: "uint (x AND 0xFFFF) = x0" by (simp add: and_low16 uint_take64 x0_def)
  have hi: "uint (drop_bit 16 x) = x1" by (simp add: uint_drop64 x1_def)
  define m where "m = (0xFFFF97E2 * ((x AND 0xFFFF) - drop_bit 16 x) + 0x38AA * drop_bit 16 x +
    0xA0C8 * (x AND 0xFFFF)) AND 0xFFFFFFFF"
  have m: "uint m = mid" using fm_middle[OF b x] by (simp add: m_def mid_def)
  have mb: "0 \<le> mid" "mid < 2 ^ 32" using b by (simp_all add: mid_def)
  define A B where "A = 0x38AA * drop_bit 16 x + drop_bit 16 m"
    and "B = 0xA0C8 * (x AND 0xFFFF) + (push_bit 16 m AND 0xFFFFFFFF)"
  have A: "uint A = 14506 * x1 + mid div 65536"
  proof -
    have "uint (0x38AA * drop_bit 16 x) = 14506 * x1" using b by (subst uint_mult64) (simp_all add: hi)
    moreover have "uint (drop_bit 16 m) = mid div 65536" by (simp add: uint_drop64 m)
    ultimately show ?thesis using b mb unfolding A_def by (subst uint_add64) simp_all
  qed
  have pm: "uint (push_bit 16 m AND 0xFFFFFFFF) = 65536 * mid mod 2 ^ 32"
    using mb by (simp only: and_low32 uint_take64, subst uint_push64) (simp_all add: m mult.commute)
  have pb: "0 \<le> 65536 * mid mod 2 ^ 32" "65536 * mid mod 2 ^ 32 < 2 ^ 32" by simp_all
  have B: "uint B = 41160 * x0 + 65536 * mid mod 2 ^ 32"
  proof -
    have "uint (0xA0C8 * (x AND 0xFFFF)) = 41160 * x0" using b by (subst uint_mult64) (simp_all add: lo)
    then show ?thesis using b pb unfolding B_def by (subst uint_add64) (simp_all add: pm)
  qed
  have no_carry: "\<not> B < (push_bit 16 m AND 0xFFFFFFFF)"
    using b by (simp only: word_less_alt B pm)
  define P where "P = 950706376 * uint x"
  have "65536 * mid = 4294967296 * (mid div 65536) + 65536 * mid mod 2 ^ 32"
    using mult_div_mod_eq[of 4294967296 "65536 * mid"] by simp
  then have P: "P = 4294967296 * uint A + uint B"
    by (simp add: P_def A B x mid_def)
  have Bb: "0 \<le> uint B" "uint B < 2 ^ 33" "uint A < 2 ^ 31" "0 \<le> uint A"
    using b pb mb by (simp_all add: A B)
  have Pd: "P div 2147483648 = 2 * uint A + uint B div 2147483648" unfolding P by simp
  have "P = uint B + 2147483648 * (2 * uint A)" unfolding P by simp
  then have Pm: "P mod 2147483648 = uint B mod 2147483648" by (simp only: mod_mult_self2)
  define y where "y = push_bit 1 A + drop_bit 31 B + (B AND 0x7FFFFFFF)"
  have y: "uint y = P div 2147483648 + P mod 2147483648"
  proof -
    have p1: "uint (push_bit 1 A) = 2 * uint A" using Bb by (subst uint_push64) simp_all
    have p2: "uint (drop_bit 31 B) = uint B div 2147483648" by (simp add: uint_drop64)
    have p3: "uint (B AND 0x7FFFFFFF) = uint B mod 2147483648" by (simp add: and_low31 uint_take64)
    have q: "uint B div 2147483648 < 4" "0 \<le> uint B div 2147483648"
      using Bb by (simp_all add: pos_imp_zdiv_nonneg_iff)
    have s: "uint (push_bit 1 A + drop_bit 31 B) = 2 * uint A + uint B div 2147483648"
    proof -
      have "uint (push_bit 1 A) + uint (drop_bit 31 B) < 2 ^ 64" unfolding p1 p2 using Bb q by simp
      then show ?thesis by (simp only: uint_add64 p1 p2)
    qed
    have "uint (push_bit 1 A + drop_bit 31 B) + uint (B AND 0x7FFFFFFF) < 2 ^ 64"
      unfolding s p3 using Bb q by simp
    then have "uint y = 2 * uint A + uint B div 2147483648 + uint B mod 2147483648"
      by (simp only: y_def uint_add64 s p3)
    then show ?thesis by (simp only: Pd Pm)
  qed
  have P62: "0 < P" "P < 2 ^ 62" "\<not> 2147483647 dvd P"
    using assms by (auto simp: P_def fm_coprime simp del: mult_less_cancel_left dest: zdvd_imp_le)
  have yb: "uint y < 2 ^ 32" using P62(1,2) unfolding y by simp
  have "(y AND 0x80000000 \<noteq> 0) = (uint y \<ge> 2147483648)"
    using yb by (rule bit31_test)
  moreover have "uint (y - 2147483647) = uint y - 2147483647" if "uint y \<ge> 2147483648"
    using that uint_sub_lem[of 2147483647 y] by simp
  moreover have "FM_NextValue x = (if y AND 0x80000000 \<noteq> 0 then y - 2147483647 else y)"
    using no_carry by (simp only: FM_NextValue_def Let_def y_def A_def B_def m_def if_False)
  ultimately show ?thesis using mersenne_fold[OF P62] by (auto simp: y P_def)
qed

subsection \<open>Multiply with carry\<close>

text \<open>Values of words, when nothing wraps around.\<close>

lemma val_add: "uint x = a \<Longrightarrow> uint y = b \<Longrightarrow> a + b < 18446744073709551616 \<Longrightarrow>
    uint (x + y :: u64) = a + b"
  using uint_add64[of x y] by simp

lemma val_mult: "uint x = a \<Longrightarrow> uint y = b \<Longrightarrow> a * b < 18446744073709551616 \<Longrightarrow>
    uint (x * y :: u64) = a * b"
  using uint_mult64[of x y] by simp

lemma val_low16: "uint x = a \<Longrightarrow> uint (x AND 0xFFFF :: u64) = a mod 65536"
  by (simp add: and_low16 uint_take64)

lemma val_low32: "uint x = a \<Longrightarrow> uint (x AND 0xFFFFFFFF :: u64) = a mod 4294967296"
  by (simp add: and_low32 uint_take64)

lemma val_high16: "uint x = a \<Longrightarrow> uint (drop_bit 16 x :: u64) = a div 65536"
  by (simp add: uint_drop64)

lemma val_shift16: "uint x = a \<Longrightarrow> a * 65536 < 18446744073709551616 \<Longrightarrow>
    uint (push_bit 16 x :: u64) = a * 65536"
  using uint_push64[of x 16] by simp

text \<open>The halves of the software product put together.\<close>

lemma mwc_digits:
  fixes x :: int
  assumes "x = 65536 * xh + xl" "c = 65536 * ch + cl" "xl * 18622 + cl = 65536 * yh + yl"
    "xl * 31796 + xh * 18622 + ch + yh = 65536 * th + t0"
  shows "4294967296 * (xh * 31796 + th) + (yl + 65536 * t0) = 2083801278 * x + c"
proof -
  have "yl = xl * 18622 + cl - 65536 * yh" "t0 = xl * 31796 + xh * 18622 + ch + yh - 65536 * th"
    using assms by simp_all
  then show ?thesis unfolding assms(1,2) by (simp add: algebra_simps)
qed

lemma mwc_halves:
  fixes x c :: int
  defines "y \<equiv> x mod 65536 * 18622 + c mod 65536"
  defines "t \<equiv> x mod 65536 * 31796 + x div 65536 * 18622 + c div 65536 + y div 65536"
  shows "4294967296 * (x div 65536 * 31796 + t div 65536) + (y mod 65536 + t * 65536 mod 4294967296)
    = 2083801278 * x + c"
proof -
  have "t * 65536 mod 4294967296 = 65536 * (t mod 65536)"
    using mult_mod_right[of 65536 t 65536] by (simp add: mult.commute)
  moreover have "x mod 65536 * 18622 + c mod 65536 = 65536 * (y div 65536) + y mod 65536"
    "x mod 65536 * 31796 + x div 65536 * 18622 + c div 65536 + y div 65536 = 65536 * (t div 65536) + t mod 65536"
    by (simp_all add: t_def y_def)
  ultimately show ?thesis by (simp only: mwc_digits[OF mult_div_mod_eq[symmetric] mult_div_mod_eq[symmetric]])
qed

text \<open>One step of the generator is one multiplication by 2083801278 with carry, in base 2^32.\<close>

lemma MWC_NextValue_product:
  assumes "uint x < 2 ^ 32" "uint c < 2083801278" "MWC_NextValue (x, c) = (x', c')"
  shows "4294967296 * uint c' + uint x' = 2083801278 * uint x + uint c"
    "uint x' < 2 ^ 32" "uint c' < 2083801278"
proof -
  define y t where "y = uint x mod 65536 * 18622 + uint c mod 65536"
    and "t = uint x mod 65536 * 31796 + uint x div 65536 * 18622 + uint c div 65536 + y div 65536"
  have b: "0 \<le> uint x mod 65536" "uint x mod 65536 < 65536" "0 \<le> uint x div 65536"
    "uint x div 65536 < 65536" "0 \<le> uint c mod 65536" "uint c mod 65536 < 65536"
    "0 \<le> uint c div 65536" "uint c div 65536 < 65536"
    using assms(1,2) by (simp_all add: pos_imp_zdiv_nonneg_iff)
  have y: "0 \<le> y" "y < 2147483648" using b unfolding y_def by linarith+
  then have yd: "0 \<le> y div 65536" "y div 65536 < 32768" by (simp_all add: pos_imp_zdiv_nonneg_iff)
  have t: "0 \<le> t" "t < 4294967296" using b yd unfolding t_def by linarith+
  have td: "0 \<le> t div 65536" "t div 65536 < 65536" using t by (simp_all add: pos_imp_zdiv_nonneg_iff)
  have low: "0 \<le> y mod 65536" "y mod 65536 < 65536" "0 \<le> t * 65536 mod 4294967296"
    "t * 65536 mod 4294967296 < 4294967296" by simp_all
  define Y T where "Y = (x AND 0xFFFF) * 18622 + (c AND 0xFFFF)"
    and "T = (x AND 0xFFFF) * 31796 + drop_bit 16 x * 18622 + drop_bit 16 c + drop_bit 16 Y"
  have Y: "uint Y = y"
    unfolding Y_def y_def using b by (intro val_add val_mult val_low16) (linarith | simp)+
  have T: "uint T = t"
    unfolding T_def t_def using b yd by (intro val_add val_mult val_low16 val_high16 Y) (linarith | simp)+
  have halves: "drop_bit 16 (2083801278 :: u64) = 31796" "(2083801278 :: u64) AND 0xFFFF = 18622"
    by simp_all
  have x': "x' = (Y AND 0xFFFF) + (push_bit 16 T AND 0xFFFFFFFF)"
    and c': "c' = drop_bit 16 x * 31796 + drop_bit 16 T"
    using assms(3) unfolding MWC_NextValue_def Let_def prod.case halves Y_def[symmetric] T_def[symmetric]
    by simp_all
  have ux: "uint x' = y mod 65536 + t * 65536 mod 4294967296"
    unfolding x' using low t by (intro val_add val_low16 val_low32 val_shift16 Y T) (linarith | simp)+
  have uc: "uint c' = uint x div 65536 * 31796 + t div 65536"
    unfolding c' using b td by (intro val_add val_mult val_high16 T) (linarith | simp)+
  show eq: "4294967296 * uint c' + uint x' = 2083801278 * uint x + uint c"
    unfolding ux uc y_def t_def by (rule mwc_halves)
  have "t * 65536 mod 4294967296 = 65536 * (t mod 65536)"
    using mult_mod_right[of 65536 t 65536] by (simp add: mult.commute)
  moreover have "t mod 65536 < 65536" by simp
  ultimately show "uint x' < 2 ^ 32" unfolding ux using low by simp
  show "uint c' < 2083801278" 
  proof -
    have "uint x < 4294967296" using assms(1) by simp
    with eq assms(2) uint_ge_0[of x'] show ?thesis by linarith
  qed
qed

subsection \<open>Sequences\<close>

text \<open>C35: From a seed in the range the generator of Lewis, Goodman and Miller, computed in long ints without
  overflow by Schrage's method, runs through the powers of 16807 modulo the prime 2^31 - 1.\<close>

theorem LGM_numbers:
  assumes "0 < x" "x < 2147483647"
  shows "(LGM_NextValue ^^ n) x = 16807 ^ n * x mod 2147483647 \<and>
    0 < (LGM_NextValue ^^ n) x \<and> (LGM_NextValue ^^ n) x < 2147483647"
proof (induction n)
  case (Suc n)
  then have "LGM_NextValue ((LGM_NextValue ^^ n) x) = 16807 * (16807 ^ n * x mod 2147483647) mod 2147483647"
    using LGM_NextValue_mod by simp
  also have "\<dots> = 16807 ^ Suc n * x mod 2147483647" by (simp add: mod_mult_right_eq mult.assoc)
  finally have "(LGM_NextValue ^^ Suc n) x = 16807 ^ Suc n * x mod 2147483647" using Suc by simp
  then show ?case using LGM_NextValue_range[of "(LGM_NextValue ^^ n) x"] Suc by simp
qed (use assms in simp)

theorem LGM_numbers_witness: "(LGM_NextValue ^^ 1000) 1 = 16807 ^ 1000 mod 2147483647"
proof -
  have "(1 :: int) < 2147483647" by simp
  from conjunct1[OF LGM_numbers[OF zero_less_one this, of 1000]] show ?thesis
    by (simp only: mult_1_right)
qed

end
