(* ===== verification/MT_Facts.thy ===== *)
theory MT_Facts
  imports Urng_Facts
begin

text \<open>The Mersenne Twister regenerates its array in place, in three parts that read words already
  replaced.  It yields the tempered words of the infinite sequence that the recurrence of MT19937
  defines.\<close>

fun mt_seq :: "u64 list \<Rightarrow> nat \<Rightarrow> u64" where
  "mt_seq m k = (if k < 624 then m ! k
     else mt_mix (mt_seq m (k - 624)) (mt_seq m (k - 623)) (mt_seq m (k - 227)))"

declare mt_seq.simps [simp del]
declare upt_rec_numeral [simp del]

lemma mt_seq_start: "k < 624 \<Longrightarrow> mt_seq m k = m ! k"
  by (simp add: mt_seq.simps)

lemma mt_seq_step: "mt_seq m (624 + k) = mt_mix (mt_seq m k) (mt_seq m (k + 1)) (mt_seq m (k + 397))"
  by (subst mt_seq.simps) (simp add: add.commute)

text \<open>The array when the first n words have been replaced.\<close>

definition mt_window :: "(nat \<Rightarrow> u64) \<Rightarrow> nat \<Rightarrow> u64 list" where
  "mt_window x n = map (\<lambda>i. if i < n then x (624 + i) else x i) [0..<624]"

lemma mt_window_nth: "i < 624 \<Longrightarrow> mt_window x n ! i = (if i < n then x (624 + i) else x i)"
  by (simp add: mt_window_def)

lemma mt_window_update: "n < 624 \<Longrightarrow> (mt_window x n)[n := x (624 + n)] = mt_window x (Suc n)"
  by (rule nth_equalityI) (auto simp: mt_window_def nth_list_update)

lemma mt_loop_window:
  assumes "\<And>k. x (624 + k) = mt_mix (x k) (x (k + 1)) (x (k + 397))"
  shows "d = 397 \<and> kk + n \<le> 227 \<or> d = - 227 \<and> 227 \<le> kk \<and> kk + n \<le> 623 \<Longrightarrow>
    mt_loop n kk d (mt_window x kk) = mt_window x (kk + n)"
proof (induction n arbitrary: kk)
  case (Suc n)
  then have k: "kk < 623" "nat (int kk + d) < 624" by auto
  have "mt_window x kk ! nat (int kk + d) = x (kk + 397)"
  proof (cases "d = 397")
    case True
    with Suc.prems have "nat (int kk + d) = kk + 397" "kk + 397 < 624" by auto
    then show ?thesis by (simp add: mt_window_nth)
  next
    case False
    with Suc.prems have d: "nat (int kk + d) = kk - 227" "227 \<le> kk" by auto
    then have "624 + (kk - 227) = kk + 397" by simp
    with d k show ?thesis by (simp add: mt_window_nth add.commute)
  qed
  moreover have "mt_window x kk ! kk = x kk" "mt_window x kk ! (kk + 1) = x (kk + 1)"
    using k by (simp_all add: mt_window_nth)
  ultimately have "mt_loop (Suc n) kk d (mt_window x kk) =
      mt_loop n (kk + 1) d ((mt_window x kk)[kk := x (624 + kk)])"
    using assms[of kk] by simp
  also have "\<dots> = mt_loop n (kk + 1) d (mt_window x (kk + 1))"
    using mt_window_update[of kk x] k by simp
  also have "\<dots> = mt_window x (kk + 1 + n)" using Suc.prems by (intro Suc.IH) auto
  finally show ?case by simp
qed simp

lemma mt_generate_seq:
  assumes "length m = 624"
  shows "mt_generate m = map (mt_seq m) [624..<1248]"
proof -
  let ?x = "mt_seq m"
  note w = mt_loop_window[of ?x, OF mt_seq_step]
  have "m = mt_window ?x 0"
    using assms by (intro nth_equalityI) (auto simp: mt_window_def mt_seq_start)
  then have "mt_loop 396 227 (- 227) (mt_loop 227 0 397 m) = mt_window ?x 623"
    using w[of 397 0 227] w[of "- 227" 227 396] by simp
  moreover have "mt_mix (mt_window ?x 623 ! 623) (mt_window ?x 623 ! 0) (mt_window ?x 623 ! 396) =
      ?x (624 + 623)"
    unfolding mt_seq_step by (simp add: mt_window_nth)
  ultimately have "mt_generate m = mt_window ?x 624"
    using mt_window_update[of 623 ?x] by (simp add: mt_generate_def Let_def)
  also have "\<dots> = map ?x [624..<1248]"
    by (rule nth_equalityI) (auto simp: mt_window_def)
  finally show ?thesis .
qed

lemma mt_seq_shift:
  assumes "length m = 624"
  shows "mt_seq (map (mt_seq m) [624..<1248]) k = mt_seq m (624 + k)"
proof (induction k rule: less_induct)
  case (less k)
  show ?case
  proof (cases "k < 624")
    case True then show ?thesis by (simp add: mt_seq_start)
  next
    case False
    then obtain j where k: "k = 624 + j" by (metis le_add_diff_inverse not_less)
    have "mt_seq m (624 + k) = mt_mix (mt_seq m (624 + j)) (mt_seq m (624 + (j + 1))) (mt_seq m (624 + (j + 397)))"
      using mt_seq_step[of m k] by (simp only: k add.assoc)
    moreover have "mt_seq (map (mt_seq m) [624..<1248]) k = mt_mix (mt_seq m (624 + j))
        (mt_seq m (624 + (j + 1))) (mt_seq m (624 + (j + 397)))"
      unfolding k mt_seq_step[of "map (mt_seq m) [624..<1248]" j]
      using less[of j] less[of "j + 1"] less[of "j + 397"] k by simp
    ultimately show ?thesis by simp
  qed
qed

fun mt_run :: "nat \<Rightarrow> mt_static \<Rightarrow> u64 list option" where
  "mt_run 0 g = Some []"
| "mt_run (Suc n) g = (case genrand_int32 g of None \<Rightarrow> None
     | Some (y, h) \<Rightarrow> map_option ((#) y) (mt_run n h))"

text \<open>From the middle of an array that is the one of m: i words of it have been read.\<close>

lemma mt_run_seq:
  assumes "length (mt g) = 624" "mti g = int i" "i \<le> 624"
  shows "mt_run n g = Some (map (\<lambda>k. temper (mt_seq (mt g) (i + k))) [0..<n])"
  using assms
proof (induction n arbitrary: g i)
  case (Suc n)
  show ?case
  proof (cases "i = 624")
    case True
    let ?h = "g\<lparr>mt := mt_generate (mt g), mti := 1\<rparr>"
    have m: "mt_generate (mt g) = map (mt_seq (mt g)) [624..<1248]"
      using Suc.prems by (simp add: mt_generate_seq)
    have "genrand_int32 g = Some (temper (mt_seq (mt g) 624), ?h)"
      using Suc.prems True by (simp add: genrand_int32_def Let_def m)
    moreover have "mt_run n ?h = Some (map (\<lambda>k. temper (mt_seq (mt ?h) (1 + k))) [0..<n])"
      by (rule Suc.IH) (simp_all add: m)
    ultimately show ?thesis
      using True mt_seq_shift[OF Suc.prems(1)]
      by (simp add: m map_upt_Suc add.assoc del: upt_Suc)
  next
    case False
    with Suc.prems have i: "i < 624" by simp
    let ?h = "g\<lparr>mti := int (i + 1)\<rparr>"
    have "genrand_int32 g = Some (temper (mt_seq (mt g) i), ?h)"
      using Suc.prems i by (simp add: genrand_int32_def mt_seq_start add.commute)
    moreover have "mt_run n ?h = Some (map (\<lambda>k. temper (mt_seq (mt ?h) (i + 1 + k))) [0..<n])"
      using Suc.prems i by (intro Suc.IH) simp_all
    ultimately show ?thesis by (simp add: map_upt_Suc del: upt_Suc)
  qed
qed simp

lemma length_mt_init_loop [simp]: "length (mt_init_loop n i m) = length m"
  by (induction n i m rule: mt_init_loop.induct) (simp_all add: Let_def)

text \<open>What a generator yields after it was given a seed.\<close>

text \<open>C34: However many numbers are drawn, the array that MersenneTwister regenerates in place every 624
  numbers gives, tempered, the sequence of the recurrence of MT19937, which knows no array.\<close>

theorem MT_draws:
  assumes "length (mt g) = 624"
  shows "mt_run n (MT s g) = Some (map (\<lambda>k. temper (mt_seq (mt (MT s g)) (624 + k))) [0..<n])"
  using assms by (intro mt_run_seq) (simp_all add: MT_def init_genrand_def)

theorem MT_draws_witness:
  "mt_run 1000 (MT (Fin (1 / 2)) mt0) = Some (map (\<lambda>k. temper (mt_seq (mt (MT (Fin (1 / 2)) mt0)) (624 + k))) [0..<1000])"
  by (rule MT_draws) (simp add: mt0_def)

declare upt_rec_numeral [simp]

end
