(* ===== verification/SeedFile.thy ===== *)
theory SeedFile
  imports Urng
begin

text \<open>The state of a uniform generator on disk (src/ITGSend/newran/newran1.cpp: hex, unhex, ReadVerify,
  WriteVerify and the members CSFD and CSTD).  A directory is a map from paths to texts.  An input
  stream is what has not been read yet and whether a reading has failed; an extraction skips blanks.\<close>

record disk =
  dk_files :: "string \<Rightarrow> string option"
  dk_writable :: "string \<Rightarrow> bool"
  dk_Dir :: string

record istream =
  is_rest :: string
  is_bad :: bool

definition ifstream :: "disk \<Rightarrow> string \<Rightarrow> istream" where
  "ifstream d path = (case dk_files d path of
      None \<Rightarrow> \<lparr>is_rest = [], is_bad = True\<rparr> | Some t \<Rightarrow> \<lparr>is_rest = t, is_bad = False\<rparr>)"

definition get_char :: "istream \<Rightarrow> char option \<times> istream" where
  "get_char st = (if is_bad st then (None, st) else case dropWhile is_space (is_rest st) of
      [] \<Rightarrow> (None, \<lparr>is_rest = [], is_bad = True\<rparr>)
    | c # t \<Rightarrow> (Some c, st\<lparr>is_rest := t\<rparr>))"

definition hex :: "u64 \<Rightarrow> nat \<Rightarrow> char" where
  "hex s n = (let sn = unat (drop_bit n s AND 0xF) in
     if sn < 10 then char_of (48 + sn) else char_of (65 + (sn - 10)))"

text \<open>Characters from 128 on are negative.\<close>

definition unhex :: "char \<Rightarrow> nat \<Rightarrow> u64 nr" where
  "unhex c n = (let v = of_char c :: nat; bad = Inl (Runtime_error ''newran: invalid character in unhex'') in
     if v < 48 \<or> v \<ge> 128 then bad
     else if v \<le> 57 then Inr (push_bit n (of_nat (v - 48)))
     else if v < 65 then bad
     else if v \<le> 70 then Inr (push_bit n (of_nat (v - 65 + 10)))
     else bad)"

definition v_string :: string where "v_string = ''!Newran03!''"

fun verify_loop :: "bool \<Rightarrow> bool \<Rightarrow> string \<Rightarrow> istream \<Rightarrow> istream nr" where
  "verify_loop first missing_ok [] st = Inr st"
| "verify_loop first missing_ok (v # vs) st = (case get_char st of (c, st') \<Rightarrow>
     if is_bad st' then (if first \<and> missing_ok then Inr st'
       else Inl (Runtime_error ''Newran: seed file verification fails''))
     else if c \<noteq> Some v then Inl (Runtime_error ''Newran: seed file verification fails'')
     else verify_loop False missing_ok vs st')"

definition ReadVerify :: "bool \<Rightarrow> istream \<Rightarrow> istream nr" where
  "ReadVerify missing_ok st =
     (if is_bad st then (if missing_ok then Inr st else Inl (Runtime_error ''Newran: can't open seed file''))
      else verify_loop True missing_ok v_string st)"

text \<open>The digits of one number.  A failed extraction leaves the character x as it was; at first it is
  undefined, for which a NUL stands.\<close>

fun read_hex :: "nat list \<Rightarrow> char \<Rightarrow> u64 \<Rightarrow> istream \<Rightarrow> (u64 \<times> char \<times> istream) nr" where
  "read_hex [] x acc st = Inr (acc, x, st)"
| "read_hex (n # ns) x acc st = (case get_char st of (c, st') \<Rightarrow>
     let x' = (case c of None \<Rightarrow> x | Some d \<Rightarrow> d)
     in nr_bind (unhex x' n) (\<lambda>h. read_hex ns x' (acc OR h) st'))"

fun read_hexes :: "nat list list \<Rightarrow> char \<Rightarrow> istream \<Rightarrow> (u64 list \<times> istream) nr" where
  "read_hexes [] x st = Inr ([], st)"
| "read_hexes (ns # nss) x st = nr_bind (read_hex ns x 0 st) (\<lambda>(w, x', st').
     nr_bind (read_hexes nss x' st') (\<lambda>(ws, st''). Inr (w # ws, st'')))"

definition shifts32 :: "nat list" where "shifts32 = [28, 24, 20, 16, 12, 8, 4, 0]"

definition shifts16 :: "nat list" where "shifts16 = [12, 8, 4, 0]"

text \<open>What the members CSFD have in common: the mark, the numbers, the mark.\<close>

definition read_seed_file :: "string \<Rightarrow> nat list list \<Rightarrow> disk \<Rightarrow> u64 list nr" where
  "read_seed_file name nss d =
     nr_bind (ReadVerify False (ifstream d (dk_Dir d @ name))) (\<lambda>st.
     nr_bind (read_hexes nss CHR 0x00 st) (\<lambda>(ws, st').
     nr_bind (ReadVerify False st') (\<lambda>_. Inr ws)))"

text \<open>And the members CSTD: whatever the generator, the file whose mark is verified is lgm_mix.txt.\<close>

definition hexes :: "(nat list \<times> u64) list \<Rightarrow> string" where
  "hexes nws = concat (map (\<lambda>(ns, w). map (hex w) ns) nws)"

definition write_seed_file :: "string \<Rightarrow> (nat list \<times> u64) list \<Rightarrow> disk \<Rightarrow> disk nr" where
  "write_seed_file name nws d =
     nr_bind (ReadVerify True (ifstream d (dk_Dir d @ ''lgm_mix.txt''))) (\<lambda>_.
       let path = dk_Dir d @ name in
       if \<not> dk_writable d path then Inl (Runtime_error ''Newran: can't access seed file'')
       else Inr (d\<lparr>dk_files := (dk_files d)(path \<mapsto> v_string @ hexes nws @ v_string @ [CHR 0x0A])\<rparr>))"

subsection \<open>The generators\<close>

definition LGM_mixed_CSFD :: "bool \<Rightarrow> disk \<Rightarrow> lgm_mixed \<Rightarrow> lgm_mixed nr" where
  "LGM_mixed_CSFD update d g = nr_bind (read_seed_file ''lgm_mix.txt'' [shifts32] d) (\<lambda>ws.
     case LGM_fill 128 (uint (ws ! 0)) of (b, s) \<Rightarrow>
       Inr (g\<lparr>lg_seed := s, lg_Buffer := b, lg_Update := update\<rparr>))"

definition LGM_mixed_CSTD :: "lgm_mixed \<Rightarrow> disk \<Rightarrow> disk nr" where
  "LGM_mixed_CSTD g = write_seed_file ''lgm_mix.txt'' [(shifts32, of_int (lg_seed g))]"

definition LGM_simple_CSFD :: "bool \<Rightarrow> disk \<Rightarrow> lgm \<Rightarrow> lgm nr" where
  "LGM_simple_CSFD update d g = nr_bind (read_seed_file ''lgm.txt'' [shifts32] d) (\<lambda>ws.
     Inr (g\<lparr>lg_seed := uint (ws ! 0), lg_Update := update\<rparr>))"

definition LGM_simple_CSTD :: "lgm \<Rightarrow> disk \<Rightarrow> disk nr" where
  "LGM_simple_CSTD g = write_seed_file ''lgm.txt'' [(shifts32, of_int (lg_seed g))]"

definition WH_CSFD :: "bool \<Rightarrow> disk \<Rightarrow> wh \<Rightarrow> wh nr" where
  "WH_CSFD update d g = nr_bind (read_seed_file ''wh.txt'' [shifts32, shifts32, shifts32] d) (\<lambda>ws.
     Inr (g\<lparr>wh_seed1 := ws ! 0, wh_seed2 := ws ! 1, wh_seed3 := ws ! 2, wh_Update := update\<rparr>))"

definition WH_CSTD :: "wh \<Rightarrow> disk \<Rightarrow> disk nr" where
  "WH_CSTD g = write_seed_file ''wh.txt''
     [(shifts32, wh_seed1 g), (shifts32, wh_seed2 g), (shifts32, wh_seed3 g)]"

text \<open>Ten pairs of shorts.\<close>

definition Mother_CSFD :: "bool \<Rightarrow> disk \<Rightarrow> mother \<Rightarrow> mother nr" where
  "Mother_CSFD update d g = nr_bind (read_seed_file ''mother.txt'' (replicate 20 shifts16) d) (\<lambda>ws.
     Inr (g\<lparr>mother1 := map (\<lambda>i. ucast (ws ! (2 * i))) [0..<10],
            mother2 := map (\<lambda>i. ucast (ws ! (2 * i + 1))) [0..<10], mStart := 0, mo_Update := update\<rparr>))"

definition Mother_CSTD :: "mother \<Rightarrow> disk \<Rightarrow> disk nr" where
  "Mother_CSTD g = write_seed_file ''mother.txt''
     (concat (map (\<lambda>i. [(shifts16, scast (mother1 g ! i)), (shifts16, scast (mother2 g ! i))]) [0..<10]))"

definition MWC_CSFD :: "bool \<Rightarrow> disk \<Rightarrow> mwc \<Rightarrow> mwc nr" where
  "MWC_CSFD update d g = nr_bind (read_seed_file ''multwc.txt'' [shifts32, shifts32] d) (\<lambda>ws.
     Inr (g\<lparr>mw_x := ws ! 0, mw_crry := ws ! 1, mw_Update := update\<rparr>))"

definition MWC_CSTD :: "mwc \<Rightarrow> disk \<Rightarrow> disk nr" where
  "MWC_CSTD g = write_seed_file ''multwc.txt'' [(shifts32, mw_x g), (shifts32, mw_crry g)]"

text \<open>The index is an int.\<close>

definition MT_CSFD :: "disk \<Rightarrow> mt_static \<Rightarrow> mt_static nr" where
  "MT_CSFD d g = nr_bind (read_seed_file ''mt19937.txt'' (replicate 624 shifts32 @ [shifts32]) d) (\<lambda>ws.
     Inr (g\<lparr>mt := take 624 ws, mti := sint (ucast (ws ! 624) :: u32)\<rparr>))"

definition MT_CSTD :: "mt_static \<Rightarrow> disk \<Rightarrow> disk nr" where
  "MT_CSTD g = write_seed_file ''mt19937.txt''
     (map (\<lambda>w. (shifts32, w)) (mt g) @ [(shifts32, of_int (mti g))])"

definition FM_CSFD :: "bool \<Rightarrow> disk \<Rightarrow> fm \<Rightarrow> fm nr" where
  "FM_CSFD update d g = nr_bind (read_seed_file ''fm.txt'' [shifts32] d) (\<lambda>ws.
     Inr (g\<lparr>fm_seed := ws ! 0, fm_Update := update\<rparr>))"

definition FM_CSTD :: "fm \<Rightarrow> disk \<Rightarrow> disk nr" where
  "FM_CSTD g = write_seed_file ''fm.txt'' [(shifts32, fm_seed g)]"

end
