(* ===== verification/Mother_Facts.thy ===== *)
theory Mother_Facts
  imports Urng_Facts
begin

text \<open>MotherOfAll, the generator of ITGSend, against a reference in integers: two multiply-with-carry
  generators whose digits have 16 bits and a sign (the arrays hold shorts), put together to one
  number of 32 bits.  A state of the reference is the carry with the last eight digits, the latest
  first.\<close>

subsection \<open>The reference\<close>

definition ref_digit :: "int \<Rightarrow> int" where
  "ref_digit t = (t + 32768) mod 65536 - 32768"

definition ref_sum :: "int list \<Rightarrow> int \<times> int list \<Rightarrow> int" where
  "ref_sum as s = fst s + sum_list (map2 (*) as (snd s))"

definition ref_step :: "int list \<Rightarrow> int \<times> int list \<Rightarrow> int \<times> int list" where
  "ref_step as s = (let t = ref_sum as s in (t div 65536, ref_digit t # butlast (snd s)))"

definition ref_coeffs1 :: "int list" where
  "ref_coeffs1 = [1941, 1860, 1812, 1776, 1492, 1215, 1066, 12013]"

definition ref_coeffs2 :: "int list" where
  "ref_coeffs2 = [1111, 2222, 3333, 4444, 5555, 6666, 7777, 9272]"

definition ref_seed :: "(int \<times> int list) \<times> (int \<times> int list) \<Rightarrow> int" where
  "ref_seed s = (65536 * hd (snd (fst s)) + hd (snd (snd s))) mod 4294967296"

fun ref_draws :: "nat \<Rightarrow> (int \<times> int list) \<times> (int \<times> int list) \<Rightarrow> rat list" where
  "ref_draws 0 s = []"
| "ref_draws (Suc n) s = (let s' = (ref_step ref_coeffs1 (fst s), ref_step ref_coeffs2 (snd s))
     in (of_int (ref_seed s') + 1 / 2) / 4294967296 # ref_draws n s')"

text \<open>A draw lies strictly between 0 and 1, and is never the middle.\<close>

lemma ref_draw_range:
  assumes "0 \<le> k" "k < 4294967296"
  shows "0 < (of_int k + 1 / 2) / (4294967296 :: rat)" "(of_int k + 1 / 2) / (4294967296 :: rat) < 1"
    "(of_int k + 1 / 2) / (4294967296 :: rat) \<noteq> 1 / 2"
proof -
  have "(0 :: rat) \<le> of_int k" using assms by simp
  then show "0 < (of_int k + 1 / 2) / (4294967296 :: rat)" by simp
  have "(of_int k :: rat) \<le> of_int 4294967295" using assms by (simp only: of_int_le_iff)
  then show "(of_int k + 1 / 2) / (4294967296 :: rat) < 1" by simp
  show "(of_int k + 1 / 2) / (4294967296 :: rat) \<noteq> 1 / 2"
  proof
    assume "(of_int k + 1 / 2) / (4294967296 :: rat) = 1 / 2"
    then have "of_int (2 * k + 1) = (of_int 4294967296 :: rat)" by simp
    then have "2 * k + 1 = 4294967296" by (simp only: of_int_eq_iff)
    then show False by presburger
  qed
qed

lemma ref_draws_range:
  "q \<in> set (ref_draws n s) \<Longrightarrow> 0 < q \<and> q < 1 \<and> q \<noteq> 1 / 2"
proof (induction n arbitrary: s)
  case (Suc n)
  define s' where "s' = (ref_step ref_coeffs1 (fst s), ref_step ref_coeffs2 (snd s))"
  have "0 \<le> ref_seed s'" "ref_seed s' < 4294967296" by (simp_all add: ref_seed_def)
  note r = ref_draw_range[OF this]
  from Suc.prems consider "q = (of_int (ref_seed s') + 1 / 2) / 4294967296" | "q \<in> set (ref_draws n s')"
    by (auto simp: Let_def s'_def)
  then show ?case
  proof cases
    case 1 with r show ?thesis by simp
  next
    case 2 then show ?thesis by (rule Suc.IH)
  qed
qed simp

subsection \<open>One array\<close>

definition mother_abs :: "u16 list \<Rightarrow> int \<times> int list" where
  "mother_abs m = (sint (m ! 0), map sint (take 8 (drop 1 m)))"

lemma sint16_bounds: "- 32768 \<le> sint (x :: u16)" "sint x \<le> 32767"
  using sint_ge[of x] sint_lt[of x] by simp_all

lemma ucast_drop16: "ucast (drop_bit 16 (of_int t :: u64)) = (of_int (t div 65536) :: u16)"
proof -
  have "(of_int (drop_bit 16 t) :: u16) = ucast (drop_bit 16 (of_int t :: u64))"
    by (rule bit_word_eqI) (auto simp: bit_simps)
  then show ?thesis by (simp add: drop_bit_eq_div)
qed

lemma sint_of_int16: "- 32768 \<le> t \<Longrightarrow> t < 32768 \<Longrightarrow> sint (of_int t :: u16) = t"
  by (simp add: signed_of_int signed_take_bit_int_eq_self)

lemma sint_of_int32: "- 2147483648 \<le> t \<Longrightarrow> t < 2147483648 \<Longrightarrow> sint (of_int t :: u32) = t"
  by (simp add: signed_of_int signed_take_bit_int_eq_self)

lemma scast_of_int32:
  assumes "- 2147483648 \<le> t" "t < 2147483648"
  shows "(scast (of_int t :: u32) :: u64) = of_int t"
proof -
  have "(scast (of_int t :: u32) :: u64) = of_int (sint (of_int t :: u32))" by simp
  then show ?thesis by (simp only: sint_of_int32[OF assms])
qed

lemma sint_digit: "sint (of_int t :: u16) = ref_digit t"
proof -
  have "(of_int (ref_digit t) :: u16) = of_int t"
  proof -
    have "ref_digit t = t - 65536 * ((t + 32768) div 65536)"
      unfolding ref_digit_def by (simp add: minus_mult_div_eq_mod [symmetric])
    moreover have "(of_int 65536 :: u16) = 0" by simp
    ultimately show ?thesis by (simp only: of_int_diff of_int_mult) simp
  qed
  moreover have "- 32768 \<le> ref_digit t" "ref_digit t < 32768" by (simp_all add: ref_digit_def)
  ultimately show ?thesis using sint_of_int16[of "ref_digit t"] by simp
qed

lemma combine_of_int:
  "sum_list (map2 (*) as (map scast xs)) =
    (of_int (sum_list (map2 (*) (map uint as) (map sint (xs :: u16 list)))) :: u32)"
proof (induction as xs rule: list_induct2')
  case (4 a as x xs)
  have "(scast x :: u32) = of_int (sint x)" by simp
  with 4 show ?case by simp
qed simp_all

text \<open>Coefficients that keep the combination inside 32 bits.\<close>

definition small_coeffs :: "u32 list \<Rightarrow> bool" where
  "small_coeffs as \<longleftrightarrow> sum_list (map uint as) \<le> 60000"

lemma sum_uint_nonneg [simp]: "0 \<le> sum_list (map uint as)"
  by (induction as) simp_all

lemma combine_bound:
  "\<bar>sum_list (map2 (*) (map uint as) (map sint (xs :: u16 list)))\<bar> \<le> 32768 * sum_list (map uint (as :: u32 list))"
proof (induction as xs rule: list_induct2')
  case (4 a as x xs)
  have "\<bar>uint a * sint x\<bar> = uint a * \<bar>sint x\<bar>" by (simp add: abs_mult)
  also have "\<dots> \<le> uint a * 32768" using sint16_bounds[of x] by (intro mult_left_mono) auto
  finally show ?case using 4 by (simp add: algebra_simps)
qed (simp_all add: add_nonneg_nonneg)

lemma mother_shift_nth:
  "length m = 10 \<Longrightarrow> mother_shift m ! 0 = m ! 0"
  "length m = 10 \<Longrightarrow> take 8 (drop 2 (mother_shift m)) = take 8 (drop 1 m)"
  by (simp_all add: mother_shift_def nth_append)

lemma length_mother_shift [simp]: "length m = 10 \<Longrightarrow> length (mother_shift m) = 10"
  by (simp add: mother_shift_def)

lemma mother_combine_int:
  assumes "length m = 10" "small_coeffs as"
  shows "mother_combine as (mother_shift m) = of_int (ref_sum (map uint as) (mother_abs m))"
    "\<bar>ref_sum (map uint as) (mother_abs m)\<bar> < 2000000000"
proof -
  let ?k = "sum_list (map2 (*) (map uint as) (map sint (take 8 (drop 1 m))))"
  have k: "\<bar>?k\<bar> \<le> 1966080000"
    using combine_bound[of as "take 8 (drop 1 m)"] assms(2) by (simp add: small_coeffs_def)
  then have "(scast (sum_list (map2 (*) as (map scast (take 8 (drop 1 m)))) :: u32) :: u64) = of_int ?k"
    by (simp only: combine_of_int) (rule scast_of_int32, simp_all)
  then show "mother_combine as (mother_shift m) = of_int (ref_sum (map uint as) (mother_abs m))"
    unfolding mother_combine_def mother_shift_nth[OF assms(1)] by (simp add: ref_sum_def mother_abs_def)
  show "\<bar>ref_sum (map uint as) (mother_abs m)\<bar> < 2000000000"
    using k sint16_bounds[of "m ! 0"] by (simp add: ref_sum_def mother_abs_def)
qed

definition mother_array_step :: "u32 list \<Rightarrow> u16 list \<Rightarrow> u16 list" where
  "mother_array_step as m = mother_store (mother_shift m) (mother_combine as (mother_shift m))"

lemma length_mother_array_step [simp]: "length m = 10 \<Longrightarrow> length (mother_array_step as m) = 10"
  by (simp add: mother_array_step_def mother_store_def)

text \<open>One array makes a step of the reference.\<close>

lemma mother_array_step_ref:
  assumes "length m = 10" "small_coeffs as"
  shows "mother_abs (mother_array_step as m) = ref_step (map uint as) (mother_abs m)"
proof -
  define t where "t = ref_sum (map uint as) (mother_abs m)"
  have t: "mother_combine as (mother_shift m) = of_int t" "\<bar>t\<bar> < 2000000000"
    using mother_combine_int[OF assms] by (simp_all add: t_def)
  obtain a0 a1 a2 a3 a4 a5 a6 a7 a8 a9 where m: "m = [a0, a1, a2, a3, a4, a5, a6, a7, a8, a9]"
    using assms(1) by (auto simp: length_Suc_conv numeral_eq_Suc)
  then have t_eq: "ref_sum (map uint as) (sint a0, [sint a1, sint a2, sint a3, sint a4, sint a5,
      sint a6, sint a7, sint a8]) = t"
    by (simp add: t_def mother_abs_def numeral_eq_Suc)
  have c: "(ucast ((of_int t :: u64) div 65536) :: u16) = of_int (t div 65536)"
    using ucast_drop16[of t] by (simp add: drop_bit_eq_div)
  have d: "(ucast (0xFFFF AND (of_int t :: u64)) :: u16) = of_int t"
    by (rule bit_word_eqI) (auto simp: bit_simps and.commute[of "0xFFFF"] and_low16)
  have "- 32768 \<le> t div 65536" "t div 65536 < 32768" using t(2) by auto
  then have "sint (of_int (t div 65536) :: u16) = t div 65536" by (rule sint_of_int16)
  then show ?thesis
    unfolding mother_array_step_def t(1) mother_store_def c d
    by (simp add: mother_abs_def ref_step_def sint_digit Let_def m mother_shift_def numeral_eq_Suc t_eq)
qed

subsection \<open>The generator\<close>

definition mother_ok :: "mother \<Rightarrow> bool" where
  "mother_ok g \<longleftrightarrow> length (mother1 g) = 10 \<and> length (mother2 g) = 10"

text \<open>The state before the first draw is what the start-up makes of the seed.\<close>

definition mother_ready :: "mother \<Rightarrow> mother" where
  "mother_ready g = (if mStart g \<noteq> 0 then mother_init g else g)"

definition mother_state :: "mother \<Rightarrow> (int \<times> int list) \<times> (int \<times> int list)" where
  "mother_state g = (mother_abs (mother1 (mother_ready g)), mother_abs (mother2 (mother_ready g)))"

lemma length_mother_numbers [simp]: "length (mother_numbers n s m) = n"
  by (induction n arbitrary: s m) (simp_all add: Let_def)

lemma mother_ready_ok:
  assumes "mother_ok g"
  shows "mother_ok (mother_ready g)" "mStart (mother_ready g) = 0"
  using assms by (simp_all add: mother_ready_def mother_ok_def mother_init_def Let_def)

lemma Mother_eq:
  "Mother g = (let r = mother_ready g; m1 = mother_array_step mother_coeffs1 (mother1 r);
      m2 = mother_array_step mother_coeffs2 (mother2 r)
    in r\<lparr>mother1 := m1, mother2 := m2,
         mo_seed := (push_bit 16 (scast (m1 ! 1)) + scast (m2 ! 1)) AND 0xFFFFFFFF\<rparr>)"
  by (simp add: Mother_def mother_ready_def mother_array_step_def Let_def)

lemma Mother_ok: "mother_ok g \<Longrightarrow> mother_ok (Mother g)"
  using mother_ready_ok[of g] by (simp add: Mother_eq Let_def mother_ok_def)

lemma Mother_started: "mother_ok g \<Longrightarrow> mStart (Mother g) = 0"
  using mother_ready_ok[of g] by (simp add: Mother_eq Let_def)

lemma coeffs_small: "small_coeffs mother_coeffs1" "small_coeffs mother_coeffs2"
  "map uint mother_coeffs1 = ref_coeffs1" "map uint mother_coeffs2 = ref_coeffs2"
  by (simp_all add: small_coeffs_def mother_coeffs1_def mother_coeffs2_def ref_coeffs1_def ref_coeffs2_def)

lemma Mother_state:
  assumes "mother_ok g"
  shows "mother_state (Mother g) =
    (ref_step ref_coeffs1 (fst (mother_state g)), ref_step ref_coeffs2 (snd (mother_state g)))"
proof -
  have "mother_ready (Mother g) = Mother g"
    using Mother_started[OF assms] by (simp add: mother_ready_def)
  moreover have "length (mother1 (mother_ready g)) = 10" "length (mother2 (mother_ready g)) = 10"
    using mother_ready_ok[OF assms] by (simp_all add: mother_ok_def)
  ultimately show ?thesis
    by (simp add: mother_state_def) (simp add: Mother_eq Let_def mother_array_step_ref coeffs_small)
qed

lemma combined_seed:
  "uint ((push_bit 16 (scast (a :: u16)) + scast (b :: u16)) AND 0xFFFFFFFF :: u64) =
    (65536 * sint a + sint b) mod 4294967296"
proof -
  have "push_bit 16 (scast a) + scast b = (of_int (65536 * sint a + sint b) :: u64)"
    by (simp add: push_bit_eq_mult)
  then have "uint (push_bit 16 (scast a) + scast b :: u64) = (65536 * sint a + sint b) mod 2 ^ 64"
    by (simp only: uint_word_of_int len64)
  then show ?thesis by (simp add: and_low32 uint_take64 mod_mod_cancel)
qed

lemma mother_abs_hd: "length m = 10 \<Longrightarrow> hd (snd (mother_abs m)) = sint (m ! 1)"
  by (cases m; cases "tl m") (auto simp: mother_abs_def numeral_eq_Suc)

lemma Mother_seed:
  assumes "mother_ok g"
  shows "uint (mo_seed (Mother g)) = ref_seed (mother_state (Mother g))"
proof -
  have "mother_ready (Mother g) = Mother g"
    using Mother_started[OF assms] by (simp add: mother_ready_def)
  moreover have "length (mother1 (Mother g)) = 10" "length (mother2 (Mother g)) = 10"
    using Mother_ok[OF assms] by (simp_all add: mother_ok_def)
  moreover have "uint (mo_seed (Mother g)) =
      (65536 * sint (mother1 (Mother g) ! 1) + sint (mother2 (Mother g) ! 1)) mod 4294967296"
    by (simp add: Mother_eq Let_def del: push_bit_eq_mult One_nat_def) (rule combined_seed)
  ultimately show ?thesis by (simp add: mother_state_def ref_seed_def mother_abs_hd)
qed

text \<open>The division to a double is exact.\<close>

lemma half_over_32:
  assumes "0 \<le> k" "k < 4294967296"
  shows "d_quot (d_add (d_int k) (Fin (1 / 2))) (Fin 4294967296) =
    Fin ((of_int k + 1 / 2) / 4294967296)"
proof -
  have "exact (of_int (2 * k + 1) / 2 ^ 1)" "exact (of_int (2 * k + 1) / 2 ^ 33)"
    using assms by (intro exact_frac; simp)+
  moreover have "(of_int (2 * k + 1) / 2 ^ 1 :: rat) = of_int k + 1 / 2"
    "(of_int (2 * k + 1) / 2 ^ 33 :: rat) = (of_int k + 1 / 2) / 4294967296" by simp_all
  ultimately have "exact (of_int k + 1 / 2)" "exact ((of_int k + 1 / 2) / 4294967296)" by metis+
  moreover have "exact (of_int k)" using assms by (intro exact_int) simp
  ultimately show ?thesis
    by (simp only: d_quot_def d_div_def d_add_def d_int_def to_dbl_exact prod.case dbl.case dbl.inject) simp
qed

fun mother_draws :: "nat \<Rightarrow> mother \<Rightarrow> dbl list" where
  "mother_draws 0 g = []"
| "mother_draws (Suc n) g = (case Mother_Next g of (u, h) \<Rightarrow> u # mother_draws n h)"

lemma mother_draws_ref:
  "mother_ok g \<Longrightarrow> mother_draws n g = map Fin (ref_draws n (mother_state g))"
proof (induction n arbitrary: g)
  case (Suc n)
  have b: "0 \<le> ref_seed (mother_state (Mother g))" "ref_seed (mother_state (Mother g)) < 4294967296"
    by (simp_all add: ref_seed_def)
  have "fst (Mother_Next g) = Fin ((of_int (ref_seed (mother_state (Mother g))) + 1 / 2) / 4294967296)"
    using half_over_32[OF b] by (simp add: Mother_Next_def Let_def d_ulong_def Mother_seed[OF Suc.prems])
  moreover have "snd (Mother_Next g) = Mother g" by (simp add: Mother_Next_def Let_def)
  ultimately show ?case
    using Suc.IH[OF Mother_ok[OF Suc.prems]] Mother_state[OF Suc.prems]
    by (simp add: case_prod_beta Let_def)
qed simp

text \<open>The seeds that the constructor accepts: those of at least 2^-31.\<close>

lemma MotherOfAll_accepts:
  assumes "exact q" "0 < q" "q < 1"
  shows "(\<exists>g. MotherOfAll j1 j2 (Fin q) = Inr g) \<longleftrightarrow> 1 / 2147483648 \<le> q"
proof -
  obtain k e where q: "q = of_int k * pow2 e" "\<bar>k\<bar> < 2 ^ 53" "- 1074 \<le> e" "e \<le> 900"
    using assms(1) by (auto simp: exact_def)
  have "exact (q * 2147483648)"
  proof (cases "e \<le> 869")
    case True
    have "pow2 (e + 31) = pow2 e * 2147483648" unfolding pow2_add by (simp add: pow2_def)
    with True q show ?thesis by (intro exactI[of _ k "e + 31"]) simp_all
  next
    case False
    have "k \<noteq> 0" "0 \<le> k"
      using q(1) assms(2) pow2_pos[of e] by (auto simp: zero_less_mult_iff)
    then have "(1 :: rat) \<le> of_int k" by simp
    moreover have "pow2 0 \<le> pow2 e" using False by (intro pow2_mono) simp
    ultimately have "1 \<le> of_int k * pow2 e" using mult_mono[of 1 "of_int k :: rat" 1 "pow2 e"]
      by (simp add: pow2_def)
    with q(1) assms(3) show ?thesis by simp
  qed
  then have m: "d_mul (Fin q) (Fin 2147483648) = Fin (q * 2147483648)" by (simp add: d_mul_def)
  define n where "n = \<lfloor>q * 2147483648\<rfloor>"
  have n: "0 \<le> n" "n < 2147483648" using assms by (simp_all add: n_def floor_less_iff)
  have "ulong_of (Fin (q * 2147483648)) = of_int n"
    using assms n by (simp add: ulong_of_def trunc_def n_def)
  moreover have "uint (of_int n :: u64) = n" using n by (simp only: uint_word_of_int) simp
  then have "(of_int n :: u64) = 0 \<longleftrightarrow> n = 0" "\<not> 2147483647 < (of_int n :: u64)"
    using n by (auto simp: word_less_alt uint_0_iff[symmetric])
  moreover have "n = 0 \<longleftrightarrow> q < 1 / 2147483648"
    using n(1) assms by (simp add: n_def floor_eq_iff field_simps)
  ultimately show ?thesis
    using assms by (auto simp: MotherOfAll_def m d_le_def Let_def not_less)
qed

end
