(* ===== verification/SeedFile_Facts.thy ===== *)
theory SeedFile_Facts
  imports SeedFile Mother_Facts MT_Facts
begin

text \<open>A generator that is restored from its seed file goes on where the one that wrote it stopped.\<close>

subsection \<open>Digits\<close>

lemma nibble_bound: "unat (w AND 0xF :: u64) < 16"
proof -
  have "w AND 0xF = take_bit 4 w" by (simp add: take_bit_eq_mask mask_eq_exp_minus_1)
  then have "uint (w AND 0xF) = uint w mod 2 ^ 4" by (simp only: uint_take64)
  then show ?thesis by (simp add: unat_eq_nat_uint nat_less_iff)
qed

lemma hex_value:
  assumes "unat (drop_bit n w AND 0xF) = v"
  shows "of_char (hex w n) = (if v < 10 then 48 + v else 55 + v)"
  using assms nibble_bound[of "drop_bit n w"] by (simp add: hex_def Let_def)

lemma unhex_hex: "unhex (hex w n) n = Inr (push_bit n (drop_bit n w AND 0xF))"
proof -
  define v where "v = unat (drop_bit n w AND 0xF)"
  have v: "v < 16" using nibble_bound[of "drop_bit n w"] by (simp add: v_def)
  have "drop_bit n w AND 0xF = of_nat v" by (simp add: v_def)
  then show ?thesis using v hex_value[of n w v, OF v_def[symmetric]]
    by (simp add: unhex_def Let_def)
qed

lemma hex_no_space: "\<not> is_space (hex w n)"
proof
  assume "is_space (hex w n)"
  then have "of_char (hex w n) \<in> {9, 10, 11, 12, 13, 32 :: nat}"
    by (auto simp: is_space_def)
  then show False using hex_value[of n w, OF refl] by (auto split: if_splits)
qed

lemma get_char_Cons: "\<not> is_space c \<Longrightarrow>
    get_char \<lparr>is_rest = c # t, is_bad = False\<rparr> = (Some c, \<lparr>is_rest = t, is_bad = False\<rparr>)"
  by (simp add: get_char_def)

definition nibbles :: "nat list \<Rightarrow> u64 \<Rightarrow> u64 \<Rightarrow> u64" where
  "nibbles ns w acc = fold (\<lambda>n a. a OR push_bit n (drop_bit n w AND 0xF)) ns acc"

lemma read_hex_hexes:
  "\<exists>x'. read_hex ns x acc \<lparr>is_rest = map (hex w) ns @ t, is_bad = False\<rparr> =
     Inr (nibbles ns w acc, x', \<lparr>is_rest = t, is_bad = False\<rparr>)"
  by (induction ns arbitrary: x acc) (simp_all add: nibbles_def get_char_Cons hex_no_space unhex_hex)

lemma read_hexes_hexes:
  "read_hexes (map fst nws) x \<lparr>is_rest = hexes nws @ t, is_bad = False\<rparr> =
     Inr (map (\<lambda>(ns, w). nibbles ns w 0) nws, \<lparr>is_rest = t, is_bad = False\<rparr>)"
proof (induction nws arbitrary: x)
  case (Cons nw nws)
  obtain ns w where nw: "nw = (ns, w)" by (cases nw)
  obtain x' where "read_hex ns x 0 \<lparr>is_rest = map (hex w) ns @ hexes nws @ t, is_bad = False\<rparr> =
      Inr (nibbles ns w 0, x', \<lparr>is_rest = hexes nws @ t, is_bad = False\<rparr>)"
    using read_hex_hexes by blast
  with Cons show ?case by (simp add: nw hexes_def)
qed (simp add: hexes_def)

lemma ReadVerify_mark:
  "ReadVerify m \<lparr>is_rest = v_string @ t, is_bad = False\<rparr> = Inr \<lparr>is_rest = t, is_bad = False\<rparr>"
  by (simp add: ReadVerify_def v_string_def get_char_Cons is_space_def)

lemma nibble_bit:
  "bit (push_bit n (drop_bit n w AND 0xF) :: u64) k \<longleftrightarrow> k < 64 \<and> n \<le> k \<and> k < n + 4 \<and> bit w k"
proof -
  have "drop_bit n w AND 0xF = take_bit 4 (drop_bit n w)"
    by (simp add: take_bit_eq_mask mask_eq_exp_minus_1)
  then show ?thesis by (auto simp: bit_simps)
qed

lemma nibbles_bit:
  "bit (nibbles ns w acc) k \<longleftrightarrow> bit acc k \<or> (\<exists>n\<in>set ns. k < 64 \<and> n \<le> k \<and> k < n + 4 \<and> bit w k)"
proof (induction ns arbitrary: acc)
  case (Cons n ns)
  have "nibbles (n # ns) w acc = nibbles ns w (acc OR push_bit n (drop_bit n w AND 0xF))"
    by (simp add: nibbles_def)
  then have "bit (nibbles (n # ns) w acc) k \<longleftrightarrow> (bit acc k \<or> k < 64 \<and> n \<le> k \<and> k < n + 4 \<and> bit w k) \<or>
      (\<exists>n\<in>set ns. k < 64 \<and> n \<le> k \<and> k < n + 4 \<and> bit w k)"
    by (simp only: Cons.IH bit_or_iff nibble_bit)
  then show ?case by (simp only: list.set bex_simps) blast
qed (simp add: nibbles_def)

lemma nibbles32: "nibbles shifts32 w 0 = w AND 0xFFFFFFFF"
proof (rule bit_word_eqI)
  fix k assume "k < LENGTH(64)"
  have "(\<exists>n\<in>set shifts32. n \<le> k \<and> k < n + 4) \<longleftrightarrow> k < 32" unfolding shifts32_def by (simp; arith)
  then show "bit (nibbles shifts32 w 0) k = bit (w AND 0xFFFFFFFF) k"
    using \<open>k < LENGTH(64)\<close> by (auto simp: nibbles_bit and_low32 bit_simps)
qed

lemma nibbles16: "nibbles shifts16 w 0 = w AND 0xFFFF"
proof (rule bit_word_eqI)
  fix k assume "k < LENGTH(64)"
  have "(\<exists>n\<in>set shifts16. n \<le> k \<and> k < n + 4) \<longleftrightarrow> k < 16" unfolding shifts16_def by (simp; arith)
  then show "bit (nibbles shifts16 w 0) k = bit (w AND 0xFFFF) k"
    using \<open>k < LENGTH(64)\<close> by (auto simp: nibbles_bit and_low16 bit_simps)
qed

text \<open>What is written is read back.\<close>

lemma seed_file_roundtrip:
  assumes "write_seed_file name nws d = Inr d'"
  shows "read_seed_file name (map fst nws) d' = Inr (map (\<lambda>(ns, w). nibbles ns w 0) nws)"
proof -
  have "dk_Dir d' = dk_Dir d"
    "dk_files d' (dk_Dir d @ name) = Some (v_string @ hexes nws @ v_string @ [CHR 0x0A])"
    using assms by (auto simp: write_seed_file_def nr_bind_Inr Let_def split: if_splits)
  then show ?thesis
    by (simp add: read_seed_file_def ifstream_def ReadVerify_mark read_hexes_hexes)
qed

subsection \<open>The generators\<close>

lemma seed_file_restores:
  assumes "write_seed_file name nws d = Inr d'" "nss = map fst nws"
    "map (\<lambda>(ns, w). nibbles ns w 0) nws = ws"
  shows "read_seed_file name nss d' = Inr ws"
  using seed_file_roundtrip[OF assms(1)] assms(2,3) by simp

lemma ucast_scast16: "ucast (nibbles shifts16 (scast (x :: u16)) 0) = x"
  unfolding nibbles16 by (rule bit_word_eqI) (auto simp: and_low16 bit_simps)

lemma upt_10: "[0..<10] = [0, 1, 2, 3, 4, 5, 6, 7, 8, 9]" by (simp add: upt_rec)

lemma mother_arrays_back:
  assumes "Mother_CSTD g d = Inr d'" "mother_ok g"
  shows "\<exists>h'. Mother_CSFD u d' h = Inr h' \<and> mother1 h' = mother1 g \<and> mother2 h' = mother2 g \<and> mStart h' = 0"
proof -
  let ?nws = "concat (map (\<lambda>i. [(shifts16, scast (mother1 g ! i)), (shifts16, scast (mother2 g ! i))]) [0..<10])"
  let ?n = "\<lambda>x. nibbles shifts16 (scast (x :: u16)) 0"
  let ?ws = "concat (map (\<lambda>i. [?n (mother1 g ! i), ?n (mother2 g ! i)]) [0..<10])"
  have "replicate 20 shifts16 = map fst ?nws" unfolding upt_10 by (simp add: numeral_eq_Suc)
  moreover have "map (\<lambda>(ns, w). nibbles ns w 0) ?nws = ?ws" unfolding upt_10 by simp
  ultimately have r: "read_seed_file ''mother.txt'' (replicate 20 shifts16) d' = Inr ?ws"
    by (rule seed_file_restores[OF assms(1)[unfolded Mother_CSTD_def]])
  have "map (\<lambda>i. ucast (?ws ! (2 * i))) [0..<10] = map (\<lambda>i. mother1 g ! i) [0..<10]"
    "map (\<lambda>i. ucast (?ws ! (2 * i + 1))) [0..<10] = map (\<lambda>i. mother2 g ! i) [0..<10]"
    unfolding upt_10 by (simp_all add: ucast_scast16)
  moreover have "map (\<lambda>i. mother1 g ! i) [0..<10] = mother1 g" "map (\<lambda>i. mother2 g ! i) [0..<10] = mother2 g"
    using assms(2) map_nth[of "mother1 g"] map_nth[of "mother2 g"] by (simp_all add: mother_ok_def)
  ultimately show ?thesis using r by (simp add: Mother_CSFD_def)
qed

text \<open>The seed itself is not written.  Before the first draw the arrays that are written are still
  undefined, and the seed is lost.\<close>

lemma mother_file_ignores_seed: "Mother_CSTD (g\<lparr>mo_seed := s, mStart := b\<rparr>) = Mother_CSTD g"
  by (simp add: Mother_CSTD_def)

lemma low32_id: "uint w < 2 ^ 32 \<Longrightarrow> nibbles shifts32 w 0 = w"
  unfolding nibbles32 word_uint_eq_iff by (simp add: and_low32 uint_take64)

lemma FM_restored:
  assumes "FM_CSTD g d = Inr d'" "uint (fm_seed g) < 2 ^ 32"
  shows "FM_CSFD u d' h = Inr (h\<lparr>fm_seed := fm_seed g, fm_Update := u\<rparr>)"
  using seed_file_restores[OF assms(1)[unfolded FM_CSTD_def], of "[shifts32]" "[fm_seed g]"] assms(2)
  by (simp add: FM_CSFD_def low32_id)

lemma MWC_restored:
  assumes "MWC_CSTD g d = Inr d'" "uint (mw_x g) < 2 ^ 32" "uint (mw_crry g) < 2 ^ 32"
  shows "MWC_CSFD u d' h = Inr (h\<lparr>mw_x := mw_x g, mw_crry := mw_crry g, mw_Update := u\<rparr>)"
  using seed_file_restores[OF assms(1)[unfolded MWC_CSTD_def], of "[shifts32, shifts32]"
    "[mw_x g, mw_crry g]"] assms(2,3)
  by (simp add: MWC_CSFD_def low32_id)

lemma WH_restored:
  assumes "WH_CSTD g d = Inr d'" "uint (wh_seed1 g) < 2 ^ 32" "uint (wh_seed2 g) < 2 ^ 32"
    "uint (wh_seed3 g) < 2 ^ 32"
  shows "WH_CSFD u d' h = Inr (h\<lparr>wh_seed1 := wh_seed1 g, wh_seed2 := wh_seed2 g,
    wh_seed3 := wh_seed3 g, wh_Update := u\<rparr>)"
  using seed_file_restores[OF assms(1)[unfolded WH_CSTD_def], of "[shifts32, shifts32, shifts32]"
    "[wh_seed1 g, wh_seed2 g, wh_seed3 g]"] assms(2-4)
  by (simp add: WH_CSFD_def low32_id)

lemma uint_of_seed: "0 \<le> k \<Longrightarrow> k < 2 ^ 32 \<Longrightarrow> uint (of_int k :: u64) = k"
  by (simp only: uint_word_of_int) simp

lemma LGM_simple_restored:
  assumes "LGM_simple_CSTD g d = Inr d'" "0 \<le> lg_seed g" "lg_seed g < 2 ^ 32"
  shows "LGM_simple_CSFD u d' h = Inr (h\<lparr>lg_seed := lg_seed g, lg_Update := u\<rparr>)"
  using seed_file_restores[OF assms(1)[unfolded LGM_simple_CSTD_def], of "[shifts32]"
    "[of_int (lg_seed g)]"] uint_of_seed[OF assms(2,3)] assms(3)
  by (simp add: LGM_simple_CSFD_def low32_id)

lemma MT_restored:
  assumes "MT_CSTD g d = Inr d'" "length (mt g) = 624" "\<forall>w\<in>set (mt g). uint w < 2 ^ 32"
    "0 \<le> mti g" "mti g \<le> 625"
  shows "MT_CSFD d' h = Inr (h\<lparr>mt := mt g, mti := mti g\<rparr>)"
proof -
  have "replicate 624 shifts32 @ [shifts32] = map fst (map (\<lambda>w. (shifts32, w)) (mt g) @ [(shifts32, of_int (mti g))])"
    using assms(2) by (simp add: map_replicate_const comp_def)
  moreover have "map (\<lambda>w. nibbles shifts32 w 0) (mt g) = mt g"
    using assms(3) by (simp add: low32_id map_idI)
  then have "map (\<lambda>(ns, w). nibbles ns w 0) (map (\<lambda>w. (shifts32, w)) (mt g) @ [(shifts32, of_int (mti g))]) =
      mt g @ [of_int (mti g)]"
    using low32_id[of "of_int (mti g)"] uint_of_seed[of "mti g"] assms(4,5) by (simp add: comp_def)
  ultimately have "read_seed_file ''mt19937.txt'' (replicate 624 shifts32 @ [shifts32]) d' = Inr (mt g @ [of_int (mti g)])"
    by (rule seed_file_restores[OF assms(1)[unfolded MT_CSTD_def]])
  moreover have "(ucast (of_int (mti g) :: u64) :: u32) = of_int (mti g)"
    by (rule bit_word_eqI) (auto simp: bit_simps)
  ultimately show ?thesis
    using assms(2,4,5) by (simp add: MT_CSFD_def nth_append sint_of_int32)
qed

text \<open>Every CSTD looks at the mark of lgm_mix.txt, so that another generator overwrites its own file
  whatever it holds, and refuses when lgm_mix.txt is some other file.\<close>

lemma CSTD_checks_other_file:
  assumes "dk_files d (dk_Dir d @ ''lgm_mix.txt'') = None" "dk_writable d (dk_Dir d @ ''lgm.txt'')"
  shows "\<exists>d'. LGM_simple_CSTD g (d\<lparr>dk_files := (dk_files d)(dk_Dir d @ ''lgm.txt'' \<mapsto> t)\<rparr>) = Inr d'"
  using assms by (simp add: LGM_simple_CSTD_def write_seed_file_def ifstream_def ReadVerify_def Let_def)

text \<open>The mixed generator fills its buffer anew from the seed: it does not go on where it stopped.\<close>

lemma LGM_mixed_not_restored:
  assumes "LGM_mixed_CSTD g d = Inr d'" "0 \<le> lg_seed g" "lg_seed g < 2 ^ 32"
  shows "LGM_mixed_CSFD u d' h = Inr (h\<lparr>lg_seed := snd (LGM_fill 128 (lg_seed g)),
    lg_Buffer := fst (LGM_fill 128 (lg_seed g)), lg_Update := u\<rparr>)"
  using seed_file_restores[OF assms(1)[unfolded LGM_mixed_CSTD_def], of "[shifts32]"
    "[of_int (lg_seed g)]"] uint_of_seed[OF assms(2,3)] assms(3)
  by (simp add: LGM_mixed_CSFD_def low32_id case_prod_beta)

end
