(* ===== verification/Rng.thy ===== *)
theory Rng
  imports SeedFile
begin

text \<open>The class Random of newran with its static members (src/ITGSend/newran/newran1.cpp, newran.h):
  one uniform generator, to which the pointer RNG points, serves all random variables of the
  process.  A generator is an object at an address; None is a use of an object that no longer
  exists, Inl a throw.  Below: what flowParser of ITGSend does with it, flow by flow.\<close>

datatype urng =
    Simple lgm
  | Mixed lgm_mixed
  | Wh wh
  | Fm fm
  | Mom mother
  | Mwc mwc
  | Mt bool

record newran =
  nr_objs :: "nat \<Rightarrow> urng option"
  nr_RNG :: "nat option"
  nr_mt :: mt_static
  nr_disk :: disk

type_synonym 'a call = "(newran \<Rightarrow> ('a \<times> newran) nr option)"

text \<open>RNG starts at the dummy generator, which throws, and Dir empty.\<close>

definition newran0 :: "disk \<Rightarrow> newran" where
  "newran0 d = \<lparr>nr_objs = Map.empty, nr_RNG = None, nr_mt = mt0, nr_disk = d\<lparr>dk_Dir := []\<rparr>\<rparr>"

definition not_setup :: nr_error where
  "not_setup = Runtime_error ''Newran: uniform rng not setup''"

definition urng_Next :: "urng \<Rightarrow> mt_static \<Rightarrow> (dbl \<times> urng \<times> mt_static) option" where
  "urng_Next u m = (case u of
      Simple g \<Rightarrow> (case LGM_base_Next g of (x, h) \<Rightarrow> Some (x, Simple h, m))
    | Mixed g \<Rightarrow> (case LGM_mixed_Next g of (x, h) \<Rightarrow> Some (x, Mixed h, m))
    | Wh g \<Rightarrow> (case WH_Next g of (x, h) \<Rightarrow> Some (x, Wh h, m))
    | Fm g \<Rightarrow> (case FM_Next g of (x, h) \<Rightarrow> Some (x, Fm h, m))
    | Mom g \<Rightarrow> (case Mother_Next g of (x, h) \<Rightarrow> Some (x, Mom h, m))
    | Mwc g \<Rightarrow> (case MWC_Next g of (x, h) \<Rightarrow> Some (x, Mwc h, m))
    | Mt b \<Rightarrow> (case MT_Next m of None \<Rightarrow> None | Some (x, m') \<Rightarrow> Some (x, Mt b, m')))"

definition urng_ulNext :: "urng \<Rightarrow> mt_static \<Rightarrow> (u64 \<times> urng \<times> mt_static) option" where
  "urng_ulNext u m = (case u of
      Simple g \<Rightarrow> (case LGM_base_ulNext g of (x, h) \<Rightarrow> Some (x, Simple h, m))
    | Mixed g \<Rightarrow> (case LGM_mixed_ulNext g of (x, h) \<Rightarrow> Some (x, Mixed h, m))
    | Wh g \<Rightarrow> (case WH_ulNext g of (x, h) \<Rightarrow> Some (x, Wh h, m))
    | Fm g \<Rightarrow> (case FM_ulNext g of (x, h) \<Rightarrow> Some (x, Fm h, m))
    | Mom g \<Rightarrow> (case Mother_ulNext g of (x, h) \<Rightarrow> Some (x, Mom h, m))
    | Mwc g \<Rightarrow> (case MWC_ulNext g of (x, h) \<Rightarrow> Some (x, Mwc h, m))
    | Mt b \<Rightarrow> (case genrand_int32 m of None \<Rightarrow> None | Some (x, m') \<Rightarrow> Some (x, Mt b, m')))"

text \<open>A virtual call through RNG: the dummy answers with an exception of its own.\<close>

definition on_RNG :: "nr_error \<Rightarrow> (urng \<Rightarrow> mt_static \<Rightarrow> ('a \<times> urng \<times> mt_static) option) \<Rightarrow> 'a call" where
  "on_RNG e f w = (case nr_RNG w of
      None \<Rightarrow> Some (Inl e)
    | Some a \<Rightarrow> (case nr_objs w a of None \<Rightarrow> None
        | Some u \<Rightarrow> (case f u (nr_mt w) of None \<Rightarrow> None
            | Some (x, u', m') \<Rightarrow> Some (Inr (x, w\<lparr>nr_objs := (nr_objs w)(a \<mapsto> u'), nr_mt := m'\<rparr>)))))"

definition RNG_Next :: "dbl call" where "RNG_Next = on_RNG not_setup urng_Next"

definition RNG_ulNext :: "u64 call" where
  "RNG_ulNext = on_RNG (Logic_error ''Newran: ulNext function not available'') urng_ulNext"

definition Random_Set :: "nat \<Rightarrow> newran \<Rightarrow> newran" where
  "Random_Set a w = w\<lparr>nr_RNG := Some a\<rparr>"

definition SetDirectory :: "string \<Rightarrow> newran \<Rightarrow> newran" where
  "SetDirectory dir w = w\<lparr>nr_disk := (nr_disk w)\<lparr>dk_Dir := dir\<rparr>\<rparr>"

definition urng_CSFD :: "bool \<Rightarrow> disk \<Rightarrow> urng \<Rightarrow> mt_static \<Rightarrow> (urng \<times> mt_static) nr" where
  "urng_CSFD update d u m = (case u of
      Simple g \<Rightarrow> nr_bind (LGM_simple_CSFD update d g) (\<lambda>h. Inr (Simple h, m))
    | Mixed g \<Rightarrow> nr_bind (LGM_mixed_CSFD update d g) (\<lambda>h. Inr (Mixed h, m))
    | Wh g \<Rightarrow> nr_bind (WH_CSFD update d g) (\<lambda>h. Inr (Wh h, m))
    | Fm g \<Rightarrow> nr_bind (FM_CSFD update d g) (\<lambda>h. Inr (Fm h, m))
    | Mom g \<Rightarrow> nr_bind (Mother_CSFD update d g) (\<lambda>h. Inr (Mom h, m))
    | Mwc g \<Rightarrow> nr_bind (MWC_CSFD update d g) (\<lambda>h. Inr (Mwc h, m))
    | Mt b \<Rightarrow> nr_bind (MT_CSFD d m) (\<lambda>m'. Inr (Mt update, m')))"

definition urng_CSTD :: "urng \<Rightarrow> mt_static \<Rightarrow> disk \<Rightarrow> disk nr" where
  "urng_CSTD u m d = (case u of
      Simple g \<Rightarrow> LGM_simple_CSTD g d | Mixed g \<Rightarrow> LGM_mixed_CSTD g d | Wh g \<Rightarrow> WH_CSTD g d
    | Fm g \<Rightarrow> FM_CSTD g d | Mom g \<Rightarrow> Mother_CSTD g d | Mwc g \<Rightarrow> MWC_CSTD g d | Mt b \<Rightarrow> MT_CSTD m d)"

definition no_directory :: nr_error where
  "no_directory = Logic_error ''Newran: directory not defined''"

text \<open>What an exception leaves behind of the generator is not followed.\<close>

definition CopySeedFromDisk :: "bool \<Rightarrow> newran \<Rightarrow> newran nr option" where
  "CopySeedFromDisk update w = (if dk_Dir (nr_disk w) = [] then Some (Inl no_directory)
     else case nr_RNG w of None \<Rightarrow> Some (Inl not_setup)
     | Some a \<Rightarrow> (case nr_objs w a of None \<Rightarrow> None
         | Some u \<Rightarrow> Some (nr_bind (urng_CSFD update (nr_disk w) u (nr_mt w)) (\<lambda>(u', m').
             Inr (w\<lparr>nr_objs := (nr_objs w)(a \<mapsto> u'), nr_mt := m'\<rparr>)))))"

definition CopySeedToDisk :: "newran \<Rightarrow> newran nr option" where
  "CopySeedToDisk w = (if dk_Dir (nr_disk w) = [] then Some (Inl no_directory)
     else case nr_RNG w of None \<Rightarrow> Some (Inl not_setup)
     | Some a \<Rightarrow> (case nr_objs w a of None \<Rightarrow> None
         | Some u \<Rightarrow> Some (nr_bind (urng_CSTD u (nr_mt w) (nr_disk w)) (\<lambda>d. Inr (w\<lparr>nr_disk := d\<rparr>)))))"

definition urng_Update :: "urng \<Rightarrow> bool" where
  "urng_Update u = (case u of Simple g \<Rightarrow> lg_Update g | Mixed g \<Rightarrow> lg_Update g | Wh g \<Rightarrow> wh_Update g
     | Fm g \<Rightarrow> fm_Update g | Mom g \<Rightarrow> mo_Update g | Mwc g \<Rightarrow> mw_Update g | Mt b \<Rightarrow> b)"

text \<open>The destructors: the seed is written when it was asked for, and RNG falls back to the dummy when
  it points to this object.\<close>

definition urng_delete :: "nat \<Rightarrow> newran \<Rightarrow> newran nr option" where
  "urng_delete a w = (case nr_objs w a of None \<Rightarrow> None
    | Some u \<Rightarrow> Some (nr_bind (if urng_Update u then urng_CSTD u (nr_mt w) (nr_disk w) else Inr (nr_disk w))
        (\<lambda>d. Inr (w\<lparr>nr_objs := (nr_objs w)(a := None), nr_disk := d,
              nr_RNG := (if nr_RNG w = Some a then None else nr_RNG w)\<rparr>))))"

subsection \<open>Flows\<close>

text \<open>Each flow has its own generator, a local of its thread flowParser at the address of the flow's
  number; the seed is the one of the option -s or of the clock.  The variables of the flow are drawn
  between its start and its end, in the thread flowSender.\<close>

datatype rng_event = FlowStart nat dbl | FlowDraw nat | FlowEnd nat

definition flow_start :: "u16 list \<Rightarrow> u16 list \<Rightarrow> nat \<Rightarrow> dbl \<Rightarrow> newran \<Rightarrow> newran nr option" where
  "flow_start junk1 junk2 f seed w = Some (nr_bind (MotherOfAll junk1 junk2 seed) (\<lambda>g.
     Inr (Random_Set f (w\<lparr>nr_objs := (nr_objs w)(f \<mapsto> Mom g)\<rparr>))))"

fun rng_event_run :: "u16 list \<Rightarrow> u16 list \<Rightarrow> rng_event \<Rightarrow> newran \<Rightarrow> newran nr option" where
  "rng_event_run j1 j2 (FlowStart f seed) w = flow_start j1 j2 f seed w"
| "rng_event_run j1 j2 (FlowDraw f) w = map_option (\<lambda>r. nr_bind r (\<lambda>(x, w'). Inr w')) (RNG_Next w)"
| "rng_event_run j1 j2 (FlowEnd f) w = urng_delete f w"

text \<open>What the threads can do: a flow that runs not yet starts, one that runs draws or ends.\<close>

definition rng_enabled :: "rng_event \<Rightarrow> newran \<Rightarrow> bool" where
  "rng_enabled e w = (case e of FlowStart f seed \<Rightarrow> nr_objs w f = None
     | FlowDraw f \<Rightarrow> nr_objs w f \<noteq> None | FlowEnd f \<Rightarrow> nr_objs w f \<noteq> None)"

text \<open>The runs in which nothing has been thrown, with the events so far, the latest first.\<close>

inductive rng_run :: "u16 list \<Rightarrow> u16 list \<Rightarrow> disk \<Rightarrow> rng_event list \<Rightarrow> newran \<Rightarrow> bool"
  for j1 j2 d where
  rng_init: "rng_run j1 j2 d [] (newran0 d)"
| rng_step: "rng_run j1 j2 d (e # es) w'" if "rng_run j1 j2 d es w" "rng_enabled e w"
    "rng_event_run j1 j2 e w = Some (Inr w')"

end
