(* ===== verification/Rng_Facts.thy ===== *)
theory Rng_Facts
  imports Rng SeedFile_Facts
begin

text \<open>Who draws from which generator when several flows run.\<close>

fun last_started :: "rng_event list \<Rightarrow> nat option" where
  "last_started [] = None"
| "last_started (FlowStart f s # es) = Some f"
| "last_started (FlowDraw f # es) = last_started es"
| "last_started (FlowEnd f # es) = last_started es"

text \<open>Every generator is a MotherOfAll that does not write its seed, and RNG points to the generator of
  the flow started last while that flow runs, and to the dummy afterwards.\<close>

definition rng_inv :: "rng_event list \<Rightarrow> newran \<Rightarrow> bool" where
  "rng_inv es w \<longleftrightarrow>
     (\<forall>a u. nr_objs w a = Some u \<longrightarrow> (\<exists>g. u = Mom g \<and> mother_ok g \<and> \<not> mo_Update g)) \<and>
     (\<forall>a. nr_objs w a \<noteq> None \<longrightarrow> last_started es \<noteq> None) \<and>
     nr_RNG w = (case last_started es of None \<Rightarrow> None
       | Some l \<Rightarrow> if nr_objs w l = None then None else Some l)"

lemma MotherOfAll_ok:
  "MotherOfAll j1 j2 s = Inr g \<Longrightarrow> length j1 = 10 \<Longrightarrow> length j2 = 10 \<Longrightarrow> mother_ok g \<and> \<not> mo_Update g"
  by (auto simp: MotherOfAll_def mother_ok_def Let_def split: if_splits)

lemma Mother_Update: "mo_Update (Mother g) = mo_Update g"
  by (simp add: Mother_eq Let_def mother_ready_def mother_init_def)

lemma RNG_Next_mother:
  assumes "nr_RNG w = Some l" "nr_objs w l = Some (Mom g)"
  shows "RNG_Next w = Some (Inr (fst (Mother_Next g), w\<lparr>nr_objs := (nr_objs w)(l \<mapsto> Mom (Mother g))\<rparr>))"
  using assms by (simp add: RNG_Next_def on_RNG_def urng_Next_def Mother_Next_def Let_def)

lemma rng_inv_draw:
  assumes "rng_inv es w" "rng_event_run j1 j2 (FlowDraw f) w = Some (Inr w')"
  shows "rng_inv (FlowDraw f # es) w'"
proof (cases "nr_RNG w")
  case None
  then show ?thesis using assms(2) by (simp add: RNG_Next_def on_RNG_def)
next
  case (Some l)
  then have l: "nr_objs w l \<noteq> None" "last_started es = Some l"
    using assms(1) by (auto simp: rng_inv_def split: option.splits if_splits)
  then obtain g where g: "nr_objs w l = Some (Mom g)" "mother_ok g" "\<not> mo_Update g"
    using assms(1) by (auto simp: rng_inv_def)
  then have "w' = w\<lparr>nr_objs := (nr_objs w)(l \<mapsto> Mom (Mother g))\<rparr>"
    using assms(2) RNG_Next_mother[OF Some g(1)] by simp
  then show ?thesis using assms(1) g Mother_ok[OF g(2)] l by (auto simp: rng_inv_def Mother_Update)
qed

lemma rng_inv_end:
  assumes "rng_inv es w" "rng_event_run j1 j2 (FlowEnd f) w = Some (Inr w')"
  shows "rng_inv (FlowEnd f # es) w'"
proof -
  obtain u where u: "nr_objs w f = Some u"
    using assms(2) by (auto simp: urng_delete_def split: option.splits)
  then obtain g where "u = Mom g" "\<not> mo_Update g" using assms(1) by (auto simp: rng_inv_def)
  then have "w' = w\<lparr>nr_objs := (nr_objs w)(f := None), nr_disk := nr_disk w,
      nr_RNG := (if nr_RNG w = Some f then None else nr_RNG w)\<rparr>"
    using assms(2) u by (simp add: urng_delete_def urng_Update_def)
  then show ?thesis using assms(1) by (auto simp: rng_inv_def split: option.splits)
qed

lemma rng_inv_start:
  assumes "rng_inv es w" "rng_event_run j1 j2 (FlowStart f s) w = Some (Inr w')"
    "length j1 = 10" "length j2 = 10"
  shows "rng_inv (FlowStart f s # es) w'"
proof -
  obtain g where g: "MotherOfAll j1 j2 s = Inr g"
    and w': "w' = Random_Set f (w\<lparr>nr_objs := (nr_objs w)(f \<mapsto> Mom g)\<rparr>)"
    using assms(2) by (auto simp: flow_start_def nr_bind_Inr)
  then show ?thesis using assms(1) MotherOfAll_ok[OF g assms(3,4)]
    by (auto simp: rng_inv_def Random_Set_def)
qed

lemma rng_run_inv:
  assumes "rng_run j1 j2 d es w" "length j1 = 10" "length j2 = 10"
  shows "rng_inv es w"
  using assms(1)
proof induction
  case rng_init then show ?case by (simp add: rng_inv_def newran0_def)
next
  case (rng_step es w e w')
  then show ?case
    using rng_inv_draw rng_inv_end rng_inv_start[OF _ _ assms(2,3)] by (cases e) metis+
qed

lemma Mother_Next_range:
  assumes "mother_ok g"
  shows "\<exists>q. fst (Mother_Next g) = Fin q \<and> 0 < q \<and> q < 1 \<and> q \<noteq> 1 / 2"
proof -
  define q where "q = hd (ref_draws 1 (mother_state g))"
  then have q: "ref_draws 1 (mother_state g) = [q]" by (simp add: Let_def)
  then have "mother_draws 1 g = [Fin q]" using mother_draws_ref[OF assms, of 1] by simp
  then have "fst (Mother_Next g) = Fin q" by (simp add: case_prod_beta)
  moreover have "q \<in> set (ref_draws 1 (mother_state g))" by (simp only: q list.set insertI1)
  ultimately show ?thesis using ref_draws_range by blast
qed

text \<open>C16: While a flow runs, all its draws come from the generator of the flow started last, whose state
  alone they change, and lie strictly between 0 and 1; once that other flow has ended the next draw
  of every flow that still runs throws.\<close>

theorem flows_share_generator:
  assumes "rng_run j1 j2 d es w" "length j1 = 10" "length j2 = 10" "nr_objs w f \<noteq> None"
  shows "\<exists>l. last_started es = Some l \<and>
    (if nr_objs w l = None then RNG_Next w = Some (Inl not_setup)
     else \<exists>q w'. RNG_Next w = Some (Inr (Fin q, w')) \<and> 0 < q \<and> q < 1 \<and>
       (\<forall>k. k \<noteq> l \<longrightarrow> nr_objs w' k = nr_objs w k))"
proof -
  note inv = rng_run_inv[OF assms(1-3)]
  then obtain l where l: "last_started es = Some l" using assms(4) by (auto simp: rng_inv_def)
  show ?thesis
  proof (cases "nr_objs w l")
    case None
    with inv l show ?thesis by (simp add: rng_inv_def RNG_Next_def on_RNG_def)
  next
    case (Some u)
    then obtain g where g: "nr_objs w l = Some (Mom g)" "mother_ok g"
      using inv by (auto simp: rng_inv_def)
    moreover have "nr_RNG w = Some l" using inv l Some by (simp add: rng_inv_def)
    ultimately show ?thesis using l RNG_Next_mother[of w l g] Mother_Next_range[OF g(2)] by auto
  qed
qed

definition junk :: "u16 list" where "junk = replicate 10 0"

definition disk0 :: disk where
  "disk0 = \<lparr>dk_files = Map.empty, dk_writable = (\<lambda>_. False), dk_Dir = []\<rparr>"

definition mother_half :: mother where
  "mother_half = \<lparr>mother1 = junk, mother2 = junk, mStart = 1, mo_seed = 1073741824, mo_Update = False\<rparr>"

lemma exact_half: "exact (1 / 2)" "exact 1073741824"
  using exact_frac[of 1 1] exact_int[of 1073741824] by simp_all

lemma MotherOfAll_half: "MotherOfAll junk junk (Fin (1 / 2)) = Inr mother_half"
  by (simp add: MotherOfAll_def mother_half_def d_le_def d_mul_def exact_half ulong_of_def trunc_def)

text \<open>Two flows start, the second ends first: the first one is alone then, and its next draw throws.\<close>

definition newran_one :: newran where
  "newran_one = (newran0 disk0)\<lparr>nr_objs := [0 \<mapsto> Mom mother_half], nr_RNG := Some 0\<rparr>"

definition newran_two :: newran where
  "newran_two = (newran0 disk0)\<lparr>nr_objs := [0 \<mapsto> Mom mother_half, 1 \<mapsto> Mom mother_half], nr_RNG := Some 1\<rparr>"

definition newran_left :: newran where
  "newran_left = (newran0 disk0)\<lparr>nr_objs := [0 \<mapsto> Mom mother_half], nr_RNG := None\<rparr>"

lemma two_flows_run:
  "rng_run junk junk disk0 [FlowEnd 1, FlowStart 1 (Fin (1 / 2)), FlowStart 0 (Fin (1 / 2))] newran_left"
proof -
  have 1: "rng_run junk junk disk0 [FlowStart 0 (Fin (1 / 2))] newran_one"
    by (rule rng_step[OF rng_init])
      (simp_all add: rng_enabled_def flow_start_def MotherOfAll_half Random_Set_def newran_one_def newran0_def)
  have 2: "rng_run junk junk disk0 [FlowStart 1 (Fin (1 / 2)), FlowStart 0 (Fin (1 / 2))] newran_two"
    by (rule rng_step[OF 1])
      (simp_all add: rng_enabled_def flow_start_def MotherOfAll_half Random_Set_def newran_one_def
        newran_two_def newran0_def)
  show ?thesis
    by (rule rng_step[OF 2])
      (auto simp: rng_enabled_def urng_delete_def urng_Update_def newran_two_def newran_left_def
        newran0_def mother_half_def)
qed

theorem flows_share_generator_witness:
  "nr_objs newran_left 0 \<noteq> None \<and> RNG_Next newran_left = Some (Inl not_setup)"
  using flows_share_generator[OF two_flows_run, of 0]
  by (simp add: junk_def newran_left_def)

text \<open>C21: The numbers that a flow draws alone are those of the reference, two multiply-with-carry
  generators on digits of 16 bits and a sign, scaled without any rounding; none is 0, 1 or 1/2.\<close>

theorem mother_refines:
  assumes "MotherOfAll j1 j2 s = Inr g" "length j1 = 10" "length j2 = 10"
  shows "mother_draws n g = map Fin (ref_draws n (mother_state g)) \<and>
    (\<forall>q\<in>set (ref_draws n (mother_state g)). 0 < q \<and> q < 1 \<and> q \<noteq> 1 / 2)"
  using mother_draws_ref[of g n] MotherOfAll_ok[OF assms] ref_draws_range by blast

theorem mother_refines_witness:
  "mother_draws 3 mother_half = map Fin (ref_draws 3 (mother_state mother_half))"
  using mother_refines[OF MotherOfAll_half, of 3] by (simp add: junk_def)

text \<open>C26: A generator that was restored from the seed file of another one that had been drawn from yields
  the numbers that the other one would have gone on with.\<close>

theorem mother_restored:
  assumes "Mother_CSTD g d = Inr d'" "mother_ok g" "mStart g = 0"
  shows "\<exists>h'. Mother_CSFD update d' h = Inr h' \<and> mother_draws n h' = mother_draws n g"
proof -
  obtain h' where h': "Mother_CSFD update d' h = Inr h'" "mother1 h' = mother1 g"
      "mother2 h' = mother2 g" "mStart h' = 0"
    using mother_arrays_back[OF assms(1,2)] by blast
  then have "mother_ok h'" "mother_state h' = mother_state g"
    using assms(2,3) by (simp_all add: mother_ok_def mother_state_def mother_ready_def)
  then show ?thesis using h'(1) assms(2) mother_draws_ref by auto
qed

definition mother_zero :: mother where
  "mother_zero = mother_half\<lparr>mStart := 0\<rparr>"

definition disk_open :: disk where "disk_open = disk0\<lparr>dk_writable := (\<lambda>_. True)\<rparr>"

theorem mother_restored_witness:
  "\<exists>d' h'. Mother_CSTD mother_zero disk_open = Inr d' \<and> Mother_CSFD True d' mother_half = Inr h' \<and>
    mother_draws 5 h' = mother_draws 5 mother_zero"
proof -
  obtain d' where "Mother_CSTD mother_zero disk_open = Inr d'"
    by (simp add: Mother_CSTD_def write_seed_file_def ifstream_def ReadVerify_def disk_open_def
        disk0_def Let_def)
  then show ?thesis
    using mother_restored[of mother_zero disk_open d' True mother_half 5]
    by (auto simp: mother_ok_def mother_zero_def mother_half_def junk_def)
qed

end
