(* ===== verification/LnGamma.thy ===== *)
theory LnGamma
  imports DblArith Urng
begin

text \<open>The logarithm of the gamma function (src/ITGSend/newran/newran2.cpp), from which the densities of
  Poisson, binomial and gamma distributions are computed.  A long double has 64 significant bits; it
  is a dbl rounded to these.  The functions of the mathematical library are parameters: what the
  program relies on is only that they are functions.\<close>

record libm =
  m_exp :: "dbl \<Rightarrow> dbl"
  m_log :: "dbl \<Rightarrow> dbl"
  m_pow :: "dbl \<Rightarrow> dbl \<Rightarrow> dbl"
  m_sqrt :: "dbl \<Rightarrow> dbl"
  m_sin :: "dbl \<Rightarrow> dbl"
  m_cos :: "dbl \<Rightarrow> dbl"
  m_tan :: "dbl \<Rightarrow> dbl"

subsection \<open>Long doubles\<close>

definition l_round_abs :: "rat \<Rightarrow> rat" where
  "l_round_abs x = (let u = pow2 (max (bin_exp x - 63) (-16445)) in of_int (round_even (x / u)) * u)"

definition to_ldbl :: "rat \<Rightarrow> dbl" where
  "to_ldbl x = (if x = 0 then Fin 0
     else if 0 < x then (let r = l_round_abs x in if r < 2 ^ 16384 then Fin r else PInf)
     else (let r = l_round_abs (- x) in if r < 2 ^ 16384 then Fin (- r) else MInf))"

text \<open>An operation on two finite numbers rounds to 64 bits, the others are as for doubles.\<close>

definition l_op :: "(rat \<Rightarrow> rat \<Rightarrow> rat) \<Rightarrow> (dbl \<Rightarrow> dbl \<Rightarrow> dbl) \<Rightarrow> dbl \<Rightarrow> dbl \<Rightarrow> dbl" where
  "l_op f g x y = (case (x, y) of (Fin p, Fin q) \<Rightarrow> to_ldbl (f p q) | _ \<Rightarrow> g x y)"

definition l_add :: "dbl \<Rightarrow> dbl \<Rightarrow> dbl" where "l_add = l_op (+) d_add"
definition l_sub :: "dbl \<Rightarrow> dbl \<Rightarrow> dbl" where "l_sub = l_op (-) d_sub"
definition l_mul :: "dbl \<Rightarrow> dbl \<Rightarrow> dbl" where "l_mul = l_op (*) d_mul"

definition l_quot :: "dbl \<Rightarrow> dbl \<Rightarrow> dbl" where
  "l_quot x y = (if y = Fin 0 then d_quot x y else l_op (/) d_div x y)"

text \<open>The cast to Real.\<close>

definition real_of_l :: "dbl \<Rightarrow> dbl" where
  "real_of_l x = (case x of Fin q \<Rightarrow> to_dbl q | _ \<Rightarrow> x)"

text \<open>c0 + z * (c1 + z * (...)), in long double.\<close>

fun l_poly :: "dbl list \<Rightarrow> dbl \<Rightarrow> dbl" where
  "l_poly [] z = Fin 0"
| "l_poly [c] z = c"
| "l_poly (c # cs) z = l_add c (l_mul z (l_poly cs z))"

subsection \<open>The gamma function\<close>

definition gamma_num :: "dbl list" where
  "gamma_num = map to_ldbl [1846356.774800897077637235, 1759131.712935803984850945,
     754212.4083273969935445648, 191621.9552338091802379555, 31949.65924862382624981206,
     3652.838209061050933543152, 290.0228320454639341680104, 15.78981962865355560648172,
     0.564145967416346085128381, 0.0119443368011180931171494, 0.000113800747608906017093789]"

definition gamma_den :: "dbl list" where
  "gamma_den = map Fin [3628800, 10628640, 12753576, 8409500, 3416930, 902055, 157773, 18150, 1320, 55, 1]"

text \<open>For a large argument the polynomials are those of the reciprocal, from the other end.\<close>

definition gamma_series :: "dbl \<Rightarrow> dbl" where
  "gamma_series z = (if d_lt z (Fin 10)
     then real_of_l (l_quot (l_poly gamma_num z)
       (l_poly (butlast (butlast gamma_den) @ [l_add (Fin 55) z]) z))
     else (let r = l_quot (Fin 1) z
       in real_of_l (l_quot (l_poly (rev gamma_num) r) (l_poly (rev gamma_den) r))))"

definition ln_gamma_asymp :: "libm \<Rightarrow> dbl \<Rightarrow> dbl" where
  "ln_gamma_asymp lm z =
     (let z2 = d_mul z z; lc = (\<lambda>k. l_quot (Fin 1) (Fin k));
          tail = l_quot (l_add (lc 12) (l_quot (l_add (l_quot (Fin (- 1)) (Fin 360))
            (l_quot (l_sub (lc 1260) (l_quot (lc 1680) z2)) z2)) z2)) z
      in real_of_l (l_add (l_add (d_sub (d_mul (d_sub z (Fin (1 / 2))) (m_log lm z)) z)
           (to_ldbl 0.9189385332046727417)) tail))"

definition near_1_coeffs :: "dbl list" where
  "near_1_coeffs = to_ldbl (- 0.57721566490153286061) #
     map2 (\<lambda>c k. l_quot (to_ldbl c) (Fin k))
      [1.64493406684822643647, - 1.20205690315959428540, 1.08232323371113819152, - 1.03692775514336992633,
       1.01734306198444913971, - 1.00834927738192282684, 1.00407735619794433938, - 1.00200839282608221442,
       1.00099457512781808534, - 1.00049418860411946456, 1.00024608655330804830, - 1.00012271334757848915,
       1.00006124813505870483, - 1.00003058823630702049, 1.00001528225940865187, - 1.00000763719763789976,
       1.00000381729326499984, - 1.00000190821271655394]
      [2, 3, 4, 5, 6, 7, 8, 9, 10, 11, 12, 13, 14, 15, 16, 17, 18, 19]"

text \<open>In the last term the product is formed before the quotient.\<close>

definition ln_gamma_near_1 :: "dbl \<Rightarrow> dbl" where
  "ln_gamma_near_1 z = (let z1 = d_sub z (Fin 1);
       t20 = l_quot (l_mul z1 (to_ldbl 1.00000095396203387280)) (Fin 20);
       cs = butlast near_1_coeffs @ [l_add (last near_1_coeffs) t20]
     in real_of_l (l_mul z1 (l_poly cs z1)))"

definition near_2_coeffs :: "dbl list" where
  "near_2_coeffs = l_sub (Fin 1) (to_ldbl 0.57721566490153286061) #
     map2 (\<lambda>c k. l_quot (to_ldbl c) (Fin k))
      [0.64493406684822643647, - 0.20205690315959428540, 0.08232323371113819152, - 0.03692775514336992633,
       0.01734306198444913971, - 0.00834927738192282684, 0.00407735619794433938, - 0.00200839282608221442,
       0.00099457512781808534, - 0.00049418860411946456, 0.00024608655330804830, - 0.00012271334757848915,
       0.00006124813505870483, - 0.00003058823630702049]
      [2, 3, 4, 5, 6, 7, 8, 9, 10, 11, 12, 13, 14, 15]"

definition ln_gamma_near_2 :: "dbl \<Rightarrow> dbl" where
  "ln_gamma_near_2 z = (let z1 = d_sub z (Fin 2) in real_of_l (l_mul z1 (l_poly near_2_coeffs z1)))"

definition ln_gamma_lanczos :: "libm \<Rightarrow> dbl \<Rightarrow> dbl" where
  "ln_gamma_lanczos lm z = (let zg5 = d_sub (d_add (Fin 10) z) (Fin (1 / 2)) in
     d_add (m_log lm (gamma_series (d_sub z (Fin 1))))
       (d_mul (d_sub z (Fin (1 / 2))) (d_sub (m_log lm zg5) (Fin 1))))"

definition ln_gamma_gt_1 :: "libm \<Rightarrow> dbl \<Rightarrow> dbl nr" where
  "ln_gamma_gt_1 lm z =
     (if d_le (Fin 100) z then Inr (ln_gamma_asymp lm z)
      else if d_le (to_dbl 2.1) z then Inr (ln_gamma_lanczos lm z)
      else if d_le (to_dbl 1.9) z then Inr (ln_gamma_near_2 z)
      else if d_le (to_dbl 1.1) z then Inr (ln_gamma_lanczos lm z)
      else if d_le (to_dbl 0.9) z then Inr (ln_gamma_near_1 z)
      else Inl (Invalid_argument ''Argument less than 1''))"

definition pi_lit :: dbl where "pi_lit = to_dbl 3.14159265358979323846"

text \<open>Whether the ceiling is odd, as the code finds it out.\<close>

definition odd_ceiling :: "dbl \<Rightarrow> bool" where
  "odd_ceiling cz = (let cz2 = d_quot cz (Fin 2) in d_lt (Fin (1 / 4)) (d_abs (d_sub (d_ceil cz2) cz2)))"

definition ln_gamma_sign :: "libm \<Rightarrow> dbl \<Rightarrow> (dbl \<times> int) nr" where
  "ln_gamma_sign lm z =
     (if d_le (to_dbl 2.1) z then nr_bind (ln_gamma_gt_1 lm z) (\<lambda>v. Inr (v, 1))
      else if d_le (to_dbl 1.9) z then Inr (ln_gamma_near_2 z, 1)
      else if d_le (to_dbl 1.1) z then nr_bind (ln_gamma_gt_1 lm z) (\<lambda>v. Inr (v, 1))
      else if d_le (to_dbl 0.9) z then Inr (ln_gamma_near_1 z, 1)
      else (let cz = d_ceil z; sign = (if odd_ceiling cz then 1 else - 1); fz = d_sub cz z in
        if fz = Fin 0 then Inl (Invalid_argument ''Non-positive integer argument '')
        else (let piz = d_mul pi_lit (d_sub (Fin 1) z) in
          nr_bind (ln_gamma_gt_1 lm (d_sub (Fin 2) z)) (\<lambda>v.
            Inr (d_sub (m_log lm (d_quot piz (m_sin lm (d_mul pi_lit fz)))) v, sign)))))"

definition ln_gamma :: "libm \<Rightarrow> dbl \<Rightarrow> dbl nr" where
  "ln_gamma lm z = nr_bind (ln_gamma_sign lm z) (\<lambda>(lg, sign).
     if sign < 0 then Inl (Invalid_argument ''Negative gamma value '') else Inr lg)"

definition gamma_ge_1 :: "libm \<Rightarrow> dbl \<Rightarrow> dbl" where
  "gamma_ge_1 lm z = (let zg5 = d_sub (d_add (Fin 10) z) (Fin (1 / 2)) in
     d_mul (gamma_series (d_sub z (Fin 1)))
       (m_pow lm (d_quot zg5 (to_dbl 2.7182818284590452353)) (d_sub z (Fin (1 / 2)))))"

text \<open>Below 1 the reflection formula calls the function with an argument above 1; only a NaN would go
  on for ever, which is Hang.\<close>

definition rbd_gamma :: "libm \<Rightarrow> dbl \<Rightarrow> dbl nr option" where
  "rbd_gamma lm z =
     (if d_le (Fin 1) z then Some (Inr (gamma_ge_1 lm z))
      else (let cz = d_ceil z; fz = d_sub cz z in
        if fz = Fin 0 then Some (Inl (Invalid_argument ''Non-positive integer argument ''))
        else if \<not> d_le (Fin 1) (d_sub (Fin 2) z) then None
        else (let piz = d_mul pi_lit (d_sub (Fin 1) z);
                  v = d_quot (d_quot piz (m_sin lm (d_mul pi_lit fz))) (gamma_ge_1 lm (d_sub (Fin 2) z))
          in Some (Inr (if odd_ceiling cz then v else d_neg v)))))"

end
