(* ===== verification/ExtReal.thy ===== *)
theory ExtReal
  imports DblArith
begin

text \<open>The extended reals of src/ITGSend/newran/extreal.cpp, in which newran gives means and variances.
  The member value of a number that is not finite is undefined and never read.\<close>

datatype extreal = Finite dbl | PlusInfinity | MinusInfinity | Indefinite | Missing

definition er_finite :: "extreal \<Rightarrow> bool" where
  "er_finite x \<longleftrightarrow> (case x of Finite _ \<Rightarrow> True | _ \<Rightarrow> False)"

definition er_neg :: "extreal \<Rightarrow> extreal" where
  "er_neg x = (case x of Finite v \<Rightarrow> Finite (d_neg v) | PlusInfinity \<Rightarrow> MinusInfinity
     | MinusInfinity \<Rightarrow> PlusInfinity | Indefinite \<Rightarrow> Indefinite | Missing \<Rightarrow> Missing)"

text \<open>The operators look at their operands in this order; the last line of each is the return that is
  left over.\<close>

definition er_add :: "extreal \<Rightarrow> extreal \<Rightarrow> extreal" where
  "er_add x y =
     (case (x, y) of (Finite v, Finite w) \<Rightarrow> Finite (d_add v w) | _ \<Rightarrow>
      if x = Missing \<or> y = Missing then Missing
      else if x = Indefinite \<or> y = Indefinite then Indefinite
      else if x = PlusInfinity then (if y = MinusInfinity then Indefinite else x)
      else if x = MinusInfinity then (if y = PlusInfinity then Indefinite else x)
      else y)"

definition er_sub :: "extreal \<Rightarrow> extreal \<Rightarrow> extreal" where
  "er_sub x y =
     (case (x, y) of (Finite v, Finite w) \<Rightarrow> Finite (d_sub v w) | _ \<Rightarrow>
      if x = Missing \<or> y = Missing then Missing
      else if x = Indefinite \<or> y = Indefinite then Indefinite
      else if x = PlusInfinity then (if y = PlusInfinity then Indefinite else x)
      else if x = MinusInfinity then (if y = MinusInfinity then Indefinite else x)
      else y)"

definition er_mul :: "extreal \<Rightarrow> extreal \<Rightarrow> extreal" where
  "er_mul x y =
     (case (x, y) of (Finite v, Finite w) \<Rightarrow> Finite (d_mul v w) | _ \<Rightarrow>
      if x = Missing \<or> y = Missing then Missing
      else if x = Indefinite \<or> y = Indefinite then Indefinite
      else (case (x, y) of
          (Finite v, _) \<Rightarrow> if v = Fin 0 then Indefinite else if d_lt (Fin 0) v then y else er_neg y
        | (_, Finite w) \<Rightarrow> if w = Fin 0 then Indefinite else if d_lt (Fin 0) w then x else er_neg x
        | _ \<Rightarrow> if x = PlusInfinity then y else er_neg y))"

text \<open>What is expected of the operators: sums and products commute and negation is a homomorphism.\<close>

lemma to_dbl_neg: "to_dbl (- x) = d_neg (to_dbl x)"
  by (auto simp: to_dbl_def d_neg_def Let_def)

lemma d_neg_neg [simp]: "d_neg (d_neg x) = x"
  by (cases x) (simp_all add: d_neg_def)

lemma d_add_commute: "d_add x y = d_add y x"
  by (cases x; cases y) (simp_all add: d_add_def add.commute)

lemma d_mul_commute: "d_mul x y = d_mul y x"
  by (cases x; cases y) (simp_all add: d_mul_def mult.commute)

lemma d_neg_add: "d_neg (d_add x y) = d_add (d_neg x) (d_neg y)"
proof (cases x; cases y)
  fix p q assume "x = Fin p" "y = Fin q"
  moreover have "to_dbl (- p + - q) = d_neg (to_dbl (p + q))" using to_dbl_neg[of "p + q"] by simp
  ultimately show ?thesis by (simp add: d_add_def d_neg_def[of "Fin _"])
qed (simp_all add: d_add_def d_neg_def)

lemma er_add_commute: "er_add x y = er_add y x"
  by (cases x; cases y) (simp_all add: er_add_def d_add_commute)

lemma er_mul_commute: "er_mul x y = er_mul y x"
  by (cases x; cases y) (simp_all add: er_mul_def d_mul_commute er_neg_def)

lemma er_neg_neg [simp]: "er_neg (er_neg x) = x"
  by (cases x) (simp_all add: er_neg_def)

lemma er_neg_add: "er_neg (er_add x y) = er_add (er_neg x) (er_neg y)"
  by (cases x; cases y) (simp_all add: er_add_def er_neg_def d_neg_add)

text \<open>The difference is the sum with the negation, but for a finite number less an infinite one: there
  the left over return gives the subtrahend, with the wrong sign.\<close>

lemma d_sub_add: "d_sub x y = d_add x (d_neg y)"
  by (cases x; cases y) (simp_all add: d_sub_def d_add_def d_neg_def)

theorem er_sub_is_sum:
  "er_sub x y = er_add x (er_neg y) \<longleftrightarrow> \<not> (er_finite x \<and> y \<in> {PlusInfinity, MinusInfinity})"
  by (cases x; cases y) (simp_all add: er_sub_def er_add_def er_neg_def er_finite_def d_sub_add)

end
