(* ===== verification/Variate.thy ===== *)
theory Variate
  imports Rng LnGamma ExtReal
begin

text \<open>How newran draws from a distribution by tables (src/ITGSend/newran/newran2.cpp): the automatic
  generators PosGen, SymGen and AsymGen, which reject, and DiscreteGen, which looks up aliases.  A
  draw changes the state of the library; it ends with a value, a throw, a use of something that does
  not exist or was never set (Broken), or more rejections than the fuel allows (Endless).\<close>

datatype 'a vres = Val 'a newran | Thrown nr_error | Broken | Endless

type_synonym 'a draw = "newran \<Rightarrow> 'a vres"

definition v_ret :: "'a \<Rightarrow> 'a draw" where "v_ret x w = Val x w"

definition v_bind :: "'a draw \<Rightarrow> ('a \<Rightarrow> 'b draw) \<Rightarrow> 'b draw" where
  "v_bind m f w = (case m w of Val x w' \<Rightarrow> f x w' | Thrown e \<Rightarrow> Thrown e | Broken \<Rightarrow> Broken | Endless \<Rightarrow> Endless)"

definition v_nr :: "'a nr \<Rightarrow> 'a draw" where
  "v_nr r w = (case r of Inl e \<Rightarrow> Thrown e | Inr x \<Rightarrow> Val x w)"

definition v_opt :: "'a option \<Rightarrow> 'a draw" where
  "v_opt r w = (case r of None \<Rightarrow> Broken | Some x \<Rightarrow> Val x w)"

definition v_next :: "dbl draw" where
  "v_next w = (case RNG_Next w of None \<Rightarrow> Broken | Some (Inl e) \<Rightarrow> Thrown e | Some (Inr (x, w')) \<Rightarrow> Val x w')"

subsection \<open>Tables\<close>

text \<open>The arrays start undefined.\<close>

record table =
  tb_sx :: "dbl option list"
  tb_sfx :: "dbl option list"
  tb_xi :: dbl
  tb_ic :: int
  tb_NotReady :: bool

definition new_table :: "nat \<Rightarrow> table" where
  "new_table n = \<lparr>tb_sx = replicate n None, tb_sfx = replicate n None, tb_xi = Fin 0, tb_ic = 0, tb_NotReady = True\<rparr>"

definition PosGen :: table where "PosGen = new_table 60"

definition AsymGen :: table where "AsymGen = new_table 121"

definition set_cell :: "nat \<Rightarrow> dbl \<Rightarrow> dbl \<Rightarrow> table \<Rightarrow> table" where
  "set_cell i x f t = t\<lparr>tb_sx := (tb_sx t)[i := Some x], tb_sfx := (tb_sfx t)[i := Some f]\<rparr>"

definition cell :: "dbl option list \<Rightarrow> int \<Rightarrow> dbl draw" where
  "cell xs i = v_opt (if 0 \<le> i \<and> i < int (length xs) then xs ! nat i else None)"

text \<open>The loops of Build: n cells from i on, steps of inc over the density, upwards or downwards; the
  result is the place where the density vanishes.\<close>

fun build_loop :: "(dbl \<Rightarrow> dbl \<Rightarrow> dbl) \<Rightarrow> (dbl \<Rightarrow> dbl nr) \<Rightarrow> dbl \<Rightarrow> nat \<Rightarrow> nat \<Rightarrow> dbl \<Rightarrow> table \<Rightarrow>
    ((nat \<times> dbl) option \<times> table) nr" where
  "build_loop dir density inc 0 i sxi t = Inr (None, t)"
| "build_loop dir density inc (Suc n) i sxi t =
     nr_bind (density sxi) (\<lambda>f1. let t' = set_cell i sxi f1 t in
       if d_le f1 (Fin 0) then Inr (Some (i, sxi), t')
       else build_loop dir density inc n (i + 1) (dir sxi (d_quot inc f1)) t')"

definition PosGen_Build :: "bool \<Rightarrow> (dbl \<Rightarrow> dbl nr) \<Rightarrow> table \<Rightarrow> table nr" where
  "PosGen_Build symm density t =
     nr_bind (build_loop d_add density (to_dbl (if symm then 0.01 else 0.02)) 60 0 (Fin 0) t) (\<lambda>(r, t').
       case r of None \<Rightarrow> Inl (Runtime_error ''Newran: area too large'')
       | Some (i, _) \<Rightarrow> if i < 50 then Inl (Runtime_error ''Newran: area too small'')
           else Inr (t'\<lparr>tb_xi := d_int (if symm then 2 * int i else int i), tb_NotReady := False\<rparr>))"

definition AsymGen_Build :: "dbl \<Rightarrow> (dbl \<Rightarrow> dbl nr) \<Rightarrow> table \<Rightarrow> table nr" where
  "AsymGen_Build mode density t =
     nr_bind (build_loop d_add density (to_dbl 0.01) 120 0 mode t) (\<lambda>(r, t1).
       case r of None \<Rightarrow> Inl (Runtime_error ''Newran: area too large (a)'')
       | Some (i, sxi) \<Rightarrow>
           nr_bind (build_loop d_sub density (to_dbl 0.01) (120 - i) i mode
             ((set_cell 120 sxi (Fin 0) t1)\<lparr>tb_ic := int i - 1\<rparr>)) (\<lambda>(r', t2).
           case r' of None \<Rightarrow> Inl (Runtime_error ''Newran: area too large (b)'')
           | Some (i', _) \<Rightarrow> if i' < 100 then Inl (Runtime_error ''Newran: area too small'')
               else Inr (t2\<lparr>tb_xi := d_int (int i'), tb_NotReady := False\<rparr>)))"

text \<open>One attempt between two cells: the value, and whether it is to be rejected.\<close>

definition attempt :: "(dbl \<Rightarrow> dbl nr) \<Rightarrow> table \<Rightarrow> int \<Rightarrow> int \<Rightarrow> (dbl \<times> bool) draw" where
  "attempt density t ir ir1 =
     v_bind (cell (tb_sx t) ir) (\<lambda>sxi. v_bind (cell (tb_sx t) ir1) (\<lambda>sx1. v_bind v_next (\<lambda>u.
     let ak = d_add sxi (d_mul (d_sub sx1 sxi) u) in
     v_bind (cell (tb_sfx t) ir) (\<lambda>f. v_bind v_next (\<lambda>v.
     let y = d_mul f v in
     v_bind (cell (tb_sfx t) ir1) (\<lambda>f1.
       if d_le f1 y then v_bind (v_nr (density ak)) (\<lambda>d. v_ret (ak, d_le d y))
       else v_ret (ak, False)))))))"

fun PosGen_loop :: "nat \<Rightarrow> (dbl \<Rightarrow> dbl nr) \<Rightarrow> table \<Rightarrow> dbl draw" where
  "PosGen_loop 0 density t = (\<lambda>w. Endless)"
| "PosGen_loop (Suc n) density t = v_bind v_next (\<lambda>r1.
     let ir = int_of (d_mul r1 (tb_xi t)) in
     v_bind (attempt density t ir (ir + 1)) (\<lambda>(ak, again).
       if again then PosGen_loop n density t else v_ret ak))"

definition sym_fold :: "dbl \<Rightarrow> dbl \<times> dbl" where
  "sym_fold r1 = (if d_lt (Fin (1 / 2)) r1 then (Fin (- 1), d_sub (Fin 1) r1) else (Fin 1, r1))"

fun SymGen_loop :: "nat \<Rightarrow> (dbl \<Rightarrow> dbl nr) \<Rightarrow> table \<Rightarrow> dbl draw" where
  "SymGen_loop 0 density t = (\<lambda>w. Endless)"
| "SymGen_loop (Suc n) density t = v_bind v_next (\<lambda>r1. case sym_fold r1 of (s, r) \<Rightarrow>
     let ir = int_of (d_mul r (tb_xi t)) in
     v_bind (attempt density t ir (ir + 1)) (\<lambda>(ak, again).
       if again then SymGen_loop n density t else v_ret (d_mul s ak)))"

fun AsymGen_loop :: "nat \<Rightarrow> (dbl \<Rightarrow> dbl nr) \<Rightarrow> table \<Rightarrow> dbl draw" where
  "AsymGen_loop 0 density t = (\<lambda>w. Endless)"
| "AsymGen_loop (Suc n) density t = v_bind v_next (\<lambda>r1.
     let ir = int_of (d_mul r1 (tb_xi t)); ir1 = (if ir = tb_ic t then 120 else ir + 1) in
     v_bind (attempt density t ir ir1) (\<lambda>(ak, again).
       if again then AsymGen_loop n density t else v_ret ak))"

text \<open>The first draw builds the table.\<close>

definition PosGen_Next :: "nat \<Rightarrow> (dbl \<Rightarrow> dbl nr) \<Rightarrow> table \<Rightarrow> (dbl \<times> table) draw" where
  "PosGen_Next n density t =
     v_bind (v_nr (if tb_NotReady t then PosGen_Build False density t else Inr t)) (\<lambda>t'.
     v_bind (PosGen_loop n density t') (\<lambda>x. v_ret (x, t')))"

definition SymGen_Next :: "nat \<Rightarrow> (dbl \<Rightarrow> dbl nr) \<Rightarrow> table \<Rightarrow> (dbl \<times> table) draw" where
  "SymGen_Next n density t =
     v_bind (v_nr (if tb_NotReady t then PosGen_Build True density t else Inr t)) (\<lambda>t'.
     v_bind (SymGen_loop n density t') (\<lambda>x. v_ret (x, t')))"

definition AsymGen_Next :: "nat \<Rightarrow> dbl \<Rightarrow> (dbl \<Rightarrow> dbl nr) \<Rightarrow> table \<Rightarrow> (dbl \<times> table) draw" where
  "AsymGen_Next n mode density t =
     v_bind (v_nr (if tb_NotReady t then AsymGen_Build mode density t else Inr t)) (\<lambda>t'.
     v_bind (AsymGen_loop n density t') (\<lambda>x. v_ret (x, t')))"

subsection \<open>Aliases\<close>

text \<open>DiscreteGen::Gen over any numbers: the code's are doubles, the numbers of the proof rationals.\<close>

record 'n arith =
  ar_lit :: "rat \<Rightarrow> 'n"
  ar_add :: "'n \<Rightarrow> 'n \<Rightarrow> 'n"
  ar_sub :: "'n \<Rightarrow> 'n \<Rightarrow> 'n"
  ar_mul :: "'n \<Rightarrow> 'n \<Rightarrow> 'n"
  ar_div :: "'n \<Rightarrow> 'n \<Rightarrow> 'n"
  ar_le :: "'n \<Rightarrow> 'n \<Rightarrow> bool"
  ar_lt :: "'n \<Rightarrow> 'n \<Rightarrow> bool"

definition dbl_arith :: "dbl arith" where
  "dbl_arith = \<lparr>ar_lit = to_dbl, ar_add = d_add, ar_sub = d_sub, ar_mul = d_mul, ar_div = d_quot,
     ar_le = d_le, ar_lt = d_lt\<rparr>"

definition rat_arith :: "rat arith" where
  "rat_arith = \<lparr>ar_lit = (\<lambda>q. q), ar_add = (+), ar_sub = (-), ar_mul = (*), ar_div = (/),
     ar_le = (\<le>), ar_lt = (<)\<rparr>"

text \<open>The scan for the least and the greatest of what is left: px, pmin, pmax, jmin, jmax.\<close>

type_synonym 'n scan = "'n \<times> 'n \<times> 'n \<times> int \<times> int"

definition gen_scan_step :: "'n arith \<Rightarrow> 'n list \<Rightarrow> 'n list \<Rightarrow> int list \<Rightarrow> nat \<Rightarrow> 'n scan \<Rightarrow> 'n scan" where
  "gen_scan_step ar prob p ialt j s = (case s of (px, pmin, pmax, jmin, jmax) \<Rightarrow>
     if ialt ! j < 0
     then (let x = ar_sub ar (prob ! j) (p ! j);
               hi = ar_le ar pmax x; lo = ar_le ar x pmin
           in (x, if lo then x else pmin, if hi then x else pmax,
               if lo then int j else jmin, if hi then int j else jmax))
     else s)"

definition gen_scan :: "'n arith \<Rightarrow> nat \<Rightarrow> 'n list \<Rightarrow> 'n \<Rightarrow> 'n list \<Rightarrow> int list \<Rightarrow> 'n scan" where
  "gen_scan ar n prob px p ialt =
     fold (gen_scan_step ar prob p ialt) [0..<n] (px, ar_lit ar 1, ar_lit ar (- 1), - 1, - 1)"

definition gen_round :: "'n arith \<Rightarrow> nat \<Rightarrow> 'n \<Rightarrow> 'n list \<Rightarrow> 'n \<times> 'n list \<times> int list \<Rightarrow> ('n \<times> 'n list \<times> int list) nr" where
  "gen_round ar n rn prob s = (case s of (px, p, ialt) \<Rightarrow>
     (case gen_scan ar n prob px p ialt of (_, pmin, pmax, jmin, jmax) \<Rightarrow>
        if jmax < 0 \<or> jmin < 0 then Inl (Runtime_error ''Newran: method fails'')
        else (let ialt' = ialt[nat jmin := jmax]; x = ar_sub ar rn pmin;
                  p1 = p[nat jmax := ar_add ar (p ! nat jmax) x];
                  x' = ar_mul ar x (ar_lit ar (of_nat n)); p2 = p1[nat jmin := x']
              in if ar_lt ar (ar_lit ar 1.00001) x' \<or> ar_lt ar x' (ar_lit ar (- 0.00001))
                 then Inl (Runtime_error ''Newran: probs don't add to 1 (a)'')
                 else Inr (x', p2, ialt'))))"

fun gen_rounds :: "'n arith \<Rightarrow> nat \<Rightarrow> 'n \<Rightarrow> 'n list \<Rightarrow> nat \<Rightarrow> 'n \<times> 'n list \<times> int list \<Rightarrow> ('n \<times> 'n list \<times> int list) nr" where
  "gen_rounds ar n rn prob 0 s = Inr s"
| "gen_rounds ar n rn prob (Suc k) s = nr_bind (gen_round ar n rn prob s) (gen_rounds ar n rn prob k)"

definition Gen :: "'n arith \<Rightarrow> 'n list \<Rightarrow> ('n list \<times> int list) nr" where
  "Gen ar prob =
     (let n = length prob; rn = ar_div ar (ar_lit ar 1) (ar_lit ar (of_nat n)) in
      nr_bind (gen_rounds ar n rn prob n (ar_lit ar 0, replicate n (ar_lit ar 0), replicate n (- 1)))
        (\<lambda>(px, p, ialt). if ar_lt ar (ar_lit ar 0.00001) px
           then Inl (Runtime_error ''Newran: probs don't add to 1 (b)'') else Inr (p, ialt)))"

record dgen =
  dg_p :: "dbl list"
  dg_ialt :: "int list"
  dg_val :: "dbl list option"
  dg_mean :: dbl
  dg_var :: dbl

text \<open>Sums over the probabilities, in the order of the loops.\<close>

definition weighted :: "dbl list \<Rightarrow> dbl list \<Rightarrow> dbl" where
  "weighted xs prob = fold (\<lambda>(x, q) s. d_add s (d_mul x q)) (zip xs prob) (Fin 0)"

definition square :: "dbl \<Rightarrow> dbl" where "square x = d_mul x x"

definition DiscreteGen :: "dbl list \<Rightarrow> dbl list option \<Rightarrow> dgen nr" where
  "DiscreteGen prob val =
     nr_bind (Gen dbl_arith prob) (\<lambda>(p, ialt).
       let xs = (case val of None \<Rightarrow> map (\<lambda>i. d_int (int i)) [0..<length prob] | Some vs \<Rightarrow> vs);
           mean = weighted xs prob
       in Inr \<lparr>dg_p = p, dg_ialt = ialt, dg_val = val, dg_mean = mean,
            dg_var = weighted (map (\<lambda>x. square (d_sub x mean)) xs) prob\<rparr>)"

definition DiscreteGen_Next :: "dgen \<Rightarrow> dbl draw" where
  "DiscreteGen_Next g = v_bind v_next (\<lambda>r.
     let i = int_of (d_mul (d_int (int (length (dg_p g)))) r) in
     v_bind v_next (\<lambda>u.
     v_bind (v_opt (if 0 \<le> i \<and> nat i < length (dg_p g) then Some (dg_p g ! nat i, dg_ialt g ! nat i) else None)) (\<lambda>(pi, alt).
       let k = (if d_lt u pi then alt else i) in
       case dg_val g of None \<Rightarrow> v_ret (d_int k)
       | Some vs \<Rightarrow> v_opt (if 0 \<le> k \<and> nat k < length vs then Some (vs ! nat k) else None))))"

end
