(* ===== verification/Alias_Facts.thy ===== *)
theory Alias_Facts
  imports Variate
begin

text \<open>DiscreteGen::Gen: whatever the arithmetic, a table that it returns names an alias for every place;
  and in an arithmetic that rounds, for probabilities that nearly add up to 1, it returns a table that
  nearly represents them.  The rounds are followed with their errors; the doubles are such an
  arithmetic, and the rationals another with the error 0.\<close>

subsection \<open>Any arithmetic\<close>

definition open_places :: "nat \<Rightarrow> int list \<Rightarrow> nat set" where
  "open_places n ialt = {j. j < n \<and> ialt ! j < 0}"

lemma finite_open [simp]: "finite (open_places n ialt)" by (simp add: open_places_def)

lemma gen_scan_step_closed: "\<not> ialt ! j < 0 \<Longrightarrow> gen_scan_step ar prob p ialt j s = s"
  by (cases s) (simp add: gen_scan_step_def)

lemma gen_scan_places:
  assumes "gen_scan ar n prob px p ialt = (px', pmin, pmax, jmin, jmax)"
  shows "(jmin = - 1 \<or> 0 \<le> jmin \<and> nat jmin \<in> open_places n ialt) \<and>
    (jmax = - 1 \<or> 0 \<le> jmax \<and> nat jmax \<in> open_places n ialt)"
proof -
  have "case fold (gen_scan_step ar prob p ialt) [0..<m] s of (_, _, _, a, b) \<Rightarrow>
      (a = - 1 \<or> 0 \<le> a \<and> nat a \<in> open_places n ialt) \<and> (b = - 1 \<or> 0 \<le> b \<and> nat b \<in> open_places n ialt)"
    if "m \<le> n" "snd (snd (snd s)) = (- 1, - 1)" for m s
    using that
  proof (induction m)
    case (Suc m)
    obtain q lo hi a b where f: "fold (gen_scan_step ar prob p ialt) [0..<m] s = (q, lo, hi, a, b)"
      by (metis prod_cases5)
    then show ?case using Suc
      by (auto simp: gen_scan_step_def Let_def open_places_def split: if_splits)
  qed (simp add: case_prod_beta)
  from this[of n "(px, ar_lit ar 1, ar_lit ar (- 1), - 1, - 1)"] assms
  show ?thesis by (simp add: gen_scan_def)
qed

definition alias_shape :: "nat \<Rightarrow> nat \<Rightarrow> 'n \<times> 'n list \<times> int list \<Rightarrow> bool" where
  "alias_shape n k s \<longleftrightarrow> (case s of (px, p, ialt) \<Rightarrow> length p = n \<and> length ialt = n \<and>
     (\<forall>j<n. ialt ! j < int n) \<and> card (open_places n ialt) = k)"

lemma open_places_set:
  assumes "j \<in> open_places n ialt" "0 \<le> a" "length ialt = n"
  shows "open_places n (ialt[j := a]) = open_places n ialt - {j}"
  using assms by (auto simp: open_places_def nth_list_update)

lemma gen_round_shape:
  assumes "gen_round ar n rn prob s = Inr s'" "alias_shape n (Suc k) s"
  shows "alias_shape n k s'"
proof -
  obtain px p ialt where s: "s = (px, p, ialt)" by (cases s)
  obtain px' pmin pmax jmin jmax where sc: "gen_scan ar n prob px p ialt = (px', pmin, pmax, jmin, jmax)"
    by (metis prod_cases5)
  have j: "0 \<le> jmin" "0 \<le> jmax" using assms(1) by (auto simp: gen_round_def s sc split: if_splits)
  then have o: "nat jmin \<in> open_places n ialt" "nat jmax \<in> open_places n ialt"
    using gen_scan_places[OF sc] by auto
  obtain q p' where s': "s' = (q, p', ialt[nat jmin := jmax])" "length p' = length p"
    using assms(1) j by (auto simp: gen_round_def s sc Let_def split: if_splits)
  show ?thesis
    using assms(2) o j open_places_set[OF o(1) j(2)]
    by (auto simp: alias_shape_def s s' nth_list_update open_places_def)
qed

lemma gen_rounds_shape:
  "gen_rounds ar n rn prob k s = Inr s' \<Longrightarrow> alias_shape n k s \<Longrightarrow> alias_shape n 0 s'"
  by (induction k arbitrary: s) (auto simp: nr_bind_Inr dest: gen_round_shape)

lemma open_places_start: "open_places n (replicate n (- 1)) = {..<n}"
  by (auto simp: open_places_def)

lemma alias_shape_start: "alias_shape n n (x, replicate n y, replicate n (- 1))"
  by (simp add: alias_shape_def open_places_start)

lemma Gen_shape:
  assumes "Gen ar prob = Inr (p, ialt)"
  shows "length p = length prob" "length ialt = length prob"
    "i < length prob \<Longrightarrow> 0 \<le> ialt ! i \<and> ialt ! i < int (length prob)"
proof -
  obtain px where "gen_rounds ar (length prob) (ar_div ar (ar_lit ar 1) (ar_lit ar (of_nat (length prob)))) prob
      (length prob) (ar_lit ar 0, replicate (length prob) (ar_lit ar 0), replicate (length prob) (- 1)) =
      Inr (px, p, ialt)"
    using assms by (auto simp: Gen_def Let_def nr_bind_Inr split: if_splits)
  then have s: "alias_shape (length prob) 0 (px, p, ialt)" by (rule gen_rounds_shape[OF _ alias_shape_start])
  then show "length p = length prob" "length ialt = length prob" by (simp_all add: alias_shape_def)
  have "open_places (length prob) ialt = {}" using s by (simp add: alias_shape_def)
  then show "i < length prob \<Longrightarrow> 0 \<le> ialt ! i \<and> ialt ! i < int (length prob)"
    using s by (force simp: alias_shape_def open_places_def)
qed

subsection \<open>Shares\<close>

definition remainder :: "rat list \<Rightarrow> rat list \<Rightarrow> nat \<Rightarrow> rat" where "remainder prob p j = prob ! j - p ! j"

text \<open>The probability that the places closed so far give to k: each place has the share 1/n, its own
  value gets it but for the fraction that goes to the alias.\<close>

definition share :: "rat list \<Rightarrow> int list \<Rightarrow> nat \<Rightarrow> nat \<Rightarrow> rat" where
  "share p ialt k i = (if i = k then 1 - p ! i else 0) + (if ialt ! i = int k then p ! i else 0)"

definition mass :: "nat \<Rightarrow> rat list \<Rightarrow> int list \<Rightarrow> nat \<Rightarrow> rat" where
  "mass n p ialt k = (\<Sum>i\<in>{..<n} - open_places n ialt. share p ialt k i) / of_nat n"

definition num :: "rat list \<Rightarrow> rat" where "num prob = of_nat (length prob)"

definition opens :: "rat list \<Rightarrow> int list \<Rightarrow> nat set" where "opens prob ialt = open_places (length prob) ialt"

lemma finite_opens [simp]: "finite (opens prob ialt)" by (simp add: opens_def)

text \<open>What the rounds keep: what is left for the open places adds up to 1/n each up to E, nothing left
  is below -e, and the closed places give to every value what it has got up to e.\<close>

definition alias_near :: "rat list \<Rightarrow> rat list \<Rightarrow> int list \<Rightarrow> rat \<Rightarrow> rat \<Rightarrow> rat \<Rightarrow> bool" where
  "alias_near prob p ialt E e tau \<longleftrightarrow> length p = length prob \<and> length ialt = length prob \<and>
     \<bar>(\<Sum>j\<in>opens prob ialt. remainder prob p j) - of_nat (card (opens prob ialt)) / num prob\<bar> \<le> E \<and>
     (\<forall>j\<in>opens prob ialt. - e \<le> remainder prob p j \<and> - e \<le> p ! j) \<and>
     (\<forall>k<length prob. \<bar>mass (length prob) p ialt k - (if k \<in> opens prob ialt then p ! k else prob ! k)\<bar> \<le> e) \<and>
     (\<forall>i<length prob. i \<notin> opens prob ialt \<longrightarrow> - tau \<le> p ! i \<and> p ! i \<le> 1 + tau)"

lemma alias_nearD:
  assumes "alias_near prob p ialt E e tau"
  shows "length p = length prob" "length ialt = length prob"
    "\<bar>(\<Sum>j\<in>opens prob ialt. remainder prob p j) - of_nat (card (opens prob ialt)) / num prob\<bar> \<le> E"
    "j \<in> opens prob ialt \<Longrightarrow> - e \<le> remainder prob p j" "j \<in> opens prob ialt \<Longrightarrow> - e \<le> p ! j"
    "k < length prob \<Longrightarrow> \<bar>mass (length prob) p ialt k - (if k \<in> opens prob ialt then p ! k else prob ! k)\<bar> \<le> e"
    "i < length prob \<Longrightarrow> i \<notin> opens prob ialt \<Longrightarrow> - tau \<le> p ! i \<and> p ! i \<le> 1 + tau"
  using assms by (simp_all add: alias_near_def)

lemma alias_near_mono:
  "alias_near prob p ialt E e tau \<Longrightarrow> e \<le> e' \<Longrightarrow> alias_near prob p ialt E e' tau"
  unfolding alias_near_def by (fastforce intro: order_trans)

subsection \<open>Means\<close>

lemma mean_below:
  assumes "finite U" "U \<noteq> {}" "\<bar>(\<Sum>j\<in>U. r j) - of_nat (card U) / m\<bar> \<le> E" "\<forall>j\<in>U. x \<le> r j + c"
  shows "x \<le> 1 / (m :: rat) + E + c"
proof -
  have u: "1 \<le> (of_nat (card U) :: rat)" using assms(1,2) by (simp add: Suc_le_eq card_gt_0_iff)
  have "of_nat (card U) * (x - c) \<le> (\<Sum>j\<in>U. r j)" using assms(4) by (intro sum_bounded_below) auto
  also have "\<dots> \<le> of_nat (card U) / m + E" using assms(3) by linarith
  also have "\<dots> \<le> of_nat (card U) * (1 / m + E)"
    using mult_right_mono[OF u, of E] assms(3) by (simp add: distrib_left)
  finally have "x - c \<le> 1 / m + E" using u by (simp only: mult_le_cancel_left_pos)
  then show ?thesis by simp
qed

lemma mean_above:
  assumes "finite U" "U \<noteq> {}" "\<bar>(\<Sum>j\<in>U. r j) - of_nat (card U) / m\<bar> \<le> E" "\<forall>j\<in>U. r j \<le> x + c"
  shows "1 / (m :: rat) - E - c \<le> x"
proof -
  have "\<bar>(\<Sum>j\<in>U. - r j) - of_nat (card U) / (- m)\<bar> \<le> E" using assms(3) by (simp add: sum_negf)
  moreover have "\<forall>j\<in>U. - x \<le> - r j + c" using assms(4) by (auto simp: algebra_simps)
  ultimately show ?thesis using mean_below[OF assms(1,2), of "\<lambda>j. - r j" "- m" E "- x" c] by simp
qed

text \<open>When all that is left is nearly the same, one of them can be taken away.\<close>

lemma mean_without:
  assumes "finite U" "a \<in> U" "\<bar>(\<Sum>j\<in>U. r j) - of_nat (card U) / m\<bar> \<le> E" "\<forall>j\<in>U. \<bar>r j - r a\<bar> \<le> c"
  shows "\<bar>(\<Sum>j\<in>U. r j) - r a - (of_nat (card U) - 1) / (m :: rat)\<bar> \<le> E + c"
proof -
  let ?S = "\<Sum>j\<in>U. r j" and ?u = "of_nat (card U) :: rat"
  have u: "1 \<le> ?u" using assms(1,2) by (simp add: Suc_le_eq card_gt_0_iff) blast
  have "\<bar>?S - ?u * r a\<bar> = \<bar>\<Sum>j\<in>U. r j - r a\<bar>" by (simp add: sum_subtractf)
  also have "\<dots> \<le> (\<Sum>j\<in>U. \<bar>r j - r a\<bar>)" by (rule sum_abs)
  also have "\<dots> \<le> ?u * c" using assms(4) by (intro sum_bounded_above) auto
  finally have s: "\<bar>?S - ?u * r a\<bar> \<le> ?u * c" .
  have t: "\<bar>(?u - 1) * (?S - ?u / m)\<bar> \<le> ?u * E"
  proof -
    have "\<bar>(?u - 1) * (?S - ?u / m)\<bar> = (?u - 1) * \<bar>?S - ?u / m\<bar>" using u by (simp add: abs_mult)
    also have "\<dots> \<le> ?u * E" using u assms(3) by (intro mult_mono) simp_all
    finally show ?thesis .
  qed
  have "?u * (?S - r a - (?u - 1) / m) = (?u - 1) * (?S - ?u / m) + (?S - ?u * r a)"
    by (simp add: algebra_simps diff_divide_distrib)
  then have "?u * \<bar>?S - r a - (?u - 1) / m\<bar> = \<bar>(?u - 1) * (?S - ?u / m) + (?S - ?u * r a)\<bar>"
    using u by (metis abs_mult abs_of_nonneg order_trans zero_le_one)
  also have "\<dots> \<le> ?u * (E + c)" using s t unfolding distrib_left by linarith
  finally show ?thesis using u by (simp only: mult_le_cancel_left_pos)
qed

subsection \<open>One place is closed\<close>

text \<open>Place a has nearly the least and place b nearly the greatest remainder.  The excess x = 1/n minus the
  least remainder goes to b, whose p becomes y, and the fraction z = n x of the share of a with it.\<close>

definition closing :: "rat list \<Rightarrow> rat list \<Rightarrow> int list \<Rightarrow> nat \<Rightarrow> nat \<Rightarrow> rat \<Rightarrow> rat \<Rightarrow> rat \<Rightarrow> rat \<Rightarrow> rat \<Rightarrow> rat \<Rightarrow> rat \<Rightarrow> bool" where
  "closing prob p ialt a b x y z d E e tau \<longleftrightarrow> alias_near prob p ialt E e tau \<and> 0 \<le> d \<and> 0 \<le> e \<and>
     a \<in> opens prob ialt \<and> (\<forall>i\<in>opens prob ialt. remainder prob p a \<le> remainder prob p i + 2 * d) \<and>
     b \<in> opens prob ialt \<and> (\<forall>i\<in>opens prob ialt. remainder prob p i \<le> remainder prob p b + 2 * d) \<and>
     \<bar>x - (1 / num prob - remainder prob p a)\<bar> \<le> 3 * d \<and> \<bar>y - (p ! b + x)\<bar> \<le> d \<and> \<bar>z - x * num prob\<bar> \<le> d \<and>
     num prob * (e + 4 * d) \<le> tau \<and> num prob * (E + 6 * d) \<le> tau"

lemma closingD:
  assumes "closing prob p ialt a b x y z d E e tau"
  shows "alias_near prob p ialt E e tau" "0 \<le> d" "0 \<le> e" "a \<in> opens prob ialt" "b \<in> opens prob ialt"
    "i \<in> opens prob ialt \<Longrightarrow> remainder prob p a \<le> remainder prob p i + 2 * d"
    "i \<in> opens prob ialt \<Longrightarrow> remainder prob p i \<le> remainder prob p b + 2 * d"
    "\<bar>x - (1 / num prob - remainder prob p a)\<bar> \<le> 3 * d" "\<bar>y - (p ! b + x)\<bar> \<le> d" "\<bar>z - x * num prob\<bar> \<le> d"
    "num prob * (e + 4 * d) \<le> tau" "num prob * (E + 6 * d) \<le> tau"
  using assms by (simp_all add: closing_def)

lemma closing_places:
  assumes R: "closing prob p ialt a b x y z d E e tau"
  shows "a < length prob" "b < length prob" "opens prob ialt \<noteq> {}" "1 \<le> num prob"
    "opens prob (ialt[a := int b]) = opens prob ialt - {a}"
proof -
  show a: "a < length prob" "b < length prob" "opens prob ialt \<noteq> {}"
    using closingD(4,5)[OF R] by (auto simp: opens_def open_places_def)
  show "1 \<le> num prob" using a(1) by (cases prob) (simp_all add: num_def)
  show "opens prob (ialt[a := int b]) = opens prob ialt - {a}"
    using open_places_set[of a "length prob" ialt "int b"] closingD(4)[OF R] alias_nearD(2)[OF closingD(1)[OF R]]
    by (simp add: opens_def)
qed

lemma closing_extremes:
  assumes R: "closing prob p ialt a b x y z d E e tau"
  shows "remainder prob p a \<le> 1 / num prob + E + 2 * d" "1 / num prob - E - 2 * d \<le> remainder prob p b"
    "- e \<le> remainder prob p a"
  using mean_below[OF finite_opens closing_places(3)[OF R] alias_nearD(3)[OF closingD(1)[OF R]], of "remainder prob p a" "2 * d"]
    mean_above[OF finite_opens closing_places(3)[OF R] alias_nearD(3)[OF closingD(1)[OF R]], of "remainder prob p b" "2 * d"]
    closingD(6,7)[OF R] alias_nearD(4)[OF closingD(1)[OF R] closingD(4)[OF R]] by auto

lemma closing_excess:
  assumes R: "closing prob p ialt a b x y z d E e tau"
  shows "- E - 5 * d \<le> x" "x \<le> 1 / num prob + e + 3 * d" "- tau \<le> z" "z \<le> 1 + tau"
    "opens prob ialt = {a} \<Longrightarrow> z \<le> tau"
proof -
  note ex = closing_extremes[OF R] and N = closing_places(4)[OF R]
  show x: "- E - 5 * d \<le> x" "x \<le> 1 / num prob + e + 3 * d"
    using ex(1,3) closingD(8)[OF R] by linarith+
  have d: "d \<le> num prob * d" using N closingD(2)[OF R] mult_right_mono[of 1 "num prob" d] by simp
  have "(- E - 5 * d) * num prob \<le> x * num prob" "x * num prob \<le> (1 / num prob + e + 3 * d) * num prob"
    using x N by (intro mult_right_mono; simp)+
  moreover have "(1 / num prob + e + 3 * d) * num prob = 1 + num prob * (e + 3 * d)" using N by (simp add: field_simps)
  moreover have "num prob * (e + 3 * d) + d \<le> num prob * (e + 4 * d)" "num prob * (E + 5 * d) + d \<le> num prob * (E + 6 * d)"
    using d by (simp_all add: algebra_simps)
  moreover have "(- E - 5 * d) * num prob = - (num prob * (E + 5 * d))" by (simp add: algebra_simps)
  ultimately show "- tau \<le> z" "z \<le> 1 + tau" using closingD(10,11,12)[OF R] by linarith+
  assume o: "opens prob ialt = {a}"
  then have "x \<le> E + 5 * d" using alias_nearD(3)[OF closingD(1)[OF R]] closingD(2,8)[OF R] by simp
  then have "x * num prob \<le> (E + 5 * d) * num prob" using N by (intro mult_right_mono) simp_all
  also have "\<dots> = num prob * (E + 5 * d)" by (rule mult.commute)
  finally show "z \<le> tau" using closingD(10,12)[OF R] \<open>num prob * (E + 5 * d) + d \<le> num prob * (E + 6 * d)\<close> by linarith
qed

definition closed_p :: "rat list \<Rightarrow> nat \<Rightarrow> nat \<Rightarrow> rat \<Rightarrow> rat \<Rightarrow> rat list" where
  "closed_p p a b y z = p[b := y, a := z]"

lemma closing_nth:
  assumes R: "closing prob p ialt a b x y z d E e tau" and "i < length prob"
  shows "closed_p p a b y z ! i = (if i = a then z else if i = b then y else p ! i)"
  using alias_nearD(1)[OF closingD(1)[OF R]] assms(2) by (simp add: closed_p_def nth_list_update)

lemma closing_rest:
  assumes R: "closing prob p ialt a b x y z d E e tau" and j: "j \<in> opens prob ialt - {a}"
  shows "remainder prob (closed_p p a b y z) j = (if j = b then prob ! b - y else remainder prob p j)"
  using closing_nth[OF R, of j] j by (auto simp: opens_def open_places_def remainder_def)

lemma closing_count:
  assumes R: "closing prob p ialt a b x y z d E e tau"
  shows "(of_nat (card (opens prob ialt - {a})) :: rat) = of_nat (card (opens prob ialt)) - 1"
  using card_Suc_Diff1[OF finite_opens closingD(4)[OF R]] by (metis add_diff_cancel_left' of_nat_Suc)

lemma closing_rest_sum:
  assumes R: "closing prob p ialt a b x y z d E e tau"
  shows "\<bar>(\<Sum>j\<in>opens prob ialt - {a}. remainder prob (closed_p p a b y z) j) -
    of_nat (card (opens prob ialt - {a})) / num prob\<bar> \<le> E + 4 * d"
proof -
  let ?U = "opens prob ialt" and ?r = "remainder prob p" and ?r' = "remainder prob (closed_p p a b y z)"
  note I = closingD(1)[OF R] and mem = closingD(4,5)[OF R]
  have c: "of_nat (card (?U - {a})) / num prob = of_nat (card ?U) / num prob - 1 / num prob"
    by (simp add: closing_count[OF R] diff_divide_distrib)
  show ?thesis
  proof (cases "a = b")
    case True
    have "\<bar>?r j - ?r a\<bar> \<le> 2 * d" if "j \<in> ?U" for j
      using closingD(6,7)[OF R that] True by (auto simp: abs_le_iff)
    then have "\<bar>sum ?r ?U - ?r a - (of_nat (card ?U) - 1) / num prob\<bar> \<le> E + 2 * d"
      using mem(1) by (intro mean_without[OF finite_opens _ alias_nearD(3)[OF I]]) auto
    moreover have "(\<Sum>j\<in>?U - {a}. ?r' j) = sum ?r ?U - ?r a"
      using closing_rest[OF R] True mem by (simp add: sum_diff1)
    ultimately show ?thesis using closingD(2)[OF R] unfolding closing_count[OF R] by linarith
  next
    case False
    then have "(\<Sum>j\<in>?U - {a}. ?r' j) = ?r' b + (\<Sum>j\<in>?U - {a} - {b}. ?r' j)"
      using mem by (intro sum.remove) simp_all
    also have "(\<Sum>j\<in>?U - {a} - {b}. ?r' j) = (\<Sum>j\<in>?U - {a} - {b}. ?r j)"
      using closing_rest[OF R] by (intro sum.cong) simp_all
    also have "\<dots> = sum ?r ?U - ?r a - ?r b" using mem False by (simp add: sum_diff1)
    also have "?r' b = prob ! b - y" using closing_rest[OF R, of b] mem False by simp
    finally show ?thesis
      using closingD(2,8,9)[OF R] alias_nearD(3)[OF I] by (simp add: c remainder_def[of prob p b] abs_le_iff)
  qed
qed

lemma closing_mass:
  assumes R: "closing prob p ialt a b x y z d E e tau"
  shows "mass (length prob) (closed_p p a b y z) (ialt[a := int b]) k =
    mass (length prob) p ialt k + ((if a = k then 1 - z else 0) + (if b = k then z else 0)) / num prob"
proof -
  let ?p = "closed_p p a b y z" and ?i = "ialt[a := int b]" and ?C = "{..<length prob} - opens prob ialt"
  note lt = closing_places(1,2)[OF R] and mem = closingD(4,5)[OF R]
  have "share ?p ?i k i = share p ialt k i" if "i \<in> ?C" for i
    using that mem closing_nth[OF R, of i] by (auto simp: share_def nth_list_update)
  moreover have "?p ! a = z" "?i ! a = int b"
    using closing_nth[OF R lt(1)] alias_nearD(2)[OF closingD(1)[OF R]] lt(1) by simp_all
  then have "share ?p ?i k a = (if a = k then 1 - z else 0) + (if b = k then z else 0)" by (simp only: share_def of_nat_eq_iff)
  moreover have "{..<length prob} - (opens prob ialt - {a}) = insert a ?C" "a \<notin> ?C" using mem lt by auto
  ultimately have "(\<Sum>i\<in>{..<length prob} - (opens prob ialt - {a}). share ?p ?i k i) =
      (\<Sum>i\<in>?C. share p ialt k i) + ((if a = k then 1 - z else 0) + (if b = k then z else 0))"
    by (simp add: add.commute)
  then show ?thesis
    using closing_places(5)[OF R] by (simp add: mass_def num_def opens_def add_divide_distrib)
qed

lemma closing_shares:
  assumes R: "closing prob p ialt a b x y z d E e tau" and k: "k < length prob"
  shows "\<bar>mass (length prob) (closed_p p a b y z) (ialt[a := int b]) k -
    (if k \<in> opens prob ialt - {a} then closed_p p a b y z ! k else prob ! k)\<bar> \<le> e + E + 6 * d"
proof -
  note I = closingD(1)[OF R] and mem = closingD(4,5)[OF R] and N = closing_places(4)[OF R]
  have m: "\<bar>mass (length prob) p ialt k - (if k \<in> opens prob ialt then p ! k else prob ! k)\<bar> \<le> e"
    by (rule alias_nearD(6)[OF I k])
  have "z / num prob - x = (z - x * num prob) / num prob" using N by (simp add: diff_divide_distrib)
  then have "\<bar>z / num prob - x\<bar> = \<bar>z - x * num prob\<bar> / num prob" using N by (simp add: abs_divide)
  also have "\<dots> \<le> d / 1" using closingD(2,10)[OF R] N by (intro frac_le) simp_all
  finally have z: "\<bar>z / num prob - x\<bar> \<le> d" by simp
  note ex = closing_extremes[OF R] and E = order_trans[OF abs_ge_zero alias_nearD(3)[OF I]]
  have "mass (length prob) (closed_p p a b y z) (ialt[a := int b]) k =
      mass (length prob) p ialt k + (if a = k then 1 / num prob - z / num prob else 0) + (if b = k then z / num prob else 0)"
    unfolding closing_mass[OF R] by (simp add: add_divide_distrib diff_divide_distrib)
  moreover have "\<bar>remainder prob p a - 1 / num prob\<bar> \<le> E + 2 * d" if "a = b" using ex that by simp
  ultimately show ?thesis
    using m z mem closing_nth[OF R k] closingD(2,8,9)[OF R] E
    by (auto simp: remainder_def abs_le_iff split: if_splits)
qed

lemma closing_inv:
  assumes R: "closing prob p ialt a b x y z d E e tau"
  shows "alias_near prob (closed_p p a b y z) (ialt[a := int b]) (E + 4 * d) (e + E + 6 * d) tau"
proof -
  note I = closingD(1)[OF R] and mem = closingD(4,5)[OF R] and ex = closing_extremes[OF R] and xs = closing_excess[OF R]
  note E = order_trans[OF abs_ge_zero alias_nearD(3)[OF I]]
  have "- (e + E + 6 * d) \<le> remainder prob (closed_p p a b y z) j \<and> - (e + E + 6 * d) \<le> closed_p p a b y z ! j"
    if j: "j \<in> opens prob ialt - {a}" for j
  proof -
    have "j < length prob" using j by (simp add: opens_def open_places_def)
    then show ?thesis
      using closing_rest[OF R j] closing_nth[OF R, of j] j alias_nearD(4,5)[OF I, of j] alias_nearD(4,5)[OF I mem(2)]
        ex xs closingD(2,3,8,9)[OF R] E by (auto simp: remainder_def abs_le_iff split: if_splits)
  qed
  moreover have "- tau \<le> closed_p p a b y z ! i \<and> closed_p p a b y z ! i \<le> 1 + tau"
    if "i < length prob" "i \<notin> opens prob ialt - {a}" for i
    using closing_nth[OF R that(1)] that mem xs(3,4) alias_nearD(7)[OF I, of i] by auto
  ultimately show ?thesis
    using closing_rest_sum[OF R] closing_shares[OF R] alias_nearD(1,2)[OF I]
    unfolding alias_near_def closing_places(5)[OF R] by (simp add: closed_p_def)
qed

subsection \<open>Arithmetic that rounds\<close>

text \<open>Numbers that stand for rationals, and operations that round their result; up to 4 the error is at
  most d.\<close>

locale rounded_arith =
  fixes ar :: "'n arith" and emb :: "rat \<Rightarrow> 'n" and fl :: "rat \<Rightarrow> rat" and d :: rat
  assumes d_small: "0 \<le> d" "d \<le> 1 / 2 ^ 50"
    and lit: "\<bar>q\<bar> \<le> 4 \<Longrightarrow> ar_lit ar q = emb (fl q)"
    and lit_nat: "n \<le> 1024 \<Longrightarrow> ar_lit ar (of_nat n) = emb (of_nat n)"
    and add: "\<bar>q + r\<bar> \<le> 4 \<Longrightarrow> ar_add ar (emb q) (emb r) = emb (fl (q + r))"
    and sub: "\<bar>q - r\<bar> \<le> 4 \<Longrightarrow> ar_sub ar (emb q) (emb r) = emb (fl (q - r))"
    and mul: "\<bar>q * r\<bar> \<le> 4 \<Longrightarrow> ar_mul ar (emb q) (emb r) = emb (fl (q * r))"
    and div: "r \<noteq> 0 \<Longrightarrow> \<bar>q / r\<bar> \<le> 4 \<Longrightarrow> ar_div ar (emb q) (emb r) = emb (fl (q / r))"
    and le: "ar_le ar (emb q) (emb r) \<longleftrightarrow> q \<le> r"
    and lt: "ar_lt ar (emb q) (emb r) \<longleftrightarrow> q < r"
    and err: "\<bar>q\<bar> \<le> 4 \<Longrightarrow> \<bar>fl q - q\<bar> \<le> d"
    and fl_unit: "fl 0 = 0" "fl 1 = 1" "fl (- 1) = - 1"
begin

text \<open>The scan finds a least and a greatest of the rounded remainders, when one is at most 1.\<close>

definition low :: "(nat \<Rightarrow> rat) \<Rightarrow> nat set \<Rightarrow> rat \<Rightarrow> int \<Rightarrow> bool" where
  "low r V q a \<longleftrightarrow> (\<forall>i\<in>V. q \<le> r i) \<and>
     (a = - 1 \<and> q = 1 \<and> (\<forall>i\<in>V. 1 < r i) \<or> 0 \<le> a \<and> nat a \<in> V \<and> q = r (nat a) \<and> q \<le> 1)"

definition high :: "(nat \<Rightarrow> rat) \<Rightarrow> nat set \<Rightarrow> rat \<Rightarrow> int \<Rightarrow> bool" where
  "high r V q b \<longleftrightarrow> (\<forall>i\<in>V. r i \<le> q) \<and> (b = - 1 \<and> q = - 1 \<and> V = {} \<or> 0 \<le> b \<and> nat b \<in> V \<and> q = r (nat b))"

lemma scan_loop:
  assumes "length prob = n" "length p = n" "\<forall>j\<in>open_places n ialt. \<bar>remainder prob p j\<bar> \<le> 4 \<and> - 1 \<le> fl (remainder prob p j)"
    and "m \<le> n"
  shows "\<exists>q lo hi a b. fold (gen_scan_step ar (map emb prob) (map emb p) ialt) [0..<m] (px, emb 1, emb (- 1), - 1, - 1) =
      (q, emb lo, emb hi, a, b) \<and> low (\<lambda>j. fl (remainder prob p j)) (open_places m ialt) lo a \<and>
      high (\<lambda>j. fl (remainder prob p j)) (open_places m ialt) hi b"
  using assms(4)
proof (induction m)
  case 0
  show ?case by (simp add: open_places_def low_def high_def)
next
  case (Suc m)
  let ?r = "\<lambda>j. fl (remainder prob p j)"
  from Suc obtain q lo hi a b where
    f: "fold (gen_scan_step ar (map emb prob) (map emb p) ialt) [0..<m] (px, emb 1, emb (- 1), - 1, - 1) =
        (q, emb lo, emb hi, a, b)" and lh: "low ?r (open_places m ialt) lo a" "high ?r (open_places m ialt) hi b" by auto
  show ?case
  proof (cases "ialt ! m < 0")
    case False
    then have "open_places (Suc m) ialt = open_places m ialt" by (auto simp: open_places_def less_Suc_eq)
    with f lh False show ?thesis by (simp add: gen_scan_step_closed) blast
  next
    case True
    then have o: "open_places (Suc m) ialt = insert m (open_places m ialt)" by (auto simp: open_places_def less_Suc_eq)
    have "m \<in> open_places n ialt" using True Suc.prems by (simp add: open_places_def)
    then have r: "\<bar>prob ! m - p ! m\<bar> \<le> 4" "- 1 \<le> ?r m" using assms(3) by (auto simp: remainder_def)
    have g: "fold (gen_scan_step ar (map emb prob) (map emb p) ialt) [0..<Suc m] (px, emb 1, emb (- 1), - 1, - 1) =
        (emb (?r m), emb (if ?r m \<le> lo then ?r m else lo), emb (if hi \<le> ?r m then ?r m else hi),
         if ?r m \<le> lo then int m else a, if hi \<le> ?r m then int m else b)"
      using f True r(1) assms(1,2) Suc.prems by (simp add: gen_scan_step_def remainder_def Let_def sub le)
    have "low ?r (open_places (Suc m) ialt) (if ?r m \<le> lo then ?r m else lo) (if ?r m \<le> lo then int m else a)"
      unfolding o using lh(1) by (auto simp: low_def)
    moreover have "high ?r (open_places (Suc m) ialt) (if hi \<le> ?r m then ?r m else hi) (if hi \<le> ?r m then int m else b)"
      unfolding o using lh(2) r(2) by (auto simp: high_def)
    ultimately show ?thesis unfolding g by blast
  qed
qed

lemma scan:
  assumes "length prob = n" "length p = n" "\<forall>j\<in>open_places n ialt. \<bar>remainder prob p j\<bar> \<le> 4 \<and> - 1 \<le> fl (remainder prob p j)"
    and "i \<in> open_places n ialt" "fl (remainder prob p i) \<le> 1"
  shows "\<exists>q hi a b. gen_scan ar n (map emb prob) px (map emb p) ialt = (q, emb (fl (remainder prob p a)), hi, int a, int b) \<and>
      a \<in> open_places n ialt \<and> (\<forall>i\<in>open_places n ialt. fl (remainder prob p a) \<le> fl (remainder prob p i)) \<and>
      b \<in> open_places n ialt \<and> (\<forall>i\<in>open_places n ialt. fl (remainder prob p i) \<le> fl (remainder prob p b))"
proof -
  let ?r = "\<lambda>j. fl (remainder prob p j)"
  from scan_loop[OF assms(1-3), of n px] obtain q lo hi a b where
    f: "fold (gen_scan_step ar (map emb prob) (map emb p) ialt) [0..<n] (px, emb 1, emb (- 1), - 1, - 1) =
        (q, emb lo, emb hi, a, b)" and lh: "low ?r (open_places n ialt) lo a" "high ?r (open_places n ialt) hi b" by auto
  have a: "0 \<le> a" "nat a \<in> open_places n ialt" "lo = ?r (nat a)" "\<forall>i\<in>open_places n ialt. ?r (nat a) \<le> ?r i"
    using lh(1) assms(4,5) by (auto simp: low_def)
  have b: "0 \<le> b" "nat b \<in> open_places n ialt" "\<forall>i\<in>open_places n ialt. ?r i \<le> ?r (nat b)"
    using lh(2) assms(4) by (auto simp: high_def)
  have "gen_scan ar n (map emb prob) px (map emb p) ialt = (q, emb lo, emb hi, a, b)"
    using f by (simp add: gen_scan_def lit fl_unit)
  then show ?thesis using a b by (intro exI[of _ q] exI[of _ "emb hi"] exI[of _ "nat a"] exI[of _ "nat b"]) simp
qed

text \<open>One round, with the errors that it adds.\<close>

lemma left_bounds:
  assumes inv: "alias_near prob p ialt E e tau" and q: "\<forall>q\<in>set prob. 0 \<le> q \<and> q \<le> 2" and e: "e \<le> 1 / 2 ^ 17"
    and j: "j \<in> opens prob ialt"
  shows "\<bar>remainder prob p j\<bar> \<le> 4" "- 1 \<le> fl (remainder prob p j)" "\<bar>fl (remainder prob p j) - remainder prob p j\<bar> \<le> d"
    "- e \<le> p ! j" "p ! j \<le> 2 + e"
proof -
  have "j < length prob" using j by (simp add: opens_def open_places_def)
  then have q: "0 \<le> prob ! j" "prob ! j \<le> 2" using q by simp_all
  have l: "- e \<le> remainder prob p j" "- e \<le> p ! j" using alias_nearD(4,5)[OF inv j] by simp_all
  then show r: "\<bar>remainder prob p j\<bar> \<le> 4" "- e \<le> p ! j" "p ! j \<le> 2 + e" using q e by (auto simp: remainder_def)
  from err[OF r(1)] show f: "\<bar>fl (remainder prob p j) - remainder prob p j\<bar> \<le> d" .
  then show "- 1 \<le> fl (remainder prob p j)" using l(1) e d_small by (auto simp: abs_le_iff)
qed

lemma some_small:
  assumes inv: "alias_near prob p ialt E e tau" and ne: "opens prob ialt \<noteq> {}" and n: "2 \<le> num prob"
    and q: "\<forall>q\<in>set prob. 0 \<le> q \<and> q \<le> 2" and e: "e \<le> 1 / 2 ^ 17" "E \<le> 1 / 2 ^ 17"
  shows "\<exists>i\<in>opens prob ialt. fl (remainder prob p i) \<le> 1"
proof -
  obtain i where i: "i \<in> opens prob ialt" "\<forall>j\<in>opens prob ialt. remainder prob p i \<le> remainder prob p j"
    using ex_min_if_finite[of "remainder prob p ` opens prob ialt"] ne by (auto simp: not_less)
  have "remainder prob p i \<le> 1 / num prob + E + 0"
    by (rule mean_below[OF finite_opens ne alias_nearD(3)[OF inv]]) (use i(2) in simp)
  moreover have "1 / num prob \<le> 1 / 2" using n by (simp add: field_simps)
  ultimately have "fl (remainder prob p i) \<le> 1"
    using left_bounds(3)[OF inv q e(1) i(1)] e(2) d_small by (auto simp: abs_le_iff)
  with i(1) show ?thesis ..
qed

lemma round_closing:
  assumes inv: "alias_near prob p ialt E e tau" and q: "\<forall>q\<in>set prob. 0 \<le> q \<and> q \<le> 2" and n: "2 \<le> num prob"
    and c: "0 \<le> e" "num prob * (e + 4 * d) \<le> tau" "num prob * (E + 6 * d) \<le> tau" "e \<le> 1 / 2 ^ 17" "tau \<le> 1 / 2 ^ 17"
    and a: "a \<in> opens prob ialt" "\<forall>i\<in>opens prob ialt. fl (remainder prob p a) \<le> fl (remainder prob p i)" "fl (remainder prob p a) \<le> 1"
    and b: "b \<in> opens prob ialt" "\<forall>i\<in>opens prob ialt. fl (remainder prob p i) \<le> fl (remainder prob p b)"
  defines "x \<equiv> fl (fl (1 / num prob) - fl (remainder prob p a))"
  shows "closing prob p ialt a b x (fl (p ! b + x)) (fl (x * num prob)) d E e tau"
    "\<bar>fl (1 / num prob) - fl (remainder prob p a)\<bar> \<le> 4" "\<bar>p ! b + x\<bar> \<le> 4" "\<bar>x * num prob\<bar> \<le> 4"
proof -
  note B = left_bounds[OF inv q c(4)]
  define h where h: "h = 1 / num prob"
  have N: "0 \<le> h" "h \<le> 1 / 2" using n by (simp_all add: h field_simps)
  have rn: "\<bar>fl h - h\<bar> \<le> d" using N by (intro err) (auto simp: abs_le_iff)
  have m: "\<bar>fl h - fl (remainder prob p a)\<bar> \<le> 4"
    using rn N B(2)[OF a(1)] a(3) d_small by (auto simp: abs_le_iff)
  then show "\<bar>fl (1 / num prob) - fl (remainder prob p a)\<bar> \<le> 4" unfolding h .
  have x: "\<bar>x - (fl h - fl (remainder prob p a))\<bar> \<le> d" using err[OF m] by (simp add: x_def h)
  have x1: "\<bar>x\<bar> \<le> 8 / 5" using x rn N B(2)[OF a(1)] a(3) d_small by (auto simp: abs_le_iff)
  show y: "\<bar>p ! b + x\<bar> \<le> 4" using x1 B(4,5)[OF b(1)] c(4) by (auto simp: abs_le_iff)
  have "\<bar>x - (h - remainder prob p a)\<bar> \<le> 3 * d"
    using x rn B(3)[OF a(1)] by (auto simp: abs_le_iff)
  then have xr: "\<bar>x - (1 / num prob - remainder prob p a)\<bar> \<le> 3 * d" unfolding h .
  have mi: "remainder prob p a \<le> remainder prob p i + 2 * d" "remainder prob p i \<le> remainder prob p b + 2 * d"
    if "i \<in> opens prob ialt" for i
    using B(3)[OF that] B(3)[OF a(1)] B(3)[OF b(1)] bspec[OF a(2) that] bspec[OF b(2) that] by (auto simp: abs_le_iff)
  have pre: "closing prob p ialt a b x (fl (p ! b + x)) z d E e tau" if "\<bar>z - x * num prob\<bar> \<le> d" for z
    using inv d_small(1) c a(1) b(1) mi xr err[OF y] that unfolding closing_def by simp
  have "closing prob p ialt a b x (fl (p ! b + x)) (x * num prob) d E e tau" by (rule pre) (simp add: d_small)
  from closing_excess(3,4)[OF this] show z: "\<bar>x * num prob\<bar> \<le> 4" using c(5) by (auto simp: abs_le_iff)
  show "closing prob p ialt a b x (fl (p ! b + x)) (fl (x * num prob)) d E e tau" by (rule pre[OF err[OF z]])
qed

lemma round_near:
  assumes inv: "alias_near prob p ialt E e tau" and q: "\<forall>q\<in>set prob. 0 \<le> q \<and> q \<le> 2"
    and n: "2 \<le> length prob" "length prob \<le> 1024" and ne: "opens prob ialt \<noteq> {}"
    and c: "0 \<le> e" "num prob * (e + 4 * d) \<le> tau" "num prob * (E + 6 * d) \<le> tau" "tau \<le> 1 / 2 ^ 17"
  shows "\<exists>z p' ialt'. gen_round ar (length prob) (emb (fl (1 / num prob))) (map emb prob) (px, map emb p, ialt) =
      Inr (emb z, map emb p', ialt') \<and> alias_near prob p' ialt' (E + 4 * d) (e + E + 6 * d) tau \<and>
    card (opens prob ialt) = Suc (card (opens prob ialt')) \<and> (opens prob ialt' = {} \<longrightarrow> z \<le> tau)"
proof -
  have N: "2 \<le> num prob" using n(1) by (simp add: num_def)
  have E: "0 \<le> E" using order_trans[OF abs_ge_zero alias_nearD(3)[OF inv]] .
  have "1 * (e + 4 * d) \<le> num prob * (e + 4 * d)" "1 * (E + 6 * d) \<le> num prob * (E + 6 * d)"
    using N E c(1) d_small by (intro mult_right_mono; simp)+
  then have "e \<le> tau" "E \<le> tau" using c(2,3) d_small(1) by simp_all
  then have small: "e \<le> 1 / 2 ^ 17" "E \<le> 1 / 2 ^ 17" using c(4) by linarith+
  note B = left_bounds[OF inv q small(1), unfolded opens_def]
  obtain i where i: "i \<in> open_places (length prob) ialt" "fl (remainder prob p i) \<le> 1"
    using some_small[OF inv ne N q small] by (auto simp: opens_def)
  have "\<forall>j\<in>open_places (length prob) ialt. \<bar>remainder prob p j\<bar> \<le> 4 \<and> - 1 \<le> fl (remainder prob p j)"
    using B(1,2) by blast
  from scan[OF refl alias_nearD(1)[OF inv] this i, of px] obtain q' hi a b where
    sc: "gen_scan ar (length prob) (map emb prob) px (map emb p) ialt = (q', emb (fl (remainder prob p a)), hi, int a, int b)" and
    a: "a \<in> opens prob ialt" "\<forall>i\<in>opens prob ialt. fl (remainder prob p a) \<le> fl (remainder prob p i)" and
    b: "b \<in> opens prob ialt" "\<forall>i\<in>opens prob ialt. fl (remainder prob p i) \<le> fl (remainder prob p b)"
    by (auto simp: opens_def)
  have "fl (remainder prob p a) \<le> 1" using a(2) i by (auto simp: opens_def)
  note C = round_closing[OF inv q N c(1-3) small(1) c(4) a this b]
  define x where "x = fl (fl (1 / num prob) - fl (remainder prob p a))"
  define z where "z = fl (x * num prob)"
  have R: "closing prob p ialt a b x (fl (p ! b + x)) z d E e tau" using C(1) by (simp add: x_def z_def)
  note lt' = closing_places(1,2)[OF R] and lens = alias_nearD(1,2)[OF inv]
  have x: "ar_sub ar (emb (fl (1 / num prob))) (emb (fl (remainder prob p a))) = emb x"
    unfolding x_def by (rule sub[OF C(2)])
  have y: "ar_add ar (emb (p ! b)) (emb x) = emb (fl (p ! b + x))" using C(3) by (intro add) (simp add: x_def)
  have z: "ar_mul ar (emb x) (ar_lit ar (of_nat (length prob))) = emb z"
    using mul[of x "num prob"] C(4) lit_nat[OF n(2)] by (simp add: x_def z_def num_def)
  have "\<bar>fl 1.00001 - 1.00001\<bar> \<le> d" "\<bar>fl (- 0.00001) - (- 0.00001)\<bar> \<le> d" by (rule err; simp)+
  then have "\<not> fl 1.00001 < z" "\<not> z < fl (- 0.00001)"
    using closing_excess(3,4)[OF R] c(4) d_small by (auto simp: abs_le_iff)
  then have ok: "\<not> ar_lt ar (ar_lit ar 1.00001) (emb z)" "\<not> ar_lt ar (emb z) (ar_lit ar (- 0.00001))"
    using lit[of "1.00001"] lit[of "- 0.00001"] by (simp_all add: lt)
  have "gen_round ar (length prob) (emb (fl (1 / num prob))) (map emb prob) (px, map emb p, ialt) =
      Inr (emb z, map emb (closed_p p a b (fl (p ! b + x)) z), ialt[a := int b])"
    using ok lt' lens by (simp add: gen_round_def sc x y z Let_def closed_p_def map_update)
  moreover have "opens prob ialt = {a}" if "opens prob (ialt[a := int b]) = {}"
    using that a(1) closing_places(5)[OF R] by auto
  moreover have "card (opens prob ialt) = Suc (card (opens prob (ialt[a := int b])))"
    using card_Suc_Diff1[OF finite_opens a(1)] closing_places(5)[OF R] by simp
  ultimately show ?thesis using closing_inv[OF R] closing_excess(5)[OF R] by blast
qed

text \<open>All the rounds: every round adds at most D to the error of the shares.\<close>

lemma rounds_near:
  assumes q: "\<forall>q\<in>set prob. 0 \<le> q \<and> q \<le> 2" and n: "2 \<le> length prob" "length prob \<le> 1024"
    and c: "0 \<le> s" "s + (4 * num prob + 6) * d \<le> D" "num prob * ((num prob + 1) * D) \<le> tau" "tau \<le> 1 / 2 ^ 17"
  shows "alias_near prob p ialt (s + 4 * of_nat t * d) (of_nat t * D) tau \<Longrightarrow> card (opens prob ialt) = k \<Longrightarrow>
    t + k = length prob \<Longrightarrow> 0 < k \<or> (\<exists>x. px = emb x \<and> x \<le> tau) \<Longrightarrow>
    \<exists>x p' ialt'. gen_rounds ar (length prob) (emb (fl (1 / num prob))) (map emb prob) k (px, map emb p, ialt) =
      Inr (emb x, map emb p', ialt') \<and> x \<le> tau \<and> opens prob ialt' = {} \<and>
      alias_near prob p' ialt' (s + 4 * num prob * d) (num prob * D) tau"
proof (induction k arbitrary: px p ialt t)
  case 0
  then show ?case by (auto simp: num_def)
next
  case (Suc k)
  have N: "2 \<le> num prob" using n(1) by (simp add: num_def)
  have D: "0 \<le> D" using c(1,2) N d_small(1) mult_nonneg_nonneg[of "4 * num prob + 6" d] by linarith
  have t: "of_nat t \<le> num prob" using Suc.prems(3) by (simp add: num_def)
  have td: "4 * of_nat t * d \<le> 4 * num prob * d" using t d_small(1) by (intro mult_right_mono) simp_all
  have tD: "of_nat t * D \<le> num prob * D" using t D by (rule mult_right_mono)
  have dN: "0 \<le> num prob * d" using N d_small(1) by simp
  have D2: "s + 4 * (num prob * d) + 6 * d \<le> D" using c(2) by (simp add: algebra_simps)
  have d4: "4 * d \<le> D" "s + 4 * of_nat t * d + 6 * d \<le> D"
    using D2 dN c(1) td d_small(1) by (simp_all add: mult.assoc)
  have "num prob * (of_nat t * D + 4 * d) \<le> num prob * ((num prob + 1) * D)"
    using tD d4(1) N by (intro mult_left_mono) (simp_all add: algebra_simps)
  then have c1: "num prob * (of_nat t * D + 4 * d) \<le> tau" using c(3) by linarith
  have "D \<le> (num prob + 1) * D" using D N mult_right_mono[of 1 "num prob + 1" D] by simp
  then have "num prob * (s + 4 * of_nat t * d + 6 * d) \<le> num prob * ((num prob + 1) * D)"
    using d4(2) N by (intro mult_left_mono) simp_all
  then have c2: "num prob * (s + 4 * of_nat t * d + 6 * d) \<le> tau" using c(3) by linarith
  have "opens prob ialt \<noteq> {}" using Suc.prems(2) by auto
  from round_near[OF Suc.prems(1) q n this _ c1 c2 c(4), of px] D obtain z p' ialt' where
    r: "gen_round ar (length prob) (emb (fl (1 / num prob))) (map emb prob) (px, map emb p, ialt) = Inr (emb z, map emb p', ialt')" and
    inv: "alias_near prob p' ialt' (s + 4 * of_nat t * d + 4 * d) (of_nat t * D + (s + 4 * of_nat t * d) + 6 * d) tau" and
    cd: "card (opens prob ialt) = Suc (card (opens prob ialt'))" and z: "opens prob ialt' = {} \<longrightarrow> z \<le> tau" by auto
  have E: "s + 4 * of_nat (Suc t) * d = s + 4 * of_nat t * d + 4 * d" by (simp add: algebra_simps)
  have "of_nat t * D + (s + 4 * of_nat t * d) + 6 * d \<le> of_nat (Suc t) * D" using d4(2) by (simp add: algebra_simps)
  from alias_near_mono[OF inv this] have inv': "alias_near prob p' ialt' (s + 4 * of_nat (Suc t) * d) (of_nat (Suc t) * D) tau"
    unfolding E .
  have k: "card (opens prob ialt') = k" using cd Suc.prems(2) by simp
  have "0 < k \<or> (\<exists>x. emb z = emb x \<and> x \<le> tau)" using z k by (auto simp: card_gt_0_iff)
  from Suc.IH[OF inv' k _ this] Suc.prems(3) r show ?case by simp
qed

lemma start_near:
  assumes "\<forall>q\<in>set prob. 0 \<le> q" "\<bar>sum_list prob - 1\<bar> \<le> s" "prob \<noteq> []"
  shows "alias_near prob (replicate (length prob) 0) (replicate (length prob) (- 1)) s 0 tau"
    "opens prob (replicate (length prob) (- 1)) = {..<length prob}"
proof -
  let ?n = "length prob"
  show o: "opens prob (replicate ?n (- 1)) = {..<?n}" by (simp add: opens_def open_places_start)
  have "(\<Sum>j<?n. remainder prob (replicate ?n 0) j) = sum_list prob"
    by (simp add: sum_list_sum_nth atLeast0LessThan remainder_def)
  then show "alias_near prob (replicate ?n 0) (replicate ?n (- 1)) s 0 tau"
    using assms by (simp add: alias_near_def o num_def remainder_def mass_def open_places_start)
qed

end

text \<open>A number is drawn from [0, 1]: a fraction outside of it acts as the end that is nearest.\<close>

definition clip :: "rat \<Rightarrow> rat" where "clip x = max 0 (min 1 x)"

lemma clip_share:
  "- tau \<le> p ! i \<Longrightarrow> p ! i \<le> 1 + tau \<Longrightarrow> i < length p \<Longrightarrow> 0 \<le> tau \<Longrightarrow>
    \<bar>share (map clip p) ialt k i - share p ialt k i\<bar> \<le> tau"
  by (auto simp: share_def clip_def min_def max_def abs_le_iff)

lemma clip_mass:
  assumes "alias_near prob p ialt E e tau" "opens prob ialt = {}" "0 \<le> tau" "k < length prob"
  shows "\<bar>(\<Sum>i<length prob. share (map clip p) ialt k i) / num prob - prob ! k\<bar> \<le> e + tau"
proof -
  have N: "0 < num prob" using assms(4) by (cases prob) (simp_all add: num_def)
  have o: "{..<length prob} - open_places (length prob) ialt = {..<length prob}" using assms(2) by (auto simp: opens_def)
  have "\<bar>(\<Sum>i<length prob. share (map clip p) ialt k i) - (\<Sum>i<length prob. share p ialt k i)\<bar> =
      \<bar>\<Sum>i<length prob. share (map clip p) ialt k i - share p ialt k i\<bar>" by (simp add: sum_subtractf)
  also have "\<dots> \<le> (\<Sum>i<length prob. \<bar>share (map clip p) ialt k i - share p ialt k i\<bar>)" by (rule sum_abs)
  also have "\<dots> \<le> of_nat (card {..<length prob}) * tau"
    using alias_nearD(1,7)[OF assms(1)] assms(2,3) by (intro sum_bounded_above clip_share) auto
  also have "\<dots> = num prob * tau" by (simp add: num_def)
  finally have "\<bar>(\<Sum>i<length prob. share (map clip p) ialt k i) - (\<Sum>i<length prob. share p ialt k i)\<bar> / num prob \<le> tau"
    using N by (simp add: divide_le_eq mult.commute)
  then have "\<bar>(\<Sum>i<length prob. share (map clip p) ialt k i) / num prob - mass (length prob) p ialt k\<bar> \<le> tau"
    using N by (simp add: mass_def o num_def[symmetric] diff_divide_distrib[symmetric] abs_divide)
  then show ?thesis using alias_nearD(6)[OF assms(1,4)] assms(2) by (simp add: abs_le_iff)
qed

lemma le_sum_list: "q \<in> set xs \<Longrightarrow> \<forall>x\<in>set xs. 0 \<le> x \<Longrightarrow> q \<le> sum_list (xs :: rat list)"
proof (induction xs)
  case (Cons y ys)
  have "0 \<le> sum_list ys" using Cons.prems by (intro sum_list_nonneg) simp
  with Cons show ?case by fastforce
qed simp

text \<open>The error of a table of n probabilities that add up to 1 up to s.\<close>

definition alias_error :: "rat \<Rightarrow> nat \<Rightarrow> rat \<Rightarrow> rat" where
  "alias_error d n s = of_nat (n * (n + 2)) * (s + of_nat (4 * n + 6) * d)"

context rounded_arith
begin

lemma Gen_near:
  assumes n: "2 \<le> length prob" "length prob \<le> 1024" and p: "\<forall>q\<in>set prob. 0 \<le> q" "\<bar>sum_list prob - 1\<bar> \<le> s"
    and c: "alias_error d (length prob) s \<le> 1 / 2 ^ 17"
  shows "\<exists>p ialt. Gen ar (map emb prob) = Inr (map emb p, ialt) \<and>
    (\<forall>k<length prob. \<bar>(\<Sum>i<length prob. share (map clip p) ialt k i) / of_nat (length prob) - prob ! k\<bar> \<le>
      alias_error d (length prob) s)"
proof -
  let ?n = "length prob"
  define D where "D = s + (4 * num prob + 6) * d"
  define tau where "tau = num prob * ((num prob + 1) * D)"
  have N: "2 \<le> num prob" using n(1) by (simp add: num_def)
  have s: "0 \<le> s" using order_trans[OF abs_ge_zero p(2)] .
  have D: "0 \<le> D" using s N d_small(1) by (simp add: D_def)
  have t: "0 \<le> tau" using D N by (simp add: tau_def)
  have a: "alias_error d ?n s = num prob * D + tau"
    by (simp add: alias_error_def D_def tau_def num_def algebra_simps)
  have "0 \<le> num prob * D" using D N by simp
  then have t2: "tau \<le> 1 / 2 ^ 17" using c a by linarith
  have ds: "d \<le> 1 / 2 ^ 17" using d_small(2) by (rule order_trans) simp
  have "s \<le> D" using N d_small(1) by (simp add: D_def)
  also have "\<dots> \<le> tau" using D N mult_mono[of 1 "num prob" D "(num prob + 1) * D"] mult_right_mono[of 1 "num prob + 1" D]
    by (simp add: tau_def)
  finally have "s \<le> 1 / 2 ^ 17" using t2 by linarith
  then have "sum_list prob \<le> 2" using p(2) by (simp add: abs_le_iff)
  then have q: "\<forall>q\<in>set prob. 0 \<le> q \<and> q \<le> 2" using p(1) le_sum_list by fastforce
  have ne: "prob \<noteq> []" using n(1) by auto
  note st = start_near[OF p ne]
  have "alias_near prob (replicate ?n 0) (replicate ?n (- 1)) (s + 4 * of_nat 0 * d) (of_nat 0 * D) tau" using st(1) by simp
  from rounds_near[OF q n s _ _ t2 this, of ?n "emb 0"] obtain x p' ialt where
    g: "gen_rounds ar ?n (emb (fl (1 / num prob))) (map emb prob) ?n (emb 0, replicate ?n (emb 0), replicate ?n (- 1)) =
        Inr (emb x, map emb p', ialt)" and x: "x \<le> tau" and o: "opens prob ialt = {}" and
    inv: "alias_near prob p' ialt (s + 4 * num prob * d) (num prob * D) tau"
    using n(1) by (fastforce simp: st(2) D_def tau_def)
  have h: "\<bar>1 / num prob\<bar> \<le> 4" using N by (simp add: field_simps)
  have "ar_div ar (emb 1) (emb (num prob)) = emb (fl (1 / num prob))" using N by (intro div h) simp
  then have rn: "ar_div ar (ar_lit ar 1) (ar_lit ar (of_nat ?n)) = emb (fl (1 / num prob))"
    using lit[of 1] fl_unit(2) lit_nat[OF n(2)] by (simp add: num_def)
  have "\<bar>fl 0.00001 - 0.00001\<bar> \<le> d" by (rule err) simp
  then have "\<not> fl 0.00001 < x" using x t2 d_small by (auto simp: abs_le_iff)
  then have "\<not> ar_lt ar (ar_lit ar 0.00001) (emb x)" using lit[of "0.00001"] by (simp add: lt)
  moreover have "ar_lit ar 0 = emb 0" using lit[of 0] fl_unit(1) by simp
  ultimately have "Gen ar (map emb prob) = Inr (map emb p', ialt)"
    using g by (simp add: Gen_def rn Let_def)
  moreover have "\<bar>(\<Sum>i<?n. share (map clip p') ialt k i) / of_nat ?n - prob ! k\<bar> \<le> alias_error d ?n s" if "k < ?n" for k
    using clip_mass[OF inv o t that] by (simp add: a num_def)
  ultimately show ?thesis by blast
qed

end

subsection \<open>Rationals and doubles\<close>

interpretation exact_alias: rounded_arith rat_arith "\<lambda>q. q" "\<lambda>q. q" 0
  by unfold_locales (simp_all add: rat_arith_def)

lemma round_abs_error:
  assumes "0 < x" "x \<le> 4"
  shows "\<bar>round_abs x - x\<bar> \<le> 1 / 2 ^ 51"
proof -
  define u where "u = pow2 (max (bin_exp x - 52) (- 1074))"
  have u: "0 < u" by (simp add: u_def)
  have "u \<le> 1 / 2 ^ 50"
  proof (cases "bin_exp x - 52 \<le> - 1074")
    case True
    have "pow2 (- 1074) \<le> pow2 (- 50)" by (rule pow2_mono) simp
    then show ?thesis using True by (simp add: u_def max_def pow2_def[of "- 50"])
  next
    case False
    have "u * 2 ^ 52 = pow2 (bin_exp x)"
      using False pow2_add[of "bin_exp x - 52" 52] by (simp add: u_def max_def pow2_def[of 52])
    then show ?thesis using bin_exp_le[OF assms(1)] assms(2) by simp
  qed
  moreover have "round_abs x - x = (of_int (round_even (x / u)) - x / u) * u"
    using u by (simp add: round_abs_def Let_def u_def[symmetric] left_diff_distrib)
  then have "\<bar>round_abs x - x\<bar> = \<bar>of_int (round_even (x / u)) - x / u\<bar> * u" using u by (simp add: abs_mult)
  moreover have "\<dots> \<le> 1 / 2 * u" using round_even_error[of "x / u"] u by (intro mult_right_mono) simp_all
  ultimately show ?thesis by simp
qed

definition rounded :: "rat \<Rightarrow> rat" where "rounded q = (case to_dbl q of Fin r \<Rightarrow> r | _ \<Rightarrow> 0)"

lemma to_dbl_rounded:
  assumes "\<bar>q\<bar> \<le> 4"
  shows "to_dbl q = Fin (rounded q)" "\<bar>rounded q - q\<bar> \<le> 1 / 2 ^ 51"
proof -
  have r: "round_abs x < 2 ^ 1024" "\<bar>round_abs x - x\<bar> \<le> 1 / 2 ^ 51" if "0 < x" "x \<le> 4" for x
  proof -
    show e: "\<bar>round_abs x - x\<bar> \<le> 1 / 2 ^ 51" by (rule round_abs_error[OF that])
    have "\<bar>round_abs x - x\<bar> \<le> 1" by (rule order_trans[OF e]) simp
    then have "round_abs x \<le> 8" using that by (simp add: abs_le_iff)
    also have "(8 :: rat) < 2 ^ 1024" by simp
    finally show "round_abs x < 2 ^ 1024" .
  qed
  consider "q = 0" | "0 < q" "q \<le> 4" | "0 < - q" "- q \<le> 4" using assms by linarith
  then have "to_dbl q = Fin (rounded q) \<and> \<bar>rounded q - q\<bar> \<le> 1 / 2 ^ 51"
  proof cases
    case 2
    then show ?thesis using r[OF 2] by (simp add: to_dbl_def rounded_def Let_def)
  next
    case 3
    moreover have "\<bar>- round_abs (- q) - q\<bar> = \<bar>round_abs (- q) - (- q)\<bar>" by linarith
    ultimately show ?thesis using r[OF 3] by (simp add: to_dbl_def rounded_def Let_def)
  qed (simp add: to_dbl_def rounded_def)
  then show "to_dbl q = Fin (rounded q)" "\<bar>rounded q - q\<bar> \<le> 1 / 2 ^ 51" by simp_all
qed

lemma to_dbl_int: "\<bar>k\<bar> < 2 ^ 53 \<Longrightarrow> to_dbl (of_int k) = Fin (of_int k)"
  by (rule to_dbl_exact[OF exact_int])

lemma rounded_units: "rounded 0 = 0" "rounded 1 = 1" "rounded (- 1) = - 1"
  using to_dbl_int[of 0] to_dbl_int[of 1] to_dbl_int[of "- 1"] by (simp_all add: rounded_def)

lemma to_dbl_count: "n \<le> 1024 \<Longrightarrow> to_dbl (of_nat n) = Fin (of_nat n)"
  using to_dbl_int[of "int n"] by simp

interpretation dbl_alias: rounded_arith dbl_arith Fin rounded "1 / 2 ^ 51"
proof (unfold_locales)
  show "\<bar>rounded q - q\<bar> \<le> 1 / 2 ^ 51" if "\<bar>q\<bar> \<le> 4" for q by (rule to_dbl_rounded(2)[OF that])
qed (auto simp: dbl_arith_def d_add_def d_sub_def d_mul_def d_quot_def d_div_def d_le_def d_lt_def
    to_dbl_rounded(1) to_dbl_count rounded_units)

text \<open>Without rounding the table is exact.\<close>

lemma Gen_exact:
  assumes "2 \<le> length prob" "length prob \<le> 1024" "\<forall>q\<in>set prob. 0 \<le> q" "sum_list prob = 1"
  shows "\<exists>p ialt. Gen rat_arith prob = Inr (p, ialt) \<and>
    (\<forall>k<length prob. (\<Sum>i<length prob. share (map clip p) ialt k i) / of_nat (length prob) = prob ! k)"
  using exact_alias.Gen_near[of prob 0] assms by (simp add: alias_error_def)

text \<open>C29: The method of aliases with the doubles of the code.  For 2 to 1024 probabilities that add up to 1
  but for an error s, DiscreteGen::Gen throws nothing when n (n + 2) (s + (4 n + 6) / 2^51) is at most
  2^-17 (for the 40 values of the small Poisson and binomial distributions: when s is below 4 / 10^9),
  and its table gives every value its probability up to that error: place i is met with the probability
  1/n, and is replaced by its alias when a number from [0, 1] is below p ! i.\<close>

theorem Gen_accurate:
  assumes "2 \<le> length prob" "length prob \<le> 1024" "\<forall>q\<in>set prob. 0 \<le> q" "\<bar>sum_list prob - 1\<bar> \<le> s"
    and "alias_error (1 / 2 ^ 51) (length prob) s \<le> 1 / 2 ^ 17"
  shows "\<exists>p ialt. Gen dbl_arith (map Fin prob) = Inr (map Fin p, ialt) \<and>
    (\<forall>k<length prob. \<bar>(\<Sum>i<length prob. share (map clip p) ialt k i) / of_nat (length prob) - prob ! k\<bar> \<le>
      alias_error (1 / 2 ^ 51) (length prob) s)"
  by (rule dbl_alias.Gen_near[OF assms])

text \<open>Witness: three probabilities that add up to 1 + 1 / 2^40.\<close>

theorem Gen_accurate_witness:
  "\<exists>p ialt. Gen dbl_arith [Fin (1 / 2), Fin (1 / 8), Fin (3 / 8 + 1 / 2 ^ 40)] = Inr (map Fin p, ialt) \<and>
    (\<forall>k<3. \<bar>(\<Sum>i<3. share (map clip p) ialt k i) / 3 - [1 / 2, 1 / 8, 3 / 8 + 1 / 2 ^ 40] ! k\<bar> \<le> 1 / 2 ^ 36)"
proof -
  let ?P = "[1 / 2, 1 / 8, 3 / 8 + 1 / 2 ^ 40] :: rat list"
  have n: "length ?P = 3" by simp
  have e: "alias_error (1 / 2 ^ 51) 3 (1 / 2 ^ 40) \<le> 1 / 2 ^ 36" by (simp add: alias_error_def)
  have "\<exists>p ialt. Gen dbl_arith (map Fin ?P) = Inr (map Fin p, ialt) \<and>
    (\<forall>k<3. \<bar>(\<Sum>i<3. share (map clip p) ialt k i) / of_nat 3 - ?P ! k\<bar> \<le> alias_error (1 / 2 ^ 51) 3 (1 / 2 ^ 40))"
    by (rule Gen_accurate[of ?P "1 / 2 ^ 40", unfolded n]) (simp_all add: alias_error_def)
  then obtain p ialt where g: "Gen dbl_arith (map Fin ?P) = Inr (map Fin p, ialt)" and
    k: "\<And>k. k < 3 \<Longrightarrow> \<bar>(\<Sum>i<3. share (map clip p) ialt k i) / of_nat 3 - ?P ! k\<bar> \<le> alias_error (1 / 2 ^ 51) 3 (1 / 2 ^ 40)"
    by blast
  have "\<forall>k<3. \<bar>(\<Sum>i<3. share (map clip p) ialt k i) / 3 - ?P ! k\<bar> \<le> 1 / 2 ^ 36"
    using order_trans[OF k e] unfolding of_nat_numeral by blast
  with g show ?thesis unfolding list.map by blast
qed

text \<open>A single probability that is above 1, by whatever little, is refused.\<close>

lemma Gen_alone:
  assumes "0 < x" "x \<le> 1"
  shows "Gen rat_arith [1 + x] = Inl (Runtime_error ''Newran: method fails'')"
  using assms by (simp add: Gen_def gen_round_def gen_scan_def gen_scan_step_def rat_arith_def Let_def)

end
