(* ===== verification/RandVar.thy ===== *)
theory RandVar
  imports Variate
begin

text \<open>The random variables of newran (src/ITGSend/newran/newran2.cpp, newran.h): each class with its
  density, constructor, draw, mean and variance.  An object is a term that holds its members; what a
  member points to is a part of it.  The classes Gamma, Poisson, Binomial and SumRandom only pass calls
  on and are the object that they pass them to.  A draw returns the object with its tables built.\<close>

datatype stable_notation = Chambers | Standard | Kalpha | Default

datatype (plugins only: size) robj =
    OUniform
  | OConstant dbl
  | OExponential dbl
  | OWeibull dbl dbl
  | OExtreme dbl dbl
  | OStudent dbl dbl dbl
  | OPareto dbl dbl
  | OPosGenX table "dbl \<Rightarrow> dbl"
  | OSymGenX table "dbl \<Rightarrow> dbl"
  | OAsymGenX table dbl "dbl \<Rightarrow> dbl"
  | ONormal table
  | OChiSq1 table dbl dbl
  | OCauchy table
  | OGamma1 table dbl dbl dbl
  | OGamma2 table dbl dbl
  | OPoisson1 table dbl dbl
  | OBinomial1 table dbl dbl dbl dbl dbl int
  | ONegBinomial table dbl dbl dbl dbl dbl dbl
  | ODiscrete dgen
  | OChiSq nat robj "robj option" dbl dbl
  | OStable dbl dbl dbl stable_notation
  | ONegated robj
  | OScaled robj dbl
  | OReciprocal robj dbl
  | OShifted robj dbl
  | OReverseShifted robj dbl
  | ORepeated robj int
  | OMultiplied robj robj
  | OAdded robj robj
  | OSubtracted robj robj
  | ODivided robj robj
  | OSelected robj dbl
  | OAddedSelected robj robj
  | OMixed dgen "robj list" extreal extreal

subsection \<open>Densities\<close>

definition Uniform_Density :: "dbl \<Rightarrow> dbl" where
  "Uniform_Density x = (if d_lt x (Fin 0) \<or> d_lt (Fin 1) x then Fin 0 else Fin 1)"

definition Normal_Density :: "libm \<Rightarrow> dbl \<Rightarrow> dbl nr" where
  "Normal_Density lm x = Inr (if d_lt (Fin 8) (d_abs x) then Fin 0
     else d_mul (to_dbl 0.398942280) (m_exp lm (d_quot (d_mul (d_neg x) x) (Fin 2))))"

definition Cauchy_Density :: "dbl \<Rightarrow> dbl nr" where
  "Cauchy_Density x = Inr (if d_lt (Fin 1000000000000000) (d_abs x) then Fin 0
     else d_quot (to_dbl 0.31830988618) (d_add (Fin 1) (d_mul x x)))"

definition Exponential_Density :: "libm \<Rightarrow> dbl \<Rightarrow> dbl \<Rightarrow> dbl" where
  "Exponential_Density lm mean x =
     (if d_lt (d_mul (Fin 5) mean) x \<or> d_lt x (Fin 0) then Fin 0
      else d_mul (d_quot (Fin 1) mean) (m_exp lm (d_neg (d_quot x mean))))"

text \<open>The exponential of a logarithm that is not too small.\<close>

definition exp_or_0 :: "libm \<Rightarrow> dbl \<Rightarrow> dbl" where
  "exp_or_0 lm l = (if d_lt l (Fin (- 40)) then Fin 0 else m_exp lm l)"

definition Poisson1_Density :: "libm \<Rightarrow> dbl \<Rightarrow> dbl \<Rightarrow> dbl \<Rightarrow> dbl nr" where
  "Poisson1_Density lm mu ln_mu x =
     (if d_lt x (Fin 0) then Inr (Fin 0)
      else let ix = d_floor x in nr_bind (ln_gamma lm (d_add (Fin 1) ix)) (\<lambda>g.
        Inr (exp_or_0 lm (d_sub (d_sub (d_mul ln_mu ix) mu) g))))"

definition Binomial1_Density :: "libm \<Rightarrow> dbl \<Rightarrow> dbl \<Rightarrow> dbl \<Rightarrow> int \<Rightarrow> dbl \<Rightarrow> dbl nr" where
  "Binomial1_Density lm ln_p ln_q ln_n_fac n x =
     (let ix = d_floor x in
      if d_lt ix (Fin 0) \<or> d_lt (d_int n) ix then Inr (Fin 0)
      else nr_bind (ln_gamma lm (d_add ix (Fin 1))) (\<lambda>g1.
           nr_bind (ln_gamma lm (d_add (d_sub (d_int n) ix) (Fin 1))) (\<lambda>g2.
           Inr (exp_or_0 lm (d_add (d_add (d_sub (d_sub ln_n_fac g1) g2) (d_mul ix ln_p))
             (d_mul (d_sub (d_int n) ix) ln_q))))))"

definition NegativeBinomial_Density :: "libm \<Rightarrow> dbl \<Rightarrow> dbl \<Rightarrow> dbl \<Rightarrow> dbl \<Rightarrow> dbl nr" where
  "NegativeBinomial_Density lm N ln_q c x =
     (if d_lt x (Fin 0) then Inr (Fin 0)
      else let ix = d_floor x in
        nr_bind (ln_gamma lm (d_add ix N)) (\<lambda>g1. nr_bind (ln_gamma lm (d_add ix (Fin 1))) (\<lambda>g2.
          Inr (exp_or_0 lm (d_add (d_sub (d_add c g1) g2) (d_mul ix ln_q))))))"

definition Gamma1_Density :: "libm \<Rightarrow> dbl \<Rightarrow> dbl \<Rightarrow> dbl \<Rightarrow> dbl nr" where
  "Gamma1_Density lm ralpha ln_gam x = Inr (exp_or_0 lm (d_sub (d_neg (m_pow lm x ralpha)) ln_gam))"

definition Gamma2_Density :: "libm \<Rightarrow> dbl \<Rightarrow> dbl \<Rightarrow> dbl \<Rightarrow> dbl nr" where
  "Gamma2_Density lm alpha ln_gam x = Inr (if d_le x (Fin 0) then Fin 0
     else exp_or_0 lm (d_sub (d_sub (d_mul (d_sub alpha (Fin 1)) (m_log lm x)) x) ln_gam))"

subsection \<open>Constructors\<close>

text \<open>An object has its own copy of the table, which depends on the density alone.  The code has one
  table for all of them; NormalTable has its static members, and that the copies cannot be told from it.\<close>

definition Normal :: "libm \<Rightarrow> robj nr" where
  "Normal lm = nr_bind (PosGen_Build True (Normal_Density lm) PosGen) (\<lambda>t. Inr (ONormal t))"

definition ChiSq1 :: "libm \<Rightarrow> dbl \<Rightarrow> robj nr" where
  "ChiSq1 lm d = nr_bind (PosGen_Build True (Normal_Density lm) PosGen) (\<lambda>t.
     Inr (OChiSq1 t d (m_sqrt lm d)))"

definition Gamma1 :: "libm \<Rightarrow> dbl \<Rightarrow> robj nr" where
  "Gamma1 lm alphax = nr_bind (ln_gamma lm (d_add alphax (Fin 1))) (\<lambda>g.
     Inr (OGamma1 PosGen (d_quot (Fin 1) alphax) g alphax))"

definition Gamma2 :: "libm \<Rightarrow> dbl \<Rightarrow> robj nr" where
  "Gamma2 lm alphax = nr_bind (ln_gamma lm alphax) (\<lambda>g. Inr (OGamma2 AsymGen alphax g))"

definition Gamma :: "libm \<Rightarrow> dbl \<Rightarrow> robj nr" where
  "Gamma lm alpha = (if d_lt alpha (Fin 1) then Gamma1 lm alpha
     else if alpha = Fin 1 then Inr (OExponential (Fin 1)) else Gamma2 lm alpha)"

definition illegal :: nr_error where "illegal = Logic_error ''Newran: illegal parameters''"

definition ChiSq :: "libm \<Rightarrow> int \<Rightarrow> dbl \<Rightarrow> robj nr" where
  "ChiSq lm df noncen =
     (let n = d_int df; mean = d_add n noncen;
          var = d_add (d_int (2 * df)) (d_mul (Fin 4) noncen);
          mk = (\<lambda>version c1 c2. OChiSq version c1 c2 mean var);
          two = (\<lambda>version c1. nr_bind (ChiSq1 lm noncen) (\<lambda>c2. Inr (mk version c1 (Some c2))))
      in if df \<le> 0 \<or> d_lt noncen (Fin 0) then Inl illegal
      else if df = 1 then nr_bind (ChiSq1 lm noncen) (\<lambda>c. Inr (mk 0 c None))
      else if noncen = Fin 0 then
        (if df = 2 then Inr (mk 1 (OExponential (Fin 1)) None)
         else nr_bind (Gamma2 lm (d_mul (Fin (1 / 2)) n)) (\<lambda>c. Inr (mk 2 c None)))
      else if df = 2 then nr_bind (ChiSq1 lm (d_quot noncen (Fin 2))) (\<lambda>c. Inr (mk 3 c None))
      else if df = 3 then two 4 (OExponential (Fin 1))
      else nr_bind (Gamma2 lm (d_mul (Fin (1 / 2)) (d_int (df - 1)))) (two 5))"

definition Pareto :: "dbl \<Rightarrow> robj nr" where
  "Pareto shape = (if d_le shape (Fin 0) then Inl (Logic_error ''Newran: illegal parameter'')
     else Inr (OPareto shape (d_quot (Fin (- 1)) shape)))"

fun poisson_probs :: "dbl \<Rightarrow> nat \<Rightarrow> nat \<Rightarrow> dbl \<Rightarrow> dbl list" where
  "poisson_probs mux 0 i prev = []"
| "poisson_probs mux (Suc n) i prev =
     (let q = d_quot (d_mul prev mux) (d_int (int i)) in q # poisson_probs mux n (i + 1) q)"

definition Poisson2 :: "libm \<Rightarrow> dbl \<Rightarrow> robj nr" where
  "Poisson2 lm mux = (let p0 = m_exp lm (d_neg mux) in
     nr_bind (DiscreteGen (p0 # poisson_probs mux 39 1 p0) None) (\<lambda>g. Inr (ODiscrete g)))"

definition Poisson :: "libm \<Rightarrow> dbl \<Rightarrow> robj nr" where
  "Poisson lm mu = (if d_le mu (Fin 8) then Poisson2 lm mu
     else Inr (OPoisson1 AsymGen mu (m_log lm mu)))"

text \<open>The probabilities of a small binomial distribution, upwards and downwards from the mean.\<close>

fun binomial_up :: "int \<Rightarrow> dbl \<Rightarrow> dbl \<Rightarrow> nat \<Rightarrow> int \<Rightarrow> dbl \<Rightarrow> dbl list" where
  "binomial_up nx px qx 0 i prev = []"
| "binomial_up nx px qx (Suc n) i prev =
     (let q = d_quot (d_quot (d_mul (d_mul prev px) (d_int (nx - i + 1))) qx) (d_int i)
      in q # binomial_up nx px qx n (i + 1) q)"

fun binomial_down :: "int \<Rightarrow> dbl \<Rightarrow> dbl \<Rightarrow> nat \<Rightarrow> dbl \<Rightarrow> dbl list" where
  "binomial_down nx px qx 0 prev = []"
| "binomial_down nx px qx (Suc n) prev =
     (let q = d_quot (d_quot (d_mul (d_mul prev qx) (d_int (int n + 1))) px) (d_int (nx - int n))
      in binomial_down nx px qx n q @ [q])"

text \<open>None: the mean lies outside of the array of 40 probabilities.\<close>

definition Binomial2 :: "libm \<Rightarrow> int \<Rightarrow> dbl \<Rightarrow> robj nr option" where
  "Binomial2 lm nx px =
     (let qx = d_sub (Fin 1) px; k = int_of (d_mul (d_int nx) px); m = (if nx \<ge> 40 then 39 else nx) in
      if k < 0 \<or> 40 \<le> k then None
      else Some (
        nr_bind (ln_gamma lm (d_int (nx + 1))) (\<lambda>a. nr_bind (ln_gamma lm (d_int (k + 1))) (\<lambda>b.
        nr_bind (ln_gamma lm (d_int (nx - k + 1))) (\<lambda>c.
        let pk = m_exp lm (d_add (d_add (d_sub (d_sub a b) c) (d_mul (d_int k) (m_log lm px)))
              (d_mul (d_int (nx - k)) (m_log lm qx)));
            probs = binomial_down nx px qx (nat k) pk @ pk # binomial_up nx px qx (nat (m - k)) (k + 1) pk
        in nr_bind (DiscreteGen (take (nat (m + 1)) probs) None) (\<lambda>g. Inr (ODiscrete g)))))))"

definition Binomial1 :: "libm \<Rightarrow> int \<Rightarrow> dbl \<Rightarrow> robj nr" where
  "Binomial1 lm nx px = (let q = d_sub (Fin 1) px in
     nr_bind (ln_gamma lm (d_int (nx + 1))) (\<lambda>g.
       Inr (OBinomial1 AsymGen px q (m_log lm px) (m_log lm q) g nx)))"

definition Binomial :: "libm \<Rightarrow> int \<Rightarrow> dbl \<Rightarrow> robj nr option" where
  "Binomial lm nx px = (if nx < 40 \<or> d_le (d_mul (d_int nx) px) (Fin 8)
     then Binomial2 lm nx px else Some (Binomial1 lm nx px))"

definition NegativeBinomial :: "libm \<Rightarrow> dbl \<Rightarrow> dbl \<Rightarrow> robj nr" where
  "NegativeBinomial lm NX PX =
     (let Q = d_add (Fin 1) PX; p = d_quot (Fin 1) Q; ln_q = m_log lm (d_sub (Fin 1) p);
          mode = d_mul (d_sub NX (Fin 1)) PX; mode' = (if d_lt mode (Fin 1) then Fin 0 else mode)
      in nr_bind (ln_gamma lm NX) (\<lambda>g.
        Inr (ONegBinomial AsymGen NX PX Q ln_q (d_sub (d_mul NX (m_log lm p)) g) mode')))"

text \<open>piby2 and piby4 are members with these values.\<close>

definition piby2 :: dbl where "piby2 = to_dbl 1.570796327"

definition piby4 :: dbl where "piby4 = to_dbl 0.785398163"

definition Stable_k :: "dbl \<Rightarrow> dbl" where "Stable_k a = d_sub (Fin 1) (d_abs (d_sub (Fin 1) a))"

definition Stable :: "libm \<Rightarrow> dbl \<Rightarrow> dbl \<Rightarrow> stable_notation \<Rightarrow> dbl \<Rightarrow> robj nr" where
  "Stable lm a bx n junk =
     (case n of
        Kalpha \<Rightarrow> Inr (OStable a (if a = Fin 1 then bx
            else if d_abs bx = Fin 1 then (if d_lt (Fin 1) a then d_neg bx else bx)
            else d_quot (m_tan lm (d_mul (d_mul piby2 (Stable_k a)) bx)) (m_tan lm (d_mul piby2 a))) bx n)
      | Chambers \<Rightarrow> Inr (OStable a bx junk n)
      | Standard \<Rightarrow> Inr (OStable a bx junk n)
      | Default \<Rightarrow> if bx \<noteq> Fin 0 \<and> a \<noteq> Fin 1 \<and> a \<noteq> Fin 2
          then Inl (Logic_error ''Newran: must specify Stable notation'') else Inr (OStable a bx junk Chambers))"

end
