(* ===== verification/RandVar_Next.thy ===== *)
theory RandVar_Next
  imports RandVar
begin

text \<open>The draws, means and variances of the random variables of newran (src/ITGSend/newran/newran2.cpp).\<close>

subsection \<open>Draws\<close>

text \<open>(exp z - 1) / z and tan x / x, by rational approximations near 0.\<close>

definition Stable_d2 :: "libm \<Rightarrow> dbl \<Rightarrow> dbl" where
  "Stable_d2 lm z =
     (if d_le (d_abs z) (to_dbl 0.1)
      then (let zz = d_mul z z; pv = d_add (to_dbl 840.066852536483239) (d_mul zz (to_dbl 20.0011141589964569))
        in d_quot (d_mul (Fin 2) pv)
          (d_sub (d_add (to_dbl 1680.13370507296648) (d_mul zz (d_add (to_dbl 180.013370407390023) zz))) (d_mul z pv)))
      else d_quot (d_sub (m_exp lm z) (Fin 1)) z)"

definition Stable_tan2 :: "libm \<Rightarrow> dbl \<Rightarrow> dbl" where
  "Stable_tan2 lm xarg =
     (let x0 = d_abs xarg in
      if d_le x0 piby4
      then (let x = d_quot x0 piby4; xx = d_mul x x
        in d_quot (d_add (to_dbl 129.221035) (d_mul xx (d_add (to_dbl (- 8.87662377)) (d_mul xx (to_dbl 0.0528644456)))))
          (d_mul piby4 (d_add (to_dbl 164.529332) (d_mul xx (d_add (to_dbl (- 45.1320561)) xx)))))
      else d_quot (m_tan lm xarg) xarg)"

text \<open>The value that Stable::Next computes from two uniform numbers, the second through -log.\<close>

definition Stable_value :: "libm \<Rightarrow> dbl \<Rightarrow> dbl \<Rightarrow> dbl \<Rightarrow> stable_notation \<Rightarrow> dbl \<Rightarrow> dbl \<Rightarrow> dbl" where
  "Stable_value lm alpha bprime beta notation u w =
     (let eps = d_sub (Fin 1) alpha;
          phiby2 = d_mul piby2 (d_sub u (Fin (1 / 2)));
          a = m_tan lm phiby2;
          bb = Stable_tan2 lm (d_mul eps phiby2);
          b = d_mul (d_mul eps phiby2) bb;
          tau = (if d_lt (to_dbl (- 0.99)) eps
            then d_quot bprime (d_mul (Stable_tan2 lm (d_mul eps piby2)) piby2)
            else d_mul (d_mul bprime eps) (m_tan lm (d_mul alpha piby2)));
          a2 = d_sub (Fin 1) (d_mul a a); a2p = d_add (Fin 1) (d_mul a a);
          b2 = d_sub (Fin 1) (d_mul b b); b2p = d_add (Fin 1) (d_mul b b);
          z = d_quot (d_mul a2p (d_add b2 (d_mul (d_mul (d_mul (Fin 2) phiby2) bb) tau)))
                (d_mul (d_mul w a2) b2p);
          alogz = d_quot (m_log lm z) alpha;
          d = d_mul (Stable_d2 lm (d_mul eps alogz)) alogz;
          Sprime = d_add (d_quot (d_mul (d_mul (d_add (Fin 1) (d_mul eps d)) (Fin 2))
                (d_sub (d_mul (d_sub a b) (d_add (Fin 1) (d_mul a b)))
                  (d_mul (d_mul (d_mul phiby2 tau) bb) (d_sub (d_mul b a2) (d_mul (Fin 2) a)))))
                (d_mul a2 b2p)) (d_mul tau d)
      in if notation = Chambers \<or> bprime = Fin 0 \<or> alpha = Fin 1 \<or> alpha = Fin 2 then Sprime
         else if notation = Standard then d_add Sprime (d_mul bprime (m_tan lm (d_mul piby2 alpha)))
         else (let arg = d_mul (d_mul piby2 (Stable_k alpha)) beta
           in d_mul (d_add Sprime (m_tan lm arg)) (m_pow lm (m_cos lm arg) (d_quot (Fin 1) alpha))))"

definition on_table :: "(dbl \<times> table) draw \<Rightarrow> (dbl \<Rightarrow> dbl) \<Rightarrow> (table \<Rightarrow> robj) \<Rightarrow> (dbl \<times> robj) draw" where
  "on_table m f ob = v_bind m (\<lambda>(x, t). v_ret (f x, ob t))"

definition on_uniform :: "(dbl \<Rightarrow> dbl) \<Rightarrow> robj \<Rightarrow> (dbl \<times> robj) draw" where
  "on_uniform f ob = v_bind v_next (\<lambda>u. v_ret (f u, ob))"

definition not_defined :: nr_error where "not_defined = Logic_error ''Newran: Next not defined''"

text \<open>Fuel bounds the depth of calls, the terms of a sum and the rejections.\<close>

fun obj_Next :: "libm \<Rightarrow> nat \<Rightarrow> robj \<Rightarrow> (dbl \<times> robj) draw"
  and obj_sum :: "libm \<Rightarrow> nat \<Rightarrow> nat \<Rightarrow> dbl \<Rightarrow> robj \<Rightarrow> (dbl \<times> robj) draw" where
  "obj_Next lm 0 ob = (\<lambda>w. Endless)"
| "obj_Next lm (Suc n) OUniform = on_uniform (\<lambda>u. u) OUniform"
| "obj_Next lm (Suc n) (OConstant v) = v_ret (v, OConstant v)"
| "obj_Next lm (Suc n) (OExponential mean) =
     on_uniform (\<lambda>u. d_mul mean (m_log lm (d_quot (Fin 1) (d_sub (Fin 1) u)))) (OExponential mean)"
| "obj_Next lm (Suc n) (OWeibull scale shape) =
     on_uniform (\<lambda>u. d_mul scale (m_pow lm (m_log lm (d_quot (Fin 1) u)) (d_quot (Fin 1) shape))) (OWeibull scale shape)"
| "obj_Next lm (Suc n) (OExtreme mu sigma) =
     on_uniform (\<lambda>u. d_sub mu (d_mul sigma (m_log lm (d_neg (m_log lm u))))) (OExtreme mu sigma)"
| "obj_Next lm (Suc n) (OStudent mu sigma nu) =
     v_bind (v_nr (Normal lm)) (\<lambda>N. v_bind (v_nr (Gamma lm (d_mul nu (Fin (1 / 2))))) (\<lambda>G.
     v_bind (obj_Next lm n G) (\<lambda>(r1, _). v_bind (obj_Next lm n N) (\<lambda>(r2, _).
     v_ret (d_add mu (d_mul sigma (d_mul r2 (m_sqrt lm (d_quot nu (d_mul (Fin 2) r1))))), OStudent mu sigma nu)))))"
| "obj_Next lm (Suc n) (OPareto shape rs) = on_uniform (\<lambda>u. m_pow lm u rs) (OPareto shape rs)"
| "obj_Next lm (Suc n) (OPosGenX t f) =
     on_table (PosGen_Next n (\<lambda>x. Inr (f x)) t) (\<lambda>x. x) (\<lambda>t'. OPosGenX t' f)"
| "obj_Next lm (Suc n) (OSymGenX t f) =
     on_table (SymGen_Next n (\<lambda>x. Inr (f x)) t) (\<lambda>x. x) (\<lambda>t'. OSymGenX t' f)"
| "obj_Next lm (Suc n) (OAsymGenX t mode f) =
     on_table (AsymGen_Next n mode (\<lambda>x. Inr (f x)) t) (\<lambda>x. x) (\<lambda>t'. OAsymGenX t' mode f)"
| "obj_Next lm (Suc n) (ONormal t) = on_table (SymGen_Next n (Normal_Density lm) t) (\<lambda>x. x) ONormal"
| "obj_Next lm (Suc n) (OChiSq1 t deltasq delta) =
     on_table (SymGen_Next n (Normal_Density lm) t) (\<lambda>x. square (d_add x delta)) (\<lambda>t'. OChiSq1 t' deltasq delta)"
| "obj_Next lm (Suc n) (OCauchy t) = on_table (SymGen_Next n Cauchy_Density t) (\<lambda>x. x) OCauchy"
| "obj_Next lm (Suc n) (OGamma1 t ralpha ln_gam alpha) =
     on_table (PosGen_Next n (Gamma1_Density lm ralpha ln_gam) t) (\<lambda>x. m_pow lm x ralpha)
       (\<lambda>t'. OGamma1 t' ralpha ln_gam alpha)"
| "obj_Next lm (Suc n) (OGamma2 t alpha ln_gam) =
     on_table (AsymGen_Next n (d_sub alpha (Fin 1)) (Gamma2_Density lm alpha ln_gam) t) (\<lambda>x. x)
       (\<lambda>t'. OGamma2 t' alpha ln_gam)"
| "obj_Next lm (Suc n) (OPoisson1 t mu ln_mu) =
     on_table (AsymGen_Next n mu (Poisson1_Density lm mu ln_mu) t) d_floor (\<lambda>t'. OPoisson1 t' mu ln_mu)"
| "obj_Next lm (Suc n) (OBinomial1 t p q ln_p ln_q ln_n_fac k) =
     on_table (AsymGen_Next n (d_mul (d_int (k + 1)) p) (Binomial1_Density lm ln_p ln_q ln_n_fac k) t) d_floor
       (\<lambda>t'. OBinomial1 t' p q ln_p ln_q ln_n_fac k)"
| "obj_Next lm (Suc n) (ONegBinomial t N P Q ln_q c mode) =
     on_table (AsymGen_Next n mode (NegativeBinomial_Density lm N ln_q c) t) d_floor
       (\<lambda>t'. ONegBinomial t' N P Q ln_q c mode)"
| "obj_Next lm (Suc n) (ODiscrete g) = v_bind (DiscreteGen_Next g) (\<lambda>x. v_ret (x, ODiscrete g))"
| "obj_Next lm (Suc n) (OChiSq version c1 c2 mean var) =
     v_bind (obj_Next lm n c1) (\<lambda>(x, c1').
       if version = 0 then v_ret (x, OChiSq version c1' c2 mean var)
       else if version \<le> 2 then v_ret (d_mul x (Fin 2), OChiSq version c1' c2 mean var)
       else if version = 3 then v_bind (obj_Next lm n c1') (\<lambda>(y, c1'').
         v_ret (d_add x y, OChiSq version c1'' c2 mean var))
       else (case c2 of None \<Rightarrow> (\<lambda>w. Broken)
         | Some c \<Rightarrow> v_bind (obj_Next lm n c) (\<lambda>(y, c').
             v_ret (d_add (d_mul x (Fin 2)) y, OChiSq version c1' (Some c') mean var))))"
| "obj_Next lm (Suc n) (OStable alpha bprime beta notation) =
     v_bind v_next (\<lambda>u. v_bind v_next (\<lambda>v.
       v_ret (Stable_value lm alpha bprime beta notation u (d_neg (m_log lm v)), OStable alpha bprime beta notation)))"
| "obj_Next lm (Suc n) (ONegated rv) = v_bind (obj_Next lm n rv) (\<lambda>(x, r). v_ret (d_neg x, ONegated r))"
| "obj_Next lm (Suc n) (OScaled rv s) = v_bind (obj_Next lm n rv) (\<lambda>(x, r). v_ret (d_mul x s, OScaled r s))"
| "obj_Next lm (Suc n) (OReciprocal rv s) = v_bind (obj_Next lm n rv) (\<lambda>(x, r). v_ret (d_quot s x, OReciprocal r s))"
| "obj_Next lm (Suc n) (OShifted rv s) = v_bind (obj_Next lm n rv) (\<lambda>(x, r). v_ret (d_add x s, OShifted r s))"
| "obj_Next lm (Suc n) (OReverseShifted rv s) =
     v_bind (obj_Next lm n rv) (\<lambda>(x, r). v_ret (d_sub s x, OReverseShifted r s))"
| "obj_Next lm (Suc n) (ORepeated rv k) =
     v_bind (obj_sum lm n (nat k) (Fin 0) rv) (\<lambda>(x, r). v_ret (x, ORepeated r k))"
| "obj_Next lm (Suc n) (OMultiplied rv1 rv2) =
     v_bind (obj_Next lm n rv1) (\<lambda>(x, r). v_bind (obj_Next lm n rv2) (\<lambda>(y, q). v_ret (d_mul x y, OMultiplied r q)))"
| "obj_Next lm (Suc n) (OAdded rv1 rv2) =
     v_bind (obj_Next lm n rv1) (\<lambda>(x, r). v_bind (obj_Next lm n rv2) (\<lambda>(y, q). v_ret (d_add x y, OAdded r q)))"
| "obj_Next lm (Suc n) (OSubtracted rv1 rv2) =
     v_bind (obj_Next lm n rv1) (\<lambda>(x, r). v_bind (obj_Next lm n rv2) (\<lambda>(y, q). v_ret (d_sub x y, OSubtracted r q)))"
| "obj_Next lm (Suc n) (ODivided rv1 rv2) =
     v_bind (obj_Next lm n rv1) (\<lambda>(x, r). v_bind (obj_Next lm n rv2) (\<lambda>(y, q). v_ret (d_quot x y, ODivided r q)))"
| "obj_Next lm (Suc n) (OSelected rv p) = v_nr (Inl not_defined)"
| "obj_Next lm (Suc n) (OAddedSelected rv1 rv2) = v_nr (Inl not_defined)"
| "obj_Next lm (Suc n) (OMixed g rvs mean var) = v_bind (DiscreteGen_Next g) (\<lambda>x.
     let i = int_of x in
     v_bind (v_opt (if 0 \<le> i \<and> nat i < length rvs then Some (rvs ! nat i) else None)) (\<lambda>rv.
     v_bind (obj_Next lm n rv) (\<lambda>(y, r). v_ret (y, OMixed g (rvs[nat i := r]) mean var))))"
| "obj_sum lm 0 k s rv = (\<lambda>w. Endless)"
| "obj_sum lm (Suc n) 0 s rv = v_ret (s, rv)"
| "obj_sum lm (Suc n) (Suc k) s rv =
     v_bind (obj_Next lm n rv) (\<lambda>(x, r). obj_sum lm n k (d_add s x) r)"

subsection \<open>Means and variances\<close>

definition er_square :: "extreal \<Rightarrow> extreal" where "er_square x = er_mul x x"

fun obj_Mean :: "libm \<Rightarrow> robj \<Rightarrow> extreal" where
  "obj_Mean lm OUniform = Finite (Fin (1 / 2))"
| "obj_Mean lm (OConstant v) = Finite v"
| "obj_Mean lm (OExponential mean) = Finite mean"
| "obj_Mean lm (OWeibull _ _) = Finite (Fin (1 / 2))"
| "obj_Mean lm (OExtreme _ _) = Finite (Fin (1 / 2))"
| "obj_Mean lm (OStudent _ _ _) = Finite (Fin (1 / 2))"
| "obj_Mean lm (OPareto shape _) =
     (if d_lt (Fin 1) shape then Finite (d_quot shape (d_sub shape (Fin 1))) else PlusInfinity)"
| "obj_Mean lm (OPosGenX _ _) = Missing"
| "obj_Mean lm (OSymGenX _ _) = Missing"
| "obj_Mean lm (OAsymGenX _ _ _) = Missing"
| "obj_Mean lm (ONormal _) = Finite (Fin 0)"
| "obj_Mean lm (OChiSq1 _ deltasq _) = Finite (d_add (Fin 1) deltasq)"
| "obj_Mean lm (OCauchy _) = Indefinite"
| "obj_Mean lm (OGamma1 _ _ _ alpha) = Finite alpha"
| "obj_Mean lm (OGamma2 _ alpha _) = Finite alpha"
| "obj_Mean lm (OPoisson1 _ mu _) = Finite mu"
| "obj_Mean lm (OBinomial1 _ p _ _ _ _ n) = Finite (d_mul p (d_int n))"
| "obj_Mean lm (ONegBinomial _ N P _ _ _ _) = Finite (d_mul N P)"
| "obj_Mean lm (ODiscrete g) = Finite (dg_mean g)"
| "obj_Mean lm (OChiSq _ _ _ mean _) = Finite mean"
| "obj_Mean lm (OStable alpha bprime _ notation) =
     (if d_lt alpha (Fin 1) then (if bprime = Fin 1 then PlusInfinity
        else if bprime = Fin (- 1) then MinusInfinity else Indefinite)
      else if alpha = Fin 1 then Indefinite
      else if notation = Chambers then Finite (d_mul (d_neg bprime) (m_tan lm (d_mul piby2 alpha)))
      else Finite (Fin 0))"
| "obj_Mean lm (ONegated rv) = er_neg (obj_Mean lm rv)"
| "obj_Mean lm (OScaled rv s) = er_mul (obj_Mean lm rv) (Finite s)"
| "obj_Mean lm (OReciprocal rv s) = Missing"
| "obj_Mean lm (OShifted rv s) = er_add (obj_Mean lm rv) (Finite s)"
| "obj_Mean lm (OReverseShifted rv s) = er_add (er_neg (obj_Mean lm rv)) (Finite s)"
| "obj_Mean lm (ORepeated rv n) = er_mul (obj_Mean lm rv) (Finite (d_int n))"
| "obj_Mean lm (OMultiplied a b) = er_mul (obj_Mean lm a) (obj_Mean lm b)"
| "obj_Mean lm (OAdded a b) = er_add (obj_Mean lm a) (obj_Mean lm b)"
| "obj_Mean lm (OSubtracted a b) = er_sub (obj_Mean lm a) (obj_Mean lm b)"
| "obj_Mean lm (ODivided a b) = Missing"
| "obj_Mean lm (OSelected rv p) = Finite (Fin (1 / 2))"
| "obj_Mean lm (OAddedSelected a b) = Finite (Fin (1 / 2))"
| "obj_Mean lm (OMixed g rvs mean var) = mean"

definition twelfth :: dbl where "twelfth = d_quot (Fin 1) (Fin 12)"

fun obj_Variance :: "libm \<Rightarrow> robj \<Rightarrow> extreal" where
  "obj_Variance lm OUniform = Finite twelfth"
| "obj_Variance lm (OConstant v) = Finite (Fin 0)"
| "obj_Variance lm (OExponential mean) = Finite (d_mul mean mean)"
| "obj_Variance lm (OWeibull _ _) = Finite twelfth"
| "obj_Variance lm (OExtreme _ _) = Finite twelfth"
| "obj_Variance lm (OStudent _ _ _) = Finite twelfth"
| "obj_Variance lm (OPareto shape _) = (if d_lt (Fin 2) shape
     then Finite (d_quot (d_quot shape (square (d_sub shape (Fin 1)))) (d_sub shape (Fin 2))) else PlusInfinity)"
| "obj_Variance lm (OPosGenX _ _) = Missing"
| "obj_Variance lm (OSymGenX _ _) = Missing"
| "obj_Variance lm (OAsymGenX _ _ _) = Missing"
| "obj_Variance lm (ONormal _) = Finite (Fin 1)"
| "obj_Variance lm (OChiSq1 _ deltasq _) = Finite (d_add (Fin 2) (d_mul (Fin 4) deltasq))"
| "obj_Variance lm (OCauchy _) = PlusInfinity"
| "obj_Variance lm (OGamma1 _ _ _ alpha) = Finite alpha"
| "obj_Variance lm (OGamma2 _ alpha _) = Finite alpha"
| "obj_Variance lm (OPoisson1 _ mu _) = Finite mu"
| "obj_Variance lm (OBinomial1 _ p q _ _ _ n) = Finite (d_mul (d_mul p q) (d_int n))"
| "obj_Variance lm (ONegBinomial _ N P Q _ _ _) = Finite (d_mul (d_mul N P) Q)"
| "obj_Variance lm (ODiscrete g) = Finite (dg_var g)"
| "obj_Variance lm (OChiSq _ _ _ _ var) = Finite var"
| "obj_Variance lm (OStable alpha _ _ _) = (if d_lt alpha (Fin 2) then PlusInfinity else Finite (Fin (1 / 2)))"
| "obj_Variance lm (ONegated rv) = obj_Variance lm rv"
| "obj_Variance lm (OScaled rv s) = er_mul (obj_Variance lm rv) (Finite (d_mul s s))"
| "obj_Variance lm (OReciprocal rv s) = Missing"
| "obj_Variance lm (OShifted rv s) = obj_Variance lm rv"
| "obj_Variance lm (OReverseShifted rv s) = obj_Variance lm rv"
| "obj_Variance lm (ORepeated rv n) = er_mul (obj_Variance lm rv) (Finite (d_int n))"
| "obj_Variance lm (OMultiplied a b) =
     (let e1 = er_square (obj_Mean lm a); e2 = er_square (obj_Mean lm b);
          v1 = obj_Variance lm a; v2 = obj_Variance lm b
      in er_add (er_add (er_mul v1 v2) (er_mul v1 e2)) (er_mul e1 v2))"
| "obj_Variance lm (OAdded a b) = er_add (obj_Variance lm a) (obj_Variance lm b)"
| "obj_Variance lm (OSubtracted a b) = er_add (obj_Variance lm a) (obj_Variance lm b)"
| "obj_Variance lm (ODivided a b) = Missing"
| "obj_Variance lm (OSelected rv p) = Finite twelfth"
| "obj_Variance lm (OAddedSelected a b) = Finite twelfth"
| "obj_Variance lm (OMixed g rvs mean var) = var"

subsection \<open>Mixtures\<close>

fun obj_nelems :: "robj \<Rightarrow> nat" where
  "obj_nelems (OAddedSelected a b) = obj_nelems a + obj_nelems b"
| "obj_nelems ob = 1"

fun obj_load :: "robj \<Rightarrow> (dbl \<times> robj) list nr" where
  "obj_load (OSelected rv p) = Inr [(p, rv)]"
| "obj_load (OAddedSelected a b) = nr_bind (obj_load a) (\<lambda>xs. nr_bind (obj_load b) (\<lambda>ys. Inr (xs @ ys)))"
| "obj_load ob = Inl (Logic_error ''Newran: illegal combination'')"

definition MixedRandom :: "libm \<Rightarrow> (dbl \<times> robj) list \<Rightarrow> robj nr" where
  "MixedRandom lm prvs = nr_bind (DiscreteGen (map fst prvs) None) (\<lambda>g.
     let mean = fold (\<lambda>(p, rv) m. er_add m (er_mul (obj_Mean lm rv) (Finite p))) prvs (Finite (Fin 0));
         var = fold (\<lambda>(p, rv) v. er_add v (er_mul (er_add (obj_Variance lm rv)
             (er_square (er_sub (obj_Mean lm rv) mean))) (Finite p))) prvs (Finite (Fin 0))
     in Inr (OMixed g (map snd prvs) mean var))"

definition MixedRandom_selected :: "libm \<Rightarrow> robj \<Rightarrow> robj nr" where
  "MixedRandom_selected lm sr = nr_bind (obj_load sr) (MixedRandom lm)"

end
