(* ===== verification/Vari.thy ===== *)
theory Vari
  imports RandVar_Next
begin

text \<open>The distributions whose parameters are given with each draw: VariPoisson, VariBinomial and
  VariLogNormal (src/ITGSend/newran/newran2.cpp).  They invert the distribution function, from 0 or from
  its mode on, or use a normal number.  The fuel bounds the terms that are added.\<close>

definition v_uniform :: "(dbl \<Rightarrow> 'a) \<Rightarrow> 'a draw" where
  "v_uniform f = v_bind v_next (\<lambda>u. v_ret (f u))"

definition Round :: "dbl \<Rightarrow> int nr" where
  "Round f = (let i = int_of (d_floor (d_add f (Fin (1 / 2)))) in
     if d_lt (Fin (1 / 2)) (d_abs (d_sub (d_int i) f))
     then Inl (Runtime_error ''Cannot convert to integer '') else Inr i)"

subsection \<open>Poisson\<close>

record vari_poisson =
  vp_N :: robj
  vp_P100 :: robj
  vp_P200 :: robj

definition VariPoisson :: "libm \<Rightarrow> vari_poisson nr" where
  "VariPoisson lm = nr_bind (Normal lm) (\<lambda>N. nr_bind (Poisson lm (Fin 100)) (\<lambda>p. nr_bind (Poisson lm (Fin 200)) (\<lambda>q.
     Inr \<lparr>vp_N = N, vp_P100 = p, vp_P200 = q\<rparr>)))"

fun vp_from_0 :: "nat \<Rightarrow> dbl \<Rightarrow> dbl \<Rightarrow> dbl \<Rightarrow> dbl \<Rightarrow> int \<Rightarrow> dbl draw" where
  "vp_from_0 0 mu u t s k = (\<lambda>w. Endless)"
| "vp_from_0 (Suc n) mu u t s k =
     (if d_lt s u
      then (let t' = d_mul t (d_quot mu (d_int (k + 1))) in vp_from_0 n mu u t' (d_add s t') (k + 1))
      else v_ret (d_int k))"

definition VariPoisson_Next_very_small :: "libm \<Rightarrow> nat \<Rightarrow> dbl \<Rightarrow> dbl draw" where
  "VariPoisson_Next_very_small lm n mu =
     (if mu = Fin 0 then v_ret (Fin 0)
      else (let t = m_exp lm (d_neg mu) in v_bind v_next (\<lambda>u. vp_from_0 n mu u t t 0)))"

fun vp_from_mode :: "nat \<Rightarrow> dbl \<Rightarrow> dbl \<Rightarrow> dbl \<Rightarrow> dbl \<Rightarrow> dbl \<Rightarrow> int \<Rightarrow> int \<Rightarrow> dbl draw" where
  "vp_from_mode 0 mu u t1 t2 s k1 k2 = (\<lambda>w. Endless)"
| "vp_from_mode (Suc n) mu u t1 t2 s k1 k2 =
     (let t1' = d_mul t1 (d_quot mu (d_int (k1 + 1))); s' = d_add s t1' in
      if d_lt u s' then v_ret (d_int (k1 + 1))
      else if 0 < k2
        then (let t2' = d_mul t2 (d_quot (d_int k2) mu); s'' = d_add s' t2' in
          if d_lt u s'' then v_ret (d_int (k2 - 1)) else vp_from_mode n mu u t1' t2' s'' (k1 + 1) (k2 - 1))
        else vp_from_mode n mu u t1' t2 s' (k1 + 1) k2)"

definition VariPoisson_Next_small :: "libm \<Rightarrow> nat \<Rightarrow> dbl \<Rightarrow> dbl draw" where
  "VariPoisson_Next_small lm n mu =
     (if d_lt mu (Fin 10) then VariPoisson_Next_very_small lm n mu
      else (let k = int_of mu in v_bind v_next (\<lambda>u.
        v_bind (v_nr (ln_gamma lm (d_int (k + 1)))) (\<lambda>g.
        let t = m_exp lm (d_sub (d_sub (d_mul (d_int k) (m_log lm mu)) mu) g) in
        if d_lt u t then v_ret (d_int k) else vp_from_mode n mu u t t t k k))))"

definition sheppard :: dbl where "sheppard = d_quot (Fin 1) (Fin 12)"

definition VariPoisson_Next_large :: "libm \<Rightarrow> nat \<Rightarrow> dbl \<Rightarrow> robj \<Rightarrow> (dbl \<times> robj) draw" where
  "VariPoisson_Next_large lm n mu N = v_bind v_next (\<lambda>u. v_bind (obj_Next lm n N) (\<lambda>(x, N').
     let k = (if d_lt (d_quot (Fin 1) (Fin 3)) u
       then (let musc = d_mul (Fin (1 / 2)) (d_sub mu sheppard);
                 meansq = m_sqrt lm (d_sub (d_mul mu mu) musc);
                 sigma = m_sqrt lm (d_quot musc (d_add mu meansq))
             in d_floor (d_add (square (d_add (d_mul x sigma) (m_sqrt lm meansq))) (Fin (1 / 2))))
       else d_floor (d_add (d_add (d_mul x (m_sqrt lm (d_sub mu sheppard))) mu) (Fin (1 / 2))))
     in v_ret (if d_lt k (Fin 0) then Fin 0 else k, N')))"

definition VariPoisson_Next :: "libm \<Rightarrow> nat \<Rightarrow> dbl \<Rightarrow> vari_poisson \<Rightarrow> (dbl \<times> vari_poisson) draw" where
  "VariPoisson_Next lm n mu vp =
     (let shifted = (\<lambda>ob upd m. v_bind (obj_Next lm n ob) (\<lambda>(x, ob').
        v_bind (VariPoisson_Next_small lm n (d_sub mu m)) (\<lambda>y. v_ret (d_add (d_int (int_of x)) y, upd ob')))) in
      if d_le mu (Fin 0) then (if mu = Fin 0 then v_ret (Fin 0, vp) else v_nr (Inl illegal))
      else if d_lt mu (Fin 10) then v_bind (VariPoisson_Next_very_small lm n mu) (\<lambda>x. v_ret (x, vp))
      else if d_lt mu (Fin 100) then v_bind (VariPoisson_Next_small lm n mu) (\<lambda>x. v_ret (x, vp))
      else if d_lt mu (Fin 200) then shifted (vp_P100 vp) (\<lambda>p. vp\<lparr>vp_P100 := p\<rparr>) (Fin 100)
      else if d_lt mu (Fin 300) then shifted (vp_P200 vp) (\<lambda>p. vp\<lparr>vp_P200 := p\<rparr>) (Fin 200)
      else v_bind (VariPoisson_Next_large lm n mu (vp_N vp)) (\<lambda>(x, N). v_ret (x, vp\<lparr>vp_N := N\<rparr>)))"

definition VariPoisson_iNext :: "libm \<Rightarrow> nat \<Rightarrow> dbl \<Rightarrow> vari_poisson \<Rightarrow> (int \<times> vari_poisson) draw" where
  "VariPoisson_iNext lm n mu vp =
     v_bind (VariPoisson_Next lm n mu vp) (\<lambda>(x, vp'). v_bind (v_nr (Round x)) (\<lambda>i. v_ret (i, vp')))"

subsection \<open>Binomial\<close>

text \<open>The counter runs up to n; m rounds are left.\<close>

fun vb_from_0 :: "nat \<Rightarrow> int \<Rightarrow> dbl \<Rightarrow> dbl \<Rightarrow> dbl \<Rightarrow> dbl \<Rightarrow> int \<Rightarrow> dbl" where
  "vb_from_0 0 n r u t s k = Fin 0"
| "vb_from_0 (Suc m) n r u t s k =
     (if d_le u s then d_int k
      else (let t' = d_mul t (d_quot (d_mul r (d_int (n - k))) (d_int (k + 1)))
        in vb_from_0 m n r u t' (d_add s t') (k + 1)))"

definition VariBinomial_Next_very_small :: "libm \<Rightarrow> int \<Rightarrow> dbl \<Rightarrow> dbl draw" where
  "VariBinomial_Next_very_small lm n p =
     (let q = d_sub (Fin 1) p; t = m_pow lm q (d_int n) in
      if q = Fin 0 then v_ret (d_int n)
      else v_uniform (\<lambda>u. vb_from_0 (nat (n + 1)) n (d_quot p q) u t t 0))"

fun vb_from_mode :: "nat \<Rightarrow> int \<Rightarrow> dbl \<Rightarrow> dbl \<Rightarrow> dbl \<Rightarrow> dbl \<Rightarrow> dbl \<Rightarrow> int \<Rightarrow> int \<Rightarrow> dbl draw" where
  "vb_from_mode 0 n r u t1 t2 s k1 k2 = (\<lambda>w. Endless)"
| "vb_from_mode (Suc f) n r u t1 t2 s k1 k2 =
     (let t1' = d_mul t1 (d_quot (d_mul r (d_int (n - k1))) (d_int (k1 + 1))); s' = d_add s t1' in
      if d_le u s' then v_ret (d_int (k1 + 1))
      else if k2 \<noteq> 0
        then (let t2' = d_mul t2 (d_quot (d_quot (d_int k2) (d_int (n - (k2 - 1)))) r); s'' = d_add s' t2' in
          if d_le u s'' then v_ret (d_int (k2 - 1)) else vb_from_mode f n r u t1' t2' s'' (k1 + 1) (k2 - 1))
      else if k1 + 1 = n then v_ret (Fin 0) else vb_from_mode f n r u t1' t2 s' (k1 + 1) k2)"

definition VariBinomial_Next_small :: "libm \<Rightarrow> nat \<Rightarrow> int \<Rightarrow> dbl \<Rightarrow> dbl draw" where
  "VariBinomial_Next_small lm f n p =
     (let q = d_sub (Fin 1) p; r = d_quot p q;
          k = int_of (d_quot (d_mul (d_int n) r) (d_add r (Fin 1))) in
      v_bind v_next (\<lambda>u. v_bind (v_nr (ln_gamma lm (d_int (n + 1)))) (\<lambda>a.
      v_bind (v_nr (ln_gamma lm (d_int (k + 1)))) (\<lambda>b. v_bind (v_nr (ln_gamma lm (d_int (n - k + 1)))) (\<lambda>c.
      let t = m_exp lm (d_add (d_add (d_sub (d_sub a b) c) (d_mul (d_int k) (m_log lm p)))
            (d_mul (d_int (n - k)) (m_log lm q)))
      in if d_le u t then v_ret (d_int k) else vb_from_mode f n r u t t t k k)))))"

definition VariBinomial_Next_large :: "libm \<Rightarrow> nat \<Rightarrow> int \<Rightarrow> dbl \<Rightarrow> robj \<Rightarrow> (dbl \<times> robj) draw" where
  "VariBinomial_Next_large lm f n p N =
     (let mean = d_mul (d_int n) p; sd = m_sqrt lm (d_sub (d_mul mean (d_sub (Fin 1) p)) sheppard) in
      v_bind (obj_Next lm f N) (\<lambda>(x, N').
        v_ret (d_floor (d_add (d_add (d_mul x sd) mean) (Fin (1 / 2))), N')))"

text \<open>A probability above one half calls Next again with the complement.\<close>

fun VariBinomial_Next :: "libm \<Rightarrow> nat \<Rightarrow> int \<Rightarrow> dbl \<Rightarrow> robj \<Rightarrow> (dbl \<times> robj) draw" where
  "VariBinomial_Next lm 0 n p N = (\<lambda>w. Endless)"
| "VariBinomial_Next lm (Suc f) n p N =
     (if d_lt (Fin (1 / 2)) p
      then v_bind (VariBinomial_Next lm f n (d_sub (Fin 1) p) N) (\<lambda>(x, N'). v_ret (d_sub (d_int n) x, N'))
      else if n \<le> 0 \<or> d_le p (Fin 0)
        then (if n < 0 \<or> d_lt p (Fin 0) then v_nr (Inl illegal) else v_ret (Fin 0, N))
      else if d_le (d_mul (d_int n) p) (Fin 10)
        then v_bind (VariBinomial_Next_very_small lm n p) (\<lambda>x. v_ret (x, N))
      else if d_le (d_mul (d_int n) p) (Fin 200)
        then v_bind (VariBinomial_Next_small lm f n p) (\<lambda>x. v_ret (x, N))
      else VariBinomial_Next_large lm f n p N)"

definition VariBinomial_iNext :: "libm \<Rightarrow> nat \<Rightarrow> int \<Rightarrow> dbl \<Rightarrow> robj \<Rightarrow> (int \<times> robj) draw" where
  "VariBinomial_iNext lm f n p N =
     v_bind (VariBinomial_Next lm f n p N) (\<lambda>(x, N'). v_bind (v_nr (Round x)) (\<lambda>i. v_ret (i, N')))"

subsection \<open>Log normal\<close>

definition VariLogNormal_Next :: "libm \<Rightarrow> nat \<Rightarrow> dbl \<Rightarrow> dbl \<Rightarrow> robj \<Rightarrow> (dbl \<times> robj) draw" where
  "VariLogNormal_Next lm f mean sd N =
     (let n_var = m_log lm (d_add (Fin 1) (square (d_quot sd mean))) in
      v_bind (obj_Next lm f N) (\<lambda>(x, N').
        v_ret (d_mul mean (m_exp lm (d_sub (d_mul x (m_sqrt lm n_var)) (d_mul (Fin (1 / 2)) n_var))), N')))"

end
