(* ===== verification/Variate_Facts.thy ===== *)
theory Variate_Facts
  imports Variate Rng_Facts
begin

text \<open>Draws by tables never leave their tables, given a generator whose numbers lie in the middle of the
  2^32 parts of the unit interval, as those of MotherOfAll and of MultWithCarry do.\<close>

subsection \<open>Reasoning about draws\<close>

text \<open>From a good state a draw with the property P ends in a good state with a value that has P, unless it
  throws or does not end.  It is never broken.\<close>

definition draws :: "(newran \<Rightarrow> bool) \<Rightarrow> ('a \<Rightarrow> bool) \<Rightarrow> 'a draw \<Rightarrow> bool" where
  "draws good P m \<longleftrightarrow> (\<forall>w. good w \<longrightarrow>
     (case m w of Val x w' \<Rightarrow> P x \<and> good w' | Broken \<Rightarrow> False | _ \<Rightarrow> True))"

named_theorems draw_intros \<open>rules for draws, one per construct\<close>

lemma draws_ret [draw_intros]: "P x \<Longrightarrow> draws good P (v_ret x)"
  by (simp add: draws_def v_ret_def)

lemma draws_iff: "draws good P m \<longleftrightarrow> (\<forall>w. good w \<longrightarrow>
    m w \<noteq> Broken \<and> (\<forall>x w'. m w = Val x w' \<longrightarrow> P x \<and> good w'))"
  unfolding draws_def by (intro iff_allI imp_cong refl) (auto split: vres.split)

lemma draws_bind:
  assumes "draws good Q m" "\<And>x. Q x \<Longrightarrow> draws good P (f x)"
  shows "draws good P (v_bind m f)"
  unfolding draws_iff
proof (intro allI impI)
  fix w assume w: "good w"
  show "v_bind m f w \<noteq> Broken \<and> (\<forall>x w'. v_bind m f w = Val x w' \<longrightarrow> P x \<and> good w')"
  proof (cases "m w")
    case (Val x w')
    then have "Q x" "good w'" using assms(1) w by (auto simp: draws_iff)
    then show ?thesis using assms(2)[of x] Val by (simp add: draws_iff v_bind_def)
  qed (use assms(1) w in \<open>auto simp: draws_iff v_bind_def\<close>)
qed

lemma draws_nr [draw_intros]: "(\<And>x. r = Inr x \<Longrightarrow> P x) \<Longrightarrow> draws good P (v_nr r)"
  by (auto simp: draws_def v_nr_def split: sum.split)

lemma draws_opt [draw_intros]: "r = Some x \<Longrightarrow> P x \<Longrightarrow> draws good P (v_opt r)"
  by (auto simp: draws_def v_opt_def)

lemma draws_endless [draw_intros]: "draws good P (\<lambda>w. Endless)"
  by (simp add: draws_def)

lemma draws_weaken: "draws good Q m \<Longrightarrow> (\<And>x. Q x \<Longrightarrow> P x) \<Longrightarrow> draws good P m"
  by (fastforce simp: draws_def split: vres.splits)

subsection \<open>The numbers of the generator\<close>

definition half_unit :: "dbl \<Rightarrow> bool" where
  "half_unit x \<longleftrightarrow> (\<exists>k. x = Fin (of_int k / 2 ^ 33) \<and> 0 < k \<and> k < 2 ^ 33 \<and> odd k)"

lemma half_unitI:
  assumes "0 \<le> k" "k < 4294967296"
  shows "half_unit (Fin ((of_int k + 1 / 2) / 4294967296))"
  unfolding half_unit_def using assms by (intro exI[of _ "2 * k + 1"]) simp

text \<open>The interface of the generators that the tables can rely on.\<close>

locale half_source =
  fixes good :: "newran \<Rightarrow> bool"
  assumes draw: "good w \<Longrightarrow> \<exists>x w'. RNG_Next w = Some (Inr (x, w')) \<and> half_unit x \<and> good w'"
begin

lemma draws_next: "draws good half_unit v_next"
  using draw by (fastforce simp: draws_def v_next_def)

end

definition mother_good :: "newran \<Rightarrow> bool" where
  "mother_good w \<longleftrightarrow> (\<exists>l g. nr_RNG w = Some l \<and> nr_objs w l = Some (Mom g) \<and> mother_ok g)"

lemma Mother_Next_half: "mother_ok g \<Longrightarrow> half_unit (fst (Mother_Next g))"
proof -
  assume g: "mother_ok g"
  have b: "0 \<le> ref_seed (mother_state (Mother g))" "ref_seed (mother_state (Mother g)) < 4294967296"
    by (simp_all add: ref_seed_def)
  have "fst (Mother_Next g) = Fin ((of_int (ref_seed (mother_state (Mother g))) + 1 / 2) / 4294967296)"
    using half_over_32[OF b] by (simp add: Mother_Next_def Let_def d_ulong_def Mother_seed[OF g])
  then show ?thesis using half_unitI[OF b] by simp
qed

interpretation mother_source: half_source mother_good
proof
  fix w assume "mother_good w"
  then obtain l g where "nr_RNG w = Some l" "nr_objs w l = Some (Mom g)" "mother_ok g"
    by (auto simp: mother_good_def)
  then show "\<exists>x w'. RNG_Next w = Some (Inr (x, w')) \<and> half_unit x \<and> mother_good w'"
    using RNG_Next_mother[of w l g] Mother_Next_half[of g] Mother_ok[of g]
    by (auto simp: mother_good_def)
qed

lemma mother_good_start:
  assumes "flow_start j1 j2 f s w = Some (Inr w')" "length j1 = 10" "length j2 = 10"
  shows "mother_good w'"
proof -
  obtain g where "MotherOfAll j1 j2 s = Inr g" "w' = Random_Set f (w\<lparr>nr_objs := (nr_objs w)(f \<mapsto> Mom g)\<rparr>)"
    using assms(1) by (auto simp: flow_start_def nr_bind_Inr)
  then show ?thesis using MotherOfAll_ok[OF _ assms(2,3)] by (auto simp: mother_good_def Random_Set_def)
qed

lemma start_half: "flow_start junk junk 0 (Fin (1 / 2)) (newran0 disk0) = Some (Inr newran_one)"
  by (simp add: flow_start_def MotherOfAll_half Random_Set_def newran_one_def newran0_def)

definition mwc_good :: "newran \<Rightarrow> bool" where
  "mwc_good w \<longleftrightarrow> (\<exists>l g. nr_RNG w = Some l \<and> nr_objs w l = Some (Mwc g) \<and>
     uint (mw_x g) < 2 ^ 32 \<and> uint (mw_crry g) < 2083801278)"

lemma MWC_step_ok:
  assumes "uint (mw_x g) < 2 ^ 32" "uint (mw_crry g) < 2083801278"
  shows "uint (mw_x (MWC_step g)) < 2 ^ 32" "uint (mw_crry (MWC_step g)) < 2083801278"
proof -
  obtain x c where xc: "MWC_NextValue (mw_x g, mw_crry g) = (x, c)" by (metis surj_pair)
  then show "uint (mw_x (MWC_step g)) < 2 ^ 32" "uint (mw_crry (MWC_step g)) < 2083801278"
    using MWC_NextValue_product[OF assms xc] by (simp_all add: MWC_step_def)
qed

interpretation mwc_source: half_source mwc_good
proof
  fix w assume "mwc_good w"
  then obtain l g where g: "nr_RNG w = Some l" "nr_objs w l = Some (Mwc g)"
    "uint (mw_x g) < 2 ^ 32" "uint (mw_crry g) < 2083801278"
    by (auto simp: mwc_good_def)
  define k where "k = uint (mw_x (MWC_step g))"
  have k: "0 \<le> k" "k < 4294967296" using MWC_step_ok(1)[OF g(3,4)] by (simp_all add: k_def)
  have "MWC_Next g = (Fin ((of_int k + 1 / 2) / 4294967296), MWC_step g)"
    using half_over_32[OF k] by (simp add: MWC_Next_def Let_def d_ulong_def k_def)
  then have "RNG_Next w = Some (Inr (Fin ((of_int k + 1 / 2) / 4294967296),
      w\<lparr>nr_objs := (nr_objs w)(l \<mapsto> Mwc (MWC_step g)), nr_mt := nr_mt w\<rparr>))"
    using g by (simp add: RNG_Next_def on_RNG_def urng_Next_def)
  then show "\<exists>x w'. RNG_Next w = Some (Inr (x, w')) \<and> half_unit x \<and> mwc_good w'"
    using half_unitI[OF k] g MWC_step_ok[OF g(3,4)] by (auto simp: mwc_good_def)
qed

text \<open>The place in a table of n cells.\<close>

lemma exact_scaled: "0 \<le> k \<Longrightarrow> k < 2 ^ 33 \<Longrightarrow> 0 \<le> n \<Longrightarrow> n \<le> 2 ^ 20 \<Longrightarrow> exact (of_int k / 2 ^ 33 * of_int n)"
proof -
  assume a: "0 \<le> k" "k < 2 ^ 33" "0 \<le> n" "n \<le> 2 ^ 20"
  then have "k * n \<le> 2 ^ 33 * 2 ^ 20 - 2 ^ 20 \<or> n = 0"
    using mult_mono[of k "2 ^ 33 - 1" n "2 ^ 20"] by simp
  then have "\<bar>k * n\<bar> < 2 ^ 53" using a by (auto simp: abs_mult mult_nonneg_nonneg)
  then have "exact (of_int (k * n) / 2 ^ 33)" by (intro exact_frac) simp_all
  then show ?thesis by simp
qed

lemma d_int_small [simp]: "\<bar>n\<bar> < 2 ^ 53 \<Longrightarrow> d_int n = Fin (of_int n)"
  by (simp add: d_int_def exact_int)

lemma scaled_index:
  assumes "0 \<le> k" "k < 2 ^ 33" "0 \<le> n" "n \<le> 2 ^ 20"
  shows "int_of (d_mul (Fin (of_int k / 2 ^ 33)) (d_int n)) = k * n div 2 ^ 33"
proof -
  have f: "\<lfloor>of_int k / 2 ^ 33 * of_int n :: rat\<rfloor> = k * n div 2 ^ 33"
    using floor_divide_of_int_eq[of "k * n" "2 ^ 33", where ?'a = rat] by simp
  have "k * n \<le> 2 ^ 33 * 2 ^ 20" using assms by (intro mult_mono) simp_all
  then have "k * n div 2 ^ 33 < 2 ^ 31" "0 \<le> k * n div 2 ^ 33"
    using assms by (simp_all add: pos_imp_zdiv_nonneg_iff mult_nonneg_nonneg)
  moreover have "(0 :: rat) \<le> of_int k / 2 ^ 33 * of_int n" using assms by simp
  moreover have "d_int n = Fin (of_int n)" using assms by simp
  ultimately show ?thesis using exact_scaled[OF assms] f
    by (simp only: d_mul_def prod.case dbl.case to_dbl_exact int_of_def trunc_def) simp
qed

lemma scaled_below:
  assumes "0 \<le> k" "k < 2 ^ b" "0 < n"
  shows "0 \<le> k * n div 2 ^ b" "k * n div 2 ^ b < (n :: int)"
proof -
  have "k * n < 2 ^ b * n" using assms by (intro mult_strict_right_mono) simp_all
  moreover have "k * n div 2 ^ b * 2 ^ b \<le> k * n"
  proof -
    have "0 \<le> k * n mod 2 ^ b" by (rule pos_mod_sign) simp
    then show ?thesis using div_mult_mod_eq[of "k * n" "2 ^ b"] by linarith
  qed
  ultimately have "k * n div 2 ^ b * 2 ^ b < n * 2 ^ b" unfolding mult.commute[of n] by linarith
  then show "k * n div 2 ^ b < n" by (simp only: mult_less_cancel_right) simp
  show "0 \<le> k * n div 2 ^ b" using assms by (simp add: pos_imp_zdiv_nonneg_iff)
qed

lemma half_unit_index:
  assumes "half_unit r" "0 < n" "n \<le> 2 ^ 20"
  shows "0 \<le> int_of (d_mul r (d_int n))" "int_of (d_mul r (d_int n)) < n"
proof -
  obtain k where k: "r = Fin (of_int k / 2 ^ 33)" "0 < k" "k < 2 ^ 33"
    using assms(1) by (auto simp: half_unit_def)
  show "0 \<le> int_of (d_mul r (d_int n))" "int_of (d_mul r (d_int n)) < n"
    using scaled_below[of k 33 n] k(2,3) assms(2,3)
    by (simp_all only: k(1) scaled_index less_imp_le)
qed

text \<open>Half of the interval, as SymGen folds it: 1/2 itself would lead one cell too far.\<close>

lemma sym_fold_half:
  assumes "half_unit r1" "sym_fold r1 = (s, r)"
  shows "\<exists>k. r = Fin (of_int k / 2 ^ 33) \<and> 0 < k \<and> k < 2 ^ 32"
proof -
  obtain k where k: "r1 = Fin (of_int k / 2 ^ 33)" "0 < k" "k < 2 ^ 33" "odd k"
    using assms(1) by (auto simp: half_unit_def)
  have "k \<noteq> 2 ^ 32" using k(4) by auto
  have lt: "d_lt (Fin (1 / 2)) r1 \<longleftrightarrow> 2 ^ 32 < k"
  proof -
    have "(1 / 2 :: rat) = of_int (2 ^ 32) / 2 ^ 33" by simp
    then show ?thesis
      using \<open>k \<noteq> 2 ^ 32\<close> by (auto simp: d_lt_def d_le_def k(1) field_simps)
  qed
  show ?thesis
  proof (cases "2 ^ 32 < k")
    case True
    have "exact (of_int (2 ^ 33 - k) / 2 ^ 33)" using k by (intro exact_frac) simp_all
    moreover have "(of_int (2 ^ 33 - k) / 2 ^ 33 :: rat) = 1 - of_int k / 2 ^ 33"
      by (simp add: diff_divide_distrib)
    ultimately have "r = Fin (of_int (2 ^ 33 - k) / 2 ^ 33)"
      using assms(2) True lt to_dbl_exact[of "1 - of_int k / 2 ^ 33"]
      by (auto simp only: sym_fold_def d_sub_def k(1) if_True prod.case dbl.case prod.inject)
    then show ?thesis using True k by (intro exI[of _ "2 ^ 33 - k"]) simp
  next
    case False
    then have "r = Fin (of_int k / 2 ^ 33)" using assms(2) lt by (simp add: sym_fold_def k(1))
    then show ?thesis using False k \<open>k \<noteq> 2 ^ 32\<close> by (intro exI[of _ k]) simp
  qed
qed

subsection \<open>Tables that are filled\<close>

definition filled :: "table \<Rightarrow> nat \<Rightarrow> bool" where
  "filled t j \<longleftrightarrow> j < length (tb_sx t) \<and> j < length (tb_sfx t) \<and> tb_sx t ! j \<noteq> None \<and> tb_sfx t ! j \<noteq> None"

lemma filled_set_cell: "filled t j \<Longrightarrow> filled (set_cell i x f t) j"
  by (cases "i = j") (simp_all add: filled_def set_cell_def)

lemma filled_new: "i < length (tb_sx t) \<Longrightarrow> i < length (tb_sfx t) \<Longrightarrow> filled (set_cell i x f t) i"
  by (simp add: filled_def set_cell_def)

lemma filled_more [simp]: "filled (t\<lparr>tb_xi := x, tb_NotReady := b\<rparr>) j = filled t j"
  "filled (t\<lparr>tb_ic := c\<rparr>) j = filled t j"
  by (simp_all add: filled_def)

definition sizes :: "table \<Rightarrow> nat" where
  "sizes t = min (length (tb_sx t)) (length (tb_sfx t))"

lemma sizes_set_cell [simp]: "sizes (set_cell i x f t) = sizes t"
  by (simp add: sizes_def set_cell_def)

text \<open>The loops of Build fill the cells up to the one where they stop, and undo none.\<close>

lemma build_loop_filled:
  assumes "build_loop dir density inc n i sxi t = Inr (Some (i', x), t')" "i + n \<le> sizes t"
  shows "i \<le> i' \<and> i' < i + n \<and> (\<forall>j. i \<le> j \<and> j \<le> i' \<longrightarrow> filled t' j) \<and>
    (\<forall>j. filled t j \<longrightarrow> filled t' j) \<and> tb_ic t' = tb_ic t \<and> sizes t' = sizes t"
  using assms
proof (induction n arbitrary: i sxi t)
  case (Suc n)
  obtain f1 where f1: "density sxi = Inr f1" using Suc.prems(1) by (auto simp: nr_bind_Inr)
  define u where "u = set_cell i sxi f1 t"
  have i: "filled u i" using Suc.prems(2) by (auto simp: u_def sizes_def intro: filled_new)
  have mono: "filled t j \<Longrightarrow> filled u j" for j by (simp add: u_def filled_set_cell)
  have ic: "tb_ic u = tb_ic t" "sizes u = sizes t" by (simp_all add: u_def set_cell_def sizes_def)
  show ?case
  proof (cases "d_le f1 (Fin 0)")
    case True
    with Suc.prems(1) f1 have "i' = i" "t' = u" by (auto simp: u_def Let_def)
    then show ?thesis using i mono ic by auto
  next
    case False
    with Suc.prems(1) f1
    have "build_loop dir density inc n (i + 1) (dir sxi (d_quot inc f1)) u = Inr (Some (i', x), t')"
      by (simp add: u_def Let_def)
    from Suc.IH[OF this] Suc.prems(2) ic
    have IH: "i + 1 \<le> i' \<and> i' < i + 1 + n \<and> (\<forall>j. i + 1 \<le> j \<and> j \<le> i' \<longrightarrow> filled t' j) \<and>
        (\<forall>j. filled u j \<longrightarrow> filled t' j) \<and> tb_ic t' = tb_ic u \<and> sizes t' = sizes u" by simp
    then have "filled t' i" using i by simp
    then have "\<forall>j. i \<le> j \<and> j \<le> i' \<longrightarrow> filled t' j" using IH
      by (metis Suc_eq_plus1 le_antisym not_less_eq_eq)
    then show ?thesis using IH mono ic by auto
  qed
qed simp

definition pos_ok :: "bool \<Rightarrow> table \<Rightarrow> bool" where
  "pos_ok symm t \<longleftrightarrow> (\<exists>i. 50 \<le> i \<and> i < 60 \<and> tb_xi t = d_int (if symm then 2 * int i else int i) \<and>
     (\<forall>j \<le> i. filled t j))"

definition asym_ok :: "table \<Rightarrow> bool" where
  "asym_ok t \<longleftrightarrow> (\<exists>i. 100 \<le> i \<and> i < 120 \<and> tb_xi t = d_int (int i) \<and>
     (\<forall>j \<le> i. filled t j) \<and> filled t 120)"

lemma PosGen_Build_ok:
  assumes "PosGen_Build symm density t = Inr t'" "sizes t = 60"
  shows "pos_ok symm t'" "sizes t' = 60" "\<not> tb_NotReady t'"
proof -
  obtain i x u where b: "build_loop d_add density (to_dbl (if symm then 0.01 else 0.02)) 60 0 (Fin 0) t =
      Inr (Some (i, x), u)" and i: "\<not> i < 50"
    and t': "t' = u\<lparr>tb_xi := d_int (if symm then 2 * int i else int i), tb_NotReady := False\<rparr>"
    using assms(1) by (auto simp: PosGen_Build_def nr_bind_Inr split: option.splits prod.splits if_splits)
  note f = build_loop_filled[OF b, unfolded assms(2)]
  then show "pos_ok symm t'" using i by (auto simp: pos_ok_def t' intro!: exI[of _ i])
  show "sizes t' = 60" "\<not> tb_NotReady t'" using f by (simp_all add: t' sizes_def)
qed

lemma AsymGen_Build_ok:
  assumes "AsymGen_Build mode density t = Inr t'" "sizes t = 121"
  shows "asym_ok t'" "sizes t' = 121" "\<not> tb_NotReady t'"
proof -
  obtain i sxi t1 i' x t2 where
    b1: "build_loop d_add density (to_dbl 0.01) 120 0 mode t = Inr (Some (i, sxi), t1)" and
    b2: "build_loop d_sub density (to_dbl 0.01) (120 - i) i mode
      ((set_cell 120 sxi (Fin 0) t1)\<lparr>tb_ic := int i - 1\<rparr>) = Inr (Some (i', x), t2)" and
    i': "\<not> i' < 100" and t': "t' = t2\<lparr>tb_xi := d_int (int i'), tb_NotReady := False\<rparr>"
    using assms(1) by (auto simp: AsymGen_Build_def nr_bind_Inr split: option.splits prod.splits if_splits)
  let ?u = "(set_cell 120 sxi (Fin 0) t1)\<lparr>tb_ic := int i - 1\<rparr>"
  have f1: "i < 120" "\<forall>j \<le> i. filled t1 j" "sizes t1 = 121"
    using build_loop_filled[OF b1] assms(2) by auto
  have u: "sizes ?u = 121" "\<forall>j \<le> i. filled ?u j" "filled ?u 120"
  proof -
    show "sizes ?u = 121" using f1(3) by (simp add: sizes_def set_cell_def)
    show "\<forall>j \<le> i. filled ?u j" using f1(2) by (simp add: filled_set_cell)
    show "filled ?u 120" using f1(3) by (simp add: sizes_def filled_new)
  qed
  have "i + (120 - i) \<le> sizes ?u" using f1(1) u(1) by simp
  note f2 = build_loop_filled[OF b2 this]
  have "\<forall>j \<le> i'. filled t2 j" using f2 u(2) by (metis nat_le_linear)
  moreover have "filled t2 120" "i' < 120" using f2 u(3) f1(1) by auto
  ultimately show "asym_ok t'" using i' by (auto simp: asym_ok_def t' intro!: exI[of _ i'])
  show "sizes t' = 121" "\<not> tb_NotReady t'" using f2 u(1) by (simp_all add: t' sizes_def)
qed

subsection \<open>Draws stay inside\<close>

lemma draws_cell:
  assumes "0 \<le> i" "filled t (nat i)"
  shows "draws good (\<lambda>_. True) (cell (tb_sx t) i)" "draws good (\<lambda>_. True) (cell (tb_sfx t) i)"
  using assms by (auto simp: draws_iff cell_def v_opt_def filled_def)

lemma draws_retry:
  assumes "draws good (\<lambda>_. True) m" "draws good (\<lambda>_. True) again"
  shows "draws good (\<lambda>_. True) (v_bind m (\<lambda>(x, b). if b then again else v_ret (f x)))"
  by (rule draws_bind[OF assms(1)]) (auto simp: assms(2) intro: draw_intros)

context half_source
begin

lemma draws_attempt:
  assumes "0 \<le> ir" "0 \<le> ir1" "filled t (nat ir)" "filled t (nat ir1)"
  shows "draws good (\<lambda>_. True) (attempt density t ir ir1)"
  unfolding attempt_def Let_def
  by (intro draws_bind[OF draws_cell(1)[OF assms(1,3)]] draws_bind[OF draws_cell(1)[OF assms(2,4)]]
      draws_bind[OF draws_cell(2)[OF assms(1,3)]] draws_bind[OF draws_cell(2)[OF assms(2,4)]]
      draws_bind[OF draws_next])
    (auto intro!: draw_intros draws_bind[OF draws_nr[where P = "\<lambda>_. True"]])

lemma draws_PosGen_loop:
  assumes "pos_ok False t"
  shows "draws good (\<lambda>_. True) (PosGen_loop n density t)"
proof (induction n)
  case (Suc n)
  obtain i where i: "50 \<le> i" "i < 60" "tb_xi t = d_int (int i)" "\<forall>j \<le> i. filled t j"
    using assms by (auto simp: pos_ok_def)
  show ?case unfolding PosGen_loop.simps Let_def
  proof (rule draws_bind[OF draws_next])
    fix r1 assume "half_unit r1"
    then have r: "0 \<le> int_of (d_mul r1 (tb_xi t))" "int_of (d_mul r1 (tb_xi t)) < int i"
      using half_unit_index[of r1 "int i"] i by simp_all
    then have "draws good (\<lambda>_. True) (attempt density t (int_of (d_mul r1 (tb_xi t))) (int_of (d_mul r1 (tb_xi t)) + 1))"
      using i(4) by (intro draws_attempt) auto
    then show "draws good (\<lambda>_. True) (v_bind (attempt density t (int_of (d_mul r1 (tb_xi t)))
        (int_of (d_mul r1 (tb_xi t)) + 1)) (\<lambda>(ak, again). if again then PosGen_loop n density t else v_ret ak))"
      using Suc.IH by (rule draws_retry[where f = "\<lambda>x. x"])
  qed
qed (simp add: draws_endless)

lemma draws_SymGen_loop:
  assumes "pos_ok True t"
  shows "draws good (\<lambda>_. True) (SymGen_loop n density t)"
proof (induction n)
  case (Suc n)
  obtain i where i: "50 \<le> i" "i < 60" "tb_xi t = d_int (2 * int i)" "\<forall>j \<le> i. filled t j"
    using assms by (auto simp: pos_ok_def)
  show ?case unfolding SymGen_loop.simps Let_def
  proof (rule draws_bind[OF draws_next])
    fix r1 assume h: "half_unit r1"
    obtain s r where sr: "sym_fold r1 = (s, r)" by (cases "sym_fold r1")
    then obtain k where k: "r = Fin (of_int k / 2 ^ 33)" "0 < k" "k < 2 ^ 32"
      using sym_fold_half[OF h] by auto
    have "k * (2 * int i) div 2 ^ 33 = k * int i div 2 ^ 32"
      using div_mult_mult1[of 2 "k * int i" "2 ^ 32"] by (simp add: ac_simps)
    then have e: "int_of (d_mul r (tb_xi t)) = k * int i div 2 ^ 32"
      using scaled_index[of k "2 * int i"] k i(2,3) by simp
    have r: "0 \<le> int_of (d_mul r (tb_xi t))" "int_of (d_mul r (tb_xi t)) < int i"
      unfolding e using scaled_below[of k 32 "int i"] k i by simp_all
    then have "draws good (\<lambda>_. True) (attempt density t (int_of (d_mul r (tb_xi t))) (int_of (d_mul r (tb_xi t)) + 1))"
      using i(4) by (intro draws_attempt) auto
    then show "draws good (\<lambda>_. True) (case sym_fold r1 of (s, r) \<Rightarrow> v_bind (attempt density t
        (int_of (d_mul r (tb_xi t))) (int_of (d_mul r (tb_xi t)) + 1))
        (\<lambda>(ak, again). if again then SymGen_loop n density t else v_ret (d_mul s ak)))"
      unfolding sr prod.case using Suc.IH by (rule draws_retry)
  qed
qed (simp add: draws_endless)

lemma draws_AsymGen_loop:
  assumes "asym_ok t"
  shows "draws good (\<lambda>_. True) (AsymGen_loop n density t)"
proof (induction n)
  case (Suc n)
  obtain i where i: "100 \<le> i" "i < 120" "tb_xi t = d_int (int i)" "\<forall>j \<le> i. filled t j" "filled t 120"
    using assms by (auto simp: asym_ok_def)
  show ?case unfolding AsymGen_loop.simps Let_def
  proof (rule draws_bind[OF draws_next])
    fix r1 assume "half_unit r1"
    then have r: "0 \<le> int_of (d_mul r1 (tb_xi t))" "int_of (d_mul r1 (tb_xi t)) < int i"
      using half_unit_index[of r1 "int i"] i by simp_all
    let ?ir = "int_of (d_mul r1 (tb_xi t))"
    have "draws good (\<lambda>_. True) (attempt density t ?ir (if ?ir = tb_ic t then 120 else ?ir + 1))"
      using r i(4,5) by (intro draws_attempt) auto
    then show "draws good (\<lambda>_. True) (v_bind (attempt density t ?ir (if ?ir = tb_ic t then 120 else ?ir + 1))
        (\<lambda>(ak, again). if again then AsymGen_loop n density t else v_ret ak))"
      using Suc.IH by (rule draws_retry[where f = "\<lambda>x. x"])
  qed
qed (simp add: draws_endless)

end

text \<open>A table as an object has it: not built yet, or built and filled.\<close>

definition pos_state :: "bool \<Rightarrow> table \<Rightarrow> bool" where
  "pos_state symm t \<longleftrightarrow> sizes t = 60 \<and> (\<not> tb_NotReady t \<longrightarrow> pos_ok symm t)"

definition asym_state :: "table \<Rightarrow> bool" where
  "asym_state t \<longleftrightarrow> sizes t = 121 \<and> (\<not> tb_NotReady t \<longrightarrow> asym_ok t)"

lemma new_tables: "pos_state symm PosGen" "asym_state AsymGen"
  by (simp_all add: pos_state_def asym_state_def PosGen_def AsymGen_def new_table_def sizes_def)

context half_source
begin

lemma draws_PosGen_Next:
  assumes "pos_state False t"
  shows "draws good (\<lambda>(x, t'). pos_state False t') (PosGen_Next n density t)"
proof -
  have "draws good (\<lambda>t'. pos_state False t' \<and> pos_ok False t')
      (v_nr (if tb_NotReady t then PosGen_Build False density t else Inr t))"
    using assms PosGen_Build_ok[of False density t]
    by (intro draws_nr) (auto simp: pos_state_def split: if_splits)
  then show ?thesis unfolding PosGen_Next_def
    by (rule draws_bind) (auto intro!: draw_intros draws_bind[OF draws_PosGen_loop])
qed

lemma draws_SymGen_Next:
  assumes "pos_state True t"
  shows "draws good (\<lambda>(x, t'). pos_state True t') (SymGen_Next n density t)"
proof -
  have "draws good (\<lambda>t'. pos_state True t' \<and> pos_ok True t')
      (v_nr (if tb_NotReady t then PosGen_Build True density t else Inr t))"
    using assms PosGen_Build_ok[of True density t]
    by (intro draws_nr) (auto simp: pos_state_def split: if_splits)
  then show ?thesis unfolding SymGen_Next_def
    by (rule draws_bind) (auto intro!: draw_intros draws_bind[OF draws_SymGen_loop])
qed

lemma draws_AsymGen_Next:
  assumes "asym_state t"
  shows "draws good (\<lambda>(x, t'). asym_state t') (AsymGen_Next n mode density t)"
proof -
  have "draws good (\<lambda>t'. asym_state t' \<and> asym_ok t')
      (v_nr (if tb_NotReady t then AsymGen_Build mode density t else Inr t))"
    using assms AsymGen_Build_ok[of mode density t]
    by (intro draws_nr) (auto simp: asym_state_def split: if_splits)
  then show ?thesis unfolding AsymGen_Next_def
    by (rule draws_bind) (auto intro!: draw_intros draws_bind[OF draws_AsymGen_loop])
qed

end

end
