(* ===== verification/RandVar_Facts.thy ===== *)
theory RandVar_Facts
  imports RandVar_Next Variate_Facts Alias_Facts
begin

text \<open>The objects of newran stay well formed: every table is unbuilt or filled, every alias in range.
  Their draws therefore use nothing that is undefined, given a generator of the contract half_source.\<close>

subsection \<open>Aliases in range\<close>

definition dgen_ok :: "dgen \<Rightarrow> bool" where
  "dgen_ok g \<longleftrightarrow> 0 < length (dg_p g) \<and> length (dg_p g) \<le> 2 ^ 20 \<and>
     (\<forall>i < length (dg_p g). 0 \<le> dg_ialt g ! i \<and> dg_ialt g ! i < int (length (dg_p g))) \<and>
     (\<forall>vs. dg_val g = Some vs \<longrightarrow> length vs = length (dg_p g))"

lemma DiscreteGen_ok:
  assumes "DiscreteGen prob val = Inr g" "0 < length prob" "length prob \<le> 2 ^ 20"
    "\<And>vs. val = Some vs \<Longrightarrow> length vs = length prob"
  shows "dgen_ok g" "dg_val g = val" "length (dg_p g) = length prob"
proof -
  obtain p ialt where g: "Gen dbl_arith prob = Inr (p, ialt)" "dg_p g = p" "dg_ialt g = ialt" "dg_val g = val"
    using assms(1) by (auto simp: DiscreteGen_def nr_bind_Inr Let_def)
  note s = Gen_shape[OF g(1)]
  show "dgen_ok g" using assms(2-4) s by (simp add: dgen_ok_def g)
  show "dg_val g = val" "length (dg_p g) = length prob" using s by (simp_all add: g)
qed

text \<open>The values a table of aliases can give.\<close>

definition support :: "dgen \<Rightarrow> dbl set" where
  "support g = (case dg_val g of None \<Rightarrow> {d_int (int k) | k. k < length (dg_p g)} | Some vs \<Rightarrow> set vs)"

context half_source
begin

lemma draws_DiscreteGen_Next:
  assumes g: "dgen_ok g"
  shows "draws good (\<lambda>x. x \<in> support g) (DiscreteGen_Next g)"
  unfolding DiscreteGen_Next_def Let_def
proof (rule draws_bind[OF draws_next])
  fix r assume r: "half_unit r"
  let ?n = "length (dg_p g)"
  let ?i = "int_of (d_mul (d_int (int ?n)) r)"
  have i: "0 \<le> ?i" "nat ?i < ?n"
    using half_unit_index[OF r, of "int ?n"] g by (auto simp: dgen_ok_def d_mul_commute[of r])
  then have alt: "0 \<le> dg_ialt g ! nat ?i" "nat (dg_ialt g ! nat ?i) < ?n"
    using g by (auto simp: dgen_ok_def)
  have k: "draws good (\<lambda>x. x \<in> support g) (case dg_val g of None \<Rightarrow> v_ret (d_int k)
      | Some vs \<Rightarrow> v_opt (if 0 \<le> k \<and> nat k < length vs then Some (vs ! nat k) else None))"
    if "0 \<le> k" "nat k < ?n" for k
  proof (cases "dg_val g")
    case None
    then have "d_int k \<in> support g" using that by (auto simp: support_def intro: exI[of _ "nat k"])
    then show ?thesis by (simp add: None draws_ret)
  next
    case (Some vs)
    then have "length vs = ?n" using g by (simp add: dgen_ok_def)
    then show ?thesis using that by (auto simp: Some support_def intro!: draw_intros)
  qed
  show "draws good (\<lambda>x. x \<in> support g) (v_bind v_next (\<lambda>u. v_bind (v_opt (if 0 \<le> ?i \<and> nat ?i < ?n
      then Some (dg_p g ! nat ?i, dg_ialt g ! nat ?i) else None)) (\<lambda>(pi, alt).
      case dg_val g of None \<Rightarrow> v_ret (d_int (if d_lt u pi then alt else ?i))
      | Some vs \<Rightarrow> v_opt (if 0 \<le> (if d_lt u pi then alt else ?i) \<and> nat (if d_lt u pi then alt else ?i) < length vs
          then Some (vs ! nat (if d_lt u pi then alt else ?i)) else None))))"
  proof (rule draws_bind[OF draws_next], rule draws_bind)
    show "draws good (\<lambda>x. x = (dg_p g ! nat ?i, dg_ialt g ! nat ?i)) (v_opt (if 0 \<le> ?i \<and> nat ?i < ?n
        then Some (dg_p g ! nat ?i, dg_ialt g ! nat ?i) else None))"
      using i by (auto intro!: draw_intros)
  qed (use k i alt in auto)
qed

end

subsection \<open>Well-formed objects\<close>

fun obj_ok :: "robj \<Rightarrow> bool" where
  "obj_ok (OPosGenX t _) = pos_state False t"
| "obj_ok (OSymGenX t _) = pos_state True t"
| "obj_ok (OAsymGenX t _ _) = asym_state t"
| "obj_ok (ONormal t) = pos_state True t"
| "obj_ok (OChiSq1 t _ _) = pos_state True t"
| "obj_ok (OCauchy t) = pos_state True t"
| "obj_ok (OGamma1 t _ _ _) = pos_state False t"
| "obj_ok (OGamma2 t _ _) = asym_state t"
| "obj_ok (OPoisson1 t _ _) = asym_state t"
| "obj_ok (OBinomial1 t _ _ _ _ _ _) = asym_state t"
| "obj_ok (ONegBinomial t _ _ _ _ _ _) = asym_state t"
| "obj_ok (ODiscrete g) = dgen_ok g"
| "obj_ok (OChiSq version c1 c2 _ _) = (obj_ok c1 \<and> (case c2 of None \<Rightarrow> version \<le> 3 | Some c \<Rightarrow> obj_ok c))"
| "obj_ok (ONegated rv) = obj_ok rv"
| "obj_ok (OScaled rv _) = obj_ok rv"
| "obj_ok (OReciprocal rv _) = obj_ok rv"
| "obj_ok (OShifted rv _) = obj_ok rv"
| "obj_ok (OReverseShifted rv _) = obj_ok rv"
| "obj_ok (ORepeated rv _) = obj_ok rv"
| "obj_ok (OMultiplied a b) = (obj_ok a \<and> obj_ok b)"
| "obj_ok (OAdded a b) = (obj_ok a \<and> obj_ok b)"
| "obj_ok (OSubtracted a b) = (obj_ok a \<and> obj_ok b)"
| "obj_ok (ODivided a b) = (obj_ok a \<and> obj_ok b)"
| "obj_ok (OSelected rv _) = obj_ok rv"
| "obj_ok (OAddedSelected a b) = (obj_ok a \<and> obj_ok b)"
| "obj_ok (OMixed g rvs _ _) = (dgen_ok g \<and> dg_val g = None \<and> length (dg_p g) = length rvs \<and>
     (\<forall>rv \<in> set rvs. obj_ok rv))"
| "obj_ok ob = True"

subsection \<open>Constructors give well-formed objects\<close>

lemma normal_table:
  "PosGen_Build True density PosGen = Inr t \<Longrightarrow> pos_state True t"
  using PosGen_Build_ok[of True density PosGen t] new_tables(1)[of True]
  by (simp add: pos_state_def)

lemma Normal_ok: "Normal lm = Inr ob \<Longrightarrow> obj_ok ob"
  by (auto simp: Normal_def nr_bind_Inr normal_table)

lemma ChiSq1_ok: "ChiSq1 lm d = Inr ob \<Longrightarrow> obj_ok ob"
  by (auto simp: ChiSq1_def nr_bind_Inr Let_def normal_table)

lemma Gamma2_ok: "Gamma2 lm a = Inr ob \<Longrightarrow> obj_ok ob"
  by (auto simp: Gamma2_def nr_bind_Inr new_tables)

lemma Gamma_ok: "Gamma lm a = Inr ob \<Longrightarrow> obj_ok ob"
  by (auto simp: Gamma_def Gamma1_def nr_bind_Inr new_tables Gamma2_ok split: if_splits)

lemma Pareto_ok: "Pareto shape = Inr ob \<Longrightarrow> obj_ok ob"
  by (auto simp: Pareto_def split: if_splits)

lemma ChiSq_ok: "ChiSq lm df noncen = Inr ob \<Longrightarrow> obj_ok ob"
  by (auto simp: ChiSq_def nr_bind_Inr Let_def ChiSq1_ok Gamma2_ok split: if_splits)

lemma length_poisson_probs [simp]: "length (poisson_probs mux n i q) = n"
  by (induction n arbitrary: i q) (simp_all add: Let_def)

lemma Poisson_ok: "Poisson lm mu = Inr ob \<Longrightarrow> obj_ok ob"
  by (auto simp: Poisson_def Poisson2_def Let_def nr_bind_Inr new_tables dest: DiscreteGen_ok(1)
      split: if_splits)

lemma take_dgen_ok:
  assumes "DiscreteGen (take k (pre @ q # post)) None = Inr g" "0 < k" "k \<le> 2 ^ 20"
  shows "dgen_ok g"
  by (rule DiscreteGen_ok(1)[OF assms(1)]) (use assms(2,3) in \<open>auto simp del: take_append\<close>)

lemma Binomial2_ok: "Binomial2 lm nx px = Some (Inr ob) \<Longrightarrow> 0 \<le> nx \<Longrightarrow> obj_ok ob"
  by (auto simp: Binomial2_def Let_def nr_bind_Inr simp del: take_append d_int_small
      dest!: take_dgen_ok split: if_splits)

lemma Binomial_ok: "Binomial lm nx px = Some (Inr ob) \<Longrightarrow> 0 \<le> nx \<Longrightarrow> obj_ok ob"
  by (auto simp: Binomial_def Binomial1_def Let_def nr_bind_Inr new_tables Binomial2_ok split: if_splits)

lemma NegativeBinomial_ok: "NegativeBinomial lm N P = Inr ob \<Longrightarrow> obj_ok ob"
  by (auto simp: NegativeBinomial_def Let_def nr_bind_Inr new_tables)

lemma MixedRandom_ok:
  assumes "MixedRandom lm prvs = Inr ob" "0 < length prvs" "length prvs \<le> 2 ^ 20" "\<forall>(p, rv) \<in> set prvs. obj_ok rv"
  shows "obj_ok ob"
proof -
  obtain g mean var where g: "DiscreteGen (map fst prvs) None = Inr g" "ob = OMixed g (map snd prvs) mean var"
    using assms(1) by (auto simp: MixedRandom_def nr_bind_Inr Let_def)
  show ?thesis using DiscreteGen_ok[OF g(1)] assms(2-4) by (auto simp: g(2))
qed

subsection \<open>Draws\<close>

context half_source
begin

lemma draws_on_table:
  assumes "draws good (\<lambda>(x, t). P t) m" "\<And>t. P t \<Longrightarrow> obj_ok (ob t)"
  shows "draws good (\<lambda>(x, ob). obj_ok ob) (on_table m f ob)"
  unfolding on_table_def by (rule draws_bind[OF assms(1)]) (auto intro!: draw_intros assms(2))

lemma draws_on_uniform: "obj_ok ob \<Longrightarrow> draws good (\<lambda>(x, ob). obj_ok ob) (on_uniform f ob)"
  unfolding on_uniform_def by (rule draws_bind[OF draws_next]) (auto intro!: draw_intros)

lemmas draws_tables = draws_on_table[OF draws_PosGen_Next] draws_on_table[OF draws_SymGen_Next]
  draws_on_table[OF draws_AsymGen_Next]

lemma draws_then:
  assumes "draws good (\<lambda>(x, ob). obj_ok ob) m" "\<And>x r. obj_ok r \<Longrightarrow> draws good P (f (x, r))"
  shows "draws good P (v_bind m f)"
  by (rule draws_bind[OF assms(1)]) (auto intro: assms(2))

lemma draws_mixed:
  assumes "obj_ok (OMixed g rvs mean var)" "\<And>rv. obj_ok rv \<Longrightarrow> draws good (\<lambda>(x, ob). obj_ok ob) (nxt rv)"
  shows "draws good (\<lambda>(x, ob). obj_ok ob) (v_bind (DiscreteGen_Next g) (\<lambda>x. let i = int_of x in
     v_bind (v_opt (if 0 \<le> i \<and> nat i < length rvs then Some (rvs ! nat i) else None)) (\<lambda>rv.
     v_bind (nxt rv) (\<lambda>(y, r). v_ret (y, OMixed g (rvs[nat i := r]) mean var)))))"
  unfolding Let_def
proof (rule draws_bind[OF draws_DiscreteGen_Next])
  show "dgen_ok g" using assms(1) by simp
  fix x assume "x \<in> support g"
  then obtain k where "x = d_int (int k)" "k < length rvs" using assms(1) by (auto simp: support_def)
  moreover have "length rvs \<le> 2 ^ 20" using assms(1) by (simp add: dgen_ok_def)
  ultimately have i: "int_of x = int k" "k < length rvs" by (simp_all add: int_of_def trunc_def)
  show "draws good (\<lambda>(x, ob). obj_ok ob) (v_bind (v_opt (if 0 \<le> int_of x \<and> nat (int_of x) < length rvs
      then Some (rvs ! nat (int_of x)) else None)) (\<lambda>rv.
      v_bind (nxt rv) (\<lambda>(y, r). v_ret (y, OMixed g (rvs[nat (int_of x) := r]) mean var))))"
  proof (rule draws_bind)
    show "draws good obj_ok (v_opt (if 0 \<le> int_of x \<and> nat (int_of x) < length rvs
        then Some (rvs ! nat (int_of x)) else None))"
      using i assms(1) by (auto intro!: draw_intros)
  next
    fix rv assume "obj_ok rv"
    then show "draws good (\<lambda>(x, ob). obj_ok ob)
        (v_bind (nxt rv) (\<lambda>(y, r). v_ret (y, OMixed g (rvs[nat (int_of x) := r]) mean var)))"
      using i assms(1) by (intro draws_then[OF assms(2)])
        (auto intro!: draw_intros dest!: set_update_subset_insert[THEN subsetD])
  qed
qed

lemma draws_obj:
  shows "obj_ok ob \<Longrightarrow> draws good (\<lambda>(x, ob). obj_ok ob) (obj_Next lm n ob)"
    and "obj_ok ob \<Longrightarrow> draws good (\<lambda>(x, ob). obj_ok ob) (obj_sum lm n k s ob)"
proof (induction n arbitrary: ob k s)
  case (Suc n)
  note IH = Suc.IH(1) Suc.IH(2)
  { case 1
    then show ?case
    proof (cases ob)
      case (OMixed g rvs mean var)
      then show ?thesis using draws_mixed[of g rvs mean var "obj_Next lm n"] 1 IH(1) by simp
    next
      case (OStudent mu sigma nu)
      have "draws good obj_ok (v_nr (Normal lm))" "draws good obj_ok (v_nr (Gamma lm (d_mul nu (Fin (1 / 2)))))"
        using Normal_ok Gamma_ok by (blast intro: draws_nr)+
      then show ?thesis using IH(1) OStudent
        by (auto intro!: draw_intros draws_then draws_bind[where Q = obj_ok])
    next
      case (OChiSq version c1 c2 mean var)
      then show ?thesis using 1 IH(1)
        by (auto intro!: draw_intros draws_then split: option.splits)
    next
      case (OStable a b c d)
      then show ?thesis by (auto intro!: draw_intros draws_bind[OF draws_next])
    next
      case (ODiscrete g)
      then show ?thesis using 1 by (auto intro!: draw_intros draws_bind[OF draws_DiscreteGen_Next])
    qed (use 1 IH in \<open>auto intro!: draw_intros draws_then draws_on_uniform draws_tables\<close>)
  next
    case 2
    then show ?case using IH by (cases k) (auto intro!: draw_intros draws_then)
  }
qed (simp_all add: draws_endless)

end

end
