(* ===== verification/Vari_Facts.thy ===== *)
theory Vari_Facts
  imports Vari RandVar_Facts
begin

text \<open>Draws with variable parameters are safe too, their objects stay well formed, and the numbers that
  invert a distribution function lie where the distribution does.\<close>

definition vp_ok :: "vari_poisson \<Rightarrow> bool" where
  "vp_ok vp \<longleftrightarrow> obj_ok (vp_N vp) \<and> obj_ok (vp_P100 vp) \<and> obj_ok (vp_P200 vp)"

lemma VariPoisson_ok: "VariPoisson lm = Inr vp \<Longrightarrow> vp_ok vp"
  by (auto simp: VariPoisson_def nr_bind_Inr vp_ok_def Normal_ok Poisson_ok)

text \<open>What a double stands for when it counts.\<close>

definition counts :: "int \<Rightarrow> dbl \<Rightarrow> bool" where
  "counts n x \<longleftrightarrow> (\<exists>k. 0 \<le> k \<and> k \<le> n \<and> x = d_int k)"

lemma vb_from_0_counts:
  "0 \<le> k \<Longrightarrow> k + int m \<le> n + 1 \<Longrightarrow> 0 \<le> n \<Longrightarrow> counts n (vb_from_0 m n r u t s k)"
proof (induction m arbitrary: t s k)
  case 0
  then show ?case by (auto simp: counts_def intro!: exI[of _ 0])
next
  case (Suc m)
  then show ?case by (auto simp: counts_def Let_def)
qed

lemma Round_nearest:
  assumes "Round f = Inr i"
  shows "\<not> d_lt (Fin (1 / 2)) (d_abs (d_sub (d_int i) f))"
  using assms by (auto simp: Round_def Let_def split: if_splits)

context half_source
begin

lemma draws_vp_from_0: "0 \<le> k \<Longrightarrow> draws good (\<lambda>x. \<exists>j \<ge> 0. x = d_int j) (vp_from_0 n mu u t s k)"
proof (induction n arbitrary: t s k)
  case (Suc n)
  then show ?case by (auto simp: Let_def intro!: draws_ret)
qed (simp add: draws_endless)

lemma draws_VariPoisson_very_small:
  "draws good (\<lambda>x. \<exists>j \<ge> 0. x = d_int j) (VariPoisson_Next_very_small lm n mu)"
  unfolding VariPoisson_Next_very_small_def Let_def
  by (auto intro!: draws_ret exI[of _ 0] draws_bind[OF draws_next] draws_vp_from_0)

lemma draws_VariPoisson_small: "draws good (\<lambda>_. True) (VariPoisson_Next_small lm n mu)"
proof -
  have loop: "draws good (\<lambda>_. True) (vp_from_mode n mu u t1 t2 s k1 k2)" for u t1 t2 s k1 k2
    by (induction n arbitrary: t1 t2 s k1 k2) (auto simp: Let_def intro!: draws_ret draws_endless)
  have low: "draws good (\<lambda>_. True) (VariPoisson_Next_very_small lm n mu)" for mu
    by (rule draws_weaken[OF draws_VariPoisson_very_small]) simp
  show ?thesis unfolding VariPoisson_Next_small_def Let_def
    by (auto intro!: low loop draws_ret draws_bind[OF draws_next] draws_bind[OF draws_nr[where P = "\<lambda>_. True"]])
qed

lemma draws_VariPoisson_large:
  "obj_ok N \<Longrightarrow> draws good (\<lambda>(x, N'). obj_ok N') (VariPoisson_Next_large lm n mu N)"
  unfolding VariPoisson_Next_large_def Let_def
  by (auto intro!: draws_bind[OF draws_next] draws_then draws_obj draws_ret)

lemma draws_VariPoisson:
  assumes "vp_ok vp"
  shows "draws good (\<lambda>(x, vp'). vp_ok vp') (VariPoisson_Next lm n mu vp)"
proof -
  note ok = assms[unfolded vp_ok_def]
  have low: "draws good (\<lambda>_. True) (VariPoisson_Next_very_small lm n mu)" for mu
    by (rule draws_weaken[OF draws_VariPoisson_very_small]) simp
  show ?thesis unfolding VariPoisson_Next_def Let_def
    using ok by (auto simp: vp_ok_def intro!: draws_ret draws_nr draws_bind[OF low] draws_bind[OF draws_VariPoisson_small]
      draws_then[OF draws_VariPoisson_large] draws_then[OF draws_obj(1)])
qed

lemma draws_VariPoisson_iNext:
  "vp_ok vp \<Longrightarrow> draws good (\<lambda>(x, vp'). vp_ok vp') (VariPoisson_iNext lm n mu vp)"
  unfolding VariPoisson_iNext_def
  by (rule draws_bind[OF draws_VariPoisson])
    (auto intro!: draws_ret draws_bind[OF draws_nr[where P = "\<lambda>_. True"]])

lemma draws_VariBinomial_very_small:
  "0 \<le> n \<Longrightarrow> draws good (counts n) (VariBinomial_Next_very_small lm n p)"
  unfolding VariBinomial_Next_very_small_def Let_def v_uniform_def
  by (auto intro!: draws_ret draws_bind[OF draws_next] vb_from_0_counts)
    (auto simp: counts_def)

lemma draws_VariBinomial_small: "draws good (\<lambda>_. True) (VariBinomial_Next_small lm f n p)"
proof -
  have loop: "draws good (\<lambda>_. True) (vb_from_mode f n r u t1 t2 s k1 k2)" for r u t1 t2 s k1 k2
    by (induction f arbitrary: t1 t2 s k1 k2) (auto simp: Let_def intro!: draws_ret draws_endless)
  show ?thesis unfolding VariBinomial_Next_small_def Let_def
    by (auto intro!: loop draws_ret draws_bind[OF draws_next] draws_bind[OF draws_nr[where P = "\<lambda>_. True"]])
qed

lemma draws_VariBinomial:
  "obj_ok N \<Longrightarrow> draws good (\<lambda>(x, N'). obj_ok N') (VariBinomial_Next lm f n p N)"
proof (induction f arbitrary: p N)
  case (Suc f)
  have low: "0 < n \<Longrightarrow> draws good (\<lambda>_. True) (VariBinomial_Next_very_small lm n p)"
    by (rule draws_weaken[OF draws_VariBinomial_very_small]) simp_all
  have large: "draws good (\<lambda>(x, N'). obj_ok N') (VariBinomial_Next_large lm f n p N)"
    unfolding VariBinomial_Next_large_def Let_def
    using Suc.prems by (auto intro!: draws_then draws_obj draws_ret)
  show ?case using Suc.prems Suc.IH
    by (auto intro!: large draws_ret draws_nr draws_bind[OF low] draws_bind[OF draws_VariBinomial_small]
        draws_then[OF Suc.IH])
qed (simp add: draws_endless)

lemma draws_VariLogNormal:
  "obj_ok N \<Longrightarrow> draws good (\<lambda>(x, N'). obj_ok N') (VariLogNormal_Next lm f mean sd N)"
  unfolding VariLogNormal_Next_def Let_def
  by (auto intro!: draws_then draws_obj draws_ret)

end

end
