(* ===== verification/Permutation.thy ===== *)
theory Permutation
  imports Variate_Facts "HOL-Library.Multiset"
begin

text \<open>Permutations and combinations (src/ITGSend/newran/newran2.cpp): M numbers drawn without
  repetition from start on, by exchanging in a copy of the urn, and Shell's sort of them.  Sizes are
  not negative, and start + N is an int.  The result is the part of the array p that is written.\<close>

text \<open>The urn q from its place i on is what has not been drawn; m draws are left.\<close>

fun perm_loop :: "nat \<Rightarrow> nat \<Rightarrow> int list \<Rightarrow> int list draw" where
  "perm_loop 0 i q = v_ret []"
| "perm_loop (Suc m) i q = v_bind v_next (\<lambda>u.
     let k = int i + int_of (d_mul u (d_int (int (length q) - int i))) in
     if 0 \<le> k \<and> nat k < length q
     then v_bind (perm_loop m (i + 1) (q[nat k := q ! i])) (\<lambda>p. v_ret (q ! nat k # p))
     else (\<lambda>w. Broken))"

definition RandomPermutation_Next :: "nat \<Rightarrow> nat \<Rightarrow> int \<Rightarrow> int list draw" where
  "RandomPermutation_Next N M start =
     (if N < M then v_nr (Inl (Logic_error ''Newran: N < M in RandomPermutation''))
      else perm_loop M 0 (map (\<lambda>i. start + int i) [0..<N]))"

text \<open>The first gap is the first of 1, 4, 13, ... above a ninth of the size.\<close>

function shell_gap :: "nat \<Rightarrow> nat \<Rightarrow> nat" where
  "shell_gap h N = (if h \<le> N div 9 then shell_gap (3 * h + 1) N else h)"
  by auto
termination by (relation "measure (\<lambda>(h, N). Suc N - h)") auto

declare shell_gap.simps [simp del]

text \<open>The while loop for the value v, whose place is j so far; the gap h is positive.\<close>

function shell_insert :: "nat \<Rightarrow> int \<Rightarrow> nat \<Rightarrow> int list \<Rightarrow> int list" where
  "shell_insert h v j a =
     (if 0 < h \<and> h \<le> j \<and> v < a ! (j - h) then shell_insert h v (j - h) (a[j := a ! (j - h)]) else a[j := v])"
  by auto
termination by (relation "measure (\<lambda>(h, v, j, a). j)") auto

declare shell_insert.simps [simp del]

definition shell_pass :: "nat \<Rightarrow> int list \<Rightarrow> int list" where
  "shell_pass h a = fold (\<lambda>i a. shell_insert h (a ! i) i a) [h..<length a] a"

function shell_passes :: "nat \<Rightarrow> int list \<Rightarrow> int list" where
  "shell_passes h a = (if h = 0 then a else shell_passes (h div 3) (shell_pass h a))"
  by auto
termination by (relation "measure fst") auto

declare shell_passes.simps [simp del]

definition ShellSortAscending :: "int list \<Rightarrow> int list" where
  "ShellSortAscending a = shell_passes (shell_gap 1 (length a)) a"

definition RandomCombination_Next :: "nat \<Rightarrow> nat \<Rightarrow> int \<Rightarrow> int list draw" where
  "RandomCombination_Next N M start =
     v_bind (RandomPermutation_Next N M start) (\<lambda>p. v_ret (ShellSortAscending p))"

subsection \<open>The sort\<close>

lemma length_shell_insert [simp]: "length (shell_insert h v j a) = length a"
  by (induction h v j a rule: shell_insert.induct) (subst shell_insert.simps, simp)

lemma mset_shell_insert: "j < length a \<Longrightarrow> mset (shell_insert h v j a) = mset (a[j := v])"
proof (induction h v j a rule: shell_insert.induct)
  case (1 h v j a)
  show ?case
  proof (cases "0 < h \<and> h \<le> j \<and> v < a ! (j - h)")
    case True
    let ?b = "a[j := v]"
    have "mset (shell_insert h v j a) = mset (a[j := a ! (j - h), j - h := v])"
      using 1 True by (subst shell_insert.simps) simp
    also have "a[j := a ! (j - h), j - h := v] = ?b[j := ?b ! (j - h), j - h := ?b ! j]"
    proof -
      have "j - h \<noteq> j" using True by linarith
      then show ?thesis using 1 by simp
    qed
    also have "mset \<dots> = mset ?b" using 1 by (intro mset_swap) auto
    finally show ?thesis .
  next
    case False
    then show ?thesis by (subst shell_insert.simps) auto
  qed
qed

lemma shell_fold_mset:
  "\<forall>i \<in> set is. i < length a \<Longrightarrow>
    mset (fold (\<lambda>i a. shell_insert h (a ! i) i a) is a) = mset a"
  by (induction "is" arbitrary: a) (simp_all add: mset_shell_insert)

lemma mset_shell_pass [simp]: "mset (shell_pass h a) = mset a"
  by (simp add: shell_pass_def shell_fold_mset)

lemma length_shell_pass [simp]: "length (shell_pass h a) = length a"
  by (metis mset_shell_pass mset_eq_length)

lemma mset_shell_passes [simp]: "mset (shell_passes h a) = mset a"
  by (induction h a rule: shell_passes.induct) (subst shell_passes.simps, simp)

text \<open>With the gap 1 a pass is an insertion sort: the places up to i but for the hole j are in order.\<close>

definition sorted_but :: "nat \<Rightarrow> nat \<Rightarrow> int \<Rightarrow> int list \<Rightarrow> bool" where
  "sorted_but i j v a \<longleftrightarrow> (\<forall>p q. p < q \<and> q \<le> i \<and> p \<noteq> j \<and> q \<noteq> j \<longrightarrow> a ! p \<le> a ! q) \<and>
     (\<forall>q. j < q \<and> q \<le> i \<longrightarrow> v \<le> a ! q)"

lemma shell_insert_sorted:
  "sorted_but i j v a \<Longrightarrow> j \<le> i \<Longrightarrow> i < length a \<Longrightarrow> p < q \<Longrightarrow> q \<le> i \<Longrightarrow>
    shell_insert 1 v j a ! p \<le> shell_insert 1 v j a ! q"
proof (induction "1 :: nat" v j a rule: shell_insert.induct)
  case (1 v j a)
  have A: "a ! p \<le> a ! q" if "p < q" "q \<le> i" "p \<noteq> j" "q \<noteq> j" for p q
    using 1(2) that by (simp add: sorted_but_def)
  have B: "v \<le> a ! q" if "j < q" "q \<le> i" for q
    using 1(2) that by (simp add: sorted_but_def)
  note len = 1(3,4)
  show ?case
  proof (cases "1 \<le> j \<and> v < a ! (j - 1)")
    case True
    let ?b = "a[j := a ! (j - 1)]"
    have b: "?b ! x = (if x = j then a ! (j - 1) else a ! x)" for x using len by (simp add: nth_list_update)
    have "sorted_but i (j - 1) v ?b"
      unfolding sorted_but_def b
    proof (intro conjI allI impI)
      fix p q assume pq: "p < q \<and> q \<le> i \<and> p \<noteq> j - 1 \<and> q \<noteq> j - 1"
      show "(if p = j then a ! (j - 1) else a ! p) \<le> (if q = j then a ! (j - 1) else a ! q)"
        using pq A[of p "j - 1"] A[of "j - 1" q] A[of p q] len True by auto
    next
      fix q assume "j - 1 < q \<and> q \<le> i"
      then show "v \<le> (if q = j then a ! (j - 1) else a ! q)" using B[of q] True by auto
    qed
    then have "shell_insert 1 v (j - 1) ?b ! p \<le> shell_insert 1 v (j - 1) ?b ! q"
      using 1 True by simp
    moreover have "shell_insert 1 v j a = shell_insert 1 v (j - 1) ?b" using True by (subst shell_insert.simps) simp
    ultimately show ?thesis by simp
  next
    case False
    have below: "a ! p \<le> v" if "p < j" for p
    proof (cases "p = j - 1")
      case other: False
      then have "a ! p \<le> a ! (j - 1)" using that len by (intro A) auto
      then show ?thesis using False that by auto
    qed (use False that in auto)
    have "a[j := v] ! p \<le> a[j := v] ! q"
      using 1(5,6) A[of p q] B[of q] below[of p] len by (auto simp: nth_list_update)
    moreover have "shell_insert 1 v j a = a[j := v]" using False by (subst shell_insert.simps) auto
    ultimately show ?thesis by simp
  qed
qed

lemma shell_fold_sorted:
  "m \<le> length a \<Longrightarrow> p < q \<Longrightarrow> q < m \<Longrightarrow>
    fold (\<lambda>i a. shell_insert 1 (a ! i) i a) [1..<m] a ! p \<le> fold (\<lambda>i a. shell_insert 1 (a ! i) i a) [1..<m] a ! q"
proof (induction m arbitrary: p q)
  case (Suc m)
  define b where "b = fold (\<lambda>i a. shell_insert 1 (a ! i) i a) [1..<m] a"
  show ?case
  proof (cases "m = 0")
    case False
    have "length (fold (\<lambda>i a. shell_insert 1 (a ! i) i a) is a) = length a" for "is"
      by (induction "is" arbitrary: a) simp_all
    then have l: "length b = length a" by (simp add: b_def)
    have "sorted_but m m (b ! m) b"
      using Suc.IH Suc.prems(1) by (auto simp: sorted_but_def b_def)
    then have "shell_insert 1 (b ! m) m b ! p \<le> shell_insert 1 (b ! m) m b ! q"
      using Suc.prems l by (intro shell_insert_sorted[of m]) auto
    then show ?thesis using False by (simp add: b_def)
  qed (use Suc.prems in simp)
qed simp

lemma sorted_shell_pass_1: "sorted (shell_pass 1 a)"
proof -
  have "p < q \<Longrightarrow> q < length a \<Longrightarrow> shell_pass 1 a ! p \<le> shell_pass 1 a ! q" for p q
    unfolding shell_pass_def using shell_fold_sorted[of "length a" a p q] by simp
  then show ?thesis by (auto simp: sorted_iff_nth_mono_less)
qed

text \<open>The gaps lead down to 1.\<close>

inductive gap :: "nat \<Rightarrow> bool" where
  gap_1: "gap (Suc 0)"
| gap_step: "gap h \<Longrightarrow> gap (Suc (3 * h))"

lemma gap_shell_gap: "gap h \<Longrightarrow> gap (shell_gap h N)"
proof (induction h N rule: shell_gap.induct)
  case (1 h N)
  then show ?case using gap_step[of h] by (subst shell_gap.simps) simp
qed

lemma gap_passes_sorted: "gap h \<Longrightarrow> sorted (shell_passes h a)"
proof (induction arbitrary: a rule: gap.induct)
  case gap_1
  have "shell_passes (Suc 0) a = shell_pass 1 a"
    by (subst shell_passes.simps, subst shell_passes.simps) simp
  then show ?case by (simp only: sorted_shell_pass_1)
next
  case (gap_step h)
  have "Suc (3 * h) div 3 = h" by simp
  then have "shell_passes (Suc (3 * h)) a = shell_passes h (shell_pass (Suc (3 * h)) a)"
    by (subst shell_passes.simps) (simp only: nat.distinct if_False)
  then show ?case by (simp only: gap_step.IH)
qed

lemma ShellSortAscending_sorts:
  "sorted (ShellSortAscending a)" "mset (ShellSortAscending a) = mset a"
  using gap_passes_sorted[OF gap_shell_gap[OF gap_1]] by (simp_all add: ShellSortAscending_def)

subsection \<open>Draws that always end with a value\<close>

definition returns :: "(newran \<Rightarrow> bool) \<Rightarrow> ('a \<Rightarrow> bool) \<Rightarrow> 'a draw \<Rightarrow> bool" where
  "returns good P m \<longleftrightarrow> (\<forall>w. good w \<longrightarrow> (\<exists>x w'. m w = Val x w' \<and> P x \<and> good w'))"

lemma returns_ret: "P x \<Longrightarrow> returns good P (v_ret x)"
  by (simp add: returns_def v_ret_def)

lemma returns_bind:
  assumes "returns good Q m" "\<And>x. Q x \<Longrightarrow> returns good P (f x)"
  shows "returns good P (v_bind m f)"
  unfolding returns_def
proof (intro allI impI)
  fix w assume "good w"
  then obtain x w' where m: "m w = Val x w'" "Q x" "good w'" using assms(1) by (auto simp: returns_def)
  then show "\<exists>y w''. v_bind m f w = Val y w'' \<and> P y \<and> good w''"
    using assms(2)[OF m(2)] by (simp add: returns_def v_bind_def)
qed

lemma returns_weaken: "returns good Q m \<Longrightarrow> (\<And>x. Q x \<Longrightarrow> P x) \<Longrightarrow> returns good P m"
  by (fastforce simp: returns_def)

text \<open>The exchange takes one number out of the rest of the urn.\<close>

lemma urn_step:
  assumes "distinct (drop i q)" "i \<le> k" "k < length q"
  shows "distinct (drop (Suc i) (q[k := q ! i]))"
    "set (drop (Suc i) (q[k := q ! i])) \<subseteq> set (drop i q) - {q ! k}" "q ! k \<in> set (drop i q)"
proof -
  have d: "drop i q = q ! i # drop (Suc i) q" using assms by (intro Cons_nth_drop_Suc[symmetric]) simp
  define r where "r = drop (Suc i) q"
  have r: "distinct r" "q ! i \<notin> set r" using assms(1) by (simp_all add: d r_def)
  show "q ! k \<in> set (drop i q)"
    using assms by (auto simp: in_set_conv_nth intro!: exI[of _ "k - i"])
  have "distinct (drop (Suc i) (q[k := q ! i])) \<and>
    set (drop (Suc i) (q[k := q ! i])) \<subseteq> set (drop i q) - {q ! k}"
  proof (cases "k = i")
    case False
    then have j: "drop (Suc i) (q[k := q ! i]) = r[k - Suc i := q ! i]" "q ! k = r ! (k - Suc i)"
      "k - Suc i < length r"
      using assms(2,3) by (simp_all add: drop_update_swap r_def)
    have "set (r[k - Suc i := q ! i]) = insert (q ! i) (set r - {r ! (k - Suc i)})"
      using j(3) r(1) by (rule set_update_distinct[rotated])
    moreover have "r ! (k - Suc i) \<noteq> q ! i" using r(2) j(3) by (metis nth_mem)
    ultimately show ?thesis using r by (auto simp: j(1,2) d r_def distinct_list_update)
  qed (use r in \<open>simp add: d r_def\<close>)
  then show "distinct (drop (Suc i) (q[k := q ! i]))"
    "set (drop (Suc i) (q[k := q ! i])) \<subseteq> set (drop i q) - {q ! k}" by blast+
qed

context half_source
begin

lemma returns_next: "returns good half_unit v_next"
  using draw by (fastforce simp: returns_def v_next_def)

lemma perm_loop_returns:
  "distinct (drop i q) \<Longrightarrow> i + m \<le> length q \<Longrightarrow> length q \<le> 2 ^ 20 \<Longrightarrow>
    returns good (\<lambda>p. length p = m \<and> distinct p \<and> set p \<subseteq> set (drop i q)) (perm_loop m i q)"
proof (induction m arbitrary: i q)
  case (Suc m)
  show ?case unfolding perm_loop.simps Let_def
  proof (rule returns_bind[OF returns_next])
    fix u assume "half_unit u"
    then have x: "0 \<le> int_of (d_mul u (d_int (int (length q) - int i)))"
      "int_of (d_mul u (d_int (int (length q) - int i))) < int (length q) - int i"
      using half_unit_index[of u "int (length q) - int i"] Suc.prems by auto
    define k where "k = int i + int_of (d_mul u (d_int (int (length q) - int i)))"
    have k: "0 \<le> k" "i \<le> nat k" "nat k < length q" using x by (auto simp: k_def)
    note step = urn_step[OF Suc.prems(1) k(2,3)]
    have "returns good (\<lambda>p. length p = m \<and> distinct p \<and> set p \<subseteq> set (drop (Suc i) (q[nat k := q ! i])))
        (perm_loop m (i + 1) (q[nat k := q ! i]))"
      using Suc.IH[of "i + 1"] step(1) Suc.prems by simp
    then have "returns good (\<lambda>p. length p = Suc m \<and> distinct p \<and> set p \<subseteq> set (drop i q))
        (v_bind (perm_loop m (i + 1) (q[nat k := q ! i])) (\<lambda>p. v_ret (q ! nat k # p)))"
      by (rule returns_bind) (use step in \<open>auto intro!: returns_ret\<close>)
    then show "returns good (\<lambda>p. length p = Suc m \<and> distinct p \<and> set p \<subseteq> set (drop i q))
       (if 0 \<le> int i + int_of (d_mul u (d_int (int (length q) - int i))) \<and>
           nat (int i + int_of (d_mul u (d_int (int (length q) - int i)))) < length q
        then v_bind (perm_loop m (i + 1) (q[nat (int i + int_of (d_mul u (d_int (int (length q) - int i)))) := q ! i]))
          (\<lambda>p. v_ret (q ! nat (int i + int_of (d_mul u (d_int (int (length q) - int i)))) # p))
        else (\<lambda>w. Broken))"
      using k unfolding k_def by simp
  qed
qed (simp add: returns_ret)

lemma RandomPermutation_returns:
  assumes "M \<le> N" "N \<le> 2 ^ 20"
  shows "returns good (\<lambda>p. length p = M \<and> distinct p \<and> set p \<subseteq> {start..<start + int N}) (RandomPermutation_Next N M start)"
proof -
  have "distinct (map (\<lambda>i. start + int i) [0..<N])" by (simp add: distinct_map inj_on_def)
  then have "returns good (\<lambda>p. length p = M \<and> distinct p \<and> set p \<subseteq> set (map (\<lambda>i. start + int i) [0..<N]))
      (perm_loop M 0 (map (\<lambda>i. start + int i) [0..<N]))"
    using perm_loop_returns[of 0 "map (\<lambda>i. start + int i) [0..<N]" M] assms by simp
  then show ?thesis using assms(1) unfolding RandomPermutation_Next_def
    by (auto elim!: returns_weaken)
qed

lemma RandomCombination_returns:
  assumes "M \<le> N" "N \<le> 2 ^ 20"
  shows "returns good (\<lambda>p. length p = M \<and> sorted_wrt (<) p \<and> set p \<subseteq> {start..<start + int N})
    (RandomCombination_Next N M start)"
  unfolding RandomCombination_Next_def
proof (rule returns_bind[OF RandomPermutation_returns[OF assms]])
  fix p assume p: "length p = M \<and> distinct p \<and> set p \<subseteq> {start..<start + int N}"
  have m: "mset (ShellSortAscending p) = mset p" by (rule ShellSortAscending_sorts)
  then have "distinct (ShellSortAscending p)" "set (ShellSortAscending p) = set p"
    "length (ShellSortAscending p) = length p"
    using p by (metis mset_eq_imp_distinct_iff, metis mset_eq_setD, metis mset_eq_length)
  then show "returns good (\<lambda>p. length p = M \<and> sorted_wrt (<) p \<and> set p \<subseteq> {start..<start + int N})
      (v_ret (ShellSortAscending p))"
    using p ShellSortAscending_sorts(1)[of p] by (auto intro!: returns_ret simp: strict_sorted_iff)
qed

end

text \<open>C32: RandomCombination draws M different numbers of the N from start on and returns them in ascending
  order; it always returns.\<close>

theorem combination_draws:
  assumes "M \<le> N" "N \<le> 2 ^ 20" "mother_good w"
  shows "\<exists>p w'. RandomCombination_Next N M start w = Val p w' \<and> length p = M \<and> sorted_wrt (<) p \<and>
    set p \<subseteq> {start..<start + int N} \<and> mother_good w'"
  using mother_source.RandomCombination_returns[OF assms(1,2), of start] assms(3)
  by (auto simp: returns_def)

theorem combination_draws_witness:
  "\<exists>p w'. RandomCombination_Next 49 6 1 newran_one = Val p w' \<and> length p = 6 \<and> sorted_wrt (<) p \<and>
    set p \<subseteq> {1..49}"
proof -
  have "mother_good newran_one" by (rule mother_good_start[OF start_half]) (simp_all add: junk_def)
  from combination_draws[OF _ _ this, of 6 49 1] show ?thesis
    by (auto simp: atLeastLessThanPlusOne_atLeastAtMost_int[of 1 49, simplified])
qed

end
