(* ===== verification/FlowVariates.thy ===== *)
theory FlowVariates
  imports FlowOptions RandVar_Facts Permutation
begin

text \<open>From the terms of the traffic models and of the options (src/ITGSend/traffic.cpp, ITGSend.cpp) to
  the objects of newran that they build (newran.h, newran2.cpp), and what their draws can be.\<close>

text \<open>A constructor can throw.  DiscreteGen without values has the positions as values.\<close>

fun rv_new :: "libm \<Rightarrow> rv \<Rightarrow> robj nr" and rv_news :: "libm \<Rightarrow> (dbl \<times> rv) list \<Rightarrow> (dbl \<times> robj) list nr" where
  "rv_new lm (RConstant v) = Inr (OConstant v)"
| "rv_new lm RUniform = Inr OUniform"
| "rv_new lm RExponential = Inr (OExponential (Fin 1))"
| "rv_new lm (RExponentialMean m) = Inr (OExponential m)"
| "rv_new lm (RPareto a) = Pareto a"
| "rv_new lm RCauchy = Inr (OCauchy PosGen)"
| "rv_new lm RNormal = Normal lm"
| "rv_new lm (RPoisson mu) = Poisson lm mu"
| "rv_new lm (RGamma a) = Gamma lm a"
| "rv_new lm (RWeibull a b) = Inr (OWeibull a b)"
| "rv_new lm (RStudent m s n) = Inr (OStudent m s n)"
| "rv_new lm (RDiscrete pvs) =
     nr_bind (DiscreteGen (map fst pvs) (Some (map snd pvs))) (\<lambda>g. Inr (ODiscrete g))"
| "rv_new lm (RMixed prs) = nr_bind (rv_news lm prs) (MixedRandom lm)"
| "rv_new lm (RScale a r) = nr_bind (rv_new lm r) (\<lambda>ob. Inr (OScaled ob a))"
| "rv_new lm (RShift r a) = nr_bind (rv_new lm r) (\<lambda>ob. Inr (OShifted ob a))"
| "rv_new lm (RRecip a r) = nr_bind (rv_new lm r) (\<lambda>ob. Inr (OReciprocal ob a))"
| "rv_news lm [] = Inr []"
| "rv_news lm ((p, r) # prs) = nr_bind (rv_new lm r) (\<lambda>ob. nr_bind (rv_news lm prs) (\<lambda>obs. Inr ((p, ob) # obs)))"


lemma rv_new_ok:
  "rv_new lm r = Inr ob \<Longrightarrow> rv_small r \<Longrightarrow> obj_ok ob"
  "rv_news lm prs = Inr obs \<Longrightarrow> \<forall>(p, r) \<in> set prs. rv_small r \<Longrightarrow>
    length obs = length prs \<and> (\<forall>(p, ob) \<in> set obs. obj_ok ob)"
proof (induction lm r and lm prs arbitrary: ob and obs rule: rv_new_rv_news.induct)
  case (12 lm pvs)
  then show ?case by (auto simp: nr_bind_Inr dest!: DiscreteGen_ok(1))
next
  case (13 lm prs)
  then obtain obs where obs: "rv_news lm prs = Inr obs" "MixedRandom lm obs = Inr ob"
    by (auto simp: nr_bind_Inr)
  then show ?case using 13 by (intro MixedRandom_ok[OF obs(2)]) auto
next
  case (18 lm p r prs)
  then show ?case by (fastforce simp: nr_bind_Inr)
qed (auto simp: nr_bind_Inr new_tables Pareto_ok Normal_ok Poisson_ok Gamma_ok)

subsection \<open>The variables of a flow\<close>

definition flow_rvs :: "flow_spec \<Rightarrow> rv list" where
  "flow_rvs f = [snd (p_IntArriv f), snd (p_PktSize f)] @
     (case p_OnPeriod f of None \<Rightarrow> [] | Some (_, r) \<Rightarrow> [r]) @
     (case p_OffPeriod f of None \<Rightarrow> [] | Some (_, r) \<Rightarrow> [r])"

lemma flow_rvs_small: "flow_ok f \<Longrightarrow> r \<in> set (flow_rvs f) \<Longrightarrow> rv_small r"
  by (cases "p_OnPeriod f"; cases "p_OffPeriod f") (auto simp: flow_rvs_def flow_ok_def)

text \<open>Draw after draw of one object, each with the fuel n.\<close>

fun obj_draws :: "libm \<Rightarrow> nat \<Rightarrow> nat \<Rightarrow> robj \<Rightarrow> (dbl list \<times> robj) draw" where
  "obj_draws lm n 0 ob = v_ret ([], ob)"
| "obj_draws lm n (Suc k) ob = v_bind (obj_Next lm n ob) (\<lambda>(x, ob').
     v_bind (obj_draws lm n k ob') (\<lambda>(xs, ob''). v_ret (x # xs, ob'')))"

context half_source
begin

lemma draws_many:
  "obj_ok ob \<Longrightarrow> draws good (\<lambda>(xs, ob'). length xs = k \<and> obj_ok ob') (obj_draws lm n k ob)"
proof (induction k arbitrary: ob)
  case (Suc k)
  have "draws good (\<lambda>(xs, ob'). length xs = Suc k \<and> obj_ok ob')
      (v_bind (obj_draws lm n k r) (\<lambda>(xs, ob''). v_ret (x # xs, ob'')))" if "obj_ok r" for x r
    by (rule draws_bind[OF Suc.IH[OF that]]) (auto intro!: draws_ret)
  then show ?case unfolding obj_draws.simps
    by (intro draws_then[OF draws_obj(1)[OF Suc.prems]]) simp
qed (simp add: draws_ret)

end

text \<open>The Pareto option for sizes accepts a shape that is not positive; the constructor throws.\<close>

lemma size_v_throws:
  assumes "size_option CHR ''v'' args s = (Ret ((d, r), rest), s')" "d_nonpos (real_arg args 1)"
  shows "rv_new lm r = Inl (Logic_error ''Newran: illegal parameter'')"
proof -
  have "r = RScale (real_arg args 2) (RPareto (real_arg args 1))"
    using assms(1) by (auto simp: size_option_def dist_opt_def run_parser Let_def split: if_splits)
  then show ?thesis using assms(2) by (simp add: Pareto_def d_nonpos_def nr_bind_def)
qed

text \<open>Between integer bounds nothing is rounded.\<close>

lemma uniform_between:
  assumes u: "half_unit u" and ab: "0 \<le> a" "a < b" "b \<le> 2 ^ 20"
  shows "a \<le> int_of (d_add (d_mul u (d_sub (Fin (of_int b)) (Fin (of_int a)))) (Fin (of_int a)))"
    "int_of (d_add (d_mul u (d_sub (Fin (of_int b)) (Fin (of_int a)))) (Fin (of_int a))) < b"
proof -
  obtain k where k: "u = Fin (of_int k / 2 ^ 33)" "0 < k" "k < 2 ^ 33" using u by (auto simp: half_unit_def)
  let ?m = "k * (b - a) + a * 2 ^ 33"
  have pos: "0 \<le> k * (b - a)" using k ab by simp
  have "k * (b - a) < 2 ^ 33 * (b - a)" using k ab by (intro mult_strict_right_mono) simp_all
  then have m: "?m < b * 2 ^ 33" by (simp add: algebra_simps)
  have lo: "a * 2 ^ 33 \<le> ?m" using pos by simp
  have big: "?m < 2 ^ 53" using m ab(3) by simp
  have "d_sub (Fin (of_int b)) (Fin (of_int a)) = Fin (of_int (b - a))"
    using exact_int[of "b - a"] ab by (simp add: d_sub_def)
  moreover have "d_mul u (Fin (of_int (b - a))) = Fin (of_int k / 2 ^ 33 * of_int (b - a))"
    using exact_scaled[of k "b - a"] k ab by (simp add: d_mul_def)
  moreover have "of_int k / 2 ^ 33 * of_int (b - a) + of_int a = (of_int ?m / 2 ^ 33 :: rat)"
    by (simp add: field_simps)
  moreover have "exact (of_int ?m / 2 ^ 33)" using lo big ab by (intro exact_frac) simp_all
  ultimately have x: "d_add (d_mul u (d_sub (Fin (of_int b)) (Fin (of_int a)))) (Fin (of_int a)) =
      Fin (of_int ?m / 2 ^ 33)"
    by (simp only: d_add_def prod.case dbl.case to_dbl_exact)
  have f: "\<lfloor>of_int ?m / 2 ^ 33 :: rat\<rfloor> = ?m div 2 ^ 33"
    using floor_divide_of_int_eq[of ?m "2 ^ 33", where ?'a = rat] by simp
  have d: "a \<le> ?m div 2 ^ 33" "?m div 2 ^ 33 < b"
    using scaled_below[of k 33 "b - a"] k ab by simp_all
  moreover have "int_of (Fin (of_int ?m / 2 ^ 33)) = ?m div 2 ^ 33"
  proof -
    have "0 \<le> ?m" using pos ab by simp
    then have "(0 :: rat) \<le> of_int ?m" by (simp only: of_int_0_le_iff)
    then have "(0 :: rat) \<le> of_int ?m / 2 ^ 33" by (intro divide_nonneg_nonneg) simp_all
    then show ?thesis using d ab f by (simp only: int_of_def trunc_def dbl.case) simp
  qed
  ultimately show "a \<le> int_of (d_add (d_mul u (d_sub (Fin (of_int b)) (Fin (of_int a)))) (Fin (of_int a)))"
    "int_of (d_add (d_mul u (d_sub (Fin (of_int b)) (Fin (of_int a)))) (Fin (of_int a))) < b"
    by (simp_all only: x)
qed

subsection \<open>Properties\<close>

text \<open>C18: Whatever the options of a flow are, its variables, once they are built, can be drawn from as often
  as it likes: no draw reads a cell of a table that was never written, an alias out of range or an
  object that does not exist.  A draw ends with a value, throws, or goes on rejecting.\<close>

theorem flow_draws_safe:
  assumes "flow_ok f" "r \<in> set (flow_rvs f)" "rv_new lm r = Inr ob"
    "flow_start j1 j2 i s w = Some (Inr w')" "length j1 = 10" "length j2 = 10"
  shows "obj_draws lm n k ob w' \<noteq> Broken \<and>
    (\<forall>xs ob' w''. obj_draws lm n k ob w' = Val (xs, ob') w'' \<longrightarrow>
       length xs = k \<and> obj_ok ob' \<and> mother_good w'')"
proof -
  have "obj_ok ob" using rv_new_ok(1)[OF assms(3) flow_rvs_small[OF assms(1,2)]] .
  then show ?thesis
    using mother_source.draws_many[of ob k lm n] mother_good_start[OF assms(4-6)] by (auto simp: draws_iff)
qed

text \<open>C28: A size that the option -u draws lies between its bounds; the upper bound itself is never drawn.\<close>

theorem uniform_size_range:
  assumes "size_option CHR ''u'' args t = (Ret ((d, r), rest), t')" "sint (atoi (args ! 2)) \<le> 2 ^ 20"
    "mother_good w"
  shows "\<exists>ob x ob' w'. rv_new lm r = Inr ob \<and> obj_Next lm (Suc (Suc (Suc n))) ob w = Val (x, ob') w' \<and>
    sint (atoi (args ! 1)) \<le> int_of x \<and> int_of x < sint (atoi (args ! 2)) \<and> mother_good w'"
proof -
  define a b where ab: "a = sint (atoi (args ! 1))" "b = sint (atoi (args ! 2))"
  have r: "r = RShift (RScale (d_sub (Fin (of_int b)) (Fin (of_int a))) RUniform) (Fin (of_int a))" "1 \<le> a" "a < b"
    using assms(1) by (auto simp: size_option_def dist_opt_def run_parser Let_def ab int_arg_def split: if_splits)
  obtain u w' where u: "RNG_Next w = Some (Inr (u, w'))" "half_unit u" "mother_good w'"
    using mother_source.draw[OF assms(3)] by blast
  then show ?thesis
    using uniform_between[OF u(2), of a b] r assms(2)
    by (simp add: ab v_bind_def v_ret_def nr_bind_def on_uniform_def v_next_def)
qed

definition sized_flow :: flow_spec where
  "sized_flow = demo_flow\<lparr>p_PktSize := (pdUniform, RShift (RScale (Fin 100) RUniform) (Fin 50))\<rparr>"

lemma sized_flow_ok: "flow_ok sized_flow"
  by (simp add: sized_flow_def demo_flow_def default_flow_def flow_ok_def meter_codes_def METER_OWDM_def
      transport_codes_def payload_types_def PL_STANDARD_def flags_def demo_desc_def
      DefaultDuration_def StandardMinPayloadSize_def strcpy_def)

theorem flow_draws_safe_witness:
  "\<forall>lm. obj_draws lm 9 7 (OShifted (OScaled OUniform (Fin 100)) (Fin 50)) newran_one \<noteq> Broken"
proof
  fix lm
  have "RShift (RScale (Fin 100) RUniform) (Fin 50) \<in> set (flow_rvs sized_flow)"
    by (simp add: flow_rvs_def sized_flow_def)
  from flow_draws_safe[OF sized_flow_ok this _ start_half, of lm _ 9 7]
  show "obj_draws lm 9 7 (OShifted (OScaled OUniform (Fin 100)) (Fin 50)) newran_one \<noteq> Broken"
    by (simp add: nr_bind_def junk_def)
qed

theorem uniform_size_range_witness:
  "\<forall>lm. \<exists>x ob' w'. obj_Next lm 3 (OShifted (OScaled OUniform (d_sub (Fin 150) (Fin 50))) (Fin 50)) newran_one =
    Val (x, ob') w' \<and> 50 \<le> int_of x \<and> int_of x < 150"
proof
  fix lm
  have a: "atoi ''50'' = 50" "atoi ''150'' = 150" by code_simp+
  have "size_option CHR ''u'' [''-u'', ''50'', ''150''] cmd_demo =
      (Ret ((pdUniform, RShift (RScale (d_sub (Fin 150) (Fin 50)) RUniform) (Fin 50)), []), cmd_demo)"
    by (simp add: size_option_def dist_opt_def run_parser Let_def int_arg_def a)
  from uniform_size_range[OF this _ mother_good_start[OF start_half], of lm 0]
  obtain x ob' w' where "obj_Next lm (Suc (Suc (Suc 0))) (OShifted (OScaled OUniform (d_sub (Fin 150) (Fin 50))) (Fin 50))
      newran_one = Val (x, ob') w'" "50 \<le> int_of x" "int_of x < 150"
    by (auto simp: a nr_bind_def junk_def simp del: obj_Next.simps)
  then show "\<exists>x ob' w'. obj_Next lm 3 (OShifted (OScaled OUniform (d_sub (Fin 150) (Fin 50))) (Fin 50)) newran_one =
      Val (x, ob') w' \<and> 50 \<le> int_of x \<and> int_of x < 150"
    by (metis numeral_3_eq_3)
qed

end
