(* ===== verification/NormalTable.thy ===== *)
theory NormalTable
  imports RandVar_Next
begin

text \<open>The table of the class Normal (src/ITGSend/newran/newran.h, newran2.cpp), which all of its objects
  share: the static members count, Nxi, Nsx and Nsfx, the arrays that Build allocates, and the
  destructors that free them.  RandVar.Normal gives every object a table of its own; here is that no
  program can tell, and that the arrays are freed once, by the last object.\<close>

subsection \<open>Objects and static members\<close>

text \<open>The members that Normal has from PosGen; sx and sfx are addresses.\<close>

record normal_obj =
  no_xi :: dbl
  no_sx :: nat
  no_sfx :: nat
  no_NotReady :: bool

text \<open>The static members, and the arrays that are allocated.  An address is used once, so that a use
  after delete is a use of nothing.\<close>

record normal_class =
  nc_count :: int
  Nxi :: dbl
  Nsx :: nat
  Nsfx :: nat
  nc_heap :: "nat \<Rightarrow> dbl option list option"
  nc_next :: nat

definition class_init :: normal_class where
  "class_init = \<lparr>nc_count = 0, Nxi = Fin 0, Nsx = 0, Nsfx = 0, nc_heap = Map.empty, nc_next = 1\<rparr>"

definition new_array :: "dbl option list \<Rightarrow> normal_class \<Rightarrow> nat \<times> normal_class" where
  "new_array xs s = (nc_next s, s\<lparr>nc_heap := (nc_heap s)(nc_next s \<mapsto> xs), nc_next := nc_next s + 1\<rparr>)"

definition delete_array :: "nat \<Rightarrow> normal_class \<Rightarrow> normal_class option" where
  "delete_array a s = (case nc_heap s a of None \<Rightarrow> None | Some _ \<Rightarrow> Some (s\<lparr>nc_heap := (nc_heap s)(a := None)\<rparr>))"

subsection \<open>Build, constructor, destructor\<close>

text \<open>PosGen::Build(true) of a Normal: two new arrays, filled by the loop.\<close>

definition Normal_Build :: "libm \<Rightarrow> normal_class \<Rightarrow> (normal_obj \<times> normal_class) nr" where
  "Normal_Build lm s = nr_bind (PosGen_Build True (Normal_Density lm) PosGen) (\<lambda>t.
     case new_array (tb_sx t) s of (a, s1) \<Rightarrow> case new_array (tb_sfx t) s1 of (b, s2) \<Rightarrow>
       Inr (\<lparr>no_xi = tb_xi t, no_sx = a, no_sfx = b, no_NotReady = False\<rparr>, s2))"

definition Normal_new :: "libm \<Rightarrow> normal_class \<Rightarrow> (normal_obj \<times> normal_class) nr" where
  "Normal_new lm s =
     nr_bind (if nc_count s \<noteq> 0
         then Inr (\<lparr>no_xi = Nxi s, no_sx = Nsx s, no_sfx = Nsfx s, no_NotReady = False\<rparr>, s)
         else nr_bind (Normal_Build lm s) (\<lambda>(ob, s').
           Inr (ob, s'\<lparr>Nxi := no_xi ob, Nsx := no_sx ob, Nsfx := no_sfx ob\<rparr>)))
       (\<lambda>(ob, s'). Inr (ob, s'\<lparr>nc_count := nc_count s' + 1\<rparr>))"

text \<open>The destructor of Normal and then that of PosGen; None is a delete of what is not allocated.\<close>

definition PosGen_delete :: "normal_obj \<Rightarrow> normal_class \<Rightarrow> normal_class option" where
  "PosGen_delete ob s = (if no_NotReady ob then Some s
     else (case delete_array (no_sx ob) s of None \<Rightarrow> None | Some s' \<Rightarrow> delete_array (no_sfx ob) s'))"

definition Normal_delete :: "normal_obj \<Rightarrow> normal_class \<Rightarrow> normal_class option" where
  "Normal_delete ob s = (let s' = s\<lparr>nc_count := nc_count s - 1\<rparr> in
     PosGen_delete (if nc_count s' \<noteq> 0 then ob\<lparr>no_NotReady := True\<rparr> else ob) s')"

text \<open>SymGen::Next with the arrays that the object points to.\<close>

definition obj_table :: "normal_obj \<Rightarrow> normal_class \<Rightarrow> table option" where
  "obj_table ob s = (case nc_heap s (no_sx ob) of None \<Rightarrow> None | Some xs \<Rightarrow>
     (case nc_heap s (no_sfx ob) of None \<Rightarrow> None | Some fs \<Rightarrow>
       Some \<lparr>tb_sx = xs, tb_sfx = fs, tb_xi = no_xi ob, tb_ic = 0, tb_NotReady = False\<rparr>))"

definition Normal_Next :: "libm \<Rightarrow> nat \<Rightarrow> normal_obj \<Rightarrow> normal_class \<Rightarrow> (dbl \<times> normal_obj \<times> normal_class) draw" where
  "Normal_Next lm n ob s =
     v_bind (v_nr (if no_NotReady ob then Normal_Build lm s else Inr (ob, s))) (\<lambda>(ob', s').
     v_bind (v_opt (obj_table ob' s')) (\<lambda>t.
     v_bind (SymGen_loop n (Normal_Density lm) t) (\<lambda>x. v_ret (x, ob', s'))))"

subsection \<open>Programs\<close>

text \<open>A program makes objects, deletes them and draws from them; an object is named by its place in the
  order of their creation.  The deletion of or the draw from an object that does not live is Broken.\<close>

datatype normal_op = NewNormal | DeleteNormal nat | DrawNormal nat

definition living :: "'a option list \<Rightarrow> nat \<Rightarrow> 'a option" where
  "living obs i = (if i < length obs then obs ! i else None)"

fun shared_step :: "libm \<Rightarrow> nat \<Rightarrow> normal_op \<Rightarrow> normal_class \<times> normal_obj option list \<Rightarrow>
    (dbl list \<times> normal_class \<times> normal_obj option list) draw" where
  "shared_step lm n NewNormal (s, obs) =
     v_bind (v_nr (Normal_new lm s)) (\<lambda>(ob, s'). v_ret ([], s', obs @ [Some ob]))"
| "shared_step lm n (DeleteNormal i) (s, obs) =
     v_bind (v_opt (living obs i)) (\<lambda>ob. v_bind (v_opt (Normal_delete ob s)) (\<lambda>s'. v_ret ([], s', obs[i := None])))"
| "shared_step lm n (DrawNormal i) (s, obs) =
     v_bind (v_opt (living obs i)) (\<lambda>ob. v_bind (Normal_Next lm n ob s) (\<lambda>(x, ob', s').
       v_ret ([x], s', obs[i := Some ob'])))"

text \<open>The same program with objects that have a table of their own and are not freed.\<close>

fun private_step :: "libm \<Rightarrow> nat \<Rightarrow> normal_op \<Rightarrow> robj option list \<Rightarrow> (dbl list \<times> robj option list) draw" where
  "private_step lm n NewNormal obs = v_bind (v_nr (Normal lm)) (\<lambda>ob. v_ret ([], obs @ [Some ob]))"
| "private_step lm n (DeleteNormal i) obs = v_bind (v_opt (living obs i)) (\<lambda>ob. v_ret ([], obs[i := None]))"
| "private_step lm n (DrawNormal i) obs = v_bind (v_opt (living obs i)) (\<lambda>ob.
     v_bind (obj_Next lm (Suc n) ob) (\<lambda>(x, ob'). v_ret ([x], obs[i := Some ob'])))"

text \<open>A program, with all that it draws.\<close>

fun run_ops :: "('op \<Rightarrow> 's \<Rightarrow> (dbl list \<times> 's) draw) \<Rightarrow> 'op list \<Rightarrow> 's \<Rightarrow> (dbl list \<times> 's) draw" where
  "run_ops step [] s = v_ret ([], s)"
| "run_ops step (c # cs) s = v_bind (step c s) (\<lambda>(xs, s').
     v_bind (run_ops step cs s') (\<lambda>(ys, s''). v_ret (xs @ ys, s'')))"

subsection \<open>Draws that correspond\<close>

definition like :: "('a \<Rightarrow> 'b \<Rightarrow> bool) \<Rightarrow> 'a vres \<Rightarrow> 'b vres \<Rightarrow> bool" where
  "like R r r' = (case r of Val x w \<Rightarrow> \<exists>y. r' = Val y w \<and> R x y
     | Thrown e \<Rightarrow> r' = Thrown e | Broken \<Rightarrow> r' = Broken | Endless \<Rightarrow> r' = Endless)"

lemma like_ret [intro]: "R x y \<Longrightarrow> like R (v_ret x w) (v_ret y w)"
  by (simp add: like_def v_ret_def)

lemma like_bind:
  assumes "like R (m w) (m' w)" "\<And>x y w. R x y \<Longrightarrow> like S (f x w) (g y w)"
  shows "like S (v_bind m f w) (v_bind m' g w)"
proof (cases "m w")
  case (Val x w')
  then obtain y where y: "m' w = Val y w'" "R x y" using assms(1) by (auto simp: like_def)
  show ?thesis using assms(2)[OF y(2), of w'] by (simp add: v_bind_def Val y(1))
qed (use assms(1) in \<open>simp_all add: like_def v_bind_def\<close>)

lemma like_mono: "like R r r' \<Longrightarrow> (\<And>x y. R x y \<Longrightarrow> S x y) \<Longrightarrow> like S r r'"
  by (cases r) (auto simp: like_def)

lemma like_run:
  assumes step: "\<And>c s t w. R s t \<Longrightarrow> like (rel_prod (=) R) (f c s w) (g c t w)"
  shows "R s t \<Longrightarrow> like (rel_prod (=) R) (run_ops f cs s w) (run_ops g cs t w)"
proof (induction cs arbitrary: s t w)
  case (Cons c cs)
  then show ?case by (auto intro!: like_bind[OF step] like_bind[OF Cons.IH])
qed auto

subsection \<open>The shared table\<close>

lemma build_keeps_ic:
  "build_loop dir density inc n i sxi t = Inr (r, t') \<Longrightarrow> tb_ic t' = tb_ic t"
proof (induction n arbitrary: i sxi t)
  case (Suc n)
  obtain f1 where f1: "density sxi = Inr f1"
    using Suc.prems by (auto simp: nr_bind_Inr)
  have c: "tb_ic (set_cell i sxi f1 t) = tb_ic t" by (simp add: set_cell_def)
  show ?case
  proof (cases "d_le f1 (Fin 0)")
    case True
    then show ?thesis using Suc.prems f1 c by (auto simp: nr_bind_def)
  next
    case False
    then show ?thesis using Suc.IH Suc.prems f1 c by (simp add: nr_bind_def)
  qed
qed simp

lemma Build_keeps_ic:
  assumes "PosGen_Build symm density t = Inr t'"
  shows "tb_ic t' = tb_ic t \<and> \<not> tb_NotReady t'"
proof -
  obtain i x u where b: "build_loop d_add density (to_dbl (if symm then 0.01 else 0.02)) 60 0 (Fin 0) t =
      Inr (Some (i, x), u)" and t': "t' = u\<lparr>tb_xi := d_int (if symm then 2 * int i else int i), tb_NotReady := False\<rparr>"
    using assms by (auto simp: PosGen_Build_def nr_bind_Inr split: option.splits prod.splits if_splits)
  show ?thesis using build_keeps_ic[OF b] by (simp add: t')
qed

lemma built_table:
  "PosGen_Build symm density PosGen = Inr t \<Longrightarrow> tb_ic t = 0 \<and> \<not> tb_NotReady t"
  by (drule Build_keeps_ic) (simp add: PosGen_def new_table_def)

text \<open>The objects that live are counted and have the table; it is allocated when there are any.\<close>

definition users :: "'a option list \<Rightarrow> nat" where
  "users obs = length (filter (\<lambda>ob. ob \<noteq> None) obs)"

lemma users_simps [simp]:
  "users [] = 0" "users (obs @ [ob]) = (if ob = None then users obs else Suc (users obs))"
  by (auto simp: users_def)

lemma living_Cons [simp]:
  "living (a # obs) 0 = a" "living (a # obs) (Suc i) = living obs i"
  by (simp_all add: living_def)

lemma users_Cons [simp]: "users (a # obs) = (if a = None then users obs else Suc (users obs))"
  by (simp add: users_def)

lemma users_delete: "living obs i = Some ob \<Longrightarrow> Suc (users (obs[i := None])) = users obs"
proof (induction obs arbitrary: i)
  case (Cons a obs)
  show ?case
  proof (cases i)
    case (Suc j)
    then show ?thesis using Cons.IH[of j] Cons.prems by auto
  qed (use Cons.prems in auto)
qed (simp add: living_def)

lemma users_update:
  "living obs i = Some ob \<Longrightarrow> users (obs[i := None]) = users obs - 1 \<and> 0 < users obs"
  using users_delete[of obs i ob] by linarith

lemma users_map [simp]: "users (map (map_option f) obs) = users obs"
  by (induction obs) auto

lemma none_map [simp]: "map_option f ob = None \<longleftrightarrow> ob = None"
  by (cases ob) simp_all

definition shares :: "libm \<Rightarrow> normal_class \<times> normal_obj option list \<Rightarrow> robj option list \<Rightarrow> bool" where
  "shares lm = (\<lambda>(s, obs) robs. \<exists>t. nc_count s = int (users obs) \<and>
     robs = map (map_option (\<lambda>_. ONormal t)) obs \<and>
     (if users obs = 0 then nc_heap s = Map.empty
      else PosGen_Build True (Normal_Density lm) PosGen = Inr t \<and> Nsx s \<noteq> Nsfx s \<and> Nxi s = tb_xi t \<and>
        nc_heap s = [Nsx s \<mapsto> tb_sx t, Nsfx s \<mapsto> tb_sfx t] \<and>
        (\<forall>ob \<in> set obs. ob = None \<or> ob = Some \<lparr>no_xi = tb_xi t, no_sx = Nsx s, no_sfx = Nsfx s, no_NotReady = False\<rparr>)))"

lemma no_users: "users obs = 0 \<Longrightarrow> map (map_option f) obs = map (map_option g) obs"
  by (auto simp: users_def filter_empty_conv)

lemma living_map: "living (map (map_option f) obs) i = map_option f (living obs i)"
  by (simp add: living_def)

lemma living_users: "living obs i = Some ob \<Longrightarrow> users obs \<noteq> 0 \<and> Some ob \<in> set obs"
  using users_update[of obs i ob] by (auto simp: living_def split: if_splits dest: nth_mem[of i obs])

lemma shares_new:
  assumes "shares lm (s, obs) robs"
  shows "like (rel_prod (=) (shares lm)) (shared_step lm n NewNormal (s, obs) w) (private_step lm n NewNormal robs w)"
proof -
  obtain t where t: "nc_count s = int (users obs)" "robs = map (map_option (\<lambda>_. ONormal t)) obs"
    using assms by (auto simp: shares_def)
  show ?thesis
  proof (cases "users obs = 0")
    case True
    show ?thesis
    proof (cases "PosGen_Build True (Normal_Density lm) PosGen")
      case (Inl e)
      then show ?thesis using t True
        by (simp add: Normal_new_def Normal_Build_def Normal_def nr_bind_def v_bind_def v_nr_def like_def)
    next
      case (Inr u)
      have "robs = map (map_option (\<lambda>_. ONormal u)) obs" unfolding t(2) by (rule no_users[OF True])
      then show ?thesis using assms t(1) True Inr no_users[OF True]
        by (auto simp: Normal_new_def Normal_Build_def Normal_def nr_bind_def v_bind_def v_nr_def v_ret_def like_def
            new_array_def shares_def users_def filter_empty_conv)
    qed
  next
    case False
    show ?thesis using assms False
      by (auto simp: Normal_new_def Normal_def nr_bind_def v_bind_def v_nr_def v_ret_def like_def shares_def)
  qed
qed

lemma shares_delete:
  assumes "shares lm (s, obs) robs"
  shows "like (rel_prod (=) (shares lm)) (shared_step lm n (DeleteNormal i) (s, obs) w)
    (private_step lm n (DeleteNormal i) robs w)"
proof (cases "living obs i")
  case None
  then show ?thesis using assms by (auto simp: shares_def living_map v_bind_def v_opt_def like_def)
next
  case (Some ob)
  note u = users_update[OF Some] and l = living_users[OF Some]
  obtain t where t: "nc_count s = int (users obs)" "robs = map (map_option (\<lambda>_. ONormal t)) obs"
    "PosGen_Build True (Normal_Density lm) PosGen = Inr t" "Nsx s \<noteq> Nsfx s" "Nxi s = tb_xi t"
    "nc_heap s = [Nsx s \<mapsto> tb_sx t, Nsfx s \<mapsto> tb_sfx t]"
    "\<forall>ob \<in> set obs. ob = None \<or> ob = Some \<lparr>no_xi = tb_xi t, no_sx = Nsx s, no_sfx = Nsfx s, no_NotReady = False\<rparr>"
    using assms l by (auto simp: shares_def)
  have ob: "ob = \<lparr>no_xi = tb_xi t, no_sx = Nsx s, no_sfx = Nsfx s, no_NotReady = False\<rparr>" using t(7) l by blast
  have r: "living robs i = Some (ONormal t)" unfolding t(2) living_map Some by simp
  have m: "robs[i := None] = map (map_option (\<lambda>_. ONormal t)) (obs[i := None])" by (simp add: t(2) map_update)
  have a: "\<forall>ob \<in> set (obs[i := None]). ob = None \<or> ob = Some \<lparr>no_xi = tb_xi t, no_sx = Nsx s, no_sfx = Nsfx s, no_NotReady = False\<rparr>"
    using t(7) set_update_subset_insert[of obs i None] by blast
  obtain s' where s': "Normal_delete ob s = Some s'" "shares lm (s', obs[i := None]) (robs[i := None])"
  proof (cases "users obs = 1")
    case True
    then show ?thesis using t u m that
      by (auto simp: Normal_delete_def PosGen_delete_def delete_array_def ob shares_def Let_def)
  next
    case False
    then show ?thesis using t u l m a that
      by (auto simp: Normal_delete_def PosGen_delete_def ob shares_def Let_def of_nat_diff)
  qed
  show ?thesis using s' by (simp add: Some r v_bind_def v_opt_def v_ret_def like_def)
qed

lemma shares_draw:
  assumes "shares lm (s, obs) robs"
  shows "like (rel_prod (=) (shares lm)) (shared_step lm n (DrawNormal i) (s, obs) w)
    (private_step lm n (DrawNormal i) robs w)"
proof (cases "living obs i")
  case None
  then show ?thesis using assms by (auto simp: shares_def living_map v_bind_def v_opt_def like_def)
next
  case (Some ob)
  note l = living_users[OF Some]
  obtain t where t: "robs = map (map_option (\<lambda>_. ONormal t)) obs"
    "PosGen_Build True (Normal_Density lm) PosGen = Inr t" "Nsx s \<noteq> Nsfx s"
    "nc_heap s = [Nsx s \<mapsto> tb_sx t, Nsfx s \<mapsto> tb_sfx t]"
    "ob = \<lparr>no_xi = tb_xi t, no_sx = Nsx s, no_sfx = Nsfx s, no_NotReady = False\<rparr>"
    using assms l by (auto simp: shares_def)
  have r: "living robs i = Some (ONormal t)" unfolding t(1) living_map Some by simp
  have "obj_table ob s = Some t"
    using t(3,4,5) built_table[OF t(2)] by (cases t) (simp add: obj_table_def)
  moreover have "\<not> no_NotReady ob" by (simp add: t(5))
  moreover have same: "obs[i := Some ob] = obs" "robs[i := Some (ONormal t)] = robs"
    using Some r by (auto simp: living_def list_update_same_conv split: if_splits)
  ultimately show ?thesis using assms built_table[OF t(2)]
    by (auto simp: Some r Normal_Next_def on_table_def SymGen_Next_def v_bind_def v_opt_def v_nr_def v_ret_def like_def
        split: vres.splits)
qed

lemma shares_step:
  "shares lm s robs \<Longrightarrow> like (rel_prod (=) (shares lm)) (shared_step lm n c s w) (private_step lm n c robs w)"
  using shares_new shares_delete shares_draw by (cases s; cases c) (simp_all only:)

text \<open>C33: the objects of the class Normal share one table and cannot be told from objects that have
  one each.  Whatever program makes, deletes and draws from them, in any order, it draws the same
  values, throws the same and fails in the same places; in particular no array is used after it was
  freed and none is freed twice.  In the end count is the number of objects that live, and the two
  arrays of the table are allocated when there are any, and nothing is when there are none.  This is
  so for one thread: count is not protected.\<close>

theorem Normal_objects:
  "like (\<lambda>(xs, s, obs) (ys, robs). xs = ys \<and> map (\<lambda>ob. ob = None) obs = map (\<lambda>ob. ob = None) robs \<and>
      nc_count s = int (users robs) \<and> dom (nc_heap s) = (if users robs = 0 then {} else {Nsx s, Nsfx s}))
    (run_ops (shared_step lm n) ops (class_init, []) w) (run_ops (private_step lm n) ops [] w)"
proof -
  have "shares lm (class_init, []) []" by (simp add: shares_def class_init_def)
  then have "like (rel_prod (=) (shares lm)) (run_ops (shared_step lm n) ops (class_init, []) w)
      (run_ops (private_step lm n) ops [] w)" by (intro like_run shares_step)
  then show ?thesis by (rule like_mono) (auto simp: shares_def users_map split: if_splits)
qed

text \<open>Student::Next makes and deletes a Normal in every draw, and the threads of the flows draw without
  a lock.  If one increment is lost the table is freed under an object that still uses it.\<close>

lemma lost_increment:
  assumes "shares lm (s, [Some ob, Some ob']) robs"
  shows "\<exists>s'. Normal_delete ob (s\<lparr>nc_count := 1\<rparr>) = Some s' \<and> obj_table ob' s' = None"
  using assms by (auto simp: shares_def users_def Normal_delete_def PosGen_delete_def delete_array_def obj_table_def)

end
