(* ===== verification/Spec2Isabelle.thy ===== *)
theory Spec2Isabelle
  imports Proto Strtok LogServer_Facts PacketRecv_Facts RecvLog_Threads SignalManager DataThread_Facts Flow_Facts
    Signal_Facts Request_Facts SendManager_Facts Decoder_Log Series_Log FlowSender_Log FlowStart_Facts SendMain_Facts
    RecvMain_Facts DecMain_Facts Manager_Facts SctpDccp_Facts MT_Facts SeedFile_Facts Rng_Facts Alias_Facts Vari_Facts
    FlowVariates NormalTable
begin

text \<open>
D-ITG, the Distributed Internet Traffic Generator: a verification development.

THE PROGRAM.  D-ITG is four C++ programs under src/src.  ITGSend generates flows of packets;
ITGRecv receives them; ITGLog stores the logs of both on a third host; ITGDec turns a log into
statistics.  Sender and receiver agree on a flow over a TCP connection, the signaling channel:
one thread per connection on each side (signalManager) exchanges messages, starts one thread per
flow (flowSender in the sender; udpSock, tcpSock, icmpSock in the receiver) and hears of their end
through a pipe.  Every packet carries the flow's number, a sequence number, the time of departure
and its size; a thread writes one record (struct info) per packet into a buffer, which goes to a
local file or to the log server.  The log server is spoken to over a signaling channel of its own
and receives records over UDP or TCP, in network byte order.

THEORIES AND SOURCES.  A pair X, X_Facts or X, X_Log holds the definitions and their lemmas.
  Prelude       machine integers, byte order, images of integers in buffers, C strings
  CLib          strtol, strtoul, atoi and the decimal conversions of the C library
  CNum          atof, strtol with any base, fgets and strcpy of the C library
  Decimal       decimal numerals and how the C library reads them back
  OS            effects: histories of system calls, procedures, outcomes (see below)
  Proto         common/ITG.cpp: tables of meters and protocols, checksum
  Strtok        common/ITG.cpp strtok_r; ITGSend.cpp argvToString and the splitting in flowParser
  Net           common/ITG.h: SET_PORT, GET_PORT, ARE_INET_ADDR_EQUAL, socket addresses
  Info          common/ITG.h: struct info, writeInBuffer*, infosHostToNet; ITGLog/channel.cpp infosntoh
  PacketRecv    common/ITG.h: TCPrecvPacket, SCTPrecvPacket
  Threads       common/thread.cpp
  LogTable      the table memLogFile of ITGLog.cpp and ITGRecv.cpp, with the interface shared_registry
  LogServer     ITGLog/ITGLog.cpp and ITGLog/channel.cpp
  RecvState     ITGRecv.cpp: state, log files, acknowledgements, errors, terminate
  RecvLog_Threads  ITGRecv.cpp: allowedLogFile as concurrent threads execute it, access by access
  TypeParser    ITGRecv.cpp: typeParser, the sender's messages about flows
  RecvManager   ITGRecv.cpp: remote log, pipeParser, the dispatch of one round of signalManager
  SignalManager ITGRecv.cpp: the whole of signalManager
  RecvMain      ITGRecv.cpp: parserRecv, recvInit and main
  DataThread    ITGRecv/data.cpp: udpSock, tcpSock, icmpSock
  SctpDccp      ITGRecv/data.cpp: sctpSock, dccpSock; the SCTP sessions of ITGRecv.cpp
  SendState     ITGSend.cpp: flows, channels and the messages to the receiver
  SendManager   ITGSend.cpp: identifySignalManager, createTransportChan, isChannelClosable, signalManager
  FlowSender    ITGSend.cpp flowSender: packets, log, waiting, round trips, end of the flow
  FlowStart     ITGSend.cpp flowSender: delay, log client, buffer, sockets; the whole thread
  Traffic       ITGSend/traffic.cpp: application protocols and bursts, as terms over distributions
  FlowParser    ITGSend.cpp flowParser: the options of a flow, the files it reads
  FlowOptions   what a user writes for a list of settings, and that flowParser reads it back
  SendMain      ITGSend.cpp: checks of a flow, channels, scripts, manager, command line, main
  Manager       libITG/ITGapi.cpp and ITGManager/ITGManager.cpp, the remote control of a sender
  DblArith      sums, products, quotients and conversions of doubles, and when they are exact
  Urng          newran/newran1.cpp: the seven uniform generators (Mother_Facts, MT_Facts, Urng_Facts)
  SeedFile      newran/newran1.cpp: CSFD and CSTD, the state of a generator in a file
  Rng           newran/newran1.cpp: class Random, the generator that all flows share; their threads
  ExtReal       newran/extreal.cpp: numbers with infinities, in which means and variances are given
  LnGamma       newran/newran2.cpp: the logarithm of the gamma function, in long double
  Variate       newran/newran2.cpp: PosGen, SymGen, AsymGen, DiscreteGen (Variate_Facts, Alias_Facts)
  RandVar       newran/newran2.cpp, newran.h: the random variables as objects, densities, constructors
  RandVar_Next  newran/newran2.cpp, newran.h: their draws, means and variances; mixtures
  NormalTable   newran/newran2.cpp, newran.h: the static members of Normal, the table its objects share
  Vari          newran/newran2.cpp: VariPoisson, VariBinomial, VariLogNormal
  Permutation   newran/newran2.cpp: RandomPermutation, RandomCombination, ShellSortAscending
  FlowVariates  the objects that the terms of Traffic build, and what a flow draws from them
  Double        double-precision arithmetic, with the interface double_rounding
  Decoder       ITGDec/ITGDecod.cpp: setline, the record loop and figures of main
  DecoderSeries ITGDec/ITGDecod.cpp: split, elabsplit, merge, mergeCombined
  DecText       ITGDec/ITGDecod.cpp: writeline and readline, the log as text
  DecMain       ITGDec/ITGDecod.cpp main: options, files, record loop with all it writes, report

HOW CODE BECOMES DEFINITIONS.  A procedure is a function from a state to an outcome and a new
state (OS).  The state of each program is a record of its global variables, extending the record
world with the history of calls; the locals of a thread are a record of their own (data_loc,
snd_loc).  What a system call answers is a parameter os, a function of the history, so that a
statement over every os speaks of every behaviour of the environment: errors, short reads,
arbitrary bytes, the interleaving with other threads as far as it shows in answers.  Outcomes are
Ret, Exited (exit), ThreadEnd (pthread_exit), Fault (access outside an array) and Hang (a loop
that used up its fuel).  Integers keep their width as words where the code computes with unsigned
types; int is an integer where the values stay in range.  Doubles are rationals and every
operation rounds to 53 bits (rnd).

WHAT THE LEMMAS SHOW.
  Packets and signaling: a packet with a size field is read whole however the stream is cut, one
without it is what the cut makes of it (interface byte_stream);
the receiver fills its tables with what the sender's request says, and the sender learns the port
that the receiver opened; closing a flow releases its slot, its log and its shared sockets; a
silent sender is found out.
  Logs: the data threads and the sending thread keep one record per packet, in order, none lost
between buffer and file (interface packet_loop); the table of log files counts its users, in the
log server, whose mutex keeps the calls apart, and in the receiver as long as no call overlaps
another (shared_registry); the threads of the receiver do not see to that, and can get one slot for
two files (allowedLogFile_threads); remote records survive the byte-order conversion; the log
server's ports, sessions and ends.
  Sending: the packets of a flow are numbered without gaps and a receiver decodes from each what
the sender put in; the limits of a flow (packets, bytes, time) end it under a running clock; a
flow does not start before its delay.
  Options: the command lines and script lines that stand for a list of settings are read as these
settings, by ITGSend (a command line that does not fit into its array leaves it) and by ITGRecv; every flow that is accepted is well formed; the parsers end
(that of ITGSend unless AoM is named) and, on arguments that fit, touch no memory that is not
theirs; passive mode passes its checks only with what it needs; a script starts its flows in order.
  Remote control: the arguments of ITGManager, and the lines typed at its console that start with a
hyphen, become the settings of a flow of the sender; what the
sender answers does not fit the manager's buffer (acknowledgement_overflows).
  Random numbers: the flows share one generator, the one of the flow started last, and lose it when
that flow ends; a flow alone draws the numbers of a reference on integers, which are never 0, 1 or
1/2; a generator restored from its file goes on where it stopped; the other generators are the
congruences and recurrences they stand for, computed without overflow.  A draw from a table stays
in the cells that were filled (interface half_source: whatever the generator, as long as its numbers
lie in the middle of the 2^32 parts of the unit interval).  The method of aliases gives each value
its probability up to an error that is computed, in the doubles of the code as in every arithmetic
that rounds (interface rounded_arith).  The objects of Normal cannot be told from objects with tables
of their own, and free the shared one once.  So whatever the options, the variables of a flow can be drawn
from safely; sizes from -u lie between their bounds.  Combinations are ascending and distinct.
  Connections: ITGRecv serves its first 400 connections with one thread each and writes behind its
tables for the next.  SCTP streams share a session exactly if they share a port.
  Decoding: flows are kept apart; the figures of a flow are those of its own records; the losses,
with two ways in which the code's counts go wrong; the rows of each time series are computed from
consecutive groups of packets (interface interval_series) and lose none; merging keeps columns.  The record
loop of main computes these figures whatever it exports.  A log exported as text is read back record
by record; the decoder goes on with it as with the log where the memory behind the addresses, which
readline does not set, holds a NUL (addresses_end).

BOUNDS AND FUEL.  A server loop without end (signalManager, the data threads, channelManager, the
sending loop) takes a number of rounds; the results about such a loop hold for each number of
rounds, and where the loop has to end (flow_ends, the search for a free port, the tokenizer) the
number that is enough is part of the statement.  Loops over tables, buffers and records recurse on
their data.  A draw by rejection need not end: its fuel bounds the attempts, the depth of the object
and the terms of a sum, and what holds for every fuel holds for the code.  Table sizes are those of
the code: MAX_NUM_THREAD slots, LOG_BUFFER_SIZE records.

CHOICES WORTH KNOWING.  The build is Linux on a 64-bit little-endian host with MULTIPORT and BURSTY
and without SCTP and DCCP, but for theory SctpDccp, whose threads only that build has.  A pipe is
read with the call that stands for recv.  The mutexes of the data ports share one name. A binary log
is the list of its whole records.  The counters pktrecv, pktloss and pktdup of elabsplit, which
nothing reads, are left out; a standard deviation is given as its square; a quotient 0/0 is None;
split runs out of names with more than 1000 flows of one kind, which is None.  In flowSender the
draws of a flow are functions of the number of the draw (which numbers they are is the subject of
FlowVariates), the toggling of DTR and RTS is one call each, the timeout of select is not part of
the call, malloc'd records start as info0 and the freeing of memory is left out.  What newran is
given is a term over its distributions (Traffic).  In newran an exception is Inl of its class and
text, a use of an object that is gone or of a cell that was never written is None or Broken; the
arrays of MotherOfAll and the tables start undefined; exp, log, pow, sqrt, sin, cos and tan are
parameters (libm), of which nothing is assumed; the two zeros of a double are one value;
DiscreteGen::Gen is written over any arithmetic, with that of doubles for the code (Gen_accurate)
and that of rationals for the method itself (Gen_exact).  An object of RandVar has its own table, in
NormalTable the shared one.  Texts of messages are shortened where nothing depends on them.  A local
log that cannot be opened, a name in use twice and other aliasing of files that ITGDec does not
expect are Fault; what malloc leaves behind the addresses of a record and how a NaN is printed are parameters of
ITGDec (dec_env), and an interval that is infinite is Fault.

NOT MODELLED.  The string classes, simulated exceptions, formats and test programs that come with
newran, and the names and the printing of its numbers; help texts, the version and debug output; the
Windows branches; the sending of SCTP and DCCP, compiled out by default; waitStopKey of ITGSend,
ITGRecv and ITGLog (stop key of the graphical interface); the serial line and encryption of payloads (device
ioctls and a library that is not in the repository); the freeing of memory, but for the table of Normal. \<close>

end
